(* ===== verification/Prelude.thy ===== *)
theory Prelude
  imports Complex_Main "HOL-Library.Word" "HOL-Library.Char_ord" "HOL-Library.List_Lexorder"
    "HOL-Library.Product_Lexorder"
begin

text \<open>
  Shared vocabulary of the development: the widths of Rust's unsigned integers, single-precision
  floating-point numbers as the shell uses them, the standard-library list operations that several
  components call (\<open>min_by_key\<close>, \<open>sort\<close> of a hash set, the chunking of a slice), and the named
  collections of facts that the component proofs rest on.

  Machine integers follow the release build: \<open>+\<close> wraps. Where the source uses
  \<open>saturating_add\<close>, \<open>saturating_sub\<close> or \<open>wrapping_add\<close>, the definitions below say so.
\<close>

type_synonym u8 = "8 word"
type_synonym u16 = "16 word"
type_synonym u32 = "32 word"
type_synonym u64 = "64 word"

named_theorems handler_defs \<open>definitions of the reducer's event handlers\<close>
named_theorems frame_simps \<open>fields an operation leaves alone\<close>

section \<open>Saturating arithmetic\<close>

definition saturating_sub :: "'a::len word \<Rightarrow> 'a word \<Rightarrow> 'a word" where
  "saturating_sub a b = (if a < b then 0 else a - b)"

definition saturating_add :: "'a::len word \<Rightarrow> 'a word \<Rightarrow> 'a word" where
  "saturating_add a b = (if unat a + unat b < 2 ^ LENGTH('a) then a + b else - 1)"

lemma unat_saturating_sub: "unat (saturating_sub a b) = unat a - unat b"
  by (auto simp: saturating_sub_def word_less_nat_alt unat_sub_if_size word_size)

lemma unat_saturating_add:
  "unat (saturating_add a (b :: 'a::len word)) = min (unat a + unat b) (2 ^ LENGTH('a) - 1)"
proof (cases "unat a + unat b < 2 ^ LENGTH('a)")
  case True
  then show ?thesis
    by (simp add: saturating_add_def unat_word_ariths)
next
  case False
  moreover have "unat (- 1 :: 'a word) = 2 ^ LENGTH('a) - 1"
    by (simp add: unsigned_minus_1_eq_mask mask_eq_exp_minus_1)
  ultimately show ?thesis
    by (simp add: saturating_add_def)
qed

lemma saturating_add_ge: "(a :: 'a::len word) \<le> saturating_add a b"
proof -
  have "unat a < 2 ^ LENGTH('a)" by simp
  then have "unat a \<le> 2 ^ LENGTH('a) - 1" by linarith
  then show ?thesis
    by (simp add: word_le_nat_alt unat_saturating_add)
qed

lemma word_plus_one_neq: "(x :: 'a::len word) + 1 \<noteq> x"
  by simp

section \<open>Bytes\<close>

lemma unat_u8 [simp]: "unat (b :: u8) < 256"
  by (rule order_less_le_trans [OF unsigned_less]) simp

lemma unat_of_nat_u8: "n < 256 \<Longrightarrow> unat (of_nat n :: u8) = n"
  by (simp add: unat_of_nat)

lemma unat_u32 [simp]: "unat (x :: u32) < 4294967296"
  by (rule order_less_le_trans [OF unsigned_less]) simp

lemma unat_u64 [simp]: "unat (x :: u64) < 18446744073709551616"
  by (rule order_less_le_trans [OF unsigned_less]) simp

section \<open>Single-precision floats\<close>

text \<open>
  The shell compares, clamps and classifies \<open>f32\<close> values; it never adds or multiplies them. A
  finite value is the rational it denotes. \<open>-0.0\<close> and \<open>0.0\<close> are one value here: every operation
  the source applies (comparison, \<open>clamp\<close>, \<open>max\<close>, \<open>is_finite\<close>) treats the two alike.
  \<open>PartialEq\<close> is not HOL's equality, because \<open>NaN\<close> differs from itself.
\<close>

datatype f32 = Finite rat | PosInf | NegInf | NaN

fun f32_is_finite :: "f32 \<Rightarrow> bool" where
  "f32_is_finite (Finite _) = True"
| "f32_is_finite _ = False"

fun f32_eq :: "f32 \<Rightarrow> f32 \<Rightarrow> bool" where
  "f32_eq NaN _ = False"
| "f32_eq _ NaN = False"
| "f32_eq x y = (x = y)"

fun f32_lt :: "f32 \<Rightarrow> f32 \<Rightarrow> bool" where
  "f32_lt (Finite x) (Finite y) = (x < y)"
| "f32_lt NegInf (Finite _) = True"
| "f32_lt NegInf PosInf = True"
| "f32_lt (Finite _) PosInf = True"
| "f32_lt _ _ = False"

definition f32_le :: "f32 \<Rightarrow> f32 \<Rightarrow> bool" where
  "f32_le x y \<longleftrightarrow> f32_lt x y \<or> f32_eq x y"

text \<open>\<open>f32::clamp\<close>: \<open>NaN\<close> is returned unchanged.\<close>

definition f32_clamp :: "f32 \<Rightarrow> f32 \<Rightarrow> f32 \<Rightarrow> f32" where
  "f32_clamp x lo hi = (if f32_lt x lo then lo else if f32_lt hi x then hi else x)"

text \<open>\<open>f32::max\<close>: a \<open>NaN\<close> operand is ignored.\<close>

definition f32_max :: "f32 \<Rightarrow> f32 \<Rightarrow> f32" where
  "f32_max x y = (if x = NaN then y else if y = NaN then x else if f32_lt x y then y else x)"

abbreviation f32_zero :: f32 where "f32_zero \<equiv> Finite 0"
abbreviation f32_one :: f32 where "f32_one \<equiv> Finite 1"

lemma f32_eq_imp_eq: "f32_eq x y \<Longrightarrow> x = y"
  by (cases x; cases y) auto

lemma f32_eq_refl_iff: "f32_eq x x \<longleftrightarrow> x \<noteq> NaN"
  by (cases x) auto

lemma f32_is_finiteD: "f32_is_finite x \<Longrightarrow> \<exists>r. x = Finite r"
  by (cases x) auto

lemma f32_clamp_unit_cases:
  "f32_is_finite x \<Longrightarrow> \<exists>r. f32_clamp x f32_zero f32_one = Finite r \<and> 0 \<le> r \<and> r \<le> 1"
  by (cases x) (auto simp: f32_clamp_def)

lemma f32_clamp_finite: "f32_is_finite x \<Longrightarrow> f32_is_finite (f32_clamp x f32_zero f32_one)"
  by (cases x) (auto simp: f32_clamp_def)

lemma f32_max_finite:
  "f32_is_finite x \<Longrightarrow> f32_is_finite y \<Longrightarrow> f32_is_finite (f32_max x y)"
  by (auto simp: f32_max_def)

text \<open>The unit interval, the range every gain sent to the backend is meant to lie in.\<close>

definition f32_unit :: "f32 \<Rightarrow> bool" where
  "f32_unit x \<longleftrightarrow> f32_is_finite x \<and> f32_le f32_zero x \<and> f32_le x f32_one"

lemma f32_unit_clamp [simp]:
  "f32_is_finite x \<Longrightarrow> f32_unit (f32_clamp x f32_zero f32_one)"
  by (cases x) (auto simp: f32_unit_def f32_clamp_def f32_le_def)

section \<open>Optional values under a partial equality\<close>

text \<open>\<open>Option<T>: PartialEq\<close> over an element comparison.\<close>

fun option_eq :: "('a \<Rightarrow> 'a \<Rightarrow> bool) \<Rightarrow> 'a option \<Rightarrow> 'a option \<Rightarrow> bool" where
  "option_eq eq None None = True"
| "option_eq eq (Some x) (Some y) = eq x y"
| "option_eq eq _ _ = False"

lemma option_eq_imp_eq:
  "option_eq eq x y \<Longrightarrow> (\<And>a b. eq a b \<Longrightarrow> a = b) \<Longrightarrow> x = y"
  by (cases x; cases y) auto

lemma list_all2_imp_eq:
  "list_all2 eq xs ys \<Longrightarrow> (\<And>a b. eq a b \<Longrightarrow> a = b) \<Longrightarrow> xs = ys"
  by (induction xs ys rule: list_all2_induct) auto

definition is_some_and :: "'a option \<Rightarrow> ('a \<Rightarrow> bool) \<Rightarrow> bool" where
  "is_some_and x P = (case x of None \<Rightarrow> False | Some v \<Rightarrow> P v)"

lemma is_some_and_simps [simp]:
  "is_some_and None P = False"
  "is_some_and (Some v) P = P v"
  by (simp_all add: is_some_and_def)

section \<open>Iterator operations\<close>

text \<open>\<open>Iterator::min_by_key\<close>: the first element of least key.\<close>

fun min_by_key :: "('a \<Rightarrow> 'k::linorder) \<Rightarrow> 'a list \<Rightarrow> 'a option" where
  "min_by_key k [] = None"
| "min_by_key k (x # xs) =
     (case min_by_key k xs of
        None \<Rightarrow> Some x
      | Some y \<Rightarrow> if k x \<le> k y then Some x else Some y)"

lemma min_by_key_None [simp]: "min_by_key k xs = None \<longleftrightarrow> xs = []"
  by (cases xs) (auto split: option.splits)

lemma min_by_key_Some:
  "min_by_key k xs = Some x \<Longrightarrow> x \<in> set xs \<and> (\<forall>y \<in> set xs. k x \<le> k y)"
proof (induction xs arbitrary: x)
  case Nil
  then show ?case by simp
next
  case (Cons a xs)
  show ?case
  proof (cases "min_by_key k xs")
    case None
    with Cons.prems show ?thesis by simp
  next
    case (Some y)
    with Cons.IH [of y] Cons.prems show ?thesis
      by (auto split: if_splits intro: order_trans)
  qed
qed

text \<open>\<open>slice::chunks\<close>: consecutive pieces of at most \<open>n\<close> elements.\<close>

function chunks :: "nat \<Rightarrow> 'a list \<Rightarrow> 'a list list" where
  "chunks n xs = (if n = 0 \<or> xs = [] then [] else take n xs # chunks n (drop n xs))"
  by pat_completeness auto
termination
  by (relation "measure (\<lambda>(n, xs). length xs)") auto

declare chunks.simps [simp del]

lemma chunks_Nil [simp]: "chunks n [] = []"
  by (simp add: chunks.simps)

lemma concat_chunks: "0 < n \<Longrightarrow> concat (chunks n xs) = xs"
proof (induction n xs rule: chunks.induct)
  case (1 n xs)
  then show ?case
    by (cases "xs = []") (simp_all add: chunks.simps [of n xs])
qed

lemma chunks_length: "c \<in> set (chunks n xs) \<Longrightarrow> length c \<le> n \<and> c \<noteq> []"
proof (induction n xs rule: chunks.induct)
  case (1 n xs)
  then show ?case
    by (cases "n = 0 \<or> xs = []") (auto simp: chunks.simps [of n xs])
qed

section \<open>Sorted inventories\<close>

lemma sorted_key_filter: "sorted (map f xs) \<Longrightarrow> sorted (map f (filter P xs))"
  by (induction xs) auto

lemma distinct_map_filter: "distinct (map f xs) \<Longrightarrow> distinct (map f (filter P xs))"
  by (induction xs) auto

section \<open>Lists and images\<close>

lemma length_filter_eq_iff: "length (filter P xs) = length xs \<longleftrightarrow> filter P xs = xs"
  using filter_id_conv length_filter_less by (metis less_irrefl)

lemma distinct_map_Cons_neq: "distinct (map f (x # xs)) \<Longrightarrow> y \<in> set xs \<Longrightarrow> f y \<noteq> f x"
  by (auto simp: image_iff)

lemma ball_neq_image: "(\<forall>x \<in> A. f x \<noteq> y) \<longleftrightarrow> y \<notin> f ` A"
  by blast

end
