(* ===== verification/Core_Types.thy ===== *)
theory Core_Types
  imports Prelude
begin

text \<open>
  Identities shared by every component: \<open>airplay_core::DeviceId\<close> (a six-byte MAC address, ordered
  lexicographically by its bytes), the wrappers the shell puts around counters and UUIDs, and
  network addresses.
\<close>

datatype device_id = DeviceId u8 u8 u8 u8 u8 u8

fun device_bytes :: "device_id \<Rightarrow> u8 list" where
  "device_bytes (DeviceId a b c d e f) = [a, b, c, d, e, f]"

lemma device_bytes_inject [simp]: "device_bytes x = device_bytes y \<longleftrightarrow> x = y"
  by (cases x; cases y) simp

lemma length_device_bytes [simp]: "length (device_bytes x) = 6"
  by (cases x) simp

text \<open>The derived \<open>Ord\<close>: the lexicographic order of the MAC bytes.\<close>

instantiation device_id :: linorder
begin

definition less_eq_device_id :: "device_id \<Rightarrow> device_id \<Rightarrow> bool" where
  "less_eq_device_id x y \<longleftrightarrow> device_bytes x \<le> device_bytes y"

definition less_device_id :: "device_id \<Rightarrow> device_id \<Rightarrow> bool" where
  "less_device_id x y \<longleftrightarrow> device_bytes x < device_bytes y"

instance
  by standard (auto simp: less_eq_device_id_def less_device_id_def less_le)

end

text \<open>The wrapped counters of \<open>app/state.rs\<close>: newtypes with no behaviour of their own.\<close>

type_synonym generation_id = u64
type_synonym group_id = "128 word"
type_synonym audio_endpoint_key = u64

text \<open>Network addresses: \<open>std::net::IpAddr\<close> and \<open>SocketAddr\<close>.\<close>

datatype ip_addr = V4 u32 | V6 "128 word"

record socket_addr =
  sa_ip :: ip_addr
  sa_port :: u16

text \<open>
  Iterating a hash set and sorting what comes out: the source's iteration order is arbitrary, the
  sorted result is not.
\<close>

definition sorted_ids :: "device_id set \<Rightarrow> device_id list" where
  "sorted_ids ids = sorted_list_of_set ids"

lemma sorted_ids_set [simp]: "finite ids \<Longrightarrow> set (sorted_ids ids) = ids"
  by (simp add: sorted_ids_def)

lemma sorted_ids_sorted [simp]: "sorted (sorted_ids ids)" "distinct (sorted_ids ids)"
  by (simp_all add: sorted_ids_def)

lemma sorted_ids_Nil [simp]: "finite ids \<Longrightarrow> sorted_ids ids = [] \<longleftrightarrow> ids = {}"
  by (simp add: sorted_ids_def)

end
