(* ===== verification/App_State.thy ===== *)
theory App_State
  imports Core_Types
begin

text \<open>
  The shell's data model, from \<open>app/state.rs\<close>, \<open>app/live_diagnostics.rs\<close>, \<open>app/event.rs\<close> and
  \<open>app/effect.rs\<close>: the authoritative \<open>AppState\<close>, the events the reducer consumes and the effects
  it asks for. Enum variants carry a prefix naming their enum; struct fields carry one where two
  structs share a field name. Hash sets are sets, ordered maps are association lists in key order
  and compare pairwise, as \<open>BTreeMap: PartialEq\<close> does.
\<close>

section \<open>Saved groups\<close>

record group_member =
  gm_receiver :: device_id
  gm_name :: string
  gm_level :: f32

record saved_group_reading =
  sg_id :: group_id
  sg_name :: string
  sg_members :: "group_member list"
  sg_available_members :: "device_id set"

datatype group_command =
    Group_Save "group_id option" string "group_member list"
  | Group_Delete group_id
  | Group_Apply group_id bool
  | Group_ApplySelection "device_id list"

datatype group_failure =
    Failure_Busy | Failure_Closed | Failure_Validation | Failure_Persistence
  | Failure_ConfirmationLost

datatype group_operation_status = Op_Pending | Op_Succeeded | Op_Failed group_failure

record group_operation_rec =
  op_request :: u64
  op_command :: group_command
  op_status :: group_operation_status

text \<open>The derived \<open>PartialEq\<close> of the readings that carry a float.\<close>

definition group_member_eq :: "group_member \<Rightarrow> group_member \<Rightarrow> bool" where
  "group_member_eq a b \<longleftrightarrow> gm_receiver a = gm_receiver b \<and> gm_name a = gm_name b
     \<and> f32_eq (gm_level a) (gm_level b)"

definition saved_group_eq :: "saved_group_reading \<Rightarrow> saved_group_reading \<Rightarrow> bool" where
  "saved_group_eq a b \<longleftrightarrow> sg_id a = sg_id b \<and> sg_name a = sg_name b
     \<and> list_all2 group_member_eq (sg_members a) (sg_members b)
     \<and> sg_available_members a = sg_available_members b"

section \<open>Preferences and window\<close>

datatype page_t =
  Page_Home | Page_Speakers | Page_Groups | Page_Audio | Page_Diagnostics | Page_Settings

datatype theme_preference = Theme_System | Theme_Light | Theme_Dark

datatype locale_preference_t = Locale_System | Locale_German | Locale_English

datatype resolved_locale_t = German | English

fun locale_resolve :: "locale_preference_t \<Rightarrow> resolved_locale_t \<Rightarrow> resolved_locale_t" where
  "locale_resolve Locale_System windows = windows"
| "locale_resolve Locale_German windows = German"
| "locale_resolve Locale_English windows = English"

record hotkey_binding =
  hk_enabled :: bool
  hk_modifiers :: u32
  hk_virtual_key :: u32

definition hotkey_default :: hotkey_binding where
  "hotkey_default = \<lparr>hk_enabled = True, hk_modifiers = 3, hk_virtual_key = 0x48\<rparr>"

record window_geometry =
  wg_x :: "f32 option"
  wg_y :: "f32 option"
  wg_width :: f32
  wg_height :: f32
  wg_maximized :: bool

definition geometry_validate :: "window_geometry \<Rightarrow> window_geometry option" where
  "geometry_validate g =
     (if \<not> f32_is_finite (wg_width g) \<or> \<not> f32_is_finite (wg_height g)
         \<or> is_some_and (wg_x g) (\<lambda>x. \<not> f32_is_finite x)
         \<or> is_some_and (wg_y g) (\<lambda>y. \<not> f32_is_finite y)
      then None
      else Some (g\<lparr>wg_width := f32_max (wg_width g) (Finite 900),
                   wg_height := f32_max (wg_height g) (Finite 600)\<rparr>))"

definition geometry_default :: window_geometry where
  "geometry_default = \<lparr>wg_x = None, wg_y = None, wg_width = Finite 1120,
     wg_height = Finite 720, wg_maximized = False\<rparr>"

definition geometry_eq :: "window_geometry \<Rightarrow> window_geometry \<Rightarrow> bool" where
  "geometry_eq a b \<longleftrightarrow> option_eq f32_eq (wg_x a) (wg_x b) \<and> option_eq f32_eq (wg_y a) (wg_y b)
     \<and> f32_eq (wg_width a) (wg_width b) \<and> f32_eq (wg_height a) (wg_height b)
     \<and> wg_maximized a = wg_maximized b"

record window_state =
  ws_visible :: bool
  ws_geometry :: window_geometry
  ws_close_to_tray :: bool
  ws_launch_at_startup :: bool

definition window_default :: window_state where
  "window_default = \<lparr>ws_visible = True, ws_geometry = geometry_default,
     ws_close_to_tray = True, ws_launch_at_startup = False\<rparr>"

definition PREFERENCES_SCHEMA_VERSION :: u32 where
  "PREFERENCES_SCHEMA_VERSION = 2"

record preferences =
  pf_schema_version :: u32
  pf_hotkey :: hotkey_binding
  pf_theme :: theme_preference
  pf_locale :: locale_preference_t
  pf_advanced_information :: bool
  pf_window :: window_geometry
  pf_last_page :: page_t
  pf_close_to_tray :: bool
  pf_launch_at_startup :: bool

section \<open>Discovery, receivers, session\<close>

datatype discovery_state =
  Disc_Idle | Disc_Discovering generation_id | Disc_Ready | Disc_Failed string

datatype availability = Available | Unavailable

record receiver_state =
  rs_id :: device_id
  rs_name :: string
  rs_model :: string
  rs_availability :: availability

datatype stream_state =
    Stream_Stopped
  | Stream_Starting generation_id
  | Stream_Streaming generation_id
  | Stream_Degraded generation_id
  | Stream_Restarting generation_id
  | Stream_Stopping generation_id
  | Stream_Failed generation_id string

fun is_running :: "stream_state \<Rightarrow> bool" where
  "is_running (Stream_Starting _) = True"
| "is_running (Stream_Streaming _) = True"
| "is_running (Stream_Degraded _) = True"
| "is_running (Stream_Restarting _) = True"
| "is_running Stream_Stopped = False"
| "is_running (Stream_Stopping _) = False"
| "is_running (Stream_Failed _ _) = False"

fun is_stopped_or_failed :: "stream_state \<Rightarrow> bool" where
  "is_stopped_or_failed Stream_Stopped = True"
| "is_stopped_or_failed (Stream_Failed _ _) = True"
| "is_stopped_or_failed _ = False"

fun is_starting_or_streaming :: "stream_state \<Rightarrow> bool" where
  "is_starting_or_streaming (Stream_Starting _) = True"
| "is_starting_or_streaming (Stream_Streaming _) = True"
| "is_starting_or_streaming _ = False"

fun is_stopping :: "stream_state \<Rightarrow> bool" where
  "is_stopping (Stream_Stopping _) = True"
| "is_stopping _ = False"

fun is_streaming :: "stream_state \<Rightarrow> bool" where
  "is_streaming (Stream_Streaming _) = True"
| "is_streaming _ = False"

fun is_failed :: "stream_state \<Rightarrow> bool" where
  "is_failed (Stream_Failed _ _) = True"
| "is_failed _ = False"

section \<open>Audio: latency and capture source\<close>

datatype latency_choice = Latency_Low | Latency_Normal | Latency_Stable

datatype latency_unavailable = NotValidated

record latency_option =
  lo_choice :: latency_choice
  lo_unavailable :: "latency_unavailable option"

record latency_reading =
  lr_selected :: latency_choice
  lr_options :: "latency_option list"

record audio_endpoint_choice =
  ae_key :: audio_endpoint_key
  ae_name :: string

datatype audio_endpoint_selection =
    Sel_SystemDefault
  | Sel_Chosen audio_endpoint_key
  | Sel_ChosenButMissing string
  | Sel_ChosenUnverified string

datatype capture_state =
  Cap_Capturing | Cap_SilentSystem | Cap_Recovering | Cap_Unavailable | Cap_Failed

record audio_source_reading =
  as_endpoints_known :: bool
  as_refresh_failed :: bool
  as_endpoints :: "audio_endpoint_choice list"
  as_selection :: audio_endpoint_selection
  as_captured_key :: "audio_endpoint_key option"
  as_captured_name :: "string option"
  as_state :: capture_state

datatype audio_endpoint_request = Req_SystemDefault | Req_Endpoint audio_endpoint_key

section \<open>Notices and diagnostics readings\<close>

datatype severity = Sev_Info | Sev_Warning | Sev_Error

datatype notice_code =
    Code_NoReceiverAvailable | Code_DiscoveryFailed | Code_SessionFailed
  | Code_ControllerUnavailable | Code_PreferencesFailed | Code_HotkeyFailed | Code_InvalidInput

datatype corrective_action =
  Act_Refresh | Act_Retry | Act_OpenSettings | Act_RetryPreferencesPersistence

record user_notice =
  un_severity :: severity
  un_code :: notice_code
  un_summary :: string
  un_action :: "corrective_action option"

datatype diagnostics_health = Health_Unknown | Health_Running | Health_Attention | Health_Error

record diagnostics_reading =
  dr_health :: diagnostics_health
  dr_events_dropped_total :: u64
  dr_measured_receivers :: nat

record buffer_diagnostics_reading =
  bd_queued_frames :: u32
  bd_capacity_frames :: u32
  bd_buffered_ms :: u64
  bd_underruns :: u64

record transport_diagnostics_reading =
  td_packets_accepted :: u64
  td_bytes_accepted :: u64
  td_send_failures :: u64
  td_retransmit_requests :: u64

datatype diagnostic_receiver_state =
  DRS_Ready | DRS_Connecting | DRS_Streaming | DRS_Recovering | DRS_Offline | DRS_Failed

datatype diagnostic_issue =
    Issue_Pairing | Issue_Setup | Issue_Capture | Issue_Timing | Issue_Transport
  | Issue_Feedback | Issue_Teardown | Issue_Other

record receiver_diagnostics_reading =
  rd_id :: device_id
  rd_state :: diagnostic_receiver_state
  rd_transport :: "transport_diagnostics_reading option"
  rd_issue :: "diagnostic_issue option"

record live_diagnostics_reading =
  ld_generation :: generation_id
  ld_input_peak_per_mille :: "u16 option"
  ld_capture_drops_total :: u64
  ld_buffer :: "buffer_diagnostics_reading option"
  ld_receivers :: "receiver_diagnostics_reading list"

section \<open>The listening check\<close>

datatype hardware_check_action =
  HC_Open | HC_Prepare bool | HC_LowerVolume | HC_Start | HC_Heard bool | HC_Cancel

datatype hardware_check_phase =
    Ph_Preparation | Ph_Connecting | Ph_Listening | Ph_StopPending
  | Ph_Heard | Ph_NotHeard | Ph_Invalidated

type_synonym receiver_level_map = "(device_id \<times> f32) list"

text \<open>\<open>BTreeMap: PartialEq\<close>: equal length and pairwise equal entries in key order.\<close>

definition levels_eq :: "receiver_level_map \<Rightarrow> receiver_level_map \<Rightarrow> bool" where
  "levels_eq a b \<longleftrightarrow> list_all2 (\<lambda>(i, x) (j, y). i = j \<and> f32_eq x y) a b"

record hc_binding =
  bn_receivers :: "device_id set"
  bn_endpoint :: audio_endpoint_selection
  bn_captured_key :: "audio_endpoint_key option"
  bn_captured_name :: "string option"
  bn_volume :: f32
  bn_levels :: receiver_level_map

record hardware_check_rec =
  hc_phase :: hardware_check_phase
  hc_prepared :: bool
  hc_bound :: "hc_binding option"
  hc_generation :: "generation_id option"
  hc_outcome :: "bool option"

definition hardware_check_default :: hardware_check_rec where
  "hardware_check_default = \<lparr>hc_phase = Ph_Preparation, hc_prepared = False, hc_bound = None,
     hc_generation = None, hc_outcome = None\<rparr>"

section \<open>The application state\<close>

record generations_rec =
  g_discovery :: generation_id
  g_session :: generation_id
  g_volume :: generation_id
  g_preferences :: generation_id
  g_hotkey :: generation_id

record app_state =
  revision :: u64
  saved_groups :: "saved_group_reading list option"
  group_operation :: "group_operation_rec option"
  next_group_request :: u64
  desired_known :: bool
  controller_closed :: bool
  desired_revision :: u64
  page :: page_t
  window :: window_state
  discovery :: discovery_state
  receivers :: "receiver_state list"
  desired_receivers :: "device_id set"
  staged_receivers :: "device_id set"
  staged_base_revision :: u64
  active_receivers :: "device_id set"
  stream :: stream_state
  master_volume :: f32
  volume_pending :: bool
  confirmed_master_volume :: "f32 option"
  receiver_levels :: "receiver_level_map option"
  theme :: theme_preference
  locale_preference :: locale_preference_t
  windows_display_locale :: resolved_locale_t
  resolved_locale :: resolved_locale_t
  advanced_information :: bool
  hotkey :: hotkey_binding
  notice :: "user_notice option"
  muted :: "bool option"
  latency :: "latency_reading option"
  audio_source :: "audio_source_reading option"
  diagnostics :: "diagnostics_reading option"
  live_diagnostics :: "live_diagnostics_reading option"
  hardware_check :: hardware_check_rec
  shutting_down :: bool
  generations :: generations_rec

definition generations_default :: generations_rec where
  "generations_default = \<lparr>g_discovery = 0, g_session = 0, g_volume = 0, g_preferences = 0,
     g_hotkey = 0\<rparr>"

definition app_state_default :: app_state where
  "app_state_default = \<lparr>
     revision = 0,
     saved_groups = None,
     group_operation = None,
     next_group_request = 0,
     desired_known = False,
     controller_closed = False,
     desired_revision = 0,
     page = Page_Home,
     window = window_default,
     discovery = Disc_Idle,
     receivers = [],
     desired_receivers = {},
     staged_receivers = {},
     staged_base_revision = 0,
     active_receivers = {},
     stream = Stream_Stopped,
     master_volume = Finite (1 / 4),
     volume_pending = False,
     confirmed_master_volume = None,
     receiver_levels = None,
     theme = Theme_System,
     locale_preference = Locale_System,
     windows_display_locale = English,
     resolved_locale = English,
     advanced_information = False,
     hotkey = hotkey_default,
     notice = None,
     muted = None,
     latency = None,
     audio_source = None,
     diagnostics = None,
     live_diagnostics = None,
     hardware_check = hardware_check_default,
     shutting_down = False,
     generations = generations_default\<rparr>"

section \<open>Events and effects\<close>

datatype controller_event =
    Ctl_SavedGroupsChanged "saved_group_reading list"
  | Ctl_GroupOperationFinished u64 group_operation_status
  | Ctl_ReceiverLevelsChanged receiver_level_map
  | Ctl_DiscoveryCompleted generation_id "receiver_state list"
  | Ctl_DiscoveryFailed generation_id string
  | Ctl_DesiredReceiversChanged u64 "device_id list"
  | Ctl_SessionStarted generation_id "device_id list"
  | Ctl_SessionDegraded generation_id "device_id list"
  | Ctl_SessionRestarting generation_id
  | Ctl_SessionStopped generation_id
  | Ctl_SessionFailed generation_id string
  | Ctl_VolumeApplied generation_id f32
  | Ctl_MuteChanged bool
  | Ctl_LatencyChanged latency_reading
  | Ctl_AudioSourceChanged audio_source_reading
  | Ctl_DiagnosticsUpdated diagnostics_reading
  | Ctl_LiveDiagnosticsUpdated live_diagnostics_reading
  | Ctl_ChannelClosed string

datatype preferences_event =
    Pref_Loaded preferences "user_notice option"
  | Pref_LoadFailed string
  | Pref_Persisted generation_id
  | Pref_PersistFailed generation_id
  | Pref_HotkeyReconfigured generation_id hotkey_binding "string option"

datatype app_event =
    Ev_HardwareCheck hardware_check_action
  | Ev_GroupRequested group_command
  | Ev_Navigate page_t
  | Ev_MainWindowCloseRequested
  | Ev_ShowMainWindow
  | Ev_ToggleStagedReceiver device_id
  | Ev_ApplyStagedReceivers
  | Ev_DiscardStagedReceivers
  | Ev_StartRequested
  | Ev_StopRequested
  | Ev_GlobalHotkeyPressed
  | Ev_RefreshRequested
  | Ev_MasterVolumeChanged f32
  | Ev_ReceiverLevelRequested device_id f32
  | Ev_MuteChangeRequested bool
  | Ev_LatencyChoiceRequested latency_choice
  | Ev_AudioEndpointRequested audio_endpoint_request
  | Ev_ThemeChanged theme_preference
  | Ev_LocaleChanged locale_preference_t
  | Ev_AdvancedInformationChanged bool
  | Ev_WindowsDisplayLanguageChanged resolved_locale_t
  | Ev_RetryPreferencesPersistence
  | Ev_HotkeyChanged hotkey_binding
  | Ev_WindowGeometryChanged window_geometry
  | Ev_Controller controller_event
  | Ev_Preferences preferences_event
  | Ev_QuitRequested

datatype app_effect =
    Eff_PlayListeningTone generation_id
  | Eff_Group u64 "generation_id option" group_command
  | Eff_ApplyReceiverLevel device_id f32
  | Eff_Discover generation_id
  | Eff_StartSession generation_id "device_id list" f32
  | Eff_StopSession generation_id
  | Eff_ApplyVolume generation_id f32
  | Eff_ApplyMute bool
  | Eff_ApplyLatency latency_choice
  | Eff_ApplyAudioEndpoint audio_endpoint_request
  | Eff_PersistPreferences generation_id preferences
  | Eff_ReconfigureHotkey generation_id hotkey_binding
  | Eff_ShowMainWindow
  | Eff_HideMainWindow
  | Eff_BeginShutdown

section \<open>Facts about the data\<close>

text \<open>
  Where the derived partial equality holds, the two values are the same: a comparison that says
  "unchanged" is never wrong, it can only be too cautious about \<open>NaN\<close>.
\<close>

lemma group_member_eq_imp_eq: "group_member_eq a b \<Longrightarrow> a = b"
  by (auto simp: group_member_eq_def dest: f32_eq_imp_eq)

lemma saved_group_eq_imp_eq: "saved_group_eq a b \<Longrightarrow> a = b"
  by (auto simp: saved_group_eq_def dest: list_all2_imp_eq [OF _ group_member_eq_imp_eq])

lemma geometry_eq_imp_eq: "geometry_eq a b \<Longrightarrow> a = b"
  by (rule window_geometry.equality)
    (auto simp: geometry_eq_def dest: f32_eq_imp_eq option_eq_imp_eq [OF _ f32_eq_imp_eq])

lemma levels_eq_imp_eq: "levels_eq a b \<Longrightarrow> a = b"
  unfolding levels_eq_def by (erule list_all2_imp_eq) (auto dest: f32_eq_imp_eq)

lemmas partial_eq_imp_eq =
  f32_eq_imp_eq group_member_eq_imp_eq saved_group_eq_imp_eq geometry_eq_imp_eq levels_eq_imp_eq
  option_eq_imp_eq [OF _ f32_eq_imp_eq] option_eq_imp_eq [OF _ levels_eq_imp_eq]
  option_eq_imp_eq [OF _ list_all2_imp_eq [OF _ saved_group_eq_imp_eq]]

text \<open>A geometry is safe when every coordinate is finite and the size is at least the minimum.\<close>

definition geometry_safe :: "window_geometry \<Rightarrow> bool" where
  "geometry_safe g \<longleftrightarrow>
     f32_is_finite (wg_width g) \<and> f32_is_finite (wg_height g)
     \<and> (\<forall>x. wg_x g = Some x \<longrightarrow> f32_is_finite x) \<and> (\<forall>y. wg_y g = Some y \<longrightarrow> f32_is_finite y)
     \<and> f32_le (Finite 900) (wg_width g) \<and> f32_le (Finite 600) (wg_height g)"

lemma geometry_validate_safe: "geometry_validate g = Some v \<Longrightarrow> geometry_safe v"
  by (cases "wg_width g"; cases "wg_height g")
    (auto simp: geometry_validate_def geometry_safe_def f32_max_def f32_le_def split: if_splits)

lemma geometry_validate_idem: "geometry_safe g \<Longrightarrow> geometry_validate g = Some g"
  by (cases "wg_width g"; cases "wg_height g"; cases "wg_x g"; cases "wg_y g")
    (auto simp: geometry_validate_def geometry_safe_def f32_max_def f32_le_def)

lemma geometry_default_safe [simp]: "geometry_safe geometry_default"
  by (simp add: geometry_safe_def geometry_default_def f32_le_def)

lemma stream_state_simps [simp]:
  "is_starting_or_streaming s \<Longrightarrow> is_running s"
  "is_stopped_or_failed s \<Longrightarrow> \<not> is_running s"
  "is_stopping s \<Longrightarrow> \<not> is_running s"
  "is_streaming s \<Longrightarrow> is_running s"
  "is_failed s \<Longrightarrow> \<not> is_running s"
  by (cases s; simp)+

end
