(* ===== verification/Hardware_Check.thy ===== *)
theory Hardware_Check
  imports App_State
begin

text \<open>
  The session-bound listening check of \<open>app/hardware_check.rs\<close>: the prerequisites that must hold
  before a test tone may be played, the binding that ties a running check to the configuration it
  was started with, and the identifier-free projection the window shows.
\<close>

datatype hardware_check_blocker =
    Blk_Unavailable | Blk_StopPending | Blk_SessionRunning | Blk_Selection
  | Blk_SelectionPending | Blk_Offline | Blk_ReceiverLevels | Blk_Muted | Blk_Latency
  | Blk_VolumePending | Blk_Volume | Blk_Source | Blk_Confirmation

record hardware_check_snapshot =
  hs_phase :: hardware_check_phase
  hs_prepared :: bool
  hs_ready :: bool
  hs_can_confirm :: bool
  hs_count :: nat
  hs_blocker :: "hardware_check_blocker option"

text \<open>The literals \<open>0.15\<close> and \<open>0.10\<close> as the nearest single-precision values.\<close>

definition f32_0_15 :: f32 where
  "f32_0_15 = Finite (5033165 / 33554432)"

definition f32_0_10 :: f32 where
  "f32_0_10 = Finite (13421773 / 134217728)"

definition binding :: "app_state \<Rightarrow> hc_binding option" where
  "binding st =
     (case (audio_source st, confirmed_master_volume st, receiver_levels st) of
        (Some src, Some vol, Some levels) \<Rightarrow>
          Some \<lparr>bn_receivers = desired_receivers st,
                bn_endpoint = as_selection src,
                bn_captured_key = as_captured_key src,
                bn_captured_name = as_captured_name src,
                bn_volume = vol,
                bn_levels = levels\<rparr>
      | _ \<Rightarrow> None)"

definition group_operation_pending :: "app_state \<Rightarrow> bool" where
  "group_operation_pending st \<longleftrightarrow>
     is_some_and (group_operation st) (\<lambda>operation. op_status operation = Op_Pending)"

text \<open>Whether some available row of the inventory carries the identity.\<close>

definition receiver_online :: "app_state \<Rightarrow> device_id \<Rightarrow> bool" where
  "receiver_online st i \<longleftrightarrow>
     (\<exists>r \<in> set (receivers st). rs_id r = i \<and> rs_availability r = Available)"

text \<open>A level the check accepts: finite, above zero and at most one; absent means one.\<close>

definition level_audible :: "receiver_level_map \<Rightarrow> device_id \<Rightarrow> bool" where
  "level_audible levels i =
     (let level = (case map_of levels i of None \<Rightarrow> f32_one | Some l \<Rightarrow> l)
      in f32_is_finite level \<and> f32_lt f32_zero level \<and> f32_le level f32_one)"

definition source_settled :: "audio_source_reading \<Rightarrow> bool" where
  "source_settled a \<longleftrightarrow>
     as_endpoints_known a \<and> \<not> as_refresh_failed a \<and> as_endpoints a \<noteq> []
     \<and> (case as_selection a of Sel_SystemDefault \<Rightarrow> True | Sel_Chosen _ \<Rightarrow> True | _ \<Rightarrow> False)
     \<and> (case as_state a of Cap_Capturing \<Rightarrow> True | Cap_SilentSystem \<Rightarrow> True | _ \<Rightarrow> False)"

definition prerequisite_blocker :: "app_state \<Rightarrow> hardware_check_blocker option" where
  "prerequisite_blocker st =
     (if shutting_down st \<or> controller_closed st then Some Blk_Unavailable
      else if \<not> desired_known st \<or> desired_receivers st = {} then Some Blk_Selection
      else if staged_receivers st \<noteq> desired_receivers st \<or> group_operation_pending st
        then Some Blk_SelectionPending
      else if \<not> (\<forall>i \<in> desired_receivers st. receiver_online st i) then Some Blk_Offline
      else if \<not> is_some_and (receiver_levels st)
                   (\<lambda>levels. \<forall>i \<in> desired_receivers st. level_audible levels i)
        then Some Blk_ReceiverLevels
      else if muted st \<noteq> Some False then Some Blk_Muted
      else if \<not> is_some_and (latency st) (\<lambda>l. lr_selected l = Latency_Normal)
        then Some Blk_Latency
      else if volume_pending st then Some Blk_VolumePending
      else if \<not> is_some_and (confirmed_master_volume st)
                   (\<lambda>v. f32_is_finite v \<and> f32_lt f32_zero v \<and> f32_le v f32_0_15
                        \<and> f32_eq v (master_volume st))
        then Some Blk_Volume
      else if \<not> is_some_and (audio_source st) source_settled then Some Blk_Source
      else None)"

definition hc_ready :: "app_state \<Rightarrow> bool" where
  "hc_ready st \<longleftrightarrow> prerequisite_blocker st = None"

definition start_blocker :: "app_state \<Rightarrow> hardware_check_blocker option" where
  "start_blocker st =
     (if shutting_down st \<or> controller_closed st \<or> is_failed (stream st)
        then Some Blk_Unavailable
      else if hc_phase (hardware_check st) = Ph_StopPending \<or> is_stopping (stream st)
        then Some Blk_StopPending
      else if stream st \<noteq> Stream_Stopped then Some Blk_SessionRunning
      else (case prerequisite_blocker st of
              Some b \<Rightarrow> Some b
            | None \<Rightarrow> if \<not> hc_prepared (hardware_check st) then Some Blk_Confirmation else None))"

definition hc_bind :: "hardware_check_rec \<Rightarrow> app_state \<Rightarrow> hardware_check_rec" where
  "hc_bind check st =
     check\<lparr>hc_bound := binding st,
           hc_generation := Some (g_session (generations st)),
           hc_phase := Ph_Connecting,
           hc_outcome := None\<rparr>"

definition hc_matches :: "hardware_check_rec \<Rightarrow> app_state \<Rightarrow> bool" where
  "hc_matches check st \<longleftrightarrow>
     hc_ready st
     \<and> is_some_and (hc_bound check) (\<lambda>bound.
          is_some_and (audio_source st) (\<lambda>source.
              bn_endpoint bound = as_selection source
            \<and> bn_captured_key bound = as_captured_key source
            \<and> bn_captured_name bound = as_captured_name source)
        \<and> bn_receivers bound = desired_receivers st
        \<and> option_eq f32_eq (Some (bn_volume bound)) (confirmed_master_volume st)
        \<and> option_eq levels_eq (receiver_levels st) (Some (bn_levels bound)))"

definition hc_snapshot :: "app_state \<Rightarrow> hardware_check_snapshot" where
  "hc_snapshot st =
     (let blocker = start_blocker st; check = hardware_check st
      in \<lparr>hs_phase = hc_phase check,
          hs_prepared = hc_prepared check,
          hs_ready = (blocker = None \<or> blocker = Some Blk_Confirmation),
          hs_can_confirm = (hc_phase check = Ph_Listening \<and> hc_matches check st
             \<and> hc_generation check = Some (g_session (generations st))
             \<and> is_streaming (stream st) \<and> active_receivers st = desired_receivers st),
          hs_count = card (desired_receivers st),
          hs_blocker = blocker\<rparr>)"

section \<open>What readiness guarantees\<close>

text \<open>
  The tone may only sound at a confirmed, settled, low volume: the facts a caller may rely on once
  the prerequisites are met.
\<close>

definition tone_safe :: "app_state \<Rightarrow> bool" where
  "tone_safe st \<longleftrightarrow>
     \<not> shutting_down st \<and> \<not> controller_closed st \<and> muted st = Some False
     \<and> \<not> volume_pending st
     \<and> (\<exists>v. confirmed_master_volume st = Some v \<and> v = master_volume st
          \<and> f32_is_finite v \<and> f32_lt f32_zero v \<and> f32_le v f32_0_15)
     \<and> desired_receivers st \<noteq> {} \<and> staged_receivers st = desired_receivers st
     \<and> (\<forall>i \<in> desired_receivers st. receiver_online st i)"

lemma prerequisite_blocker_None_iff:
  "prerequisite_blocker st = None \<longleftrightarrow>
     \<not> shutting_down st \<and> \<not> controller_closed st
     \<and> desired_known st \<and> desired_receivers st \<noteq> {}
     \<and> staged_receivers st = desired_receivers st \<and> \<not> group_operation_pending st
     \<and> (\<forall>i \<in> desired_receivers st. receiver_online st i)
     \<and> is_some_and (receiver_levels st)
          (\<lambda>levels. \<forall>i \<in> desired_receivers st. level_audible levels i)
     \<and> muted st = Some False
     \<and> is_some_and (latency st) (\<lambda>l. lr_selected l = Latency_Normal)
     \<and> \<not> volume_pending st
     \<and> is_some_and (confirmed_master_volume st)
          (\<lambda>v. f32_is_finite v \<and> f32_lt f32_zero v \<and> f32_le v f32_0_15
             \<and> f32_eq v (master_volume st))
     \<and> is_some_and (audio_source st) source_settled"
  unfolding prerequisite_blocker_def by (simp split: if_split) 

lemma hc_ready_tone_safe:
  assumes "hc_ready st"
  shows "tone_safe st"
proof -
  note pre = assms [unfolded hc_ready_def prerequisite_blocker_None_iff]
  then obtain v where v: "confirmed_master_volume st = Some v"
    by (cases "confirmed_master_volume st") auto
  with pre have "v = master_volume st" by (auto dest: f32_eq_imp_eq)
  with pre v show ?thesis by (simp add: tone_safe_def)
qed

lemma hc_matches_ready: "hc_matches check st \<Longrightarrow> hc_ready st"
  by (simp add: hc_matches_def)

text \<open>A check bound to a ready state matches that state.\<close>

lemma hc_bind_matches:
  assumes "hc_ready st" "\<And>levels i x. receiver_levels st = Some levels \<Longrightarrow> (i, x) \<in> set levels \<Longrightarrow> x \<noteq> NaN"
  shows "hc_matches (hc_bind check st) st"
proof -
  note pre = assms(1) [unfolded hc_ready_def prerequisite_blocker_None_iff]
  obtain levels where levels: "receiver_levels st = Some levels"
    using pre by (cases "receiver_levels st") auto
  obtain v where v: "confirmed_master_volume st = Some v" "f32_is_finite v"
    using pre by (cases "confirmed_master_volume st") auto
  obtain src where src: "audio_source st = Some src"
    using pre by (cases "audio_source st") auto
  have "levels_eq levels levels"
    unfolding levels_eq_def
    using assms(2) [OF levels] by (auto simp: list_all2_same f32_eq_refl_iff)
  moreover have "f32_eq v v" using v(2) by (cases v) auto
  ultimately show ?thesis
    using assms(1) levels v src by (simp add: hc_matches_def hc_bind_def binding_def)
qed

end
