(* ===== verification/Reducer.thy ===== *)
theory Reducer
  imports Hardware_Check
begin

text \<open>
  The reducer of \<open>app/reducer.rs\<close>: one definition per handler, in the source's order. A handler
  takes the state and its event data and returns the new state, the effects it asks for and
  whether the published snapshot changes. \<open>reduce\<close> dispatches, lets the listening check observe
  the result and raises the revision.

  \<open>lc\<close> stands for \<open>str::to_lowercase\<close>, which only decides the order in which equally eligible
  receivers are offered; every theorem holds for an arbitrary function.
\<close>

type_synonym outcome = "app_state \<times> app_effect list \<times> bool"

abbreviation out_state :: "outcome \<Rightarrow> app_state" where "out_state \<equiv> fst"
abbreviation out_effects :: "outcome \<Rightarrow> app_effect list" where "out_effects r \<equiv> fst (snd r)"
abbreviation out_changed :: "outcome \<Rightarrow> bool" where "out_changed r \<equiv> snd (snd r)"

section \<open>Counters and preferences\<close>

text \<open>\<open>next_generation\<close>, once per counter it is applied to.\<close>

definition next_session :: "app_state \<Rightarrow> app_state" where
  "next_session st =
     st\<lparr>generations := (generations st)\<lparr>g_session := g_session (generations st) + 1\<rparr>\<rparr>"

definition next_discovery :: "app_state \<Rightarrow> app_state" where
  "next_discovery st =
     st\<lparr>generations := (generations st)\<lparr>g_discovery := g_discovery (generations st) + 1\<rparr>\<rparr>"

definition next_volume :: "app_state \<Rightarrow> app_state" where
  "next_volume st =
     st\<lparr>generations := (generations st)\<lparr>g_volume := g_volume (generations st) + 1\<rparr>\<rparr>"

definition next_preferences :: "app_state \<Rightarrow> app_state" where
  "next_preferences st =
     st\<lparr>generations := (generations st)\<lparr>g_preferences := g_preferences (generations st) + 1\<rparr>\<rparr>"

definition next_hotkey :: "app_state \<Rightarrow> app_state" where
  "next_hotkey st =
     st\<lparr>generations := (generations st)\<lparr>g_hotkey := g_hotkey (generations st) + 1\<rparr>\<rparr>"

definition preferences_from_state :: "app_state \<Rightarrow> preferences" where
  "preferences_from_state st =
     \<lparr>pf_schema_version = PREFERENCES_SCHEMA_VERSION,
      pf_hotkey = hotkey st,
      pf_theme = theme st,
      pf_locale = locale_preference st,
      pf_advanced_information = advanced_information st,
      pf_window = ws_geometry (window st),
      pf_last_page = page st,
      pf_close_to_tray = ws_close_to_tray (window st),
      pf_launch_at_startup = ws_launch_at_startup (window st)\<rparr>"

definition persist_preferences :: "app_state \<Rightarrow> app_state \<times> app_effect" where
  "persist_preferences st =
     (let st' = next_preferences st
      in (st', Eff_PersistPreferences (g_preferences (generations st'))
                 (preferences_from_state st')))"

text \<open>The tail shared by every handler that persists and reports a change.\<close>

definition persisted_change :: "app_state \<Rightarrow> outcome" where
  "persisted_change st = (let (st', effect) = persist_preferences st in (st', [effect], True))"

definition reject_invalid_input :: "app_state \<Rightarrow> string \<Rightarrow> outcome" where
  "reject_invalid_input st summary =
     (let n = \<lparr>un_severity = Sev_Warning, un_code = Code_InvalidInput, un_summary = summary,
               un_action = None\<rparr>
      in (st\<lparr>notice := Some n\<rparr>, [], notice st \<noteq> Some n))"

section \<open>Inventory\<close>

definition available_selected_ids :: "app_state \<Rightarrow> device_id list" where
  "available_selected_ids st =
     sorted_ids (set (map rs_id (filter (\<lambda>receiver. rs_availability receiver = Available
        \<and> rs_id receiver \<in> desired_receivers st) (receivers st))))"

definition first_available_receiver :: "(string \<Rightarrow> string) \<Rightarrow> app_state \<Rightarrow> device_id option" where
  "first_available_receiver lc st =
     map_option rs_id (min_by_key (\<lambda>receiver. (lc (rs_name receiver), rs_id receiver))
        (filter (\<lambda>receiver. rs_availability receiver = Available) (receivers st)))"

definition select_first_available_receiver ::
    "(string \<Rightarrow> string) \<Rightarrow> app_state \<Rightarrow> app_state \<times> bool" where
  "select_first_available_receiver lc st =
     (case first_available_receiver lc st of
        None \<Rightarrow> (st, False)
      | Some candidate \<Rightarrow>
          (st\<lparr>staged_receivers := insert candidate (staged_receivers st),
              desired_receivers := insert candidate (desired_receivers st),
              desired_revision := desired_revision st + 1,
              staged_base_revision := desired_revision st + 1\<rparr>, True))"

definition prune_irrelevant_unavailable :: "app_state \<Rightarrow> app_state \<times> bool" where
  "prune_irrelevant_unavailable st =
     (let kept = filter (\<lambda>receiver. rs_availability receiver = Available
            \<or> rs_id receiver \<in> desired_receivers st
            \<or> rs_id receiver \<in> staged_receivers st) (receivers st)
      in (st\<lparr>receivers := kept\<rparr>, length kept \<noteq> length (receivers st)))"

fun receiver_preference_key :: "receiver_state \<Rightarrow> nat \<times> string \<times> string" where
  "receiver_preference_key receiver =
     ((case rs_availability receiver of Available \<Rightarrow> 0 | Unavailable \<Rightarrow> 1),
      rs_name receiver, rs_model receiver)"

definition receiver_precedes :: "receiver_state \<Rightarrow> receiver_state \<Rightarrow> bool" where
  "receiver_precedes candidate current \<longleftrightarrow>
     receiver_preference_key candidate < receiver_preference_key current"

section \<open>Selection and session\<close>

definition group_requested :: "app_state \<Rightarrow> group_command \<Rightarrow> outcome" where
  "group_requested st command =
     (if shutting_down st \<or> group_operation_pending st then (st, [], False)
      else
        let request = next_group_request st + 1;
            st1 = st\<lparr>next_group_request := request,
                     group_operation := Some \<lparr>op_request = request, op_command = command,
                       op_status = (if controller_closed st then Op_Failed Failure_Closed
                                    else Op_Pending)\<rparr>\<rparr>
        in if controller_closed st then (st1, [], True)
           else if (case command of Group_Apply _ start \<Rightarrow> start | _ \<Rightarrow> False)
                   \<and> (is_stopped_or_failed (stream st) \<or> is_stopping (stream st))
           then let st2 = next_session st1; generation = g_session (generations st2)
                in (st2\<lparr>stream := Stream_Starting generation, active_receivers := {}\<rparr>,
                    [Eff_Group request (Some generation) command], True)
           else (st1, [Eff_Group request None command], True))"

definition toggle_staged :: "app_state \<Rightarrow> device_id \<Rightarrow> outcome" where
  "toggle_staged st i =
     (let staged = (if i \<in> staged_receivers st then staged_receivers st - {i}
                    else insert i (staged_receivers st))
      in (fst (prune_irrelevant_unavailable (st\<lparr>staged_receivers := staged\<rparr>)), [], True))"

definition apply_staged :: "app_state \<Rightarrow> outcome" where
  "apply_staged st =
     (if desired_known st
      then group_requested st (Group_ApplySelection (sorted_ids (staged_receivers st)))
      else
        let st1 = st\<lparr>desired_revision := desired_revision st + 1,
                     desired_receivers := staged_receivers st,
                     staged_base_revision := desired_revision st + 1\<rparr>;
            st2 = fst (prune_irrelevant_unavailable st1)
        in if \<not> is_running (stream st2) then (st2, [], True)
           else if desired_receivers st2 = {}
           then let st3 = next_session st2
                in (st3, [Eff_StopSession (g_session (generations st3))], True)
           else let receiver_ids = available_selected_ids st2
                in if receiver_ids = [] then (st2, [], True)
                   else let st3 = next_session st2
                        in (st3, [Eff_StartSession (g_session (generations st3)) receiver_ids
                                   (master_volume st3)], True))"

definition start_with_receiver_ids :: "app_state \<Rightarrow> device_id list \<Rightarrow> outcome" where
  "start_with_receiver_ids st receiver_ids =
     (let st1 = next_session st; generation = g_session (generations st1)
      in (st1\<lparr>stream := Stream_Starting generation, active_receivers := {}\<rparr>,
          [Eff_StartSession generation receiver_ids
             (f32_clamp (master_volume st1) f32_zero f32_one)], True))"

definition start_requested :: "app_state \<Rightarrow> outcome" where
  "start_requested st =
     (if shutting_down st \<or> \<not> is_stopped_or_failed (stream st) then (st, [], False)
      else
        let receiver_ids = available_selected_ids st
        in if receiver_ids = [] then (st, [], False)
           else if desired_known st
           then start_with_receiver_ids st (sorted_ids (desired_receivers st))
           else start_with_receiver_ids st receiver_ids)"

definition stop_requested :: "app_state \<Rightarrow> outcome" where
  "stop_requested st =
     (if \<not> is_running (stream st) then (st, [], False)
      else let st1 = next_session st; generation = g_session (generations st1)
           in (st1\<lparr>stream := Stream_Stopping generation, active_receivers := {}\<rparr>,
               [Eff_StopSession generation], True))"

definition clear_session_failure_notice :: "app_state \<Rightarrow> app_state \<times> bool" where
  "clear_session_failure_notice st =
     (if is_some_and (notice st) (\<lambda>n. un_code n = Code_SessionFailed)
      then (st\<lparr>notice := None\<rparr>, True) else (st, False))"

definition session_started :: "app_state \<Rightarrow> generation_id \<Rightarrow> device_id list \<Rightarrow> outcome" where
  "session_started st generation ids =
     (if generation \<noteq> g_session (generations st) then (st, [], False)
      else
        let (st1, retracts) = clear_session_failure_notice st
        in (st1\<lparr>stream := Stream_Streaming generation, active_receivers := set ids\<rparr>, [],
            stream st1 \<noteq> Stream_Streaming generation \<or> active_receivers st1 \<noteq> set ids
            \<or> retracts))"

definition session_degraded :: "app_state \<Rightarrow> generation_id \<Rightarrow> device_id list \<Rightarrow> outcome" where
  "session_degraded st generation ids =
     (if generation \<noteq> g_session (generations st) then (st, [], False)
      else
        let (st1, retracts) = clear_session_failure_notice st
        in (st1\<lparr>stream := Stream_Degraded generation, active_receivers := set ids\<rparr>, [],
            stream st1 \<noteq> Stream_Degraded generation \<or> active_receivers st1 \<noteq> set ids
            \<or> retracts))"

definition session_restarting :: "app_state \<Rightarrow> generation_id \<Rightarrow> outcome" where
  "session_restarting st generation =
     (if generation \<noteq> g_session (generations st) then (st, [], False)
      else (st\<lparr>stream := Stream_Restarting generation, active_receivers := {}\<rparr>, [],
            stream st \<noteq> Stream_Restarting generation \<or> active_receivers st \<noteq> {}))"

definition session_stopped :: "app_state \<Rightarrow> generation_id \<Rightarrow> outcome" where
  "session_stopped st generation =
     (if generation \<noteq> g_session (generations st) then (st, [], False)
      else (st\<lparr>stream := Stream_Stopped, active_receivers := {}\<rparr>, [],
            stream st \<noteq> Stream_Stopped \<or> active_receivers st \<noteq> {}))"

definition session_failed :: "app_state \<Rightarrow> generation_id \<Rightarrow> string \<Rightarrow> outcome" where
  "session_failed st generation summary =
     (if generation \<noteq> g_session (generations st) then (st, [], False)
      else
        let n = \<lparr>un_severity = Sev_Error, un_code = Code_SessionFailed, un_summary = summary,
                 un_action = Some Act_Retry\<rparr>
        in (st\<lparr>stream := Stream_Stopped, active_receivers := {}, notice := Some n\<rparr>, [],
            stream st \<noteq> Stream_Stopped \<or> active_receivers st \<noteq> {} \<or> notice st \<noteq> Some n))"

definition diagnostics_updated :: "app_state \<Rightarrow> diagnostics_reading \<Rightarrow> outcome" where
  "diagnostics_updated st reading =
     (if diagnostics st = Some reading then (st, [], False)
      else (st\<lparr>diagnostics := Some reading\<rparr>, [], True))"

definition channel_closed :: "app_state \<Rightarrow> string \<Rightarrow> outcome" where
  "channel_closed st summary =
     (let st0 = st\<lparr>controller_closed := True\<rparr>;
          volume_changed = volume_pending st0;
          st1 = (if volume_pending st0
                 then st0\<lparr>master_volume := (case confirmed_master_volume st0 of
                             Some confirmed \<Rightarrow> confirmed | None \<Rightarrow> master_volume st0),
                          volume_pending := False\<rparr>
                 else st0);
          operation_changed = group_operation_pending st1;
          st2 = (if operation_changed
                 then st1\<lparr>group_operation := map_option
                        (\<lambda>operation. operation\<lparr>op_status := Op_Failed Failure_Closed\<rparr>)
                        (group_operation st1)\<rparr>
                 else st1);
          n = \<lparr>un_severity = Sev_Error, un_code = Code_ControllerUnavailable,
               un_summary = summary, un_action = None\<rparr>
      in (st2\<lparr>notice := Some n\<rparr>, [],
          volume_changed \<or> operation_changed \<or> notice st2 \<noteq> Some n))"

definition discard_staged :: "app_state \<Rightarrow> outcome" where
  "discard_staged st =
     (if group_operation_pending st then (st, [], False)
      else
        let acknowledged = is_some_and (group_operation st)
              (\<lambda>operation. case op_command operation of Group_ApplySelection _ \<Rightarrow> True | _ \<Rightarrow> False);
            st1 = (if acknowledged then st\<lparr>group_operation := None\<rparr> else st);
            membership_changed = (staged_receivers st1 \<noteq> desired_receivers st1
              \<or> staged_base_revision st1 \<noteq> desired_revision st1);
            st2 = st1\<lparr>staged_receivers := desired_receivers st1,
                      staged_base_revision := desired_revision st1\<rparr>;
            (st3, inventory_changed) = prune_irrelevant_unavailable st2
        in (st3, [], membership_changed \<or> inventory_changed \<or> acknowledged))"

section \<open>Discovery\<close>

text \<open>One step of the first loop of \<open>merge_discovery\<close>: the better of two rows for an identity.\<close>

fun merge_incoming :: "receiver_state list \<Rightarrow> receiver_state \<Rightarrow> receiver_state list" where
  "merge_incoming [] receiver = [receiver]"
| "merge_incoming (existing # rest) receiver =
     (if rs_id existing = rs_id receiver
      then (if receiver_precedes receiver existing then receiver # rest else existing # rest)
      else existing # merge_incoming rest receiver)"

text \<open>One step of the second loop: a vanished row that is still selected stays, as unavailable.\<close>

definition merge_previous ::
    "app_state \<Rightarrow> receiver_state list \<Rightarrow> receiver_state \<Rightarrow> receiver_state list" where
  "merge_previous st merged previous =
     (let is_missing = (\<forall>receiver \<in> set merged. rs_id receiver \<noteq> rs_id previous);
          is_relevant = (rs_id previous \<in> desired_receivers st
                         \<or> rs_id previous \<in> staged_receivers st)
      in if is_missing \<and> is_relevant
         then merged @ [previous\<lparr>rs_availability := Unavailable\<rparr>] else merged)"

definition merged_receivers :: "app_state \<Rightarrow> receiver_state list \<Rightarrow> receiver_state list" where
  "merged_receivers st incoming =
     sort_key rs_id (foldl (merge_previous st) (foldl merge_incoming [] incoming) (receivers st))"

definition is_discovery_failed_notice :: "user_notice \<Rightarrow> bool" where
  "is_discovery_failed_notice n \<longleftrightarrow> un_code n = Code_DiscoveryFailed"

definition merge_discovery :: "app_state \<Rightarrow> generation_id \<Rightarrow> receiver_state list \<Rightarrow> outcome" where
  "merge_discovery st generation incoming =
     (if generation \<noteq> g_discovery (generations st) then (st, [], False)
      else
        let merged = merged_receivers st incoming;
            retracts = is_some_and (notice st) is_discovery_failed_notice
        in (st\<lparr>discovery := Disc_Ready, receivers := merged,
               notice := (if retracts then None else notice st)\<rparr>, [],
            discovery st \<noteq> Disc_Ready \<or> receivers st \<noteq> merged \<or> retracts))"

definition discovery_failed :: "app_state \<Rightarrow> generation_id \<Rightarrow> string \<Rightarrow> outcome" where
  "discovery_failed st generation summary =
     (if generation \<noteq> g_discovery (generations st) then (st, [], False)
      else
        let n = \<lparr>un_severity = Sev_Warning, un_code = Code_DiscoveryFailed,
                 un_summary = summary, un_action = Some Act_Refresh\<rparr>
        in (st\<lparr>discovery := Disc_Failed summary, notice := Some n\<rparr>, [],
            discovery st \<noteq> Disc_Failed summary \<or> notice st \<noteq> Some n))"

definition update_desired :: "app_state \<Rightarrow> u64 \<Rightarrow> device_id list \<Rightarrow> outcome" where
  "update_desired st new_revision ids =
     (if new_revision < desired_revision st
         \<or> (desired_known st \<and> new_revision = desired_revision st)
      then (st, [], False)
      else
        let staging_was_clean = (staged_receivers st = desired_receivers st);
            st1 = st\<lparr>desired_known := True, desired_receivers := set ids,
                     desired_revision := new_revision\<rparr>;
            st2 = (if staging_was_clean \<or> staged_receivers st1 = desired_receivers st1
                   then st1\<lparr>staged_receivers := desired_receivers st1,
                            staged_base_revision := new_revision\<rparr>
                   else st1)
        in (fst (prune_irrelevant_unavailable st2), [], True))"

section \<open>Settings\<close>

definition navigate :: "app_state \<Rightarrow> page_t \<Rightarrow> outcome" where
  "navigate st p = (if page st = p then (st, [], False) else persisted_change (st\<lparr>page := p\<rparr>))"

definition theme_changed :: "app_state \<Rightarrow> theme_preference \<Rightarrow> outcome" where
  "theme_changed st t = (if theme st = t then (st, [], False) else persisted_change (st\<lparr>theme := t\<rparr>))"

definition locale_changed :: "app_state \<Rightarrow> locale_preference_t \<Rightarrow> outcome" where
  "locale_changed st preference =
     (if locale_preference st = preference then (st, [], False)
      else persisted_change (st\<lparr>locale_preference := preference,
             resolved_locale := locale_resolve preference (windows_display_locale st)\<rparr>))"

definition advanced_information_changed :: "app_state \<Rightarrow> bool \<Rightarrow> outcome" where
  "advanced_information_changed st enabled =
     (if advanced_information st = enabled then (st, [], False)
      else persisted_change (st\<lparr>advanced_information := enabled\<rparr>))"

definition windows_display_language_changed :: "app_state \<Rightarrow> resolved_locale_t \<Rightarrow> outcome" where
  "windows_display_language_changed st loc =
     (let st1 = st\<lparr>windows_display_locale := loc\<rparr>;
          resolved = locale_resolve (locale_preference st1) loc
      in (st1\<lparr>resolved_locale := resolved\<rparr>, [], resolved_locale st1 \<noteq> resolved))"

definition window_geometry_changed :: "app_state \<Rightarrow> window_geometry \<Rightarrow> outcome" where
  "window_geometry_changed st geometry =
     (case geometry_validate geometry of
        None \<Rightarrow> reject_invalid_input st
                  ''Window geometry was ignored because it contains invalid values.''
      | Some valid \<Rightarrow>
          if geometry_eq (ws_geometry (window st)) valid then (st, [], False)
          else persisted_change (st\<lparr>window := (window st)\<lparr>ws_geometry := valid\<rparr>\<rparr>))"

definition master_volume_changed :: "app_state \<Rightarrow> f32 \<Rightarrow> outcome" where
  "master_volume_changed st volume =
     (if \<not> f32_is_finite volume
      then reject_invalid_input st ''Master volume must be between 0% and 100%.''
      else
        let clamped = f32_clamp volume f32_zero f32_one;
            st1 = next_volume st;
            generation = g_volume (generations st1);
            st2 = (if \<not> volume_pending st1
                   then st1\<lparr>confirmed_master_volume := Some (master_volume st1)\<rparr> else st1)
        in (st2\<lparr>volume_pending := True, master_volume := clamped\<rparr>,
            [Eff_ApplyVolume generation clamped], \<not> f32_eq (master_volume st2) clamped))"

definition receiver_level_requested :: "app_state \<Rightarrow> device_id \<Rightarrow> f32 \<Rightarrow> outcome" where
  "receiver_level_requested st receiver level =
     (if shutting_down st \<or> receiver_levels st = None \<or> \<not> f32_is_finite level
         \<or> (\<forall>row \<in> set (receivers st). rs_id row \<noteq> receiver)
      then (st, [], False)
      else (st, [Eff_ApplyReceiverLevel receiver (f32_clamp level f32_zero f32_one)], False))"

definition mute_change_requested :: "app_state \<Rightarrow> bool \<Rightarrow> outcome" where
  "mute_change_requested st m =
     (if muted st = Some m then (st, [], False) else (st, [Eff_ApplyMute m], False))"

definition latency_choice_requested :: "app_state \<Rightarrow> latency_choice \<Rightarrow> outcome" where
  "latency_choice_requested st choice =
     (case latency st of
        None \<Rightarrow> (st, [], False)
      | Some reading \<Rightarrow>
          if \<not> (\<exists>option \<in> set (lr_options reading).
                   lo_choice option = choice \<and> lo_unavailable option = None)
          then (st, [], False)
          else if lr_selected reading = choice then (st, [], False)
          else (st, [Eff_ApplyLatency choice], False))"

definition audio_endpoint_requested :: "app_state \<Rightarrow> audio_endpoint_request \<Rightarrow> outcome" where
  "audio_endpoint_requested st request =
     (case audio_source st of
        None \<Rightarrow> (st, [], False)
      | Some reading \<Rightarrow>
          (case (case request of
                   Req_SystemDefault \<Rightarrow> Some Sel_SystemDefault
                 | Req_Endpoint key \<Rightarrow>
                     if \<exists>choice \<in> set (as_endpoints reading). ae_key choice = key
                     then Some (Sel_Chosen key) else None) of
             None \<Rightarrow> (st, [], False)
           | Some selection \<Rightarrow>
               if as_selection reading = selection then (st, [], False)
               else (st, [Eff_ApplyAudioEndpoint request], False)))"

definition mute_changed :: "app_state \<Rightarrow> bool \<Rightarrow> outcome" where
  "mute_changed st m = (st\<lparr>muted := Some m\<rparr>, [], muted st \<noteq> Some m)"

definition latency_changed :: "app_state \<Rightarrow> latency_reading \<Rightarrow> outcome" where
  "latency_changed st reading =
     (st\<lparr>latency := Some reading\<rparr>, [], latency st \<noteq> Some reading)"

definition audio_source_changed :: "app_state \<Rightarrow> audio_source_reading \<Rightarrow> outcome" where
  "audio_source_changed st reading =
     (st\<lparr>audio_source := Some reading\<rparr>, [], audio_source st \<noteq> Some reading)"

definition hotkey_changed :: "app_state \<Rightarrow> hotkey_binding \<Rightarrow> outcome" where
  "hotkey_changed st b =
     (if hotkey st = b then (st, [], False)
      else let st1 = next_hotkey st
           in (st1, [Eff_ReconfigureHotkey (g_hotkey (generations st1)) b], False))"

definition hotkey_reconfigured ::
    "app_state \<Rightarrow> generation_id \<Rightarrow> hotkey_binding \<Rightarrow> string option \<Rightarrow> outcome" where
  "hotkey_reconfigured st generation applied failure =
     (if generation \<noteq> g_hotkey (generations st) then (st, [], False)
      else
        let st1 = st\<lparr>hotkey := applied\<rparr>;
            changed1 = (hotkey st \<noteq> applied);
            (st2, changed2) =
              (case failure of
                 None \<Rightarrow> (st1, changed1)
               | Some summary \<Rightarrow>
                   let n = \<lparr>un_severity = Sev_Warning, un_code = Code_HotkeyFailed,
                            un_summary = summary, un_action = Some Act_OpenSettings\<rparr>
                   in (st1\<lparr>notice := Some n\<rparr>, changed1 \<or> notice st1 \<noteq> Some n))
        in if \<not> changed2 then (st2, [], False) else persisted_change st2)"

definition preferences_persist_failed_notice :: user_notice where
  "preferences_persist_failed_notice =
     \<lparr>un_severity = Sev_Warning, un_code = Code_PreferencesFailed,
      un_summary = ''Your settings could not be saved.'',
      un_action = Some Act_RetryPreferencesPersistence\<rparr>"

definition is_scoped_persistence_notice :: "user_notice \<Rightarrow> bool" where
  "is_scoped_persistence_notice n \<longleftrightarrow>
     un_code n = Code_PreferencesFailed \<and> un_action n = Some Act_RetryPreferencesPersistence"

definition outranks_persistence_failure :: "user_notice \<Rightarrow> bool" where
  "outranks_persistence_failure n \<longleftrightarrow> un_severity n = Sev_Error"

definition preferences_persist_failed :: "app_state \<Rightarrow> generation_id \<Rightarrow> outcome" where
  "preferences_persist_failed st generation =
     (if generation \<noteq> g_preferences (generations st) then (st, [], False)
      else if is_some_and (notice st) outranks_persistence_failure then (st, [], False)
      else (st\<lparr>notice := Some preferences_persist_failed_notice\<rparr>, [],
            notice st \<noteq> Some preferences_persist_failed_notice))"

definition preferences_persisted :: "app_state \<Rightarrow> generation_id \<Rightarrow> outcome" where
  "preferences_persisted st generation =
     (if generation \<noteq> g_preferences (generations st) then (st, [], False)
      else if \<not> is_some_and (notice st) is_scoped_persistence_notice then (st, [], False)
      else (st\<lparr>notice := None\<rparr>, [], True))"

definition retry_preferences_persistence :: "app_state \<Rightarrow> outcome" where
  "retry_preferences_persistence st =
     (let (st', effect) = persist_preferences st in (st', [effect], False))"

section \<open>Window, hotkey, quit\<close>

definition main_window_close_requested :: "app_state \<Rightarrow> outcome" where
  "main_window_close_requested st =
     (st\<lparr>window := (window st)\<lparr>ws_visible := False\<rparr>\<rparr>, [Eff_HideMainWindow],
      ws_visible (window st))"

definition show_main_window :: "app_state \<Rightarrow> outcome" where
  "show_main_window st =
     (st\<lparr>window := (window st)\<lparr>ws_visible := True\<rparr>\<rparr>, [Eff_ShowMainWindow],
      \<not> ws_visible (window st))"

definition no_receiver_notice :: user_notice where
  "no_receiver_notice =
     \<lparr>un_severity = Sev_Warning, un_code = Code_NoReceiverAvailable,
      un_summary = ''No AirPlay receiver is available right now.'',
      un_action = Some Act_Refresh\<rparr>"

text \<open>
  The last part of \<open>global_hotkey_pressed\<close>: start when an available receiver is selected,
  otherwise say that none is available.
\<close>

definition hotkey_start_or_warn :: "app_state \<Rightarrow> outcome" where
  "hotkey_start_or_warn st =
     (if available_selected_ids st = []
      then (st\<lparr>notice := Some no_receiver_notice\<rparr>, [], notice st \<noteq> Some no_receiver_notice)
      else start_requested st)"

definition global_hotkey_pressed :: "(string \<Rightarrow> string) \<Rightarrow> app_state \<Rightarrow> outcome" where
  "global_hotkey_pressed lc st =
     (if shutting_down st then (st, [], False)
      else if is_starting_or_streaming (stream st) then stop_requested st
      else if available_selected_ids st = [] \<and> desired_receivers st = {} then
        (if desired_known st then
           (if is_stopped_or_failed (stream st)
            then (case first_available_receiver lc st of
                    Some candidate \<Rightarrow> start_with_receiver_ids st [candidate]
                  | None \<Rightarrow> hotkey_start_or_warn st)
            else hotkey_start_or_warn st)
         else hotkey_start_or_warn (fst (select_first_available_receiver lc st)))
      else hotkey_start_or_warn st)"

definition refresh_requested :: "app_state \<Rightarrow> outcome" where
  "refresh_requested st =
     (if shutting_down st then (st, [], False)
      else let st1 = next_discovery st; generation = g_discovery (generations st1)
           in (st1\<lparr>discovery := Disc_Discovering generation\<rparr>, [Eff_Discover generation], True))"

definition quit_requested :: "app_state \<Rightarrow> outcome" where
  "quit_requested st =
     (if shutting_down st then (st, [], False)
      else
        let (st1, persist) = persist_preferences (st\<lparr>shutting_down := True\<rparr>)
        in if is_running (stream st1)
           then let st2 = next_session st1; generation = g_session (generations st2)
                in (st2\<lparr>stream := Stream_Stopping generation, active_receivers := {}\<rparr>,
                    [persist, Eff_StopSession generation, Eff_HideMainWindow,
                     Eff_BeginShutdown], True)
           else (st1, [persist, Eff_HideMainWindow, Eff_BeginShutdown], True))"

section \<open>The listening check inside the reducer\<close>

definition hc_stop_pending :: "app_state \<Rightarrow> bool option \<Rightarrow> outcome" where
  "hc_stop_pending st verdict =
     (let (st1, effects, changed) = stop_requested st
      in (st1\<lparr>hardware_check := (hardware_check st1)\<lparr>hc_phase := Ph_StopPending,
                hc_generation := Some (g_session (generations st1)),
                hc_outcome := verdict\<rparr>\<rparr>, effects, changed))"

definition hardware_check_requested :: "app_state \<Rightarrow> hardware_check_action \<Rightarrow> outcome" where
  "hardware_check_requested st action =
     (if shutting_down st then (st, [], False)
      else case action of
        HC_Open \<Rightarrow> (st\<lparr>page := Page_Diagnostics\<rparr>, [], True)
      | HC_Prepare value \<Rightarrow>
          (st\<lparr>hardware_check := (hardware_check st)\<lparr>hc_prepared := value\<rparr>\<rparr>, [], True)
      | HC_LowerVolume \<Rightarrow> master_volume_changed st f32_0_10
      | HC_Start \<Rightarrow>
          if \<not> hs_ready (hc_snapshot st) \<or> \<not> hc_prepared (hardware_check st)
          then (st, [], False)
          else let (st1, effects, changed) = start_requested st
               in (st1\<lparr>hardware_check := hc_bind (hardware_check st1) st1\<rparr>, effects, changed)
      | HC_Heard heard \<Rightarrow>
          if \<not> hs_can_confirm (hc_snapshot st) then (st, [], False)
          else hc_stop_pending st (Some heard)
      | HC_Cancel \<Rightarrow>
          if hc_phase (hardware_check st) \<notin> {Ph_Connecting, Ph_Listening} then (st, [], False)
          else hc_stop_pending st None)"

record hc_observation =
  ob_configuration_request :: bool
  ob_fault_generation :: "generation_id option"
  ob_stopped_generation :: "generation_id option"

fun is_configuration_request :: "app_event \<Rightarrow> bool" where
  "is_configuration_request (Ev_MasterVolumeChanged _) = True"
| "is_configuration_request (Ev_ReceiverLevelRequested _ _) = True"
| "is_configuration_request (Ev_MuteChangeRequested _) = True"
| "is_configuration_request (Ev_LatencyChoiceRequested _) = True"
| "is_configuration_request (Ev_AudioEndpointRequested _) = True"
| "is_configuration_request (Ev_GroupRequested _) = True"
| "is_configuration_request (Ev_ToggleStagedReceiver _) = True"
| "is_configuration_request (Ev_HardwareCheck HC_LowerVolume) = True"
| "is_configuration_request _ = False"

definition observation_from_event :: "app_event \<Rightarrow> hc_observation" where
  "observation_from_event event =
     \<lparr>ob_configuration_request = is_configuration_request event,
      ob_fault_generation =
        (case event of
           Ev_Controller (Ctl_SessionFailed generation _) \<Rightarrow> Some generation
         | Ev_Controller (Ctl_SessionRestarting generation) \<Rightarrow> Some generation
         | Ev_Controller (Ctl_SessionDegraded generation _) \<Rightarrow> Some generation
         | _ \<Rightarrow> None),
      ob_stopped_generation =
        (case event of
           Ev_Controller (Ctl_SessionStopped generation) \<Rightarrow> Some generation
         | _ \<Rightarrow> None)\<rparr>"

text \<open>
  The branch that aborts a running check: stop whatever runs, make sure a stop is on its way, and
  wait for its acknowledgement.
\<close>

definition hc_abort :: "app_state \<Rightarrow> app_state \<times> app_effect list" where
  "hc_abort st =
     (let st0 = st\<lparr>hardware_check := (hardware_check st)\<lparr>hc_outcome := None\<rparr>\<rparr>;
          (st1, stop, _) = stop_requested st0;
          (st2, more) =
            (if is_stopping (stream st1) then (st1, [])
             else let st' = next_session st1; generation = g_session (generations st')
                  in (st'\<lparr>stream := Stream_Stopping generation\<rparr>, [Eff_StopSession generation]))
      in (st2\<lparr>hardware_check := (hardware_check st2)\<lparr>hc_phase := Ph_StopPending,
                hc_generation := Some (g_session (generations st2))\<rparr>\<rparr>, stop @ more))"

definition observe_connecting :: "app_state \<Rightarrow> hc_observation \<Rightarrow> app_state \<times> app_effect list" where
  "observe_connecting st event =
     (let check = hardware_check st
      in if ob_configuration_request event \<or> \<not> hc_matches check st
            \<or> hc_generation check \<noteq> Some (g_session (generations st))
            \<or> \<not> is_starting_or_streaming (stream st)
         then hc_abort st
         else if is_streaming (stream st) \<and> active_receivers st = desired_receivers st
         then (st\<lparr>hardware_check := check\<lparr>hc_phase := Ph_Listening\<rparr>\<rparr>,
               if hc_phase check = Ph_Connecting
               then [Eff_PlayListeningTone (g_session (generations st))] else [])
         else (st, []))"

definition observe_stop_pending :: "app_state \<Rightarrow> hc_observation \<Rightarrow> bool \<Rightarrow> app_state" where
  "observe_stop_pending st event matching_fault =
     (let check = hardware_check st;
          check1 = (if ob_configuration_request event \<or> matching_fault \<or> \<not> hc_matches check st
                    then check\<lparr>hc_outcome := None\<rparr> else check);
          check2 =
            (if ob_stopped_generation event \<noteq> None
                \<and> ob_stopped_generation event = hc_generation check1
                \<and> stream st = Stream_Stopped
             then check1\<lparr>hc_phase := (case hc_outcome check1 of
                             Some True \<Rightarrow> Ph_Heard
                           | Some False \<Rightarrow> Ph_NotHeard
                           | None \<Rightarrow> Ph_Invalidated),
                         hc_prepared := False\<rparr>
             else check1)
      in st\<lparr>hardware_check := check2\<rparr>)"

definition observe_finished :: "app_state \<Rightarrow> hc_observation \<Rightarrow> bool \<Rightarrow> app_state" where
  "observe_finished st event matching_fault =
     (if ob_configuration_request event \<or> matching_fault
         \<or> \<not> hc_matches (hardware_check st) st \<or> stream st \<noteq> Stream_Stopped
      then st\<lparr>hardware_check := (hardware_check st)\<lparr>hc_phase := Ph_Invalidated\<rparr>\<rparr> else st)"

definition hc_digest ::
    "hardware_check_rec \<Rightarrow> hardware_check_phase \<times> bool option \<times> bool \<times> generation_id option" where
  "hc_digest check = (hc_phase check, hc_outcome check, hc_prepared check, hc_generation check)"

definition observe_hardware_check ::
    "app_state \<Rightarrow> hc_observation \<Rightarrow> app_effect list \<Rightarrow> outcome" where
  "observe_hardware_check st event effects =
     (let before = hc_digest (hardware_check st);
          matching_fault = (ob_fault_generation event \<noteq> None
            \<and> ob_fault_generation event = hc_generation (hardware_check st)
            \<and> ob_fault_generation event = Some (g_session (generations st)));
          (st', more) =
            (case hc_phase (hardware_check st) of
               Ph_Connecting \<Rightarrow> observe_connecting st event
             | Ph_Listening \<Rightarrow> observe_connecting st event
             | Ph_StopPending \<Rightarrow> (observe_stop_pending st event matching_fault, [])
             | Ph_Heard \<Rightarrow> (observe_finished st event matching_fault, [])
             | Ph_NotHeard \<Rightarrow> (observe_finished st event matching_fault, [])
             | Ph_Preparation \<Rightarrow> (st, [])
             | Ph_Invalidated \<Rightarrow> (st, []))
      in (st', effects @ more, before \<noteq> hc_digest (hardware_check st')))"

section \<open>Dispatch\<close>

definition saved_groups_changed :: "app_state \<Rightarrow> saved_group_reading list \<Rightarrow> outcome" where
  "saved_groups_changed st groups =
     (st\<lparr>saved_groups := Some groups\<rparr>, [],
      \<not> option_eq (list_all2 saved_group_eq) (saved_groups st) (Some groups))"

definition group_operation_finished ::
    "app_state \<Rightarrow> u64 \<Rightarrow> group_operation_status \<Rightarrow> outcome" where
  "group_operation_finished st request status =
     (case group_operation st of
        Some operation \<Rightarrow>
          if op_request operation = request \<and> op_status operation = Op_Pending
          then (st\<lparr>group_operation := Some (operation\<lparr>op_status := status\<rparr>)\<rparr>, [], True)
          else (st, [], False)
      | None \<Rightarrow> (st, [], False))"

definition receiver_levels_changed :: "app_state \<Rightarrow> receiver_level_map \<Rightarrow> outcome" where
  "receiver_levels_changed st levels =
     (st\<lparr>receiver_levels := Some levels\<rparr>, [],
      \<not> option_eq levels_eq (receiver_levels st) (Some levels))"

definition live_diagnostics_updated :: "app_state \<Rightarrow> live_diagnostics_reading \<Rightarrow> outcome" where
  "live_diagnostics_updated st reading =
     (if controller_closed st \<or> ld_generation reading \<noteq> g_session (generations st)
         \<or> live_diagnostics st = Some reading
      then (st, [], False)
      else (st\<lparr>live_diagnostics := Some reading\<rparr>, [], True))"

definition volume_applied :: "app_state \<Rightarrow> generation_id \<Rightarrow> f32 \<Rightarrow> outcome" where
  "volume_applied st generation volume =
     (let st1 = (if f32_is_finite volume
                    \<and> (generation = 0 \<or> generation = g_volume (generations st))
                 then st\<lparr>confirmed_master_volume := Some volume\<rparr> else st)
      in if f32_is_finite volume
            \<and> (generation = g_volume (generations st1) \<or> (generation = 0 \<and> \<not> volume_pending st1))
         then (st1\<lparr>master_volume := volume,
                   volume_pending := (if generation \<noteq> 0 then False else volume_pending st1)\<rparr>, [],
               \<not> f32_eq (master_volume st1) volume)
         else (st1, [], False))"

fun controller_dispatch :: "app_state \<Rightarrow> controller_event \<Rightarrow> outcome" where
  "controller_dispatch st (Ctl_SavedGroupsChanged groups) = saved_groups_changed st groups"
| "controller_dispatch st (Ctl_GroupOperationFinished request status) =
     group_operation_finished st request status"
| "controller_dispatch st (Ctl_ReceiverLevelsChanged levels) = receiver_levels_changed st levels"
| "controller_dispatch st (Ctl_DiscoveryCompleted generation rows) =
     merge_discovery st generation rows"
| "controller_dispatch st (Ctl_DiscoveryFailed generation summary) =
     discovery_failed st generation summary"
| "controller_dispatch st (Ctl_DesiredReceiversChanged new_revision ids) =
     update_desired st new_revision ids"
| "controller_dispatch st (Ctl_SessionStarted generation ids) = session_started st generation ids"
| "controller_dispatch st (Ctl_SessionDegraded generation ids) =
     session_degraded st generation ids"
| "controller_dispatch st (Ctl_SessionRestarting generation) = session_restarting st generation"
| "controller_dispatch st (Ctl_SessionStopped generation) = session_stopped st generation"
| "controller_dispatch st (Ctl_SessionFailed generation summary) =
     session_failed st generation summary"
| "controller_dispatch st (Ctl_VolumeApplied generation volume) =
     volume_applied st generation volume"
| "controller_dispatch st (Ctl_MuteChanged m) = mute_changed st m"
| "controller_dispatch st (Ctl_LatencyChanged reading) = latency_changed st reading"
| "controller_dispatch st (Ctl_AudioSourceChanged reading) = audio_source_changed st reading"
| "controller_dispatch st (Ctl_DiagnosticsUpdated reading) = diagnostics_updated st reading"
| "controller_dispatch st (Ctl_LiveDiagnosticsUpdated reading) =
     live_diagnostics_updated st reading"
| "controller_dispatch st (Ctl_ChannelClosed summary) = channel_closed st summary"

fun preferences_dispatch :: "app_state \<Rightarrow> preferences_event \<Rightarrow> outcome" where
  "preferences_dispatch st (Pref_HotkeyReconfigured generation applied failure) =
     hotkey_reconfigured st generation applied failure"
| "preferences_dispatch st (Pref_Persisted generation) = preferences_persisted st generation"
| "preferences_dispatch st (Pref_PersistFailed generation) =
     preferences_persist_failed st generation"
| "preferences_dispatch st (Pref_Loaded _ _) = (st, [], False)"
| "preferences_dispatch st (Pref_LoadFailed _) = (st, [], False)"

fun dispatch :: "(string \<Rightarrow> string) \<Rightarrow> app_state \<Rightarrow> app_event \<Rightarrow> outcome" where
  "dispatch lc st (Ev_HardwareCheck action) = hardware_check_requested st action"
| "dispatch lc st (Ev_GroupRequested command) = group_requested st command"
| "dispatch lc st (Ev_ToggleStagedReceiver i) = toggle_staged st i"
| "dispatch lc st Ev_ApplyStagedReceivers = apply_staged st"
| "dispatch lc st Ev_DiscardStagedReceivers = discard_staged st"
| "dispatch lc st Ev_StartRequested = start_requested st"
| "dispatch lc st Ev_StopRequested = stop_requested st"
| "dispatch lc st (Ev_Navigate p) = navigate st p"
| "dispatch lc st Ev_MainWindowCloseRequested = main_window_close_requested st"
| "dispatch lc st Ev_ShowMainWindow = show_main_window st"
| "dispatch lc st Ev_GlobalHotkeyPressed = global_hotkey_pressed lc st"
| "dispatch lc st Ev_RefreshRequested = refresh_requested st"
| "dispatch lc st (Ev_MasterVolumeChanged volume) = master_volume_changed st volume"
| "dispatch lc st (Ev_ReceiverLevelRequested i level) = receiver_level_requested st i level"
| "dispatch lc st (Ev_MuteChangeRequested m) = mute_change_requested st m"
| "dispatch lc st (Ev_LatencyChoiceRequested choice) = latency_choice_requested st choice"
| "dispatch lc st (Ev_AudioEndpointRequested request) = audio_endpoint_requested st request"
| "dispatch lc st (Ev_ThemeChanged t) = theme_changed st t"
| "dispatch lc st (Ev_LocaleChanged preference) = locale_changed st preference"
| "dispatch lc st (Ev_AdvancedInformationChanged enabled) =
     advanced_information_changed st enabled"
| "dispatch lc st (Ev_WindowsDisplayLanguageChanged loc) =
     windows_display_language_changed st loc"
| "dispatch lc st Ev_RetryPreferencesPersistence = retry_preferences_persistence st"
| "dispatch lc st (Ev_HotkeyChanged b) = hotkey_changed st b"
| "dispatch lc st (Ev_WindowGeometryChanged geometry) = window_geometry_changed st geometry"
| "dispatch lc st (Ev_Controller event) = controller_dispatch st event"
| "dispatch lc st (Ev_Preferences event) = preferences_dispatch st event"
| "dispatch lc st Ev_QuitRequested = quit_requested st"

definition finish :: "app_state \<Rightarrow> app_effect list \<Rightarrow> bool \<Rightarrow> outcome" where
  "finish st effects changed =
     (if changed then st\<lparr>revision := revision st + 1\<rparr> else st, effects, changed)"

text \<open>The guard at the top of \<open>reduce\<close>: nothing may start while a check waits for its stop.\<close>

fun starts_playback :: "app_event \<Rightarrow> bool" where
  "starts_playback Ev_StartRequested = True"
| "starts_playback Ev_GlobalHotkeyPressed = True"
| "starts_playback (Ev_GroupRequested (Group_Apply _ start)) = start"
| "starts_playback _ = False"

definition reduce :: "(string \<Rightarrow> string) \<Rightarrow> app_state \<Rightarrow> app_event \<Rightarrow> outcome" where
  "reduce lc st event =
     (if hc_phase (hardware_check st) = Ph_StopPending \<and> starts_playback event
      then finish st [] False
      else
        let check_before = hc_snapshot st;
            (st1, effects1, changed1) = dispatch lc st event;
            (st2, effects2, check_changed) =
              observe_hardware_check st1 (observation_from_event event) effects1
        in finish st2 effects2 (changed1 \<or> check_changed \<or> check_before \<noteq> hc_snapshot st2))"

section \<open>Automation\<close>

lemmas [handler_defs] =
  next_session_def next_discovery_def next_volume_def next_preferences_def next_hotkey_def
  persist_preferences_def persisted_change_def reject_invalid_input_def
  select_first_available_receiver_def prune_irrelevant_unavailable_def group_requested_def
  toggle_staged_def apply_staged_def start_with_receiver_ids_def start_requested_def
  stop_requested_def clear_session_failure_notice_def session_started_def session_degraded_def
  session_restarting_def session_stopped_def session_failed_def diagnostics_updated_def
  channel_closed_def discard_staged_def merge_discovery_def discovery_failed_def
  update_desired_def navigate_def theme_changed_def locale_changed_def
  advanced_information_changed_def windows_display_language_changed_def
  window_geometry_changed_def master_volume_changed_def receiver_level_requested_def
  mute_change_requested_def latency_choice_requested_def audio_endpoint_requested_def
  mute_changed_def latency_changed_def audio_source_changed_def hotkey_changed_def
  hotkey_reconfigured_def preferences_persist_failed_def preferences_persisted_def
  retry_preferences_persistence_def main_window_close_requested_def show_main_window_def
  hotkey_start_or_warn_def global_hotkey_pressed_def refresh_requested_def quit_requested_def
  hc_stop_pending_def hardware_check_requested_def saved_groups_changed_def
  group_operation_finished_def receiver_levels_changed_def live_diagnostics_updated_def
  volume_applied_def

lemmas observer_defs =
  observe_hardware_check_def observe_connecting_def observe_stop_pending_def
  observe_finished_def hc_abort_def stop_requested_def next_session_def Let_def

lemmas outcome_splits =
  option.split prod.split hardware_check_action.split hardware_check_phase.split

end
