(* ===== verification/Snapshot.thy ===== *)
theory Snapshot
  imports Reducer
begin

text \<open>
  The immutable projection the window renders (\<open>UiSnapshot::from_state\<close>, \<open>app/snapshot.rs\<close>), the
  state the shell starts in (\<open>initial_state\<close>, \<open>app/mod.rs\<close>) and the actor that owns the state,
  reduces events, executes effects and publishes a new projection exactly when the reducer says
  it changed (\<open>run_actor\<close>, \<open>app_handle.rs\<close>).
\<close>

record window_snapshot =
  wsn_visible :: bool
  wsn_geometry :: window_geometry
  wsn_close_to_tray :: bool

datatype discovery_snapshot_t =
  DSnap_Idle | DSnap_Discovering | DSnap_Ready | DSnap_Failed string

record receiver_snapshot =
  rsn_id :: device_id
  rsn_name :: string
  rsn_model :: string
  rsn_availability :: availability

datatype stream_snapshot_t =
    SSnap_Stopped
  | SSnap_Starting generation_id
  | SSnap_Streaming generation_id
  | SSnap_Degraded generation_id
  | SSnap_Restarting generation_id
  | SSnap_Stopping generation_id
  | SSnap_Failed generation_id string

record ui_snapshot =
  ui_revision :: u64
  ui_saved_groups :: "saved_group_reading list option"
  ui_group_operation :: "group_operation_rec option"
  ui_desired_revision :: u64
  ui_page :: page_t
  ui_window :: window_snapshot
  ui_discovery :: discovery_snapshot_t
  ui_receivers :: "receiver_snapshot list"
  ui_desired_receivers :: "device_id list"
  ui_staged_receivers :: "device_id list"
  ui_staged_membership_dirty :: bool
  ui_staged_membership_stale :: bool
  ui_active_receivers :: "device_id list"
  ui_stream :: stream_snapshot_t
  ui_master_volume :: f32
  ui_receiver_levels :: "receiver_level_map option"
  ui_theme :: theme_preference
  ui_locale_preference :: locale_preference_t
  ui_resolved_locale :: resolved_locale_t
  ui_advanced_information :: bool
  ui_hotkey :: hotkey_binding
  ui_notice :: "user_notice option"
  ui_muted :: "bool option"
  ui_latency :: "latency_reading option"
  ui_audio_source :: "audio_source_reading option"
  ui_diagnostics :: "diagnostics_reading option"
  ui_live_diagnostics :: "live_diagnostics_reading option"
  ui_hardware_check :: hardware_check_snapshot
  ui_can_start :: bool
  ui_can_stop :: bool
  ui_shutting_down :: bool

fun discovery_snapshot :: "discovery_state \<Rightarrow> discovery_snapshot_t" where
  "discovery_snapshot Disc_Idle = DSnap_Idle"
| "discovery_snapshot (Disc_Discovering _) = DSnap_Discovering"
| "discovery_snapshot Disc_Ready = DSnap_Ready"
| "discovery_snapshot (Disc_Failed summary) = DSnap_Failed summary"

fun stream_snapshot :: "stream_state \<Rightarrow> stream_snapshot_t" where
  "stream_snapshot Stream_Stopped = SSnap_Stopped"
| "stream_snapshot (Stream_Starting g) = SSnap_Starting g"
| "stream_snapshot (Stream_Streaming g) = SSnap_Streaming g"
| "stream_snapshot (Stream_Degraded g) = SSnap_Degraded g"
| "stream_snapshot (Stream_Restarting g) = SSnap_Restarting g"
| "stream_snapshot (Stream_Stopping g) = SSnap_Stopping g"
| "stream_snapshot (Stream_Failed g summary) = SSnap_Failed g summary"

definition receiver_row :: "receiver_state \<Rightarrow> receiver_snapshot" where
  "receiver_row r = \<lparr>rsn_id = rs_id r, rsn_name = rs_name r, rsn_model = rs_model r,
     rsn_availability = rs_availability r\<rparr>"

definition live_view :: "app_state \<Rightarrow> live_diagnostics_reading option" where
  "live_view st =
     (case live_diagnostics st of
        None \<Rightarrow> None
      | Some reading \<Rightarrow>
          if \<not> controller_closed st \<and> ld_generation reading = g_session (generations st)
          then Some reading else None)"

definition from_state :: "(string \<Rightarrow> string) \<Rightarrow> app_state \<Rightarrow> ui_snapshot" where
  "from_state lc st =
     (let dirty = (staged_receivers st \<noteq> desired_receivers st);
          has_available_desired_receiver =
            (\<exists>r \<in> set (receivers st).
               rs_availability r = Available \<and> rs_id r \<in> desired_receivers st)
      in \<lparr>ui_revision = revision st,
          ui_saved_groups = saved_groups st,
          ui_group_operation = group_operation st,
          ui_desired_revision = desired_revision st,
          ui_page = page st,
          ui_window = \<lparr>wsn_visible = ws_visible (window st),
                       wsn_geometry = ws_geometry (window st),
                       wsn_close_to_tray = ws_close_to_tray (window st)\<rparr>,
          ui_discovery = discovery_snapshot (discovery st),
          ui_receivers = sort_key (\<lambda>row. (lc (rsn_name row), rsn_id row))
                           (map receiver_row (receivers st)),
          ui_desired_receivers = sorted_ids (desired_receivers st),
          ui_staged_receivers = sorted_ids (staged_receivers st),
          ui_staged_membership_dirty = dirty,
          ui_staged_membership_stale = (dirty \<and> staged_base_revision st < desired_revision st),
          ui_active_receivers = sorted_ids (active_receivers st),
          ui_stream = stream_snapshot (stream st),
          ui_master_volume = master_volume st,
          ui_receiver_levels = receiver_levels st,
          ui_theme = theme st,
          ui_locale_preference = locale_preference st,
          ui_resolved_locale = resolved_locale st,
          ui_advanced_information = advanced_information st,
          ui_hotkey = hotkey st,
          ui_notice = notice st,
          ui_muted = muted st,
          ui_latency = latency st,
          ui_audio_source = audio_source st,
          ui_diagnostics = diagnostics st,
          ui_live_diagnostics = live_view st,
          ui_hardware_check = hc_snapshot st,
          ui_can_start = (is_stopped_or_failed (stream st) \<and> has_available_desired_receiver),
          ui_can_stop = is_running (stream st),
          ui_shutting_down = shutting_down st\<rparr>)"

section \<open>Start-up\<close>

record preferences_load =
  pl_value :: preferences
  pl_notice :: "user_notice option"

definition initial_state :: "preferences_load \<Rightarrow> resolved_locale_t \<Rightarrow> app_state" where
  "initial_state loaded windows =
     app_state_default\<lparr>
       hotkey := pf_hotkey (pl_value loaded),
       theme := pf_theme (pl_value loaded),
       page := pf_last_page (pl_value loaded),
       locale_preference := pf_locale (pl_value loaded),
       windows_display_locale := windows,
       resolved_locale := locale_resolve (pf_locale (pl_value loaded)) windows,
       advanced_information := pf_advanced_information (pl_value loaded),
       window := \<lparr>ws_visible = True,
                  ws_geometry = (case geometry_validate (pf_window (pl_value loaded)) of
                                   Some g \<Rightarrow> g | None \<Rightarrow> geometry_default),
                  ws_close_to_tray = pf_close_to_tray (pl_value loaded),
                  ws_launch_at_startup = pf_launch_at_startup (pl_value loaded)\<rparr>,
       notice := pl_notice loaded\<rparr>"

section \<open>The actor\<close>

text \<open>
  The actor's memory, the snapshot slot readers load from, and the effects handed to the executor
  so far, oldest first.
\<close>

record actor =
  ac_state :: app_state
  ac_published :: ui_snapshot
  ac_executed :: "app_effect list"

definition actor_start :: "(string \<Rightarrow> string) \<Rightarrow> app_state \<Rightarrow> actor" where
  "actor_start lc st =
     \<lparr>ac_state = st, ac_published = from_state lc st, ac_executed = []\<rparr>"

definition actor_step :: "(string \<Rightarrow> string) \<Rightarrow> actor \<Rightarrow> app_event \<Rightarrow> actor" where
  "actor_step lc a event =
     (let (st', effects, changed) = reduce lc (ac_state a) event
      in a\<lparr>ac_state := st',
           ac_executed := ac_executed a @ effects,
           ac_published := (if changed then from_state lc st' else ac_published a)\<rparr>)"

text \<open>The receive loop over the events in the order the queue delivers them.\<close>

definition run_actor :: "(string \<Rightarrow> string) \<Rightarrow> app_state \<Rightarrow> app_event list \<Rightarrow> actor" where
  "run_actor lc st events = foldl (actor_step lc) (actor_start lc st) events"

end
