(* ===== verification/Reducer_Shape.thy ===== *)
theory Reducer_Shape
  imports Snapshot
begin

text \<open>
  What every proof about the reducer starts from: the actor's step in terms of \<open>reduce\<close>, the two
  shapes a reduction can have, and the interface through which invariants of the state reach
  reductions and runs.
\<close>

section \<open>The actor's steps\<close>

lemma actor_step_simps [simp]:
  "ac_state (actor_step lc a e) = out_state (reduce lc (ac_state a) e)"
  "ac_executed (actor_step lc a e) = ac_executed a @ out_effects (reduce lc (ac_state a) e)"
  "ac_published (actor_step lc a e) =
     (if out_changed (reduce lc (ac_state a) e)
      then from_state lc (out_state (reduce lc (ac_state a) e)) else ac_published a)"
  by (simp_all add: actor_step_def Let_def split: prod.split)

lemma run_actor_Nil [simp]:
  "ac_state (run_actor lc st []) = st"
  "ac_executed (run_actor lc st []) = []"
  "ac_published (run_actor lc st []) = from_state lc st"
  by (simp_all add: run_actor_def actor_start_def)

lemma run_actor_snoc [simp]:
  "run_actor lc st (es @ [e]) = actor_step lc (run_actor lc st es) e"
  by (simp add: run_actor_def)

lemma observe_effects_append:
  "\<exists>more. out_effects (observe_hardware_check st ob effects) = effects @ more"
  by (simp add: observe_hardware_check_def Let_def split: prod.split)

section \<open>The shape of a reduction\<close>

lemma reduce_cases [case_names guarded dispatched]:
  obtains
    (guarded) "hc_phase (hardware_check st) = Ph_StopPending" "starts_playback e"
      "reduce lc st e = (st, [], False)"
  | (dispatched) st1 fx1 ch1 st2 fx2 ch2 where
      "\<not> (hc_phase (hardware_check st) = Ph_StopPending \<and> starts_playback e)"
      "dispatch lc st e = (st1, fx1, ch1)"
      "observe_hardware_check st1 (observation_from_event e) fx1 = (st2, fx1 @ fx2, ch2)"
      "reduce lc st e = finish st2 (fx1 @ fx2) (ch1 \<or> ch2 \<or> hc_snapshot st \<noteq> hc_snapshot st2)"
proof (cases "hc_phase (hardware_check st) = Ph_StopPending \<and> starts_playback e")
  case True
  then show thesis by (intro guarded) (simp_all add: reduce_def finish_def)
next
  case False
  obtain st1 fx1 ch1 where d: "dispatch lc st e = (st1, fx1, ch1)"
    by (cases "dispatch lc st e") auto
  obtain st2 fx ch2 where o: "observe_hardware_check st1 (observation_from_event e) fx1 = (st2, fx, ch2)"
    by (cases "observe_hardware_check st1 (observation_from_event e) fx1") auto
  then obtain fx2 where "fx = fx1 @ fx2"
    using observe_effects_append [of st1 "observation_from_event e" fx1] by auto
  with False d o show thesis by (intro dispatched) (auto simp: reduce_def Let_def)
qed

lemma finish_simps [simp]:
  "out_effects (finish st fx ch) = fx"
  "out_changed (finish st fx ch) = ch"
  "\<not> ch \<Longrightarrow> out_state (finish st fx ch) = st"
  by (simp_all add: finish_def)

section \<open>Invariants of the state\<close>

text \<open>
  The interface between the handlers and the invariants: a predicate that dispatching, observing
  and raising the revision each keep is kept by every reduction and by every run of the actor.
\<close>

locale state_invariant =
  fixes I :: "app_state \<Rightarrow> bool"
  assumes dispatch_keeps: "I st \<Longrightarrow> I (out_state (dispatch lc st e))"
    and observe_keeps: "I st \<Longrightarrow> I (out_state (observe_hardware_check st ob fx))"
    and revision_keeps: "I st \<Longrightarrow> I (st\<lparr>revision := r\<rparr>)"
begin

lemma reduce_keeps: "I st \<Longrightarrow> I (out_state (reduce lc st e))"
proof (cases rule: reduce_cases [where st = st and e = e and lc = lc])
  case guarded
  then show "I st \<Longrightarrow> ?thesis" by simp
next
  case (dispatched st1 fx1 ch1 st2 fx2 ch2)
  assume "I st"
  with dispatch_keeps [of st lc e] dispatched(2) have "I st1" by simp
  with observe_keeps [of st1 "observation_from_event e" fx1] dispatched(3) have "I st2" by simp
  then show ?thesis using dispatched(4) by (simp add: finish_def revision_keeps)
qed

lemma run_keeps: "I st \<Longrightarrow> I (ac_state (run_actor lc st es))"
proof (induction es rule: rev_induct)
  case Nil
  then show ?case by simp
next
  case (snoc e es)
  then have "I (ac_state (run_actor lc st es))" by simp
  then show ?case
    using reduce_keeps [of "ac_state (run_actor lc st es)" lc e]
    by (simp add: run_actor_snoc actor_step_simps)
qed

end

end
