(* ===== verification/Reducer_Effects.thy ===== *)
theory Reducer_Effects
  imports Reducer_Shape
begin

text \<open>
  What the reducer asks the outside world to do: the generations of session commands, the values
  that reach the backend and the settings file, and the order of the shutdown sequence.
\<close>

section \<open>Session generations\<close>

fun session_generation :: "app_effect \<Rightarrow> generation_id option" where
  "session_generation (Eff_StartSession g _ _) = Some g"
| "session_generation (Eff_StopSession g) = Some g"
| "session_generation (Eff_Group _ g _) = g"
| "session_generation _ = None"

definition session_generations :: "app_effect list \<Rightarrow> generation_id list" where
  "session_generations effects = List.map_filter session_generation effects"

lemma session_generations_simps [simp]:
  "session_generations [] = []"
  "session_generations (e # es) =
     (case session_generation e of None \<Rightarrow> session_generations es
      | Some g \<Rightarrow> g # session_generations es)"
  "session_generations (xs @ ys) = session_generations xs @ session_generations ys"
  by (simp_all add: session_generations_def map_filter_def split: option.splits)

abbreviation session_of :: "app_state \<Rightarrow> generation_id" where
  "session_of st \<equiv> g_session (generations st)"

text \<open>Zero or one session command, carrying the next generation, which becomes the current one.\<close>

definition issues_at_most_one :: "app_state \<Rightarrow> app_state \<Rightarrow> app_effect list \<Rightarrow> bool" where
  "issues_at_most_one st st' effects \<longleftrightarrow>
     session_generations effects = [] \<and> session_of st' = session_of st
     \<or> session_generations effects = [session_of st + 1] \<and> session_of st' = session_of st + 1"

lemma controller_dispatch_issues:
  "issues_at_most_one st (out_state (controller_dispatch st e)) (out_effects (controller_dispatch st e))"
  by (cases e) (simp_all add: issues_at_most_one_def handler_defs Let_def split: outcome_splits)

lemma preferences_dispatch_issues:
  "issues_at_most_one st (out_state (preferences_dispatch st e)) (out_effects (preferences_dispatch st e))"
  by (cases e) (simp_all add: issues_at_most_one_def handler_defs Let_def split: outcome_splits)

lemma dispatch_issues:
  "issues_at_most_one st (out_state (dispatch lc st e)) (out_effects (dispatch lc st e))"
  using controller_dispatch_issues preferences_dispatch_issues
  by (cases e) (simp_all add: issues_at_most_one_def handler_defs Let_def split: outcome_splits)


lemma observe_issues:
  "issues_at_most_one st (out_state (observe_hardware_check st ob effects))
     (drop (length effects) (out_effects (observe_hardware_check st ob effects)))"
  by (simp add: issues_at_most_one_def observer_defs split: outcome_splits)

text \<open>The \<open>n\<close> generations after \<open>g\<close>, in the order the counter produces them.\<close>

primrec next_generations :: "generation_id \<Rightarrow> nat \<Rightarrow> generation_id list" where
  "next_generations g 0 = []"
| "next_generations g (Suc n) = (g + 1) # next_generations (g + 1) n"

lemma next_generations_append:
  "next_generations g (m + n) = next_generations g m @ next_generations (g + of_nat m) n"
  by (induction m arbitrary: g) (simp_all add: add.assoc)

lemma next_generations_mem:
  "x \<in> set (next_generations g n) \<Longrightarrow> \<exists>i. 1 \<le> i \<and> i \<le> n \<and> x = g + of_nat i"
proof (induction n arbitrary: g)
  case (Suc n)
  consider "x = g + 1" | "x \<in> set (next_generations (g + 1) n)"
    using Suc.prems by auto
  then show ?case
  proof cases
    case 1
    then show ?thesis by (intro exI [of _ 1]) simp
  next
    case 2
    from Suc.IH [OF this] obtain i where "1 \<le> i" "i \<le> n" "x = g + 1 + of_nat i" by blast
    then show ?thesis by (intro exI [of _ "Suc i"]) (simp add: add.assoc)
  qed
qed simp

lemma next_generations_distinct: "n < 2 ^ 64 \<Longrightarrow> distinct (next_generations g n)"
proof (induction n arbitrary: g)
  case (Suc n)
  have "g + 1 \<notin> set (next_generations (g + 1) n)"
  proof
    assume "g + 1 \<in> set (next_generations (g + 1) n)"
    then obtain i where i: "1 \<le> i" "i \<le> n" "(of_nat i :: u64) = of_nat 0"
      using next_generations_mem by fastforce
    then show False
      using Suc.prems by (simp only: word_of_nat_eq_iff) (simp add: take_bit_nat_eq_self)
  qed
  with Suc show ?case by simp
qed simp

text \<open>
  \<open>n\<close> session commands were issued, carrying exactly the next \<open>n\<close> generations in order.
\<close>

definition issues :: "app_state \<Rightarrow> app_state \<Rightarrow> app_effect list \<Rightarrow> nat \<Rightarrow> bool" where
  "issues st st' effects n \<longleftrightarrow>
     session_generations effects = next_generations (session_of st) n
     \<and> session_of st' = session_of st + of_nat n"

lemma issues_at_most_one_iff:
  "issues_at_most_one st st' effects \<longleftrightarrow> issues st st' effects 0 \<or> issues st st' effects 1"
  by (auto simp: issues_def issues_at_most_one_def)

lemma issues_append:
  "issues a b xs m \<Longrightarrow> issues b c ys n \<Longrightarrow> issues a c (xs @ ys) (m + n)"
  by (simp add: issues_def next_generations_append add.assoc)

lemma reduce_issues:
  "\<exists>n \<le> 2. issues st (out_state (reduce lc st e)) (out_effects (reduce lc st e)) n"
proof (cases rule: reduce_cases [where st = st and e = e and lc = lc])
  case guarded
  then show ?thesis by (auto simp: issues_def intro!: exI [of _ 0])
next
  case (dispatched st1 fx1 ch1 st2 fx2 ch2)
  obtain m where "issues st st1 fx1 m" "m \<le> 1"
    using dispatch_issues [of st lc e] dispatched(2) by (auto simp: issues_at_most_one_iff)
  moreover obtain n where "issues st1 st2 fx2 n" "n \<le> 1"
    using observe_issues [of st1 "observation_from_event e" fx1] dispatched(3)
    by (auto simp: issues_at_most_one_iff)
  ultimately have "issues st st2 (fx1 @ fx2) (m + n)" "m + n \<le> 2"
    using issues_append by auto
  moreover have "session_of (out_state (reduce lc st e)) = session_of st2"
    using dispatched(4) by (simp add: finish_def)
  ultimately show ?thesis
    using dispatched(4) by (auto simp: issues_def intro!: exI [of _ "m + n"])
qed

lemma run_issues:
  "\<exists>n \<le> 2 * length es. issues st (ac_state (run_actor lc st es)) (ac_executed (run_actor lc st es)) n"
proof (induction es rule: rev_induct)
  case Nil
  then show ?case by (simp add: issues_def)
next
  case (snoc e es)
  obtain n m where "issues st (ac_state (run_actor lc st es)) (ac_executed (run_actor lc st es)) n"
    "n \<le> 2 * length es" "m \<le> 2"
    "issues (ac_state (run_actor lc st es)) (out_state (reduce lc (ac_state (run_actor lc st es)) e))
       (out_effects (reduce lc (ac_state (run_actor lc st es)) e)) m"
    using snoc.IH reduce_issues [of "ac_state (run_actor lc st es)" lc e] by blast
  then show ?case
    using issues_append by (intro exI [of _ "n + m"]) fastforce
qed


section \<open>Effects are backed by the state\<close>

text \<open>
  What an effect promises about the state its reduction leaves behind. Requests carry the newest
  generation of their kind, gains sent to the backend lie in the unit interval, and a settings
  write carries the complete current settings.
\<close>

definition effect_backed :: "app_state \<Rightarrow> app_effect \<Rightarrow> bool" where
  "effect_backed st f =
     (case f of
        Eff_PersistPreferences g v \<Rightarrow>
          g = g_preferences (generations st) \<and> v = preferences_from_state st
      | Eff_ApplyVolume g v \<Rightarrow>
          g = g_volume (generations st) \<and> f32_unit v \<and> v = master_volume st \<and> volume_pending st
      | Eff_ApplyReceiverLevel i l \<Rightarrow>
          f32_unit l \<and> i \<in> rs_id ` set (receivers st) \<and> \<not> shutting_down st
      | Eff_Discover g \<Rightarrow>
          g = g_discovery (generations st) \<and> discovery st = Disc_Discovering g
      | Eff_ReconfigureHotkey g _ \<Rightarrow> g = g_hotkey (generations st)
      | Eff_Group request _ command \<Rightarrow>
          group_operation st =
            Some \<lparr>op_request = request, op_command = command, op_status = Op_Pending\<rparr>
          \<and> request = next_group_request st \<and> \<not> controller_closed st
      | Eff_ApplyLatency choice \<Rightarrow>
          (\<exists>reading. latency st = Some reading \<and> lr_selected reading \<noteq> choice
             \<and> (\<exists>opt \<in> set (lr_options reading). lo_choice opt = choice \<and> lo_unavailable opt = None))
      | Eff_ApplyAudioEndpoint (Req_Endpoint key) \<Rightarrow>
          (\<exists>reading. audio_source st = Some reading \<and> key \<in> ae_key ` set (as_endpoints reading))
      | Eff_ApplyMute m \<Rightarrow> muted st \<noteq> Some m
      | Eff_BeginShutdown \<Rightarrow> shutting_down st
      | _ \<Rightarrow> True)"

locale effect_contract =
  fixes P :: "app_state \<Rightarrow> app_effect \<Rightarrow> bool"
  assumes dispatch_meets: "f \<in> set (out_effects (dispatch lc st e)) \<Longrightarrow> P (out_state (dispatch lc st e)) f"
    and observe_meets: "f \<in> set (snd (observe_connecting st ob)) \<Longrightarrow> P (fst (observe_connecting st ob)) f"
    and observe_stable: "P st f \<Longrightarrow> P (out_state (observe_hardware_check st ob fx)) f"
    and revision_stable: "P st f \<Longrightarrow> P (st\<lparr>revision := r\<rparr>) f"
begin

lemma observe_new_meets:
  "observe_hardware_check st ob fx = (st', fx @ fx2, ch) \<Longrightarrow> f \<in> set fx2 \<Longrightarrow> P st' f"
  using observe_meets [of f st ob]
  by (auto simp: observe_hardware_check_def Let_def split: prod.splits hardware_check_phase.splits)

lemma reduce_meets: "f \<in> set (out_effects (reduce lc st e)) \<Longrightarrow> P (out_state (reduce lc st e)) f"
proof (cases rule: reduce_cases [where st = st and e = e and lc = lc])
  case guarded
  then show "f \<in> set (out_effects (reduce lc st e)) \<Longrightarrow> ?thesis" by simp
next
  case (dispatched st1 fx1 ch1 st2 fx2 ch2)
  assume "f \<in> set (out_effects (reduce lc st e))"
  then consider "f \<in> set fx1" | "f \<in> set fx2" using dispatched(4) by auto
  then have "P st2 f"
  proof cases
    case 1
    then show ?thesis
      using dispatch_meets [of f lc st e] dispatched(2,3)
        observe_stable [of st1 f "observation_from_event e" fx1] by simp
  next
    case 2
    then show ?thesis using observe_new_meets [OF dispatched(3)] by simp
  qed
  then show ?thesis using dispatched(4) by (simp add: finish_def revision_stable)
qed

end

lemma controller_dispatch_no_effects [simp]: "out_effects (controller_dispatch st e) = []"
  by (cases e) (simp_all add: handler_defs Let_def split: outcome_splits)

lemma preferences_dispatch_backed:
  "f \<in> set (out_effects (preferences_dispatch st e)) \<Longrightarrow>
   effect_backed (out_state (preferences_dispatch st e)) f"
  by (cases e) (auto simp: effect_backed_def handler_defs Let_def preferences_from_state_def
      split: option.splits if_splits)

interpretation backed: effect_contract effect_backed
proof
  fix f lc st e ob fx r
  show "f \<in> set (out_effects (dispatch lc st e)) \<Longrightarrow> effect_backed (out_state (dispatch lc st e)) f"
  proof (cases e)
    case (Ev_HardwareCheck a)
    then show "f \<in> set (out_effects (dispatch lc st e)) \<Longrightarrow> ?thesis"
      by (cases a) (auto simp: effect_backed_def handler_defs Let_def f32_0_10_def split: if_splits)
  qed (auto simp: effect_backed_def handler_defs Let_def preferences_from_state_def
      preferences_dispatch_backed [unfolded effect_backed_def]
      split: option.splits if_splits group_command.splits audio_endpoint_request.splits)
  show "f \<in> set (snd (observe_connecting st ob)) \<Longrightarrow> effect_backed (fst (observe_connecting st ob)) f"
    by (auto simp: effect_backed_def observer_defs split: if_splits)
  show "effect_backed st f \<Longrightarrow> effect_backed (out_state (observe_hardware_check st ob fx)) f"
    by (simp add: effect_backed_def observer_defs preferences_from_state_def split: app_effect.splits outcome_splits audio_endpoint_request.splits)
  show "effect_backed st f \<Longrightarrow> effect_backed (st\<lparr>revision := r\<rparr>) f"
    by (simp add: effect_backed_def preferences_from_state_def split: app_effect.splits audio_endpoint_request.splits)
qed

end
