(* ===== verification/Reducer_View.thy ===== *)
theory Reducer_View
  imports Reducer_Shape
begin

text \<open>
  The reducer's change reports are complete: a reduction that reports no change leaves the whole
  projection of the state as it was.
\<close>

definition notice_coherent :: "app_state \<Rightarrow> bool" where
  "notice_coherent st \<longleftrightarrow>
     (\<forall>n. notice st = Some n \<longrightarrow> un_code n = Code_ControllerUnavailable \<longrightarrow> controller_closed st)"

section \<open>What the window shows\<close>

text \<open>The part of the projection that does not belong to the listening check.\<close>

definition same_view :: "app_state \<Rightarrow> app_state \<Rightarrow> bool" where
  "same_view a b \<longleftrightarrow>
     revision b = revision a \<and> saved_groups b = saved_groups a
     \<and> group_operation b = group_operation a \<and> desired_revision b = desired_revision a
     \<and> page b = page a \<and> ws_visible (window b) = ws_visible (window a)
     \<and> ws_geometry (window b) = ws_geometry (window a)
     \<and> ws_close_to_tray (window b) = ws_close_to_tray (window a)
     \<and> discovery b = discovery a \<and> receivers b = receivers a
     \<and> desired_receivers b = desired_receivers a \<and> staged_receivers b = staged_receivers a
     \<and> staged_base_revision b = staged_base_revision a
     \<and> active_receivers b = active_receivers a \<and> stream b = stream a
     \<and> master_volume b = master_volume a \<and> receiver_levels b = receiver_levels a
     \<and> theme b = theme a \<and> locale_preference b = locale_preference a
     \<and> resolved_locale b = resolved_locale a
     \<and> advanced_information b = advanced_information a \<and> hotkey b = hotkey a
     \<and> notice b = notice a \<and> muted b = muted a \<and> latency b = latency a
     \<and> audio_source b = audio_source a \<and> diagnostics b = diagnostics a
     \<and> live_view b = live_view a \<and> shutting_down b = shutting_down a"

lemma same_view_refl [simp]: "same_view st st"
  by (simp add: same_view_def)

lemma same_view_trans: "same_view a b \<Longrightarrow> same_view b c \<Longrightarrow> same_view a c"
  by (simp add: same_view_def)

lemma same_view_from_state:
  "same_view a b \<Longrightarrow> hc_snapshot b = hc_snapshot a \<Longrightarrow> from_state lc b = from_state lc a"
  by (simp add: same_view_def from_state_def Let_def)

text \<open>
  A handler that reports no change leaves the view alone, with one exception that the listening
  check's receiver count makes visible.
\<close>

definition reports_changes :: "app_state \<Rightarrow> outcome \<Rightarrow> bool" where
  "reports_changes st r \<longleftrightarrow>
     out_changed r \<or> same_view st (out_state r)
     \<or> card (desired_receivers (out_state r)) \<noteq> card (desired_receivers st)"

lemma controller_dispatch_reports:
  "notice_coherent st \<Longrightarrow> reports_changes st (controller_dispatch st e)"
  by (cases e)
    (auto simp: reports_changes_def same_view_def live_view_def notice_coherent_def handler_defs
      Let_def dest: partial_eq_imp_eq split: option.splits prod.splits if_splits)

lemma preferences_dispatch_reports: "reports_changes st (preferences_dispatch st e)"
  by (cases e)
    (auto simp: reports_changes_def same_view_def live_view_def handler_defs
      Let_def split: option.splits prod.splits if_splits)

lemma hotkey_start_or_warn_reports: "reports_changes st (hotkey_start_or_warn st)"
  by (auto simp: reports_changes_def same_view_def live_view_def handler_defs Let_def
      split: option.splits)

lemma hotkey_start_or_warn_desired:
  "desired_receivers (out_state (hotkey_start_or_warn st)) = desired_receivers st"
  by (simp add: handler_defs Let_def)

lemma global_hotkey_pressed_reports: "reports_changes st (global_hotkey_pressed lc st)"
proof (cases "\<not> shutting_down st \<and> \<not> is_starting_or_streaming (stream st)
    \<and> available_selected_ids st = [] \<and> desired_receivers st = {} \<and> \<not> desired_known st")
  case False
  then show ?thesis
    using hotkey_start_or_warn_reports [of st]
    by (auto simp: global_hotkey_pressed_def stop_requested_def start_with_receiver_ids_def
        reports_changes_def Let_def split: option.split)
next
  case True
  let ?st = "fst (select_first_available_receiver lc st)"
  have eq: "global_hotkey_pressed lc st = hotkey_start_or_warn ?st"
    using True by (simp add: global_hotkey_pressed_def)
  show ?thesis
  proof (cases "first_available_receiver lc st")
    case None
    then have "?st = st" by (simp add: select_first_available_receiver_def)
    then show ?thesis using eq hotkey_start_or_warn_reports by simp
  next
    case (Some c)
    then have "card (desired_receivers (out_state (global_hotkey_pressed lc st))) = 1"
      using True unfolding eq hotkey_start_or_warn_desired
      by (simp add: select_first_available_receiver_def)
    then show ?thesis using True by (simp add: reports_changes_def)
  qed
qed

lemma dispatch_reports: "notice_coherent st \<Longrightarrow> reports_changes st (dispatch lc st e)"
proof (cases e)
  case Ev_GlobalHotkeyPressed
  then show ?thesis by (simp add: global_hotkey_pressed_reports)
next
  case (Ev_HardwareCheck a)
  then show ?thesis
    by (cases a) (auto simp: reports_changes_def same_view_def live_view_def handler_defs hc_bind_def
      Let_def dest: partial_eq_imp_eq split: option.splits prod.splits if_splits)
qed (auto simp: reports_changes_def same_view_def live_view_def handler_defs
      Let_def length_filter_eq_iff controller_dispatch_reports [unfolded reports_changes_def same_view_def live_view_def]
      preferences_dispatch_reports [unfolded reports_changes_def same_view_def live_view_def] dest: partial_eq_imp_eq split: option.splits prod.splits if_splits)

lemma same_view_hardware_check [simp]: "same_view st (st\<lparr>hardware_check := c\<rparr>)"
  by (simp add: same_view_def live_view_def split: option.split)

lemma hc_abort_phase: "hc_phase (hardware_check (fst (hc_abort st))) = Ph_StopPending"
  by (simp add: hc_abort_def Let_def split: prod.split)

lemma observe_connecting_cases:
  "hc_phase (hardware_check (fst (observe_connecting st ob))) = Ph_StopPending
   \<or> same_view st (fst (observe_connecting st ob))"
  by (simp add: observe_connecting_def Let_def hc_abort_phase)

lemma observe_reports:
  "out_changed (observe_hardware_check st ob effects)
   \<or> same_view st (out_state (observe_hardware_check st ob effects))"
  using observe_connecting_cases [of st ob]
  by (cases "hc_phase (hardware_check st)")
    (auto simp: observe_hardware_check_def Let_def hc_digest_def observe_stop_pending_def
      observe_finished_def split: prod.split)

lemma observe_desired [simp]:
  "desired_receivers (out_state (observe_hardware_check st ob effects)) = desired_receivers st"
  by (simp add: observer_defs split: outcome_splits)

lemma reduce_unchanged_view:
  assumes "notice_coherent st" and "\<not> out_changed (reduce lc st e)"
  shows "from_state lc (out_state (reduce lc st e)) = from_state lc st"
proof (cases rule: reduce_cases [where st = st and e = e and lc = lc])
  case guarded
  then show ?thesis by simp
next
  case (dispatched st1 fx1 ch1 st2 fx2 ch2)
  have quiet: "\<not> ch1" "\<not> ch2" "hc_snapshot st2 = hc_snapshot st"
    using assms(2) dispatched(4) by auto
  have desired: "desired_receivers st2 = desired_receivers st1"
    using observe_desired [of st1 "observation_from_event e" fx1] dispatched(3) by simp
  have "card (desired_receivers st2) = card (desired_receivers st)"
    using arg_cong [OF quiet(3), of hs_count] by (simp add: hc_snapshot_def Let_def)
  then have "same_view st st1"
    using dispatch_reports [OF assms(1), of lc e] dispatched(2) quiet(1) desired
    by (simp add: reports_changes_def)
  moreover have "same_view st1 st2"
    using observe_reports [of st1 "observation_from_event e" fx1] dispatched(3) quiet(2) by simp
  ultimately show ?thesis
    using same_view_from_state [OF same_view_trans quiet(3)] dispatched(4) quiet by simp
qed

end
