(* ===== verification/Reducer_Check.thy ===== *)
theory Reducer_Check
  imports Reducer_Effects Reducer_View
begin

text \<open>
  The listening check as a state machine inside the reducer: which steps may sound the tone, what
  a verdict rests on, and what the pending stop rules out.
\<close>

abbreviation phase_of :: "app_state \<Rightarrow> hardware_check_phase" where
  "phase_of st \<equiv> hc_phase (hardware_check st)"

section \<open>Frames\<close>

lemma prerequisite_frame [simp]:
  "receiver_online (st\<lparr>hardware_check := c\<rparr>) = receiver_online st"
  "receiver_online (st\<lparr>revision := r\<rparr>) = receiver_online st"
  "group_operation_pending (st\<lparr>hardware_check := c\<rparr>) = group_operation_pending st"
  "group_operation_pending (st\<lparr>revision := r\<rparr>) = group_operation_pending st"
  by (simp_all add: fun_eq_iff receiver_online_def group_operation_pending_def)

lemma hc_ready_frame [simp]:
  "hc_ready (st\<lparr>hardware_check := c\<rparr>) = hc_ready st"
  "hc_ready (st\<lparr>revision := r\<rparr>) = hc_ready st"
  by (simp_all add: hc_ready_def prerequisite_blocker_None_iff)

lemma tone_safe_frame [simp]:
  "tone_safe (st\<lparr>hardware_check := c\<rparr>) = tone_safe st"
  "tone_safe (st\<lparr>revision := r\<rparr>) = tone_safe st"
  by (simp_all add: tone_safe_def)

lemma prerequisite_blocker_not_confirmation [simp]:
  "prerequisite_blocker st \<noteq> Some Blk_Confirmation"
  by (simp add: prerequisite_blocker_def)

lemma hc_matches_frame [simp]:
  "hc_matches check (st\<lparr>hardware_check := c\<rparr>) = hc_matches check st"
  "hc_matches check (st\<lparr>revision := r\<rparr>) = hc_matches check st"
  by (simp_all add: hc_matches_def)

lemma hc_matches_check_frame [simp]:
  "hc_matches (c\<lparr>hc_phase := p\<rparr>) st = hc_matches c st"
  "hc_matches (c\<lparr>hc_outcome := v\<rparr>) st = hc_matches c st"
  "hc_matches (c\<lparr>hc_prepared := b\<rparr>) st = hc_matches c st"
  by (simp_all add: hc_matches_def)

section \<open>A running check stays bound to its configuration\<close>

definition check_live :: "app_state \<Rightarrow> bool" where
  "check_live st \<longleftrightarrow>
     (phase_of st \<in> {Ph_Connecting, Ph_Listening} \<longrightarrow>
        hc_matches (hardware_check st) st
        \<and> hc_generation (hardware_check st) = Some (session_of st)
        \<and> is_starting_or_streaming (stream st))"

lemma observe_connecting_live: "check_live (fst (observe_connecting st ob))"
  by (simp add: check_live_def observe_connecting_def Let_def hc_abort_phase)

lemma observe_live: "check_live (out_state (observe_hardware_check st ob fx))"
  using observe_connecting_live [of st ob]
  by (cases "phase_of st")
    (auto simp: observe_hardware_check_def Let_def check_live_def observe_stop_pending_def
      observe_finished_def split: prod.splits option.splits bool.splits)

lemma reduce_live: "check_live (out_state (reduce lc st e))"
proof (cases rule: reduce_cases [where st = st and e = e and lc = lc])
  case guarded
  then show ?thesis by (simp add: check_live_def)
next
  case (dispatched st1 fx1 ch1 st2 fx2 ch2)
  have "check_live st2"
    using observe_live [of st1 "observation_from_event e" fx1] dispatched(3) by simp
  then show ?thesis using dispatched(4) by (simp add: finish_def check_live_def)
qed

section \<open>Phase changes of the handlers\<close>

lemma controller_dispatch_check [simp]:
  "hardware_check (out_state (controller_dispatch st e)) = hardware_check st"
  by (cases e) (simp_all add: handler_defs Let_def split: outcome_splits)

lemma preferences_dispatch_check [simp]:
  "hardware_check (out_state (preferences_dispatch st e)) = hardware_check st"
  by (cases e) (simp_all add: handler_defs Let_def split: outcome_splits)

lemma dispatch_check:
  "(\<nexists>a. e = Ev_HardwareCheck a) \<Longrightarrow>
   hardware_check (out_state (dispatch lc st e)) = hardware_check st"
  by (cases e) (simp_all add: handler_defs Let_def split: outcome_splits)

lemma hardware_check_requested_phase:
  "phase_of (out_state (hardware_check_requested st a)) = phase_of st
   \<or> phase_of (out_state (hardware_check_requested st a)) = Ph_Connecting
     \<and> hc_ready st \<and> phase_of st \<noteq> Ph_StopPending \<and> stream st = Stream_Stopped
   \<or> phase_of (out_state (hardware_check_requested st a)) = Ph_StopPending
     \<and> phase_of st \<in> {Ph_Connecting, Ph_Listening}"
  by (cases a)
    (auto simp: hardware_check_requested_def start_requested_def start_with_receiver_ids_def
      next_session_def stop_requested_def hc_stop_pending_def hc_bind_def master_volume_changed_def
      reject_invalid_input_def next_volume_def hc_snapshot_def start_blocker_def hc_ready_def Let_def
      split: if_splits option.splits)

section \<open>The tone\<close>

lemma hc_abort_no_tone: "Eff_PlayListeningTone g \<notin> set (snd (hc_abort st))"
  by (simp add: hc_abort_def stop_requested_def Let_def)

lemma observe_connecting_tone:
  assumes "Eff_PlayListeningTone g \<in> set (snd (observe_connecting st ob))"
  shows "g = session_of st \<and> phase_of st = Ph_Connecting \<and> is_streaming (stream st)
    \<and> active_receivers st = desired_receivers st \<and> tone_safe st
    \<and> fst (observe_connecting st ob) =
        st\<lparr>hardware_check := (hardware_check st)\<lparr>hc_phase := Ph_Listening\<rparr>\<rparr>"
proof -
  let ?listen = "is_streaming (stream st) \<and> active_receivers st = desired_receivers st"
  have live: "\<not> (ob_configuration_request ob \<or> \<not> hc_matches (hardware_check st) st
      \<or> hc_generation (hardware_check st) \<noteq> Some (session_of st)
      \<or> \<not> is_starting_or_streaming (stream st))" (is "\<not> ?abort")
  proof
    assume ?abort
    then have "observe_connecting st ob = hc_abort st"
      unfolding observe_connecting_def Let_def by (rule if_P)
    with assms hc_abort_no_tone show False by simp
  qed
  then have eq: "observe_connecting st ob =
      (if ?listen
       then (st\<lparr>hardware_check := (hardware_check st)\<lparr>hc_phase := Ph_Listening\<rparr>\<rparr>,
             if phase_of st = Ph_Connecting then [Eff_PlayListeningTone (session_of st)] else [])
       else (st, []))"
    unfolding observe_connecting_def Let_def by (simp only: if_False)
  have "tone_safe st" using live by (blast intro: hc_ready_tone_safe hc_matches_ready)
  moreover have ?listen "phase_of st = Ph_Connecting" "g = session_of st"
    using assms unfolding eq by (auto split: if_split_asm)
  ultimately show ?thesis unfolding eq by simp
qed

lemma dispatch_no_tone: "Eff_PlayListeningTone g \<notin> set (out_effects (dispatch lc st e))"
proof (cases e)
  case (Ev_Preferences c)
  then show ?thesis by (cases c) (auto simp: handler_defs Let_def split: option.splits if_splits)
next
  case (Ev_HardwareCheck a)
  then show ?thesis by (cases a) (auto simp: handler_defs Let_def split: if_splits)
qed (auto simp: handler_defs Let_def split: option.splits if_splits)

lemma start_leaves_starting:
  "phase_of (out_state (hardware_check_requested st a)) = Ph_Connecting \<Longrightarrow>
   phase_of st \<noteq> Ph_Connecting \<Longrightarrow>
   \<not> is_streaming (stream (out_state (hardware_check_requested st a)))"
  by (cases a)
    (auto simp: hardware_check_requested_def start_requested_def start_with_receiver_ids_def
      next_session_def stop_requested_def hc_stop_pending_def hc_bind_def master_volume_changed_def
      reject_invalid_input_def next_volume_def hc_snapshot_def start_blocker_def Let_def
      split: if_splits option.splits)

lemma reduce_tone:
  assumes "Eff_PlayListeningTone g \<in> set (out_effects (reduce lc st e))"
  shows "g = session_of (out_state (reduce lc st e)) \<and> phase_of st = Ph_Connecting
    \<and> phase_of (out_state (reduce lc st e)) = Ph_Listening
    \<and> is_streaming (stream (out_state (reduce lc st e)))
    \<and> active_receivers (out_state (reduce lc st e)) = desired_receivers (out_state (reduce lc st e))
    \<and> tone_safe (out_state (reduce lc st e))"
proof (cases rule: reduce_cases [where st = st and e = e and lc = lc])
  case guarded
  with assms show ?thesis by simp
next
  case (dispatched st1 fx1 ch1 st2 fx2 ch2)
  have "Eff_PlayListeningTone g \<in> set fx2"
    using assms dispatch_no_tone [of g lc st e] dispatched(2,4) by auto
  then have tone: "Eff_PlayListeningTone g \<in> set (snd (observe_connecting st1 (observation_from_event e)))"
    and st2: "st2 = fst (observe_connecting st1 (observation_from_event e))"
    using dispatched(3)
    by (auto simp: observe_hardware_check_def Let_def split: prod.splits hardware_check_phase.splits)
  note facts = observe_connecting_tone [OF tone]
  have "phase_of st = Ph_Connecting"
  proof (cases "\<exists>a. e = Ev_HardwareCheck a")
    case True
    then obtain a where "e = Ev_HardwareCheck a" by blast
    then show ?thesis
      using facts start_leaves_starting [of st a] dispatched(2) by (cases "phase_of st = Ph_Connecting") auto
  next
    case False
    then show ?thesis using facts dispatch_check [of e lc st] dispatched(2) by simp
  qed
  then show ?thesis using facts st2 dispatched(4) by (simp add: finish_def)
qed

section \<open>The verdict\<close>

lemma dispatch_phase:
  "phase_of (out_state (dispatch lc st e)) = phase_of st
   \<or> phase_of (out_state (dispatch lc st e)) = Ph_Connecting
     \<and> hc_ready st \<and> phase_of st \<noteq> Ph_StopPending \<and> stream st = Stream_Stopped
   \<or> phase_of (out_state (dispatch lc st e)) = Ph_StopPending
     \<and> phase_of st \<in> {Ph_Connecting, Ph_Listening}"
  using hardware_check_requested_phase [of st] dispatch_check [of e lc st] by (cases e) auto

lemma observe_connecting_phase:
  "phase_of (fst (observe_connecting st ob)) \<in> {phase_of st, Ph_StopPending, Ph_Listening}"
  by (simp add: observe_connecting_def Let_def hc_abort_phase)

lemma observe_verdict:
  assumes "observe_hardware_check st ob fx = (st', fx', ch)"
    and "phase_of st \<notin> {Ph_Heard, Ph_NotHeard}" and "phase_of st' \<in> {Ph_Heard, Ph_NotHeard}"
  shows "phase_of st = Ph_StopPending \<and> stream st' = Stream_Stopped
    \<and> ob_stopped_generation ob \<noteq> None
    \<and> ob_stopped_generation ob = hc_generation (hardware_check st)
    \<and> hc_outcome (hardware_check st) = Some (phase_of st' = Ph_Heard)
    \<and> hc_matches (hardware_check st') st'"
proof -
  have "phase_of st = Ph_StopPending"
    using assms observe_connecting_phase [of st ob]
    by (cases "phase_of st") (auto simp: observe_hardware_check_def Let_def split: prod.splits)
  moreover from this assms(1) obtain fault where "st' = observe_stop_pending st ob fault"
    by (auto simp: observe_hardware_check_def Let_def)
  ultimately show ?thesis
    using assms(3)
    by (auto simp: observe_stop_pending_def Let_def split: if_splits option.splits bool.splits)
qed

lemma observation_stopped:
  "ob_stopped_generation (observation_from_event e) = Some g \<Longrightarrow>
   e = Ev_Controller (Ctl_SessionStopped g)"
  by (auto simp: observation_from_event_def split: app_event.splits controller_event.splits)

lemma reduce_verdict:
  assumes "phase_of st \<notin> {Ph_Heard, Ph_NotHeard}"
    and "phase_of (out_state (reduce lc st e)) \<in> {Ph_Heard, Ph_NotHeard}"
  shows "\<exists>g. e = Ev_Controller (Ctl_SessionStopped g) \<and> phase_of st = Ph_StopPending
    \<and> hc_generation (hardware_check st) = Some g
    \<and> hc_outcome (hardware_check st) = Some (phase_of (out_state (reduce lc st e)) = Ph_Heard)
    \<and> stream (out_state (reduce lc st e)) = Stream_Stopped
    \<and> hc_matches (hardware_check (out_state (reduce lc st e))) (out_state (reduce lc st e))"
proof (cases rule: reduce_cases [where st = st and e = e and lc = lc])
  case guarded
  with assms show ?thesis by simp
next
  case (dispatched st1 fx1 ch1 st2 fx2 ch2)
  have eq: "hardware_check (out_state (reduce lc st e)) = hardware_check st2"
    "stream (out_state (reduce lc st e)) = stream st2"
    "hc_matches c (out_state (reduce lc st e)) = hc_matches c st2" for c
    using dispatched(4) by (simp_all add: finish_def)
  have "phase_of st1 \<notin> {Ph_Heard, Ph_NotHeard}"
    using dispatch_phase [of lc st e] assms(1) dispatched(2) by auto
  note v = observe_verdict [OF dispatched(3) this assms(2) [unfolded eq]]
  then obtain g where g: "ob_stopped_generation (observation_from_event e) = Some g" by blast
  then have e: "e = Ev_Controller (Ctl_SessionStopped g)" by (rule observation_stopped)
  then have "hardware_check st1 = hardware_check st"
    using controller_dispatch_check [of st] dispatched(2) by (metis dispatch.simps(25) fst_conv)
  with v g show ?thesis unfolding eq using e by auto
qed

section \<open>Nothing starts while a stop is pending\<close>

fun starts_audio :: "app_effect \<Rightarrow> bool" where
  "starts_audio (Eff_StartSession _ _ _) = True"
| "starts_audio (Eff_Group _ g command) =
     (g \<noteq> None \<or> (case command of Group_Apply _ start \<Rightarrow> start | _ \<Rightarrow> False))"
| "starts_audio (Eff_PlayListeningTone _) = True"
| "starts_audio _ = False"

lemma stop_pending_not_ready: "phase_of st = Ph_StopPending \<Longrightarrow> \<not> hs_ready (hc_snapshot st)"
  by (simp add: hc_snapshot_def start_blocker_def Let_def)

lemma dispatch_stop_pending:
  assumes "phase_of st = Ph_StopPending" "\<not> starts_playback e" "desired_known st"
    and "f \<in> set (out_effects (dispatch lc st e))"
  shows "\<not> starts_audio f"
proof (cases e)
  case (Ev_Preferences c)
  with assms(4) show ?thesis
    by (cases c) (auto simp: handler_defs Let_def split: option.splits if_splits)
next
  case (Ev_HardwareCheck a)
  with assms(1,4) stop_pending_not_ready [OF assms(1)] show ?thesis
    by (cases a) (auto simp: handler_defs Let_def hc_snapshot_def split: if_splits)
qed (use assms in \<open>auto simp: handler_defs Let_def split: option.splits if_splits group_command.splits\<close>)

lemma reduce_stop_pending:
  assumes "phase_of st = Ph_StopPending" "desired_known st"
    and "f \<in> set (out_effects (reduce lc st e))"
  shows "\<not> starts_audio f"
proof (cases rule: reduce_cases [where st = st and e = e and lc = lc])
  case guarded
  with assms show ?thesis by simp
next
  case (dispatched st1 fx1 ch1 st2 fx2 ch2)
  have "phase_of st1 = Ph_StopPending"
    using dispatch_phase [of lc st e] assms(1) dispatched(2) by auto
  then have "fx2 = []"
    using dispatched(3) by (simp add: observe_hardware_check_def Let_def)
  then show ?thesis
    using dispatch_stop_pending [OF assms(1) _ assms(2), of e f lc] dispatched assms by simp
qed

lemma reduce_stop_acknowledged:
  assumes "phase_of st = Ph_StopPending"
    and "hc_generation (hardware_check st) = Some (session_of st)"
  shows "phase_of (out_state (reduce lc st (Ev_Controller (Ctl_SessionStopped (session_of st)))))
           \<in> {Ph_Heard, Ph_NotHeard, Ph_Invalidated}
    \<and> stream (out_state (reduce lc st (Ev_Controller (Ctl_SessionStopped (session_of st)))))
           = Stream_Stopped"
  using assms
  by (simp add: reduce_def session_stopped_def observe_hardware_check_def observe_stop_pending_def
      observation_from_event_def finish_def Let_def split: option.split bool.split)

section \<open>A check presupposes a known selection\<close>

definition check_needs_selection :: "app_state \<Rightarrow> bool" where
  "check_needs_selection st \<longleftrightarrow> (phase_of st \<noteq> Ph_Preparation \<longrightarrow> desired_known st)"

lemma controller_dispatch_known: "desired_known st \<Longrightarrow> desired_known (out_state (controller_dispatch st e))"
  by (cases e) (simp_all add: handler_defs Let_def split: outcome_splits)

lemma preferences_dispatch_known [simp]: "desired_known (out_state (preferences_dispatch st e)) = desired_known st"
  by (cases e) (simp_all add: handler_defs Let_def split: outcome_splits)

lemma dispatch_known: "desired_known st \<Longrightarrow> desired_known (out_state (dispatch lc st e))"
  using controller_dispatch_known [of st]
  by (cases e) (simp_all add: handler_defs Let_def split: outcome_splits)

lemma observe_known [simp]:
  "desired_known (out_state (observe_hardware_check st ob fx)) = desired_known st"
  by (simp add: observer_defs split: outcome_splits)

lemma observe_preparation:
  "phase_of st = Ph_Preparation \<Longrightarrow> out_state (observe_hardware_check st ob fx) = st"
  by (simp add: observe_hardware_check_def Let_def)

interpretation selection: state_invariant check_needs_selection
proof
  fix st lc e ob fx r
  assume *: "check_needs_selection st"
  show "check_needs_selection (out_state (dispatch lc st e))"
    using * dispatch_phase [of lc st e] dispatch_known [of st lc e]
    by (auto simp: check_needs_selection_def hc_ready_def prerequisite_blocker_None_iff)
  show "check_needs_selection (out_state (observe_hardware_check st ob fx))"
    using * observe_preparation [of st ob fx]
    by (cases "phase_of st = Ph_Preparation") (simp_all add: check_needs_selection_def)
  show "check_needs_selection (st\<lparr>revision := r\<rparr>)"
    using * by (simp add: check_needs_selection_def)
qed

end
