(* ===== verification/Reducer_Invariants.thy ===== *)
theory Reducer_Invariants
  imports Reducer_View
begin

text \<open>
  Invariants of the application state that every event keeps.
\<close>

section \<open>Field-by-field invariants\<close>

definition memberships_finite :: "app_state \<Rightarrow> bool" where
  "memberships_finite st \<longleftrightarrow>
     finite (desired_receivers st) \<and> finite (staged_receivers st) \<and> finite (active_receivers st)"

definition locale_coherent :: "app_state \<Rightarrow> bool" where
  "locale_coherent st \<longleftrightarrow>
     resolved_locale st = locale_resolve (locale_preference st) (windows_display_locale st)"

definition volume_finite :: "app_state \<Rightarrow> bool" where
  "volume_finite st \<longleftrightarrow> f32_is_finite (master_volume st)
     \<and> (\<forall>v. confirmed_master_volume st = Some v \<longrightarrow> f32_is_finite v)"

definition geometry_usable :: "app_state \<Rightarrow> bool" where
  "geometry_usable st \<longleftrightarrow> geometry_safe (ws_geometry (window st))"

definition staging_not_ahead :: "app_state \<Rightarrow> bool" where
  "staging_not_ahead st \<longleftrightarrow> staged_base_revision st \<le> desired_revision st"

definition operation_coherent :: "app_state \<Rightarrow> bool" where
  "operation_coherent st \<longleftrightarrow>
     (\<forall>op. group_operation st = Some op \<longrightarrow>
        op_request op = next_group_request st
        \<and> (op_status op = Op_Pending \<longrightarrow> \<not> controller_closed st))"

definition shell_inv :: "app_state \<Rightarrow> bool" where
  "shell_inv st \<longleftrightarrow>
     notice_coherent st \<and> memberships_finite st \<and> locale_coherent st \<and> volume_finite st
     \<and> geometry_usable st \<and> staging_not_ahead st \<and> operation_coherent st"

lemmas shell_inv_unfold =
  shell_inv_def notice_coherent_def memberships_finite_def locale_coherent_def volume_finite_def
  geometry_usable_def staging_not_ahead_def operation_coherent_def

lemma controller_dispatch_shell_inv:
  "shell_inv st \<Longrightarrow> shell_inv (out_state (controller_dispatch st e))"
  by (cases e)
    (auto simp: shell_inv_unfold handler_defs group_operation_pending_def Let_def 
      split: option.splits prod.splits if_splits)

lemma preferences_dispatch_shell_inv:
  "shell_inv st \<Longrightarrow> shell_inv (out_state (preferences_dispatch st e))"
  by (cases e)
    (auto simp: shell_inv_unfold handler_defs preferences_persist_failed_notice_def Let_def
      split: option.splits prod.splits if_splits)

lemma hardware_check_requested_shell_inv:
  "shell_inv st \<Longrightarrow> shell_inv (out_state (hardware_check_requested st a))"
  by (cases a)
    (auto simp: shell_inv_unfold handler_defs f32_0_10_def Let_def f32_clamp_finite
      split: option.splits prod.splits if_splits)

lemma hotkey_start_or_warn_shell_inv:
  "shell_inv st \<Longrightarrow> shell_inv (out_state (hotkey_start_or_warn st))"
  by (simp add: shell_inv_unfold handler_defs no_receiver_notice_def Let_def)

lemma global_hotkey_pressed_shell_inv:
  assumes "shell_inv st"
  shows "shell_inv (out_state (global_hotkey_pressed lc st))"
proof -
  have "shell_inv (fst (select_first_available_receiver lc st))"
    using assms by (simp add: shell_inv_unfold select_first_available_receiver_def split: option.split)
  moreover have "shell_inv (out_state (stop_requested st))"
    "shell_inv (out_state (start_with_receiver_ids st ids))" for ids
    using assms by (simp_all add: shell_inv_unfold handler_defs Let_def)
  ultimately show ?thesis
    using assms by (simp add: global_hotkey_pressed_def hotkey_start_or_warn_shell_inv split: option.split)
qed

lemma group_requested_shell_inv:
  "shell_inv st \<Longrightarrow> shell_inv (out_state (group_requested st c))"
  by (auto simp: shell_inv_unfold group_requested_def next_session_def Let_def)

lemma apply_staged_shell_inv: "shell_inv st \<Longrightarrow> shell_inv (out_state (apply_staged st))"
  using group_requested_shell_inv [of st]
  by (cases "desired_known st")
    (simp_all add: shell_inv_unfold apply_staged_def prune_irrelevant_unavailable_def
      next_session_def Let_def)

interpretation shell: state_invariant shell_inv
proof
  fix st lc e ob fx r
  assume *: "shell_inv st"
  show "shell_inv (out_state (dispatch lc st e))"
  proof (cases e)
    case (Ev_Controller c)
    with * show ?thesis by (simp add: controller_dispatch_shell_inv)
  next
    case (Ev_Preferences c)
    with * show ?thesis by (simp add: preferences_dispatch_shell_inv)
  next
    case (Ev_HardwareCheck c)
    with * show ?thesis by (simp add: hardware_check_requested_shell_inv)
  next
    case Ev_GlobalHotkeyPressed
    with * show ?thesis by (simp add: global_hotkey_pressed_shell_inv)
  next
    case (Ev_GroupRequested c)
    with * show ?thesis by (simp add: group_requested_shell_inv)
  next
    case Ev_ApplyStagedReceivers
    with * show ?thesis by (simp add: apply_staged_shell_inv)
  qed (use * in \<open>simp_all add: shell_inv_unfold handler_defs no_receiver_notice_def group_operation_pending_def Let_def
        f32_clamp_finite geometry_validate_safe split: option.splits\<close>)
  show "shell_inv (out_state (observe_hardware_check st ob fx))"
    using * by (simp add: shell_inv_unfold observer_defs split: outcome_splits)
  show "shell_inv (st\<lparr>revision := r\<rparr>)"
    using * by (simp add: shell_inv_unfold)
qed

end
