(* ===== verification/Reducer_Inventory.thy ===== *)
theory Reducer_Inventory
  imports Reducer_Shape
begin

text \<open>
  The receiver inventory: what a completed browse leaves in it, and that it stays sorted by
  identity with one row per receiver.
\<close>

definition inventory_sorted :: "app_state \<Rightarrow> bool" where
  "inventory_sorted st \<longleftrightarrow>
     sorted (map rs_id (receivers st)) \<and> distinct (map rs_id (receivers st))"

section \<open>The inventory\<close>

lemma merge_incoming_ids: "set (map rs_id (merge_incoming ms r)) = insert (rs_id r) (set (map rs_id ms))"
  by (induction ms r rule: merge_incoming.induct) auto

lemma merge_incoming_distinct:
  "distinct (map rs_id ms) \<Longrightarrow> distinct (map rs_id (merge_incoming ms r))"
proof (induction ms r rule: merge_incoming.induct)
  case (2 x ms r)
  then show ?case using merge_incoming_ids [of ms r] by auto
qed simp

lemma foldl_merge_incoming_ids:
  "set (map rs_id (foldl merge_incoming ms rs)) = set (map rs_id ms) \<union> set (map rs_id rs)"
  by (induction rs arbitrary: ms) (auto simp: merge_incoming_ids simp del: set_map)

lemma foldl_merge_incoming_distinct:
  "distinct (map rs_id ms) \<Longrightarrow> distinct (map rs_id (foldl merge_incoming ms rs))"
  by (induction rs arbitrary: ms) (auto simp: merge_incoming_distinct)

text \<open>A row of the merge is an incoming row that no other incoming row of its identity precedes.\<close>

definition best_of :: "receiver_state list \<Rightarrow> receiver_state \<Rightarrow> bool" where
  "best_of rs r \<longleftrightarrow> r \<in> set rs \<and> (\<forall>s \<in> set rs. rs_id s = rs_id r \<longrightarrow> \<not> receiver_precedes s r)"

lemma receiver_precedes_trans:
  "receiver_precedes a b \<Longrightarrow> receiver_precedes b c \<Longrightarrow> receiver_precedes a c"
  unfolding receiver_precedes_def by (rule order.strict_trans)

lemma receiver_precedes_irrefl [simp]: "\<not> receiver_precedes a a"
  by (simp add: receiver_precedes_def)

lemma merge_incoming_mem:
  assumes "distinct (map rs_id ms)"
  shows "r' \<in> set (merge_incoming ms r) \<longleftrightarrow>
    (if rs_id r' = rs_id r
     then (\<exists>m \<in> set ms. rs_id m = rs_id r \<and> r' = (if receiver_precedes r m then r else m))
        \<or> (\<forall>m \<in> set ms. rs_id m \<noteq> rs_id r) \<and> r' = r
     else r' \<in> set ms)"
  using assms
proof (induction ms r rule: merge_incoming.induct)
  case (1 r)
  then show ?case by auto
next
  case (2 x ms r)
  show ?case
  proof (cases "rs_id x = rs_id r")
    case True
    with distinct_map_Cons_neq [OF "2.prems"] have "\<forall>m \<in> set ms. rs_id m \<noteq> rs_id r" by simp
    with True show ?thesis by auto
  next
    case False
    with 2 show ?thesis by auto
  qed
qed

lemma merge_incoming_best:
  assumes "\<And>m. m \<in> set ms \<Longrightarrow> best_of seen m"
    and "set (map rs_id ms) = set (map rs_id seen)"
    and "distinct (map rs_id ms)" and "r' \<in> set (merge_incoming ms r)"
  shows "best_of (seen @ [r]) r'"
proof (cases "rs_id r' = rs_id r")
  case False
  with assms(3,4) have "best_of seen r'" by (simp add: merge_incoming_mem assms(1))
  with False show ?thesis by (auto simp: best_of_def)
next
  case True
  show ?thesis
  proof (cases "\<exists>m \<in> set ms. rs_id m = rs_id r")
    case False
    with True assms(3,4) have "r' = r" by (auto simp: merge_incoming_mem)
    moreover have "\<forall>s \<in> set seen. rs_id s \<noteq> rs_id r"
      using False assms(2) by (metis image_eqI image_iff set_map)
    ultimately show ?thesis by (auto simp: best_of_def)
  next
    case m: True
    then obtain m where m: "m \<in> set ms" "rs_id m = rs_id r" "r' = (if receiver_precedes r m then r else m)"
      using True assms(3,4) by (auto simp: merge_incoming_mem)
    from assms(1) [OF m(1)] m(2,3) show ?thesis
      by (auto simp: best_of_def dest: receiver_precedes_trans)
  qed
qed

lemma foldl_merge_incoming_best:
  "r \<in> set (foldl merge_incoming [] rs) \<Longrightarrow> best_of rs r"
proof (induction rs arbitrary: r rule: rev_induct)
  case (snoc x rs)
  show ?case
    using snoc.prems
    by (simp, elim merge_incoming_best [rotated -1])
      (use snoc.IH foldl_merge_incoming_ids [of "[]" rs] foldl_merge_incoming_distinct [of "[]" rs] in auto)
qed simp

text \<open>The rows the second loop appends.\<close>

definition kept_offline :: "app_state \<Rightarrow> receiver_state list \<Rightarrow> receiver_state \<Rightarrow> bool" where
  "kept_offline st incoming p \<longleftrightarrow>
     rs_id p \<notin> rs_id ` set incoming
     \<and> (rs_id p \<in> desired_receivers st \<or> rs_id p \<in> staged_receivers st)"

lemma merge_previous_eq:
  "merge_previous st ms p =
     (if rs_id p \<notin> rs_id ` set ms \<and> (rs_id p \<in> desired_receivers st \<or> rs_id p \<in> staged_receivers st)
      then ms @ [p\<lparr>rs_availability := Unavailable\<rparr>] else ms)"
  by (simp add: merge_previous_def Let_def ball_neq_image)

lemma foldl_merge_previous_mem:
  assumes "distinct (map rs_id ps)"
  shows "set (foldl (merge_previous st) ms ps) =
     set ms \<union> (\<lambda>p. p\<lparr>rs_availability := Unavailable\<rparr>) ` {p \<in> set ps. kept_offline st ms p}"
  using assms
proof (induction ps arbitrary: ms)
  case (Cons p ps)
  note * = distinct_map_Cons_neq [OF Cons.prems]
  have "{q \<in> set ps. kept_offline st (merge_previous st ms p) q} = {q \<in> set ps. kept_offline st ms q}"
    using * by (auto simp: kept_offline_def merge_previous_eq)
  moreover have "set (merge_previous st ms p) =
      set ms \<union> (if kept_offline st ms p then {p\<lparr>rs_availability := Unavailable\<rparr>} else {})"
    by (auto simp: kept_offline_def merge_previous_eq)
  ultimately show ?case
    using Cons.IH [of "merge_previous st ms p"] Cons.prems by auto
qed simp

lemma foldl_merge_previous_distinct:
  "distinct (map rs_id ms) \<Longrightarrow> distinct (map rs_id (foldl (merge_previous st) ms ps))"
  by (induction ps arbitrary: ms) (auto simp: merge_previous_eq)

lemma merged_receivers_sorted:
  "sorted (map rs_id (merged_receivers st rs))"
  "distinct (map rs_id (merged_receivers st rs))"
proof -
  show "sorted (map rs_id (merged_receivers st rs))" by (simp add: merged_receivers_def)
  have "distinct (map rs_id (foldl (merge_previous st) (foldl merge_incoming [] rs) (receivers st)))"
    by (simp add: foldl_merge_previous_distinct foldl_merge_incoming_distinct)
  then show "distinct (map rs_id (merged_receivers st rs))"
    unfolding merged_receivers_def distinct_map set_sort by (simp add: distinct_sort)
qed

lemma merged_receivers_set:
  assumes "distinct (map rs_id (receivers st))"
  shows "set (merged_receivers st rs) = set (foldl merge_incoming [] rs)
     \<union> (\<lambda>p. p\<lparr>rs_availability := Unavailable\<rparr>) ` {p \<in> set (receivers st). kept_offline st rs p}"
proof -
  have "rs_id ` set (foldl merge_incoming [] rs) = rs_id ` set rs"
    using foldl_merge_incoming_ids [of "[]" rs] by simp
  then have "kept_offline st (foldl merge_incoming [] rs) = kept_offline st rs"
    by (simp add: kept_offline_def fun_eq_iff)
  then show ?thesis
    using foldl_merge_previous_mem [OF assms, of st "foldl merge_incoming [] rs"]
    by (simp add: merged_receivers_def)
qed

lemma inventory_sorted_filter:
  "inventory_sorted st \<Longrightarrow> inventory_sorted (fst (prune_irrelevant_unavailable (st\<lparr>staged_receivers := s\<rparr>)))"
  by (simp add: inventory_sorted_def prune_irrelevant_unavailable_def Let_def
      sorted_key_filter distinct_map_filter)

lemma controller_dispatch_inventory:
  "inventory_sorted st \<Longrightarrow> inventory_sorted (out_state (controller_dispatch st e))"
  by (cases e) (simp_all add: inventory_sorted_def handler_defs Let_def merged_receivers_sorted
      sorted_key_filter distinct_map_filter split: outcome_splits)

lemma preferences_dispatch_inventory:
  "receivers (out_state (preferences_dispatch st e)) = receivers st"
  by (cases e) (simp_all add: handler_defs Let_def split: outcome_splits)

interpretation inventory: state_invariant inventory_sorted
proof
  fix st lc e ob fx r
  assume *: "inventory_sorted st"
  show "inventory_sorted (out_state (dispatch lc st e))"
    using * controller_dispatch_inventory [OF *] preferences_dispatch_inventory [of st]
    by (cases e) (simp_all add: inventory_sorted_def handler_defs Let_def sorted_key_filter
      distinct_map_filter split: outcome_splits)
  show "inventory_sorted (out_state (observe_hardware_check st ob fx))"
    using * by (simp add: inventory_sorted_def observer_defs split: outcome_splits)
  show "inventory_sorted (st\<lparr>revision := r\<rparr>)"
    using * by (simp add: inventory_sorted_def)
qed
end
