(* ===== verification/Shell_Runs.thy ===== *)
theory Shell_Runs
  imports Reducer_Check Reducer_Invariants Reducer_Inventory
begin

text \<open>
  The shell as a running system: the states an actor can reach from its start-up state, the
  interface through which the published projection is shown to be current, the quiescence of the
  listening check between events, and the shutdown sequence.
\<close>

section \<open>Publishing on change\<close>

text \<open>
  A component that keeps a published view beside its state and refreshes it only when a step
  reports a change. If the reports are complete on the states satisfying an invariant, the view
  is current after every sequence of steps.
\<close>

locale publisher =
  fixes step :: "'s \<Rightarrow> 'e \<Rightarrow> 's \<times> 'f \<times> bool" and view :: "'s \<Rightarrow> 'v" and I :: "'s \<Rightarrow> bool"
  assumes step_keeps: "I s \<Longrightarrow> I (fst (step s e))"
    and step_reports: "I s \<Longrightarrow> \<not> snd (snd (step s e)) \<Longrightarrow> view (fst (step s e)) = view s"
begin

lemma published_current:
  assumes "I s"
    and "\<And>s v e. next (s, v) e =
      (fst (step s e), if snd (snd (step s e)) then view (fst (step s e)) else v)"
  shows "I (fst (foldl next (s, view s) es))
    \<and> snd (foldl next (s, view s) es) = view (fst (foldl next (s, view s) es))"
proof (induction es rule: rev_induct)
  case Nil
  then show ?case using assms(1) by simp
next
  case (snoc e es)
  obtain s' v' where eq: "foldl next (s, view s) es = (s', v')" by (cases "foldl next (s, view s) es")
  with snoc have *: "I s'" "v' = view s'" by simp_all
  show ?case
    using eq * step_keeps [OF *(1), of e] step_reports [OF *(1), of e] by (simp add: assms(2))
qed

end

interpretation window_publisher: publisher "reduce lc" "from_state lc" shell_inv
  for lc :: "string \<Rightarrow> string"
proof
  fix st e
  assume *: "shell_inv st"
  then show "shell_inv (out_state (reduce lc st e))" by (rule shell.reduce_keeps)
  assume "\<not> out_changed (reduce lc st e)"
  with * show "from_state lc (out_state (reduce lc st e)) = from_state lc st"
    by (simp add: reduce_unchanged_view shell_inv_def)
qed

lemma run_actor_pair:
  "(ac_state (run_actor lc st es), ac_published (run_actor lc st es)) =
     foldl (\<lambda>(s, v) e. (out_state (reduce lc s e),
         if out_changed (reduce lc s e) then from_state lc (out_state (reduce lc s e)) else v))
       (st, from_state lc st) es"
proof (induction es rule: rev_induct)
  case Nil
  then show ?case by simp
next
  case (snoc e es)
  show ?case unfolding foldl_append snoc.IH [symmetric] by simp
qed

lemma run_actor_published:
  assumes "shell_inv st"
  shows "ac_published (run_actor lc st es) = from_state lc (ac_state (run_actor lc st es))"
proof -
  let ?next = "\<lambda>(s, v) e. (out_state (reduce lc s e),
         if out_changed (reduce lc s e) then from_state lc (out_state (reduce lc s e)) else v)"
  have "snd (foldl ?next (st, from_state lc st) es) =
      from_state lc (fst (foldl ?next (st, from_state lc st) es))"
    using window_publisher.published_current [OF assms, of ?next lc es] by simp
  then show ?thesis unfolding run_actor_pair [symmetric] by simp
qed

section \<open>Reachable states\<close>

text \<open>The notices the settings loader attaches never claim that the controller is gone.\<close>

definition load_usable :: "preferences_load \<Rightarrow> bool" where
  "load_usable loaded \<longleftrightarrow>
     (\<forall>n. pl_notice loaded = Some n \<longrightarrow> un_code n = Code_PreferencesFailed)"

inductive reachable :: "(string \<Rightarrow> string) \<Rightarrow> app_state \<Rightarrow> bool" for lc where
  start: "load_usable loaded \<Longrightarrow> reachable lc (initial_state loaded windows)"
| step: "reachable lc st \<Longrightarrow> reachable lc (out_state (reduce lc st e))"

lemma initial_state_inv:
  assumes "load_usable loaded"
  shows "shell_inv (initial_state loaded windows)"
    and "inventory_sorted (initial_state loaded windows)"
    and "check_needs_selection (initial_state loaded windows)"
proof -
  show "shell_inv (initial_state loaded windows)"
    using assms geometry_validate_safe [of "pf_window (pl_value loaded)"]
    by (auto simp: shell_inv_unfold initial_state_def app_state_default_def load_usable_def
        split: option.split)
  show "inventory_sorted (initial_state loaded windows)"
    by (simp add: inventory_sorted_def initial_state_def app_state_default_def)
  show "check_needs_selection (initial_state loaded windows)"
    by (simp add: check_needs_selection_def initial_state_def app_state_default_def
        hardware_check_default_def)
qed

lemma reachable_shell_inv: "reachable lc st \<Longrightarrow> shell_inv st"
  by (induction rule: reachable.induct) (auto intro: initial_state_inv shell.reduce_keeps)

lemma reachable_inventory: "reachable lc st \<Longrightarrow> inventory_sorted st"
  by (induction rule: reachable.induct) (auto intro: initial_state_inv inventory.reduce_keeps)

lemma reachable_selection: "reachable lc st \<Longrightarrow> check_needs_selection st"
  by (induction rule: reachable.induct) (auto intro: initial_state_inv selection.reduce_keeps)

lemma reachable_run: "reachable lc st \<Longrightarrow> reachable lc (ac_state (run_actor lc st es))"
  by (induction es rule: rev_induct) (auto intro: reachable.step)

section \<open>The listening check between two events\<close>

text \<open>
  The observer runs to completion: what it leaves behind it would not touch again without news.
\<close>

definition check_settled :: "app_state \<Rightarrow> bool" where
  "check_settled st \<longleftrightarrow>
     (case phase_of st of
        Ph_Connecting \<Rightarrow> check_live st
          \<and> \<not> (is_streaming (stream st) \<and> active_receivers st = desired_receivers st)
      | Ph_Listening \<Rightarrow> check_live st
      | Ph_StopPending \<Rightarrow>
          hc_outcome (hardware_check st) = None \<or> hc_matches (hardware_check st) st
      | Ph_Heard \<Rightarrow> hc_matches (hardware_check st) st \<and> stream st = Stream_Stopped
      | Ph_NotHeard \<Rightarrow> hc_matches (hardware_check st) st \<and> stream st = Stream_Stopped
      | _ \<Rightarrow> True)"

lemma hc_abort_outcome: "hc_outcome (hardware_check (fst (hc_abort st))) = None"
  by (simp add: hc_abort_def stop_requested_def next_session_def Let_def)

lemma observe_connecting_settled:
  assumes "phase_of st \<in> {Ph_Connecting, Ph_Listening}"
  shows "check_settled (fst (observe_connecting st ob))"
proof (cases "ob_configuration_request ob \<or> \<not> hc_matches (hardware_check st) st
    \<or> hc_generation (hardware_check st) \<noteq> Some (session_of st)
    \<or> \<not> is_starting_or_streaming (stream st)")
  case True
  then have "observe_connecting st ob = hc_abort st"
    unfolding observe_connecting_def Let_def by (rule if_P)
  then show ?thesis by (simp add: check_settled_def hc_abort_phase hc_abort_outcome)
next
  case False
  then show ?thesis
    using assms by (auto simp: observe_connecting_def Let_def check_settled_def check_live_def)
qed

lemma observe_stop_pending_settled:
  "phase_of st = Ph_StopPending \<Longrightarrow> check_settled (observe_stop_pending st ob fault)"
  by (auto simp: observe_stop_pending_def check_settled_def Let_def split: option.split bool.split)

lemma observe_finished_settled:
  "phase_of st \<in> {Ph_Heard, Ph_NotHeard} \<Longrightarrow> check_settled (observe_finished st ob fault)"
  by (auto simp: observe_finished_def check_settled_def)

lemma idle_settled: "phase_of st \<in> {Ph_Preparation, Ph_Invalidated} \<Longrightarrow> check_settled st"
  by (auto simp: check_settled_def)

lemma observe_settled: "check_settled (out_state (observe_hardware_check st ob fx))"
  using observe_connecting_settled [of st ob] observe_stop_pending_settled [of st ob]
    observe_finished_settled [of st ob] idle_settled [of st]
  by (cases "phase_of st"; cases "observe_connecting st ob")
    (simp_all add: observe_hardware_check_def Let_def)

lemma check_settled_revision [simp]: "check_settled (st\<lparr>revision := r\<rparr>) = check_settled st"
  by (simp add: check_settled_def check_live_def split: hardware_check_phase.split)

lemma reduce_settled: "check_settled st \<Longrightarrow> check_settled (out_state (reduce lc st e))"
proof (cases rule: reduce_cases [where st = st and e = e and lc = lc])
  case guarded
  then show "check_settled st \<Longrightarrow> ?thesis" by simp
next
  case (dispatched st1 fx1 ch1 st2 fx2 ch2)
  have "check_settled st2"
    using observe_settled [of st1 "observation_from_event e" fx1] dispatched(3) by simp
  then show ?thesis using dispatched(4) by (simp add: finish_def)
qed

lemma reachable_settled: "reachable lc st \<Longrightarrow> check_settled st"
proof (induction rule: reachable.induct)
  case (start loaded windows)
  then show ?case
    by (simp add: check_settled_def initial_state_def app_state_default_def
        hardware_check_default_def)
next
  case (step st e)
  then show ?case by (simp add: reduce_settled)
qed

text \<open>An event that is no news to a settled check passes it unnoticed.\<close>

lemma observe_connecting_quiet:
  assumes "check_settled st" "phase_of st \<in> {Ph_Connecting, Ph_Listening}"
    and "\<not> ob_configuration_request ob"
  shows "observe_connecting st ob = (st, [])"
proof -
  have "hc_matches (hardware_check st) st" "hc_generation (hardware_check st) = Some (session_of st)"
    "is_starting_or_streaming (stream st)"
    using assms(1,2) by (auto simp: check_settled_def check_live_def)
  then have eq: "observe_connecting st ob =
      (if is_streaming (stream st) \<and> active_receivers st = desired_receivers st
       then (st\<lparr>hardware_check := (hardware_check st)\<lparr>hc_phase := Ph_Listening\<rparr>\<rparr>,
             if phase_of st = Ph_Connecting then [Eff_PlayListeningTone (session_of st)] else [])
       else (st, []))"
    using assms(3) unfolding observe_connecting_def Let_def by (simp only: simp_thms if_False)
  show ?thesis
  proof (cases "phase_of st = Ph_Connecting")
    case True
    with assms(1) show ?thesis by (simp add: eq check_settled_def)
  next
    case False
    with assms(2) have "phase_of st = Ph_Listening" by simp
    then show ?thesis by (simp add: eq)
  qed
qed

lemma settled_quiet:
  assumes "check_settled st" and "\<not> ob_configuration_request ob"
    and "ob_fault_generation ob \<noteq> Some (session_of st)"
    and "ob_stopped_generation ob = None
         \<or> ob_stopped_generation ob \<noteq> hc_generation (hardware_check st)"
  shows "observe_hardware_check st ob fx = (st, fx, False)"
proof -
  have stop: "observe_stop_pending st ob False = st" if "phase_of st = Ph_StopPending"
  proof -
    have quiet: "(ob_stopped_generation ob \<noteq> None
        \<and> ob_stopped_generation ob = hc_generation c \<and> stream st = Stream_Stopped) = False"
      if "hc_generation c = hc_generation (hardware_check st)" for c
      using assms(4) that by auto
    consider "hc_outcome (hardware_check st) = None" | "hc_matches (hardware_check st) st"
      using assms(1) \<open>phase_of st = Ph_StopPending\<close> by (auto simp: check_settled_def)
    then have "(if ob_configuration_request ob \<or> False \<or> \<not> hc_matches (hardware_check st) st
        then (hardware_check st)\<lparr>hc_outcome := None\<rparr> else hardware_check st) = hardware_check st"
      using assms(2) by cases simp_all
    then show ?thesis
      unfolding observe_stop_pending_def Let_def by (simp only: quiet if_False) simp
  qed
  have fin: "observe_finished st ob False = st" if "phase_of st \<in> {Ph_Heard, Ph_NotHeard}"
    using assms that by (auto simp: observe_finished_def check_settled_def)
  note con = observe_connecting_quiet [OF assms(1) _ assms(2)]
  have fault: "(ob_fault_generation ob \<noteq> None
      \<and> ob_fault_generation ob = hc_generation (hardware_check st)
      \<and> ob_fault_generation ob = Some (session_of st)) = False"
    using assms(3) by simp
  show ?thesis
    unfolding observe_hardware_check_def fault Let_def
    by (cases "phase_of st") (simp_all add: con stop fin)
qed

section \<open>Stale reports\<close>

text \<open>The session generation a controller report belongs to.\<close>

fun report_generation :: "controller_event \<Rightarrow> generation_id option" where
  "report_generation (Ctl_SessionStarted g _) = Some g"
| "report_generation (Ctl_SessionDegraded g _) = Some g"
| "report_generation (Ctl_SessionRestarting g) = Some g"
| "report_generation (Ctl_SessionStopped g) = Some g"
| "report_generation (Ctl_SessionFailed g _) = Some g"
| "report_generation _ = None"

lemma stale_dispatch:
  "report_generation c = Some g \<Longrightarrow> g \<noteq> session_of st \<Longrightarrow>
   controller_dispatch st c = (st, [], False)"
  by (cases c) (simp_all add: handler_defs)

lemma stale_reduce:
  assumes "check_settled st" and "report_generation c = Some g" and "g \<noteq> session_of st"
    and "hc_generation (hardware_check st) \<noteq> Some g"
  shows "reduce lc st (Ev_Controller c) = (st, [], False)"
proof -
  have "observe_hardware_check st (observation_from_event (Ev_Controller c)) [] = (st, [], False)"
    using assms
    by (intro settled_quiet) (auto simp: observation_from_event_def split: controller_event.splits)
  then show ?thesis
    using stale_dispatch [OF assms(2,3)] by (simp add: reduce_def finish_def)
qed

section \<open>The revision counter\<close>

lemma dispatch_revision [simp]: "revision (out_state (dispatch lc st e)) = revision st"
proof (cases e)
  case (Ev_Controller c)
  then show ?thesis by (cases c) (simp_all add: handler_defs Let_def split: outcome_splits)
next
  case (Ev_Preferences c)
  then show ?thesis by (cases c) (simp_all add: handler_defs Let_def split: outcome_splits)
next
  case (Ev_HardwareCheck a)
  then show ?thesis by (cases a) (simp_all add: handler_defs Let_def)
qed (simp_all add: handler_defs Let_def split: outcome_splits)

lemma observe_revision [simp]:
  "revision (out_state (observe_hardware_check st ob fx)) = revision st"
  by (simp add: observer_defs split: outcome_splits)

lemma reduce_revision:
  "revision (out_state (reduce lc st e)) =
     revision st + (if out_changed (reduce lc st e) then 1 else 0)"
proof (cases rule: reduce_cases [where st = st and e = e and lc = lc])
  case guarded
  then show ?thesis by simp
next
  case (dispatched st1 fx1 ch1 st2 fx2 ch2)
  have "revision st2 = revision st"
    using dispatch_revision [of lc st e] observe_revision [of st1 "observation_from_event e" fx1]
      dispatched(2,3) by simp
  then show ?thesis using dispatched(4) by (simp add: finish_def)
qed

section \<open>Starting a check\<close>

lemma ready_selected_available:
  assumes "hc_ready st" "finite (desired_receivers st)"
  shows "available_selected_ids st = sorted_ids (desired_receivers st)"
proof -
  have "set (map rs_id (filter (\<lambda>r. rs_availability r = Available \<and> rs_id r \<in> desired_receivers st)
      (receivers st))) = desired_receivers st"
    using assms(1) by (auto simp: hc_ready_def prerequisite_blocker_None_iff receiver_online_def)
  then show ?thesis by (simp add: available_selected_ids_def)
qed

lemma startable_ready:
  assumes "hs_ready (hc_snapshot st)"
  shows "hc_ready st" and "stream st = Stream_Stopped" and "phase_of st \<noteq> Ph_StopPending"
  using assms by (auto simp: hc_snapshot_def start_blocker_def hc_ready_def Let_def
      split: if_splits option.splits)

lemma hc_start_dispatch:
  assumes "hs_ready (hc_snapshot st)" "hc_prepared (hardware_check st)"
    and "finite (desired_receivers st)"
  defines "st1 \<equiv> (next_session st)\<lparr>stream := Stream_Starting (session_of st + 1), active_receivers := {}\<rparr>"
  shows "hardware_check_requested st HC_Start =
     (st1\<lparr>hardware_check := hc_bind (hardware_check st) st1\<rparr>,
      [Eff_StartSession (session_of st + 1) (sorted_ids (desired_receivers st))
         (f32_clamp (master_volume st) f32_zero f32_one)], True)"
proof -
  note ready = startable_ready [OF assms(1)]
  note pre = ready(1) [unfolded hc_ready_def prerequisite_blocker_None_iff]
  have "start_requested st = start_with_receiver_ids st (sorted_ids (desired_receivers st))"
    using pre ready(2) ready_selected_available [OF ready(1) assms(3)] assms(3)
    by (simp add: start_requested_def)
  then show ?thesis
    using assms(1,2) pre
    by (simp add: hardware_check_requested_def start_with_receiver_ids_def next_session_def st1_def
        Let_def)
qed

lemma ready_stream_frame:
  "hc_ready (st\<lparr>generations := g, stream := s, active_receivers := a\<rparr>) = hc_ready st"
  by (simp add: hc_ready_def prerequisite_blocker_None_iff receiver_online_def
      group_operation_pending_def)

lemma reduce_hc_start:
  assumes "hs_ready (hc_snapshot st)" "hc_prepared (hardware_check st)"
    and "finite (desired_receivers st)"
    and "\<And>levels i x. receiver_levels st = Some levels \<Longrightarrow> (i, x) \<in> set levels \<Longrightarrow> x \<noteq> NaN"
  shows "out_effects (reduce lc st (Ev_HardwareCheck HC_Start)) =
      [Eff_StartSession (session_of st + 1) (sorted_ids (desired_receivers st))
         (f32_clamp (master_volume st) f32_zero f32_one)]"
    and "phase_of (out_state (reduce lc st (Ev_HardwareCheck HC_Start))) = Ph_Connecting"
    and "hc_generation (hardware_check (out_state (reduce lc st (Ev_HardwareCheck HC_Start))))
      = Some (session_of st + 1)"
proof -
  define st1 where "st1 = (next_session st)\<lparr>stream := Stream_Starting (session_of st + 1), active_receivers := {}\<rparr>"
  define st2 where "st2 = st1\<lparr>hardware_check := hc_bind (hardware_check st) st1\<rparr>"
  note d = hc_start_dispatch [OF assms(1-3), folded st1_def, folded st2_def]
  have ready: "hc_ready st1"
    using startable_ready(1) [OF assms(1)] by (simp add: st1_def next_session_def ready_stream_frame)
  then have m: "hc_matches (hardware_check st2) st2"
    using hc_bind_matches [of st1 "hardware_check st"] assms(4)
    by (simp add: st2_def st1_def next_session_def)
  have s: "hc_generation (hardware_check st2) = Some (session_of st + 1)"
    "session_of st2 = session_of st + 1" "stream st2 = Stream_Starting (session_of st + 1)"
    "phase_of st2 = Ph_Connecting"
    by (simp_all add: st2_def st1_def next_session_def hc_bind_def)
  have "observe_connecting st2 (observation_from_event (Ev_HardwareCheck HC_Start)) = (st2, [])"
    using m s by (simp add: observe_connecting_def observation_from_event_def)
  then have "observe_hardware_check st2 (observation_from_event (Ev_HardwareCheck HC_Start)) fx = (st2, fx, False)" for fx
    using s by (simp add: observe_hardware_check_def Let_def)
  then have "reduce lc st (Ev_HardwareCheck HC_Start) = finish st2
      [Eff_StartSession (session_of st + 1) (sorted_ids (desired_receivers st))
         (f32_clamp (master_volume st) f32_zero f32_one)] True"
    using d by (simp add: reduce_def)
  then show "out_effects (reduce lc st (Ev_HardwareCheck HC_Start)) =
      [Eff_StartSession (session_of st + 1) (sorted_ids (desired_receivers st))
         (f32_clamp (master_volume st) f32_zero f32_one)]"
    and "phase_of (out_state (reduce lc st (Ev_HardwareCheck HC_Start))) = Ph_Connecting"
    and "hc_generation (hardware_check (out_state (reduce lc st (Ev_HardwareCheck HC_Start))))
      = Some (session_of st + 1)"
    using s by (auto simp: finish_def)
qed

end
