(* ===== verification/Shell_Shutdown.thy ===== *)
theory Shell_Shutdown
  imports Shell_Runs
begin

text \<open>
  Quitting: the latch, the one shutdown request of a run, the order of the effects that carry it,
  and what no longer happens afterwards.
\<close>

section \<open>The latch\<close>

lemma controller_dispatch_shutting_down [simp]:
  "shutting_down (out_state (controller_dispatch st e)) = shutting_down st"
  by (cases e) (simp_all add: handler_defs Let_def split: outcome_splits)

lemma preferences_dispatch_shutting_down [simp]:
  "shutting_down (out_state (preferences_dispatch st e)) = shutting_down st"
  by (cases e) (simp_all add: handler_defs Let_def split: outcome_splits)

lemma hardware_check_requested_shutting_down [simp]:
  "shutting_down (out_state (hardware_check_requested st a)) = shutting_down st"
  by (cases a) (simp_all add: handler_defs Let_def)

lemma dispatch_shutting_down:
  "shutting_down (out_state (dispatch lc st e)) \<longleftrightarrow> shutting_down st \<or> e = Ev_QuitRequested"
  by (cases e) (simp_all add: handler_defs Let_def split: outcome_splits)

lemma observe_shutting_down [simp]:
  "shutting_down (out_state (observe_hardware_check st ob fx)) = shutting_down st"
  by (simp add: observer_defs split: outcome_splits)

lemma reduce_shutting_down:
  "shutting_down (out_state (reduce lc st e)) \<longleftrightarrow> shutting_down st \<or> e = Ev_QuitRequested"
proof (cases rule: reduce_cases [where st = st and e = e and lc = lc])
  case guarded
  then show ?thesis by auto
next
  case (dispatched st1 fx1 ch1 st2 fx2 ch2)
  then show ?thesis
    using dispatch_shutting_down [of lc st e]
      observe_shutting_down [of st1 "observation_from_event e" fx1]
    by (simp add: finish_def)
qed

lemma run_shutting_down:
  "shutting_down (ac_state (run_actor lc st es)) \<longleftrightarrow>
     shutting_down st \<or> Ev_QuitRequested \<in> set es"
  by (induction es rule: rev_induct) (auto simp: reduce_shutting_down)

section \<open>One shutdown request\<close>

definition shutdown_requests :: "app_effect list \<Rightarrow> nat" where
  "shutdown_requests fx = length (filter (\<lambda>f. f = Eff_BeginShutdown) fx)"

lemma shutdown_requests_simps [simp]:
  "shutdown_requests [] = 0"
  "shutdown_requests (f # fx) = (if f = Eff_BeginShutdown then 1 else 0) + shutdown_requests fx"
  "shutdown_requests (fx @ gx) = shutdown_requests fx + shutdown_requests gx"
  by (simp_all add: shutdown_requests_def)

lemma preferences_dispatch_shutdown_requests [simp]:
  "shutdown_requests (out_effects (preferences_dispatch st e)) = 0"
  by (cases e) (simp_all add: handler_defs Let_def split: outcome_splits)

lemma hardware_check_requested_shutdown_requests [simp]:
  "shutdown_requests (out_effects (hardware_check_requested st a)) = 0"
  by (cases a) (simp_all add: handler_defs Let_def)

lemma dispatch_shutdown_requests:
  "shutdown_requests (out_effects (dispatch lc st e)) =
     (if e = Ev_QuitRequested \<and> \<not> shutting_down st then 1 else 0)"
  by (cases e) (simp_all add: handler_defs Let_def split: outcome_splits)

lemma observe_shutdown_requests [simp]:
  "shutdown_requests (out_effects (observe_hardware_check st ob fx)) = shutdown_requests fx"
  by (simp add: observer_defs split: outcome_splits)

lemma reduce_shutdown_requests:
  "shutdown_requests (out_effects (reduce lc st e)) =
     (if e = Ev_QuitRequested \<and> \<not> shutting_down st then 1 else 0)"
proof (cases rule: reduce_cases [where st = st and e = e and lc = lc])
  case guarded
  then show ?thesis by auto
next
  case (dispatched st1 fx1 ch1 st2 fx2 ch2)
  then show ?thesis
    using dispatch_shutdown_requests [of lc st e]
      observe_shutdown_requests [of st1 "observation_from_event e" fx1] by simp
qed

lemma run_shutdown_requests:
  "shutdown_requests (ac_executed (run_actor lc st es)) =
     (if \<not> shutting_down st \<and> Ev_QuitRequested \<in> set es then 1 else 0)"
  by (induction es rule: rev_induct) (auto simp: reduce_shutdown_requests run_shutting_down)

section \<open>The order of the quit effects\<close>

lemma quit_observed:
  assumes "check_settled st" "\<not> shutting_down st"
  shows "out_effects (observe_hardware_check (out_state (quit_requested st))
           (observation_from_event Ev_QuitRequested) fx) = fx"
proof (cases "phase_of st \<in> {Ph_Connecting, Ph_Listening}")
  case True
  then have "is_starting_or_streaming (stream st)"
    using assms(1) by (auto simp: check_settled_def check_live_def)
  then have run: "is_running (stream st)" by simp
  let ?st = "out_state (quit_requested st)"
  have *: "stream ?st = Stream_Stopping (session_of st + 1)" "hardware_check ?st = hardware_check st"
    using run assms(2) by (simp_all add: handler_defs Let_def)
  then have "observe_connecting ?st ob = hc_abort ?st" for ob
    by (simp add: observe_connecting_def Let_def)
  then show ?thesis
    using True * by (auto simp: observe_hardware_check_def hc_abort_def stop_requested_def Let_def)
next
  case False
  moreover have "hardware_check (out_state (quit_requested st)) = hardware_check st"
    by (simp add: handler_defs Let_def)
  ultimately show ?thesis
    by (cases "phase_of st") (simp_all add: observe_hardware_check_def Let_def)
qed

lemma reduce_quit_effects:
  assumes "check_settled st" "\<not> shutting_down st"
  shows "out_effects (reduce lc st Ev_QuitRequested) =
     [Eff_PersistPreferences (g_preferences (generations st) + 1) (preferences_from_state st)]
     @ (if is_running (stream st) then [Eff_StopSession (session_of st + 1)] else [])
     @ [Eff_HideMainWindow, Eff_BeginShutdown]"
proof -
  let ?q = "quit_requested st"
  have "out_effects (reduce lc st Ev_QuitRequested) =
      out_effects (observe_hardware_check (out_state ?q) (observation_from_event Ev_QuitRequested)
        (out_effects ?q))"
    by (simp add: reduce_def finish_def Let_def split: prod.split)
  then show ?thesis
    unfolding quit_observed [OF assms]
    using assms(2) by (simp add: handler_defs preferences_from_state_def Let_def)
qed

section \<open>After the latch\<close>

text \<open>
  Once the shell shuts down nothing starts audio any more. The one exception is the fallback of
  \<open>apply_staged\<close> that runs before the backend has reported a selection: it does not look at the
  latch.
\<close>

lemma dispatch_after_quit:
  assumes "shutting_down st" "e \<noteq> Ev_ApplyStagedReceivers \<or> desired_known st"
    and "f \<in> set (out_effects (dispatch lc st e))"
  shows "\<not> starts_audio f"
proof (cases e)
  case (Ev_Preferences c)
  with assms(3) show ?thesis
    by (cases c) (auto simp: handler_defs Let_def split: option.splits if_splits)
qed (use assms in \<open>auto simp: handler_defs Let_def split: option.splits if_splits\<close>)

lemma observe_connecting_after_quit:
  assumes "shutting_down st" "f \<in> set (snd (observe_connecting st ob))"
  shows "\<not> starts_audio f"
proof -
  have "\<not> hc_matches c st" for c
    using assms(1) by (simp add: hc_matches_def hc_ready_def prerequisite_blocker_def)
  then have "observe_connecting st ob = hc_abort st" by (simp add: observe_connecting_def Let_def)
  with assms(2) show ?thesis
    by (auto simp: hc_abort_def stop_requested_def Let_def split: if_splits)
qed

lemma reduce_after_quit:
  assumes "shutting_down st" "e \<noteq> Ev_ApplyStagedReceivers \<or> desired_known st"
    and "f \<in> set (out_effects (reduce lc st e))"
  shows "\<not> starts_audio f"
proof (cases rule: reduce_cases [where st = st and e = e and lc = lc])
  case guarded
  with assms show ?thesis by simp
next
  case (dispatched st1 fx1 ch1 st2 fx2 ch2)
  then consider "f \<in> set fx1" | "f \<in> set fx2" using assms(3) by auto
  then show ?thesis
  proof cases
    case 1
    then show ?thesis using dispatch_after_quit [OF assms(1,2), of f lc] dispatched(2) by simp
  next
    case 2
    have "shutting_down st1"
      using dispatch_shutting_down [of lc st e] assms(1) dispatched(2) by simp
    moreover have "f \<in> set (snd (observe_connecting st1 (observation_from_event e)))"
      using 2 dispatched(3)
      by (auto simp: observe_hardware_check_def Let_def
          split: prod.splits hardware_check_phase.splits)
    ultimately show ?thesis by (rule observe_connecting_after_quit)
  qed
qed

end
