(* ===== verification/Shell_Examples.thy ===== *)
theory Shell_Examples
  imports Shell_Shutdown
begin

text \<open>
  One concrete use of the shell, from start-up through discovery, selection and a listening check
  to its verdict. The witnesses of the shell's properties evaluate on its prefixes.
\<close>

definition demo_load :: preferences_load where
  "demo_load =
     \<lparr>pl_value = \<lparr>pf_schema_version = PREFERENCES_SCHEMA_VERSION, pf_hotkey = hotkey_default,
        pf_theme = Theme_Dark, pf_locale = Locale_German, pf_advanced_information = False,
        pf_window = geometry_default, pf_last_page = Page_Home, pf_close_to_tray = True,
        pf_launch_at_startup = False\<rparr>,
      pl_notice = None\<rparr>"

definition demo_start :: app_state where
  "demo_start = initial_state demo_load English"

definition kitchen :: device_id where "kitchen = DeviceId 1 2 3 4 5 6"

definition kitchen_row :: receiver_state where
  "kitchen_row = \<lparr>rs_id = kitchen, rs_name = ''Kitchen'', rs_model = ''AudioAccessory5,1'',
     rs_availability = Available\<rparr>"

definition attic_row :: receiver_state where
  "attic_row = \<lparr>rs_id = DeviceId 9 9 9 9 9 9, rs_name = ''Attic'', rs_model = ''AppleTV6,2'',
     rs_availability = Available\<rparr>"

definition demo_prepare :: "app_event list" where
  "demo_prepare =
     [Ev_RefreshRequested,
      Ev_Controller (Ctl_DiscoveryCompleted 1 [kitchen_row]),
      Ev_Controller (Ctl_DesiredReceiversChanged 1 [kitchen]),
      Ev_Controller (Ctl_ReceiverLevelsChanged [(kitchen, f32_one)]),
      Ev_Controller (Ctl_MuteChanged False),
      Ev_Controller (Ctl_LatencyChanged \<lparr>lr_selected = Latency_Normal, lr_options = []\<rparr>),
      Ev_Controller (Ctl_VolumeApplied 0 f32_0_10),
      Ev_Controller (Ctl_AudioSourceChanged
        \<lparr>as_endpoints_known = True, as_refresh_failed = False,
         as_endpoints = [\<lparr>ae_key = 7, ae_name = ''Speakers''\<rparr>],
         as_selection = Sel_SystemDefault, as_captured_key = Some 7,
         as_captured_name = Some ''Speakers'', as_state = Cap_Capturing\<rparr>),
      Ev_HardwareCheck (HC_Prepare True)]"

definition demo_ready :: app_state where
  "demo_ready = ac_state (run_actor id demo_start demo_prepare)"

definition demo_connecting :: app_state where
  "demo_connecting = out_state (reduce id demo_ready (Ev_HardwareCheck HC_Start))"

definition demo_started :: app_event where
  "demo_started = Ev_Controller (Ctl_SessionStarted 1 [kitchen])"

definition demo_listening :: app_state where
  "demo_listening = out_state (reduce id demo_connecting demo_started)"

definition demo_stopping :: app_state where
  "demo_stopping = out_state (reduce id demo_listening (Ev_HardwareCheck (HC_Heard True)))"

definition demo_degraded :: app_state where
  "demo_degraded = out_state (reduce id demo_listening
     (Ev_Controller (Ctl_SessionDegraded 1 [kitchen])))\<lparr>stream := Stream_Degraded 1\<rparr>"

lemma demo_load_usable: "load_usable demo_load"
  by (simp add: load_usable_def demo_load_def)

lemma demo_reachable:
  "reachable id demo_start" "reachable id demo_ready" "reachable id demo_connecting"
  "reachable id demo_listening" "reachable id demo_stopping"
proof -
  show start: "reachable id demo_start"
    unfolding demo_start_def by (rule reachable.start [OF demo_load_usable])
  then show ready: "reachable id demo_ready" unfolding demo_ready_def by (rule reachable_run)
  then show connecting: "reachable id demo_connecting"
    unfolding demo_connecting_def by (rule reachable.step)
  then show listening: "reachable id demo_listening"
    unfolding demo_listening_def by (rule reachable.step)
  then show "reachable id demo_stopping" unfolding demo_stopping_def by (rule reachable.step)
qed

lemma demo_phases:
  "phase_of demo_ready = Ph_Preparation" "phase_of demo_connecting = Ph_Connecting"
  "phase_of demo_listening = Ph_Listening" "phase_of demo_stopping = Ph_StopPending"
  by code_simp+

lemma demo_tone:
  "out_effects (reduce id demo_connecting demo_started) = [Eff_PlayListeningTone 1]"
  by code_simp

lemma demo_stop_generation:
  "hc_generation (hardware_check demo_stopping) = Some 2" "session_of demo_stopping = 2"
  by code_simp+

end
