(* ===== verification/Shell_Properties.thy ===== *)
theory Shell_Properties
  imports Shell_Examples
begin

text \<open>
  What the shell promises, stated over its runs: the properties of the reducer, the listening
  check, the published projection and the shutdown sequence, each with a concrete instance on the
  example run where it has a hypothesis.
\<close>

section \<open>The published projection\<close>

text \<open>
  C1: after every sequence of events, from every start-up state the settings loader can produce,
  the snapshot the actor last published is the projection of its current state: the reducer never
  forgets to report a visible change.
\<close>

theorem published_is_current:
  assumes "load_usable loaded"
  shows "ac_published (run_actor lc (initial_state loaded windows) es) =
    from_state lc (ac_state (run_actor lc (initial_state loaded windows) es))"
  using run_actor_published [OF initial_state_inv(1) [OF assms]] .

theorem published_is_current_witness:
  "ac_published (run_actor id (initial_state demo_load English) demo_prepare) =
   from_state id (ac_state (run_actor id (initial_state demo_load English) demo_prepare))"
  by (rule published_is_current) (rule demo_load_usable)

text \<open>
  The revision counter of the published state moves by exactly one when a reduction reports a
  change and stays put otherwise, so two snapshots with the same revision in one run come from
  states between which no change was reported.
\<close>

theorem revision_counts_changes:
  "revision (out_state (reduce lc st e)) =
     revision st + (if out_changed (reduce lc st e) then 1 else 0)"
  by (rule reduce_revision)

section \<open>Invariants\<close>

text \<open>
  C25: every state the shell can reach is well formed: memberships are finite, the resolved
  language follows the preference and the Windows display language, requested and confirmed volume
  are finite, the window geometry is usable, the staging base never runs ahead of the selection
  revision, a pending group operation is the newest one and never survives the controller, and a
  notice that the controller is gone implies that it is.
\<close>

theorem reachable_well_formed:
  assumes "reachable lc st"
  shows "shell_inv st"
  using assms by (rule reachable_shell_inv)

theorem reachable_well_formed_witness: "shell_inv demo_listening"
  by (rule reachable_well_formed [OF demo_reachable(4)])

text \<open>
  In every reachable state the receiver inventory is sorted by identity and holds one row per
  receiver.
\<close>

theorem reachable_inventory_sorted:
  assumes "reachable lc st"
  shows "sorted (map rs_id (receivers st)) \<and> distinct (map rs_id (receivers st))"
  using reachable_inventory [OF assms] by (simp add: inventory_sorted_def)

theorem reachable_inventory_sorted_witness:
  "sorted (map rs_id (receivers demo_ready)) \<and> distinct (map rs_id (receivers demo_ready))"
  by (rule reachable_inventory_sorted [OF demo_reachable(2)])

section \<open>Effects\<close>

text \<open>
  C19: session commands are numbered without gaps or repetition: over any run, the generations of
  the start, stop and group-start commands, in the order they are executed, are exactly the next
  \<open>n\<close> values of the session counter, where \<open>n\<close> is at most two per event, and they are distinct as
  long as the 64-bit counter does not wrap.
\<close>

theorem session_generations_fresh:
  "\<exists>n \<le> 2 * length es.
     session_generations (ac_executed (run_actor lc st es)) = next_generations (session_of st) n
     \<and> session_of (ac_state (run_actor lc st es)) = session_of st + of_nat n
     \<and> (n < 2 ^ 64 \<longrightarrow> distinct (session_generations (ac_executed (run_actor lc st es))))"
  using run_issues [of es st lc] next_generations_distinct by (fastforce simp: issues_def)

theorem session_generations_fresh_witness:
  "\<exists>n \<le> 2 * length demo_prepare.
     session_generations (ac_executed (run_actor id demo_start demo_prepare))
       = next_generations (session_of demo_start) n
     \<and> session_of (ac_state (run_actor id demo_start demo_prepare)) = session_of demo_start + of_nat n
     \<and> (n < 2 ^ 64 \<longrightarrow>
          distinct (session_generations (ac_executed (run_actor id demo_start demo_prepare))))"
  by (rule session_generations_fresh)

text \<open>
  Every effect a reduction asks for is backed by the state it leaves behind: requests carry
  the newest generation of their kind, volumes and levels sent out are finite and lie in the unit
  interval, a settings write carries the complete current settings, a group command is recorded as
  the pending operation, latency and endpoint requests name a choice that is on offer.
\<close>

theorem effects_are_backed:
  assumes "f \<in> set (out_effects (reduce lc st e))"
  shows "effect_backed (out_state (reduce lc st e)) f"
  using assms by (rule backed.reduce_meets)

theorem effects_are_backed_witness:
  "effect_backed (out_state (reduce id demo_start (Ev_MasterVolumeChanged (Finite 2))))
     (Eff_ApplyVolume 1 f32_one)"
  by (rule effects_are_backed) code_simp

section \<open>The listening check\<close>

text \<open>
  C7: the test tone is only requested in the step in which the check becomes \<open>Listening\<close>: the
  session of that generation is streaming to exactly the selected receivers, all of them online,
  the shell is neither muted nor shutting down, and the confirmed master volume is settled, above
  zero and at most 15 percent.
\<close>

theorem tone_only_when_safe:
  assumes "Eff_PlayListeningTone g \<in> set (out_effects (reduce lc st e))"
  shows "g = session_of (out_state (reduce lc st e)) \<and> phase_of st = Ph_Connecting
    \<and> phase_of (out_state (reduce lc st e)) = Ph_Listening
    \<and> is_streaming (stream (out_state (reduce lc st e)))
    \<and> active_receivers (out_state (reduce lc st e)) = desired_receivers (out_state (reduce lc st e))
    \<and> tone_safe (out_state (reduce lc st e))"
  using assms by (rule reduce_tone)

theorem tone_only_when_safe_witness:
  "1 = session_of (out_state (reduce id demo_connecting demo_started))
    \<and> phase_of demo_connecting = Ph_Connecting
    \<and> phase_of (out_state (reduce id demo_connecting demo_started)) = Ph_Listening
    \<and> is_streaming (stream (out_state (reduce id demo_connecting demo_started)))
    \<and> active_receivers (out_state (reduce id demo_connecting demo_started))
        = desired_receivers (out_state (reduce id demo_connecting demo_started))
    \<and> tone_safe (out_state (reduce id demo_connecting demo_started))"
  by (rule tone_only_when_safe) (simp add: demo_tone)

text \<open>
  C18: a verdict is only reached from a pending stop, on the acknowledgement of exactly the stop
  the check issued, with the outcome the user gave, with the stream stopped and the configuration
  still the one the check was bound to.
\<close>

theorem verdict_is_earned:
  assumes "phase_of st \<notin> {Ph_Heard, Ph_NotHeard}"
    and "phase_of (out_state (reduce lc st e)) \<in> {Ph_Heard, Ph_NotHeard}"
  shows "\<exists>g. e = Ev_Controller (Ctl_SessionStopped g) \<and> phase_of st = Ph_StopPending
    \<and> hc_generation (hardware_check st) = Some g
    \<and> hc_outcome (hardware_check st) = Some (phase_of (out_state (reduce lc st e)) = Ph_Heard)
    \<and> stream (out_state (reduce lc st e)) = Stream_Stopped
    \<and> hc_matches (hardware_check (out_state (reduce lc st e))) (out_state (reduce lc st e))"
  using assms by (rule reduce_verdict)

theorem verdict_is_earned_witness:
  "\<exists>g. Ev_Controller (Ctl_SessionStopped 2) = Ev_Controller (Ctl_SessionStopped g)
    \<and> phase_of demo_stopping = Ph_StopPending
    \<and> hc_generation (hardware_check demo_stopping) = Some g
    \<and> hc_outcome (hardware_check demo_stopping) = Some (phase_of (out_state
        (reduce id demo_stopping (Ev_Controller (Ctl_SessionStopped 2)))) = Ph_Heard)
    \<and> stream (out_state (reduce id demo_stopping (Ev_Controller (Ctl_SessionStopped 2))))
        = Stream_Stopped
    \<and> hc_matches
        (hardware_check (out_state (reduce id demo_stopping (Ev_Controller (Ctl_SessionStopped 2)))))
        (out_state (reduce id demo_stopping (Ev_Controller (Ctl_SessionStopped 2))))"
  by (rule verdict_is_earned) code_simp+

text \<open>
  C26: while a check waits for its stop, no event whatever makes the shell start a session, start a
  group or sound the tone, in any reachable state.
\<close>

theorem pending_stop_blocks_starts:
  assumes "reachable lc st" and "phase_of st = Ph_StopPending"
    and "f \<in> set (out_effects (reduce lc st e))"
  shows "\<not> starts_audio f"
  using reachable_selection [OF assms(1)] reduce_stop_pending [OF assms(2) _ assms(3)] assms(2)
  by (simp add: check_needs_selection_def)

theorem pending_stop_blocks_starts_witness: "\<not> starts_audio (Eff_ApplyVolume 1 f32_one)"
proof (rule pending_stop_blocks_starts [OF demo_reachable(5)])
  show "Eff_ApplyVolume 1 f32_one \<in>
      set (out_effects (reduce id demo_stopping (Ev_MasterVolumeChanged f32_one)))"
    by code_simp
qed (rule demo_phases)

text \<open>
  The acknowledgement of the pending stop always ends the check: the next phase is a verdict
  or the invalidation, and the stream is stopped.
\<close>

theorem stop_acknowledgement_finishes:
  assumes "phase_of st = Ph_StopPending"
    and "hc_generation (hardware_check st) = Some (session_of st)"
  shows "phase_of (out_state (reduce lc st (Ev_Controller (Ctl_SessionStopped (session_of st)))))
           \<in> {Ph_Heard, Ph_NotHeard, Ph_Invalidated}
    \<and> stream (out_state (reduce lc st (Ev_Controller (Ctl_SessionStopped (session_of st)))))
           = Stream_Stopped"
  using assms by (rule reduce_stop_acknowledged)

theorem stop_acknowledgement_finishes_witness:
  "phase_of (out_state (reduce id demo_stopping
      (Ev_Controller (Ctl_SessionStopped (session_of demo_stopping)))))
     \<in> {Ph_Heard, Ph_NotHeard, Ph_Invalidated}
   \<and> stream (out_state (reduce id demo_stopping
      (Ev_Controller (Ctl_SessionStopped (session_of demo_stopping))))) = Stream_Stopped"
  by (rule stop_acknowledgement_finishes) (simp_all add: demo_phases demo_stop_generation)

text \<open>
  After every event, a check that is connecting or listening still matches the configuration
  it was bound to, belongs to the current session generation, and that session is starting or
  streaming; anything else has been turned into a pending stop within the same reduction.
\<close>

theorem running_check_stays_bound:
  "check_live (out_state (reduce lc st e))"
  by (rule reduce_live)

text \<open>
  A prepared check whose prerequisites hold starts: the reduction asks for exactly one
  session, under the next generation, to exactly the selected receivers in order, at the clamped
  master volume, and the check is connecting under that generation. (Receiver levels never are
  \<open>NaN\<close>.)
\<close>

theorem ready_check_starts:
  assumes "reachable lc st" and "hs_ready (hc_snapshot st)" and "hc_prepared (hardware_check st)"
    and "\<And>levels i x. receiver_levels st = Some levels \<Longrightarrow> (i, x) \<in> set levels \<Longrightarrow> x \<noteq> NaN"
  shows "out_effects (reduce lc st (Ev_HardwareCheck HC_Start)) =
      [Eff_StartSession (session_of st + 1) (sorted_ids (desired_receivers st))
         (f32_clamp (master_volume st) f32_zero f32_one)]
    \<and> phase_of (out_state (reduce lc st (Ev_HardwareCheck HC_Start))) = Ph_Connecting
    \<and> hc_generation (hardware_check (out_state (reduce lc st (Ev_HardwareCheck HC_Start))))
        = Some (session_of st + 1)"
proof -
  have "finite (desired_receivers st)"
    using reachable_shell_inv [OF assms(1)] by (simp add: shell_inv_def memberships_finite_def)
  from reduce_hc_start [OF assms(2,3) this assms(4)] show ?thesis by simp
qed

theorem ready_check_starts_witness:
  "out_effects (reduce id demo_ready (Ev_HardwareCheck HC_Start)) =
      [Eff_StartSession (session_of demo_ready + 1) (sorted_ids (desired_receivers demo_ready))
         (f32_clamp (master_volume demo_ready) f32_zero f32_one)]
    \<and> phase_of (out_state (reduce id demo_ready (Ev_HardwareCheck HC_Start))) = Ph_Connecting
    \<and> hc_generation (hardware_check (out_state (reduce id demo_ready (Ev_HardwareCheck HC_Start))))
        = Some (session_of demo_ready + 1)"
proof (rule ready_check_starts [OF demo_reachable(2)])
  have "receiver_levels demo_ready = Some [(kitchen, f32_one)]" by code_simp
  then show "x \<noteq> NaN" if "receiver_levels demo_ready = Some levels" "(i, x) \<in> set levels"
    for levels i x
    using that by simp
qed (code_simp+)

section \<open>Discovery\<close>

text \<open>
  A completed browse of the current generation replaces the inventory by the incoming rows,
  one per identity, none of which another incoming row of the same identity precedes (an available
  row precedes an unavailable one), together with the previous rows that vanished but are still
  selected or staged, marked unavailable; the result is sorted by identity.
\<close>

theorem merge_discovery_inventory:
  assumes "inventory_sorted st"
  shows "set (merged_receivers st incoming) =
      set (foldl merge_incoming [] incoming)
      \<union> (\<lambda>p. p\<lparr>rs_availability := Unavailable\<rparr>) ` {p \<in> set (receivers st). kept_offline st incoming p}
    \<and> (\<forall>r. r \<in> set (foldl merge_incoming [] incoming) \<longrightarrow> best_of incoming r)
    \<and> rs_id ` set (foldl merge_incoming [] incoming) = rs_id ` set incoming
    \<and> sorted (map rs_id (merged_receivers st incoming))
    \<and> distinct (map rs_id (merged_receivers st incoming))
    \<and> receivers (out_state (merge_discovery st (g_discovery (generations st)) incoming))
        = merged_receivers st incoming"
proof -
  have "distinct (map rs_id (receivers st))" using assms by (simp add: inventory_sorted_def)
  then show ?thesis
    using merged_receivers_set [of st incoming] merged_receivers_sorted [of st incoming]
      foldl_merge_incoming_ids [of "[]" incoming]
    by (auto simp: foldl_merge_incoming_best merge_discovery_def Let_def)
qed

theorem merge_discovery_inventory_witness:
  "rs_id ` set (foldl merge_incoming [] [attic_row]) = rs_id ` set [attic_row]
    \<and> sorted (map rs_id (merged_receivers demo_ready [attic_row]))
    \<and> receivers (out_state (merge_discovery demo_ready (g_discovery (generations demo_ready)) [attic_row]))
        = merged_receivers demo_ready [attic_row]"
  using merge_discovery_inventory [OF reachable_inventory [OF demo_reachable(2)], of "[attic_row]"]
  by blast

text \<open>
  A session report of another generation than the current one is ignored completely: no
  state change, no effect, no publication, in any reachable state (unless it is the stop the
  listening check itself is waiting for).
\<close>

theorem stale_session_reports_ignored:
  assumes "reachable lc st" and "report_generation c = Some g" and "g \<noteq> session_of st"
    and "hc_generation (hardware_check st) \<noteq> Some g"
  shows "reduce lc st (Ev_Controller c) = (st, [], False)"
  using stale_reduce [OF reachable_settled [OF assms(1)] assms(2-4)] .

theorem stale_session_reports_ignored_witness:
  "reduce id demo_listening (Ev_Controller (Ctl_SessionFailed 9 ''late'')) = (demo_listening, [], False)"
  by (rule stale_session_reports_ignored [OF demo_reachable(4), of _ 9]) (simp, code_simp, code_simp)

section \<open>Quitting\<close>

text \<open>
  A run asks for the shutdown exactly once if a quit was requested and the shell was not
  already shutting down, and never otherwise; the latch is set from then on.
\<close>

theorem shutdown_requested_once:
  "shutdown_requests (ac_executed (run_actor lc st es)) =
     (if \<not> shutting_down st \<and> Ev_QuitRequested \<in> set es then 1 else 0)
   \<and> shutting_down (ac_state (run_actor lc st es)) =
       (shutting_down st \<or> Ev_QuitRequested \<in> set es)"
  by (simp add: run_shutdown_requests run_shutting_down)

text \<open>
  Quitting first saves the complete settings, then stops a running session, then hides the
  window and only then begins the shutdown; these are all the effects, in any reachable state.
\<close>

theorem quit_effect_order:
  assumes "reachable lc st" and "\<not> shutting_down st"
  shows "out_effects (reduce lc st Ev_QuitRequested) =
     [Eff_PersistPreferences (g_preferences (generations st) + 1) (preferences_from_state st)]
     @ (if is_running (stream st) then [Eff_StopSession (session_of st + 1)] else [])
     @ [Eff_HideMainWindow, Eff_BeginShutdown]"
  using reduce_quit_effects [OF reachable_settled [OF assms(1)] assms(2)] .

theorem quit_effect_order_witness:
  "out_effects (reduce id demo_listening Ev_QuitRequested) =
     [Eff_PersistPreferences (g_preferences (generations demo_listening) + 1)
        (preferences_from_state demo_listening)]
     @ (if is_running (stream demo_listening)
        then [Eff_StopSession (session_of demo_listening + 1)] else [])
     @ [Eff_HideMainWindow, Eff_BeginShutdown]"
  by (rule quit_effect_order [OF demo_reachable(4)]) code_simp

text \<open>
  C36: once the shell shuts down and a selection is known, no event makes it start a session,
  start a group or sound the tone.
\<close>

theorem nothing_starts_after_quit:
  assumes "shutting_down st" and "e \<noteq> Ev_ApplyStagedReceivers \<or> desired_known st"
    and "f \<in> set (out_effects (reduce lc st e))"
  shows "\<not> starts_audio f"
  using assms by (rule reduce_after_quit)

theorem nothing_starts_after_quit_witness: "\<not> starts_audio (Eff_ApplyMute True)"
  by (rule nothing_starts_after_quit [of
      "out_state (reduce id demo_ready Ev_QuitRequested)" "Ev_MuteChangeRequested True" _ id])
    code_simp+

text \<open>
  The global hotkey cannot end a degraded or restarting session, although the shell counts
  both as running and offers to stop them: with an available receiver selected, pressing it does
  nothing at all.
\<close>

theorem hotkey_ignores_degraded:
  assumes "is_running (stream st)" and "\<not> is_starting_or_streaming (stream st)"
    and "available_selected_ids st \<noteq> []"
  shows "dispatch lc st Ev_GlobalHotkeyPressed = (st, [], False) \<and> ui_can_stop (from_state lc st)"
proof -
  have "\<not> is_stopped_or_failed (stream st)" using assms(1) by (cases "stream st") auto
  then show ?thesis
    using assms by (simp add: global_hotkey_pressed_def hotkey_start_or_warn_def start_requested_def
        from_state_def Let_def)
qed

theorem hotkey_ignores_degraded_witness:
  "dispatch id demo_degraded Ev_GlobalHotkeyPressed = (demo_degraded, [], False)
   \<and> ui_can_stop (from_state id demo_degraded)"
  by (rule hotkey_ignores_degraded) code_simp+

section \<open>Window geometry\<close>

text \<open>
  Validating a window geometry rejects exactly those with a non-finite coordinate, yields a
  geometry that is safe to open (finite, at least the minimum size), changes nothing about a
  geometry that is already safe, and so is idempotent.
\<close>

lemma geometry_validation:
  "(geometry_validate g = None \<longleftrightarrow>
      \<not> (f32_is_finite (wg_width g) \<and> f32_is_finite (wg_height g)
         \<and> (\<forall>x. wg_x g = Some x \<longrightarrow> f32_is_finite x)
         \<and> (\<forall>y. wg_y g = Some y \<longrightarrow> f32_is_finite y)))
   \<and> (\<forall>v. geometry_validate g = Some v \<longrightarrow> geometry_safe v \<and> geometry_validate v = Some v)
   \<and> (geometry_safe g \<longrightarrow> geometry_validate g = Some g)"
  using geometry_validate_safe geometry_validate_idem
  by (auto simp: geometry_validate_def is_some_and_def split: option.splits)

end
