(* ===== verification/Backend_Model.thy ===== *)
theory Backend_Model
  imports Core_Types
begin

text \<open>
  The backend's presentation-neutral model types (\<open>backend/model.rs\<close>): receiver identities with
  their canonical twelve-digit storage form, validated volumes, latency presets, the receiver
  lifecycle that the recovery machine publishes, and the bounded record of command outcomes.
  \<open>ReceiverId\<close> wraps the same six bytes as \<open>DeviceId\<close> and is that type here. Strings are
  sequences of bytes, as \<open>str::len\<close> and \<open>str::bytes\<close> see them.
\<close>

datatype model_error = InvalidReceiverId string | InvalidVolume

section \<open>Receiver identities\<close>

definition hex_digit :: "nat \<Rightarrow> char" where
  "hex_digit n = char_of (if n < 10 then 48 + n else 55 + n)"

text \<open>\<open>format!("{b:02X}")\<close>.\<close>

definition hex_byte :: "u8 \<Rightarrow> string" where
  "hex_byte b = [hex_digit (unat b div 16), hex_digit (unat b mod 16)]"

definition storage_key :: "device_id \<Rightarrow> string" where
  "storage_key i = concat (map hex_byte (device_bytes i))"

text \<open>The test \<open>b.is_ascii_digit() || (b'A'..=b'F').contains(&b)\<close> and the digit's value.\<close>

definition hex_value :: "char \<Rightarrow> nat option" where
  "hex_value c =
     (let n = of_char c
      in if 48 \<le> n \<and> n \<le> 57 then Some (n - 48)
         else if 65 \<le> n \<and> n \<le> 70 then Some (n - 55) else None)"

text \<open>\<open>u8::from_str_radix(_, 16)\<close> over consecutive pairs of uppercase digits.\<close>

fun hex_pairs :: "string \<Rightarrow> u8 list option" where
  "hex_pairs [] = Some []"
| "hex_pairs [_] = None"
| "hex_pairs (a # b # rest) =
     (case (hex_value a, hex_value b, hex_pairs rest) of
        (Some x, Some y, Some bytes) \<Rightarrow> Some (of_nat (16 * x + y) # bytes)
      | _ \<Rightarrow> None)"

definition from_storage_key :: "string \<Rightarrow> model_error + device_id" where
  "from_storage_key key =
     (if \<not> (length key = 12 \<and> (\<forall>b \<in> set key. hex_value b \<noteq> None))
      then Inl (InvalidReceiverId key)
      else case hex_pairs key of
             Some [a, b, c, d, e, f] \<Rightarrow> Inr (DeviceId a b c d e f)
           | _ \<Rightarrow> Inl (InvalidReceiverId key))"

section \<open>Volumes and latency presets\<close>

datatype volume_t = Volume f32

definition volume_new :: "f32 \<Rightarrow> model_error + volume_t" where
  "volume_new key =
     (if f32_is_finite key \<and> f32_le f32_zero key \<and> f32_le key f32_one
      then Inr (Volume key) else Inl InvalidVolume)"

primrec volume_get :: "volume_t \<Rightarrow> f32" where
  "volume_get (Volume v) = v"

datatype latency_preset = Preset_Low | Preset_Normal | Preset_Stable

record latency_config =
  sender_buffer_ms :: u32
  render_delay_ms :: u32

fun preset_label :: "latency_preset \<Rightarrow> string" where
  "preset_label Preset_Low = ''Low''"
| "preset_label Preset_Normal = ''Normal''"
| "preset_label Preset_Stable = ''Stable''"

fun enabled_config :: "latency_preset \<Rightarrow> latency_config option" where
  "enabled_config Preset_Normal = Some \<lparr>sender_buffer_ms = 2000, render_delay_ms = 200\<rparr>"
| "enabled_config Preset_Low = None"
| "enabled_config Preset_Stable = None"

type_synonym user_facing_error = string

definition disabled_latency :: "latency_preset \<Rightarrow> user_facing_error" where
  "disabled_latency preset = ''the '' @ preset_label preset
     @ '' latency profile is disabled until hardware validation passes''"

definition disabled_reason :: "latency_preset \<Rightarrow> user_facing_error option" where
  "disabled_reason preset =
     (if enabled_config preset = None then Some (disabled_latency preset) else None)"

definition presets_all :: "latency_preset list" where
  "presets_all = [Preset_Low, Preset_Normal, Preset_Stable]"

definition presets_offered :: "(latency_preset \<times> user_facing_error option) list" where
  "presets_offered = map (\<lambda>preset. (preset, disabled_reason preset)) presets_all"

section \<open>Receiver lifecycle\<close>

text \<open>Instants and wall-clock times in nanoseconds since their epoch.\<close>

type_synonym instant = nat
type_synonym system_time = nat
type_synonym duration = nat

datatype receiver_role = Role_Single | Role_Primary | Role_Secondary

datatype setup_phase =
    Setup_Connect | Setup_Pair | Setup_PrimaryTiming | Setup_RtspSetup | Setup_SetPeers
  | Setup_BuildSender | Setup_StartAudio

datatype receiver_lifecycle =
    Discovered
  | Connecting u32
  | SettingUp receiver_role setup_phase
  | Ready receiver_role
  | Streaming receiver_role
  | RetryWaiting u32 system_time
  | Unavailable_L
  | Failed bool user_facing_error

section \<open>Identity round trips\<close>

lemma hex_value_digit: "n < 16 \<Longrightarrow> hex_value (hex_digit n) = Some n"
  by (auto simp: hex_value_def hex_digit_def Let_def)

lemma hex_digit_value: "hex_value c = Some n \<Longrightarrow> hex_digit n = c \<and> n < 16"
  by (auto simp: hex_value_def hex_digit_def Let_def split: if_splits)

lemma hex_pairs_byte [simp]: "hex_pairs (hex_byte b @ rest) = map_option ((#) b) (hex_pairs rest)"
proof -
  have "unat b div 16 < 16" using unat_u8 [of b] by (simp add: div_less_iff_less_mult del: unat_u8)
  moreover have "(of_nat (16 * (unat b div 16) + unat b mod 16) :: u8) = b"
    by (simp only: mult_div_mod_eq) simp
  ultimately show ?thesis
    by (simp add: hex_byte_def hex_value_digit del: of_nat_add of_nat_mult split: option.split)
qed

lemma hex_pairs_bytes: "hex_pairs (concat (map hex_byte bs)) = Some bs"
  by (induction bs) auto

lemma hex_byte_digits: "c \<in> set (hex_byte b) \<Longrightarrow> hex_value c \<noteq> None"
proof -
  have "unat b div 16 < 16" using unat_u8 [of b] by (simp add: div_less_iff_less_mult del: unat_u8)
  then show "c \<in> set (hex_byte b) \<Longrightarrow> ?thesis" by (auto simp: hex_byte_def hex_value_digit)
qed

lemma length_storage_key: "length (storage_key i) = 12"
  by (cases i) (simp add: storage_key_def hex_byte_def)

lemma hex_pairs_canonical:
  "hex_pairs key = Some bs \<Longrightarrow> concat (map hex_byte bs) = key"
proof (induction key arbitrary: bs rule: hex_pairs.induct)
  case (3 a b rest)
  from 3(2) obtain x y bytes where
    *: "hex_value a = Some x" "hex_value b = Some y" "hex_pairs rest = Some bytes"
    "bs = of_nat (16 * x + y) # bytes"
    by (auto split: option.splits)
  have d: "hex_digit x = a" "x < 16" "hex_digit y = b" "y < 16"
    using hex_digit_value *(1,2) by auto
  have "unat (of_nat (16 * x + y) :: u8) = 16 * x + y"
    using d by (intro unat_of_nat_u8) simp
  then have "hex_byte (of_nat (16 * x + y)) = [a, b]" using d by (simp add: hex_byte_def)
  then show ?case using 3(1) * by simp
qed auto

end
