(* ===== verification/Ordered_Map.thy ===== *)
theory Ordered_Map
  imports Prelude
begin

text \<open>
  \<open>std::collections::BTreeMap\<close> as the components use it: entries in strictly ascending key order,
  lookup, insertion, removal, \<open>entry().or_insert\<close> and iteration in order. The interface
  \<open>ordered_map\<close> collects the laws the clients rely on; the sorted association list provides them.
\<close>

type_synonym ('k, 'v) omap = "('k \<times> 'v) list"

definition om_get :: "('k, 'v) omap \<Rightarrow> 'k \<Rightarrow> 'v option" where
  "om_get m k = map_of m k"

fun om_insert :: "'k::linorder \<Rightarrow> 'v \<Rightarrow> ('k, 'v) omap \<Rightarrow> ('k, 'v) omap" where
  "om_insert k v [] = [(k, v)]"
| "om_insert k v ((k', v') # m) =
     (if k < k' then (k, v) # (k', v') # m
      else if k = k' then (k, v) # m
      else (k', v') # om_insert k v m)"

definition om_remove :: "'k \<Rightarrow> ('k, 'v) omap \<Rightarrow> ('k, 'v) omap" where
  "om_remove k m = filter (\<lambda>(k', _). k' \<noteq> k) m"

definition om_keys :: "('k, 'v) omap \<Rightarrow> 'k list" where
  "om_keys m = map fst m"

definition om_ok :: "('k::linorder, 'v) omap \<Rightarrow> bool" where
  "om_ok m \<longleftrightarrow> sorted_wrt (<) (om_keys m)"

section \<open>The interface\<close>

locale ordered_map =
  fixes get :: "'m \<Rightarrow> 'k::linorder \<Rightarrow> 'v option"
    and insert :: "'k \<Rightarrow> 'v \<Rightarrow> 'm \<Rightarrow> 'm"
    and remove :: "'k \<Rightarrow> 'm \<Rightarrow> 'm"
    and keys :: "'m \<Rightarrow> 'k list"
    and ok :: "'m \<Rightarrow> bool"
  assumes insert_ok: "ok m \<Longrightarrow> ok (insert k v m)"
    and remove_ok: "ok m \<Longrightarrow> ok (remove k m)"
    and get_insert: "ok m \<Longrightarrow> get (insert k v m) k' = (if k' = k then Some v else get m k')"
    and get_remove: "ok m \<Longrightarrow> get (remove k m) k' = (if k' = k then None else get m k')"
    and keys_get: "ok m \<Longrightarrow> k \<in> set (keys m) \<longleftrightarrow> get m k \<noteq> None"
    and keys_sorted: "ok m \<Longrightarrow> sorted (keys m) \<and> distinct (keys m)"
begin

lemma insert_frame: "ok m \<Longrightarrow> k' \<noteq> k \<Longrightarrow> get (insert k v m) k' = get m k'"
  by (simp add: get_insert)

lemma keys_insert: "ok m \<Longrightarrow> set (keys (insert k v m)) = Set.insert k (set (keys m))"
  by (auto simp: keys_get insert_ok get_insert split: if_splits)

lemma keys_remove: "ok m \<Longrightarrow> set (keys (remove k m)) = set (keys m) - {k}"
  by (auto simp: keys_get remove_ok get_remove split: if_splits)

lemma select_keys:
  assumes "ok m"
  shows "k \<in> set (filter (\<lambda>k. is_some_and (get m k) P) (keys m)) \<longleftrightarrow> is_some_and (get m k) P"
  using keys_get [OF assms, of k] by (cases "get m k") auto

end

section \<open>Sorted association lists provide it\<close>

lemma om_insert_keys: "set (map fst (om_insert k v m)) = insert k (set (map fst m))"
  by (induction k v m rule: om_insert.induct) auto

lemma om_insert_ok: "om_ok m \<Longrightarrow> om_ok (om_insert k v m)"
  unfolding om_ok_def om_keys_def
proof (induction k v m rule: om_insert.induct)
  case (2 k v k' v' m)
  then show ?case using om_insert_keys [of k v m] by (fastforce simp: image_iff)
qed simp

lemma om_get_insert:
  "om_ok m \<Longrightarrow> om_get (om_insert k v m) j = (if j = k then Some v else om_get m j)"
  by (induction k v m rule: om_insert.induct) (auto simp: om_ok_def om_keys_def om_get_def)

lemma om_remove_ok: "om_ok m \<Longrightarrow> om_ok (om_remove k m)"
  unfolding om_ok_def om_keys_def om_remove_def
  by (induction m) auto

lemma om_get_remove: "om_get (om_remove k m) j = (if j = k then None else om_get m j)"
  by (induction m) (auto simp: om_get_def om_remove_def)

lemma om_get_mem: "om_ok m \<Longrightarrow> om_get m k = Some v \<longleftrightarrow> (k, v) \<in> set m"
  by (induction m) (auto simp: om_ok_def om_keys_def om_get_def image_iff split: if_splits)

interpretation om: ordered_map om_get om_insert om_remove om_keys om_ok
proof
  show "k \<in> set (om_keys m) \<longleftrightarrow> om_get m k \<noteq> None" for m :: "('k::linorder, 'v) omap" and k
    by (auto simp: om_keys_def om_get_def map_of_eq_None_iff)
  show "sorted (om_keys m) \<and> distinct (om_keys m)" if "om_ok m" for m :: "('k::linorder, 'v) omap"
    using that strict_sorted_iff by (auto simp: om_ok_def)
qed (auto simp: om_insert_ok om_remove_ok om_get_insert om_get_remove)

lemma om_ok_Nil [simp]: "om_ok []"
  by (simp add: om_ok_def om_keys_def)

lemma om_get_Nil [simp]: "om_get [] k = None"
  by (simp add: om_get_def)

text \<open>An ordered map is determined by its lookups.\<close>

lemma om_entries: "om_ok m \<Longrightarrow> m = map (\<lambda>k. (k, the (om_get m k))) (om_keys m)"
  by (rule sym, simp add: om_keys_def comp_def)
    (intro map_idI, auto simp: om_get_mem [THEN iffD2])

lemma om_ext:
  assumes "om_ok a" "om_ok b" "\<And>k. om_get a k = om_get b k"
  shows "a = b"
proof -
  have "set (om_keys a) = set (om_keys b)"
    using om.keys_get [OF assms(1)] om.keys_get [OF assms(2)] assms(3) by auto
  then have "om_keys a = om_keys b"
    using om.keys_sorted [OF assms(1)] om.keys_sorted [OF assms(2)]
    by (blast intro: sorted_distinct_set_unique)
  then show ?thesis using om_entries [OF assms(1)] om_entries [OF assms(2)] assms(3) by simp
qed

end
