(* ===== verification/Recovery.thy ===== *)
theory Recovery
  imports Backend_Model Ordered_Map
begin

text \<open>
  The deterministic recovery policy of \<open>backend/recovery.rs\<close>: exponential backoff with stable
  jitter, per-receiver attempt bookkeeping, the rejoin-restart rate limiter and the receiver
  lifecycle machine. The injected clock is the argument \<open>now\<close>. Durations and instants are counted
  in nanoseconds; \<open>Instant::duration_since\<close> saturates at zero, as subtraction on naturals does.
\<close>

section \<open>Backoff policy\<close>

definition from_secs :: "nat \<Rightarrow> duration" where
  "from_secs s = s * 1000000000"

definition MAX_RETRY_DELAY :: duration where
  "MAX_RETRY_DELAY = from_secs 30"

definition JITTER_HASH_PRIME :: u64 where
  "JITTER_HASH_PRIME = 0x100000001b3"

text \<open>\<open>base\<close> is an array of six durations.\<close>

record retry_policy =
  rp_base :: "duration list"
  rp_jitter_percent :: u8
  rp_healthy_reset_after :: duration
  rp_discovery_stable_for :: duration

definition retry_policy_default :: retry_policy where
  "retry_policy_default =
     \<lparr>rp_base = map from_secs [1, 2, 4, 8, 16, 30],
      rp_jitter_percent = 20,
      rp_healthy_reset_after = from_secs 60,
      rp_discovery_stable_for = from_secs 2\<rparr>"

text \<open>
  \<open>Duration::mul_f64\<close> by a percentage, rounded to the nearest nanosecond. Every base delay is a
  whole number of seconds, so the exact product is a whole number of nanoseconds; the error of
  the double-precision product, below \<open>10\<^sup>-\<^sup>5\<close> nanoseconds at these magnitudes, cannot change it. A
  negative factor makes the source panic, which is \<open>None\<close>.
\<close>

definition mul_percent :: "duration \<Rightarrow> int \<Rightarrow> duration option" where
  "mul_percent d percent =
     (if percent < 0 then None else Some ((d * nat percent + 50) div 100))"

definition scale_with_hash :: "duration \<Rightarrow> u64 \<Rightarrow> u8 \<Rightarrow> duration option" where
  "scale_with_hash base hash jitter_percent =
     (let span = uint jitter_percent;
          modulus = span * 2 + 1;
          signed = uint hash mod modulus - span
      in map_option (\<lambda>scaled. min scaled MAX_RETRY_DELAY) (mul_percent base (100 + signed)))"

definition jitter_fold :: "u64 \<Rightarrow> u8 list \<Rightarrow> u64" where
  "jitter_fold seed bytes =
     foldl (\<lambda>acc byte. acc * JITTER_HASH_PRIME + ucast byte) seed bytes"

definition base_delay :: "retry_policy \<Rightarrow> u32 \<Rightarrow> duration" where
  "base_delay policy attempt =
     rp_base policy ! min (unat attempt) (length (rp_base policy) - 1)"

definition retry_delay :: "retry_policy \<Rightarrow> device_id \<Rightarrow> u32 \<Rightarrow> duration option" where
  "retry_delay policy receiver attempt =
     scale_with_hash (base_delay policy attempt)
       (jitter_fold (ucast attempt) (map of_char (storage_key receiver)))
       (rp_jitter_percent policy)"

text \<open>\<open>u64::to_le_bytes\<close>.\<close>

definition to_le_bytes :: "u64 \<Rightarrow> u8 list" where
  "to_le_bytes x = map (\<lambda>i. ucast (drop_bit (8 * i) x)) [0..<8]"

definition discovery_delay :: "retry_policy \<Rightarrow> u64 \<Rightarrow> u32 \<Rightarrow> duration option" where
  "discovery_delay policy generation attempt =
     scale_with_hash (base_delay policy attempt)
       (jitter_fold (ucast attempt) (to_le_bytes generation)) (rp_jitter_percent policy)"

section \<open>Attempt bookkeeping\<close>

record retry_entry =
  re_attempt :: u32
  re_next_retry :: "instant option"
  re_streaming_since :: "instant option"

definition retry_entry_default :: retry_entry where
  "retry_entry_default = \<lparr>re_attempt = 0, re_next_retry = None, re_streaming_since = None\<rparr>"

type_synonym retry_state = "(device_id, retry_entry) omap"

text \<open>\<open>entry(receiver).or_default()\<close>.\<close>

definition entry_or_default :: "retry_state \<Rightarrow> device_id \<Rightarrow> retry_entry" where
  "entry_or_default rs receiver =
     (case om_get rs receiver of None \<Rightarrow> retry_entry_default | Some entry \<Rightarrow> entry)"

text \<open>The new state with the deadline; \<open>None\<close> where computing the delay panics.\<close>

definition note_failure ::
    "retry_state \<Rightarrow> retry_policy \<Rightarrow> instant \<Rightarrow> device_id \<Rightarrow> (retry_state \<times> instant) option" where
  "note_failure rs policy now receiver =
     (let entry = entry_or_default rs receiver;
          attempt = saturating_add (re_attempt entry) 1
      in case retry_delay policy receiver (attempt - 1) of
           None \<Rightarrow> None
         | Some d \<Rightarrow>
             Some (om_insert receiver
                     (entry\<lparr>re_attempt := attempt, re_streaming_since := None,
                            re_next_retry := Some (now + d)\<rparr>) rs, now + d))"

definition note_streaming ::
    "retry_state \<Rightarrow> retry_policy \<Rightarrow> instant \<Rightarrow> device_id \<Rightarrow> retry_state \<times> bool" where
  "note_streaming rs policy now receiver =
     (let entry = entry_or_default rs receiver
      in case re_streaming_since entry of
           None \<Rightarrow> (om_insert receiver (entry\<lparr>re_streaming_since := Some now\<rparr>) rs, False)
         | Some since \<Rightarrow>
             if now - since \<ge> rp_healthy_reset_after policy
             then (om_insert receiver (entry\<lparr>re_attempt := 0, re_next_retry := None\<rparr>) rs, True)
             else (om_insert receiver entry rs, False))"

definition clear_deadline :: "retry_state \<Rightarrow> device_id \<Rightarrow> retry_state" where
  "clear_deadline rs receiver =
     (case om_get rs receiver of
        Some entry \<Rightarrow> om_insert receiver (entry\<lparr>re_next_retry := None\<rparr>) rs
      | None \<Rightarrow> rs)"

definition manual_retry :: "retry_state \<Rightarrow> device_id \<Rightarrow> retry_state" where
  "manual_retry rs receiver = clear_deadline rs receiver"

definition due_at :: "retry_state \<Rightarrow> instant \<Rightarrow> device_id list" where
  "due_at rs now =
     map fst (filter (\<lambda>(_, entry). is_some_and (re_next_retry entry) (\<lambda>deadline. deadline \<le> now)) rs)"

definition earliest_retry :: "retry_state \<Rightarrow> instant option" where
  "earliest_retry rs = min_by_key id (List.map_filter (\<lambda>(_, entry). re_next_retry entry) rs)"

definition attempt_of :: "retry_state \<Rightarrow> device_id \<Rightarrow> u32" where
  "attempt_of rs receiver =
     (case om_get rs receiver of None \<Rightarrow> 0 | Some entry \<Rightarrow> re_attempt entry)"

definition next_retry :: "retry_state \<Rightarrow> device_id \<Rightarrow> instant option" where
  "next_retry rs receiver = Option.bind (om_get rs receiver) re_next_retry"

section \<open>Rejoin-restart limiter\<close>

record rejoin_limiter =
  rl_online_since :: "(device_id, instant) omap"
  rl_last_rejoin_restart :: "instant option"

definition REJOIN_ONLINE_STABLE_FOR :: duration where
  "REJOIN_ONLINE_STABLE_FOR = from_secs 2"

definition REJOIN_RESTART_SPACING :: duration where
  "REJOIN_RESTART_SPACING = from_secs 30"

definition limiter_new :: rejoin_limiter where
  "limiter_new = \<lparr>rl_online_since = [], rl_last_rejoin_restart = None\<rparr>"

definition note_discovered :: "rejoin_limiter \<Rightarrow> instant \<Rightarrow> device_id \<Rightarrow> rejoin_limiter" where
  "note_discovered l now receiver =
     (case om_get (rl_online_since l) receiver of
        Some _ \<Rightarrow> l
      | None \<Rightarrow> l\<lparr>rl_online_since := om_insert receiver now (rl_online_since l)\<rparr>)"

definition note_lost :: "rejoin_limiter \<Rightarrow> device_id \<Rightarrow> rejoin_limiter" where
  "note_lost l receiver = l\<lparr>rl_online_since := om_remove receiver (rl_online_since l)\<rparr>"

definition rejoin_eligible_at :: "rejoin_limiter \<Rightarrow> device_id \<Rightarrow> instant option" where
  "rejoin_eligible_at l receiver =
     map_option (\<lambda>since. since + REJOIN_ONLINE_STABLE_FOR) (om_get (rl_online_since l) receiver)"

definition may_rejoin :: "rejoin_limiter \<Rightarrow> instant \<Rightarrow> device_id \<Rightarrow> bool" where
  "may_rejoin l now receiver = is_some_and (rejoin_eligible_at l receiver) (\<lambda>deadline. deadline \<le> now)"

definition group_allowed_at :: "rejoin_limiter \<Rightarrow> instant option" where
  "group_allowed_at l = map_option (\<lambda>restarted. restarted + REJOIN_RESTART_SPACING) (rl_last_rejoin_restart l)"

definition note_restart :: "rejoin_limiter \<Rightarrow> instant \<Rightarrow> rejoin_limiter" where
  "note_restart l now = l\<lparr>rl_last_rejoin_restart := Some now\<rparr>"

definition may_restart_group :: "rejoin_limiter \<Rightarrow> instant \<Rightarrow> bool" where
  "may_restart_group l now =
     (case rl_last_rejoin_restart l of
        None \<Rightarrow> True
      | Some restarted \<Rightarrow> now - restarted \<ge> REJOIN_RESTART_SPACING)"

definition may_rejoin_restart :: "rejoin_limiter \<Rightarrow> instant \<Rightarrow> device_id \<Rightarrow> bool" where
  "may_rejoin_restart l now receiver \<longleftrightarrow> may_rejoin l now receiver \<and> may_restart_group l now"

section \<open>Receiver machine\<close>

record invalid_transition =
  it_from :: string
  it_to :: string

fun lifecycle_label :: "receiver_lifecycle \<Rightarrow> string" where
  "lifecycle_label Discovered = ''Discovered''"
| "lifecycle_label (Connecting _) = ''Connecting''"
| "lifecycle_label (SettingUp _ _) = ''SettingUp''"
| "lifecycle_label (Ready _) = ''Ready''"
| "lifecycle_label (Streaming _) = ''Streaming''"
| "lifecycle_label (RetryWaiting _ _) = ''RetryWaiting''"
| "lifecycle_label Unavailable_L = ''Unavailable''"
| "lifecycle_label (Failed _ _) = ''Failed''"

fun permitted :: "receiver_lifecycle \<Rightarrow> receiver_lifecycle \<Rightarrow> bool" where
  "permitted _ Unavailable_L = True"
| "permitted Unavailable_L Discovered = True"
| "permitted Discovered (Connecting _) = True"
| "permitted (Connecting _) (SettingUp _ _) = True"
| "permitted (SettingUp _ _) (SettingUp _ _) = True"
| "permitted (SettingUp _ _) (Ready _) = True"
| "permitted (Ready _) (Streaming _) = True"
| "permitted (Connecting _) (Failed _ _) = True"
| "permitted (SettingUp _ _) (Failed _ _) = True"
| "permitted (Ready _) (Failed _ _) = True"
| "permitted (Streaming _) (Failed _ _) = True"
| "permitted (Failed True _) (RetryWaiting _ _) = True"
| "permitted (RetryWaiting _ _) (Connecting _) = True"
| "permitted (Failed _ _) (Connecting _) = True"
| "permitted _ _ = False"

fun owned_by_generation :: "receiver_lifecycle \<Rightarrow> bool" where
  "owned_by_generation (Connecting _) = True"
| "owned_by_generation (SettingUp _ _) = True"
| "owned_by_generation (Ready _) = True"
| "owned_by_generation (Streaming _) = True"
| "owned_by_generation _ = False"

fun is_backoff :: "receiver_lifecycle \<Rightarrow> bool" where
  "is_backoff (RetryWaiting _ _) = True"
| "is_backoff (Failed _ _) = True"
| "is_backoff _ = False"

record receiver_machine =
  rm_state :: receiver_lifecycle
  rm_attempt :: u32
  rm_next_retry :: "system_time option"
  rm_last_error :: "user_facing_error option"
  rm_generation :: u64
  rm_service_available :: bool
  rm_role :: "receiver_role option"

definition machine_new :: "bool \<Rightarrow> receiver_machine" where
  "machine_new service_available =
     \<lparr>rm_state = (if service_available then Discovered else Unavailable_L),
      rm_attempt = 0, rm_next_retry = None, rm_last_error = None, rm_generation = 0,
      rm_service_available = service_available, rm_role = None\<rparr>"

definition removable :: "receiver_machine \<Rightarrow> bool" where
  "removable m \<longleftrightarrow> rm_state m = Unavailable_L"

definition awaiting_rejoin :: "receiver_machine \<Rightarrow> bool" where
  "awaiting_rejoin m =
     (case rm_state m of
        Discovered \<Rightarrow> True
      | RetryWaiting _ _ \<Rightarrow> True
      | Failed retryable _ \<Rightarrow> retryable
      | _ \<Rightarrow> False)"

definition in_backoff :: "receiver_machine \<Rightarrow> bool" where
  "in_backoff m = is_backoff (rm_state m)"

text \<open>
  The release build: a rejected transition is an error value and the machine keeps its state. A
  machine operation returns the machine, which later assignments of the same call may already have
  changed, and the rejection if there was one.
\<close>

type_synonym machine_result = "receiver_machine \<times> invalid_transition option"

definition transition :: "receiver_machine \<Rightarrow> receiver_lifecycle \<Rightarrow> machine_result" where
  "transition m to =
     (if rm_state m = to then (m, None)
      else if \<not> permitted (rm_state m) to
      then (m, Some \<lparr>it_from = lifecycle_label (rm_state m), it_to = lifecycle_label to\<rparr>)
      else (m\<lparr>rm_state := to\<rparr>, None))"

text \<open>The \<open>?\<close> operator: continue only after success.\<close>

definition and_then :: "machine_result \<Rightarrow> (receiver_machine \<Rightarrow> machine_result) \<Rightarrow> machine_result" where
  "and_then r k = (case r of (m, None) \<Rightarrow> k m | (m, Some e) \<Rightarrow> (m, Some e))"

definition set_service_available :: "receiver_machine \<Rightarrow> bool \<Rightarrow> machine_result" where
  "set_service_available m available =
     (let m1 = m\<lparr>rm_service_available := available\<rparr>
      in if available
         then (if rm_state m1 = Unavailable_L then transition m1 Discovered else (m1, None))
         else if owned_by_generation (rm_state m1) then (m1, None)
         else transition (m1\<lparr>rm_role := None\<rparr>) Unavailable_L)"

definition begin_generation :: "receiver_machine \<Rightarrow> u64 \<Rightarrow> u32 \<Rightarrow> machine_result" where
  "begin_generation m generation attempt =
     (m\<lparr>rm_generation := generation, rm_attempt := attempt, rm_role := None,
        rm_state := Connecting attempt\<rparr>, None)"

definition enter_setup :: "receiver_machine \<Rightarrow> receiver_role \<Rightarrow> setup_phase \<Rightarrow> machine_result" where
  "enter_setup m role phase =
     transition (m\<lparr>rm_role := Some role\<rparr>) (SettingUp role phase)"

definition enter_streaming :: "receiver_machine \<Rightarrow> receiver_role \<Rightarrow> machine_result" where
  "enter_streaming m role =
     (if rm_state m = Streaming role then (m, None)
      else
        let m1 = (if owned_by_generation (rm_state m) then m
                  else m\<lparr>rm_state := Connecting (rm_attempt m)\<rparr>)
        in and_then
             (case rm_state m1 of
                Connecting _ \<Rightarrow> transition m1 (SettingUp role Setup_StartAudio)
              | _ \<Rightarrow> (m1, None))
             (\<lambda>m2. and_then
               (case rm_state m2 of
                  SettingUp _ _ \<Rightarrow> transition m2 (Ready role)
                | _ \<Rightarrow> (m2, None))
               (\<lambda>m3. transition (m3\<lparr>rm_role := Some role\<rparr>) (Streaming role))))"

definition machine_fail :: "receiver_machine \<Rightarrow> bool \<Rightarrow> user_facing_error \<Rightarrow> machine_result" where
  "machine_fail m retryable error =
     (m\<lparr>rm_last_error := Some error, rm_role := None, rm_state := Failed retryable error\<rparr>, None)"

definition wait_retry :: "receiver_machine \<Rightarrow> u32 \<Rightarrow> system_time \<Rightarrow> machine_result" where
  "wait_retry m attempt retry_at =
     transition (m\<lparr>rm_attempt := attempt, rm_next_retry := Some retry_at\<rparr>)
       (RetryWaiting attempt retry_at)"

definition retry_now :: "receiver_machine \<Rightarrow> machine_result" where
  "retry_now m =
     (let m1 = m\<lparr>rm_next_retry := None\<rparr>
      in if \<not> is_backoff (rm_state m1) then (m1, None)
         else transition m1 (Connecting (rm_attempt m1)))"

definition leave_session :: "receiver_machine \<Rightarrow> receiver_machine" where
  "leave_session m =
     (if owned_by_generation (rm_state m)
      then m\<lparr>rm_role := None,
             rm_state := (if rm_service_available m then Discovered else Unavailable_L)\<rparr>
      else m)"

definition release :: "receiver_machine \<Rightarrow> receiver_machine" where
  "release m =
     (if rm_state m = Unavailable_L then m
      else m\<lparr>rm_role := None, rm_next_retry := None,
             rm_state := (if rm_service_available m then Discovered else Unavailable_L)\<rparr>)"

lemmas machine_defs =
  transition_def and_then_def set_service_available_def begin_generation_def enter_setup_def
  enter_streaming_def machine_fail_def wait_retry_def retry_now_def leave_session_def release_def
  Let_def

end
