(* ===== verification/Rejoin.thy ===== *)
theory Rejoin
  imports Recovery
begin

text \<open>
  The controller's automatic rejoin (\<open>backend/controller.rs\<close>: \<open>rejoin_candidates\<close>,
  \<open>next_retry_delay\<close>, \<open>fire_due_retries\<close>): which receivers may be pulled back into the session at
  an instant, when the timer has to wake up, and what firing does to the bookkeeping. It is the
  client of the backoff state, the limiter and the receiver machines of the recovery policy.
\<close>

datatype run_intent = Run_Stopped | Run_Running

text \<open>The fields of the controller actor that the rejoin logic reads and writes.\<close>

record rejoin_ctl =
  rc_suspended :: bool
  rc_run_intent :: run_intent
  rc_desired_members :: "device_id list"
  rc_machines :: "(device_id, receiver_machine) omap"
  rc_retry :: retry_state
  rc_rejoin :: rejoin_limiter

text \<open>
  The instant from which one receiver may rejoin: the body of the loop of \<open>rejoin_candidates\<close> up to
  the comparison with \<open>now\<close>.
\<close>

definition rejoin_instant :: "rejoin_ctl \<Rightarrow> device_id \<Rightarrow> instant option" where
  "rejoin_instant c receiver =
     (if \<not> is_some_and (om_get (rc_machines c) receiver) awaiting_rejoin then None
      else case rejoin_eligible_at (rc_rejoin c) receiver of
             None \<Rightarrow> None
           | Some eligible \<Rightarrow>
               let at1 = (case next_retry (rc_retry c) receiver of
                            Some retry_at \<Rightarrow> max eligible retry_at | None \<Rightarrow> eligible)
               in Some (case group_allowed_at (rc_rejoin c) of
                          Some allowed \<Rightarrow> max at1 allowed | None \<Rightarrow> at1))"

definition candidate_step ::
    "rejoin_ctl \<Rightarrow> instant \<Rightarrow> device_id list \<times> instant option \<Rightarrow> device_id
     \<Rightarrow> device_id list \<times> instant option" where
  "candidate_step c now acc receiver =
     (case rejoin_instant c receiver of
        None \<Rightarrow> acc
      | Some a \<Rightarrow>
          if a \<le> now then (fst acc @ [receiver], snd acc)
          else (fst acc, Some (case snd acc of None \<Rightarrow> a | Some earliest \<Rightarrow> min earliest a)))"

definition rejoin_candidates :: "rejoin_ctl \<Rightarrow> instant \<Rightarrow> device_id list \<times> instant option" where
  "rejoin_candidates c now =
     (if rc_suspended c \<or> rc_run_intent c \<noteq> Run_Running then ([], None)
      else foldl (candidate_step c now) ([], None) (rc_desired_members c))"

definition next_retry_delay :: "rejoin_ctl \<Rightarrow> instant \<Rightarrow> duration option" where
  "next_retry_delay c now =
     (let (due, next) = rejoin_candidates c now
      in if due \<noteq> [] then Some 0 else map_option (\<lambda>a. a - now) next)"

text \<open>
  Clearing one due receiver's deadline and driving its machine. \<open>drive\<close> creates a missing machine
  from the discovery state; a due receiver always has one.
\<close>

definition fire_one :: "rejoin_ctl \<Rightarrow> device_id \<Rightarrow> rejoin_ctl" where
  "fire_one c receiver =
     c\<lparr>rc_retry := clear_deadline (rc_retry c) receiver,
       rc_machines := (case om_get (rc_machines c) receiver of
                         Some m \<Rightarrow> om_insert receiver (fst (retry_now m)) (rc_machines c)
                       | None \<Rightarrow> rc_machines c)\<rparr>"

text \<open>The new controller fields and whether a reconcile was requested.\<close>

definition fire_due_retries :: "rejoin_ctl \<Rightarrow> instant \<Rightarrow> rejoin_ctl \<times> bool" where
  "fire_due_retries c now =
     (let due = fst (rejoin_candidates c now)
      in if due = [] then (c, False)
         else let c1 = foldl fire_one c due
              in (c1\<lparr>rc_rejoin := note_restart (rc_rejoin c1) now\<rparr>, True))"

section \<open>What the candidates are\<close>

lemma candidates_due:
  "fst (foldl (candidate_step c now) acc rs) =
     fst acc @ filter (\<lambda>r. is_some_and (rejoin_instant c r) (\<lambda>a. a \<le> now)) rs"
  by (induction rs arbitrary: acc) (simp_all add: candidate_step_def split: option.split)

definition later_instants :: "rejoin_ctl \<Rightarrow> instant \<Rightarrow> device_id list \<Rightarrow> instant set" where
  "later_instants c now rs = {a. now < a \<and> (\<exists>r \<in> set rs. rejoin_instant c r = Some a)}"

lemma candidates_next:
  "snd (foldl (candidate_step c now) acc rs) =
     (let later = set_option (snd acc) \<union> later_instants c now rs
      in if later = {} then None else Some (Min later))"
proof (induction rs rule: rev_induct)
  case Nil
  then show ?case by (cases "snd acc") (simp_all add: later_instants_def)
next
  case (snoc r rs)
  let ?L = "set_option (snd acc) \<union> later_instants c now rs"
  have fin: "finite ?L"
    by (rule finite_UnI, simp, rule finite_subset [of _ "the ` rejoin_instant c ` set rs"])
      (force simp: later_instants_def image_iff)+
  have step: "later_instants c now (rs @ [r]) = later_instants c now rs \<union>
      (case rejoin_instant c r of None \<Rightarrow> {} | Some a \<Rightarrow> if now < a then {a} else {})"
    by (auto simp: later_instants_def split: option.splits if_splits)
  show ?case
  proof (cases "rejoin_instant c r")
    case None
    then show ?thesis using snoc step by (simp add: candidate_step_def)
  next
    case (Some a)
    show ?thesis
    proof (cases "a \<le> now")
      case True
      then show ?thesis using Some snoc step by (simp add: candidate_step_def)
    next
      case False
      then have "set_option (snd acc) \<union> later_instants c now (rs @ [r]) = insert a ?L"
        using Some step by auto
      then show ?thesis
        using False Some snoc fin by (simp add: candidate_step_def Let_def min.commute)
    qed
  qed
qed

lemma rejoin_due_iff:
  "r \<in> set (fst (rejoin_candidates c now)) \<longleftrightarrow>
     \<not> rc_suspended c \<and> rc_run_intent c = Run_Running \<and> r \<in> set (rc_desired_members c)
     \<and> is_some_and (rejoin_instant c r) (\<lambda>a. a \<le> now)"
  by (auto simp: rejoin_candidates_def candidates_due)

lemma restart_gate:
  "may_restart_group l now \<longleftrightarrow> (\<forall>allowed. group_allowed_at l = Some allowed \<longrightarrow> allowed \<le> now)"
  by (auto simp: may_restart_group_def group_allowed_at_def REJOIN_RESTART_SPACING_def from_secs_def
      split: option.split)

lemma rejoin_instant_gates:
  "is_some_and (rejoin_instant c r) (\<lambda>a. a \<le> now) \<longleftrightarrow>
     is_some_and (om_get (rc_machines c) r) awaiting_rejoin
     \<and> may_rejoin_restart (rc_rejoin c) now r
     \<and> (\<forall>d. next_retry (rc_retry c) r = Some d \<longrightarrow> d \<le> now)"
  by (auto simp: rejoin_instant_def may_rejoin_restart_def may_rejoin_def restart_gate Let_def
      split: option.split)

section \<open>The timer\<close>

lemma due_at_later:
  "fst (rejoin_candidates c t) \<noteq> [] \<longleftrightarrow>
     \<not> rc_suspended c \<and> rc_run_intent c = Run_Running
     \<and> (\<exists>r \<in> set (rc_desired_members c). \<exists>a \<le> t. rejoin_instant c r = Some a)"
  by (auto simp: rejoin_candidates_def candidates_due filter_empty_conv is_some_and_def
      split: option.splits)

lemma later_instants_finite: "finite (later_instants c now rs)"
  by (rule finite_subset [of _ "the ` rejoin_instant c ` set rs"])
    (force simp: later_instants_def image_iff)+

lemma next_retry_delay_due:
  assumes "next_retry_delay c now = Some d"
  shows "fst (rejoin_candidates c (now + d)) \<noteq> []"
    and "now \<le> t \<Longrightarrow> t < now + d \<Longrightarrow> fst (rejoin_candidates c t) = []"
proof -
  let ?L = "later_instants c now (rc_desired_members c)"
  have "fst (rejoin_candidates c (now + d)) \<noteq> []
    \<and> (now \<le> t \<longrightarrow> t < now + d \<longrightarrow> fst (rejoin_candidates c t) = [])"
  proof (cases "fst (rejoin_candidates c now) = []")
    case False
    then show ?thesis
      using assms by (auto simp: next_retry_delay_def Let_def split: prod.splits)
  next
    case True
    then have nx: "map_option (\<lambda>a. a - now) (snd (rejoin_candidates c now)) = Some d"
      using assms by (simp add: next_retry_delay_def split: prod.splits)
    then have run: "\<not> rc_suspended c" "rc_run_intent c = Run_Running"
      by (auto simp: rejoin_candidates_def split: if_splits)
    have L: "?L \<noteq> {}" "Min ?L - now = d"
      using nx run by (auto simp: rejoin_candidates_def candidates_next Let_def split: if_splits)
    then have m: "Min ?L \<in> ?L" "Min ?L = now + d"
      using Min_in [OF later_instants_finite L(1)] by (auto simp: later_instants_def)
    have none: "\<not> (\<exists>a \<le> t. rejoin_instant c r = Some a)"
      if "r \<in> set (rc_desired_members c)" "now \<le> t" "t < now + d" for r
    proof
      assume "\<exists>a \<le> t. rejoin_instant c r = Some a"
      then obtain a where a: "a \<le> t" "rejoin_instant c r = Some a" by blast
      have "\<not> a \<le> now" using True a(2) that(1) run due_at_later [of c now] by blast
      then have "a \<in> ?L" using a that by (auto simp: later_instants_def)
      then have "Min ?L \<le> a" by (intro Min_le later_instants_finite)
      then show False using m a that by simp
    qed
    have "fst (rejoin_candidates c (now + d)) \<noteq> []"
      unfolding due_at_later using m run by (auto simp: later_instants_def)
    moreover have "now \<le> t \<Longrightarrow> t < now + d \<Longrightarrow> fst (rejoin_candidates c t) = []"
      using none due_at_later [of c t] by blast
    ultimately show ?thesis by blast
  qed
  then show "fst (rejoin_candidates c (now + d)) \<noteq> []"
    and "now \<le> t \<Longrightarrow> t < now + d \<Longrightarrow> fst (rejoin_candidates c t) = []" by blast+
qed

lemma next_retry_delay_none:
  assumes "next_retry_delay c now = None" "now \<le> t"
  shows "fst (rejoin_candidates c t) = []"
proof (rule ccontr)
  assume "fst (rejoin_candidates c t) \<noteq> []"
  then obtain r a where *: "\<not> rc_suspended c" "rc_run_intent c = Run_Running"
    "r \<in> set (rc_desired_members c)" "rejoin_instant c r = Some a"
    unfolding due_at_later by blast
  have "fst (rejoin_candidates c now) = []" "snd (rejoin_candidates c now) = None"
    using assms(1) by (auto simp: next_retry_delay_def split: prod.splits if_splits)
  moreover from this * have "\<not> a \<le> now" using due_at_later [of c now] by blast
  then have "a \<in> later_instants c now (rc_desired_members c)"
    using * by (auto simp: later_instants_def)
  ultimately show False
    using * by (auto simp: rejoin_candidates_def candidates_next Let_def split: if_splits)
qed

section \<open>Spacing of automatic restarts\<close>

lemma fire_one_fields [simp]:
  "rc_rejoin (fire_one c r) = rc_rejoin c" "rc_suspended (fire_one c r) = rc_suspended c"
  "rc_run_intent (fire_one c r) = rc_run_intent c"
  "rc_desired_members (fire_one c r) = rc_desired_members c"
  by (simp_all add: fire_one_def)

lemma foldl_fire_one_fields [simp]:
  "rc_rejoin (foldl fire_one c rs) = rc_rejoin c"
  "rc_desired_members (foldl fire_one c rs) = rc_desired_members c"
  by (induction rs arbitrary: c) simp_all

lemma fire_spacing:
  assumes "fire_due_retries c now = (c', True)" and "rc_rejoin c'' = rc_rejoin c'"
    and "t < now + REJOIN_RESTART_SPACING"
  shows "fst (rejoin_candidates c'' t) = []"
proof (rule ccontr)
  assume "fst (rejoin_candidates c'' t) \<noteq> []"
  then obtain r where "r \<in> set (fst (rejoin_candidates c'' t))"
    by (metis list.set_intros(1) neq_Nil_conv)
  then have "may_restart_group (rc_rejoin c'') t"
    by (simp add: rejoin_due_iff rejoin_instant_gates may_rejoin_restart_def)
  moreover have "rl_last_rejoin_restart (rc_rejoin c'') = Some now"
    using assms(1,2) by (auto simp: fire_due_retries_def note_restart_def Let_def split: if_splits)
  ultimately show False
    using assms(3) by (auto simp: may_restart_group_def REJOIN_RESTART_SPACING_def from_secs_def)
qed

end
