(* ===== verification/Recovery_Properties.thy ===== *)
theory Recovery_Properties
  imports Rejoin
begin

text \<open>
  What the recovery policy promises: bounded deterministic backoff, bookkeeping that only forgets
  failures after continuous healthy streaming, a consistent deadline query, spaced automatic
  restarts, a timer that neither spins nor oversleeps, and a receiver machine that no failure can
  absorb.
\<close>

section \<open>Backoff\<close>

lemma scale_with_hash_bounds:
  assumes "unat j \<le> 100" and "100 dvd base"
  shows "\<exists>d. scale_with_hash base hash j = Some (min d MAX_RETRY_DELAY)
    \<and> base * (100 - unat j) \<le> 100 * d \<and> 100 * d \<le> base * (100 + unat j)"
proof -
  define s where "s = uint hash mod (uint j * 2 + 1) - uint j"
  have j: "uint j = int (unat j)" by simp
  have "0 < uint j * 2 + 1" unfolding j by linarith
  note pos_mod_sign [OF this, of "uint hash"] pos_mod_bound [OF this, of "uint hash"]
  then have s: "- uint j \<le> s" "s \<le> uint j" unfolding s_def by linarith+
  define p where "p = nat (100 + s)"
  have "0 \<le> 100 + s" using s assms(1) j by linarith
  then have "100 + s = int p" by (simp add: p_def)
  moreover from this have "100 - unat j \<le> p" "p \<le> 100 + unat j" using s j by linarith+
  ultimately have p: "100 + s = int p" "100 - unat j \<le> p" "p \<le> 100 + unat j" by simp_all
  obtain q where q: "base = 100 * q" using assms(2) by (elim dvdE)
  have "(base * p + 50) div 100 = q * p" using q by (simp add: algebra_simps)
  then have "scale_with_hash base hash j = Some (min (q * p) MAX_RETRY_DELAY)"
    by (simp add: scale_with_hash_def mul_percent_def s_def [symmetric] p(1) Let_def)
  moreover have "base * (100 - unat j) \<le> 100 * (q * p)" "100 * (q * p) \<le> base * (100 + unat j)"
    using mult_le_mono2 [OF p(2), of base] mult_le_mono2 [OF p(3), of base] q
    by (simp_all only: mult.assoc)
  ultimately show ?thesis by blast
qed

lemma base_delay_default:
  "base_delay retry_policy_default a \<in> set (map from_secs [1, 2, 4, 8, 16, 30])"
proof -
  let ?b = "rp_base retry_policy_default"
  have len: "length ?b = 6" by (simp add: retry_policy_default_def)
  have "?b ! min (unat a) (length ?b - 1) \<in> set ?b" by (rule nth_mem) (simp add: len)
  then show ?thesis by (simp add: base_delay_def retry_policy_default_def)
qed

lemma base_delay_default_facts:
  "100 dvd base_delay retry_policy_default a"
  "from_secs 1 \<le> base_delay retry_policy_default a"
  "base_delay retry_policy_default a \<le> MAX_RETRY_DELAY"
  using base_delay_default [of a] by (auto simp: from_secs_def MAX_RETRY_DELAY_def)

lemma default_delay_bounds:
  assumes "base = base_delay retry_policy_default a"
  shows "\<exists>d. scale_with_hash base hash (rp_jitter_percent retry_policy_default) = Some d
    \<and> 80 * base \<le> 100 * d \<and> 100 * d \<le> 120 * base \<and> 0 < d \<and> d \<le> MAX_RETRY_DELAY"
proof -
  note facts = base_delay_default_facts [of a, folded assms]
  obtain d where "scale_with_hash base hash 20 = Some (min d MAX_RETRY_DELAY)"
    "base * 80 \<le> 100 * d" "100 * d \<le> base * 120"
    using scale_with_hash_bounds [OF _ facts(1), of 20 hash] by auto
  then show ?thesis
    using facts(2,3)
    by (intro exI [of _ "min d MAX_RETRY_DELAY"])
      (auto simp: retry_policy_default_def min_def from_secs_def)
qed

text \<open>
  Under the shipped policy every retry delay exists, is positive, lies within 20 percent of
  its rung of the 1, 2, 4, 8, 16, 30 second ladder, and never exceeds thirty seconds, for every
  receiver and attempt, and likewise for discovery restarts.
\<close>

theorem backoff_bounded:
  "(\<exists>d. retry_delay retry_policy_default receiver attempt = Some d
      \<and> 80 * base_delay retry_policy_default attempt \<le> 100 * d
      \<and> 100 * d \<le> 120 * base_delay retry_policy_default attempt
      \<and> 0 < d \<and> d \<le> MAX_RETRY_DELAY)
   \<and> (\<exists>d. discovery_delay retry_policy_default generation attempt = Some d
      \<and> 80 * base_delay retry_policy_default attempt \<le> 100 * d
      \<and> 100 * d \<le> 120 * base_delay retry_policy_default attempt
      \<and> 0 < d \<and> d \<le> MAX_RETRY_DELAY)"
  unfolding retry_delay_def discovery_delay_def
  using default_delay_bounds [OF refl, of attempt] by blast

section \<open>Attempt bookkeeping\<close>

lemma retry_views:
  "attempt_of rs r = re_attempt (entry_or_default rs r)"
  "next_retry rs r = re_next_retry (entry_or_default rs r)"
  by (simp_all add: attempt_of_def next_retry_def entry_or_default_def retry_entry_default_def
      split: option.split)

lemma entry_insert [simp]:
  "om_ok rs \<Longrightarrow> entry_or_default (om_insert r e rs) r' = (if r' = r then e else entry_or_default rs r')"
  by (simp add: entry_or_default_def om.get_insert)

text \<open>
  Recording a failure always succeeds under the shipped policy: it raises the receiver's
  attempt count by one (saturating), schedules the next retry strictly in the future and at most
  thirty seconds away, returns that very deadline, and leaves every other receiver alone.
\<close>

theorem failure_schedules_retry:
  assumes "om_ok rs"
  shows "\<exists>rs' deadline. note_failure rs retry_policy_default now r = Some (rs', deadline)
    \<and> om_ok rs' \<and> next_retry rs' r = Some deadline
    \<and> attempt_of rs' r = saturating_add (attempt_of rs r) 1
    \<and> now < deadline \<and> deadline \<le> now + MAX_RETRY_DELAY
    \<and> (\<forall>r'. r' \<noteq> r \<longrightarrow> om_get rs' r' = om_get rs r')"
proof -
  let ?a = "saturating_add (re_attempt (entry_or_default rs r)) 1 - 1"
  obtain d where d: "retry_delay retry_policy_default r ?a = Some d" "0 < d" "d \<le> MAX_RETRY_DELAY"
    using default_delay_bounds [OF refl, of ?a] unfolding retry_delay_def by blast
  then show ?thesis
    using assms by (simp add: note_failure_def retry_views om.insert_ok om.get_insert Let_def)
qed

theorem failure_schedules_retry_witness:
  "\<exists>rs' deadline. note_failure [] retry_policy_default 5 (DeviceId 1 2 3 4 5 6) = Some (rs', deadline)
    \<and> om_ok rs' \<and> next_retry rs' (DeviceId 1 2 3 4 5 6) = Some deadline
    \<and> attempt_of rs' (DeviceId 1 2 3 4 5 6)
        = saturating_add (attempt_of [] (DeviceId 1 2 3 4 5 6)) 1
    \<and> 5 < deadline \<and> deadline \<le> 5 + MAX_RETRY_DELAY
    \<and> (\<forall>r'. r' \<noteq> DeviceId 1 2 3 4 5 6 \<longrightarrow> om_get rs' r' = om_get [] r')"
  by (rule failure_schedules_retry) simp

lemma next_retry_mem:
  "om_ok rs \<Longrightarrow> next_retry rs r = Some d \<longleftrightarrow> (\<exists>e. (r, e) \<in> set rs \<and> re_next_retry e = Some d)"
  by (auto simp: next_retry_def bind_eq_Some_conv om_get_mem [symmetric])

lemma due_at_mem:
  "om_ok rs \<Longrightarrow> r \<in> set (due_at rs now) \<longleftrightarrow> (\<exists>d \<le> now. next_retry rs r = Some d)"
  by (force simp: due_at_def next_retry_mem is_some_and_def split: option.splits)

lemma due_at_sorted: "om_ok rs \<Longrightarrow> sorted (due_at rs now) \<and> distinct (due_at rs now)"
  using om.keys_sorted [of rs]
  by (auto simp: om_keys_def due_at_def sorted_key_filter distinct_map_filter)

lemma earliest_retry_min:
  assumes "om_ok rs"
  shows "earliest_retry rs = None \<longleftrightarrow> (\<forall>r. next_retry rs r = None)"
    and "earliest_retry rs = Some d \<Longrightarrow>
      (\<exists>r. next_retry rs r = Some d) \<and> (\<forall>r d'. next_retry rs r = Some d' \<longrightarrow> d \<le> d')"
proof -
  let ?ds = "List.map_filter (\<lambda>(_, entry). re_next_retry entry) rs"
  have mem: "d \<in> set ?ds \<longleftrightarrow> (\<exists>r. next_retry rs r = Some d)" for d
    using assms by (force simp: map_filter_def next_retry_mem)
  show "earliest_retry rs = None \<longleftrightarrow> (\<forall>r. next_retry rs r = None)"
    unfolding earliest_retry_def min_by_key_None set_empty [symmetric]
    using mem by (metis all_not_in_conv not_None_eq)
  show "earliest_retry rs = Some d \<Longrightarrow>
      (\<exists>r. next_retry rs r = Some d) \<and> (\<forall>r d'. next_retry rs r = Some d' \<longrightarrow> d \<le> d')"
    unfolding earliest_retry_def using min_by_key_Some [of id ?ds d] mem by auto
qed

text \<open>
  The two deadline queries agree with each other and with the bookkeeping: the due receivers
  are exactly those whose deadline has passed, in identity order without repetition, and some
  receiver is due at an instant exactly when the earliest deadline is not later than it.
\<close>

theorem deadline_queries_agree:
  assumes "om_ok rs"
  shows "(\<forall>r. r \<in> set (due_at rs now) \<longleftrightarrow> (\<exists>d \<le> now. next_retry rs r = Some d))
    \<and> sorted (due_at rs now) \<and> distinct (due_at rs now)
    \<and> (due_at rs now \<noteq> [] \<longleftrightarrow> (\<exists>d \<le> now. earliest_retry rs = Some d))"
proof -
  have "due_at rs now \<noteq> [] \<longleftrightarrow> (\<exists>r. r \<in> set (due_at rs now))" by (simp only: ex_in_conv) simp
  also have "\<dots> \<longleftrightarrow> (\<exists>r. \<exists>d \<le> now. next_retry rs r = Some d)"
    by (simp only: due_at_mem [OF assms])
  also have "\<dots> \<longleftrightarrow> (\<exists>d \<le> now. earliest_retry rs = Some d)"
  proof (cases "earliest_retry rs")
    case None
    then show ?thesis using earliest_retry_min(1) [OF assms] by simp
  next
    case (Some d)
    from earliest_retry_min(2) [OF assms this] obtain r where
      r: "next_retry rs r = Some d" "\<And>r d'. next_retry rs r = Some d' \<Longrightarrow> d \<le> d'" by blast
    have "d \<le> now" if "next_retry rs r' = Some d'" "d' \<le> now" for r' d'
      using r(2) [OF that(1)] that(2) by simp
    with r(1) Some show ?thesis by auto
  qed
  finally show ?thesis using due_at_mem [OF assms] due_at_sorted [OF assms] by blast
qed

theorem deadline_queries_agree_witness:
  "(\<forall>r. r \<in> set (due_at [(DeviceId 0 0 0 0 0 1, \<lparr>re_attempt = 1, re_next_retry = Some 7,
        re_streaming_since = None\<rparr>)] 9) \<longleftrightarrow>
      (\<exists>d \<le> 9. next_retry [(DeviceId 0 0 0 0 0 1, \<lparr>re_attempt = 1, re_next_retry = Some 7,
        re_streaming_since = None\<rparr>)] r = Some d))
    \<and> sorted (due_at [(DeviceId 0 0 0 0 0 1, \<lparr>re_attempt = 1, re_next_retry = Some 7,
        re_streaming_since = None\<rparr>)] 9)
    \<and> distinct (due_at [(DeviceId 0 0 0 0 0 1, \<lparr>re_attempt = 1, re_next_retry = Some 7,
        re_streaming_since = None\<rparr>)] 9)
    \<and> (due_at [(DeviceId 0 0 0 0 0 1, \<lparr>re_attempt = 1, re_next_retry = Some 7,
        re_streaming_since = None\<rparr>)] 9 \<noteq> [] \<longleftrightarrow>
       (\<exists>d \<le> 9. earliest_retry [(DeviceId 0 0 0 0 0 1, \<lparr>re_attempt = 1, re_next_retry = Some 7,
        re_streaming_since = None\<rparr>)] = Some d))"
  by (rule deadline_queries_agree) (simp add: om_ok_def om_keys_def)

text \<open>The operations on one retry state, with the instants and receivers they carry.\<close>

datatype retry_op =
    RO_Failure instant device_id
  | RO_Streaming instant device_id
  | RO_Clear device_id

fun retry_apply :: "retry_policy \<Rightarrow> retry_state \<Rightarrow> retry_op \<Rightarrow> retry_state" where
  "retry_apply policy rs (RO_Failure now r) =
     (case note_failure rs policy now r of Some (rs', _) \<Rightarrow> rs' | None \<Rightarrow> rs)"
| "retry_apply policy rs (RO_Streaming now r) = fst (note_streaming rs policy now r)"
| "retry_apply policy rs (RO_Clear r) = clear_deadline rs r"

definition retry_run :: "retry_policy \<Rightarrow> retry_op list \<Rightarrow> retry_state" where
  "retry_run policy ops = foldl (retry_apply policy) [] ops"

lemma retry_run_snoc: "retry_run policy (ops @ [op]) = retry_apply policy (retry_run policy ops) op"
  by (simp add: retry_run_def)

lemma note_streaming_ok: "om_ok rs \<Longrightarrow> om_ok (fst (note_streaming rs policy now r))"
  by (simp add: note_streaming_def om.insert_ok Let_def split: option.split)

lemma retry_apply_ok: "om_ok rs \<Longrightarrow> om_ok (retry_apply policy rs op)"
  by (cases op)
    (auto simp: note_failure_def note_streaming_ok clear_deadline_def om.insert_ok Let_def
      split: option.split)

lemma retry_run_ok: "om_ok (retry_run policy ops)"
  by (induction ops rule: rev_induct) (simp_all add: retry_run_snoc retry_apply_ok, simp add: retry_run_def)

text \<open>The streaming window of a receiver reaches back to a sighting no failure has followed.\<close>

definition window_open :: "retry_op list \<Rightarrow> device_id \<Rightarrow> instant \<Rightarrow> bool" where
  "window_open ops r since \<longleftrightarrow>
     (\<exists>pre post. ops = pre @ RO_Streaming since r # post \<and> (\<forall>t. RO_Failure t r \<notin> set post))"

lemma window_open_snoc:
  "window_open ops r s \<Longrightarrow> (\<And>t. op \<noteq> RO_Failure t r) \<Longrightarrow> window_open (ops @ [op]) r s"
proof -
  assume *: "window_open ops r s" "\<And>t. op \<noteq> RO_Failure t r"
  then obtain pre post where "ops = pre @ RO_Streaming s r # post" "\<forall>t. RO_Failure t r \<notin> set post"
    unfolding window_open_def by blast
  then show ?thesis
    using *(2) [symmetric] unfolding window_open_def
    by (intro exI [of _ pre] exI [of _ "post @ [op]"]) auto
qed

lemma streaming_since_step:
  assumes "om_ok rs" and "re_streaming_since (entry_or_default (retry_apply retry_policy_default rs op) r) = Some s"
  shows "op = RO_Streaming s r
    \<or> re_streaming_since (entry_or_default rs r) = Some s \<and> (\<forall>t. op \<noteq> RO_Failure t r)"
proof (cases op)
  case (RO_Failure t r')
  obtain d where "retry_delay retry_policy_default r'
      (saturating_add (re_attempt (entry_or_default rs r')) 1 - 1) = Some d"
    using default_delay_bounds [OF refl] unfolding retry_delay_def by blast
  then show ?thesis using assms RO_Failure by (auto simp: note_failure_def Let_def split: if_splits)
next
  case (RO_Streaming t r')
  then show ?thesis
    using assms by (auto simp: note_streaming_def Let_def split: option.splits if_splits)
next
  case (RO_Clear r')
  then show ?thesis
    using assms
    by (cases "om_get rs r'")
      (auto simp: clear_deadline_def entry_or_default_def om.get_insert split: if_splits option.splits)
qed

lemma streaming_since_window:
  "re_streaming_since (entry_or_default (retry_run retry_policy_default ops) r) = Some s \<Longrightarrow>
   window_open ops r s"
proof (induction ops rule: rev_induct)
  case Nil
  then show ?case by (simp add: retry_run_def entry_or_default_def retry_entry_default_def)
next
  case (snoc op ops)
  from streaming_since_step [OF retry_run_ok snoc.prems [unfolded retry_run_snoc]]
  show ?case
  proof
    assume "op = RO_Streaming s r"
    then show ?thesis unfolding window_open_def by (intro exI [of _ ops] exI [of _ "[]"]) simp
  next
    assume "re_streaming_since (entry_or_default (retry_run retry_policy_default ops) r) = Some s
      \<and> (\<forall>t. op \<noteq> RO_Failure t r)"
    then show ?thesis using snoc.IH window_open_snoc by blast
  qed
qed

text \<open>
  After any history of failures, sightings and cleared deadlines, a streaming report resets a
  receiver's attempts only if the history contains an earlier streaming report of that receiver,
  at least sixty seconds old, that no failure of that receiver has followed; the reset then clears
  both the attempts and the deadline.
\<close>

theorem reset_needs_healthy_streaming:
  assumes "snd (note_streaming (retry_run retry_policy_default ops) retry_policy_default now r)"
  shows "(\<exists>since. window_open ops r since \<and> since + from_secs 60 \<le> now)
    \<and> attempt_of (fst (note_streaming (retry_run retry_policy_default ops) retry_policy_default now r)) r = 0
    \<and> next_retry (fst (note_streaming (retry_run retry_policy_default ops) retry_policy_default now r)) r = None"
proof -
  let ?e = "entry_or_default (retry_run retry_policy_default ops) r"
  obtain s where s: "re_streaming_since ?e = Some s" "from_secs 60 \<le> now - s"
    using assms
    by (auto simp: note_streaming_def retry_policy_default_def Let_def split: option.splits if_splits)
  moreover have "s + from_secs 60 \<le> now" using s(2) by (simp add: from_secs_def)
  ultimately show ?thesis
    using streaming_since_window [OF s(1)] retry_run_ok
    by (auto simp: note_streaming_def retry_views retry_policy_default_def Let_def)
qed

theorem reset_needs_healthy_streaming_witness:
  "(\<exists>since. window_open [RO_Streaming 1 (DeviceId 0 0 0 0 0 1)]
        (DeviceId 0 0 0 0 0 1) since \<and> since + from_secs 60 \<le> from_secs 70)
    \<and> attempt_of (fst (note_streaming (retry_run retry_policy_default
        [RO_Streaming 1 (DeviceId 0 0 0 0 0 1)])
        retry_policy_default (from_secs 70) (DeviceId 0 0 0 0 0 1))) (DeviceId 0 0 0 0 0 1) = 0
    \<and> next_retry (fst (note_streaming (retry_run retry_policy_default
        [RO_Streaming 1 (DeviceId 0 0 0 0 0 1)])
        retry_policy_default (from_secs 70) (DeviceId 0 0 0 0 0 1))) (DeviceId 0 0 0 0 0 1) = None"
  by (rule reset_needs_healthy_streaming)
    (simp add: retry_run_def note_streaming_def entry_or_default_def retry_entry_default_def om_get_def
      from_secs_def retry_policy_default_def)

section \<open>Automatic rejoin\<close>

text \<open>
  A receiver is due for an automatic rejoin exactly when the run intent is running, the
  machine is not suspended, the receiver is desired and waiting to rejoin, has been continuously
  discoverable for two seconds, no automatic restart happened in the last thirty seconds, and its
  own backoff has elapsed.
\<close>

theorem rejoin_gates:
  "r \<in> set (fst (rejoin_candidates c now)) \<longleftrightarrow>
     \<not> rc_suspended c \<and> rc_run_intent c = Run_Running \<and> r \<in> set (rc_desired_members c)
     \<and> is_some_and (om_get (rc_machines c) r) awaiting_rejoin
     \<and> may_rejoin_restart (rc_rejoin c) now r
     \<and> \<not> (\<exists>d > now. next_retry (rc_retry c) r = Some d)"
  unfolding rejoin_due_iff rejoin_instant_gates by (auto simp: not_less)

definition demo_member :: device_id where
  "demo_member = DeviceId 0 0 0 0 0 1"

definition demo_ctl :: rejoin_ctl where
  "demo_ctl = \<lparr>rc_suspended = False, rc_run_intent = Run_Running,
     rc_desired_members = [demo_member], rc_machines = [(demo_member, machine_new True)],
     rc_retry = [], rc_rejoin = note_discovered limiter_new 0 demo_member\<rparr>"

lemma demo_rejoin_instant: "rejoin_instant demo_ctl demo_member = Some (from_secs 2)"
  by (simp add: rejoin_instant_def demo_ctl_def om_get_def awaiting_rejoin_def machine_new_def
      rejoin_eligible_at_def note_discovered_def limiter_new_def next_retry_def group_allowed_at_def
      REJOIN_ONLINE_STABLE_FOR_def)

lemma demo_candidates:
  "rejoin_candidates demo_ctl now =
     (if from_secs 2 \<le> now then ([demo_member], None) else ([], Some (from_secs 2)))"
  using demo_rejoin_instant
  by (simp add: rejoin_candidates_def candidate_step_def demo_ctl_def)

text \<open>
  The timer of the rejoin arm is exact: after the returned delay some receiver is due, at no
  earlier instant is any, and without a delay none ever becomes due, as long as the controller's
  fields do not change. So the arm neither spins nor misses a rejoin.
\<close>

theorem rejoin_timer_exact:
  assumes "now \<le> t"
  shows "case next_retry_delay c now of
      Some d \<Rightarrow> fst (rejoin_candidates c (now + d)) \<noteq> []
        \<and> (t < now + d \<longrightarrow> fst (rejoin_candidates c t) = [])
    | None \<Rightarrow> fst (rejoin_candidates c t) = []"
  using next_retry_delay_due [of c now] next_retry_delay_none [of c now t] assms
  by (simp split: option.split)

theorem rejoin_timer_exact_witness:
  "case next_retry_delay demo_ctl 0 of
      Some d \<Rightarrow> fst (rejoin_candidates demo_ctl (0 + d)) \<noteq> []
        \<and> (7 < 0 + d \<longrightarrow> fst (rejoin_candidates demo_ctl 7) = [])
    | None \<Rightarrow> fst (rejoin_candidates demo_ctl 7) = []"
  by (rule rejoin_timer_exact) simp

text \<open>
  After an automatic rejoin has fired, no receiver is due for another thirty seconds, however
  the machines, deadlines and memberships change meanwhile.
\<close>

theorem rejoin_restarts_spaced:
  assumes "fire_due_retries c now = (c', True)" and "rc_rejoin c'' = rc_rejoin c'"
    and "t < now + from_secs 30"
  shows "fst (rejoin_candidates c'' t) = []"
  using fire_spacing [OF assms(1,2)] assms(3) by (simp add: REJOIN_RESTART_SPACING_def)

theorem rejoin_restarts_spaced_witness:
  "fst (rejoin_candidates (fst (fire_due_retries demo_ctl (from_secs 2))) (from_secs 31)) = []"
proof (rule rejoin_restarts_spaced)
  show "fire_due_retries demo_ctl (from_secs 2) = (fst (fire_due_retries demo_ctl (from_secs 2)), True)"
    by (simp add: fire_due_retries_def demo_candidates)
qed (simp_all add: from_secs_def)

section \<open>The receiver machine\<close>

text \<open>The operations the controller applies to a machine; a rejected one keeps what it returned.\<close>

inductive machine_step :: "receiver_machine \<Rightarrow> receiver_machine \<Rightarrow> bool" where
  service: "machine_step m (fst (set_service_available m available))"
| begin_gen: "machine_step m (fst (begin_generation m generation attempt))"
| setup_progress: "machine_step m (fst (enter_setup m role phase))"
| streaming: "machine_step m (fst (enter_streaming m role))"
| fail: "machine_step m (fst (machine_fail m retryable error))"
| wait: "machine_step m (fst (wait_retry m attempt retry_at))"
| retry: "machine_step m (fst (retry_now m))"
| leave: "machine_step m (leave_session m)"
| release: "machine_step m (release m)"

inductive machine_reachable :: "receiver_machine \<Rightarrow> bool" where
  new: "machine_reachable (machine_new available)"
| step: "machine_reachable m \<Longrightarrow> machine_step m m' \<Longrightarrow> machine_reachable m'"

definition service_coherent :: "receiver_machine \<Rightarrow> bool" where
  "service_coherent m \<longleftrightarrow>
     (rm_state m = Discovered \<longrightarrow> rm_service_available m)
     \<and> (rm_state m = Unavailable_L \<longrightarrow> \<not> rm_service_available m)"

lemma enter_streaming_cases:
  "enter_streaming m role =
     (if rm_state m = Streaming role then (m, None)
      else case rm_state m of
        Streaming held \<Rightarrow> (m\<lparr>rm_role := Some role\<rparr>,
          Some \<lparr>it_from = ''Streaming'', it_to = ''Streaming''\<rparr>)
      | _ \<Rightarrow> (m\<lparr>rm_role := Some role, rm_state := Streaming role\<rparr>, None))"
  by (cases "rm_state m")
    (auto simp: enter_streaming_def and_then_def transition_def Let_def)

lemma machine_step_coherent: "machine_step m m' \<Longrightarrow> service_coherent m \<Longrightarrow> service_coherent m'"
proof (induction rule: machine_step.induct)
  case (streaming m role)
  then show ?case
    by (cases "rm_state m") (auto simp: enter_streaming_cases service_coherent_def)
next
  case (service m available)
  then show ?case
    by (cases "rm_state m") (auto simp: service_coherent_def set_service_available_def transition_def Let_def)
qed (auto simp: service_coherent_def begin_generation_def enter_setup_def machine_fail_def
    wait_retry_def retry_now_def leave_session_def release_def transition_def Let_def)

text \<open>
  In every reachable machine, a row shown as discovered really has a castable service and a
  row shown as unavailable has none, whatever the order of discovery and session reports.
\<close>

theorem machine_service_coherent:
  assumes "machine_reachable m"
  shows "service_coherent m"
  using assms
proof (induction rule: machine_reachable.induct)
  case (new available)
  then show ?case by (simp add: service_coherent_def machine_new_def)
next
  case (step m m')
  then show ?case by (blast intro: machine_step_coherent)
qed

theorem machine_service_coherent_witness:
  "service_coherent (fst (set_service_available (machine_new True) False))"
  by (rule machine_service_coherent) (rule machine_reachable.step [OF machine_reachable.new machine_step.service])

text \<open>
  A service loss never contradicts a running session: while a generation owns the receiver
  only the availability flag changes, and leaving the session applies the loss; outside a session
  the row becomes unavailable at once, and a returning service always makes it discovered.
\<close>

theorem service_loss_deferred:
  "(owned_by_generation (rm_state m) \<longrightarrow>
      set_service_available m False = (m\<lparr>rm_service_available := False\<rparr>, None)
      \<and> rm_state (leave_session (fst (set_service_available m False))) = Unavailable_L)
   \<and> (\<not> owned_by_generation (rm_state m) \<longrightarrow>
      rm_state (fst (set_service_available m False)) = Unavailable_L
      \<and> snd (set_service_available m False) = None
      \<and> rm_state (fst (set_service_available (fst (set_service_available m False)) True)) = Discovered)"
  by (cases "rm_state m") (auto simp: machine_defs)

theorem service_loss_deferred_witness:
  "rm_state (leave_session (fst (set_service_available
      (fst (begin_generation (machine_new True) 1 0)) False))) = Unavailable_L
   \<and> rm_state (fst (set_service_available (fst (set_service_available (machine_new True) False)) True))
      = Discovered"
  using service_loss_deferred [of "fst (begin_generation (machine_new True) 1 0)"]
    service_loss_deferred [of "machine_new True"]
  by (auto simp: machine_defs machine_new_def)

text \<open>
  No failure is absorbing: a manual or automatic retry takes every failed or waiting receiver
  to connecting without a rejection, drops its deadline and keeps its attempt history, and the
  transport's report that it streams then succeeds. That report is rejected in one case only, a
  receiver already streaming under another role.
\<close>

theorem failure_not_absorbing:
  "(is_backoff (rm_state m) \<longrightarrow>
      retry_now m = (m\<lparr>rm_next_retry := None, rm_state := Connecting (rm_attempt m)\<rparr>, None)
      \<and> rm_state (fst (enter_streaming (fst (retry_now m)) role)) = Streaming role)
   \<and> (snd (enter_streaming m role) = None \<longleftrightarrow>
        \<not> (\<exists>held. rm_state m = Streaming held \<and> held \<noteq> role))
   \<and> (snd (enter_streaming m role) = None \<longrightarrow>
        rm_state (fst (enter_streaming m role)) = Streaming role)"
  by (cases "rm_state m") (auto simp: enter_streaming_cases retry_now_def transition_def Let_def)

theorem failure_not_absorbing_witness:
  "rm_state (fst (enter_streaming (fst (retry_now
      (fst (machine_fail (machine_new True) False ''gone'')))) Role_Single)) = Streaming Role_Single
   \<and> snd (enter_streaming (fst (enter_streaming (machine_new True) Role_Single)) Role_Single) = None"
  using failure_not_absorbing [of "fst (machine_fail (machine_new True) False ''gone'')" Role_Single]
    failure_not_absorbing [of "fst (enter_streaming (machine_new True) Role_Single)" Role_Single]
    failure_not_absorbing [of "machine_new True" Role_Single]
  by (auto simp: machine_defs machine_new_def)

lemma transition_edge:
  "rm_state m1 = s \<Longrightarrow> r = transition m1 to \<Longrightarrow>
   rm_state (fst r) = s \<or> snd r = None \<and> permitted s (rm_state (fst r))"
  by (simp add: transition_def)

lemma service_edge:
  "rm_state (fst (set_service_available m b)) = rm_state m
   \<or> snd (set_service_available m b) = None
     \<and> permitted (rm_state m) (rm_state (fst (set_service_available m b)))"
  by (cases "rm_state m"; cases b) (simp_all add: set_service_available_def transition_def Let_def)

lemma setup_edge:
  "rm_state (fst (enter_setup m role phase)) = rm_state m
   \<or> snd (enter_setup m role phase) = None
     \<and> permitted (rm_state m) (rm_state (fst (enter_setup m role phase)))"
  unfolding enter_setup_def by (rule transition_edge [OF _ refl]) simp

lemma wait_edge:
  "rm_state (fst (wait_retry m attempt retry_at)) = rm_state m
   \<or> snd (wait_retry m attempt retry_at) = None
     \<and> permitted (rm_state m) (rm_state (fst (wait_retry m attempt retry_at)))"
  unfolding wait_retry_def by (rule transition_edge [OF _ refl]) simp

lemma retry_edge:
  "rm_state (fst (retry_now m)) = rm_state m
   \<or> snd (retry_now m) = None \<and> permitted (rm_state m) (rm_state (fst (retry_now m)))"
  by (cases "rm_state m") (simp_all add: retry_now_def transition_def Let_def)

text \<open>
  Every transition the crate decides on its own follows the approved edge set: setup
  progress, backoff and availability reports that are accepted either leave the published state
  alone or move it along a permitted edge, and a rejected one leaves it alone.
\<close>

lemma own_transitions_permitted:
  "m' \<in> {set_service_available m available, enter_setup m role phase, wait_retry m attempt retry_at,
     retry_now m} \<Longrightarrow>
   rm_state (fst m') = rm_state m \<or> snd m' = None \<and> permitted (rm_state m) (rm_state (fst m'))"
  using service_edge [of m available] setup_edge [of m role phase] wait_edge [of m attempt retry_at]
    retry_edge [of m]
  by (elim insertE emptyE) simp_all

end
