(* ===== verification/Tlv.thy ===== *)
theory Tlv
  imports Ordered_Map
begin

text \<open>
  TLV8 messages of HomeKit pairing (\<open>airplay-crypto/src/tlv.rs\<close>): the type codes, parsing with
  reassembly of fragmented values, deterministic encoding with fragmentation, typed access and the
  fixed pairing requests. The hash map of the source is read back only through lookups and through
  its sorted keys, so it is an ordered map here. Parsing walks the remaining input instead of an
  index into it.
\<close>

datatype tlv_type =
    Tlv_Method | Tlv_Identifier | Tlv_Salt | Tlv_PublicKey | Tlv_Proof | Tlv_EncryptedData
  | Tlv_State | Tlv_Error | Tlv_RetryDelay | Tlv_Certificate | Tlv_Signature | Tlv_Permissions
  | Tlv_FragmentData | Tlv_FragmentLast | Tlv_SessionId | Tlv_Flags | Tlv_Separator

text \<open>The discriminants of the \<open>repr(u8)\<close> enumeration.\<close>

fun tlv_byte :: "tlv_type \<Rightarrow> u8" where
  "tlv_byte Tlv_Method = 0x00"
| "tlv_byte Tlv_Identifier = 0x01"
| "tlv_byte Tlv_Salt = 0x02"
| "tlv_byte Tlv_PublicKey = 0x03"
| "tlv_byte Tlv_Proof = 0x04"
| "tlv_byte Tlv_EncryptedData = 0x05"
| "tlv_byte Tlv_State = 0x06"
| "tlv_byte Tlv_Error = 0x07"
| "tlv_byte Tlv_RetryDelay = 0x08"
| "tlv_byte Tlv_Certificate = 0x09"
| "tlv_byte Tlv_Signature = 0x0A"
| "tlv_byte Tlv_Permissions = 0x0B"
| "tlv_byte Tlv_FragmentData = 0x0C"
| "tlv_byte Tlv_FragmentLast = 0x0D"
| "tlv_byte Tlv_SessionId = 0x0E"
| "tlv_byte Tlv_Flags = 0x13"
| "tlv_byte Tlv_Separator = 0xFF"

definition tlv_from_byte :: "u8 \<Rightarrow> tlv_type option" where
  "tlv_from_byte b =
     (if b = 0x00 then Some Tlv_Method
      else if b = 0x01 then Some Tlv_Identifier
      else if b = 0x02 then Some Tlv_Salt
      else if b = 0x03 then Some Tlv_PublicKey
      else if b = 0x04 then Some Tlv_Proof
      else if b = 0x05 then Some Tlv_EncryptedData
      else if b = 0x06 then Some Tlv_State
      else if b = 0x07 then Some Tlv_Error
      else if b = 0x08 then Some Tlv_RetryDelay
      else if b = 0x09 then Some Tlv_Certificate
      else if b = 0x0A then Some Tlv_Signature
      else if b = 0x0B then Some Tlv_Permissions
      else if b = 0x0C then Some Tlv_FragmentData
      else if b = 0x0D then Some Tlv_FragmentLast
      else if b = 0x0E then Some Tlv_SessionId
      else if b = 0x13 then Some Tlv_Flags
      else if b = 0xFF then Some Tlv_Separator
      else None)"

type_synonym tlv8 = "(u8, u8 list) omap"

text \<open>The two messages of \<open>ParseError::InvalidFormat\<close>, the second with its two counts.\<close>

datatype tlv_error = Truncated_Header | Truncated_Value nat nat

definition tlv_new :: tlv8 where
  "tlv_new = []"

definition tlv_append :: "tlv8 \<Rightarrow> u8 option \<Rightarrow> u8 \<Rightarrow> u8 list \<Rightarrow> tlv8" where
  "tlv_append items last_type typ bytes =
     (if Some typ = last_type
      then (case om_get items typ of
              Some existing \<Rightarrow> om_insert typ (existing @ bytes) items
            | None \<Rightarrow> items)
      else om_insert typ ((case om_get items typ of Some v \<Rightarrow> v | None \<Rightarrow> []) @ bytes) items)"

function tlv_parse_loop :: "u8 list \<Rightarrow> tlv8 \<Rightarrow> u8 option \<Rightarrow> tlv_error + tlv8" where
  "tlv_parse_loop [] items last_type = Inr items"
| "tlv_parse_loop [_] items last_type = Inl Truncated_Header"
| "tlv_parse_loop (typ # len # rest) items last_type =
     (if length rest < unat len then Inl (Truncated_Value (unat len) (length rest))
      else tlv_parse_loop (drop (unat len) rest)
             (tlv_append items last_type typ (take (unat len) rest)) (Some typ))"
  by pat_completeness auto
termination
  by (relation "measure (\<lambda>(data, _, _). length data)") auto

definition tlv_parse :: "u8 list \<Rightarrow> tlv_error + tlv8" where
  "tlv_parse data = tlv_parse_loop data [] None"

definition tlv_encode_item :: "u8 \<Rightarrow> u8 list \<Rightarrow> u8 list" where
  "tlv_encode_item typ bytes =
     (if bytes = [] then [typ, 0]
      else concat (map (\<lambda>chunk. [typ, of_nat (length chunk)] @ chunk) (chunks 255 bytes)))"

definition tlv_encode :: "tlv8 \<Rightarrow> u8 list" where
  "tlv_encode t =
     concat (map (\<lambda>typ. case om_get t typ of Some bytes \<Rightarrow> tlv_encode_item typ bytes | None \<Rightarrow> [])
       (om_keys t))"

definition tlv_get_raw :: "tlv8 \<Rightarrow> u8 \<Rightarrow> u8 list option" where
  "tlv_get_raw t typ = om_get t typ"

definition tlv_get :: "tlv8 \<Rightarrow> tlv_type \<Rightarrow> u8 list option" where
  "tlv_get t typ = om_get t (tlv_byte typ)"

definition tlv_set_raw :: "tlv8 \<Rightarrow> u8 \<Rightarrow> u8 list \<Rightarrow> tlv8" where
  "tlv_set_raw t typ bytes = om_insert typ bytes t"

definition tlv_set :: "tlv8 \<Rightarrow> tlv_type \<Rightarrow> u8 list \<Rightarrow> tlv8" where
  "tlv_set t typ bytes = om_insert (tlv_byte typ) bytes t"

definition tlv_contains :: "tlv8 \<Rightarrow> tlv_type \<Rightarrow> bool" where
  "tlv_contains t typ \<longleftrightarrow> om_get t (tlv_byte typ) \<noteq> None"

fun first_byte :: "u8 list \<Rightarrow> u8 option" where
  "first_byte [] = None"
| "first_byte (b # _) = Some b"

definition tlv_state :: "tlv8 \<Rightarrow> u8 option" where
  "tlv_state t = Option.bind (tlv_get t Tlv_State) first_byte"

definition tlv_error_code :: "tlv8 \<Rightarrow> u8 option" where
  "tlv_error_code t = Option.bind (tlv_get t Tlv_Error) first_byte"

fun retry_delay_bytes :: "u8 list \<Rightarrow> u16" where
  "retry_delay_bytes [] = 0"
| "retry_delay_bytes [a] = ucast a"
| "retry_delay_bytes (a # b # _) = ucast a + push_bit 8 (ucast b)"

definition tlv_retry_delay :: "tlv8 \<Rightarrow> u16 option" where
  "tlv_retry_delay t = map_option retry_delay_bytes (tlv_get t Tlv_RetryDelay)"

definition pair_setup_m1 :: tlv8 where
  "pair_setup_m1 = tlv_set (tlv_set tlv_new Tlv_State [0x01]) Tlv_Method [0x00]"

definition pair_setup_m1_with_flags :: tlv8 where
  "pair_setup_m1_with_flags =
     tlv_set (tlv_set (tlv_set tlv_new Tlv_State [0x01]) Tlv_Method [0x00])
       Tlv_Flags [0x10, 0x00, 0x00, 0x00]"

definition pair_verify_m1 :: "u8 list \<Rightarrow> tlv8" where
  "pair_verify_m1 public_key =
     tlv_set (tlv_set tlv_new Tlv_State [0x01]) Tlv_PublicKey public_key"

section \<open>Records on the wire\<close>

text \<open>
  What a message is on the wire: a sequence of records, each a type and at most 255 bytes, and the
  map it denotes: the bytes of all records of a type, in order.
\<close>

definition record_bytes :: "u8 \<times> u8 list \<Rightarrow> u8 list" where
  "record_bytes r = fst r # of_nat (length (snd r)) # snd r"

definition records_ok :: "(u8 \<times> u8 list) list \<Rightarrow> bool" where
  "records_ok rs \<longleftrightarrow> (\<forall>r \<in> set rs. length (snd r) \<le> 255)"

definition tlv_extend :: "tlv8 \<Rightarrow> u8 \<times> u8 list \<Rightarrow> tlv8" where
  "tlv_extend items r =
     om_insert (fst r) ((case om_get items (fst r) of Some v \<Rightarrow> v | None \<Rightarrow> []) @ snd r) items"

lemma tlv_append_extend:
  "(\<And>t. last_type = Some t \<Longrightarrow> om_get items t \<noteq> None) \<Longrightarrow>
   tlv_append items last_type ty bytes = tlv_extend items (ty, bytes)"
  by (auto simp: tlv_append_def tlv_extend_def)

lemma tlv_extend_ok: "om_ok items \<Longrightarrow> om_ok (tlv_extend items r)"
  by (simp add: tlv_extend_def om.insert_ok)

lemma tlv_extend_get:
  "om_ok items \<Longrightarrow> om_get (tlv_extend items r) t =
     (if t = fst r then Some ((case om_get items t of Some v \<Rightarrow> v | None \<Rightarrow> []) @ snd r)
      else om_get items t)"
  by (simp add: tlv_extend_def om.get_insert)

lemma parse_records:
  assumes "records_ok rs" "om_ok items" "\<And>t. last_type = Some t \<Longrightarrow> om_get items t \<noteq> None"
  shows "tlv_parse_loop (concat (map record_bytes rs)) items last_type = Inr (foldl tlv_extend items rs)"
  using assms
proof (induction rs arbitrary: items last_type)
  case (Cons r rs)
  obtain ty bytes where r: "r = (ty, bytes)" by (cases r)
  have len: "unat (of_nat (length bytes) :: u8) = length bytes"
    using Cons.prems(1) r by (intro unat_of_nat_u8) (simp add: records_ok_def)
  have "tlv_parse_loop (concat (map record_bytes rs)) (tlv_extend items r) (Some ty)
      = Inr (foldl tlv_extend (tlv_extend items r) rs)"
    using Cons.prems r
    by (intro Cons.IH) (auto simp: records_ok_def tlv_extend_ok tlv_extend_get)
  moreover have "tlv_append items last_type ty bytes = tlv_extend items r"
    unfolding r by (rule tlv_append_extend) (rule Cons.prems(3))
  moreover have "record_bytes r = ty # of_nat (length bytes) # bytes"
    by (simp add: r record_bytes_def)
  ultimately show ?case using len by simp
qed simp

lemma parse_loop_records:
  "tlv_parse_loop data items last_type = Inr t \<Longrightarrow>
   \<exists>rs. records_ok rs \<and> data = concat (map record_bytes rs)"
proof (induction data items last_type rule: tlv_parse_loop.induct)
  case (1 items last_type)
  then show ?case by (intro exI [of _ "[]"]) (simp add: records_ok_def)
next
  case (3 ty len rest items last_type)
  then have le: "unat len \<le> length rest" by (auto split: if_splits)
  with 3 obtain rs where rs: "records_ok rs" "drop (unat len) rest = concat (map record_bytes rs)"
    by (auto split: if_splits)
  have "records_ok ((ty, take (unat len) rest) # rs)"
    using rs(1) unat_u8 [of len] le by (auto simp: records_ok_def simp del: unat_u8)
  moreover have "ty # len # rest =
      concat (map record_bytes ((ty, take (unat len) rest) # rs))"
    using le rs(2) append_take_drop_id [of "unat len" rest] by (simp add: record_bytes_def min_absorb2)
  ultimately show ?case by blast
qed simp

definition records_value :: "(u8 \<times> u8 list) list \<Rightarrow> u8 \<Rightarrow> u8 list option" where
  "records_value rs t =
     (if t \<in> fst ` set rs then Some (concat (map snd (filter (\<lambda>r. fst r = t) rs))) else None)"

lemma foldl_extend_get:
  "om_ok (foldl tlv_extend [] rs) \<and> om_get (foldl tlv_extend [] rs) t = records_value rs t"
proof (induction rs rule: rev_induct)
  case Nil
  then show ?case by (simp add: records_value_def)
next
  case (snoc r rs)
  have none: "filter (\<lambda>r. fst r = t) rs = []" if "t \<notin> fst ` set rs"
    using that by (auto simp: filter_empty_conv)
  show ?case
    using snoc none by (auto simp: tlv_extend_ok tlv_extend_get records_value_def)
qed

section \<open>Encoding produces records\<close>

definition item_records :: "u8 \<times> u8 list \<Rightarrow> (u8 \<times> u8 list) list" where
  "item_records e = (if snd e = [] then [(fst e, [])] else map (Pair (fst e)) (chunks 255 (snd e)))"

lemma item_records_bytes: "concat (map record_bytes (item_records (typ, v))) = tlv_encode_item typ v"
  by (simp add: item_records_def tlv_encode_item_def record_bytes_def comp_def)

lemma item_records_ok: "records_ok (item_records e)"
  using chunks_length [of _ 255 "snd e"] by (auto simp: item_records_def records_ok_def)

lemma encode_records:
  assumes "om_ok t"
  shows "tlv_encode t = concat (map record_bytes (concat (map item_records t)))"
proof -
  have "(case om_get t (fst e) of Some bytes \<Rightarrow> tlv_encode_item (fst e) bytes | None \<Rightarrow> [])
      = concat (map record_bytes (item_records e))" if "e \<in> set t" for e
    using that om_get_mem [OF assms, of "fst e" "snd e"] item_records_bytes [of "fst e" "snd e"]
    by simp
  then have "tlv_encode t = concat (map (\<lambda>e. concat (map record_bytes (item_records e))) t)"
    unfolding tlv_encode_def om_keys_def map_map comp_def by (intro arg_cong [where f = concat] map_cong) simp_all
  moreover have "concat (map (\<lambda>e. concat (map record_bytes (item_records e))) xs)
      = concat (map record_bytes (concat (map item_records xs)))" for xs
    by (induction xs) simp_all
  ultimately show ?thesis by simp
qed

lemma records_value_append:
  "records_value (xs @ ys) t =
     (case records_value xs t of
        None \<Rightarrow> records_value ys t
      | Some v \<Rightarrow> Some (v @ (case records_value ys t of None \<Rightarrow> [] | Some w \<Rightarrow> w)))"
proof -
  have "filter (\<lambda>r. fst r = t) zs = []" if "t \<notin> fst ` set zs" for zs :: "(u8 \<times> u8 list) list"
    using that by (auto simp: filter_empty_conv)
  then show ?thesis by (auto simp: records_value_def)
qed

lemma chunks_nonempty: "0 < n \<Longrightarrow> xs \<noteq> [] \<Longrightarrow> chunks n xs \<noteq> []"
  by (simp add: chunks.simps [of n xs])

lemma item_records_value: "records_value (item_records e) t = (if t = fst e then Some (snd e) else None)"
proof (cases "snd e = []")
  case True
  then show ?thesis by (simp add: item_records_def records_value_def)
next
  case False
  have eq: "map snd (filter (\<lambda>r. fst r = fst e) (map (Pair (fst e)) cs)) = cs" for cs
    by (induction cs) simp_all
  have rs: "item_records e = map (Pair (fst e)) (chunks 255 (snd e))"
    using False by (simp add: item_records_def)
  have "fst ` set (item_records e) = {fst e}"
    unfolding rs using False chunks_nonempty [of 255 "snd e"]
    by (simp add: image_image image_constant_conv)
  moreover have "concat (map snd (filter (\<lambda>r. fst r = fst e) (item_records e))) = snd e"
    unfolding rs eq by (simp add: concat_chunks)
  ultimately show ?thesis by (simp add: records_value_def)
qed

lemma encode_records_value:
  "om_ok t \<Longrightarrow> records_value (concat (map item_records t)) k = om_get t k"
proof (induction t arbitrary: k)
  case Nil
  then show ?case by (simp add: records_value_def)
next
  case (Cons e t)
  have ok: "om_ok t" and new: "\<And>v. (fst e, v) \<notin> set t"
    using Cons.prems by (auto simp: om_ok_def om_keys_def)
  have "om_get t (fst e) = None"
    using new om_get_mem [OF ok] by (metis option.exhaust)
  moreover have "om_get (e # t) k = (if k = fst e then Some (snd e) else om_get t k)"
    by (cases e) (simp add: om_get_def)
  ultimately show ?case
    using Cons.IH [OF ok, of k] Cons.IH [OF ok, of "fst e"]
    by (simp add: records_value_append item_records_value)
qed

lemma tlv_roundtrip:
  assumes "om_ok t"
  shows "tlv_parse (tlv_encode t) = Inr t"
proof -
  let ?rs = "concat (map item_records t)"
  have "records_ok ?rs" using item_records_ok by (fastforce simp: records_ok_def)
  then have "tlv_parse (tlv_encode t) = Inr (foldl tlv_extend [] ?rs)"
    unfolding tlv_parse_def encode_records [OF assms] by (rule parse_records) simp_all
  moreover have "foldl tlv_extend [] ?rs = t"
    using foldl_extend_get [of ?rs] encode_records_value [OF assms] assms by (intro om_ext) simp_all
  ultimately show ?thesis by simp
qed

section \<open>What the codec promises\<close>

text \<open>
  C35: encoding and parsing are inverse: every message, with values of any length including empty
  ones, survives the round trip through its fragmented wire form.
\<close>

theorem tlv_encode_parse:
  assumes "om_ok t"
  shows "tlv_parse (tlv_encode t) = Inr t"
  using assms by (rule tlv_roundtrip)

theorem tlv_encode_parse_witness:
  "tlv_parse (tlv_encode [(0x03, replicate 300 7), (0x06, [])]) = Inr [(0x03, replicate 300 7), (0x06, [])]"
  by (rule tlv_encode_parse) (simp add: om_ok_def om_keys_def)

text \<open>
  Parsing accepts exactly the byte strings that are sequences of complete records, and the
  message it returns maps each type to the bytes of all records of that type, in order. In
  particular records of a type are joined even when records of other types stand between them.
\<close>

theorem tlv_parse_meaning:
  "((\<exists>t. tlv_parse data = Inr t) \<longleftrightarrow> (\<exists>rs. records_ok rs \<and> data = concat (map record_bytes rs)))
   \<and> (records_ok rs \<longrightarrow>
        (\<exists>t. tlv_parse (concat (map record_bytes rs)) = Inr t \<and> om_ok t
           \<and> (\<forall>typ. tlv_get_raw t typ = records_value rs typ)))"
proof -
  have parsed: "tlv_parse (concat (map record_bytes rs)) = Inr (foldl tlv_extend [] rs)"
    if "records_ok rs" for rs
    unfolding tlv_parse_def by (rule parse_records [OF that]) simp_all
  then show ?thesis
    using parse_loop_records [of data "[]" None] foldl_extend_get [of rs]
    by (auto simp: tlv_parse_def tlv_get_raw_def)
qed

theorem tlv_parse_meaning_witness:
  "\<exists>t. tlv_parse [6, 1, 1, 0, 1, 2, 6, 1, 3] = Inr t \<and> om_ok t
      \<and> tlv_get_raw t 6 = Some [1, 3] \<and> tlv_get_raw t 0 = Some [2]"
proof -
  have ok: "records_ok [(6, [1]), (0, [2]), (6, [3])]" by (simp add: records_ok_def)
  show ?thesis
    using tlv_parse_meaning [of "[]" "[(6, [1]), (0, [2]), (6, [3])]"] ok
    by (auto simp: record_bytes_def records_value_def)
qed

lemma tlv_from_byte_inverse: "tlv_from_byte (tlv_byte ty) = Some ty"
  by (cases ty) (simp_all add: tlv_from_byte_def)

lemma tlv_from_byte_Some: "tlv_from_byte b = Some ty \<Longrightarrow> tlv_byte ty = b"
  by (auto simp: tlv_from_byte_def split: if_splits)

lemma retry_delay_little_endian: "unat (retry_delay_bytes [lo, hi]) = unat lo + 256 * unat hi"
proof -
  have "unat lo < 256" "unat hi < 256" by simp_all
  then have b: "unat lo + 256 * unat hi < 65536" "256 * unat hi < 65536" by linarith+
  have u: "unat (ucast x :: u16) = unat x" for x :: u8
  proof -
    have "unat x < 2 ^ 16" by (rule less_trans [OF unat_u8]) simp
    then show ?thesis by (simp add: unsigned_ucast_eq take_bit_nat_eq_self)
  qed
  have p: "push_bit 8 (ucast hi :: u16) = 256 * ucast hi"
    by (simp add: push_bit_eq_mult mult.commute)
  have n: "unat (256 :: u16) = 256" by simp
  have "unat (256 * ucast hi :: u16) = 256 * unat hi"
    unfolding unat_word_ariths u n using b by simp
  then show ?thesis
    unfolding retry_delay_bytes.simps p unat_word_ariths(1) u using b by simp
qed

text \<open>
  A type code is recognised exactly when it is the code of a type, and typed access sees what
  typed updates wrote and nothing else; the retry delay reads its first two bytes little-endian.
\<close>

theorem tlv_typed_access:
  assumes "om_ok t"
  shows "(tlv_from_byte b = Some ty \<longleftrightarrow> tlv_byte ty = b)
    \<and> om_ok (tlv_set t ty v)
    \<and> tlv_get (tlv_set t ty v) ty' = (if ty' = ty then Some v else tlv_get t ty')
    \<and> map_option unat (tlv_retry_delay (tlv_set t Tlv_RetryDelay [lo, hi])) = Some (unat lo + 256 * unat hi)"
proof -
  have inj: "tlv_byte ty' = tlv_byte ty \<longleftrightarrow> ty' = ty"
    using tlv_from_byte_inverse by (metis option.inject)
  have "tlv_from_byte b = Some ty \<longleftrightarrow> tlv_byte ty = b"
    using tlv_from_byte_inverse [of ty] tlv_from_byte_Some by blast
  moreover have "tlv_get (tlv_set t ty v) ty' = (if ty' = ty then Some v else tlv_get t ty')"
    using assms by (simp only: tlv_set_def tlv_get_def om.get_insert inj)
  moreover have "tlv_retry_delay (tlv_set t Tlv_RetryDelay [lo, hi]) = Some (retry_delay_bytes [lo, hi])"
    unfolding tlv_retry_delay_def tlv_get_def tlv_set_def using assms
    by (simp only: om.get_insert if_True simp_thms option.map)
  ultimately show ?thesis using assms retry_delay_little_endian [of lo hi]
    by (simp add: tlv_set_def om.insert_ok del: retry_delay_bytes.simps)
qed

theorem tlv_typed_access_witness:
  "(tlv_from_byte 6 = Some Tlv_State \<longleftrightarrow> tlv_byte Tlv_State = 6)
    \<and> om_ok (tlv_set pair_setup_m1 Tlv_State [2])
    \<and> tlv_get (tlv_set pair_setup_m1 Tlv_State [2]) Tlv_Method =
        (if Tlv_Method = Tlv_State then Some [2] else tlv_get pair_setup_m1 Tlv_Method)
    \<and> map_option unat (tlv_retry_delay (tlv_set pair_setup_m1 Tlv_RetryDelay [1, 2])) =
        Some (unat (1 :: u8) + 256 * unat (2 :: u8))"
  by (rule tlv_typed_access)
    (simp add: pair_setup_m1_def tlv_set_def tlv_new_def om_ok_def om_keys_def)

end
