(* ===== verification/Bounded_Log.thy ===== *)
theory Bounded_Log
  imports Prelude
begin

text \<open>
  Bounded logs that keep the newest entries: the eviction loop shared by the diagnostics ring
  (\<open>diagnostics/ring.rs\<close>) and the command outcomes (\<open>backend/model.rs\<close>), and the interface through
  which both are shown to hold exactly the last entries of everything that was pushed.
\<close>

text \<open>\<open>while entries.len() > cap { entries.pop_front() }\<close>, with the entries popped, oldest first.\<close>

function evict_oldest :: "nat \<Rightarrow> 'a list \<Rightarrow> 'a list \<times> 'a list" where
  "evict_oldest cap entries =
     (if cap < length entries
      then (let (kept, popped) = evict_oldest cap (tl entries) in (kept, hd entries # popped))
      else (entries, []))"
  by pat_completeness auto
termination
  by (relation "measure (\<lambda>(cap, entries). length entries)") auto

declare evict_oldest.simps [simp del]

definition newest :: "nat \<Rightarrow> 'a list \<Rightarrow> 'a list" where
  "newest cap xs = drop (length xs - cap) xs"

lemma evict_oldest_newest:
  "evict_oldest cap xs = (newest cap xs, take (length xs - cap) xs)"
proof (induction cap xs rule: evict_oldest.induct)
  case (1 cap xs)
  show ?case
  proof (cases "cap < length xs")
    case True
    then obtain x ys where "xs = x # ys" by (cases xs) auto
    then show ?thesis
      using 1 [OF True] True
      by (simp add: evict_oldest.simps [of cap "x # ys"] newest_def Suc_diff_le less_Suc_eq_le)
  next
    case False
    then show ?thesis by (simp add: evict_oldest.simps [of cap xs] newest_def)
  qed
qed

lemma length_popped: "length (snd (evict_oldest cap xs)) = length xs - cap"
  by (simp add: evict_oldest_newest)

lemma length_newest: "length (newest cap xs) = min (length xs) cap"
  by (simp add: newest_def)

lemma newest_newest_append: "newest cap (newest cap xs @ ys) = newest cap (xs @ ys)"
  by (cases "length xs \<le> cap") (simp_all add: newest_def add.commute)

text \<open>The entries that a sequence of pushes appends.\<close>

primrec log_tags :: "('s \<Rightarrow> 'd \<Rightarrow> 's) \<Rightarrow> ('s \<Rightarrow> 'd \<Rightarrow> 'x) \<Rightarrow> 's \<Rightarrow> 'd list \<Rightarrow> 'x list" where
  "log_tags push tag s [] = []"
| "log_tags push tag s (d # ds) = tag s d # log_tags push tag (push s d) ds"

lemma length_log_tags [simp]: "length (log_tags push tag s ds) = length ds"
  by (induction ds arbitrary: s) simp_all

locale bounded_log =
  fixes cap :: nat and contents :: "'s \<Rightarrow> 'x list" and push :: "'s \<Rightarrow> 'd \<Rightarrow> 's"
    and tag :: "'s \<Rightarrow> 'd \<Rightarrow> 'x"
  assumes push_contents: "contents (push s d) = newest cap (contents s @ [tag s d])"
begin

lemma run_contents:
  "length (contents s) \<le> cap \<Longrightarrow>
   contents (foldl push s ds) = newest cap (contents s @ log_tags push tag s ds)"
proof (induction ds arbitrary: s)
  case Nil
  then show ?case by (simp add: newest_def)
next
  case (Cons d ds)
  have "length (contents (push s d)) \<le> cap" by (simp add: push_contents length_newest)
  from Cons.IH [OF this] show ?case by (simp add: push_contents newest_newest_append)
qed

lemma run_bounded: "length (contents s) \<le> cap \<Longrightarrow> length (contents (foldl push s ds)) \<le> cap"
  by (simp add: run_contents length_newest)

end

end
