(* ===== verification/Diag_Ring.thy ===== *)
theory Diag_Ring
  imports Bounded_Log
begin

text \<open>
  The diagnostics event ring (\<open>diagnostics/ring.rs\<close>): producers append drafts that receive
  monotonic cursors, the oldest entries are overwritten once the ring is full, and readers page
  through what is retained. A draft's fields are copied into the event unchanged, so the draft is
  one opaque value here. The mutex makes each operation atomic.
\<close>

definition EVENT_RING_CAPACITY :: nat where
  "EVENT_RING_CAPACITY = 4096"

definition MAX_EVENT_READ_LIMIT :: nat where
  "MAX_EVENT_READ_LIMIT = 512"

record 'd diagnostic_event =
  de_cursor :: u64
  de_draft :: 'd

record 'd ring_inner =
  ri_entries :: "'d diagnostic_event list"
  ri_next_cursor :: u64
  ri_overwritten_total :: u64

record event_gap =
  eg_requested_cursor :: u64
  eg_resumed_at_cursor :: u64
  eg_overwritten_events :: u64

record 'd event_batch =
  eb_events :: "'d diagnostic_event list"
  eb_next_cursor :: u64
  eb_oldest_available_cursor :: u64
  eb_gap :: "event_gap option"

definition ring_new :: "'d ring_inner" where
  "ring_new = \<lparr>ri_entries = [], ri_next_cursor = 1, ri_overwritten_total = 0\<rparr>"

definition ring_push :: "'d ring_inner \<Rightarrow> 'd \<Rightarrow> 'd ring_inner \<times> u64" where
  "ring_push r draft =
     (let cursor = ri_next_cursor r;
          event = \<lparr>de_cursor = cursor, de_draft = draft\<rparr>;
          (kept, popped) = evict_oldest EVENT_RING_CAPACITY (ri_entries r @ [event])
      in (\<lparr>ri_entries = kept, ri_next_cursor = cursor + 1,
           ri_overwritten_total = ri_overwritten_total r + of_nat (length popped)\<rparr>, cursor))"

definition oldest_available :: "'d ring_inner \<Rightarrow> u64" where
  "oldest_available r =
     (case ri_entries r of front # _ \<Rightarrow> de_cursor front | [] \<Rightarrow> ri_next_cursor r)"

text \<open>The collecting loop: skip what was read, stop at the limit.\<close>

fun read_loop ::
    "u64 \<Rightarrow> nat \<Rightarrow> 'd diagnostic_event list \<Rightarrow> 'd diagnostic_event list \<Rightarrow> u64
     \<Rightarrow> 'd diagnostic_event list \<times> u64" where
  "read_loop cursor limit [] events next_cursor = (events, next_cursor)"
| "read_loop cursor limit (event # rest) events next_cursor =
     (if de_cursor event \<le> cursor then read_loop cursor limit rest events next_cursor
      else if length events = limit then (events, next_cursor)
      else read_loop cursor limit rest (events @ [event]) (de_cursor event))"

definition clamp_limit :: "nat \<Rightarrow> nat" where
  "clamp_limit limit = max 1 (min limit MAX_EVENT_READ_LIMIT)"

definition events_since :: "'d ring_inner \<Rightarrow> u64 \<Rightarrow> nat \<Rightarrow> 'd event_batch" where
  "events_since r cursor limit =
     (let newest_assigned = ri_next_cursor r - 1;
          oldest = oldest_available r;
          gap = (if cursor < oldest \<and> ri_overwritten_total r > 0
                 then Some \<lparr>eg_requested_cursor = cursor, eg_resumed_at_cursor = oldest,
                            eg_overwritten_events = saturating_sub oldest cursor\<rparr>
                 else None);
          (events, next_cursor) =
            read_loop cursor (clamp_limit limit) (ri_entries r) [] (min newest_assigned cursor)
      in \<lparr>eb_events = events, eb_next_cursor = next_cursor,
          eb_oldest_available_cursor = oldest, eb_gap = gap\<rparr>)"

definition export_batch :: "'d ring_inner \<Rightarrow> 'd diagnostic_event list \<times> event_gap option" where
  "export_batch r =
     (ri_entries r,
      if ri_overwritten_total r > 0
      then Some \<lparr>eg_requested_cursor = 0, eg_resumed_at_cursor = oldest_available r,
                 eg_overwritten_events = ri_overwritten_total r\<rparr>
      else None)"

section \<open>The ring as a numbered log\<close>

definition ring_run :: "'d list \<Rightarrow> 'd ring_inner" where
  "ring_run drafts = foldl (\<lambda>r d. fst (ring_push r d)) ring_new drafts"

text \<open>Every draft with its number, the whole history since the process started.\<close>

definition numbered :: "'d list \<Rightarrow> 'd diagnostic_event list" where
  "numbered drafts =
     map (\<lambda>i. \<lparr>de_cursor = of_nat (i + 1), de_draft = drafts ! i\<rparr>) [0..<length drafts]"

interpretation ring_log: bounded_log EVENT_RING_CAPACITY ri_entries
  "\<lambda>r d. fst (ring_push r d)" "\<lambda>r d. \<lparr>de_cursor = ri_next_cursor r, de_draft = d\<rparr>"
  by unfold_locales (simp add: ring_push_def evict_oldest_newest Let_def)

lemma length_numbered [simp]: "length (numbered ds) = length ds"
  by (simp add: numbered_def)

lemma numbered_snoc:
  "numbered (ds @ [d]) = numbered ds @ [\<lparr>de_cursor = of_nat (length ds + 1), de_draft = d\<rparr>]"
  by (auto simp: numbered_def nth_append)

lemma ring_run_snoc: "ring_run (ds @ [d]) = fst (ring_push (ring_run ds) d)"
  by (simp add: ring_run_def)

lemma ring_run_cursor: "ri_next_cursor (ring_run ds) = of_nat (length ds + 1)"
  by (induction ds rule: rev_induct)
    (simp_all add: ring_run_snoc ring_push_def Let_def split: prod.split,
     simp add: ring_run_def ring_new_def)

lemma log_tags_snoc:
  "log_tags push tag s (ds @ [d]) = log_tags push tag s ds @ [tag (foldl push s ds) d]"
  by (induction ds arbitrary: s) simp_all

lemma ring_tags:
  "log_tags (\<lambda>r d. fst (ring_push r d)) (\<lambda>r d. \<lparr>de_cursor = ri_next_cursor r, de_draft = d\<rparr>)
     ring_new ds = numbered ds"
proof (induction ds rule: rev_induct)
  case Nil
  then show ?case by (simp add: numbered_def)
next
  case (snoc d ds)
  then show ?case
    using ring_run_cursor [of ds] by (simp add: log_tags_snoc numbered_snoc ring_run_def)
qed

lemma ring_run_entries: "ri_entries (ring_run ds) = newest EVENT_RING_CAPACITY (numbered ds)"
  using ring_log.run_contents [of ring_new ds] ring_tags [of ds]
  by (simp add: ring_run_def ring_new_def)

lemma ring_push_overwritten:
  "ri_overwritten_total (fst (ring_push r d)) =
     ri_overwritten_total r + of_nat (Suc (length (ri_entries r)) - EVENT_RING_CAPACITY)"
  using length_popped [of EVENT_RING_CAPACITY "ri_entries r @ [\<lparr>de_cursor = ri_next_cursor r, de_draft = d\<rparr>]"]
  by (auto simp: ring_push_def Let_def split: prod.split)

lemma ring_run_overwritten:
  "ri_overwritten_total (ring_run ds) = of_nat (length ds - EVENT_RING_CAPACITY)"
proof (induction ds rule: rev_induct)
  case Nil
  then show ?case by (simp add: ring_run_def ring_new_def)
next
  case (snoc d ds)
  have len: "length (ri_entries (ring_run ds)) = min (length ds) EVENT_RING_CAPACITY"
    by (simp add: ring_run_entries length_newest)
  have "length ds - EVENT_RING_CAPACITY
      + (Suc (min (length ds) EVENT_RING_CAPACITY) - EVENT_RING_CAPACITY)
      = Suc (length ds) - EVENT_RING_CAPACITY" by (simp add: min_def Suc_diff_le)
  from arg_cong [OF this, of "of_nat :: nat \<Rightarrow> u64"] show ?case
    using snoc len by (simp add: ring_run_snoc ring_push_overwritten)
qed

section \<open>Reading\<close>

lemma read_loop_eq:
  "length events \<le> limit \<Longrightarrow>
   read_loop c limit es events nx =
     (events @ take (limit - length events) (filter (\<lambda>e. c < de_cursor e) es),
      case take (limit - length events) (filter (\<lambda>e. c < de_cursor e) es) of
        [] \<Rightarrow> nx | x # xs \<Rightarrow> de_cursor (last (x # xs)))"
proof (induction c limit es events nx rule: read_loop.induct)
  case (2 c limit e rest events nx)
  consider "de_cursor e \<le> c" | "c < de_cursor e" "length events = limit"
    | "c < de_cursor e" "length events < limit"
    using 2(3) by fastforce
  then show ?case
  proof cases
    case 3
    then obtain k where k: "limit - length events = Suc k" by (cases "limit - length events") auto
    then have "limit - length (events @ [e]) = k" by simp
    then show ?thesis
      using 2(2) 3 k
      by (cases "take k (filter (\<lambda>e. c < de_cursor e) rest)") (auto simp: not_le)
  qed (use 2 in \<open>auto simp: not_le\<close>)
qed simp

lemma of_nat_less_u64:
  "i < 2 ^ 64 \<Longrightarrow> (c :: u64) < of_nat i \<longleftrightarrow> unat c < i"
  by (simp add: word_less_nat_alt unat_of_nat)

lemma filter_numbered:
  assumes "length ds < 2 ^ 64 - 1"
  shows "filter (\<lambda>e. c < de_cursor e) (numbered ds) = drop (unat c) (numbered ds)"
  using assms
proof (induction ds rule: rev_induct)
  case Nil
  then show ?case by (simp add: numbered_def)
next
  case (snoc d ds)
  have "c < of_nat (length ds + 1) \<longleftrightarrow> unat c < length ds + 1"
    using snoc.prems by (intro of_nat_less_u64) simp
  then show ?case using snoc by (auto simp: numbered_snoc not_less)
qed

lemma filter_drop_suffix:
  assumes "filter P xs = drop k xs" "filter P (take m xs) = drop k (take m xs)" "m \<le> length xs"
  shows "filter P (drop m xs) = drop (max m k) xs"
proof -
  have "filter P (take m xs @ drop m xs) = drop k (take m xs @ drop m xs)"
    by (simp only: append_take_drop_id assms(1))
  then have "filter P (drop m xs) = drop (k - m) (drop m xs)"
    using assms(3) by (simp only: filter_append drop_append assms(2) length_take min_absorb2 same_append_eq)
  moreover have "k - m + m = max m k" by simp
  ultimately show ?thesis by (simp only: drop_drop)
qed

lemma filter_retained:
  assumes "length ds < 2 ^ 64 - 1"
  shows "filter (\<lambda>e. c < de_cursor e) (ri_entries (ring_run ds)) =
    drop (max (length ds - EVENT_RING_CAPACITY) (unat c)) (numbered ds)"
proof -
  let ?m = "length ds - EVENT_RING_CAPACITY"
  have "take ?m (numbered ds) = numbered (take ?m ds)"
    by (rule nth_equalityI) (auto simp: numbered_def)
  moreover have "filter (\<lambda>e. c < de_cursor e) (numbered (take ?m ds)) = drop (unat c) (numbered (take ?m ds))"
    using assms by (intro filter_numbered) simp
  ultimately show ?thesis
    using filter_drop_suffix [OF filter_numbered [OF assms, of c], where m = ?m]
    by (simp add: ring_run_entries newest_def)
qed

lemma events_since_events:
  assumes "length ds < 2 ^ 64 - 1"
  shows "eb_events (events_since (ring_run ds) c limit) =
    take (clamp_limit limit)
      (drop (max (length ds - EVENT_RING_CAPACITY) (unat c)) (numbered ds))"
  using filter_retained [OF assms, of c]
  by (simp add: events_since_def read_loop_eq Let_def)

lemma numbered_cursor: "i < length ds \<Longrightarrow> de_cursor (numbered ds ! i) = of_nat (i + 1)"
  by (simp add: numbered_def)

lemma last_take_drop:
  assumes "take n (drop p xs) = x # ys"
  shows "last (x # ys) = xs ! (p + length (x # ys) - 1) \<and> p + length (x # ys) \<le> length xs"
proof -
  have len: "length (x # ys) = min n (length xs - p)" using assms by (metis length_drop length_take min.commute)
  then have "p + length (x # ys) \<le> length xs" by (cases "p < length xs") auto
  moreover have "last (x # ys) = (take n (drop p xs)) ! length ys"
    using assms by (simp add: last_conv_nth)
  moreover have "(take n (drop p xs)) ! length ys = xs ! (p + length ys)"
    using len by (subst nth_take, simp, subst nth_drop, simp_all)
  ultimately show ?thesis by simp
qed

lemma events_since_next:
  assumes "length ds < 2 ^ 64 - 1" and "eb_events (events_since (ring_run ds) c limit) \<noteq> []"
  shows "unat (eb_next_cursor (events_since (ring_run ds) c limit)) =
    max (length ds - EVENT_RING_CAPACITY) (unat c) + length (eb_events (events_since (ring_run ds) c limit))"
proof -
  let ?p = "max (length ds - EVENT_RING_CAPACITY) (unat c)"
  obtain x ys where xs: "take (clamp_limit limit) (drop ?p (numbered ds)) = x # ys"
    using assms(2) unfolding events_since_events [OF assms(1)]
    by (cases "take (clamp_limit limit) (drop ?p (numbered ds))") auto
  have "eb_next_cursor (events_since (ring_run ds) c limit) = de_cursor (last (x # ys))"
    using filter_retained [OF assms(1), of c] xs by (simp add: events_since_def read_loop_eq Let_def)
  also have "\<dots> = of_nat (?p + length (x # ys))"
    using last_take_drop [OF xs] numbered_cursor [of "?p + length (x # ys) - 1" ds] by simp
  finally have "eb_next_cursor (events_since (ring_run ds) c limit) = of_nat (?p + length (x # ys))" .
  moreover have "?p + length (x # ys) < 2 ^ 64"
    using last_take_drop [OF xs] assms(1) by simp
  ultimately show ?thesis
    unfolding events_since_events [OF assms(1)] xs by (simp only: unat_of_nat) simp
qed

section \<open>What the ring promises\<close>

lemma ring_holds_newest_aux:
  "length ds < 2 ^ 64 - 1 \<Longrightarrow> unat (ri_overwritten_total (ring_run ds)) = length ds - 4096"
  by (simp add: ring_run_overwritten EVENT_RING_CAPACITY_def unat_of_nat)

text \<open>
  After any number of events (fewer than the 64-bit cursor can count) the ring holds exactly
  the newest 4096 of them, numbered consecutively from one in the order they were pushed, and
  counts the others as overwritten; the export reports exactly that number.
\<close>

theorem ring_holds_newest:
  assumes "length drafts < 2 ^ 64 - 1"
  shows "ri_entries (ring_run drafts) = newest 4096 (numbered drafts)
    \<and> unat (ri_overwritten_total (ring_run drafts)) = length drafts - 4096
    \<and> (case snd (export_batch (ring_run drafts)) of
         Some gap \<Rightarrow> 4096 < length drafts
           \<and> unat (eg_overwritten_events gap) = length drafts - 4096
       | None \<Rightarrow> length drafts \<le> 4096)"
proof -
  note un = ring_holds_newest_aux [OF assms]
  then show ?thesis
    by (auto simp: ring_run_entries EVENT_RING_CAPACITY_def export_batch_def word_less_nat_alt)
qed

theorem ring_holds_newest_witness:
  "ri_entries (ring_run [True, False]) = newest 4096 (numbered [True, False])
    \<and> unat (ri_overwritten_total (ring_run [True, False])) = length [True, False] - 4096
    \<and> (case snd (export_batch (ring_run [True, False])) of
         Some gap \<Rightarrow> 4096 < length [True, False]
           \<and> unat (eg_overwritten_events gap) = length [True, False] - 4096
       | None \<Rightarrow> length [True, False] \<le> 4096)"
  by (rule ring_holds_newest) simp

text \<open>
  Paging is lossless: a read returns, in order and up to the limit, the retained events after
  the reader's cursor, and reading again from the returned cursor continues exactly behind the
  last event returned, without a repetition or an omission.
\<close>

theorem ring_paging:
  fixes drafts :: "'d list" and cursor :: u64 and limit limit' :: nat
  assumes "length drafts < 2 ^ 64 - 1"
  defines "page \<equiv> events_since (ring_run drafts) cursor limit"
    and "start \<equiv> max (length drafts - EVENT_RING_CAPACITY) (unat cursor)"
  shows "eb_events page = take (clamp_limit limit) (drop start (numbered drafts))
    \<and> (eb_events page \<noteq> [] \<longrightarrow>
         eb_events (events_since (ring_run drafts) (eb_next_cursor page) limit') =
           take (clamp_limit limit') (drop (start + length (eb_events page)) (numbered drafts)))"
proof -
  have "eb_events page = take (clamp_limit limit) (drop start (numbered drafts))"
    unfolding page_def start_def by (rule events_since_events [OF assms(1)])
  moreover have "max (length drafts - EVENT_RING_CAPACITY) (unat (eb_next_cursor page))
      = start + length (eb_events page)" if "eb_events page \<noteq> []"
    using events_since_next [OF assms(1), of cursor limit] that
    unfolding page_def start_def by simp
  ultimately show ?thesis using events_since_events [OF assms(1)] by simp
qed

theorem ring_paging_witness:
  "eb_events (events_since (ring_run [7 :: nat, 8, 9]) 0 2) = take 2 (numbered [7 :: nat, 8, 9])
    \<and> eb_events (events_since (ring_run [7 :: nat, 8, 9])
             (eb_next_cursor (events_since (ring_run [7 :: nat, 8, 9]) 0 2)) 5)
      = drop 2 (numbered [7 :: nat, 8, 9])"
  using ring_paging [of "[7 :: nat, 8, 9]" 0 2 5]
  by (simp add: clamp_limit_def EVENT_RING_CAPACITY_def MAX_EVENT_READ_LIMIT_def numbered_def)

text \<open>
  The gap a paged read reports is one more than what was lost: a reader whose last event is
  the one just before the oldest retained event has missed nothing, and is still told that one
  event was overwritten.
\<close>

theorem ring_gap_overcounts:
  assumes "4096 < length drafts" and "length drafts < 2 ^ 64 - 1"
    and "unat cursor = length drafts - 4096"
  shows "eb_events (events_since (ring_run drafts) cursor 512)
      = take 512 (drop (unat cursor) (numbered drafts))
    \<and> map_option eg_overwritten_events (eb_gap (events_since (ring_run drafts) cursor 512)) = Some 1"
proof -
  have ne: "ri_entries (ring_run drafts) = numbered drafts ! (length drafts - 4096)
      # drop (Suc (length drafts - 4096)) (numbered drafts)"
    unfolding ring_run_entries newest_def EVENT_RING_CAPACITY_def
    using assms(1) by (simp add: Cons_nth_drop_Suc)
  have "oldest_available (ring_run drafts) = of_nat (length drafts - 4096 + 1)"
    unfolding oldest_available_def ne using assms(1) by (simp add: numbered_cursor)
  moreover have "cursor = of_nat (length drafts - 4096)"
    using arg_cong [OF assms(3), of "of_nat :: nat \<Rightarrow> u64"] by (simp del: of_nat_diff)
  ultimately have old: "oldest_available (ring_run drafts) = cursor + 1" by simp
  have lt: "cursor < cursor + 1"
    using assms by (simp add: word_less_nat_alt unat_word_ariths)
  have "ri_overwritten_total (ring_run drafts) > 0"
    using ring_holds_newest_aux [OF assms(2)] assms(1) by (simp add: word_less_nat_alt)
  moreover have "\<not> cursor + 1 < cursor" using lt by (meson order.asym)
  ultimately show ?thesis
    using events_since_events [OF assms(2), of cursor 512] assms(3) old lt
    by (simp add: events_since_def EVENT_RING_CAPACITY_def clamp_limit_def MAX_EVENT_READ_LIMIT_def
        saturating_sub_def Let_def split: prod.split)
qed

theorem ring_gap_overcounts_witness:
  "eb_events (events_since (ring_run (replicate 4097 ())) 1 512)
      = take 512 (drop (unat (1 :: u64)) (numbered (replicate 4097 ())))
    \<and> map_option eg_overwritten_events (eb_gap (events_since (ring_run (replicate 4097 ())) 1 512)) = Some 1"
  by (rule ring_gap_overcounts) simp_all

end
