(* ===== verification/Stream_Config.thy ===== *)
theory Stream_Config
  imports Prelude
begin

text \<open>
  Audio formats and stream settings (\<open>crates/airplay-core/src/codec.rs\<close>, \<open>stream.rs\<close>).
\<close>

datatype audio_codec = Pcm | Alac | Aac | AacEld | Opus

fun compression_type :: "audio_codec \<Rightarrow> u8" where
  "compression_type Pcm = 1"
| "compression_type Alac = 2"
| "compression_type Aac = 3"
| "compression_type AacEld = 4"
| "compression_type Opus = 32"

fun audio_format_value :: "audio_codec \<Rightarrow> u32" where
  "audio_format_value Pcm = 0"
| "audio_format_value Alac = 0x40000"
| "audio_format_value Aac = 0x400000"
| "audio_format_value AacEld = 0x1000000"
| "audio_format_value Opus = 0x2000000"

definition from_compression_type :: "u8 \<Rightarrow> audio_codec option" where
  "from_compression_type ct =
     (if ct = 1 then Some Pcm else if ct = 2 then Some Alac else if ct = 3 then Some Aac
      else if ct = 4 then Some AacEld else if ct = 32 then Some Opus else None)"

datatype sample_rate = Hz44100 | Hz48000

fun as_hz :: "sample_rate \<Rightarrow> u32" where
  "as_hz Hz44100 = 44100"
| "as_hz Hz48000 = 48000"

record audio_format =
  fm_codec :: audio_codec
  fm_sample_rate :: sample_rate
  fm_bit_depth :: u8
  fm_channels :: u8
  fm_frames_per_packet :: u32

definition format_default :: audio_format where
  "format_default = \<lparr>fm_codec = Alac, fm_sample_rate = Hz44100, fm_bit_depth = 16, fm_channels = 2,
     fm_frames_per_packet = 352\<rparr>"

definition buffered_default :: audio_format where
  "buffered_default = \<lparr>fm_codec = Aac, fm_sample_rate = Hz44100, fm_bit_depth = 16, fm_channels = 2,
     fm_frames_per_packet = 1024\<rparr>"

definition bytes_per_frame :: "audio_format \<Rightarrow> nat" where
  "bytes_per_frame f = unat (fm_bit_depth f) * unat (fm_channels f) div 8"

definition buffer_size_for_duration_ms :: "audio_format \<Rightarrow> u32 \<Rightarrow> nat" where
  "buffer_size_for_duration_ms f ms = unat (as_hz (fm_sample_rate f)) * unat ms div 1000 * bytes_per_frame f"

datatype stream_type = Realtime | Buffered | Mirror

fun stream_type_code :: "stream_type \<Rightarrow> u32" where
  "stream_type_code Realtime = 96"
| "stream_type_code Buffered = 103"
| "stream_type_code Mirror = 110"

datatype timing_protocol = Timing_Ntp | Timing_Ptp

datatype ptp_mode = Ptp_Master | Ptp_Slave

text \<open>The newtype \<open>SenderBufferCapacity\<close>: its only constructors are the default and \<open>from_millis\<close>.\<close>

type_synonym sender_buffer_capacity = u32

definition MIN_MILLIS :: u32 where "MIN_MILLIS = 100"
definition MAX_MILLIS :: u32 where "MAX_MILLIS = 10000"

definition capacity_default :: sender_buffer_capacity where "capacity_default = 2000"

definition capacity_from_millis :: "u32 \<Rightarrow> sender_buffer_capacity option" where
  "capacity_from_millis ms = (if MIN_MILLIS \<le> ms \<and> ms \<le> MAX_MILLIS then Some ms else None)"

record stream_config =
  sc_stream_type :: stream_type
  sc_audio_format :: audio_format
  sc_timing_protocol :: timing_protocol
  sc_ptp_mode :: ptp_mode
  sc_latency_min :: u32
  sc_latency_max :: u32
  sc_supports_dynamic_stream_id :: bool
  sc_sender_buffer :: sender_buffer_capacity
  sc_asc :: "u8 list option"

definition stream_config_default :: stream_config where
  "stream_config_default = \<lparr>sc_stream_type = Realtime, sc_audio_format = format_default,
     sc_timing_protocol = Timing_Ntp, sc_ptp_mode = Ptp_Master, sc_latency_min = 11025, sc_latency_max = 88200,
     sc_supports_dynamic_stream_id = True, sc_sender_buffer = capacity_default, sc_asc = None\<rparr>"

definition airplay2_buffered :: stream_config where
  "airplay2_buffered = \<lparr>sc_stream_type = Buffered, sc_audio_format = buffered_default,
     sc_timing_protocol = Timing_Ptp, sc_ptp_mode = Ptp_Master, sc_latency_min = 22050, sc_latency_max = 132300,
     sc_supports_dynamic_stream_id = True, sc_sender_buffer = capacity_default, sc_asc = None\<rparr>"

definition airplay2_buffered_ntp :: stream_config where
  "airplay2_buffered_ntp = airplay2_buffered\<lparr>sc_timing_protocol := Timing_Ntp\<rparr>"

definition latency_min_ms :: "stream_config \<Rightarrow> u32" where
  "latency_min_ms c = of_nat (unat (sc_latency_min c) * 1000 div unat (as_hz (fm_sample_rate (sc_audio_format c))))"

definition latency_max_ms :: "stream_config \<Rightarrow> u32" where
  "latency_max_ms c = of_nat (unat (sc_latency_max c) * 1000 div unat (as_hz (fm_sample_rate (sc_audio_format c))))"

lemma compression_type_inverse: "from_compression_type (compression_type c) = Some c"
  by (cases c) (simp_all add: from_compression_type_def)

end
