(* ===== verification/Audio_Buffer.thy ===== *)
theory Audio_Buffer
  imports Stream_Config
begin

text \<open>
  The sender's ring buffer of PCM frames (\<open>airplay-audio/src/buffer.rs\<close>) with the counters it
  shares with diagnostics (\<open>diagnostics.rs\<close>), and the interface of a bounded first-in-first-out
  queue that it implements. Counters wrap at their width, as atomic additions do; a division by
  zero channels is the panic \<open>None\<close>.
\<close>

section \<open>Bounded queues\<close>

datatype 'a queue_op = Q_Push 'a | Q_Pop

text \<open>Running operations: the state, the values accepted and the values handed out, in order.\<close>

primrec queue_run ::
    "('s \<Rightarrow> 'a \<Rightarrow> 's \<times> bool) \<Rightarrow> ('s \<Rightarrow> 's \<times> 'a option) \<Rightarrow> 's \<Rightarrow> 'a queue_op list
     \<Rightarrow> 's \<times> 'a list \<times> 'a list" where
  "queue_run push pop s [] = (s, [], [])"
| "queue_run push pop s (op # ops) =
     (case op of
        Q_Push x \<Rightarrow>
          (let (s1, ok) = push s x; (s2, ins, outs) = queue_run push pop s1 ops
           in (s2, (if ok then x # ins else ins), outs))
      | Q_Pop \<Rightarrow>
          (let (s1, r) = pop s; (s2, ins, outs) = queue_run push pop s1 ops
           in (s2, ins, (case r of Some x \<Rightarrow> x # outs | None \<Rightarrow> outs))))"

locale bounded_fifo =
  fixes contents :: "'s \<Rightarrow> 'a list" and cap :: "'s \<Rightarrow> nat" and I :: "'s \<Rightarrow> bool"
    and push :: "'s \<Rightarrow> 'a \<Rightarrow> 's \<times> bool" and pop :: "'s \<Rightarrow> 's \<times> 'a option"
  assumes within_cap: "I s \<Longrightarrow> length (contents s) \<le> cap s"
    and push_inv: "I s \<Longrightarrow> I (fst (push s x))" and pop_inv: "I s \<Longrightarrow> I (fst (pop s))"
    and push_cap: "I s \<Longrightarrow> cap (fst (push s x)) = cap s"
    and pop_cap: "I s \<Longrightarrow> cap (fst (pop s)) = cap s"
    and push_result: "I s \<Longrightarrow> snd (push s x) \<longleftrightarrow> length (contents s) < cap s"
    and push_contents: "I s \<Longrightarrow>
      contents (fst (push s x)) = (if length (contents s) < cap s then contents s @ [x] else contents s)"
    and pop_result: "I s \<Longrightarrow> snd (pop s) = (case contents s of [] \<Rightarrow> None | x # _ \<Rightarrow> Some x)"
    and pop_contents: "I s \<Longrightarrow> contents (fst (pop s)) = tl (contents s)"
begin

lemma run_fifo:
  "I s \<Longrightarrow> queue_run push pop s ops = (s', ins, outs) \<Longrightarrow>
   I s' \<and> cap s' = cap s \<and> contents s @ ins = outs @ contents s'"
proof (induction ops arbitrary: s ins outs)
  case (Cons op ops)
  show ?case
  proof (cases op)
    case (Q_Push x)
    obtain ins' where run: "queue_run push pop (fst (push s x)) ops = (s', ins', outs)"
      and ins: "ins = (if snd (push s x) then x # ins' else ins')"
      using Cons.prems(2) Q_Push by (auto split: prod.splits)
    from Cons.IH [OF push_inv [OF Cons.prems(1)] run] show ?thesis
      using ins Cons.prems(1)
      by (auto simp: push_contents push_result push_cap split: if_splits)
  next
    case Q_Pop
    obtain outs' where run: "queue_run push pop (fst (pop s)) ops = (s', ins, outs')"
      and outs: "outs = (case snd (pop s) of Some x \<Rightarrow> x # outs' | None \<Rightarrow> outs')"
      using Cons.prems(2) Q_Pop by (auto split: prod.splits)
    from Cons.IH [OF pop_inv [OF Cons.prems(1)] run] show ?thesis
      using outs Cons.prems(1)
      by (cases "contents s") (auto simp: pop_contents pop_result pop_cap)
  qed
qed simp

end

section \<open>The buffer\<close>

record audio_frame =
  af_samples :: "16 word list"
  af_timestamp :: u64

definition frame_count :: "audio_frame \<Rightarrow> u8 \<Rightarrow> nat" where
  "frame_count frame channels =
     (if channels = 0 then 0 else length (af_samples frame) div unat channels)"

record sender_buffer_counters =
  sc_queued_frames :: u32
  sc_queued_samples_per_channel :: u64
  sc_samples_written_total :: u64
  sc_samples_read_total :: u64
  sc_underrun_events_total :: u64

definition counters_default :: sender_buffer_counters where
  "counters_default = \<lparr>sc_queued_frames = 0, sc_queued_samples_per_channel = 0,
     sc_samples_written_total = 0, sc_samples_read_total = 0, sc_underrun_events_total = 0\<rparr>"

record audio_buffer =
  ab_frames :: "audio_frame list"
  ab_format :: audio_format
  ab_capacity_frames :: nat
  ab_stats :: sender_buffer_counters

datatype buffer_error = Overflow | Underrun

definition buffer_new :: "audio_format \<Rightarrow> u32 \<Rightarrow> audio_buffer" where
  "buffer_new format capacity_ms =
     (let samples_per_ms = as_hz (fm_sample_rate format) div 1000;
          capacity_samples = samples_per_ms * capacity_ms;
          capacity_frames = (if fm_frames_per_packet format > 0
                             then unat (capacity_samples div fm_frames_per_packet format) else 1)
      in \<lparr>ab_frames = [], ab_format = format, ab_capacity_frames = max capacity_frames 1,
          ab_stats = counters_default\<rparr>)"

text \<open>\<open>frame.samples.len() as u64 / channels as u64\<close>.\<close>

definition sample_count :: "audio_format \<Rightarrow> audio_frame \<Rightarrow> u64 option" where
  "sample_count format frame =
     (if fm_channels format = 0 then None
      else Some (of_nat (length (af_samples frame)) div ucast (fm_channels format)))"

definition buffer_push :: "audio_buffer \<Rightarrow> audio_frame \<Rightarrow> (audio_buffer \<times> (buffer_error + unit)) option" where
  "buffer_push b frame =
     (if length (ab_frames b) \<ge> ab_capacity_frames b then Some (b, Inl Overflow)
      else case sample_count (ab_format b) frame of
             None \<Rightarrow> None
           | Some n \<Rightarrow>
               let frames = ab_frames b @ [frame]; s = ab_stats b
               in Some (b\<lparr>ab_frames := frames,
                          ab_stats := s\<lparr>
                            sc_samples_written_total := sc_samples_written_total s + n,
                            sc_queued_samples_per_channel := sc_queued_samples_per_channel s + n,
                            sc_queued_frames := of_nat (length frames)\<rparr>\<rparr>, Inr ()))"

definition buffer_pop :: "audio_buffer \<Rightarrow> (audio_buffer \<times> audio_frame option) option" where
  "buffer_pop b =
     (case ab_frames b of
        [] \<Rightarrow> Some (b\<lparr>ab_stats := (ab_stats b)\<lparr>
                 sc_underrun_events_total := sc_underrun_events_total (ab_stats b) + 1\<rparr>\<rparr>, None)
      | frame # frames \<Rightarrow>
          (case sample_count (ab_format b) frame of
             None \<Rightarrow> None
           | Some n \<Rightarrow>
               let s = ab_stats b
               in Some (b\<lparr>ab_frames := frames,
                          ab_stats := s\<lparr>
                            sc_samples_read_total := sc_samples_read_total s + n,
                            sc_queued_samples_per_channel := sc_queued_samples_per_channel s - n,
                            sc_queued_frames := of_nat (length frames)\<rparr>\<rparr>, Some frame)))"

definition buffer_peek :: "audio_buffer \<Rightarrow> audio_frame option" where
  "buffer_peek b = (case ab_frames b of [] \<Rightarrow> None | frame # _ \<Rightarrow> Some frame)"

definition buffer_is_full :: "audio_buffer \<Rightarrow> bool" where
  "buffer_is_full b \<longleftrightarrow> length (ab_frames b) \<ge> ab_capacity_frames b"

definition buffered_ms :: "audio_buffer \<Rightarrow> u32" where
  "buffered_ms b =
     (let samples = of_nat (length (ab_frames b)) * fm_frames_per_packet (ab_format b);
          rate = as_hz (fm_sample_rate (ab_format b))
      in if rate = 0 then 0 else (samples * 1000) div rate)"

definition buffer_clear :: "audio_buffer \<Rightarrow> audio_buffer" where
  "buffer_clear b =
     b\<lparr>ab_frames := [],
       ab_stats := (ab_stats b)\<lparr>sc_queued_samples_per_channel := 0, sc_queued_frames := 0\<rparr>\<rparr>"

definition buffer_flush :: "audio_buffer \<Rightarrow> audio_buffer \<times> audio_frame list" where
  "buffer_flush b = (buffer_clear b, ab_frames b)"

section \<open>The buffer is a bounded queue\<close>

definition frame_samples :: "audio_format \<Rightarrow> audio_frame \<Rightarrow> u64" where
  "frame_samples format frame =
     of_nat (length (af_samples frame)) div ucast (fm_channels format)"

definition queued_samples :: "audio_buffer \<Rightarrow> u64" where
  "queued_samples b = sum_list (map (frame_samples (ab_format b)) (ab_frames b))"

text \<open>The diagnostics mirrors agree with the queue, and the queue fits its capacity.\<close>

definition buffer_inv :: "audio_buffer \<Rightarrow> bool" where
  "buffer_inv b \<longleftrightarrow>
     fm_channels (ab_format b) \<noteq> 0 \<and> length (ab_frames b) \<le> ab_capacity_frames b
     \<and> sc_queued_frames (ab_stats b) = of_nat (length (ab_frames b))
     \<and> sc_queued_samples_per_channel (ab_stats b) = queued_samples b"

lemma sample_count_Some [simp]:
  "fm_channels f \<noteq> 0 \<Longrightarrow> sample_count f frame = Some (frame_samples f frame)"
  by (simp add: sample_count_def frame_samples_def)

definition push_total :: "audio_buffer \<Rightarrow> audio_frame \<Rightarrow> audio_buffer \<times> bool" where
  "push_total b frame =
     (case buffer_push b frame of
        Some (b', Inr _) \<Rightarrow> (b', True) | Some (b', Inl _) \<Rightarrow> (b', False) | None \<Rightarrow> (b, False))"

definition pop_total :: "audio_buffer \<Rightarrow> audio_buffer \<times> audio_frame option" where
  "pop_total b = (case buffer_pop b of Some r \<Rightarrow> r | None \<Rightarrow> (b, None))"

lemma buffer_push_Some:
  "buffer_inv b \<Longrightarrow> \<exists>b' r. buffer_push b frame = Some (b', r)"
  by (simp add: buffer_push_def buffer_inv_def Let_def)

lemma buffer_pop_Some: "buffer_inv b \<Longrightarrow> \<exists>b' r. buffer_pop b = Some (b', r)"
  by (simp add: buffer_pop_def buffer_inv_def Let_def split: list.split)

definition pushed :: "audio_buffer \<Rightarrow> audio_frame \<Rightarrow> audio_buffer" where
  "pushed b frame = b\<lparr>ab_frames := ab_frames b @ [frame],
     ab_stats := (ab_stats b)\<lparr>
       sc_samples_written_total := sc_samples_written_total (ab_stats b) + frame_samples (ab_format b) frame,
       sc_queued_samples_per_channel :=
         sc_queued_samples_per_channel (ab_stats b) + frame_samples (ab_format b) frame,
       sc_queued_frames := of_nat (Suc (length (ab_frames b)))\<rparr>\<rparr>"

definition popped :: "audio_buffer \<Rightarrow> audio_frame \<Rightarrow> audio_frame list \<Rightarrow> audio_buffer" where
  "popped b frame frames = b\<lparr>ab_frames := frames,
     ab_stats := (ab_stats b)\<lparr>
       sc_samples_read_total := sc_samples_read_total (ab_stats b) + frame_samples (ab_format b) frame,
       sc_queued_samples_per_channel :=
         sc_queued_samples_per_channel (ab_stats b) - frame_samples (ab_format b) frame,
       sc_queued_frames := of_nat (length frames)\<rparr>\<rparr>"

lemma push_total_eq:
  "fm_channels (ab_format b) \<noteq> 0 \<Longrightarrow>
   push_total b frame =
     (if length (ab_frames b) < ab_capacity_frames b then (pushed b frame, True) else (b, False))"
  by (simp add: push_total_def buffer_push_def pushed_def Let_def)

lemma pop_total_eq:
  "fm_channels (ab_format b) \<noteq> 0 \<Longrightarrow>
   pop_total b =
     (case ab_frames b of
        [] \<Rightarrow> (b\<lparr>ab_stats := (ab_stats b)\<lparr>
                 sc_underrun_events_total := sc_underrun_events_total (ab_stats b) + 1\<rparr>\<rparr>, None)
      | frame # frames \<Rightarrow> (popped b frame frames, Some frame))"
  by (cases "ab_frames b") (simp_all add: pop_total_def buffer_pop_def popped_def Let_def)

lemma buffer_inv_channels: "buffer_inv b \<Longrightarrow> fm_channels (ab_format b) \<noteq> 0"
  by (simp add: buffer_inv_def)

lemma pushed_inv:
  "buffer_inv b \<Longrightarrow> length (ab_frames b) < ab_capacity_frames b \<Longrightarrow> buffer_inv (pushed b frame)"
  by (simp add: buffer_inv_def pushed_def queued_samples_def)

lemma popped_inv:
  assumes "buffer_inv b" "ab_frames b = frame # frames"
  shows "buffer_inv (popped b frame frames)"
proof -
  have "length frames \<le> ab_capacity_frames b"
    using assms by (simp add: buffer_inv_def)
  moreover have "sc_queued_samples_per_channel (ab_stats b) =
      frame_samples (ab_format b) frame + sum_list (map (frame_samples (ab_format b)) frames)"
    using assms by (simp add: buffer_inv_def queued_samples_def)
  ultimately show ?thesis
    using buffer_inv_channels [OF assms(1)] by (simp add: buffer_inv_def popped_def queued_samples_def)
qed

lemma underrun_inv:
  "buffer_inv (b\<lparr>ab_stats := (ab_stats b)\<lparr>sc_underrun_events_total := n\<rparr>\<rparr>) = buffer_inv b"
  by (simp add: buffer_inv_def queued_samples_def)

lemma buffer_clear_inv: "buffer_inv b \<Longrightarrow> buffer_inv (buffer_clear b)"
  by (simp add: buffer_clear_def buffer_inv_def queued_samples_def)

interpretation ring: bounded_fifo ab_frames ab_capacity_frames buffer_inv push_total pop_total
proof
  fix b frame
  assume inv: "buffer_inv b"
  show "length (ab_frames b) \<le> ab_capacity_frames b" using inv by (simp add: buffer_inv_def)
  note ch = buffer_inv_channels [OF inv]
  show "buffer_inv (fst (push_total b frame))"
    using inv pushed_inv [OF inv] by (simp add: push_total_eq [OF ch])
  show "buffer_inv (fst (pop_total b))"
    using inv popped_inv [OF inv]
    by (cases "ab_frames b") (simp_all add: pop_total_eq [OF ch] underrun_inv)
  show "ab_capacity_frames (fst (push_total b frame)) = ab_capacity_frames b"
    "snd (push_total b frame) \<longleftrightarrow> length (ab_frames b) < ab_capacity_frames b"
    "ab_frames (fst (push_total b frame)) =
      (if length (ab_frames b) < ab_capacity_frames b then ab_frames b @ [frame] else ab_frames b)"
    by (simp_all add: push_total_eq [OF ch] pushed_def)
  show "ab_capacity_frames (fst (pop_total b)) = ab_capacity_frames b"
    "snd (pop_total b) = (case ab_frames b of [] \<Rightarrow> None | x # _ \<Rightarrow> Some x)"
    "ab_frames (fst (pop_total b)) = tl (ab_frames b)"
    by (cases "ab_frames b"; simp add: pop_total_eq [OF ch] popped_def)+
qed

lemma buffer_new_inv: "fm_channels format \<noteq> 0 \<Longrightarrow> buffer_inv (buffer_new format ms)"
  by (simp add: buffer_inv_def buffer_new_def counters_default_def queued_samples_def Let_def)

text \<open>
  With a format that has channels, any sequence of pushes and pops on a fresh buffer succeeds
  without a panic and is first-in-first-out: the frames accepted, in order, are the frames handed
  out followed by the frames still queued; the queue never exceeds its capacity, and the counters
  the diagnostics read mirror the queued frames and samples exactly.
\<close>

theorem buffer_is_fifo:
  assumes "fm_channels format \<noteq> 0"
    and "queue_run push_total pop_total (buffer_new format ms) ops = (b, accepted, taken)"
  shows "accepted = taken @ ab_frames b
    \<and> length (ab_frames b) \<le> ab_capacity_frames (buffer_new format ms)
    \<and> sc_queued_frames (ab_stats b) = of_nat (length (ab_frames b))
    \<and> sc_queued_samples_per_channel (ab_stats b) = queued_samples b
    \<and> (\<forall>frame. buffer_push b frame \<noteq> None) \<and> buffer_pop b \<noteq> None"
proof -
  have "ab_frames (buffer_new format ms) = []" by (simp add: buffer_new_def Let_def)
  then show ?thesis
    using ring.run_fifo [OF buffer_new_inv [OF assms(1)] assms(2)]
      buffer_push_Some [of b] buffer_pop_Some [of b]
    by (auto simp: buffer_inv_def)
qed

definition demo_format :: audio_format where
  "demo_format = format_default"

definition demo_frame :: audio_frame where
  "demo_frame = \<lparr>af_samples = [1, 2, 3, 4], af_timestamp = 0\<rparr>"

theorem buffer_is_fifo_witness:
  "[demo_frame] = [demo_frame] @ ab_frames (fst (queue_run push_total pop_total
        (buffer_new demo_format 1000) [Q_Push demo_frame, Q_Pop]))
    \<and> length (ab_frames (fst (queue_run push_total pop_total (buffer_new demo_format 1000)
        [Q_Push demo_frame, Q_Pop]))) \<le> ab_capacity_frames (buffer_new demo_format 1000)
    \<and> sc_queued_frames (ab_stats (fst (queue_run push_total pop_total (buffer_new demo_format 1000)
        [Q_Push demo_frame, Q_Pop]))) = of_nat (length (ab_frames (fst (queue_run push_total pop_total
        (buffer_new demo_format 1000) [Q_Push demo_frame, Q_Pop]))))
    \<and> sc_queued_samples_per_channel (ab_stats (fst (queue_run push_total pop_total
        (buffer_new demo_format 1000) [Q_Push demo_frame, Q_Pop]))) = queued_samples (fst (queue_run
        push_total pop_total (buffer_new demo_format 1000) [Q_Push demo_frame, Q_Pop]))
    \<and> (\<forall>frame. buffer_push (fst (queue_run push_total pop_total (buffer_new demo_format 1000)
        [Q_Push demo_frame, Q_Pop])) frame \<noteq> None)
    \<and> buffer_pop (fst (queue_run push_total pop_total (buffer_new demo_format 1000)
        [Q_Push demo_frame, Q_Pop])) \<noteq> None"
  by (rule buffer_is_fifo [where ops = "[Q_Push demo_frame, Q_Pop]"]) (simp add: demo_format_def format_default_def, code_simp)

end
