(* ===== verification/Command_Outcomes.thy ===== *)
theory Command_Outcomes
  imports Bounded_Log Backend_Model
begin

text \<open>
  The bounded completion history of backend commands (\<open>CommandOutcomes\<close>, \<open>backend/model.rs\<close>), the
  second client of the bounded-log interface, and the properties of the model types themselves.
\<close>

datatype command_failure = Cmd_Rejected | Cmd_Persistence

record command_outcomes =
  co_recent :: "(u64 \<times> command_failure option) list"
  co_evicted_through :: u64

definition outcomes_new :: command_outcomes where
  "outcomes_new = \<lparr>co_recent = [], co_evicted_through = 0\<rparr>"

definition record_outcome ::
    "command_outcomes \<Rightarrow> u64 \<times> command_failure option \<Rightarrow> command_outcomes" where
  "record_outcome c outcome =
     (let (kept, popped) = evict_oldest 128 (co_recent c @ [outcome])
      in \<lparr>co_recent = kept,
          co_evicted_through = foldl (\<lambda>acc entry. max acc (fst entry)) (co_evicted_through c) popped\<rparr>)"

interpretation outcome_log: bounded_log 128 co_recent record_outcome "\<lambda>_ outcome. outcome"
  by unfold_locales (simp add: record_outcome_def evict_oldest_newest Let_def)

lemma log_tags_id: "log_tags push (\<lambda>_ d. d) s ds = ds"
  by (induction ds arbitrary: s) simp_all

text \<open>Everything evicted so far, oldest first.\<close>

definition evicted :: "(u64 \<times> command_failure option) list \<Rightarrow> (u64 \<times> command_failure option) list" where
  "evicted outcomes = take (length outcomes - 128) outcomes"

lemma outcomes_recent: "co_recent (foldl record_outcome outcomes_new os) = newest 128 os"
  using outcome_log.run_contents [of outcomes_new os] by (simp add: outcomes_new_def log_tags_id)

lemma evicted_snoc:
  "evicted (os @ [x]) =
     evicted os @ take (Suc (length (newest 128 os)) - 128) (newest 128 os @ [x])"
proof (cases "length os < 128")
  case True
  then show ?thesis by (simp add: evicted_def length_newest)
next
  case False
  then obtain y ys where y: "newest 128 os = y # ys" by (cases "newest 128 os") (auto simp: newest_def)
  have "evicted (os @ [x]) = take (Suc (length os - 128)) os"
  proof -
    have "length os - 127 = Suc (length os - 128)" using False by simp
    then show ?thesis using False by (simp add: evicted_def)
  qed
  also have "\<dots> = evicted os @ [y]"
    using False y by (simp add: evicted_def newest_def take_Suc_conv_app_nth)
      (metis diff_less hd_drop_conv_nth length_greater_0_conv list.sel(1) list.size(3) not_less
        zero_less_numeral le_zero_eq numeral_neq_zero)
  finally show ?thesis using False y length_newest [of 128 os] by simp
qed

lemma outcomes_evicted:
  "co_evicted_through (foldl record_outcome outcomes_new os) =
     foldl (\<lambda>acc entry. max acc (fst entry)) 0 (evicted os)"
proof (induction os rule: rev_induct)
  case Nil
  then show ?case by (simp add: outcomes_new_def evicted_def)
next
  case (snoc x os)
  have "co_evicted_through (record_outcome c x) =
      foldl (\<lambda>acc entry. max acc (fst entry)) (co_evicted_through c)
        (take (Suc (length (co_recent c)) - 128) (co_recent c @ [x]))" for c
    by (simp add: record_outcome_def evict_oldest_newest Let_def)
  then show ?case using snoc by (simp add: evicted_snoc outcomes_recent)
qed

lemma foldl_max_ge: "(a :: 'a::linorder) \<le> foldl (\<lambda>acc e. max acc (f e)) a xs
    \<and> (\<forall>x \<in> set xs. f x \<le> foldl (\<lambda>acc e. max acc (f e)) a xs)"
  by (induction xs rule: rev_induct) (auto simp: le_max_iff_disj)

text \<open>
  The completion history always holds exactly the newest 128 outcomes in completion order,
  every older outcome has been evicted, and no evicted identifier exceeds the recorded bound.
\<close>

theorem outcomes_bounded:
  "co_recent (foldl record_outcome outcomes_new os) = newest 128 os
   \<and> length (co_recent (foldl record_outcome outcomes_new os)) \<le> 128
   \<and> evicted os @ co_recent (foldl record_outcome outcomes_new os) = os
   \<and> (\<forall>entry \<in> set (evicted os).
        fst entry \<le> co_evicted_through (foldl record_outcome outcomes_new os))"
  using foldl_max_ge [of 0 fst "evicted os"]
  by (simp add: outcomes_recent outcomes_evicted length_newest) (simp add: evicted_def newest_def)

theorem outcomes_bounded_witness:
  "co_recent (foldl record_outcome outcomes_new (replicate 129 (3, None))) = replicate 128 (3, None)
   \<and> 3 \<le> co_evicted_through (foldl record_outcome outcomes_new (replicate 129 (3, None)))"
  using outcomes_bounded [of "replicate 129 (3, None)"] by (simp add: newest_def evicted_def)

text \<open>
  The storage form of a receiver identity is canonical: every identity parses back from its
  twelve-digit key, and a string parses only if it is exactly the key of the identity it yields;
  every other string is rejected with itself as the reason.
\<close>

theorem storage_key_canonical:
  "from_storage_key (storage_key i) = Inr i
   \<and> (from_storage_key key = Inr i \<longleftrightarrow> key = storage_key i)
   \<and> ((\<nexists>j. key = storage_key j) \<longrightarrow> from_storage_key key = Inl (InvalidReceiverId key))"
proof -
  have parse: "from_storage_key (storage_key j) = Inr j" for j
  proof -
    obtain a b c d e f where j: "j = DeviceId a b c d e f" by (cases j)
    have "\<forall>x \<in> set (storage_key j). hex_value x \<noteq> None"
      by (auto simp: storage_key_def dest: hex_byte_digits)
    moreover have "hex_pairs (storage_key j) = Some [a, b, c, d, e, f]"
      using hex_pairs_bytes [of "device_bytes j"] by (simp add: storage_key_def j)
    ultimately show ?thesis by (simp add: from_storage_key_def length_storage_key j)
  qed
  have canon: "key = storage_key j" if parsed: "from_storage_key key = Inr j" for j
  proof -
    obtain a b c d e f where "hex_pairs key = Some [a, b, c, d, e, f]" "j = DeviceId a b c d e f"
      using parsed by (auto simp: from_storage_key_def split: if_splits option.splits list.splits)
    then show ?thesis using hex_pairs_canonical by (simp add: storage_key_def) force
  qed
  have "(\<exists>j. from_storage_key key = Inr j) \<or> from_storage_key key = Inl (InvalidReceiverId key)"
    by (auto simp: from_storage_key_def split: option.splits list.splits)
  then show ?thesis using parse canon by blast
qed

theorem storage_key_canonical_witness:
  "from_storage_key ''5855CA1AE288'' = Inr (DeviceId 0x58 0x55 0xCA 0x1A 0xE2 0x88)
   \<and> ''5855ca1ae288'' \<noteq> storage_key (DeviceId 0x58 0x55 0xCA 0x1A 0xE2 0x88)"
proof -
  have "storage_key (DeviceId 0x58 0x55 0xCA 0x1A 0xE2 0x88) = ''5855CA1AE288''" by code_simp
  moreover have "from_storage_key ''5855ca1ae288'' \<noteq> Inr (DeviceId 0x58 0x55 0xCA 0x1A 0xE2 0x88)"
    by code_simp
  ultimately show ?thesis
    using storage_key_canonical [of "DeviceId 0x58 0x55 0xCA 0x1A 0xE2 0x88" "''5855ca1ae288''"] by metis
qed

end
