(* ===== verification/Wire.thy ===== *)
theory Wire
  imports Prelude
begin

text \<open>
  Byte-level vocabulary of the wire formats: the conversions \<open>to_be_bytes\<close>, \<open>to_le_bytes\<close>,
  \<open>from_be_bytes\<close> and \<open>from_le_bytes\<close> of Rust's unsigned integers, at any width, with their
  inverse laws, and the errors of \<open>crates/airplay-core/src/error.rs\<close> that the audio and
  cryptography crates return.
\<close>

unbundle bit_operations_syntax

section \<open>Integers as bytes\<close>

fun be_bytes :: "nat \<Rightarrow> 'a::len word \<Rightarrow> u8 list" where
  "be_bytes 0 w = []"
| "be_bytes (Suc n) w = be_bytes n (drop_bit 8 w) @ [ucast w]"

definition from_be :: "u8 list \<Rightarrow> 'a::len word" where
  "from_be bs = foldl (\<lambda>acc b. push_bit 8 acc OR ucast b) 0 bs"

definition le_bytes :: "nat \<Rightarrow> 'a::len word \<Rightarrow> u8 list" where
  "le_bytes n w = rev (be_bytes n w)"

definition from_le :: "u8 list \<Rightarrow> 'a::len word" where
  "from_le bs = from_be (rev bs)"

abbreviation u16_be :: "u16 \<Rightarrow> u8 list" where "u16_be \<equiv> be_bytes 2"
abbreviation u32_be :: "u32 \<Rightarrow> u8 list" where "u32_be \<equiv> be_bytes 4"
abbreviation u64_be :: "u64 \<Rightarrow> u8 list" where "u64_be \<equiv> be_bytes 8"
abbreviation u16_le :: "u16 \<Rightarrow> u8 list" where "u16_le \<equiv> le_bytes 2"
abbreviation u64_le :: "u64 \<Rightarrow> u8 list" where "u64_le \<equiv> le_bytes 8"

text \<open>The slice \<open>data[i..j]\<close> and the decimal form \<open>Display\<close> gives an unsigned number.\<close>

definition byte_range :: "nat \<Rightarrow> nat \<Rightarrow> 'a list \<Rightarrow> 'a list" where
  "byte_range i j xs = take (j - i) (drop i xs)"

fun digits :: "nat \<Rightarrow> string" where
  "digits n = (if n < 10 then [char_of (48 + n)] else digits (n div 10) @ [char_of (48 + n mod 10)])"

declare digits.simps [simp del]

section \<open>Errors\<close>

datatype discovery_error = Daemon string | Resolution string | NoDevicesFound | DeviceNotFound string

datatype pairing_error =
    InvalidPin
  | Pairing_Rejected
  | SrpVerificationFailed
  | InvalidServerPublicKey
  | SignatureInvalid
  | FairPlayFailed string
  | StateMismatch u8 u8
  | TlvParse string
  | MissingTlv u8
  | Pairing_InvalidState string
  | Pairing_Protocol string

datatype rtsp_error =
    ConnectionRefused
  | InvalidResponse string
  | UnexpectedStatus u16
  | MissingHeader string
  | PlistError string
  | NoSession
  | SetupFailed string

datatype streaming_error =
    Encoding string
  | BufferUnderrun
  | BufferOverflow
  | TimingSyncLost
  | Interrupted
  | Streaming_InvalidFormat string

datatype crypto_error =
    Encryption string
  | Decryption string
  | KeyDerivation string
  | InvalidKeyLength nat nat
  | AuthTagMismatch

datatype parse_error =
    InvalidFormat string
  | MissingField string
  | InvalidHex string
  | InvalidValue string

datatype 'io air_error =
    Err_Discovery discovery_error
  | Err_Connection 'io
  | Err_Pairing pairing_error
  | Err_Rtsp rtsp_error
  | Err_Streaming streaming_error
  | Err_Crypto crypto_error
  | Err_Parse parse_error
  | Err_UnsupportedFeature string
  | Err_MfiRequired
  | Err_Timeout

section \<open>Inverse laws\<close>

lemma length_be_bytes [simp]: "length (be_bytes n w) = n"
  by (induction n arbitrary: w) auto

lemma length_le_bytes [simp]: "length (le_bytes n w) = n"
  by (simp add: le_bytes_def)

lemma from_be_Nil [simp]: "from_be [] = 0"
  by (simp add: from_be_def)

lemma from_be_snoc: "from_be (bs @ [b]) = push_bit 8 (from_be bs) OR ucast b"
  by (simp add: from_be_def)

lemma from_be_bytes_take: "from_be (be_bytes n w) = take_bit (8 * n) (w :: 'a::len word)"
proof (induction n arbitrary: w)
  case 0
  then show ?case by simp
next
  case (Suc n)
  have "from_be (be_bytes (Suc n) w) = push_bit 8 (take_bit (8 * n) (drop_bit 8 w)) OR ucast (ucast w :: u8)"
    by (simp add: from_be_snoc Suc)
  also have "\<dots> = take_bit (8 * Suc n) w"
    by (rule bit_word_eqI) (auto simp: bit_simps)
  finally show ?case .
qed

lemma from_be_bytes [simp]:
  "LENGTH('a) \<le> 8 * n \<Longrightarrow> from_be (be_bytes n w) = (w :: 'a::len word)"
  by (simp add: from_be_bytes_take take_bit_word_eq_self)

lemma from_le_bytes [simp]:
  "LENGTH('a) \<le> 8 * n \<Longrightarrow> from_le (le_bytes n w) = (w :: 'a::len word)"
  by (simp add: from_le_def le_bytes_def)

lemma bit_from_be: "bit (from_be bs :: 'a::len word) i \<Longrightarrow> i < 8 * length bs"
proof (induction bs arbitrary: i rule: rev_induct)
  case Nil
  then show ?case by simp
next
  case (snoc b bs)
  show ?case
  proof (cases "i < 8")
    case False
    with snoc.prems have "bit (from_be bs :: 'a word) (i - 8)"
      by (auto simp: from_be_snoc bit_simps dest: bit_imp_le_length)
    then show ?thesis using snoc.IH False by fastforce
  qed simp
qed

lemma be_bytes_from_be:
  "8 * length bs \<le> LENGTH('a) \<Longrightarrow> be_bytes (length bs) (from_be bs :: 'a::len word) = bs"
proof (induction bs rule: rev_induct)
  case Nil
  then show ?case by simp
next
  case (snoc b bs)
  have "drop_bit 8 (push_bit 8 (from_be bs :: 'a word) OR ucast b) = from_be bs"
  proof (rule bit_word_eqI)
    fix i
    assume "i < LENGTH('a)"
    have "bit (from_be bs :: 'a word) i \<Longrightarrow> i + 8 < LENGTH('a)"
      using bit_from_be [of bs i, where ?'a = 'a] snoc.prems by fastforce
    then show "bit (drop_bit 8 (push_bit 8 (from_be bs :: 'a word) OR ucast b)) i
        = bit (from_be bs :: 'a word) i"
      by (auto simp: bit_simps dest: bit_imp_le_length)
  qed
  moreover have "ucast (push_bit 8 (from_be bs :: 'a word) OR ucast b) = b"
    using snoc.prems by (intro bit_word_eqI) (auto simp: bit_simps)
  ultimately show ?case using snoc by (simp add: from_be_snoc)
qed

lemma be_bytes_inj:
  "LENGTH('a) \<le> 8 * n \<Longrightarrow> be_bytes n v = be_bytes n (w :: 'a::len word) \<longleftrightarrow> v = w"
  by (metis from_be_bytes)

lemma le_bytes_inj:
  "LENGTH('a) \<le> 8 * n \<Longrightarrow> le_bytes n v = le_bytes n (w :: 'a::len word) \<longleftrightarrow> v = w"
  by (simp add: le_bytes_def be_bytes_inj)

lemma be_bytes_range:
  "j \<le> length data \<Longrightarrow> i \<le> j \<Longrightarrow> 8 * (j - i) \<le> LENGTH('a) \<Longrightarrow>
   be_bytes (j - i) (from_be (byte_range i j data) :: 'a::len word) = byte_range i j data"
  using be_bytes_from_be [of "byte_range i j data", where ?'a = 'a] by (simp add: byte_range_def)

section \<open>Bits of a byte\<close>

lemma and_masks:
  "(x :: u8) AND 0x01 = take_bit 1 x" "x AND 0x03 = take_bit 2 x"
  "x AND 0x0F = take_bit 4 x" "x AND 0x7F = take_bit 7 x"
  by (simp_all add: take_bit_eq_mask mask_eq_exp_minus_1)

lemma u8_cases: "(i :: nat) < 8 \<Longrightarrow> i = 0 \<or> i = 1 \<or> i = 2 \<or> i = 3 \<or> i = 4 \<or> i = 5 \<or> i = 6 \<or> i = 7"
  by auto

end
