(* ===== verification/Crypto_Frames.thy ===== *)
theory Crypto_Frames
  imports Wire
begin

text \<open>
  The encrypted control channel and the audio packet cipher
  (\<open>crates/airplay-crypto/src/chacha.rs\<close>, \<open>crates/airplay-pairing/src/channel.rs\<close>): HomeKit
  framing of a byte stream into blocks of at most 1024 bytes, counter nonces per direction, and
  the nonce and associated data of an audio packet.

  The ChaCha20-Poly1305 primitive is a library: every operation takes its sealing and opening
  functions as arguments. What the code relies on is \<open>aead_ok\<close>, the documented contract of an
  authenticated cipher with an appended 16-byte tag: a sealed message is 16 bytes longer and
  opens to the message under the same key, nonce and associated data. A sealing error carries
  the text the library displays.
\<close>

type_synonym seal_fun = "u8 list \<Rightarrow> u8 list \<Rightarrow> u8 list \<Rightarrow> u8 list \<Rightarrow> string + u8 list"
type_synonym open_fun = "u8 list \<Rightarrow> u8 list \<Rightarrow> u8 list \<Rightarrow> u8 list \<Rightarrow> u8 list option"

definition aead_ok :: "seal_fun \<Rightarrow> open_fun \<Rightarrow> bool" where
  "aead_ok seal unseal \<longleftrightarrow>
     (\<forall>key nonce aad msg ct. seal key nonce aad msg = Inr ct \<longrightarrow>
        length ct = length msg + 16 \<and> unseal key nonce aad ct = Some msg)"

section \<open>Nonces and associated data\<close>

definition build_nonce_12 :: "u8 list \<Rightarrow> u8 list" where
  "build_nonce_12 nonce8 = replicate 4 0 @ nonce8"

definition build_nonce_from_counter :: "u64 \<Rightarrow> u8 list" where
  "build_nonce_from_counter counter = replicate 4 0 @ u64_le counter"

definition build_aad :: "u32 \<Rightarrow> u32 \<Rightarrow> u8 list" where
  "build_aad rtp_timestamp ssrc = u32_be rtp_timestamp @ u32_be ssrc"

text \<open>\<open>nonce_from_string\<close>: right-aligned in twelve bytes.\<close>

definition nonce_from_string :: "u8 list \<Rightarrow> u8 list" where
  "nonce_from_string s =
     (let len = min (length s) 12 in replicate (12 - len) 0 @ take len s)"

section \<open>The control cipher\<close>

record control_cipher =
  cc_write_key :: "u8 list"
  cc_read_key :: "u8 list"
  cc_encrypt_counter :: u64
  cc_decrypt_counter :: u64

definition control_new :: "u8 list \<Rightarrow> u8 list \<Rightarrow> control_cipher" where
  "control_new write_key read_key =
     \<lparr>cc_write_key = write_key, cc_read_key = read_key, cc_encrypt_counter = 0, cc_decrypt_counter = 0\<rparr>"

definition new_unidirectional :: "u8 list \<Rightarrow> control_cipher" where
  "new_unidirectional key = control_new key key"

definition MAX_BLOCK :: nat where "MAX_BLOCK = 0x400"

function encrypt_loop ::
    "seal_fun \<Rightarrow> control_cipher \<Rightarrow> u8 list \<Rightarrow> u8 list \<Rightarrow> control_cipher \<times> (crypto_error + u8 list)" where
  "encrypt_loop seal c out rest =
     (if rest = [] then (c, Inr out)
      else let block = take MAX_BLOCK rest;
               aad = u16_le (of_nat (length block));
               nonce = build_nonce_from_counter (cc_encrypt_counter c)
           in case seal (cc_write_key c) nonce aad block of
                Inl e \<Rightarrow> (c, Inl (Encryption (''Encryption failed: '' @ e)))
              | Inr ct \<Rightarrow>
                  encrypt_loop seal (c\<lparr>cc_encrypt_counter := cc_encrypt_counter c + 1\<rparr>)
                    (out @ aad @ ct) (drop MAX_BLOCK rest))"
  by pat_completeness auto
termination
  by (relation "measure (\<lambda>(seal, c, out, rest). length rest)") (auto simp: MAX_BLOCK_def)

declare encrypt_loop.simps [simp del]

definition control_encrypt ::
    "seal_fun \<Rightarrow> control_cipher \<Rightarrow> u8 list \<Rightarrow> control_cipher \<times> (crypto_error + u8 list)" where
  "control_encrypt seal c plaintext =
     (if plaintext = [] then (c, Inl (Encryption ''Empty plaintext''))
      else encrypt_loop seal c [] plaintext)"

definition decrypt_block ::
    "open_fun \<Rightarrow> control_cipher \<Rightarrow> u8 list \<Rightarrow> u16 \<Rightarrow> control_cipher \<times> (crypto_error + u8 list)" where
  "decrypt_block unseal c ct block_len =
     (if length ct < unat block_len + 16 then (c, Inl (Decryption ''Ciphertext block too short''))
      else let aad = u16_le block_len;
               nonce = build_nonce_from_counter (cc_decrypt_counter c)
           in case unseal (cc_read_key c) nonce aad ct of
                None \<Rightarrow> (c, Inl (Decryption ''Decryption/authentication failed''))
              | Some plaintext \<Rightarrow>
                  (c\<lparr>cc_decrypt_counter := cc_decrypt_counter c + 1\<rparr>, Inr plaintext))"

definition decrypt_raw ::
    "open_fun \<Rightarrow> control_cipher \<Rightarrow> u8 list \<Rightarrow> control_cipher \<times> (crypto_error + u8 list)" where
  "decrypt_raw unseal c ct =
     (if length ct < 16 then (c, Inl (Decryption ''Ciphertext too short (missing tag)''))
      else decrypt_block unseal c ct (of_nat (length ct - 16)))"

function decrypt_loop ::
    "open_fun \<Rightarrow> control_cipher \<Rightarrow> u8 list \<Rightarrow> u8 list \<Rightarrow> control_cipher \<times> (crypto_error + u8 list)" where
  "decrypt_loop unseal c out rest =
     (if rest = [] then (c, Inr out)
      else if length rest < 2 then (c, Inl (Decryption ''Incomplete length prefix''))
      else let block_len = from_le (take 2 rest);
               frame = unat block_len + 16;
               body = drop 2 rest
           in if length body < frame then (c, Inl (Decryption ''Incomplete ciphertext block''))
              else case decrypt_block unseal c (take frame body) block_len of
                     (c', Inl e) \<Rightarrow> (c', Inl e)
                   | (c', Inr plaintext) \<Rightarrow>
                       decrypt_loop unseal c' (out @ plaintext) (drop frame body))"
  by pat_completeness auto
termination
  by (relation "measure (\<lambda>(unseal, c, out, rest). length rest)") auto

declare decrypt_loop.simps [simp del]

definition control_decrypt ::
    "open_fun \<Rightarrow> control_cipher \<Rightarrow> u8 list \<Rightarrow> control_cipher \<times> (crypto_error + u8 list)" where
  "control_decrypt unseal c data =
     (if length data < 18 then (c, Inl (Decryption ''Data too short for HomeKit frame''))
      else decrypt_loop unseal c [] data)"

definition reset_counters :: "control_cipher \<Rightarrow> control_cipher" where
  "reset_counters c = c\<lparr>cc_encrypt_counter := 0, cc_decrypt_counter := 0\<rparr>"

section \<open>The encrypted channel\<close>

record encrypted_channel =
  ec_write_cipher :: control_cipher
  ec_read_cipher :: control_cipher

definition with_keys :: "u8 list \<Rightarrow> u8 list \<Rightarrow> encrypted_channel" where
  "with_keys write_key read_key =
     \<lparr>ec_write_cipher = new_unidirectional write_key, ec_read_cipher = new_unidirectional read_key\<rparr>"

definition channel_encrypt ::
    "seal_fun \<Rightarrow> encrypted_channel \<Rightarrow> u8 list \<Rightarrow> encrypted_channel \<times> (crypto_error + u8 list)" where
  "channel_encrypt seal ch plaintext =
     (let (c, r) = control_encrypt seal (ec_write_cipher ch) plaintext
      in (ch\<lparr>ec_write_cipher := c\<rparr>, r))"

definition channel_encrypt_raw ::
    "seal_fun \<Rightarrow> encrypted_channel \<Rightarrow> u8 list \<Rightarrow> encrypted_channel \<times> (crypto_error + u8 list)" where
  "channel_encrypt_raw seal ch plaintext =
     (if 0x400 < length plaintext
      then (ch, Inl (Encryption ''Raw control messages are limited to one 1024-byte block''))
      else let (c, r) = control_encrypt seal (ec_write_cipher ch) plaintext
           in (ch\<lparr>ec_write_cipher := c\<rparr>, map_sum id (drop 2) r))"

definition channel_decrypt ::
    "open_fun \<Rightarrow> encrypted_channel \<Rightarrow> u8 list \<Rightarrow> encrypted_channel \<times> (crypto_error + u8 list)" where
  "channel_decrypt unseal ch framed =
     (let (c, r) = control_decrypt unseal (ec_read_cipher ch) framed
      in (ch\<lparr>ec_read_cipher := c\<rparr>, r))"

definition channel_decrypt_raw ::
    "open_fun \<Rightarrow> encrypted_channel \<Rightarrow> u8 list \<Rightarrow> encrypted_channel \<times> (crypto_error + u8 list)" where
  "channel_decrypt_raw unseal ch ct =
     (let (c, r) = decrypt_raw unseal (ec_read_cipher ch) ct
      in (ch\<lparr>ec_read_cipher := c\<rparr>, r))"

definition channel_reset_counters :: "encrypted_channel \<Rightarrow> encrypted_channel" where
  "channel_reset_counters ch =
     ch\<lparr>ec_write_cipher := reset_counters (ec_write_cipher ch),
        ec_read_cipher := reset_counters (ec_read_cipher ch)\<rparr>"

definition parse_frame_length :: "u8 list \<Rightarrow> nat option" where
  "parse_frame_length data =
     (if length data < 2 then None
      else Some (2 + unat (from_le (take 2 data) :: u16) + 16))"

section \<open>The audio cipher\<close>

definition audio_encrypt_with_nonce ::
    "seal_fun \<Rightarrow> u8 list \<Rightarrow> u8 list \<Rightarrow> u32 \<Rightarrow> u32 \<Rightarrow> u8 list
     \<Rightarrow> crypto_error + u8 list \<times> u8 list \<times> u8 list" where
  "audio_encrypt_with_nonce seal key audio_data rtp_timestamp ssrc nonce8 =
     (case seal key (build_nonce_12 nonce8) (build_aad rtp_timestamp ssrc) audio_data of
        Inl e \<Rightarrow> Inl (Encryption (''Encryption failed: '' @ e))
      | Inr ct \<Rightarrow>
          let tag_start = length ct - 16 in Inr (take tag_start ct, nonce8, drop tag_start ct))"

definition encrypt_with_seq ::
    "seal_fun \<Rightarrow> u8 list \<Rightarrow> u8 list \<Rightarrow> u32 \<Rightarrow> u32 \<Rightarrow> u16
     \<Rightarrow> crypto_error + u8 list \<times> u8 list \<times> u8 list" where
  "encrypt_with_seq seal key audio_data rtp_timestamp ssrc seqnum =
     (let nonce12 = replicate 4 0 @ u16_le seqnum @ replicate 6 0
      in case seal key nonce12 (build_aad rtp_timestamp ssrc) audio_data of
           Inl e \<Rightarrow> Inl (Encryption (''Encryption failed: '' @ e))
         | Inr ct \<Rightarrow>
             let tag_start = length ct - 16
             in Inr (take tag_start ct, drop 4 nonce12, drop tag_start ct))"

definition audio_decrypt ::
    "open_fun \<Rightarrow> u8 list \<Rightarrow> u8 list \<Rightarrow> u8 list \<Rightarrow> u8 list \<Rightarrow> u32 \<Rightarrow> u32 \<Rightarrow> crypto_error + u8 list" where
  "audio_decrypt unseal key ct nonce tag rtp_timestamp ssrc =
     (case unseal key (build_nonce_12 nonce) (build_aad rtp_timestamp ssrc) (ct @ tag) of
        None \<Rightarrow> Inl (Decryption ''Decryption/authentication failed'')
      | Some plaintext \<Rightarrow> Inr plaintext)"

section \<open>Pairing messages\<close>

definition pairing_encrypt :: "seal_fun \<Rightarrow> u8 list \<Rightarrow> u8 list \<Rightarrow> u8 list \<Rightarrow> crypto_error + u8 list" where
  "pairing_encrypt seal key nonce plaintext =
     (case seal key nonce [] plaintext of
        Inl e \<Rightarrow> Inl (Encryption (''Encryption failed: '' @ e))
      | Inr ct \<Rightarrow> Inr ct)"

definition pairing_decrypt :: "open_fun \<Rightarrow> u8 list \<Rightarrow> u8 list \<Rightarrow> u8 list \<Rightarrow> crypto_error + u8 list" where
  "pairing_decrypt unseal key nonce ct =
     (if length ct < 16 then Inl (Decryption ''Ciphertext too short (missing tag)'')
      else case unseal key nonce [] ct of
             None \<Rightarrow> Inl (Decryption ''Decryption/authentication failed'')
           | Some plaintext \<Rightarrow> Inr plaintext)"

section \<open>The legacy block cipher\<close>

text \<open>
  \<open>AesCbcCipher\<close> (\<open>aes.rs\<close>) chains a library block cipher, whose two directions under a key are the
  arguments \<open>enc\<close> and \<open>dec\<close>. The key is sixteen bytes by type, so the key check never fails.
\<close>

definition xor_block :: "u8 list \<Rightarrow> u8 list \<Rightarrow> u8 list" where
  "xor_block x y = map2 (XOR) x y"

fun cbc_encrypt_blocks :: "(u8 list \<Rightarrow> u8 list) \<Rightarrow> u8 list \<Rightarrow> u8 list list \<Rightarrow> u8 list" where
  "cbc_encrypt_blocks enc prev [] = []"
| "cbc_encrypt_blocks enc prev (chunk # rest) =
     (let block = enc (xor_block chunk prev) in block @ cbc_encrypt_blocks enc block rest)"

fun cbc_decrypt_blocks :: "(u8 list \<Rightarrow> u8 list) \<Rightarrow> u8 list \<Rightarrow> u8 list list \<Rightarrow> u8 list" where
  "cbc_decrypt_blocks dec prev [] = []"
| "cbc_decrypt_blocks dec prev (chunk # rest) =
     xor_block (dec chunk) prev @ cbc_decrypt_blocks dec chunk rest"

definition cbc_encrypt :: "(u8 list \<Rightarrow> u8 list) \<Rightarrow> u8 list \<Rightarrow> u8 list \<Rightarrow> crypto_error + u8 list" where
  "cbc_encrypt enc iv plaintext =
     (if length plaintext mod 16 \<noteq> 0 then Inl (Encryption ''Plaintext must be a multiple of 16 bytes'')
      else Inr (cbc_encrypt_blocks enc iv (chunks 16 plaintext)))"

definition cbc_decrypt :: "(u8 list \<Rightarrow> u8 list) \<Rightarrow> u8 list \<Rightarrow> u8 list \<Rightarrow> crypto_error + u8 list" where
  "cbc_decrypt dec iv ct =
     (if length ct mod 16 \<noteq> 0 then Inl (Decryption ''Ciphertext must be a multiple of 16 bytes'')
      else Inr (cbc_decrypt_blocks dec iv (chunks 16 ct)))"

definition encrypt_raop :: "(u8 list \<Rightarrow> u8 list) \<Rightarrow> u8 list \<Rightarrow> u8 list \<Rightarrow> crypto_error + u8 list" where
  "encrypt_raop enc iv payload =
     (let full_blocks = length payload div 16; full_len = full_blocks * 16
      in if full_blocks = 0 then Inr payload
         else case cbc_encrypt enc iv (take full_len payload) of
                Inl e \<Rightarrow> Inl e
              | Inr blocks \<Rightarrow> Inr (blocks @ drop full_len payload))"

end
