(* ===== verification/Crypto_Properties.thy ===== *)
theory Crypto_Properties
  imports Crypto_Frames
begin

text \<open>
  What the framing promises: the closed form of a framed message with its nonces, the exact
  delivery of every message of a two-way conversation, and the round trips of the audio, pairing
  and legacy ciphers.
\<close>

section \<open>Frames\<close>

definition frame_block :: "seal_fun \<Rightarrow> u8 list \<Rightarrow> u64 \<Rightarrow> u8 list \<Rightarrow> u8 list" where
  "frame_block seal key counter block =
     (let aad = u16_le (of_nat (length block))
      in aad @ (case seal key (build_nonce_from_counter counter) aad block of Inr ct \<Rightarrow> ct | Inl _ \<Rightarrow> []))"

fun frames :: "seal_fun \<Rightarrow> u8 list \<Rightarrow> u64 \<Rightarrow> u8 list list \<Rightarrow> u8 list" where
  "frames seal key counter [] = []"
| "frames seal key counter (block # blocks) =
     frame_block seal key counter block @ frames seal key (counter + 1) blocks"

text \<open>The library seals every block the framing can hand it.\<close>

definition seals_blocks :: "seal_fun \<Rightarrow> bool" where
  "seals_blocks seal \<longleftrightarrow>
     (\<forall>key nonce aad msg. length msg \<le> MAX_BLOCK \<longrightarrow> (\<exists>ct. seal key nonce aad msg = Inr ct))"

lemma seals_block:
  "seals_blocks seal \<Longrightarrow> length msg \<le> MAX_BLOCK \<Longrightarrow> \<exists>ct. seal key nonce aad msg = Inr ct"
  by (simp add: seals_blocks_def)

lemma length_take_block: "length (take MAX_BLOCK xs) \<le> MAX_BLOCK" "MAX_BLOCK < 65536"
  by (simp_all add: MAX_BLOCK_def)

lemma encrypt_loop_frames:
  "seals_blocks seal \<Longrightarrow>
   encrypt_loop seal c out rest =
     (c\<lparr>cc_encrypt_counter := cc_encrypt_counter c + of_nat (length (chunks MAX_BLOCK rest))\<rparr>,
      Inr (out @ frames seal (cc_write_key c) (cc_encrypt_counter c) (chunks MAX_BLOCK rest)))"
proof (induction seal c out rest rule: encrypt_loop.induct)
  case (1 seal c out rest)
  show ?case
  proof (cases "rest = []")
    case True
    then show ?thesis by (simp add: encrypt_loop.simps)
  next
    case False
    let ?block = "take MAX_BLOCK rest"
    obtain ct where ct: "seal (cc_write_key c) (build_nonce_from_counter (cc_encrypt_counter c))
        (u16_le (of_nat (length ?block))) ?block = Inr ct"
      using seals_block [OF "1.prems" length_take_block(1)] by blast
    have "chunks MAX_BLOCK rest = ?block # chunks MAX_BLOCK (drop MAX_BLOCK rest)"
      using False by (subst chunks.simps) (simp add: MAX_BLOCK_def)
    then show ?thesis
      using "1.IH" [OF False refl refl refl ct "1.prems"] False ct
      by (simp add: encrypt_loop.simps [of seal c out rest] Let_def frame_block_def add.assoc add.commute)
  qed
qed

lemma unat_of_nat_u16: "n < 65536 \<Longrightarrow> unat (of_nat n :: u16) = n"
  by (simp add: unat_of_nat)

lemma decrypt_frame:
  assumes ok: "aead_ok seal unseal" "seals_blocks seal" and len: "length block \<le> MAX_BLOCK"
    and key: "cc_read_key c = key"
  shows "decrypt_loop unseal c out (frame_block seal key (cc_decrypt_counter c) block @ rest) =
     decrypt_loop unseal (c\<lparr>cc_decrypt_counter := cc_decrypt_counter c + 1\<rparr>) (out @ block) rest"
proof -
  let ?aad = "u16_le (of_nat (length block))"
  obtain ct where ct: "seal key (build_nonce_from_counter (cc_decrypt_counter c)) ?aad block = Inr ct"
    using seals_block [OF ok(2) len] by blast
  with ok(1) have opened: "length ct = length block + 16"
      "unseal key (build_nonce_from_counter (cc_decrypt_counter c)) ?aad ct = Some block"
    by (auto simp: aead_ok_def)
  have n: "unat (of_nat (length block) :: u16) = length block"
    using len length_take_block(2) by (intro unat_of_nat_u16) simp
  have frame: "frame_block seal key (cc_decrypt_counter c) block @ rest = ?aad @ ct @ rest"
    using ct by (simp add: frame_block_def Let_def)
  have "ct \<noteq> []" using opened(1) by auto
  have prefix: "from_le (take 2 (?aad @ ct @ rest)) = (of_nat (length block) :: u16)"
    "drop 2 (?aad @ ct @ rest) = ct @ rest" by simp_all
  show ?thesis
    unfolding frame decrypt_loop.simps [of unseal c out "?aad @ ct @ rest"] prefix Let_def
    using opened n key \<open>ct \<noteq> []\<close> by (simp add: decrypt_block_def Let_def)
qed

lemma decrypt_frames:
  assumes "aead_ok seal unseal" "seals_blocks seal"
  shows "(\<forall>b \<in> set blocks. length b \<le> MAX_BLOCK) \<Longrightarrow> cc_read_key c = key \<Longrightarrow>
   decrypt_loop unseal c out (frames seal key (cc_decrypt_counter c) blocks @ rest) =
     decrypt_loop unseal (c\<lparr>cc_decrypt_counter := cc_decrypt_counter c + of_nat (length blocks)\<rparr>)
       (out @ concat blocks) rest"
proof (induction blocks arbitrary: c out)
  case Nil
  then show ?case by simp
next
  case (Cons b blocks)
  then show ?case
    using decrypt_frame [OF assms, of b c key out "frames seal key (cc_decrypt_counter c + 1) blocks @ rest"]
      Cons.IH [of "c\<lparr>cc_decrypt_counter := cc_decrypt_counter c + 1\<rparr>" "out @ b"]
    by (simp add: add.assoc)
qed

lemma frames_long:
  "aead_ok seal unseal \<Longrightarrow> seals_blocks seal \<Longrightarrow> blocks \<noteq> [] \<Longrightarrow> (\<forall>b \<in> set blocks. length b \<le> MAX_BLOCK) \<Longrightarrow>
   18 \<le> length (frames seal key counter blocks)"
proof (cases blocks)
  case (Cons b bs)
  assume ok: "aead_ok seal unseal" "seals_blocks seal" "\<forall>b \<in> set blocks. length b \<le> MAX_BLOCK"
  with Cons obtain ct where "seal key (build_nonce_from_counter counter)
      (u16_le (of_nat (length b))) b = Inr ct" using seals_block [OF ok(2), of b] by fastforce
  with ok(1) Cons show ?thesis by (simp add: frame_block_def Let_def aead_ok_def)
qed simp

lemma control_encrypt_frames:
  "seals_blocks seal \<Longrightarrow> m \<noteq> [] \<Longrightarrow>
   control_encrypt seal c m =
     (c\<lparr>cc_encrypt_counter := cc_encrypt_counter c + of_nat (length (chunks MAX_BLOCK m))\<rparr>,
      Inr (frames seal (cc_write_key c) (cc_encrypt_counter c) (chunks MAX_BLOCK m)))"
  by (simp add: control_encrypt_def encrypt_loop_frames)

lemma chunks_eq_Nil: "0 < n \<Longrightarrow> chunks n xs = [] \<longleftrightarrow> xs = []"
  by (simp add: chunks.simps [of n xs])

lemma chunks_blocks: "\<forall>b \<in> set (chunks MAX_BLOCK m). length b \<le> MAX_BLOCK"
  using chunks_length by blast

lemma control_decrypt_frames:
  assumes "aead_ok seal unseal" "seals_blocks seal" "m \<noteq> []" "cc_read_key c = key"
  shows "control_decrypt unseal c (frames seal key (cc_decrypt_counter c) (chunks MAX_BLOCK m)) =
     (c\<lparr>cc_decrypt_counter := cc_decrypt_counter c + of_nat (length (chunks MAX_BLOCK m))\<rparr>, Inr m)"
proof -
  have "chunks MAX_BLOCK m \<noteq> []" using assms(3) by (simp add: chunks_eq_Nil MAX_BLOCK_def)
  then have "\<not> length (frames seal key (cc_decrypt_counter c) (chunks MAX_BLOCK m)) < 18"
    using frames_long [OF assms(1,2) _ chunks_blocks] by (simp add: not_less)
  then show ?thesis
    using decrypt_frames [OF assms(1,2) chunks_blocks assms(4), of "[]" m "[]"]
    by (simp add: control_decrypt_def decrypt_loop.simps [of _ _ _ "[]"] concat_chunks MAX_BLOCK_def)
qed

section \<open>Conversations\<close>

datatype party = Controller | Accessory

text \<open>One message from a party to the other: what the receiver gets, or the sender's error.\<close>

definition exchange ::
    "seal_fun \<Rightarrow> open_fun \<Rightarrow> encrypted_channel \<times> encrypted_channel \<Rightarrow> party \<times> u8 list
     \<Rightarrow> (encrypted_channel \<times> encrypted_channel) \<times> (crypto_error + u8 list)" where
  "exchange seal unseal chs msg =
     (case fst msg of
        Controller \<Rightarrow>
          (let (a, r) = channel_encrypt seal (fst chs) (snd msg)
           in case r of Inl e \<Rightarrow> ((a, snd chs), Inl e)
              | Inr framed \<Rightarrow> let (b, d) = channel_decrypt unseal (snd chs) framed in ((a, b), d))
      | Accessory \<Rightarrow>
          (let (b, r) = channel_encrypt seal (snd chs) (snd msg)
           in case r of Inl e \<Rightarrow> ((fst chs, b), Inl e)
              | Inr framed \<Rightarrow> let (a, d) = channel_decrypt unseal (fst chs) framed in ((a, b), d)))"

primrec conversation ::
    "seal_fun \<Rightarrow> open_fun \<Rightarrow> encrypted_channel \<times> encrypted_channel \<Rightarrow> (party \<times> u8 list) list
     \<Rightarrow> (encrypted_channel \<times> encrypted_channel) \<times> (crypto_error + u8 list) list" where
  "conversation seal unseal chs [] = (chs, [])"
| "conversation seal unseal chs (msg # msgs) =
     (let (chs1, r) = exchange seal unseal chs msg; (chs2, rs) = conversation seal unseal chs1 msgs
      in (chs2, r # rs))"

definition in_step :: "control_cipher \<Rightarrow> control_cipher \<Rightarrow> bool" where
  "in_step w r \<longleftrightarrow> cc_read_key r = cc_write_key w \<and> cc_decrypt_counter r = cc_encrypt_counter w"

definition channels_in_step :: "encrypted_channel \<times> encrypted_channel \<Rightarrow> bool" where
  "channels_in_step chs \<longleftrightarrow> in_step (ec_write_cipher (fst chs)) (ec_read_cipher (snd chs))
     \<and> in_step (ec_write_cipher (snd chs)) (ec_read_cipher (fst chs))"

definition delivered :: "u8 list \<Rightarrow> crypto_error + u8 list" where
  "delivered m = (if m = [] then Inl (Encryption ''Empty plaintext'') else Inr m)"

lemma exchange_delivers:
  assumes "aead_ok seal unseal" "seals_blocks seal" "channels_in_step chs"
  shows "snd (exchange seal unseal chs msg) = delivered (snd msg)
    \<and> channels_in_step (fst (exchange seal unseal chs msg))"
proof -
  obtain a b p m where [simp]: "chs = (a, b)" "msg = (p, m)" by (cases chs; cases msg)
  have step: "in_step (ec_write_cipher a) (ec_read_cipher b)" "in_step (ec_write_cipher b) (ec_read_cipher a)"
    using assms(3) by (simp_all add: channels_in_step_def)
  have sent: "control_decrypt unseal r (frames seal (cc_write_key w) (cc_encrypt_counter w) (chunks MAX_BLOCK m))
      = (r\<lparr>cc_decrypt_counter := cc_decrypt_counter r + of_nat (length (chunks MAX_BLOCK m))\<rparr>, Inr m)"
    if "in_step w r" "m \<noteq> []" for w r
    using control_decrypt_frames [OF assms(1,2) that(2), of r] that(1) by (simp add: in_step_def)
  show ?thesis
  proof (cases "m = []")
    case True
    then show ?thesis using step
      by (cases p) (simp_all add: exchange_def channel_encrypt_def control_encrypt_def delivered_def channels_in_step_def)
  next
    case False
    then show ?thesis using step sent [OF step(1)] sent [OF step(2)]
      by (cases p) (simp_all add: exchange_def channel_encrypt_def channel_decrypt_def Let_def
          control_encrypt_frames [OF assms(2)] delivered_def channels_in_step_def in_step_def)
  qed
qed

lemma conversation_delivers:
  assumes "aead_ok seal unseal" "seals_blocks seal"
  shows "channels_in_step chs \<Longrightarrow>
   snd (conversation seal unseal chs msgs) = map (delivered \<circ> snd) msgs
   \<and> channels_in_step (fst (conversation seal unseal chs msgs))"
proof (induction msgs arbitrary: chs)
  case (Cons msg msgs)
  show ?case
    using Cons.IH [OF conjunct2 [OF exchange_delivers [OF assms Cons.prems]], of msg]
      exchange_delivers [OF assms Cons.prems, of msg]
    by (simp add: case_prod_beta Let_def)
qed simp

text \<open>A cipher that seals without hiding, to exhibit the hypotheses on a concrete input.\<close>

definition plain_seal :: seal_fun where
  "plain_seal key nonce aad msg = Inr (msg @ replicate 16 0)"

definition plain_open :: open_fun where
  "plain_open key nonce aad ct = Some (take (length ct - 16) ct)"

lemma plain_aead: "aead_ok plain_seal plain_open" "seals_blocks plain_seal"
  by (simp_all add: aead_ok_def seals_blocks_def plain_seal_def plain_open_def)

text \<open>
  C16: over any interleaving of messages in both directions, the two ends of the encrypted channel
  built from mirrored keys stay in step: every non-empty message, of any length, arrives exactly
  as it was sent, and an empty one is refused by the sender as empty plaintext without disturbing the channel.
\<close>

theorem channel_conversation:
  assumes "aead_ok seal unseal" "seals_blocks seal"
  shows "snd (conversation seal unseal (with_keys k1 k2, with_keys k2 k1) msgs) = map (delivered \<circ> snd) msgs
    \<and> channels_in_step (fst (conversation seal unseal (with_keys k1 k2, with_keys k2 k1) msgs))"
  using assms by (rule conversation_delivers)
    (simp add: channels_in_step_def in_step_def with_keys_def new_unidirectional_def control_new_def)

theorem channel_conversation_witness:
  "snd (conversation plain_seal plain_open (with_keys [1] [2], with_keys [2] [1])
      [(Controller, replicate 1500 7), (Accessory, []), (Accessory, [8, 9])])
    = [Inr (replicate 1500 7), Inl (Encryption ''Empty plaintext''), Inr [8, 9]]"
  using channel_conversation [OF plain_aead, of "[1]" "[2]"
      "[(Controller, replicate 1500 7), (Accessory, []), (Accessory, [8, 9])]"]
  by (simp add: delivered_def)

section \<open>Nonces\<close>

lemma frames_concat:
  "frames seal key counter blocks =
     concat (map (\<lambda>i. frame_block seal key (counter + of_nat i) (blocks ! i)) [0..<length blocks])"
proof (induction blocks arbitrary: counter)
  case (Cons b blocks)
  have "[0..<length (b # blocks)] = 0 # map Suc [0..<length blocks]"
    by (simp add: upt_conv_Cons map_Suc_upt del: upt_Suc)
  then show ?case by (simp add: Cons comp_def ac_simps del: upt_Suc)
qed simp

lemma length_chunks: "0 < n \<Longrightarrow> length (chunks n xs) \<le> length xs"
proof (induction n xs rule: chunks.induct)
  case (1 n xs)
  show ?case
  proof (cases "xs = []")
    case False
    then have "length (chunks n (drop n xs)) \<le> length xs - n" using 1 by simp
    then show ?thesis using False 1 by (subst chunks.simps) (cases xs, auto)
  qed simp
qed

lemma nonces_distinct:
  "n \<le> 2 ^ 64 \<Longrightarrow> distinct (map (\<lambda>i. build_nonce_from_counter (counter + of_nat i)) [0..<n])"
proof (unfold distinct_map, intro conjI inj_onI)
  fix i j
  assume "n \<le> 2 ^ 64" "i \<in> set [0..<n]" "j \<in> set [0..<n]"
    "build_nonce_from_counter (counter + of_nat i) = build_nonce_from_counter (counter + of_nat j)"
  then have "(of_nat i :: u64) = of_nat j" "i < 2 ^ 64" "j < 2 ^ 64"
    by (auto simp: build_nonce_from_counter_def le_bytes_inj)
  moreover have "unat (of_nat k :: u64) = k" if "k < 2 ^ 64" for k
    using that by (simp add: unat_of_nat)
  ultimately show "i = j" by metis
qed simp

text \<open>
  An encrypted message is the concatenation of its blocks of at most 1024 bytes, each framed
  under the counter value of its position, and no nonce is used for two of them; the counter moves
  past all of them, so the next message starts with an unused nonce.
\<close>

theorem control_encrypt_blocks:
  assumes "seals_blocks seal" "m \<noteq> []" "length m < 2 ^ 64"
  defines "n \<equiv> length (chunks MAX_BLOCK m)"
  shows "control_encrypt seal c m =
      (c\<lparr>cc_encrypt_counter := cc_encrypt_counter c + of_nat n\<rparr>,
       Inr (concat (map (\<lambda>i. frame_block seal (cc_write_key c) (cc_encrypt_counter c + of_nat i)
                              (chunks MAX_BLOCK m ! i)) [0..<n])))
    \<and> concat (chunks MAX_BLOCK m) = m \<and> list_all (\<lambda>b. length b \<le> 1024) (chunks MAX_BLOCK m)
    \<and> distinct (map (\<lambda>i. build_nonce_from_counter (cc_encrypt_counter c + of_nat i)) [0..<Suc n])"
proof (intro conjI)
  show "control_encrypt seal c m = (c\<lparr>cc_encrypt_counter := cc_encrypt_counter c + of_nat n\<rparr>,
       Inr (concat (map (\<lambda>i. frame_block seal (cc_write_key c) (cc_encrypt_counter c + of_nat i)
                              (chunks MAX_BLOCK m ! i)) [0..<n])))"
    using control_encrypt_frames [OF assms(1,2)] by (simp add: n_def frames_concat)
  show "list_all (\<lambda>b. length b \<le> 1024) (chunks MAX_BLOCK m)"
    using chunks_blocks by (simp add: list_all_iff MAX_BLOCK_def)
  have "n \<le> length m" unfolding n_def by (rule length_chunks) (simp add: MAX_BLOCK_def)
  then show "distinct (map (\<lambda>i. build_nonce_from_counter (cc_encrypt_counter c + of_nat i)) [0..<Suc n])"
    using assms(3) by (intro nonces_distinct) simp
qed (simp add: concat_chunks MAX_BLOCK_def)

theorem control_encrypt_blocks_witness:
  "concat (chunks MAX_BLOCK (replicate 3 5)) = replicate 3 (5 :: u8)
   \<and> distinct (map (\<lambda>i. build_nonce_from_counter (cc_encrypt_counter (control_new [1] [2]) + of_nat i))
       [0..<Suc (length (chunks MAX_BLOCK (replicate 3 (5 :: u8))))])"
  using control_encrypt_blocks [OF plain_aead(2), of "replicate 3 5" "control_new [1] [2]"] by simp

section \<open>Audio packets\<close>

lemma audio_cipher_inverse:
  assumes "aead_ok seal unseal" "encrypt_with_seq seal key audio ts ssrc seqnum = Inr (ct, nonce, tag)"
  shows "length nonce = 8" "length tag = 16" "length ct = length audio"
    "audio_decrypt unseal key ct nonce tag ts ssrc = Inr audio"
proof -
  obtain sealed where sealed: "seal key (replicate 4 0 @ u16_le seqnum @ replicate 6 0) (build_aad ts ssrc) audio
      = Inr sealed" and parts: "ct = take (length sealed - 16) sealed"
      "nonce = u16_le seqnum @ replicate 6 0" "tag = drop (length sealed - 16) sealed"
    using assms(2) by (auto simp: encrypt_with_seq_def Let_def split: sum.splits)
  from sealed assms(1) have opened: "length sealed = length audio + 16"
    "unseal key (replicate 4 0 @ u16_le seqnum @ replicate 6 0) (build_aad ts ssrc) sealed = Some audio"
    by (auto simp: aead_ok_def)
  show "length nonce = 8" "length tag = 16" "length ct = length audio"
    using parts opened(1) by simp_all
  show "audio_decrypt unseal key ct nonce tag ts ssrc = Inr audio"
    using opened(2) by (simp add: audio_decrypt_def build_nonce_12_def parts)
qed

section \<open>The legacy cipher\<close>

definition block_cipher_ok :: "(u8 list \<Rightarrow> u8 list) \<Rightarrow> (u8 list \<Rightarrow> u8 list) \<Rightarrow> bool" where
  "block_cipher_ok enc dec \<longleftrightarrow> (\<forall>b. length b = 16 \<longrightarrow> length (enc b) = 16 \<and> dec (enc b) = b)"

lemma xor_block_twice: "length x = length y \<Longrightarrow> xor_block (xor_block x y) y = x"
  by (induction x y rule: list_induct2) (simp_all add: xor_block_def xor.assoc)

lemma chunks_exact:
  "length b = n \<Longrightarrow> 0 < n \<Longrightarrow> chunks n (b @ rest) = b # chunks n rest"
  by (subst chunks.simps) auto

lemma cbc_encrypt_spec:
  assumes "block_cipher_ok enc dec"
  shows "list_all (\<lambda>b. length b = 16) blocks \<Longrightarrow> length prev = 16 \<Longrightarrow>
   length (cbc_encrypt_blocks enc prev blocks) = 16 * length blocks
   \<and> cbc_decrypt_blocks dec prev (chunks 16 (cbc_encrypt_blocks enc prev blocks)) = concat blocks"
proof (induction blocks arbitrary: prev)
  case (Cons b blocks)
  let ?block = "enc (xor_block b prev)"
  have len: "length (xor_block b prev) = 16" using Cons.prems by (simp add: xor_block_def)
  with assms have block: "length ?block = 16" "dec ?block = xor_block b prev"
    by (auto simp: block_cipher_ok_def)
  show ?case
    using Cons.IH [of ?block] Cons.prems block
    by (simp add: Let_def chunks_exact xor_block_twice)
qed simp

lemma chunks_full: "length xs mod n = 0 \<Longrightarrow> list_all (\<lambda>b. length b = n) (chunks n xs)"
proof (induction n xs rule: chunks.induct)
  case (1 n xs)
  show ?case
  proof (cases "n = 0 \<or> xs = []")
    case False
    then have "n \<le> length xs" using "1.prems" by (metis mod_less not_le length_0_conv)
    then show ?thesis
      using False 1 by (subst chunks.simps) (simp add: mod_if [of "length xs"] le_mod_geq)
  qed (simp add: chunks.simps)
qed

lemma length_concat_full: "list_all (\<lambda>b. length b = n) bs \<Longrightarrow> length (concat bs) = n * length bs"
  by (induction bs) auto

text \<open>
  The legacy packet cipher keeps the length of every payload and its trailing bytes outside
  full blocks, and chained decryption from the same initial vector recovers the full blocks.
\<close>

theorem raop_roundtrip:
  fixes payload :: "u8 list"
  assumes "block_cipher_ok enc dec" "length iv = 16"
  defines "full \<equiv> length payload div 16 * 16"
  shows "\<exists>ct. encrypt_raop enc iv payload = Inr ct \<and> length ct = length payload
    \<and> drop full ct = drop full payload \<and> cbc_decrypt dec iv (take full ct) = Inr (take full payload)"
proof -
  let ?ct = "cbc_encrypt_blocks enc iv (chunks 16 (take full payload))"
  have full: "length (take full payload) = full" "full mod 16 = 0" by (simp_all add: full_def)
  have spec: "length ?ct = 16 * length (chunks 16 (take full payload))"
    "cbc_decrypt_blocks dec iv (chunks 16 ?ct) = take full payload"
    using cbc_encrypt_spec [OF assms(1) chunks_full assms(2), of "take full payload"] full
    by (simp_all add: concat_chunks)
  have "length (concat (chunks 16 (take full payload))) = 16 * length (chunks 16 (take full payload))"
    using chunks_full [of "take full payload" 16] full by (intro length_concat_full) simp
  then have len: "length ?ct = full" using spec(1) full(1) by (simp add: concat_chunks)
  have "encrypt_raop enc iv payload = Inr (?ct @ drop full payload)"
    using full by (cases "full = 0") (auto simp: encrypt_raop_def cbc_encrypt_def full_def Let_def)
  then show ?thesis using len spec(2) full by (simp add: cbc_decrypt_def)
qed

theorem raop_roundtrip_witness:
  "\<exists>ct. encrypt_raop id (replicate 16 1) (replicate 20 9) = Inr ct \<and> length ct = 20
    \<and> drop 16 ct = replicate 4 9 \<and> cbc_decrypt id (replicate 16 1) (take 16 ct) = Inr (replicate 16 9)"
  using raop_roundtrip [of id id "replicate 16 1" "replicate 20 9"]
  by (simp add: block_cipher_ok_def)

end
