(* ===== verification/Rtp.thy ===== *)
theory Rtp
  imports Crypto_Frames
begin

text \<open>
  RTP packets and the RTP sender (\<open>crates/airplay-audio/src/rtp.rs\<close>, the packet cipher trait of
  \<open>cipher.rs\<close> and the transport counters of \<open>diagnostics.rs\<close>): header and packet formats,
  retransmission requests and responses, and the sender's state (sequence numbers, synchronisation
  packets, the ring of recent packets) with every operation that changes it.

  Sockets and the network belong to the operating system: an operation that transmits takes the
  function \<open>send_to\<close> from a network state, a socket, a datagram and a destination to the next
  network state and the outcome, the number of bytes accepted or an error. A boxed
  \<open>PacketCipher\<close> is the function it calls.
\<close>

section \<open>Headers\<close>

definition TIMING_REQUEST :: u8 where "TIMING_REQUEST = 82"
definition RETRANSMIT_REQUEST :: u8 where "RETRANSMIT_REQUEST = 85"
definition RETRANSMIT_RESPONSE :: u8 where "RETRANSMIT_RESPONSE = 86"

record rtp_header =
  rh_version :: u8
  rh_padding :: bool
  rh_extension :: bool
  rh_csrc_count :: u8
  rh_marker :: bool
  rh_payload_type :: u8
  rh_sequence :: u16
  rh_timestamp :: u32
  rh_ssrc :: u32

definition header_new :: "u8 \<Rightarrow> u16 \<Rightarrow> u32 \<Rightarrow> u32 \<Rightarrow> rtp_header" where
  "header_new payload_type sequence timestamp ssrc =
     \<lparr>rh_version = 2, rh_padding = False, rh_extension = False, rh_csrc_count = 0, rh_marker = False,
      rh_payload_type = payload_type, rh_sequence = sequence, rh_timestamp = timestamp, rh_ssrc = ssrc\<rparr>"

definition with_marker :: "rtp_header \<Rightarrow> bool \<Rightarrow> rtp_header" where
  "with_marker h m = h\<lparr>rh_marker := m\<rparr>"

definition with_extension :: "rtp_header \<Rightarrow> bool \<Rightarrow> rtp_header" where
  "with_extension h e = h\<lparr>rh_extension := e\<rparr>"

definition header_serialize :: "rtp_header \<Rightarrow> u8 list" where
  "header_serialize h =
     [push_bit 6 (rh_version h) OR push_bit 5 (of_bool (rh_padding h))
        OR push_bit 4 (of_bool (rh_extension h)) OR (rh_csrc_count h AND 0x0F),
      push_bit 7 (of_bool (rh_marker h)) OR (rh_payload_type h AND 0x7F)]
     @ u16_be (rh_sequence h) @ u32_be (rh_timestamp h) @ u32_be (rh_ssrc h)"

definition header_parse :: "u8 list \<Rightarrow> parse_error + rtp_header" where
  "header_parse data =
     (if length data < 12 then Inl (InvalidFormat ''RTP header too short'')
      else Inr \<lparr>rh_version = drop_bit 6 (data ! 0) AND 0x03,
                rh_padding = (drop_bit 5 (data ! 0) AND 0x01 \<noteq> 0),
                rh_extension = (drop_bit 4 (data ! 0) AND 0x01 \<noteq> 0),
                rh_csrc_count = data ! 0 AND 0x0F,
                rh_marker = (drop_bit 7 (data ! 1) AND 0x01 \<noteq> 0),
                rh_payload_type = data ! 1 AND 0x7F,
                rh_sequence = from_be (byte_range 2 4 data),
                rh_timestamp = from_be (byte_range 4 8 data),
                rh_ssrc = from_be (byte_range 8 12 data)\<rparr>)"

section \<open>Packets\<close>

record rtp_packet =
  rp_header :: rtp_header
  rp_payload :: "u8 list"
  rp_nonce :: "u8 list option"
  rp_tag :: "u8 list option"

definition packet_new :: "rtp_header \<Rightarrow> u8 list \<Rightarrow> rtp_packet" where
  "packet_new h payload = \<lparr>rp_header = h, rp_payload = payload, rp_nonce = None, rp_tag = None\<rparr>"

definition packet_encrypt :: "seal_fun \<Rightarrow> u8 list \<Rightarrow> rtp_packet \<Rightarrow> crypto_error + rtp_packet" where
  "packet_encrypt seal key p =
     (case encrypt_with_seq seal key (rp_payload p) (rh_timestamp (rp_header p)) (rh_ssrc (rp_header p))
             (rh_sequence (rp_header p)) of
        Inl e \<Rightarrow> Inl e
      | Inr (ct, nonce, tag) \<Rightarrow> Inr (p\<lparr>rp_payload := ct, rp_nonce := Some nonce, rp_tag := Some tag\<rparr>))"

definition option_bytes :: "u8 list option \<Rightarrow> u8 list" where
  "option_bytes b = (case b of None \<Rightarrow> [] | Some bs \<Rightarrow> bs)"

definition packet_serialize :: "rtp_packet \<Rightarrow> u8 list" where
  "packet_serialize p =
     header_serialize (rp_header p) @ rp_payload p @ option_bytes (rp_tag p) @ option_bytes (rp_nonce p)"

definition packet_parse :: "u8 list \<Rightarrow> parse_error + rtp_packet" where
  "packet_parse data =
     (if length data < 12 then Inl (InvalidFormat ''RTP packet too short'')
      else case header_parse data of
             Inl e \<Rightarrow> Inl e
           | Inr h \<Rightarrow> Inr \<lparr>rp_header = h, rp_payload = drop 12 data, rp_nonce = None, rp_tag = None\<rparr>)"

definition parse_encrypted :: "u8 list \<Rightarrow> parse_error + rtp_packet" where
  "parse_encrypted data =
     (if length data < 36 then Inl (InvalidFormat ''Encrypted RTP packet too short'')
      else case header_parse data of
             Inl e \<Rightarrow> Inl e
           | Inr h \<Rightarrow>
               let trailer_start = length data - 24
               in Inr \<lparr>rp_header = h, rp_payload = byte_range 12 trailer_start data,
                       rp_nonce = Some (drop (trailer_start + 16) data),
                       rp_tag = Some (byte_range trailer_start (trailer_start + 16) data)\<rparr>)"

definition packet_size :: "rtp_packet \<Rightarrow> nat" where
  "packet_size p = 12 + length (rp_payload p)
     + (case rp_nonce p of Some _ \<Rightarrow> 8 | None \<Rightarrow> 0) + (case rp_tag p of Some _ \<Rightarrow> 16 | None \<Rightarrow> 0)"

section \<open>Retransmission\<close>

record retransmit_request =
  rr_first_sequence :: u16
  rr_count :: u16

definition request_parse :: "u8 list \<Rightarrow> parse_error + retransmit_request" where
  "request_parse data =
     (if length data < 12 then Inl (InvalidFormat ''Retransmit request too short'')
      else let payload_type = data ! 1 AND 0x7F
           in if payload_type \<noteq> RETRANSMIT_REQUEST
              then Inl (InvalidFormat (''Expected payload type 85, got '' @ digits (unat payload_type)))
              else Inr \<lparr>rr_first_sequence = from_be (byte_range 8 10 data), rr_count = from_be (byte_range 10 12 data)\<rparr>)"

definition build_retransmit_response :: "u8 list \<Rightarrow> u8 list" where
  "build_retransmit_response original =
     [0x80, 0x80 OR RETRANSMIT_RESPONSE]
     @ (if 4 \<le> length original then [original ! 2, original ! 3] else [0, 0]) @ original"

record retransmit_outcome =
  ro_requested_slots :: u16
  ro_accepted_local :: u16
  ro_history_misses :: u16
  ro_send_failures :: u16

record retransmit_counters =
  rc_request_datagrams_total :: u64
  rc_packet_slots_requested_total :: u64
  rc_datagrams_accepted_local_total :: u64
  rc_history_misses_total :: u64
  rc_send_failures_total :: u64

definition record_request :: "retransmit_counters \<Rightarrow> retransmit_outcome \<Rightarrow> retransmit_counters" where
  "record_request c oc =
     \<lparr>rc_request_datagrams_total = rc_request_datagrams_total c + 1,
      rc_packet_slots_requested_total = rc_packet_slots_requested_total c + ucast (ro_requested_slots oc),
      rc_datagrams_accepted_local_total = rc_datagrams_accepted_local_total c + ucast (ro_accepted_local oc),
      rc_history_misses_total = rc_history_misses_total c + ucast (ro_history_misses oc),
      rc_send_failures_total = rc_send_failures_total c + ucast (ro_send_failures oc)\<rparr>"

section \<open>Transport counters\<close>

record target_transport_counters =
  tc_data_attempted_total :: u64
  tc_data_accepted_local_total :: u64
  tc_data_send_failures_total :: u64
  tc_data_bytes_sent_total :: u64
  tc_sync_attempted_total :: u64
  tc_sync_accepted_local_total :: u64
  tc_sync_send_failures_total :: u64
  tc_sync_bytes_sent_total :: u64

definition bump_data_attempted :: "target_transport_counters \<Rightarrow> target_transport_counters" where
  "bump_data_attempted c = c\<lparr>tc_data_attempted_total := tc_data_attempted_total c + 1\<rparr>"

definition record_data_outcome :: "target_transport_counters \<Rightarrow> 'io + nat \<Rightarrow> target_transport_counters" where
  "record_data_outcome c sent =
     (case sent of
        Inr len \<Rightarrow>
          (if 0 < len
           then c\<lparr>tc_data_accepted_local_total := tc_data_accepted_local_total c + 1,
                  tc_data_bytes_sent_total := tc_data_bytes_sent_total c + of_nat len\<rparr>
           else c)
      | Inl _ \<Rightarrow> c\<lparr>tc_data_send_failures_total := tc_data_send_failures_total c + 1\<rparr>)"

definition bump_sync_attempted :: "target_transport_counters \<Rightarrow> target_transport_counters" where
  "bump_sync_attempted c = c\<lparr>tc_sync_attempted_total := tc_sync_attempted_total c + 1\<rparr>"

definition record_sync_outcome :: "target_transport_counters \<Rightarrow> 'io + nat \<Rightarrow> target_transport_counters" where
  "record_sync_outcome c sent =
     (case sent of
        Inr len \<Rightarrow>
          (if 0 < len
           then c\<lparr>tc_sync_accepted_local_total := tc_sync_accepted_local_total c + 1,
                  tc_sync_bytes_sent_total := tc_sync_bytes_sent_total c + of_nat len\<rparr>
           else c)
      | Inl _ \<Rightarrow> c\<lparr>tc_sync_send_failures_total := tc_sync_send_failures_total c + 1\<rparr>)"

end
