(* ===== verification/Rtp_Sender.thy ===== *)
theory Rtp_Sender
  imports Rtp Core_Types
begin

text \<open>
  The RTP sender of \<open>rtp.rs\<close>: its state and every operation that changes it or transmits. The
  counters a sender shares with diagnostics are a field of its state; an operation that transmits
  returns the next network state beside the sender and its result.
\<close>

section \<open>State\<close>

record encrypted_payload =
  ep_data :: "u8 list"
  ep_tag :: "u8 list option"
  ep_nonce :: "u8 list option"

type_synonym packet_cipher = "u8 list \<Rightarrow> u32 \<Rightarrow> u32 \<Rightarrow> u16 \<Rightarrow> crypto_error + encrypted_payload"

definition chacha_packet_cipher :: "seal_fun \<Rightarrow> u8 list \<Rightarrow> packet_cipher" where
  "chacha_packet_cipher seal key payload timestamp ssrc sequence =
     (case encrypt_with_seq seal key payload timestamp ssrc sequence of
        Inl e \<Rightarrow> Inl e
      | Inr (ct, nonce, tag) \<Rightarrow> Inr \<lparr>ep_data = ct, ep_tag = Some tag, ep_nonce = Some nonce\<rparr>)"

definition aes_cbc_packet_cipher :: "(u8 list \<Rightarrow> u8 list) \<Rightarrow> u8 list \<Rightarrow> packet_cipher" where
  "aes_cbc_packet_cipher enc iv payload timestamp ssrc sequence =
     (case encrypt_raop enc iv payload of
        Inl e \<Rightarrow> Inl e
      | Inr ct \<Rightarrow> Inr \<lparr>ep_data = ct, ep_tag = None, ep_nonce = None\<rparr>)"

definition PACKET_HISTORY_SIZE :: nat where "PACKET_HISTORY_SIZE = 512"

record 'sock rtp_sender =
  rs_socket :: "'sock option"
  rs_dest :: socket_addr
  rs_control_dest :: "socket_addr option"
  rs_control_socket :: "'sock option"
  rs_sequence :: u16
  rs_ssrc :: u32
  rs_cipher :: "packet_cipher option"
  rs_sync_sequence :: u16
  rs_first_sync_sent :: bool
  rs_packet_history :: "u8 list option list"
  rs_transport_counters :: "target_transport_counters option"

type_synonym ('net, 'sock, 'io) send_fun =
  "'net \<Rightarrow> 'sock \<Rightarrow> u8 list \<Rightarrow> socket_addr \<Rightarrow> 'net \<times> ('io + nat)"

definition sender_new :: "socket_addr \<Rightarrow> u32 \<Rightarrow> 'sock rtp_sender" where
  "sender_new dest ssrc =
     \<lparr>rs_socket = None, rs_dest = dest, rs_control_dest = None, rs_control_socket = None,
      rs_sequence = 0, rs_ssrc = ssrc, rs_cipher = None, rs_sync_sequence = 0,
      rs_first_sync_sent = False, rs_packet_history = replicate PACKET_HISTORY_SIZE None,
      rs_transport_counters = None\<rparr>"

definition set_control_dest :: "'sock rtp_sender \<Rightarrow> socket_addr \<Rightarrow> 'sock rtp_sender" where
  "set_control_dest s dest = s\<lparr>rs_control_dest := Some dest\<rparr>"

definition set_control_socket :: "'sock rtp_sender \<Rightarrow> 'sock \<Rightarrow> 'sock rtp_sender" where
  "set_control_socket s sock = s\<lparr>rs_control_socket := Some sock\<rparr>"

definition set_transport_counters ::
    "'sock rtp_sender \<Rightarrow> target_transport_counters \<Rightarrow> 'sock rtp_sender" where
  "set_transport_counters s c = s\<lparr>rs_transport_counters := Some c\<rparr>"

definition set_cipher :: "'sock rtp_sender \<Rightarrow> packet_cipher \<Rightarrow> 'sock rtp_sender" where
  "set_cipher s c = s\<lparr>rs_cipher := Some c\<rparr>"

definition reset_sync_state :: "'sock rtp_sender \<Rightarrow> 'sock rtp_sender" where
  "reset_sync_state s = s\<lparr>rs_first_sync_sent := False\<rparr>"

text \<open>The socket and destination of control packets, with their fallbacks.\<close>

definition control_destination :: "'sock rtp_sender \<Rightarrow> socket_addr" where
  "control_destination s = (case rs_control_dest s of Some d \<Rightarrow> d | None \<Rightarrow> rs_dest s)"

definition control_channel :: "'sock rtp_sender \<Rightarrow> 'sock option" where
  "control_channel s = (case rs_control_socket s of Some k \<Rightarrow> Some k | None \<Rightarrow> rs_socket s)"

definition not_bound :: "'io air_error" where
  "not_bound = Err_Streaming (Encoding ''Socket not bound'')"

definition count :: "(target_transport_counters \<Rightarrow> target_transport_counters) \<Rightarrow> 'sock rtp_sender \<Rightarrow> 'sock rtp_sender" where
  "count f s = s\<lparr>rs_transport_counters := map_option f (rs_transport_counters s)\<rparr>"

definition io_result :: "'io + nat \<Rightarrow> 'io air_error + unit" where
  "io_result sent = (case sent of Inl e \<Rightarrow> Inl (Err_Connection e) | Inr _ \<Rightarrow> Inr ())"

text \<open>The two transmissions with their accounting, shared by the data and the control path.\<close>

definition transmit_data ::
    "('net, 'sock, 'io) send_fun \<Rightarrow> 'net \<Rightarrow> 'sock rtp_sender \<Rightarrow> u8 list
     \<Rightarrow> 'net \<times> 'sock rtp_sender \<times> ('io air_error + unit)" where
  "transmit_data send_to net s wire =
     (case rs_socket s of
        None \<Rightarrow> (net, s, Inl not_bound)
      | Some sock \<Rightarrow>
          let s1 = count bump_data_attempted s;
              (net', sent) = send_to net sock wire (rs_dest s)
          in (net', count (\<lambda>c. record_data_outcome c sent) s1, io_result sent))"

definition transmit_control ::
    "('net, 'sock, 'io) send_fun \<Rightarrow> 'net \<Rightarrow> 'sock rtp_sender \<Rightarrow> u8 list
     \<Rightarrow> 'net \<times> 'sock rtp_sender \<times> ('io air_error + unit)" where
  "transmit_control send_to net s wire =
     (case control_channel s of
        None \<Rightarrow> (net, s, Inl not_bound)
      | Some sock \<Rightarrow>
          let s1 = count bump_sync_attempted s;
              (net', sent) = send_to net sock wire (control_destination s)
          in (net', count (\<lambda>c. record_sync_outcome c sent) s1, io_result sent))"

section \<open>Audio packets\<close>

definition send_packet ::
    "('net, 'sock, 'io) send_fun \<Rightarrow> 'net \<Rightarrow> 'sock rtp_sender \<Rightarrow> rtp_packet
     \<Rightarrow> 'net \<times> 'sock rtp_sender \<times> ('io air_error + unit)" where
  "send_packet send_to net s packet = transmit_data send_to net s (packet_serialize packet)"

definition audio_wire ::
    "'sock rtp_sender \<Rightarrow> u8 \<Rightarrow> u32 \<Rightarrow> u8 list \<Rightarrow> bool \<Rightarrow> crypto_error + u8 list" where
  "audio_wire s payload_type timestamp payload marker =
     (let h = with_marker (header_new payload_type (rs_sequence s) timestamp (rs_ssrc s)) marker
      in case rs_cipher s of
           Some cipher \<Rightarrow>
             (case cipher payload timestamp (rs_ssrc s) (rs_sequence s) of
                Inl e \<Rightarrow> Inl e
              | Inr encrypted \<Rightarrow>
                  Inr (header_serialize h @ ep_data encrypted
                       @ option_bytes (ep_tag encrypted) @ option_bytes (ep_nonce encrypted)))
         | None \<Rightarrow> Inr (packet_serialize (packet_new h payload)))"

definition serialize_audio ::
    "'sock rtp_sender \<Rightarrow> u8 \<Rightarrow> u32 \<Rightarrow> u8 list \<Rightarrow> bool
     \<Rightarrow> 'sock rtp_sender \<times> ('io air_error + u8 list)" where
  "serialize_audio s payload_type timestamp payload marker =
     (case audio_wire s payload_type timestamp payload marker of
        Inl e \<Rightarrow> (s, Inl (Err_Crypto e))
      | Inr serialized \<Rightarrow>
          let idx = unat (rs_sequence s) mod PACKET_HISTORY_SIZE
          in (s\<lparr>rs_packet_history := (rs_packet_history s)[idx := Some serialized],
                rs_sequence := rs_sequence s + 1\<rparr>, Inr serialized))"

definition send_audio ::
    "('net, 'sock, 'io) send_fun \<Rightarrow> 'net \<Rightarrow> 'sock rtp_sender \<Rightarrow> u8 \<Rightarrow> u32 \<Rightarrow> u8 list \<Rightarrow> bool
     \<Rightarrow> 'net \<times> 'sock rtp_sender \<times> ('io air_error + unit)" where
  "send_audio send_to net s payload_type timestamp payload marker =
     (case serialize_audio s payload_type timestamp payload marker of
        (s1, Inl e) \<Rightarrow> (net, s1, Inl e)
      | (s1, Inr wire) \<Rightarrow> transmit_data send_to net s1 wire)"

definition prepare_audio ::
    "'sock rtp_sender \<Rightarrow> u8 \<Rightarrow> u32 \<Rightarrow> u8 list \<Rightarrow> bool
     \<Rightarrow> 'sock rtp_sender \<times> ('io air_error + u8 list)" where
  "prepare_audio s payload_type timestamp payload marker =
     serialize_audio s payload_type timestamp payload marker"

definition send_prepared_audio ::
    "('net, 'sock, 'io) send_fun \<Rightarrow> 'net \<Rightarrow> 'sock rtp_sender \<Rightarrow> u8 list
     \<Rightarrow> 'net \<times> 'sock rtp_sender \<times> ('io air_error + unit)" where
  "send_prepared_audio send_to net s wire = transmit_data send_to net s wire"

section \<open>Synchronisation packets\<close>

definition send_prepared_sync ::
    "('net, 'sock, 'io) send_fun \<Rightarrow> 'net \<Rightarrow> 'sock rtp_sender \<Rightarrow> u8 list
     \<Rightarrow> 'net \<times> 'sock rtp_sender \<times> ('io air_error + unit)" where
  "send_prepared_sync send_to net s wire = transmit_control send_to net s wire"

definition sync_type :: "'sock rtp_sender \<Rightarrow> u8" where
  "sync_type s = (if \<not> rs_first_sync_sent s then 0x90 else 0x80)"

definition sync_sent :: "'sock rtp_sender \<Rightarrow> 'sock rtp_sender" where
  "sync_sent s = s\<lparr>rs_first_sync_sent := True, rs_sync_sequence := rs_sync_sequence s + 1\<rparr>"

definition send_sync ::
    "('net, 'sock, 'io) send_fun \<Rightarrow> 'net \<Rightarrow> 'sock rtp_sender \<Rightarrow> u32 \<Rightarrow> u64
     \<Rightarrow> 'net \<times> 'sock rtp_sender \<times> ('io air_error + unit)" where
  "send_sync send_to net s rtp_timestamp ntp_timestamp =
     (let dest = control_destination s
      in if sa_port dest = 0 then (net, s, Inr ())
         else case control_channel s of
                None \<Rightarrow> (net, s, Inl not_bound)
              | Some sock \<Rightarrow>
                  let packet = [sync_type s, 0xd4] @ u16_be (rs_sync_sequence s) @ u32_be rtp_timestamp
                                 @ u64_be ntp_timestamp @ u32_be rtp_timestamp;
                      s1 = count bump_sync_attempted (sync_sent s);
                      (net', sent) = send_to net sock packet dest
                  in (net', count (\<lambda>c. record_sync_outcome c sent) s1, io_result sent))"

definition prepare_sync ::
    "'sock rtp_sender \<Rightarrow> u32 \<Rightarrow> u64 \<Rightarrow> 'sock rtp_sender \<times> ('io air_error + u8 list option)" where
  "prepare_sync s rtp_timestamp ntp_timestamp =
     (if sa_port (control_destination s) = 0 then (s, Inr None)
      else (sync_sent s,
            Inr (Some ([sync_type s, 0xd4] @ u16_be (rs_sync_sequence s) @ u32_be rtp_timestamp
                       @ u64_be ntp_timestamp @ u32_be rtp_timestamp))))"

definition ptp_seconds :: "u64 \<Rightarrow> u32" where
  "ptp_seconds ns = ucast (ns div 1000000000)"

definition ptp_fraction :: "u64 \<Rightarrow> u32" where
  "ptp_fraction ns = ucast (push_bit 32 (ns mod 1000000000) div 1000000000)"

definition prepare_ptp_sync ::
    "'sock rtp_sender \<Rightarrow> u32 \<Rightarrow> u64 \<Rightarrow> u32 \<Rightarrow> u8 list
     \<Rightarrow> 'sock rtp_sender \<times> ('io air_error + u8 list option)" where
  "prepare_ptp_sync s current_rtp_ts ptp_clock_ns next_rtp_ts master_clock_id =
     (if sa_port (control_destination s) = 0 then (s, Inr None)
      else (sync_sent s,
            Inr (Some ([sync_type s, 0xD7] @ u16_be (rs_sync_sequence s) @ u32_be current_rtp_ts
                       @ u32_be (ptp_seconds ptp_clock_ns) @ u32_be (ptp_fraction ptp_clock_ns)
                       @ u32_be next_rtp_ts @ master_clock_id))))"

definition send_ptp_sync ::
    "('net, 'sock, 'io) send_fun \<Rightarrow> 'net \<Rightarrow> 'sock rtp_sender \<Rightarrow> u32 \<Rightarrow> u64 \<Rightarrow> u32 \<Rightarrow> u8 list
     \<Rightarrow> 'net \<times> 'sock rtp_sender \<times> ('io air_error + unit)" where
  "send_ptp_sync send_to net s current_rtp_ts ptp_clock_ns next_rtp_ts master_clock_id =
     (case prepare_ptp_sync s current_rtp_ts ptp_clock_ns next_rtp_ts master_clock_id of
        (s1, Inl e) \<Rightarrow> (net, s1, Inl e)
      | (s1, Inr None) \<Rightarrow> (net, s1, Inr ())
      | (s1, Inr (Some packet)) \<Rightarrow> transmit_control send_to net s1 packet)"

section \<open>Retransmission\<close>

definition history_lookup :: "'sock rtp_sender \<Rightarrow> u16 \<Rightarrow> u8 list option" where
  "history_lookup s seqnum =
     (case rs_packet_history s ! (unat seqnum mod PACKET_HISTORY_SIZE) of
        Some original \<Rightarrow>
          (if 4 \<le> length original \<and> from_be (byte_range 2 4 original) = seqnum then Some original else None)
      | None \<Rightarrow> None)"

definition retransmit_step ::
    "('net, 'sock, 'io) send_fun \<Rightarrow> 'sock rtp_sender \<Rightarrow> u16 \<Rightarrow> 'net \<times> retransmit_outcome
     \<Rightarrow> 'net \<times> retransmit_outcome" where
  "retransmit_step send_to s seqnum acc =
     (let (net, oc) = acc
      in case history_lookup s seqnum of
           None \<Rightarrow> (net, oc\<lparr>ro_history_misses := saturating_add (ro_history_misses oc) 1\<rparr>)
         | Some original \<Rightarrow>
             (case control_channel s of
                None \<Rightarrow> (net, oc\<lparr>ro_send_failures := saturating_add (ro_send_failures oc) 1\<rparr>)
              | Some sock \<Rightarrow>
                  let (net', sent) = send_to net sock (build_retransmit_response original) (control_destination s)
                  in case sent of
                       Inr n \<Rightarrow>
                         (if 0 < n
                          then (net', oc\<lparr>ro_accepted_local := saturating_add (ro_accepted_local oc) 1\<rparr>)
                          else (net', oc))
                     | Inl _ \<Rightarrow> (net', oc\<lparr>ro_send_failures := saturating_add (ro_send_failures oc) 1\<rparr>)))"

definition requested_sequences :: "retransmit_request \<Rightarrow> u16 list" where
  "requested_sequences r = map (\<lambda>i. rr_first_sequence r + of_nat i) [0..<unat (rr_count r)]"

definition handle_retransmit ::
    "('net, 'sock, 'io) send_fun \<Rightarrow> 'net \<Rightarrow> 'sock rtp_sender \<Rightarrow> retransmit_request
     \<Rightarrow> 'net \<times> retransmit_outcome" where
  "handle_retransmit send_to net s r =
     foldl (\<lambda>acc q. retransmit_step send_to s q acc)
       (net, \<lparr>ro_requested_slots = rr_count r, ro_accepted_local = 0, ro_history_misses = 0,
              ro_send_failures = 0\<rparr>)
       (requested_sequences r)"

end
