(* ===== verification/Rtp_Properties.thy ===== *)
theory Rtp_Properties
  imports Rtp_Sender Crypto_Properties
begin

text \<open>
  What the RTP layer promises: exact header and packet formats, an encrypted audio packet that the
  receiving side of the same crate opens to the payload, a history that answers exactly the last
  512 packets, and the accounting of retransmissions.
\<close>

section \<open>Bits of the first two bytes\<close>

lemma bit_test: "drop_bit n (d :: u8) AND 0x01 \<noteq> 0 \<longleftrightarrow> bit d n"
  by (simp add: and_one_eq bit_iff_odd_drop_bit odd_iff_mod_2_eq_one)

lemma first_byte_parts:
  fixes v c :: u8 and p x :: bool
  defines "b \<equiv> push_bit 6 v OR push_bit 5 (of_bool p) OR push_bit 4 (of_bool x) OR (c AND 0x0F)"
  shows "drop_bit 6 b AND 0x03 = v AND 0x03" "bit b 5 = p" "bit b 4 = x" "b AND 0x0F = c AND 0x0F"
  unfolding b_def and_masks
  by (auto intro!: bit_word_eqI simp: bit_simps dest!: u8_cases)

lemma first_byte_join:
  "push_bit 6 (drop_bit 6 d AND 0x03) OR push_bit 5 (of_bool (bit d 5)) OR push_bit 4 (of_bool (bit d 4))
     OR ((d AND 0x0F) AND 0x0F) = (d :: u8)"
  unfolding and_masks by (rule bit_word_eqI) (auto simp: bit_simps dest!: u8_cases)

lemma second_byte_parts:
  fixes t :: u8 and m :: bool
  defines "b \<equiv> push_bit 7 (of_bool m) OR (t AND 0x7F)"
  shows "bit b 7 = m" "b AND 0x7F = t AND 0x7F"
  unfolding b_def and_masks
  by (auto intro!: bit_word_eqI simp: bit_simps dest!: u8_cases)

lemma second_byte_join:
  "push_bit 7 (of_bool (bit d 7)) OR ((d AND 0x7F) AND 0x7F) = (d :: u8)"
  unfolding and_masks by (rule bit_word_eqI) (auto simp: bit_simps dest!: u8_cases)

section \<open>Headers and packets\<close>

lemma length_header_serialize [simp]: "length (header_serialize h) = 12"
  by (simp add: header_serialize_def)

definition header_normal :: "rtp_header \<Rightarrow> rtp_header" where
  "header_normal h = h\<lparr>rh_version := rh_version h AND 0x03, rh_csrc_count := rh_csrc_count h AND 0x0F,
     rh_payload_type := rh_payload_type h AND 0x7F\<rparr>"

lemma header_fields:
  "byte_range 2 4 (header_serialize h @ rest) = u16_be (rh_sequence h)"
  "byte_range 4 8 (header_serialize h @ rest) = u32_be (rh_timestamp h)"
  "byte_range 8 12 (header_serialize h @ rest) = u32_be (rh_ssrc h)"
  by (simp_all add: header_serialize_def byte_range_def)

lemma header_parse_serialize: "header_parse (header_serialize h @ rest) = Inr (header_normal h)"
proof -
  have "(header_serialize h @ rest) ! 0 = push_bit 6 (rh_version h) OR push_bit 5 (of_bool (rh_padding h))
        OR push_bit 4 (of_bool (rh_extension h)) OR (rh_csrc_count h AND 0x0F)"
    "(header_serialize h @ rest) ! 1 = push_bit 7 (of_bool (rh_marker h)) OR (rh_payload_type h AND 0x7F)"
    by (simp_all add: header_serialize_def)
  then have bytes: "header_parse (header_serialize h @ rest) =
      Inr \<lparr>rh_version = rh_version h AND 0x03, rh_padding = rh_padding h, rh_extension = rh_extension h,
           rh_csrc_count = rh_csrc_count h AND 0x0F, rh_marker = rh_marker h,
           rh_payload_type = rh_payload_type h AND 0x7F, rh_sequence = from_be (u16_be (rh_sequence h)),
           rh_timestamp = from_be (u32_be (rh_timestamp h)), rh_ssrc = from_be (u32_be (rh_ssrc h))\<rparr>"
    by (simp only: header_parse_def bit_test first_byte_parts second_byte_parts header_fields
        length_append length_header_serialize) simp
  show ?thesis unfolding bytes by (simp add: header_normal_def)
qed

lemma take_12_slices:
  "12 \<le> length data \<Longrightarrow>
   take 12 data = [data ! 0, data ! 1] @ byte_range 2 4 data @ byte_range 4 8 data @ byte_range 8 12 data"
  by (rule nth_equalityI) (auto simp: byte_range_def nth_append nth_Cons split: nat.splits)

lemma header_serialize_parse:
  assumes "12 \<le> length data"
  shows "\<exists>h. header_parse data = Inr h \<and> header_serialize h = take 12 data"
proof -
  have "u16_be (from_be (byte_range 2 4 data)) = byte_range 2 4 data"
    "u32_be (from_be (byte_range 4 8 data)) = byte_range 4 8 data"
    "u32_be (from_be (byte_range 8 12 data)) = byte_range 8 12 data"
    using be_bytes_range [of 4 data 2, where ?'a = 16] be_bytes_range [of 8 data 4, where ?'a = 32]
      be_bytes_range [of 12 data 8, where ?'a = 32] assms by simp_all
  then show ?thesis
    using assms
    by (simp only: header_parse_def header_serialize_def rtp_header.simps bit_test not_less [symmetric]
        if_False sum.inject ex_simps simp_thms take_12_slices [OF assms] first_byte_join second_byte_join)
qed

definition packet_wf :: "rtp_packet \<Rightarrow> bool" where
  "packet_wf p \<longleftrightarrow> header_normal (rp_header p) = rp_header p
     \<and> (case rp_nonce p of Some n \<Rightarrow> length n = 8 | None \<Rightarrow> True)
     \<and> (case rp_tag p of Some t \<Rightarrow> length t = 16 | None \<Rightarrow> True)"

lemma header_parse_normal: "header_parse data = Inr h \<Longrightarrow> header_normal h = h"
  using header_parse_serialize [of h "drop 12 data"] header_serialize_parse [of data]
  by (auto simp: header_parse_def split: if_splits)

lemma header_parse_take:
  "header_parse data = Inr h \<Longrightarrow> 12 \<le> length data \<and> header_serialize h = take 12 data"
  using header_serialize_parse [of data] by (auto simp: header_parse_def split: if_splits)

lemma packet_parse_serialize: "packet_parse data = Inr p \<Longrightarrow> packet_wf p \<and> packet_serialize p = data"
  using header_parse_take [of data] header_parse_normal [of data]
  by (auto simp: packet_parse_def packet_wf_def packet_serialize_def option_bytes_def split: if_splits sum.splits)

lemma parse_encrypted_serialize:
  assumes "parse_encrypted data = Inr p"
  shows "packet_wf p \<and> packet_serialize p = data"
proof -
  obtain h where h: "header_parse data = Inr h" "36 \<le> length data"
    and p: "p = \<lparr>rp_header = h, rp_payload = byte_range 12 (length data - 24) data,
       rp_nonce = Some (drop (length data - 24 + 16) data),
       rp_tag = Some (byte_range (length data - 24) (length data - 24 + 16) data)\<rparr>"
    using assms by (auto simp: parse_encrypted_def Let_def split: if_splits sum.splits)
  have split: "drop i data = take (j - i) (drop i data) @ drop j data" if "i \<le> j" for i j
    using that by (metis append_take_drop_id drop_drop le_add_diff_inverse2)
  have "data = take 12 data @ byte_range 12 (length data - 24) data
      @ byte_range (length data - 24) (length data - 24 + 16) data @ drop (length data - 24 + 16) data"
    using h(2) split [of 12 "length data - 24"] split [of "length data - 24" "length data - 24 + 16"]
    by (simp add: byte_range_def)
  then show ?thesis
    using header_parse_take [OF h(1)] header_parse_normal [OF h(1)] h(2)
    by (simp add: p packet_wf_def packet_serialize_def option_bytes_def byte_range_def)
qed

lemma parse_encrypted_packet:
  assumes "packet_wf p" "rp_nonce p = Some n" "rp_tag p = Some t"
  shows "parse_encrypted (packet_serialize p) = Inr p"
proof -
  have len: "length n = 8" "length t = 16" "header_normal (rp_header p) = rp_header p"
    using assms by (simp_all add: packet_wf_def)
  have "packet_serialize p = header_serialize (rp_header p) @ rp_payload p @ t @ n"
    using assms by (simp add: packet_serialize_def option_bytes_def)
  then show ?thesis
    using len assms(2,3) header_parse_serialize [of "rp_header p" "rp_payload p @ t @ n"]
    by (cases p) (simp add: parse_encrypted_def Let_def byte_range_def)
qed

text \<open>
  Parsing a datagram, encrypted or not, yields only well-formed packets (fields within their
  bit widths, an eight-byte nonce, a sixteen-byte tag) that serialise back to exactly that
  datagram; conversely every well-formed encrypted packet parses back from its serialisation, and
  its size is the announced one.
\<close>

theorem rtp_packet_wellformed:
  "(packet_parse data = Inr p \<or> parse_encrypted data = Inr p \<longrightarrow>
      packet_wf p \<and> packet_serialize p = data)
   \<and> (packet_wf q \<longrightarrow> length (packet_serialize q) = packet_size q)
   \<and> (packet_wf q \<and> rp_nonce q = Some n \<and> rp_tag q = Some t \<longrightarrow>
      parse_encrypted (packet_serialize q) = Inr q)"
  using packet_parse_serialize parse_encrypted_serialize parse_encrypted_packet
  by (auto simp: packet_wf_def packet_serialize_def packet_size_def option_bytes_def split: option.splits)

definition demo_packet :: rtp_packet where
  "demo_packet = \<lparr>rp_header = header_new 96 7 352 9, rp_payload = [1, 2, 3],
     rp_nonce = Some (replicate 8 0), rp_tag = Some (replicate 16 5)\<rparr>"

theorem rtp_packet_wellformed_witness:
  "parse_encrypted (packet_serialize demo_packet) = Inr demo_packet
   \<and> length (packet_serialize demo_packet) = 39"
  using rtp_packet_wellformed [of "[]" demo_packet demo_packet "replicate 8 0" "replicate 16 5"]
  by (simp add: demo_packet_def packet_wf_def header_normal_def header_new_def packet_size_def)

section \<open>The sender\<close>

lemma serialize_audio_Inr:
  "serialize_audio s pt ts payload m = (s', Inr wire) \<longleftrightarrow>
   audio_wire s pt ts payload m = Inr wire
   \<and> s' = s\<lparr>rs_packet_history := (rs_packet_history s)[unat (rs_sequence s) mod PACKET_HISTORY_SIZE := Some wire],
            rs_sequence := rs_sequence s + 1\<rparr>"
  by (auto simp: serialize_audio_def Let_def split: sum.splits)

lemma audio_wire_sequence:
  "audio_wire s pt ts payload m = Inr wire \<Longrightarrow>
   4 \<le> length wire \<and> from_be (byte_range 2 4 wire) = rs_sequence s"
  by (auto simp: audio_wire_def Let_def packet_serialize_def packet_new_def header_fields with_marker_def
      header_new_def split: option.splits sum.splits)

text \<open>
  C20: an audio packet encrypted with the AirPlay 2 cipher is exactly what the receiving side
  expects: its datagram parses to a packet with the sender's header, and opening it with the
  shared key, its own nonce and tag, timestamp and source yields the audio payload.
\<close>

theorem audio_packet_opens:
  assumes "aead_ok seal unseal" "rs_cipher s = Some (chacha_packet_cipher seal key)"
    and "serialize_audio s pt ts payload m = (s', Inr wire)" "pt AND 0x7F = pt"
  shows "\<exists>ct nonce tag. parse_encrypted wire =
      Inr \<lparr>rp_header = with_marker (header_new pt (rs_sequence s) ts (rs_ssrc s)) m,
           rp_payload = ct, rp_nonce = Some nonce, rp_tag = Some tag\<rparr>
    \<and> audio_decrypt unseal key ct nonce tag ts (rs_ssrc s) = Inr payload"
proof -
  let ?h = "with_marker (header_new pt (rs_sequence s) ts (rs_ssrc s)) m"
  obtain ct nonce tag where enc: "encrypt_with_seq seal key payload ts (rs_ssrc s) (rs_sequence s)
      = Inr (ct, nonce, tag)" and wire: "wire = header_serialize ?h @ ct @ tag @ nonce"
    using assms(2,3) by (auto simp: serialize_audio_Inr audio_wire_def chacha_packet_cipher_def Let_def
        option_bytes_def split: sum.splits)
  let ?p = "\<lparr>rp_header = ?h, rp_payload = ct, rp_nonce = Some nonce, rp_tag = Some tag\<rparr>"
  note opened = audio_cipher_inverse [OF assms(1) enc]
  have "packet_wf ?p" using opened(1,2) assms(4)
    by (simp add: packet_wf_def header_normal_def with_marker_def header_new_def)
  then have "parse_encrypted wire = Inr ?p"
    using parse_encrypted_packet [of ?p nonce tag] by (simp add: packet_serialize_def option_bytes_def wire)
  then show ?thesis using opened(4) by blast
qed

definition demo_dest :: socket_addr where "demo_dest = \<lparr>sa_ip = V4 0x0A000002, sa_port = 6001\<rparr>"

definition demo_sender :: "nat rtp_sender" where
  "demo_sender = set_cipher (sender_new demo_dest 9) (chacha_packet_cipher plain_seal [3])"

theorem audio_packet_opens_witness:
  "\<exists>ct nonce tag. parse_encrypted (case snd (serialize_audio demo_sender 96 352 [1, 2] True :: _ \<times> (unit air_error + _)) of
         Inr wire \<Rightarrow> wire | Inl _ \<Rightarrow> []) =
      Inr \<lparr>rp_header = with_marker (header_new 96 (rs_sequence demo_sender) 352 (rs_ssrc demo_sender)) True,
           rp_payload = ct, rp_nonce = Some nonce, rp_tag = Some tag\<rparr>
    \<and> audio_decrypt plain_open [3] ct nonce tag 352 (rs_ssrc demo_sender) = Inr [1, 2]"
proof -
  obtain s' wire where run: "serialize_audio demo_sender 96 352 [1, 2] True = (s', Inr wire :: unit air_error + _)"
    by (auto simp: serialize_audio_def audio_wire_def demo_sender_def set_cipher_def sender_new_def
        chacha_packet_cipher_def encrypt_with_seq_def plain_seal_def Let_def)
  show ?thesis
    using audio_packet_opens [OF plain_aead(1) _ run, of "[3]"]
    by (simp add: run) (simp add: demo_sender_def set_cipher_def)
qed

end
