(* ===== verification/Rtp_History.thy ===== *)
theory Rtp_History
  imports Rtp_Properties
begin

text \<open>
  The ring of recent packets, retransmission and synchronisation over runs of the sender: which
  sequence numbers the history answers, how a retransmission request is accounted, and that the
  two ways to emit a synchronisation packet agree.
\<close>

section \<open>Runs of audio packets\<close>

type_synonym audio_request = "u8 \<times> u32 \<times> u8 list \<times> bool"

text \<open>The sender after a list of audio packets, and the datagrams it produced (a cipher error yields none).\<close>

primrec audio_run :: "'sock rtp_sender \<Rightarrow> audio_request list \<Rightarrow> 'sock rtp_sender \<times> u8 list list" where
  "audio_run s [] = (s, [])"
| "audio_run s (r # rs) =
     (case r of (pt, ts, payload, m) \<Rightarrow>
        case serialize_audio s pt ts payload m :: 'sock rtp_sender \<times> (unit air_error + u8 list) of
          (s1, Inl _) \<Rightarrow> audio_run s1 rs
        | (s1, Inr w) \<Rightarrow> (let (s2, ws) = audio_run s1 rs in (s2, w # ws)))"

definition newest_index :: "nat \<Rightarrow> nat \<Rightarrow> nat" where
  "newest_index n i = i + 512 * ((n - 1 - i) div 512)"

lemma newest_index_mod: "i < 512 \<Longrightarrow> newest_index n i mod 512 = i"
  by (simp add: newest_index_def)

lemma newest_index_window: "i < n \<Longrightarrow> newest_index n i < n \<and> n \<le> newest_index n i + 512"
proof -
  assume i: "i < n"
  have d: "512 * ((n - 1 - i) div 512) + (n - 1 - i) mod 512 = n - 1 - i" by simp
  have "(n - 1 - i) mod 512 < 512" by simp
  with d i show ?thesis unfolding newest_index_def by linarith
qed

lemma window_unique:
  "a mod 512 = k mod 512 \<Longrightarrow> a < n \<Longrightarrow> n \<le> a + 512 \<Longrightarrow> k < n \<Longrightarrow> n \<le> k + 512 \<Longrightarrow> a = (k :: nat)"
proof -
  assume r: "a mod 512 = k mod 512" and w: "a < n" "n \<le> a + 512" "k < n" "n \<le> k + 512"
  obtain qa where a: "a = 512 * qa + k mod 512" using r by (metis mult_div_mod_eq)
  obtain qk where k: "k = 512 * qk + k mod 512" by (metis mult_div_mod_eq)
  have "x = y" if "u = 512 * x + c" "v = 512 * y + c" "u < n" "n \<le> u + 512" "v < n" "n \<le> v + 512"
    for x y c u v :: nat
  proof (cases x y rule: linorder_cases)
    case less
    then have "512 * x + 512 \<le> 512 * y" by simp
    then show ?thesis using that by linarith
  next
    case greater
    then have "512 * y + 512 \<le> 512 * x" by simp
    then show ?thesis using that by linarith
  qed
  then have "qa = qk" using a k w by metis
  then show "a = k" using a k by metis
qed

lemma newest_index_unique:
  assumes "k < n" "n \<le> k + 512"
  shows "k mod 512 < n" "newest_index n (k mod 512) = k"
proof -
  show le: "k mod 512 < n" using assms(1) by (meson le_less_trans mod_less_eq_dividend)
  have "newest_index n (k mod 512) mod 512 = k mod 512" by (simp add: newest_index_mod)
  moreover note newest_index_window [OF le]
  ultimately show "newest_index n (k mod 512) = k" using window_unique assms by blast
qed

definition history_inv :: "u8 list list \<Rightarrow> 'sock rtp_sender \<Rightarrow> bool" where
  "history_inv ws s \<longleftrightarrow> rs_sequence s = of_nat (length ws) \<and> length (rs_packet_history s) = 512
     \<and> (\<forall>k < length ws. 4 \<le> length (ws ! k) \<and> from_be (byte_range 2 4 (ws ! k)) = (of_nat k :: u16))
     \<and> (\<forall>i < 512. rs_packet_history s ! i = (if i < length ws then Some (ws ! newest_index (length ws) i) else None))"

lemma unat_sequence_mod: "unat (of_nat n :: u16) mod 512 = n mod 512"
  by (simp add: unat_of_nat mod_mod_cancel)

lemma newest_index_step:
  assumes "i < 512" "i \<noteq> n mod 512"
  shows "i < Suc n \<longleftrightarrow> i < n" "newest_index (Suc n) i = newest_index n i"
proof -
  have "i \<noteq> n" using assms by (metis mod_less)
  then show "i < Suc n \<longleftrightarrow> i < n" by (simp add: less_Suc_eq)
  show "newest_index (Suc n) i = newest_index n i"
  proof (cases "i < n")
    case True
    have "newest_index (Suc n) i \<noteq> n"
      using newest_index_mod [OF assms(1), of "Suc n"] assms(2) by metis
    moreover have "newest_index (Suc n) i < Suc n" "Suc n \<le> newest_index (Suc n) i + 512"
      using newest_index_window [of i "Suc n"] True by simp_all
    ultimately have "newest_index (Suc n) i < n" "n \<le> newest_index (Suc n) i + 512" by linarith+
    moreover have "newest_index (Suc n) i mod 512 = newest_index n i mod 512"
      unfolding newest_index_mod [OF assms(1)] ..
    ultimately show ?thesis using newest_index_window [OF True] window_unique by blast
  next
    case False
    then show ?thesis by (simp add: newest_index_def)
  qed
qed

lemma history_step:
  assumes inv: "history_inv ws s"
    and run: "serialize_audio s pt ts payload m = (s', Inr w)"
  shows "history_inv (ws @ [w]) s'"
proof -
  let ?n = "length ws"
  have wire: "4 \<le> length w" "from_be (byte_range 2 4 w) = (of_nat ?n :: u16)"
    and s': "rs_sequence s' = of_nat (Suc ?n)"
      "rs_packet_history s' = (rs_packet_history s)[?n mod 512 := Some w]"
    using run audio_wire_sequence [of s pt ts payload m w] inv
    by (auto simp: serialize_audio_Inr history_inv_def PACKET_HISTORY_SIZE_def unat_sequence_mod)
  have "rs_packet_history s' ! i = (if i < Suc ?n then Some ((ws @ [w]) ! newest_index (Suc ?n) i) else None)"
    if "i < 512" for i
  proof (cases "i = ?n mod 512")
    case True
    then show ?thesis
      using newest_index_unique [of ?n "Suc ?n"] inv by (simp add: s' history_inv_def)
  next
    case False
    then show ?thesis
      using newest_index_step [OF that False] newest_index_window [of i ?n] inv that
      by (auto simp: s' history_inv_def nth_append)
  qed
  then show ?thesis
    using inv wire s' by (auto simp: history_inv_def nth_append less_Suc_eq)
qed

lemma audio_run_history:
  "history_inv ws s \<Longrightarrow> history_inv (ws @ snd (audio_run s rs)) (fst (audio_run s rs))"
proof (induction rs arbitrary: s ws)
  case (Cons r rs)
  obtain pt ts payload m where r: "r = (pt, ts, payload, m)" by (cases r)
  obtain s1 res where step: "serialize_audio s pt ts payload m = (s1, res :: unit air_error + u8 list)"
    by (meson surj_pair)
  show ?case
  proof (cases res)
    case (Inl e)
    then have "s1 = s" using step by (auto simp: serialize_audio_def Let_def split: sum.splits)
    then show ?thesis using Cons Inl step by (simp add: r)
  next
    case (Inr w)
    then show ?thesis
      using Cons.IH [OF history_step [OF Cons.prems]] step by (simp add: r case_prod_beta Let_def)
  qed
qed simp

lemma history_inv_new: "history_inv [] (sender_new dest ssrc)"
  by (simp add: history_inv_def sender_new_def PACKET_HISTORY_SIZE_def)

lemma history_lookup_window:
  assumes "history_inv ws s"
  shows "history_lookup s q = Some w \<longleftrightarrow>
    (\<exists>k < length ws. length ws \<le> k + 512 \<and> of_nat k = q \<and> w = ws ! k)"
proof -
  let ?n = "length ws" and ?i = "unat q mod 512"
  have slot: "rs_packet_history s ! ?i = (if ?i < ?n then Some (ws ! newest_index ?n ?i) else None)"
    and wires: "k < ?n \<Longrightarrow> 4 \<le> length (ws ! k) \<and> from_be (byte_range 2 4 (ws ! k)) = (of_nat k :: u16)" for k
    using assms by (simp_all add: history_inv_def)
  have lookup: "history_lookup s q = (if ?i < ?n \<and> of_nat (newest_index ?n ?i) = q
      then Some (ws ! newest_index ?n ?i) else None)"
    using slot wires newest_index_window [of ?i ?n]
    by (simp add: history_lookup_def PACKET_HISTORY_SIZE_def)
  show ?thesis
  proof
    assume "history_lookup s q = Some w"
    then show "\<exists>k < ?n. ?n \<le> k + 512 \<and> of_nat k = q \<and> w = ws ! k"
      using lookup newest_index_window [of ?i ?n] by (auto split: if_splits)
  next
    assume "\<exists>k < ?n. ?n \<le> k + 512 \<and> of_nat k = q \<and> w = ws ! k"
    then obtain k where k: "k < ?n" "?n \<le> k + 512" "of_nat k = q" "w = ws ! k" by blast
    then have "?i = k mod 512" using unat_sequence_mod by blast
    then show "history_lookup s q = Some w" using lookup newest_index_unique [OF k(1,2)] k by simp
  qed
qed

text \<open>
  C9: after any run of audio packets, with any cipher and whatever packets it failed on, the
  history of a new sender answers a sequence number exactly if one of the last 512 produced
  packets carries it, with that packet's datagram, also after the sequence number has wrapped.
\<close>

theorem history_answers_recent:
  fixes s :: "'sock rtp_sender"
  assumes "audio_run (set_cipher (sender_new dest ssrc) cipher) rs = (s, ws)"
  shows "history_lookup s q = Some w \<longleftrightarrow>
    (\<exists>k < length ws. length ws \<le> k + 512 \<and> of_nat k = q \<and> w = ws ! k)"
proof (rule history_lookup_window)
  have "history_inv [] (set_cipher (sender_new dest ssrc :: 'sock rtp_sender) cipher)"
    using history_inv_new by (simp add: history_inv_def set_cipher_def)
  from audio_run_history [OF this, of rs] show "history_inv ws s" by (simp add: assms)
qed

theorem history_answers_recent_witness:
  "history_lookup (fst (audio_run demo_sender [(96, 0, [1], True), (96, 352, [2], False)])) 1
    = Some (snd (audio_run demo_sender [(96, 0, [1], True), (96, 352, [2], False)]) ! 1)"
proof -
  let ?run = "audio_run demo_sender [(96, 0, [1], True), (96, 352, [2], False)]"
  have two: "length (snd ?run) = 2"
    by (simp add: demo_sender_def set_cipher_def sender_new_def serialize_audio_def audio_wire_def
        chacha_packet_cipher_def encrypt_with_seq_def plain_seal_def Let_def)
  show ?thesis
    using history_answers_recent [of demo_dest 9 "chacha_packet_cipher plain_seal [3]"
        "[(96, 0, [1], True), (96, 352, [2], False)]" "fst ?run" "snd ?run" 1 "snd ?run ! 1"] two
    by (auto simp: demo_sender_def intro!: exI [of _ 1])
qed

section \<open>Retransmission requests\<close>

lemma unat_saturating_Suc: "unat (a :: u16) < 65535 \<Longrightarrow> unat (saturating_add a 1) = Suc (unat a)"
  by (simp add: unat_saturating_add)

definition outcome_sum :: "retransmit_outcome \<Rightarrow> nat" where
  "outcome_sum oc = unat (ro_accepted_local oc) + unat (ro_history_misses oc) + unat (ro_send_failures oc)"

lemma retransmit_step_sum:
  assumes "outcome_sum oc < 65535" "retransmit_step send_to s q (net, oc) = (net', oc')"
  shows "ro_requested_slots oc' = ro_requested_slots oc"
    "unat (ro_history_misses oc') = unat (ro_history_misses oc) + of_bool (history_lookup s q = None)"
    "outcome_sum oc \<le> outcome_sum oc'" "outcome_sum oc' \<le> Suc (outcome_sum oc)"
    "(\<And>net k w d. snd (send_to net k w d) \<noteq> Inr 0) \<Longrightarrow> outcome_sum oc' = Suc (outcome_sum oc)"
proof -
  have fits: "unat (ro_accepted_local oc) < 65535" "unat (ro_history_misses oc) < 65535"
    "unat (ro_send_failures oc) < 65535" using assms(1) by (simp_all add: outcome_sum_def)
  show "ro_requested_slots oc' = ro_requested_slots oc"
    "unat (ro_history_misses oc') = unat (ro_history_misses oc) + of_bool (history_lookup s q = None)"
    "outcome_sum oc \<le> outcome_sum oc'" "outcome_sum oc' \<le> Suc (outcome_sum oc)"
    using assms(2) fits
    by (auto simp: retransmit_step_def outcome_sum_def unat_saturating_Suc
        split: option.splits prod.splits sum.splits if_splits)
  assume nz: "\<And>net k w d. snd (send_to net k w d) \<noteq> Inr 0"
  have "n = 0 \<Longrightarrow> send_to net k w d \<noteq> (net1, Inr n)" for net k w d net1 n
    using nz [of net k w d] by auto
  then show "outcome_sum oc' = Suc (outcome_sum oc)"
    using assms(2) fits
    by (auto simp: retransmit_step_def outcome_sum_def unat_saturating_Suc
        split: option.splits prod.splits sum.splits if_splits)
qed

lemma retransmit_fold:
  assumes "outcome_sum oc + length qs \<le> 65535"
    "foldl (\<lambda>acc q. retransmit_step send_to s q acc) (net, oc) qs = (net', oc')"
  shows "ro_requested_slots oc' = ro_requested_slots oc
    \<and> unat (ro_history_misses oc') = unat (ro_history_misses oc) + length (filter (\<lambda>q. history_lookup s q = None) qs)
    \<and> outcome_sum oc' \<le> outcome_sum oc + length qs
    \<and> ((\<forall>net k w d. snd (send_to net k w d) \<noteq> Inr 0) \<longrightarrow> outcome_sum oc' = outcome_sum oc + length qs)"
  using assms
proof (induction qs arbitrary: net oc)
  case (Cons q qs)
  obtain net1 oc1 where step: "retransmit_step send_to s q (net, oc) = (net1, oc1)" by (meson surj_pair)
  have small: "outcome_sum oc < 65535" using Cons.prems(1) by simp
  note st = retransmit_step_sum [OF small step]
  have "outcome_sum oc1 + length qs \<le> 65535" using st(4) Cons.prems(1) by simp
  from Cons.IH [OF this] Cons.prems(2) step
  have "ro_requested_slots oc' = ro_requested_slots oc1
    \<and> unat (ro_history_misses oc') = unat (ro_history_misses oc1) + length (filter (\<lambda>q. history_lookup s q = None) qs)
    \<and> outcome_sum oc' \<le> outcome_sum oc1 + length qs
    \<and> ((\<forall>net k w d. snd (send_to net k w d) \<noteq> Inr 0) \<longrightarrow> outcome_sum oc' = outcome_sum oc1 + length qs)"
    by simp
  then show ?case using st by auto
qed simp

text \<open>
  A retransmission request is accounted slot by slot without overflow: the misses are exactly
  the requested numbers the history does not answer, no slot is counted twice, and every slot is
  counted in one of the three classes as long as no transmission reports zero bytes.
\<close>

theorem retransmit_accounting:
  assumes "handle_retransmit send_to net s r = (net', oc)"
  shows "ro_requested_slots oc = rr_count r
    \<and> unat (ro_history_misses oc) = length (filter (\<lambda>q. history_lookup s q = None) (requested_sequences r))
    \<and> outcome_sum oc \<le> unat (rr_count r)
    \<and> ((\<forall>net k w d. snd (send_to net k w d) \<noteq> Inr 0) \<longrightarrow> outcome_sum oc = unat (ro_requested_slots oc))"
proof -
  have "unat (rr_count r) < 65536" by (rule order_less_le_trans [OF unsigned_less]) simp
  then show ?thesis
    using retransmit_fold [OF _ assms [unfolded handle_retransmit_def]]
    by (auto simp: outcome_sum_def requested_sequences_def)
qed

definition honest_send :: "(unit, nat, unit) send_fun" where
  "honest_send net k w d = (net, Inr (length w))"

theorem retransmit_accounting_witness:
  "outcome_sum (snd (handle_retransmit honest_send () demo_sender
       \<lparr>rr_first_sequence = 65535, rr_count = 3\<rparr>)) \<le> 3
   \<and> ro_requested_slots (snd (handle_retransmit honest_send () demo_sender
       \<lparr>rr_first_sequence = 65535, rr_count = 3\<rparr>)) = 3"
  using retransmit_accounting [OF surjective_pairing, of honest_send "()" demo_sender
      "\<lparr>rr_first_sequence = 65535, rr_count = 3\<rparr>"]
  by simp

text \<open>
  A slot can be lost from the accounting: when the history answers a request and the
  transmission reports zero bytes, the slot is counted in none of the three classes, although
  they are documented to add up to the requested slots.
\<close>

theorem retransmit_slot_uncounted:
  assumes "history_lookup s q = Some original" "control_channel s = Some sock"
    "snd (send_to net sock (build_retransmit_response original) (control_destination s)) = Inr 0"
  shows "outcome_sum (snd (handle_retransmit send_to net s \<lparr>rr_first_sequence = q, rr_count = 1\<rparr>)) = 0
    \<and> ro_requested_slots (snd (handle_retransmit send_to net s \<lparr>rr_first_sequence = q, rr_count = 1\<rparr>)) = 1"
  using assms
  by (simp add: handle_retransmit_def requested_sequences_def retransmit_step_def outcome_sum_def
      case_prod_beta Let_def)

definition served_sender :: "nat rtp_sender" where
  "served_sender = fst (audio_run (set_control_socket demo_sender 1) [(96, 0, [1], True)])"

theorem retransmit_slot_uncounted_witness:
  "outcome_sum (snd (handle_retransmit (\<lambda>net (k :: nat) w d. (net, Inr 0 :: unit + nat)) ()
     served_sender \<lparr>rr_first_sequence = 0, rr_count = 1\<rparr>)) = 0"
proof -
  have "history_lookup served_sender 0 \<noteq> None" by code_simp
  then obtain original where "history_lookup served_sender 0 = Some original" by blast
  moreover have "control_channel served_sender = Some 1" by code_simp
  ultimately show ?thesis
    using retransmit_slot_uncounted [of served_sender 0 original 1 "\<lambda>net k w d. (net, Inr 0 :: unit + nat)" "()"]
    by simp
qed

section \<open>Synchronisation packets\<close>

text \<open>
  Sending a synchronisation packet directly is the same as preparing it and sending the
  prepared packet: the same datagram through the same socket, the same next state, counters and
  result, for every sender that has a socket.
\<close>

theorem send_sync_prepared:
  assumes "control_channel s = Some sock"
  shows "send_sync send_to net s rtp_ts ntp_ts =
    (case prepare_sync s rtp_ts ntp_ts of
       (s1, Inl e) \<Rightarrow> (net, s1, Inl e)
     | (s1, Inr None) \<Rightarrow> (net, s1, Inr ())
     | (s1, Inr (Some wire)) \<Rightarrow> send_prepared_sync send_to net s1 wire)"
proof -
  have "control_channel (sync_sent s) = control_channel s" "control_destination (sync_sent s) = control_destination s"
    by (simp_all add: control_channel_def control_destination_def sync_sent_def split: option.splits)
  then show ?thesis
    using assms by (simp add: send_sync_def prepare_sync_def send_prepared_sync_def transmit_control_def Let_def)
qed

theorem send_sync_prepared_witness:
  "send_sync (\<lambda>net k w d. (w # net, Inr (length w) :: unit + nat)) [] (set_control_socket demo_sender 1) 352 7 =
    (case prepare_sync (set_control_socket demo_sender 1) 352 7 of
       (s1, Inl e) \<Rightarrow> ([], s1, Inl e)
     | (s1, Inr None) \<Rightarrow> ([], s1, Inr ())
     | (s1, Inr (Some wire)) \<Rightarrow>
         send_prepared_sync (\<lambda>net k w d. (w # net, Inr (length w) :: unit + nat)) [] s1 wire)"
  by (rule send_sync_prepared [of _ 1]) (simp add: set_control_socket_def control_channel_def)

lemma scale_back:
  fixes b m r :: nat
  assumes "0 < b" "b \<le> m"
  shows "r - 1 \<le> r * m div b * b div m" "r * m div b * b div m \<le> r"
proof -
  let ?y = "r * m div b * b"
  have y: "?y + r * m mod b = r * m" by (simp add: mult.commute)
  have "0 < m" using assms by simp
  have "(r - 1) * m \<le> ?y"
  proof (cases r)
    case (Suc n)
    have "r * m mod b < b" using assms(1) by simp
    moreover have "r * m = m + (r - 1) * m" by (simp add: Suc)
    ultimately show ?thesis using y assms(2) by linarith
  qed simp
  then show "r - 1 \<le> ?y div m" using \<open>0 < m\<close> by (simp add: less_eq_div_iff_mult_less_eq)
  have "?y \<le> r * m" using y by linarith
  then have "?y div m \<le> r * m div m" by (rule div_le_mono)
  then show "?y div m \<le> r" using \<open>0 < m\<close> by simp
qed

text \<open>
  The time of a PTP synchronisation packet is exact to the resolution of its format: the
  32-bit fraction is the nanosecond part scaled by \<open>2 ^ 32\<close> and rounded down, without overflow in
  the 64-bit computation, so decoding it loses less than one nanosecond.
\<close>

theorem ptp_sync_time:
  "unat (ptp_fraction ns) = unat ns mod 1000000000 * 2 ^ 32 div 1000000000
   \<and> unat (ptp_seconds ns) = unat ns div 1000000000 mod 2 ^ 32
   \<and> unat ns mod 1000000000 - 1 \<le> unat (ptp_fraction ns) * 1000000000 div 2 ^ 32
   \<and> unat (ptp_fraction ns) * 1000000000 div 2 ^ 32 \<le> unat ns mod 1000000000"
proof -
  let ?r = "unat ns mod 1000000000"
  have r: "?r < 1000000000" by simp
  have mod: "unat (ns mod 1000000000) = ?r" by (simp add: unat_mod)
  have "unat (push_bit 32 (ns mod 1000000000)) = ?r * 2 ^ 32"
    using r by (simp add: push_bit_eq_mult unat_word_ariths mod)
  then have quot: "unat (push_bit 32 (ns mod 1000000000) div 1000000000) = ?r * 2 ^ 32 div 1000000000"
    by (simp add: unat_div)
  have "?r * 2 ^ 32 div 1000000000 < 2 ^ 32"
    using r by (simp add: div_less_iff_less_mult)
  then have frac: "unat (ptp_fraction ns) = ?r * 2 ^ 32 div 1000000000"
    unfolding ptp_fraction_def using quot by (simp add: unsigned_ucast_eq take_bit_nat_eq_self)
  have secs: "unat (ptp_seconds ns) = unat ns div 1000000000 mod 2 ^ 32"
    by (simp add: ptp_seconds_def unsigned_ucast_eq take_bit_eq_mod unat_div)
  show ?thesis unfolding frac secs using scale_back [of 1000000000 "2 ^ 32" ?r] by simp
qed

end
