(* ===== verification/Ptp_Messages.thy ===== *)
theory Ptp_Messages
  imports Wire
begin

text \<open>
  Messages of the precision time protocol (\<open>crates/airplay-timing/src/ptp.rs\<close>): timestamps,
  headers, the organisation-specific records, and the datagrams the sender builds. Signed fields
  that only travel (\<open>i8\<close>, \<open>i16\<close>, \<open>i32\<close>, \<open>i64\<close>) are kept as their two's-complement words; the
  128-bit nanosecond counts never leave their range and are natural numbers. The current time is
  an argument.
\<close>

section \<open>Message types\<close>

datatype ptp_message_type = Sync | DelayReq | FollowUp | DelayResp | Announce | Signaling

fun ptp_type_byte :: "ptp_message_type \<Rightarrow> u8" where
  "ptp_type_byte Sync = 0x00"
| "ptp_type_byte DelayReq = 0x01"
| "ptp_type_byte FollowUp = 0x08"
| "ptp_type_byte DelayResp = 0x09"
| "ptp_type_byte Announce = 0x0B"
| "ptp_type_byte Signaling = 0x0C"

definition ptp_type_from_byte :: "u8 \<Rightarrow> ptp_message_type option" where
  "ptp_type_from_byte b =
     (let t = b AND 0x0F
      in if t = 0x00 then Some Sync
         else if t = 0x01 then Some DelayReq
         else if t = 0x08 then Some FollowUp
         else if t = 0x09 then Some DelayResp
         else if t = 0x0B then Some Announce
         else if t = 0x0C then Some Signaling
         else None)"

section \<open>Timestamps\<close>

record ptp_timestamp =
  ts_seconds :: u64
  ts_nanoseconds :: u32

definition ts_from_nanos :: "nat \<Rightarrow> ptp_timestamp" where
  "ts_from_nanos nanos =
     \<lparr>ts_seconds = of_nat (nanos div 1000000000), ts_nanoseconds = of_nat (nanos mod 1000000000)\<rparr>"

definition to_nanos :: "ptp_timestamp \<Rightarrow> nat" where
  "to_nanos t = unat (ts_seconds t) * 1000000000 + unat (ts_nanoseconds t)"

definition ts_serialize :: "ptp_timestamp \<Rightarrow> u8 list" where
  "ts_serialize t = byte_range 2 8 (u64_be (ts_seconds t)) @ u32_be (ts_nanoseconds t)"

definition ts_parse :: "u8 list \<Rightarrow> parse_error + ptp_timestamp" where
  "ts_parse data =
     (if length data < 10 then Inl (InvalidFormat ''PTP timestamp too short'')
      else Inr \<lparr>ts_seconds = from_be ([0, 0] @ byte_range 0 6 data),
                ts_nanoseconds = from_be (byte_range 6 10 data)\<rparr>)"

section \<open>Headers\<close>

record ptp_header =
  ph_message_type :: ptp_message_type
  ph_version :: u8
  ph_message_length :: u16
  ph_domain_number :: u8
  ph_flags :: u16
  ph_correction_field :: u64
  ph_source_port_identity :: "u8 list"
  ph_sequence_id :: u16
  ph_control_field :: u8
  ph_log_message_interval :: u8

fun control_field_of :: "ptp_message_type \<Rightarrow> u8" where
  "control_field_of Sync = 0"
| "control_field_of DelayReq = 1"
| "control_field_of FollowUp = 2"
| "control_field_of DelayResp = 3"
| "control_field_of Announce = 5"
| "control_field_of Signaling = 5"

definition ptp_header_new :: "ptp_message_type \<Rightarrow> u16 \<Rightarrow> ptp_header" where
  "ptp_header_new message_type sequence_id =
     \<lparr>ph_message_type = message_type, ph_version = 2, ph_message_length = 44, ph_domain_number = 0,
      ph_flags = 0, ph_correction_field = 0, ph_source_port_identity = replicate 10 0,
      ph_sequence_id = sequence_id, ph_control_field = control_field_of message_type,
      ph_log_message_interval = 0\<rparr>"

definition ptp_header_serialize :: "ptp_header \<Rightarrow> u8 list" where
  "ptp_header_serialize h =
     [ptp_type_byte (ph_message_type h), ph_version h] @ u16_be (ph_message_length h)
     @ [ph_domain_number h, 0] @ u16_be (ph_flags h) @ u64_be (ph_correction_field h)
     @ replicate 4 0 @ ph_source_port_identity h @ u16_be (ph_sequence_id h)
     @ [ph_control_field h, ph_log_message_interval h]"

definition ptp_header_parse :: "u8 list \<Rightarrow> parse_error + ptp_header" where
  "ptp_header_parse data =
     (if length data < 34 then Inl (InvalidFormat ''PTP header too short'')
      else case ptp_type_from_byte (data ! 0) of
             None \<Rightarrow> Inl (InvalidFormat (''Unknown PTP message type: '' @ digits (unat (data ! 0 AND 0x0F))))
           | Some message_type \<Rightarrow>
               Inr \<lparr>ph_message_type = message_type, ph_version = data ! 1 AND 0x0F,
                    ph_message_length = from_be (byte_range 2 4 data), ph_domain_number = data ! 4,
                    ph_flags = from_be (byte_range 6 8 data),
                    ph_correction_field = from_be (byte_range 8 16 data),
                    ph_source_port_identity = byte_range 20 30 data,
                    ph_sequence_id = from_be (byte_range 30 32 data),
                    ph_control_field = data ! 32, ph_log_message_interval = data ! 33\<rparr>)"

section \<open>Organisation records\<close>

definition org_gptp :: "u8 list" where "org_gptp = [0x00, 0x80, 0xC2]"
definition org_apple :: "u8 list" where "org_apple = [0x00, 0x0D, 0x93]"
definition FOLLOW_UP_INFO :: "u8 list" where "FOLLOW_UP_INFO = [0x00, 0x00, 0x01]"
definition MESSAGE_INTERVAL_REQUEST :: "u8 list" where "MESSAGE_INTERVAL_REQUEST = [0x00, 0x00, 0x02]"

definition org_extension :: u16 where "org_extension = 0x0003"

definition tlv_header_serialize :: "u16 \<Rightarrow> u16 \<Rightarrow> u8 list" where
  "tlv_header_serialize tlv_type len = u16_be tlv_type @ u16_be len"

record follow_up_information_tlv =
  fu_organization_id :: "u8 list"
  fu_organization_subtype :: "u8 list"
  fu_cumulative_scaled_rate_offset :: u32
  fu_gm_time_base_indicator :: u16
  fu_last_gm_phase_change :: "u8 list"
  fu_scaled_last_gm_freq_change :: u32

definition follow_up_new :: follow_up_information_tlv where
  "follow_up_new = \<lparr>fu_organization_id = org_gptp, fu_organization_subtype = FOLLOW_UP_INFO,
     fu_cumulative_scaled_rate_offset = 0, fu_gm_time_base_indicator = 0,
     fu_last_gm_phase_change = replicate 12 0, fu_scaled_last_gm_freq_change = 0\<rparr>"

definition follow_up_serialize :: "follow_up_information_tlv \<Rightarrow> u8 list" where
  "follow_up_serialize t = tlv_header_serialize org_extension 28 @ fu_organization_id t
     @ fu_organization_subtype t @ u32_be (fu_cumulative_scaled_rate_offset t)
     @ u16_be (fu_gm_time_base_indicator t) @ fu_last_gm_phase_change t
     @ u32_be (fu_scaled_last_gm_freq_change t)"

record message_interval_request_tlv =
  mi_organization_id :: "u8 list"
  mi_organization_subtype :: "u8 list"
  mi_link_delay_interval :: u8
  mi_time_sync_interval :: u8
  mi_announce_interval :: u8
  mi_flags :: u8

definition message_interval_new :: "u8 \<Rightarrow> u8 \<Rightarrow> message_interval_request_tlv" where
  "message_interval_new sync_interval announce_interval =
     \<lparr>mi_organization_id = org_gptp, mi_organization_subtype = MESSAGE_INTERVAL_REQUEST,
      mi_link_delay_interval = sync_interval, mi_time_sync_interval = sync_interval,
      mi_announce_interval = announce_interval, mi_flags = 0x02\<rparr>"

definition message_interval_serialize :: "message_interval_request_tlv \<Rightarrow> u8 list" where
  "message_interval_serialize t = tlv_header_serialize org_extension 10 @ mi_organization_id t
     @ mi_organization_subtype t
     @ [mi_link_delay_interval t, mi_time_sync_interval t, mi_announce_interval t, mi_flags t]"

record apple_tlv =
  ap_organization_id :: "u8 list"
  ap_organization_subtype :: "u8 list"
  ap_payload :: "u8 list"

definition apple_new :: "u8 list \<Rightarrow> u8 list \<Rightarrow> apple_tlv" where
  "apple_new subtype payload =
     \<lparr>ap_organization_id = org_apple, ap_organization_subtype = subtype, ap_payload = payload\<rparr>"

definition apple_serialize :: "apple_tlv \<Rightarrow> u8 list" where
  "apple_serialize t = tlv_header_serialize org_extension (of_nat (6 + length (ap_payload t)))
     @ ap_organization_id t @ ap_organization_subtype t @ ap_payload t"

definition apple_parse :: "u8 list \<Rightarrow> string + apple_tlv" where
  "apple_parse data =
     (if length data < 6 then Inl ''AppleTlv too short''
      else Inr \<lparr>ap_organization_id = byte_range 0 3 data, ap_organization_subtype = byte_range 3 6 data,
                ap_payload = drop 6 data\<rparr>)"

function parse_tlvs :: "u8 list \<Rightarrow> (u16 \<times> u16 \<times> u8 list) list" where
  "parse_tlvs data =
     (if length data < 4 then []
      else let tlv_type = from_be (byte_range 0 2 data); len = from_be (byte_range 2 4 data);
               body = drop 4 data
           in if length body < unat len then []
              else (tlv_type, len, take (unat len) body) # parse_tlvs (drop (unat len) body))"
  by pat_completeness auto
termination
  by (relation "measure length") auto

declare parse_tlvs.simps [simp del]

section \<open>Datagrams of the sender\<close>

definition port_identity :: "u8 list \<Rightarrow> u8 list" where
  "port_identity clock_identity = clock_identity @ u16_be 1"

definition sync_datagram :: "u8 list \<Rightarrow> u16 \<Rightarrow> u8 list" where
  "sync_datagram clock_identity seqnum =
     ptp_header_serialize ((ptp_header_new Sync seqnum)\<lparr>ph_flags := 0x0200,
       ph_source_port_identity := port_identity clock_identity\<rparr>) @ replicate 10 0"

definition follow_up_datagram :: "u8 list \<Rightarrow> u16 \<Rightarrow> ptp_timestamp \<Rightarrow> u8 list" where
  "follow_up_datagram clock_identity seqnum sync_time =
     (let tlv_bytes = follow_up_serialize follow_up_new
      in ptp_header_serialize ((ptp_header_new FollowUp seqnum)\<lparr>
           ph_source_port_identity := port_identity clock_identity,
           ph_message_length := 44 + of_nat (length tlv_bytes)\<rparr>)
         @ ts_serialize sync_time @ tlv_bytes)"

definition delay_resp_datagram :: "u16 \<Rightarrow> u8 list \<Rightarrow> ptp_timestamp \<Rightarrow> u8 list \<Rightarrow> u8 list" where
  "delay_resp_datagram sequence_id clock_identity recv_time requesting =
     ptp_header_serialize ((ptp_header_new DelayResp sequence_id)\<lparr>
       ph_source_port_identity := port_identity clock_identity, ph_message_length := 54\<rparr>)
     @ ts_serialize recv_time @ requesting"

definition announce_datagram :: "u8 list \<Rightarrow> u16 \<Rightarrow> u8 \<Rightarrow> u8 \<Rightarrow> u8 list" where
  "announce_datagram clock_identity seqnum clock_class priority1 =
     ptp_header_serialize ((ptp_header_new Announce seqnum)\<lparr>
       ph_source_port_identity := port_identity clock_identity, ph_message_length := 64,
       ph_log_message_interval := 1\<rparr>)
     @ replicate 10 0 @ u16_be 37 @ [0, priority1, clock_class, 0xFE] @ u16_be 0xFFFF @ [128]
     @ clock_identity @ u16_be 0 @ [0xA0]"

definition signaling_with :: "u8 list \<Rightarrow> u16 \<Rightarrow> u8 list \<Rightarrow> u8 list" where
  "signaling_with clock_identity seqnum tlvs =
     ptp_header_serialize ((ptp_header_new Signaling seqnum)\<lparr>
       ph_source_port_identity := port_identity clock_identity,
       ph_message_length := 34 + 10 + of_nat (length tlvs)\<rparr>)
     @ replicate 10 0xFF @ tlvs"

definition signaling_datagram :: "u8 list \<Rightarrow> u16 \<Rightarrow> u8 \<Rightarrow> u8 \<Rightarrow> u8 list" where
  "signaling_datagram clock_identity seqnum sync_log announce_log =
     signaling_with clock_identity seqnum
       (message_interval_serialize (message_interval_new sync_log announce_log)
        @ apple_serialize (apple_new [0, 0, 1] ([0x00, 0x04, sync_log, announce_log] @ replicate 12 0))
        @ apple_serialize (apple_new [0, 0, 5] ([0x00, 0x10, sync_log, announce_log] @ replicate 22 0)))"

definition mac_style_datagram :: "u8 list \<Rightarrow> u16 \<Rightarrow> u8 list" where
  "mac_style_datagram clock_identity seqnum =
     signaling_with clock_identity seqnum
       (message_interval_serialize (message_interval_new (- 3) (- 2))
        @ apple_serialize (apple_new [0, 0, 1]
            [0x00, 0x03, 0x00, 0x00, 0x00, 0x00, 0x27, 0x10, 0x00, 0x00, 0x27, 0x10, 0x00, 0x00, 0x00, 0x00])
        @ apple_serialize (apple_new [0, 0, 5]
            ([0x00, 0x0f, 0x00, 0x00, 0x00, 0x00, 0x27, 0x10, 0x00, 0x00, 0x27, 0x10, 0x00, 0x00, 0x00]
             @ replicate 11 0)))"

definition stop_datagram :: "u8 list \<Rightarrow> u16 \<Rightarrow> u8 list" where
  "stop_datagram clock_identity seqnum =
     signaling_with clock_identity seqnum
       (message_interval_serialize \<lparr>mi_organization_id = org_gptp,
          mi_organization_subtype = MESSAGE_INTERVAL_REQUEST, mi_link_delay_interval = 0x7E,
          mi_time_sync_interval = 0x7E, mi_announce_interval = 0x7E, mi_flags = 0x00\<rparr>)"

section \<open>Round trips\<close>

definition ts_ok :: "ptp_timestamp \<Rightarrow> bool" where
  "ts_ok t \<longleftrightarrow> unat (ts_seconds t) < 2 ^ 48"

definition ptp_header_ok :: "ptp_header \<Rightarrow> bool" where
  "ptp_header_ok h \<longleftrightarrow> ph_version h AND 0x0F = ph_version h \<and> length (ph_source_port_identity h) = 10"

lemma length_ts_serialize [simp]: "length (ts_serialize t) = 10"
  by (simp add: ts_serialize_def byte_range_def)

lemma length_ptp_header_serialize [simp]:
  "length (ph_source_port_identity h) = 10 \<Longrightarrow> length (ptp_header_serialize h) = 34"
  by (simp add: ptp_header_serialize_def)

lemma ptp_type_inverse: "ptp_type_from_byte (ptp_type_byte t) = Some t"
  by (cases t) (simp_all add: ptp_type_from_byte_def)

lemma ptp_header_parse_serialize:
  assumes "ptp_header_ok h"
  shows "ptp_header_parse (ptp_header_serialize h @ rest) = Inr h"
proof -
  have "length (ph_source_port_identity h) = 10" using assms by (simp add: ptp_header_ok_def)
  then show ?thesis
    using assms
    by (simp add: ptp_header_parse_def ptp_header_serialize_def ptp_type_inverse byte_range_def
        nth_append nth_Cons ptp_header_ok_def)
qed

lemma drop_be_bytes: "drop k (be_bytes (k + n) w) = be_bytes n w"
  by (induction n arbitrary: w) simp_all

lemma ts_parse_serialize:
  "ts_parse (ts_serialize t @ rest) = Inr (t\<lparr>ts_seconds := take_bit 48 (ts_seconds t)\<rparr>)"
proof -
  have six: "byte_range 2 8 (u64_be (ts_seconds t)) = be_bytes 6 (ts_seconds t)"
    using drop_be_bytes [of 2 6 "ts_seconds t"] by (simp add: byte_range_def)
  have pad: "from_be ([0, 0] @ bs) = (from_be bs :: u64)" for bs
    by (simp add: from_be_def)
  have "byte_range 0 6 (ts_serialize t @ rest) = be_bytes 6 (ts_seconds t)"
    "byte_range 6 10 (ts_serialize t @ rest) = u32_be (ts_nanoseconds t)"
    unfolding ts_serialize_def six by (simp_all add: byte_range_def)
  then show ?thesis
    by (cases t) (simp add: ts_parse_def pad [simplified] from_be_bytes_take take_bit_word_eq_self)
qed

lemma ts_parse_ok: "ts_ok t \<Longrightarrow> ts_parse (ts_serialize t @ rest) = Inr t"
proof -
  assume "ts_ok t"
  then have "take_bit 48 (ts_seconds t) = ts_seconds t"
    by (intro word_unat_eq_iff [THEN iffD2]) (simp add: ts_ok_def unsigned_take_bit_eq take_bit_nat_eq_self)
  then show ?thesis by (simp add: ts_parse_serialize)
qed

lemma ts_parse_is_ok: "ts_parse data = Inr t \<Longrightarrow> ts_ok t"
proof -
  assume "ts_parse data = Inr t"
  then have t: "ts_seconds t = from_be ([0, 0] @ byte_range 0 6 data)" "10 \<le> length data"
    by (auto simp: ts_parse_def split: if_splits)
  have "bit (ts_seconds t) i \<Longrightarrow> i < 48" for i
    using bit_from_be [of "byte_range 0 6 data" i, where ?'a = 64] t by (simp add: from_be_def byte_range_def)
  then have "take_bit 48 (ts_seconds t) = ts_seconds t"
    by (auto intro!: bit_word_eqI simp: bit_simps)
  then have "unat (ts_seconds t) mod 2 ^ 48 = unat (ts_seconds t)"
    by (metis unsigned_take_bit_eq take_bit_eq_mod)
  moreover have "unat (ts_seconds t) mod 2 ^ 48 < 2 ^ 48" by (rule mod_less_divisor) simp
  ultimately show ?thesis unfolding ts_ok_def by linarith
qed

lemma parse_tlvs_record:
  assumes "length body < 65536"
  shows "parse_tlvs (tlv_header_serialize ty (of_nat (length body)) @ body @ rest) =
    (ty, of_nat (length body), body) # parse_tlvs rest"
proof -
  let ?data = "tlv_header_serialize ty (of_nat (length body)) @ body @ rest"
  have parts: "byte_range 0 2 ?data = u16_be ty" "byte_range 2 4 ?data = u16_be (of_nat (length body))"
    "drop 4 ?data = body @ rest" "\<not> length ?data < 4"
    by (simp_all add: tlv_header_serialize_def byte_range_def)
  have "unat (of_nat (length body) :: u16) = length body" using assms by (simp add: unat_of_nat)
  then show ?thesis unfolding parse_tlvs.simps [of ?data] parts by (simp add: parts(4) [simplified])
qed

lemma parse_tlvs_Nil [simp]: "parse_tlvs [] = []"
  by (simp add: parse_tlvs.simps)

lemma parse_tlvs_bounded:
  "list_all (\<lambda>(ty, len, body). length body = unat len) (parse_tlvs data)
   \<and> sum_list (map (\<lambda>(ty, len, body). 4 + length body) (parse_tlvs data)) \<le> length data"
proof (induction data rule: parse_tlvs.induct)
  case (1 data)
  show ?case
  proof (cases "length data < 4 \<or> length data < 4 + unat (from_be (byte_range 2 4 data) :: u16)")
    case True
    then show ?thesis by (subst (1 2) parse_tlvs.simps) (auto simp: Let_def)
  next
    case False
    then show ?thesis
      using "1.IH" [OF _ refl refl refl] by (subst (1 2) parse_tlvs.simps) (auto simp: Let_def)
  qed
qed

lemma length_tlvs:
  "length (message_interval_serialize (message_interval_new s a)) = 14"
  "length (apple_serialize (apple_new [x, y, z] payload)) = 10 + length payload"
  by (simp_all add: message_interval_serialize_def message_interval_new_def apple_serialize_def apple_new_def
      tlv_header_serialize_def org_gptp_def org_apple_def MESSAGE_INTERVAL_REQUEST_def)

lemma parse_own_tlvs:
  "parse_tlvs (message_interval_serialize (message_interval_new s a) @ rest) =
     (3, 10, org_gptp @ MESSAGE_INTERVAL_REQUEST @ [s, s, a, 2]) # parse_tlvs rest"
  "length payload < 60000 \<Longrightarrow> parse_tlvs (apple_serialize (apple_new [x, y, z] payload) @ rest) =
     (3, of_nat (6 + length payload), org_apple @ [x, y, z] @ payload) # parse_tlvs rest"
  using parse_tlvs_record [of "org_gptp @ MESSAGE_INTERVAL_REQUEST @ [s, s, a, 2]" 3 rest]
    parse_tlvs_record [of "org_apple @ [x, y, z] @ payload" 3 rest]
  by (simp_all add: message_interval_serialize_def message_interval_new_def apple_serialize_def apple_new_def
      org_extension_def org_gptp_def org_apple_def MESSAGE_INTERVAL_REQUEST_def)

lemma drop_signaling: "length ident = 8 \<Longrightarrow> drop 44 (signaling_with ident seqnum tlvs) = tlvs"
  by (simp add: signaling_with_def port_identity_def)

text \<open>
  Reading the records of a datagram ends on every input, and the records it returns have the
  length they announce and lie within the datagram one after the other; from the signalling
  message this sender builds it recovers exactly the interval request and the two vendor records.
\<close>

theorem parse_tlvs_sound:
  "list_all (\<lambda>(ty, len, body). length body = unat len) (parse_tlvs data)
   \<and> sum_list (map (\<lambda>(ty, len, body). 4 + length body) (parse_tlvs data)) \<le> length data
   \<and> (length ident = 8 \<longrightarrow>
        map (\<lambda>(ty, len, body). (ty, take 6 body)) (parse_tlvs (drop 44 (signaling_datagram ident seqnum s a))) =
          [(3, org_gptp @ MESSAGE_INTERVAL_REQUEST), (3, org_apple @ [0, 0, 1]), (3, org_apple @ [0, 0, 5])])"
  using parse_tlvs_bounded [of data]
    parse_own_tlvs(2) [of _ 0 0 5 "[]", simplified]
  by (simp add: signaling_datagram_def drop_signaling parse_own_tlvs)
     (simp add: org_gptp_def org_apple_def MESSAGE_INTERVAL_REQUEST_def)

theorem parse_tlvs_sound_witness:
  "map (\<lambda>(ty, len, body). (ty, take 6 body)) (parse_tlvs (drop 44 (signaling_datagram (replicate 8 1) 7 (- 3) (- 2)))) =
     [(3, org_gptp @ MESSAGE_INTERVAL_REQUEST), (3, org_apple @ [0, 0, 1]), (3, org_apple @ [0, 0, 5])]"
  using parse_tlvs_sound [of "[]" "replicate 8 1"] by simp

end
