(* ===== verification/Timing_Diagnostics.thy ===== *)
theory Timing_Diagnostics
  imports Wire Bounded_Log
begin

text \<open>
  Timing measurements (\<open>crates/airplay-timing/src/diagnostics.rs\<close>): the reduction of four wire
  timestamps to a signed offset and a path delay, the checked conversion of local to master time,
  and the bounded history behind the recorder and handle pair, with its staleness rule. The
  floating-point regression behind the drift figure is left out; the condition under which it is
  attempted is modelled.

  Differences that the source computes in \<open>i128\<close> are integers; \<open>as i64\<close> and \<open>as u64\<close> truncate.
\<close>

section \<open>Integer conversions\<close>

definition as_i64 :: "int \<Rightarrow> int" where
  "as_i64 x = signed_take_bit 63 x"

definition as_u64 :: "int \<Rightarrow> u64" where
  "as_u64 x = word_of_int x"

definition i64_try_from :: "int \<Rightarrow> int option" where
  "i64_try_from x = (if - (2 ^ 63) \<le> x \<and> x < 2 ^ 63 then Some x else None)"

definition checked_sub :: "u64 \<Rightarrow> u64 \<Rightarrow> u64 option" where
  "checked_sub a b = (if b \<le> a then Some (a - b) else None)"

definition saturating_mul :: "u64 \<Rightarrow> u64 \<Rightarrow> u64" where
  "saturating_mul a b = (if uint a * uint b < 2 ^ 64 then a * b else - 1)"

text \<open>Rust's integer division by a positive constant rounds towards zero.\<close>

definition div_trunc :: "int \<Rightarrow> int \<Rightarrow> int" where
  "div_trunc a b = (if 0 \<le> a then a div b else - ((- a) div b))"

lemma as_i64_id: "- (2 ^ 63) \<le> x \<Longrightarrow> x < 2 ^ 63 \<Longrightarrow> as_i64 x = x"
  unfolding as_i64_def by (rule signed_take_bit_int_eq_self) simp_all

lemma div_trunc_two: "\<bar>2 * div_trunc a 2 - a\<bar> \<le> 1"
  unfolding div_trunc_def by (cases "0 \<le> a") auto

lemma half_error: "\<bar>2 * x - (2 * y + e)\<bar> \<le> 1 \<Longrightarrow> 2 * \<bar>x - y\<bar> \<le> \<bar>e\<bar> + (1::int)"
  by arith

lemma div_trunc_double: "div_trunc (2 * x) 2 = x"
proof -
  have "- (2 * x) div 2 = - x" by (metis mult_minus_right nonzero_mult_div_cancel_left zero_neq_numeral)
  then show ?thesis by (simp add: div_trunc_def)
qed

lemma checked_sub_eq_Some: "checked_sub a b = Some c \<longleftrightarrow> uint b \<le> uint a \<and> uint c = uint a - uint b"
proof (cases "b \<le> a")
  case True
  then have "uint (a - b) = uint a - uint b" by (simp add: uint_sub_if_size word_le_def)
  then show ?thesis
    using True unfolding checked_sub_def word_le_def by (metis option.inject word_uint_eqI)
next
  case False
  then show ?thesis by (simp add: checked_sub_def word_le_def)
qed

section \<open>Measurements\<close>

record timing_measurement =
  tm_measurement_sequence :: u64
  tm_observed_elapsed_ns :: u64
  tm_offset_local_minus_master_ns :: int
  tm_mean_path_delay_ns :: u64

definition ptp_measurement ::
    "u64 \<Rightarrow> u64 \<Rightarrow> u64 \<Rightarrow> u64 \<Rightarrow> u64 \<Rightarrow> u64 \<Rightarrow> timing_measurement option" where
  "ptp_measurement measurement_sequence observed_elapsed_ns t1 t2 t3 t4 =
     (let rx_leg = uint t2 - uint t1; tx_leg = uint t3 - uint t4
      in case i64_try_from (div_trunc (rx_leg + tx_leg) 2) of
           None \<Rightarrow> None
         | Some off \<Rightarrow>
             (case (checked_sub t4 t1, checked_sub t3 t2) of
                (Some uplink, Some downlink) \<Rightarrow>
                  (case checked_sub uplink downlink of
                     None \<Rightarrow> None
                   | Some both \<Rightarrow>
                       Some \<lparr>tm_measurement_sequence = measurement_sequence,
                             tm_observed_elapsed_ns = observed_elapsed_ns,
                             tm_offset_local_minus_master_ns = off,
                             tm_mean_path_delay_ns = both div 2\<rparr>)
              | _ \<Rightarrow> None))"

definition local_to_master_ns :: "u64 \<Rightarrow> int \<Rightarrow> u64 option" where
  "local_to_master_ns local_ns off =
     (let master = uint local_ns - off
      in if master < 0 \<or> 2 ^ 64 - 1 < master then None else Some (word_of_int master))"

definition measurement_local_to_master :: "timing_measurement \<Rightarrow> u64 \<Rightarrow> u64 option" where
  "measurement_local_to_master m local_ns = local_to_master_ns local_ns (tm_offset_local_minus_master_ns m)"

section \<open>The shared history\<close>

datatype timing_reference_kind = SenderReference | PtpMeasured

definition MAX_SAMPLES :: nat where "MAX_SAMPLES = 256"
definition MIN_DRIFT_SAMPLES :: nat where "MIN_DRIFT_SAMPLES = 8"
definition MIN_DRIFT_WINDOW_NS :: u64 where "MIN_DRIFT_WINDOW_NS = 2000000000"
definition STALENESS_FLOOR_NS :: u64 where "STALENESS_FLOOR_NS = 2000000000"
definition STALENESS_MEDIAN_FACTOR :: u64 where "STALENESS_MEDIAN_FACTOR = 5"

record shared_samples =
  ss_reference :: timing_reference_kind
  ss_samples :: "timing_measurement list"
  ss_next_sequence :: u64

definition timing_diagnostics_pair :: "timing_reference_kind \<Rightarrow> shared_samples" where
  "timing_diagnostics_pair reference = \<lparr>ss_reference = reference, ss_samples = [], ss_next_sequence = 1\<rparr>"

definition samples_push :: "shared_samples \<Rightarrow> timing_measurement \<Rightarrow> shared_samples" where
  "samples_push s m =
     (let stamped = m\<lparr>tm_measurement_sequence := ss_next_sequence s\<rparr>
      in s\<lparr>ss_next_sequence := ss_next_sequence s + 1,
           ss_samples := fst (evict_oldest MAX_SAMPLES (ss_samples s @ [stamped]))\<rparr>)"

text \<open>The two early returns of \<open>drift\<close>: the window when a regression is attempted.\<close>

definition drift_window :: "shared_samples \<Rightarrow> u64 option" where
  "drift_window s =
     (if ss_samples s = [] then None
      else case checked_sub (tm_observed_elapsed_ns (last (ss_samples s))) (tm_observed_elapsed_ns (hd (ss_samples s))) of
             None \<Rightarrow> None
           | Some window_ns \<Rightarrow>
               if length (ss_samples s) < MIN_DRIFT_SAMPLES \<or> window_ns < MIN_DRIFT_WINDOW_NS then None
               else Some window_ns)"

definition median_interval_ns :: "shared_samples \<Rightarrow> u64 option" where
  "median_interval_ns s =
     (if length (ss_samples s) < 2 then None
      else let gaps = sort (map2 (\<lambda>older newer.
                 saturating_sub (tm_observed_elapsed_ns newer) (tm_observed_elapsed_ns older))
                 (ss_samples s) (tl (ss_samples s)))
           in Some (gaps ! (length gaps div 2)))"

definition staleness_threshold_ns :: "shared_samples \<Rightarrow> u64" where
  "staleness_threshold_ns s =
     (case median_interval_ns s of
        Some median \<Rightarrow> max STALENESS_FLOOR_NS (saturating_mul STALENESS_MEDIAN_FACTOR median)
      | None \<Rightarrow> STALENESS_FLOOR_NS)"

record timing_diagnostics_snapshot =
  td_reference :: timing_reference_kind
  td_latest :: "timing_measurement option"
  td_sample_age_ns :: "u64 option"
  td_stale :: bool
  td_drift_window :: "u64 option"

definition timing_snapshot :: "shared_samples \<Rightarrow> u64 \<Rightarrow> timing_diagnostics_snapshot" where
  "timing_snapshot s now_elapsed_ns =
     (let latest = (if ss_samples s = [] then None else Some (last (ss_samples s)));
          sample_age_ns = map_option (\<lambda>m. saturating_sub now_elapsed_ns (tm_observed_elapsed_ns m)) latest;
          stale = (case sample_age_ns of Some age \<Rightarrow> staleness_threshold_ns s < age | None \<Rightarrow> False)
      in \<lparr>td_reference = ss_reference s, td_latest = latest, td_sample_age_ns = sample_age_ns,
          td_stale = stale, td_drift_window = drift_window s\<rparr>)"

section \<open>Behaviour\<close>

lemma ptp_measurement_exact:
  assumes "ptp_measurement n el t1 t2 t3 t4 = Some m"
  shows "tm_offset_local_minus_master_ns m = div_trunc ((uint t2 - uint t1) + (uint t3 - uint t4)) 2"
    and "uint (tm_mean_path_delay_ns m) = ((uint t4 - uint t1) - (uint t3 - uint t2)) div 2"
    and "uint t1 \<le> uint t4" "uint t2 \<le> uint t3"
  using assms
  by (auto simp: ptp_measurement_def Let_def i64_try_from_def checked_sub_eq_Some uint_div
      split: option.splits if_splits)

text \<open>A measurement exists exactly when the timestamps are ordered the way a real exchange orders
  them and the offset fits 64 bits.\<close>

lemma ptp_measurement_exists:
  "(\<exists>m. ptp_measurement n el t1 t2 t3 t4 = Some m) \<longleftrightarrow>
     uint t1 \<le> uint t4 \<and> uint t2 \<le> uint t3 \<and> uint t3 - uint t2 \<le> uint t4 - uint t1
     \<and> i64_try_from (div_trunc ((uint t2 - uint t1) + (uint t3 - uint t4)) 2) \<noteq> None"
proof -
  have diff: "uint (a - b) = uint a - uint b" if "uint b \<le> uint a" for a b :: u64
    using that by (simp add: uint_sub_if_size)
  show ?thesis
    by (cases "uint t1 \<le> uint t4"; cases "uint t2 \<le> uint t3")
      (simp_all add: ptp_measurement_def Let_def checked_sub_def word_le_def diff split: option.splits)
qed

interpretation sample_log: bounded_log MAX_SAMPLES ss_samples samples_push
  "\<lambda>s m. m\<lparr>tm_measurement_sequence := ss_next_sequence s\<rparr>"
  by unfold_locales (simp add: samples_push_def evict_oldest_newest Let_def)

lemma staleness_floor: "STALENESS_FLOOR_NS \<le> staleness_threshold_ns s"
  by (simp add: staleness_threshold_ns_def split: option.splits)

text \<open>The retained measurements are numbered consecutively from one, in the order recorded.\<close>

definition stamped :: "timing_measurement list \<Rightarrow> timing_measurement list" where
  "stamped ms = map2 (\<lambda>i m. m\<lparr>tm_measurement_sequence := of_nat (Suc i)\<rparr>) [0..<length ms] ms"

lemma stamped_nth:
  "i < length ms \<Longrightarrow> stamped ms ! i = (ms ! i)\<lparr>tm_measurement_sequence := of_nat (Suc i)\<rparr>"
  by (simp add: stamped_def)

lemma log_tags_samples:
  "log_tags samples_push (\<lambda>s m. m\<lparr>tm_measurement_sequence := ss_next_sequence s\<rparr>) s ms =
   map2 (\<lambda>i m. m\<lparr>tm_measurement_sequence := ss_next_sequence s + of_nat i\<rparr>) [0..<length ms] ms"
proof (induction ms arbitrary: s)
  case Nil
  then show ?case by simp
next
  case (Cons m ms)
  have "[0..<length (m # ms)] = 0 # map Suc [0..<length ms]"
    by (simp add: upt_conv_Cons map_Suc_upt del: upt_Suc)
  moreover have "ss_next_sequence (samples_push s m) = ss_next_sequence s + 1"
    by (simp add: samples_push_def Let_def)
  ultimately show ?case by (auto simp: Cons.IH zip_map1 add.assoc)
qed

text \<open>
  After any sequence of recordings the history holds exactly the newest 256 measurements with
  their sequence numbers, the snapshot reports the newest of them, and it is called stale only
  when it is older than two seconds and than every interval multiple the rule allows.
\<close>

theorem timing_history:
  "ss_samples (foldl samples_push (timing_diagnostics_pair r) ms) = newest 256 (stamped ms)
   \<and> td_latest (timing_snapshot (foldl samples_push (timing_diagnostics_pair r) ms) now) =
       (if ms = [] then None else Some ((last ms)\<lparr>tm_measurement_sequence := of_nat (length ms)\<rparr>))"
proof -
  let ?s = "foldl samples_push (timing_diagnostics_pair r) ms"
  have "ss_samples ?s = newest MAX_SAMPLES (ss_samples (timing_diagnostics_pair r) @ log_tags samples_push
      (\<lambda>s m. m\<lparr>tm_measurement_sequence := ss_next_sequence s\<rparr>) (timing_diagnostics_pair r) ms)"
    by (rule sample_log.run_contents) (simp add: timing_diagnostics_pair_def MAX_SAMPLES_def)
  then have held: "ss_samples ?s = newest 256 (stamped ms)"
    by (simp add: log_tags_samples timing_diagnostics_pair_def MAX_SAMPLES_def stamped_def)
  have len: "length (stamped ms) = length ms" by (simp add: stamped_def)
  have "last (stamped ms) = (last ms)\<lparr>tm_measurement_sequence := of_nat (length ms)\<rparr>" if "ms \<noteq> []"
  proof -
    from that obtain n where n: "length ms = Suc n" by (cases ms) auto
    then have "stamped ms \<noteq> []" using len by (metis Zero_not_Suc list.size(3))
    then have "last (stamped ms) = stamped ms ! n" using len n by (simp add: last_conv_nth)
    also have "\<dots> = (ms ! n)\<lparr>tm_measurement_sequence := of_nat (Suc n)\<rparr>"
      using n by (intro stamped_nth) simp
    also have "ms ! n = last ms" using that n by (simp add: last_conv_nth)
    finally show ?thesis by (simp only: n)
  qed
  moreover have "newest 256 (stamped ms) = [] \<longleftrightarrow> ms = []"
    using length_newest [of 256 "stamped ms"] len by (auto simp flip: length_0_conv)
  moreover have "last (newest 256 (stamped ms)) = last (stamped ms)" if "ms \<noteq> []"
  proof -
    have "length (stamped ms) - 256 < length (stamped ms)" using that unfolding len by (cases ms) simp_all
    then show ?thesis unfolding newest_def by (rule last_drop)
  qed
  ultimately show ?thesis by (simp add: held timing_snapshot_def Let_def)
qed

end
