(* ===== verification/Clock_Math.thy ===== *)
theory Clock_Math
  imports Timing_Diagnostics
begin

text \<open>
  Clock conversions (\<open>crates/airplay-timing/src/clock.rs\<close>): samples and nanoseconds, Unix time and
  the 64-bit NTP format, and the methods of \<open>Clock\<close> that relate wall time to RTP timestamps. A
  division by a zero sample rate panics and is \<open>None\<close>.
\<close>

definition NTP_EPOCH_OFFSET :: u64 where "NTP_EPOCH_OFFSET = 2208988800"

record clock_offset =
  co_offset_ns :: int
  co_error_ns :: u64
  co_rtt_ns :: u64

definition clock_offset_default :: clock_offset where
  "clock_offset_default = \<lparr>co_offset_ns = 0, co_error_ns = 0, co_rtt_ns = 0\<rparr>"

definition samples_to_ns :: "u32 \<Rightarrow> u32 \<Rightarrow> u64 option" where
  "samples_to_ns samples sample_rate =
     (if sample_rate = 0 then None else Some (ucast samples * 1000000000 div ucast sample_rate))"

definition ns_to_samples :: "u64 \<Rightarrow> u32 \<Rightarrow> u32" where
  "ns_to_samples ns sample_rate =
     ucast ((ucast ns :: 128 word) * ucast sample_rate div 1000000000)"

definition unix_to_ntp :: "u64 \<Rightarrow> u64" where
  "unix_to_ntp unix_ns =
     (let unix_secs = unix_ns div 1000000000; frac_ns = unix_ns mod 1000000000;
          ntp_secs = unix_secs + NTP_EPOCH_OFFSET;
          ntp_frac = push_bit 32 (ucast frac_ns :: 128 word) div 1000000000
      in push_bit 32 ntp_secs OR ucast ntp_frac)"

definition ntp_to_unix :: "u64 \<Rightarrow> u64" where
  "ntp_to_unix ntp =
     (let ntp_secs = drop_bit 32 ntp; ntp_frac = ntp AND 0xFFFFFFFF;
          unix_secs = saturating_sub ntp_secs NTP_EPOCH_OFFSET;
          frac_ns = drop_bit 32 ((ucast ntp_frac :: 128 word) * 1000000000)
      in unix_secs * 1000000000 + ucast frac_ns)"

record clock =
  ck_start_system_ns :: u64
  ck_sample_rate :: u32

definition wall_to_rtp :: "clock \<Rightarrow> u64 \<Rightarrow> u32" where
  "wall_to_rtp c wall_ns = ns_to_samples (saturating_sub wall_ns (ck_start_system_ns c)) (ck_sample_rate c)"

definition rtp_to_wall :: "clock \<Rightarrow> u32 \<Rightarrow> u64 option" where
  "rtp_to_wall c rtp = map_option (\<lambda>elapsed_ns. ck_start_system_ns c + elapsed_ns) (samples_to_ns rtp (ck_sample_rate c))"

record timestamp_pair =
  tp_rtp :: u32
  tp_wall_ns :: u64

definition timestamp_pair_at :: "clock \<Rightarrow> u64 \<Rightarrow> timestamp_pair" where
  "timestamp_pair_at c wall_ns = \<lparr>tp_rtp = wall_to_rtp c wall_ns, tp_wall_ns = wall_ns\<rparr>"

section \<open>The conversions as numbers\<close>

lemma unat_upcast:
  "LENGTH('a) \<le> LENGTH('b) \<Longrightarrow> unat (ucast (x :: 'a::len word) :: 'b::len word) = unat x"
proof -
  assume len: "LENGTH('a) \<le> LENGTH('b)"
  have "unat x < 2 ^ LENGTH('a)" by (rule unsigned_less)
  also have "\<dots> \<le> 2 ^ LENGTH('b)" using len by simp
  finally show ?thesis by (simp add: unsigned_ucast_eq take_bit_nat_eq_self)
qed

lemma push_bit_or_nat: "z < 2 ^ k \<Longrightarrow> push_bit k y OR z = y * 2 ^ k + (z :: nat)"
proof -
  assume "z < 2 ^ k"
  then have "take_bit k z = z" by (rule take_bit_nat_eq_self)
  moreover have "push_bit k y AND take_bit k z = 0"
    by (rule bit_eqI) (auto simp: bit_and_iff bit_push_bit_iff bit_take_bit_iff)
  ultimately have "push_bit k y AND z = 0" by simp
  then show ?thesis by (simp add: push_bit_eq_mult flip: disjunctive_add_eq_or)
qed

lemma join_div: "x < b \<Longrightarrow> (a * b + x) div b = (a :: nat)"
  and join_mod: "x < b \<Longrightarrow> (a * b + x) mod b = (x :: nat)"
  by simp_all

lemma unat_push_half: "unat (push_bit 32 (w :: u64)) = push_bit 32 (unat w mod 4294967296)"
proof -
  have "unat (push_bit 32 w) = take_bit 64 (push_bit 32 (unat w))" by (simp only: unsigned_push_bit_eq) simp
  also have "\<dots> = push_bit 32 (take_bit 32 (unat w))" by (simp only: take_bit_push_bit) simp
  finally show ?thesis by (simp add: take_bit_eq_mod)
qed

lemma unat_samples_to_ns:
  "samples_to_ns s r = Some ns \<Longrightarrow> unat ns = unat s * 1000000000 div unat r"
proof -
  assume "samples_to_ns s r = Some ns"
  then have ns: "ns = ucast s * 1000000000 div ucast r" by (simp add: samples_to_ns_def split: if_splits)
  have "unat s * 1000000000 < 18446744073709551616" using unat_u32 [of s] by linarith
  then have "unat (ucast s * 1000000000 :: u64) = unat s * 1000000000"
    by (simp add: unat_word_ariths unat_upcast)
  then show ?thesis unfolding ns by (simp add: unat_div unat_upcast)
qed

lemma unat_ns_to_samples:
  "unat (ns_to_samples ns r) = unat ns * unat r div 1000000000 mod 4294967296"
proof -
  have "unat ns * unat r < 2 ^ 64 * 2 ^ 32"
    using unat_u64 [of ns] unat_u32 [of r] by (intro mult_strict_mono) simp_all
  then have "unat ((ucast ns :: 128 word) * ucast r) = unat ns * unat r"
    by (simp add: unat_word_ariths unat_upcast)
  then show ?thesis
    by (simp add: ns_to_samples_def unat_div unsigned_ucast_eq take_bit_eq_mod)
qed

lemma unat_unix_to_ntp:
  "unat (unix_to_ntp t) =
     (unat t div 1000000000 + 2208988800) mod 4294967296 * 4294967296
     + unat t mod 1000000000 * 4294967296 div 1000000000"
proof -
  let ?f = "unat t mod 1000000000"
  have f: "?f < 1000000000" by simp
  have "unat (push_bit 32 (ucast (t mod 1000000000) :: 128 word)) = ?f * 4294967296"
    using f by (simp add: unat_word_ariths push_bit_eq_mult unat_upcast unat_mod)
  then have frac: "unat (push_bit 32 (ucast (t mod 1000000000) :: 128 word) div 1000000000)
      = ?f * 4294967296 div 1000000000" by (simp add: unat_div)
  have small: "?f * 4294967296 div 1000000000 < 4294967296" using f by (simp add: div_less_iff_less_mult)
  have "unat (ucast (push_bit 32 (ucast (t mod 1000000000) :: 128 word) div 1000000000) :: u64)
      = ?f * 4294967296 div 1000000000"
    unfolding unsigned_ucast_eq frac using small by (intro take_bit_nat_eq_self) simp
  moreover have "unat (t div 1000000000 + NTP_EPOCH_OFFSET) = unat t div 1000000000 + 2208988800"
  proof -
    have "unat t < 18446744074 * 1000000000" using unat_u64 [of t] by linarith
    then have "unat t div 1000000000 < 18446744074" by (simp add: div_less_iff_less_mult)
    then show ?thesis by (simp add: NTP_EPOCH_OFFSET_def unat_word_ariths unat_div)
  qed
  moreover have "push_bit 32 y OR ?f * 4294967296 div 1000000000 = y * 4294967296 + ?f * 4294967296 div 1000000000" for y
    using push_bit_or_nat [of "?f * 4294967296 div 1000000000" 32 y] small by simp
  ultimately show ?thesis
    unfolding unix_to_ntp_def Let_def unsigned_or_eq unat_push_half by simp
qed

lemma unat_ntp_to_unix:
  "unat (ntp_to_unix n) =
     (unat n div 4294967296 - 2208988800) * 1000000000 + unat n mod 4294967296 * 1000000000 div 4294967296"
proof -
  let ?s = "unat n div 4294967296" and ?f = "unat n mod 4294967296"
  have f: "?f < 4294967296" by simp
  have s: "?s < 4294967296" using unat_u64 [of n] by (simp add: div_less_iff_less_mult)
  have "n AND 0xFFFFFFFF = take_bit 32 n" by (simp add: take_bit_eq_mask mask_eq_exp_minus_1)
  then have "unat (n AND 0xFFFFFFFF) = ?f" by (simp add: take_bit_eq_mod unat_mod)
  then have "unat ((ucast (n AND 0xFFFFFFFF) :: 128 word) * 1000000000) = ?f * 1000000000"
    using f by (simp add: unat_word_ariths unat_upcast)
  then have frac: "unat (drop_bit 32 ((ucast (n AND 0xFFFFFFFF) :: 128 word) * 1000000000))
      = ?f * 1000000000 div 4294967296" by (simp add: drop_bit_eq_div unat_div)
  have small: "?f * 1000000000 div 4294967296 < 1000000000" using f by (simp add: div_less_iff_less_mult)
  have low: "unat (ucast (drop_bit 32 ((ucast (n AND 0xFFFFFFFF) :: 128 word) * 1000000000)) :: u64)
      = ?f * 1000000000 div 4294967296"
    unfolding unsigned_ucast_eq frac using small by (intro take_bit_nat_eq_self) simp
  have secs: "unat (saturating_sub (drop_bit 32 n) NTP_EPOCH_OFFSET) = ?s - 2208988800"
    by (simp add: unat_saturating_sub NTP_EPOCH_OFFSET_def drop_bit_eq_div unat_div)
  have "(?s - 2208988800) * 1000000000 + ?f * 1000000000 div 4294967296 < 18446744073709551616"
    using s small by linarith
  then show ?thesis
    by (simp add: ntp_to_unix_def Let_def unat_word_ariths low secs)
qed

section \<open>Round trips\<close>

lemma scale_floor:
  fixes f g h :: nat
  assumes "0 < g" "g \<le> h"
  shows "f * h div g * g div h \<le> f" and "f \<le> f * h div g * g div h + 1"
proof -
  let ?x = "f * h div g"
  have "?x * g \<le> f * h" by simp
  then show "?x * g div h \<le> f" using assms by (metis div_le_mono nonzero_mult_div_cancel_right not_less0 zero_less_iff_neq_zero linorder_not_le order_less_le_trans)
  have "f * h < ?x * g + g" using assms(1) by (metis add.commute dividend_less_times_div mult.commute)
  then have "f * h < ?x * g + h" using assms(2) by linarith
  then have "f * h < (?x * g div h) * h + h + h"
    using assms by (smt (verit) add_less_mono1 div_mult_mod_eq mod_less_divisor add.assoc add.commute less_trans nat_add_left_cancel_less order_less_le_trans)
  then have "f * h < (?x * g div h + 2) * h" by (simp add: distrib_right)
  then have "f < ?x * g div h + 2" using mult_less_cancel2 by blast
  then show "f \<le> ?x * g div h + 1" by simp
qed

text \<open>Within the first NTP era a time survives the trip through the wire format to within a nanosecond.\<close>

lemma ntp_near:
  assumes "unat t < 2085978496000000000"
  shows "unat (ntp_to_unix (unix_to_ntp t)) \<le> unat t" and "unat t \<le> unat (ntp_to_unix (unix_to_ntp t)) + 1"
proof -
  let ?s = "unat t div 1000000000" and ?f = "unat t mod 1000000000"
  let ?x = "?f * 4294967296 div 1000000000"
  have x: "?x < 4294967296" by (simp add: div_less_iff_less_mult)
  have "unat t < 2085978496 * 1000000000" using assms by simp
  then have s: "?s < 2085978496" by (simp add: div_less_iff_less_mult)
  then have n: "unat (unix_to_ntp t) = (?s + 2208988800) * 4294967296 + ?x"
    by (simp add: unat_unix_to_ntp)
  have high: "((?s + 2208988800) * 4294967296 + ?x) div 4294967296 = ?s + 2208988800"
    and low: "((?s + 2208988800) * 4294967296 + ?x) mod 4294967296 = ?x"
    by (rule join_div [OF x], rule join_mod [OF x])
  have read_back: "unat (ntp_to_unix (unix_to_ntp t)) = ?s * 1000000000 + ?x * 1000000000 div 4294967296"
    unfolding unat_ntp_to_unix n high low by (simp only: add_diff_cancel_right')
  have "unat t = ?s * 1000000000 + ?f" by (rule div_mult_mod_eq [symmetric])
  moreover have "?x * 1000000000 div 4294967296 \<le> ?f" "?f \<le> ?x * 1000000000 div 4294967296 + 1"
    using scale_floor [of 1000000000 4294967296 ?f] by simp_all
  ultimately show "unat (ntp_to_unix (unix_to_ntp t)) \<le> unat t"
    and "unat t \<le> unat (ntp_to_unix (unix_to_ntp t)) + 1"
    unfolding read_back by linarith+
qed

text \<open>
  A time before February 2036 survives the conversion to the NTP format and back to within one
  nanosecond, never read back late. From then on the era is dropped: up to the year 2106 every
  time reads back as less than one second after the Unix epoch.
\<close>

theorem ntp_roundtrip:
  "(unat t < 2085978496 * 10 ^ 9 \<longrightarrow>
      unat (ntp_to_unix (unix_to_ntp t)) \<le> unat t \<and> unat t \<le> unat (ntp_to_unix (unix_to_ntp t)) + 1)
   \<and> (2085978496 * 10 ^ 9 \<le> unat t \<and> unat t < 2 ^ 32 * 10 ^ 9 \<longrightarrow>
      unat (ntp_to_unix (unix_to_ntp t)) < 10 ^ 9)"
proof -
  have "unat (ntp_to_unix (unix_to_ntp t)) < 1000000000"
    if late: "2085978496000000000 \<le> unat t" "unat t < 4294967296000000000"
  proof -
    let ?s = "unat t div 1000000000" and ?x = "unat t mod 1000000000 * 4294967296 div 1000000000"
    have x: "?x < 4294967296" by (simp add: div_less_iff_less_mult)
    have "2085978496 * 1000000000 \<le> unat t" "unat t < 4294967296 * 1000000000" using late by simp_all
    then have "2085978496 \<le> ?s" "?s < 4294967296"
      by (simp_all add: div_less_iff_less_mult less_eq_div_iff_mult_less_eq)
    then have "(?s + 2208988800) mod 4294967296 = ?s - 2085978496"
      by (simp add: mod_if [of "?s + 2208988800"])
    then have n: "unat (unix_to_ntp t) = (?s - 2085978496) * 4294967296 + ?x" by (simp add: unat_unix_to_ntp)
    have "((?s - 2085978496) * 4294967296 + ?x) div 4294967296 = ?s - 2085978496"
      and "((?s - 2085978496) * 4294967296 + ?x) mod 4294967296 = ?x"
      by (rule join_div [OF x], rule join_mod [OF x])
    moreover have "?s - 2085978496 - 2208988800 = 0" using \<open>?s < 4294967296\<close> by simp
    ultimately have "unat (ntp_to_unix (unix_to_ntp t)) = ?x * 1000000000 div 4294967296"
      unfolding unat_ntp_to_unix n by (metis add_0 mult_zero_left)
    also have "\<dots> < 1000000000" using x by (simp add: div_less_iff_less_mult)
    finally show ?thesis .
  qed
  then show ?thesis using ntp_near [of t] by simp
qed

text \<open>Samples converted to nanoseconds and back lose at most one sample, and an RTP timestamp survives the
  trip through wall time the same way as long as the wall clock does not overflow.\<close>

lemma samples_roundtrip:
  assumes "samples_to_ns s r = Some ns" "unat r \<le> 10 ^ 9"
  shows "unat (ns_to_samples ns r) \<le> unat s" and "unat s \<le> unat (ns_to_samples ns r) + 1"
proof -
  have "0 < unat r" using assms(1) by (simp add: samples_to_ns_def unat_gt_0 split: if_splits)
  then have near: "unat s * 1000000000 div unat r * unat r div 1000000000 \<le> unat s"
      "unat s \<le> unat s * 1000000000 div unat r * unat r div 1000000000 + 1"
    using scale_floor [of "unat r" 1000000000 "unat s"] assms(2) by simp_all
  have "unat (ns_to_samples ns r) = unat s * 1000000000 div unat r * unat r div 1000000000"
    unfolding unat_ns_to_samples unat_samples_to_ns [OF assms(1)]
    using near(1) unat_u32 [of s] by (intro mod_less) linarith
  then show "unat (ns_to_samples ns r) \<le> unat s" "unat s \<le> unat (ns_to_samples ns r) + 1"
    using near by simp_all
qed

lemma rtp_wall_roundtrip:
  assumes "rtp_to_wall c rtp = Some wall" "unat (ck_sample_rate c) \<le> 10 ^ 9"
    and "unat (ck_start_system_ns c) < 2 ^ 63"
  shows "unat (wall_to_rtp c wall) \<le> unat rtp \<and> unat rtp \<le> unat (wall_to_rtp c wall) + 1"
proof -
  from assms(1) obtain ns where ns: "samples_to_ns rtp (ck_sample_rate c) = Some ns"
    and wall: "wall = ck_start_system_ns c + ns" by (auto simp: rtp_to_wall_def)
  have "unat ns \<le> unat rtp * 1000000000" unfolding unat_samples_to_ns [OF ns] by simp
  then have "unat ns < 9223372036854775808" using unat_u32 [of rtp] by linarith
  then have "unat (ck_start_system_ns c) + unat ns < 18446744073709551616" using assms(3) by simp
  then have "unat wall = unat (ck_start_system_ns c) + unat ns" unfolding wall by (simp add: unat_word_ariths)
  then have "saturating_sub wall (ck_start_system_ns c) = ns"
    by (simp add: unat_saturating_sub word_unat_eq_iff)
  then show ?thesis using samples_roundtrip [OF ns assms(2)] by (simp add: wall_to_rtp_def)
qed

theorem ntp_roundtrip_witness:
  "unat (ntp_to_unix (unix_to_ntp 1000)) \<le> 1000 \<and> 1000 \<le> unat (ntp_to_unix (unix_to_ntp 1000)) + 1
   \<and> unat (ntp_to_unix (unix_to_ntp 2085978496000000000)) < 10 ^ 9"
  using ntp_roundtrip [of 1000] ntp_roundtrip [of 2085978496000000000] by simp

end
