(* ===== verification/Ptp_Tracker.thy ===== *)
theory Ptp_Tracker
  imports Ptp_Messages Clock_Math
begin

text \<open>
  Following a remote clock (\<open>crates/airplay-timing/src/ptp.rs\<close>): the generation-aware matcher
  \<open>PtpMeasurementTracker\<close>, the receive loop of \<open>run_bmca_yield_flow_state\<close> that drives it and
  publishes clock states, and the offset computation of \<open>PtpClient\<close>.

  One received datagram is one step: its bytes, whether it came from the master, and the reading of
  the local clock that the handler takes.
\<close>

section \<open>Offsets\<close>

definition UNMEASURED_PATH_DELAY_NS :: u64 where "UNMEASURED_PATH_DELAY_NS = 500000"

definition one_way_offset :: "ptp_timestamp \<Rightarrow> ptp_timestamp \<Rightarrow> clock_offset" where
  "one_way_offset t1 t2 =
     \<lparr>co_offset_ns = as_i64 (int (to_nanos t2) - int (to_nanos t1)),
      co_error_ns = UNMEASURED_PATH_DELAY_NS, co_rtt_ns = 0\<rparr>"

definition two_way_offset ::
    "ptp_timestamp \<Rightarrow> ptp_timestamp \<Rightarrow> ptp_timestamp \<Rightarrow> ptp_timestamp \<Rightarrow> clock_offset" where
  "two_way_offset t1 t2 t3 t4 =
     (let t1_ns = int (to_nanos t1); t2_ns = int (to_nanos t2);
          t3_ns = int (to_nanos t3); t4_ns = int (to_nanos t4);
          off = div_trunc ((t2_ns - t1_ns) + (t3_ns - t4_ns)) 2;
          dly = div_trunc ((t2_ns - t1_ns) - (t3_ns - t4_ns)) 2
      in \<lparr>co_offset_ns = as_i64 off, co_error_ns = as_u64 (\<bar>dly\<bar> div 2), co_rtt_ns = as_u64 \<bar>dly\<bar>\<rparr>)"

section \<open>The tracker\<close>

record ptp_clock_state =
  cs_master_clock_id :: "u8 list"
  cs_offset :: clock_offset

datatype tracker_publication = TP_Unchanged | TP_Invalidate

record announced_clock =
  an_grandmaster_id :: "u8 list"
  an_relay_port_identity :: "u8 list"
  an_generation :: u64

record pending_sync =
  ps_sequence_id :: u16
  ps_relay_port_identity :: "u8 list"
  ps_generation :: u64
  ps_received_at :: ptp_timestamp

record completed_sync =
  cy_generation :: u64
  cy_master_sent_at :: ptp_timestamp
  cy_local_received_at :: ptp_timestamp

record pending_delay =
  pd_sequence_id :: u16
  pd_requesting_port_identity :: "u8 list"
  pd_generation :: u64
  pd_local_sent_at :: ptp_timestamp
  pd_sync :: completed_sync

record tracker =
  tk_local_port_identity :: "u8 list"
  tk_announced :: "announced_clock option"
  tk_pending_sync :: "pending_sync option"
  tk_completed_sync :: "completed_sync option"
  tk_pending_delay :: "pending_delay option"
  tk_next_generation :: u64

definition tracker_new :: "u8 list \<Rightarrow> tracker" where
  "tracker_new local_port =
     \<lparr>tk_local_port_identity = local_port, tk_announced = None, tk_pending_sync = None,
      tk_completed_sync = None, tk_pending_delay = None, tk_next_generation = 1\<rparr>"

definition observe_announce :: "tracker \<Rightarrow> ptp_header \<Rightarrow> u8 list \<Rightarrow> tracker \<times> tracker_publication" where
  "observe_announce k h packet =
     (if ph_message_type h \<noteq> Announce \<or> length packet < 61 then (k, TP_Unchanged)
      else let grandmaster_id = byte_range 53 61 packet
           in if grandmaster_id = replicate 8 0 \<or> take 8 (ph_source_port_identity h) = replicate 8 0
              then (k, TP_Unchanged)
              else if is_some_and (tk_announced k) (\<lambda>current.
                        an_grandmaster_id current = grandmaster_id
                        \<and> an_relay_port_identity current = ph_source_port_identity h)
              then (k, TP_Unchanged)
              else let invalidates = (tk_announced k \<noteq> None); generation = tk_next_generation k
                   in (k\<lparr>tk_next_generation := max (tk_next_generation k + 1) 1,
                         tk_announced := Some \<lparr>an_grandmaster_id = grandmaster_id,
                            an_relay_port_identity = ph_source_port_identity h, an_generation = generation\<rparr>,
                         tk_pending_sync := None, tk_completed_sync := None, tk_pending_delay := None\<rparr>,
                       if invalidates then TP_Invalidate else TP_Unchanged))"

definition observe_sync :: "tracker \<Rightarrow> ptp_header \<Rightarrow> u8 list \<Rightarrow> ptp_timestamp \<Rightarrow> tracker" where
  "observe_sync k h packet received_at =
     (if ph_message_type h \<noteq> Sync \<or> length packet < 34 then k
      else case tk_announced k of
             None \<Rightarrow> k
           | Some announced \<Rightarrow>
               if ph_source_port_identity h \<noteq> an_relay_port_identity announced then k
               else k\<lparr>tk_pending_sync := Some \<lparr>ps_sequence_id = ph_sequence_id h,
                        ps_relay_port_identity = ph_source_port_identity h,
                        ps_generation = an_generation announced, ps_received_at = received_at\<rparr>\<rparr>)"

definition observe_follow_up :: "tracker \<Rightarrow> ptp_header \<Rightarrow> u8 list \<Rightarrow> tracker \<times> ptp_clock_state option" where
  "observe_follow_up k h packet =
     (if ph_message_type h \<noteq> FollowUp \<or> length packet < 44 then (k, None)
      else case (tk_announced k, tk_pending_sync k) of
             (Some announced, Some pending) \<Rightarrow>
               if ph_sequence_id h \<noteq> ps_sequence_id pending
                  \<or> ph_source_port_identity h \<noteq> ps_relay_port_identity pending
                  \<or> ph_source_port_identity h \<noteq> an_relay_port_identity announced
                  \<or> ps_generation pending \<noteq> an_generation announced
               then (k, None)
               else (case ts_parse (byte_range 34 44 packet) of
                       Inl _ \<Rightarrow> (k, None)
                     | Inr master_sent_at \<Rightarrow>
                         (k\<lparr>tk_pending_sync := None,
                            tk_completed_sync := Some \<lparr>cy_generation = an_generation announced,
                              cy_master_sent_at = master_sent_at,
                              cy_local_received_at = ps_received_at pending\<rparr>\<rparr>,
                          Some \<lparr>cs_master_clock_id = an_grandmaster_id announced,
                                cs_offset = one_way_offset master_sent_at (ps_received_at pending)\<rparr>))
           | _ \<Rightarrow> (k, None))"

definition record_delay_request :: "tracker \<Rightarrow> u16 \<Rightarrow> u8 list \<Rightarrow> ptp_timestamp \<Rightarrow> tracker" where
  "record_delay_request k sequence_id requesting local_sent_at =
     (case (tk_announced k, tk_completed_sync k) of
        (Some announced, Some sync) \<Rightarrow>
          if requesting \<noteq> tk_local_port_identity k \<or> cy_generation sync \<noteq> an_generation announced then k
          else k\<lparr>tk_pending_delay := Some \<lparr>pd_sequence_id = sequence_id,
                   pd_requesting_port_identity = requesting, pd_generation = an_generation announced,
                   pd_local_sent_at = local_sent_at, pd_sync = sync\<rparr>\<rparr>
      | _ \<Rightarrow> k)"

definition observe_delay_response :: "tracker \<Rightarrow> ptp_header \<Rightarrow> u8 list \<Rightarrow> tracker \<times> ptp_clock_state option" where
  "observe_delay_response k h packet =
     (if ph_message_type h \<noteq> DelayResp \<or> length packet < 54 then (k, None)
      else case (tk_announced k, tk_pending_delay k) of
             (Some announced, Some pending) \<Rightarrow>
               if ph_sequence_id h \<noteq> pd_sequence_id pending
                  \<or> ph_source_port_identity h \<noteq> an_relay_port_identity announced
                  \<or> byte_range 44 54 packet \<noteq> pd_requesting_port_identity pending
                  \<or> pd_generation pending \<noteq> an_generation announced
                  \<or> cy_generation (pd_sync pending) \<noteq> an_generation announced
               then (k, None)
               else (case ts_parse (byte_range 34 44 packet) of
                       Inl _ \<Rightarrow> (k, None)
                     | Inr master_received_at \<Rightarrow>
                         (k\<lparr>tk_pending_delay := None\<rparr>,
                          Some \<lparr>cs_master_clock_id = an_grandmaster_id announced,
                                cs_offset = two_way_offset (cy_master_sent_at (pd_sync pending))
                                  (cy_local_received_at (pd_sync pending)) (pd_local_sent_at pending)
                                  master_received_at\<rparr>))
           | _ \<Rightarrow> (k, None))"

section \<open>The receive loop\<close>

text \<open>The slave loop's state: the tracker, the request counter, the published clock state and the
  requests sent (a failed transmission is only logged).\<close>

record slave =
  sl_tracker :: tracker
  sl_delay_req_seq :: u16
  sl_published :: "ptp_clock_state option"
  sl_sent :: "u8 list list"

datatype dgram_port = Event_Port | General_Port

record dgram =
  dg_port :: dgram_port
  dg_from_master :: bool
  dg_bytes :: "u8 list"
  dg_now :: ptp_timestamp

definition delay_req_datagram :: "u8 list \<Rightarrow> u16 \<Rightarrow> ptp_timestamp \<Rightarrow> u8 list" where
  "delay_req_datagram local_port seqnum sent_at =
     ptp_header_serialize ((ptp_header_new DelayReq seqnum)\<lparr>ph_source_port_identity := local_port\<rparr>)
     @ ts_serialize sent_at"

definition slave_delay_response :: "slave \<Rightarrow> ptp_header \<Rightarrow> u8 list \<Rightarrow> slave" where
  "slave_delay_response s h packet =
     (case observe_delay_response (sl_tracker s) h packet of
        (k, None) \<Rightarrow> s\<lparr>sl_tracker := k\<rparr>
      | (k, Some st) \<Rightarrow> s\<lparr>sl_tracker := k, sl_published := Some st\<rparr>)"

definition slave_follow_up :: "slave \<Rightarrow> ptp_header \<Rightarrow> u8 list \<Rightarrow> ptp_timestamp \<Rightarrow> slave" where
  "slave_follow_up s h packet now =
     (case observe_follow_up (sl_tracker s) h packet of
        (k, None) \<Rightarrow> s\<lparr>sl_tracker := k\<rparr>
      | (k, Some st) \<Rightarrow>
          let seqnum = sl_delay_req_seq s + 1; local_port = tk_local_port_identity k
          in s\<lparr>sl_tracker := record_delay_request k seqnum local_port now, sl_delay_req_seq := seqnum,
               sl_published := Some st, sl_sent := sl_sent s @ [delay_req_datagram local_port seqnum now]\<rparr>)"

definition slave_announce :: "slave \<Rightarrow> ptp_header \<Rightarrow> u8 list \<Rightarrow> slave" where
  "slave_announce s h packet =
     (case observe_announce (sl_tracker s) h packet of
        (k, TP_Invalidate) \<Rightarrow> s\<lparr>sl_tracker := k, sl_published := None\<rparr>
      | (k, TP_Unchanged) \<Rightarrow> s\<lparr>sl_tracker := k\<rparr>)"

definition slave_step :: "slave \<Rightarrow> dgram \<Rightarrow> slave" where
  "slave_step s d =
     (if \<not> dg_from_master d then s
      else case ptp_header_parse (dg_bytes d) of
             Inl _ \<Rightarrow> s
           | Inr h \<Rightarrow>
               (case (dg_port d, ph_message_type h) of
                  (Event_Port, Sync) \<Rightarrow>
                    s\<lparr>sl_tracker := observe_sync (sl_tracker s) h (dg_bytes d) (dg_now d)\<rparr>
                | (_, DelayResp) \<Rightarrow> slave_delay_response s h (dg_bytes d)
                | (General_Port, Announce) \<Rightarrow> slave_announce s h (dg_bytes d)
                | (General_Port, FollowUp) \<Rightarrow> slave_follow_up s h (dg_bytes d) (dg_now d)
                | _ \<Rightarrow> s))"

text \<open>The negotiation phase before the loop: announcements are observed until one is accepted.\<close>

definition negotiation_step :: "tracker \<times> u8 \<Rightarrow> dgram \<Rightarrow> tracker \<times> u8" where
  "negotiation_step acc d =
     (let (k, remote_priority1) = acc
      in if tk_announced k \<noteq> None \<or> dg_port d = Event_Port \<or> \<not> dg_from_master d then acc
         else case ptp_header_parse (dg_bytes d) of
                Inl _ \<Rightarrow> acc
              | Inr h \<Rightarrow>
                  if ph_message_type h = Announce \<and> 61 \<le> length (dg_bytes d)
                  then (fst (observe_announce k h (dg_bytes d)), dg_bytes d ! 47)
                  else acc)"

definition negotiate :: "u8 list \<Rightarrow> dgram list \<Rightarrow> tracker \<times> u8" where
  "negotiate local_port ds = foldl negotiation_step (tracker_new local_port, 255) ds"

definition we_are_master :: "u8 \<Rightarrow> u8 \<Rightarrow> bool" where
  "we_are_master priority1 remote_priority1 \<longleftrightarrow> priority1 < remote_priority1"

definition slave_start :: "tracker \<Rightarrow> slave" where
  "slave_start k = \<lparr>sl_tracker = k, sl_delay_req_seq = 0, sl_published = None, sl_sent = []\<rparr>"

section \<open>The client\<close>

datatype ptp_state = Unsynchronized | Synchronizing | Synchronized

record ptp_client =
  pc_state :: ptp_state
  pc_sequence_id :: u16
  pc_t1 :: "ptp_timestamp option"
  pc_t2 :: "ptp_timestamp option"
  pc_t3 :: "ptp_timestamp option"
  pc_t4 :: "ptp_timestamp option"
  pc_offset :: clock_offset
  pc_diagnostics :: "shared_samples option"

definition client_new :: ptp_client where
  "client_new = \<lparr>pc_state = Unsynchronized, pc_sequence_id = 0, pc_t1 = None, pc_t2 = None,
     pc_t3 = None, pc_t4 = None, pc_offset = clock_offset_default,
     pc_diagnostics = None\<rparr>"

definition set_diagnostics_recorder :: "ptp_client \<Rightarrow> shared_samples \<Rightarrow> ptp_client" where
  "set_diagnostics_recorder c recorder = c\<lparr>pc_diagnostics := Some recorder\<rparr>"

definition process_sync :: "ptp_client \<Rightarrow> ptp_timestamp \<Rightarrow> ptp_client" where
  "process_sync c now = c\<lparr>pc_t2 := Some now, pc_state := Synchronizing\<rparr>"

definition process_follow_up :: "ptp_client \<Rightarrow> u8 list \<Rightarrow> ptp_client \<times> (parse_error + unit)" where
  "process_follow_up c data =
     (if 44 \<le> length data
      then case ts_parse (byte_range 34 44 data) of
             Inl e \<Rightarrow> (c, Inl e)
           | Inr t \<Rightarrow> (c\<lparr>pc_t1 := Some t\<rparr>, Inr ())
      else (c, Inr ()))"

definition send_delay_req :: "ptp_client \<Rightarrow> ptp_timestamp \<Rightarrow> ptp_client \<times> u8 list" where
  "send_delay_req c now =
     (let seqnum = pc_sequence_id c + 1
      in (c\<lparr>pc_sequence_id := seqnum, pc_t3 := Some now\<rparr>,
          ptp_header_serialize (ptp_header_new DelayReq seqnum) @ ts_serialize now))"

text \<open>The diagnostics hook mirrors the four timestamps, when all of them fit 64 bits; \<open>elapsed_ns\<close> is
  the monotone time since the recorder was installed.\<close>

definition u64_try_from :: "nat \<Rightarrow> u64 option" where
  "u64_try_from n = (if n < 2 ^ 64 then Some (of_nat n) else None)"

definition record_exchange ::
    "u64 \<Rightarrow> ptp_timestamp \<Rightarrow> ptp_timestamp \<Rightarrow> ptp_timestamp \<Rightarrow> ptp_timestamp \<Rightarrow> shared_samples \<Rightarrow> shared_samples" where
  "record_exchange elapsed_ns t1 t2 t3 t4 recorder =
     (case (u64_try_from (to_nanos t1), u64_try_from (to_nanos t2), u64_try_from (to_nanos t3), u64_try_from (to_nanos t4)) of
        (Some t1_ns, Some t2_ns, Some t3_ns, Some t4_ns) \<Rightarrow>
          (case ptp_measurement 0 elapsed_ns t1_ns t2_ns t3_ns t4_ns of
             Some measurement \<Rightarrow> samples_push recorder measurement
           | None \<Rightarrow> recorder)
      | _ \<Rightarrow> recorder)"

definition calculate_offset :: "u64 \<Rightarrow> ptp_client \<Rightarrow> ptp_client" where
  "calculate_offset elapsed_ns c =
     (case (pc_t1 c, pc_t2 c, pc_t3 c, pc_t4 c) of
        (Some t1, Some t2, Some t3, Some t4) \<Rightarrow>
          c\<lparr>pc_offset := two_way_offset t1 t2 t3 t4, pc_state := Synchronized,
            pc_diagnostics := map_option (record_exchange elapsed_ns t1 t2 t3 t4) (pc_diagnostics c),
            pc_t1 := None, pc_t2 := None, pc_t3 := None, pc_t4 := None\<rparr>
      | _ \<Rightarrow> c)"

definition process_delay_resp ::
    "ptp_client \<Rightarrow> u8 list \<Rightarrow> u64 \<Rightarrow> ptp_client \<times> (parse_error + unit)" where
  "process_delay_resp c data elapsed_ns =
     (if 44 \<le> length data
      then case ts_parse (byte_range 34 44 data) of
             Inl e \<Rightarrow> (c, Inl e)
           | Inr t \<Rightarrow> (calculate_offset elapsed_ns (c\<lparr>pc_t4 := Some t\<rparr>), Inr ())
      else (c, Inr ()))"

section \<open>Time conversion\<close>

definition local_to_master :: "ptp_client \<Rightarrow> u64 \<Rightarrow> u64" where
  "local_to_master c local_ns =
     (case local_to_master_ns local_ns (co_offset_ns (pc_offset c)) of Some m \<Rightarrow> m | None \<Rightarrow> 0)"

definition master_to_local :: "ptp_client \<Rightarrow> u64 \<Rightarrow> u64" where
  "master_to_local c master_ns =
     (let loc = uint master_ns + co_offset_ns (pc_offset c)
      in word_of_int (min (max loc 0) (2 ^ 64 - 1)))"

end
