(* ===== verification/Ptp_Properties.thy ===== *)
theory Ptp_Properties
  imports Ptp_Tracker
begin

text \<open>
  What the clock follower promises: every published clock state pairs the announced grandmaster
  with an offset measured from datagrams of that very clock, received in order since it was
  announced; and how far the computed offset can be from the true one.
\<close>

section \<open>Provenance of a measurement\<close>

definition from_relay :: "announced_clock \<Rightarrow> ptp_message_type \<Rightarrow> u16 \<Rightarrow> dgram \<Rightarrow> bool" where
  "from_relay a ty n d \<longleftrightarrow> dg_from_master d \<and>
     (case ptp_header_parse (dg_bytes d) of
        Inl _ \<Rightarrow> False
      | Inr h \<Rightarrow> ph_message_type h = ty \<and> ph_sequence_id h = n
                 \<and> ph_source_port_identity h = an_relay_port_identity a)"

definition carries :: "dgram \<Rightarrow> ptp_timestamp \<Rightarrow> bool" where
  "carries d t \<longleftrightarrow> ts_parse (byte_range 34 44 (dg_bytes d)) = Inr t"

text \<open>A Sync received at \<open>t2\<close> and, later, its Follow_Up carrying \<open>t1\<close>, handled at \<open>t3\<close>.\<close>

definition sync_pair :: "announced_clock \<Rightarrow> dgram list \<Rightarrow> ptp_timestamp \<Rightarrow> ptp_timestamp \<Rightarrow> ptp_timestamp \<Rightarrow> bool" where
  "sync_pair a ds t1 t2 t3 \<longleftrightarrow>
     (\<exists>xs s ys f zs n. ds = xs @ s # ys @ f # zs \<and> from_relay a Sync n s \<and> from_relay a FollowUp n f
        \<and> dg_now s = t2 \<and> carries f t1 \<and> dg_now f = t3)"

text \<open>
  After such a pair, a Delay_Resp carrying \<open>t4\<close> that answers a request this port has sent at \<open>t3\<close>: it has the
  sequence number of that request and names this port as the requester.
\<close>

definition delay_exchange :: "u8 list \<Rightarrow> u8 list list \<Rightarrow> announced_clock \<Rightarrow> dgram list
    \<Rightarrow> ptp_timestamp \<Rightarrow> ptp_timestamp \<Rightarrow> ptp_timestamp \<Rightarrow> ptp_timestamp \<Rightarrow> bool" where
  "delay_exchange local_port sent a ds t1 t2 t3 t4 \<longleftrightarrow>
     (\<exists>xs r zs m. ds = xs @ r # zs \<and> sync_pair a xs t1 t2 t3 \<and> from_relay a DelayResp m r \<and> carries r t4
        \<and> byte_range 44 54 (dg_bytes r) = local_port \<and> delay_req_datagram local_port m t3 \<in> set sent)"

definition measured :: "u8 list \<Rightarrow> u8 list list \<Rightarrow> announced_clock \<Rightarrow> dgram list \<Rightarrow> clock_offset \<Rightarrow> bool" where
  "measured local_port sent a ds off \<longleftrightarrow>
     (\<exists>t1 t2 t3. sync_pair a ds t1 t2 t3 \<and> off = one_way_offset t1 t2)
     \<or> (\<exists>t1 t2 t3 t4. delay_exchange local_port sent a ds t1 t2 t3 t4 \<and> off = two_way_offset t1 t2 t3 t4)"

text \<open>The loop with the datagrams handled since the announced clock last changed.\<close>

definition traced_step :: "slave \<times> dgram list \<Rightarrow> dgram \<Rightarrow> slave \<times> dgram list" where
  "traced_step acc d =
     (let (s, since) = acc; s' = slave_step s d
      in (s', if tk_announced (sl_tracker s') = tk_announced (sl_tracker s) then since @ [d] else []))"

definition slave_run :: "tracker \<Rightarrow> dgram list \<Rightarrow> slave \<times> dgram list" where
  "slave_run k ds = foldl traced_step (slave_start k, []) ds"

lemma sync_pair_append: "sync_pair a ds t1 t2 t3 \<Longrightarrow> sync_pair a (ds @ [d]) t1 t2 t3"
  unfolding sync_pair_def by (metis append.assoc append_Cons)

lemma delay_exchange_append:
  "delay_exchange lp sent a ds t1 t2 t3 t4 \<Longrightarrow> set sent \<subseteq> set sent1 \<Longrightarrow> delay_exchange lp sent1 a (ds @ [d]) t1 t2 t3 t4"
  unfolding delay_exchange_def by (metis append.assoc append_Cons subsetD)

lemma measured_append: "measured lp sent a ds off \<Longrightarrow> set sent \<subseteq> set sent1 \<Longrightarrow> measured lp sent1 a (ds @ [d]) off"
  unfolding measured_def using sync_pair_append delay_exchange_append by metis

definition pending_ok :: "announced_clock \<Rightarrow> dgram list \<Rightarrow> pending_sync \<Rightarrow> bool" where
  "pending_ok a ds p \<longleftrightarrow> ps_generation p = an_generation a
     \<and> (\<exists>xs s ys. ds = xs @ s # ys \<and> from_relay a Sync (ps_sequence_id p) s \<and> dg_now s = ps_received_at p)"

definition delay_ok :: "u8 list \<Rightarrow> u8 list list \<Rightarrow> announced_clock \<Rightarrow> dgram list \<Rightarrow> pending_delay \<Rightarrow> bool" where
  "delay_ok local_port sent a ds p \<longleftrightarrow>
     sync_pair a ds (cy_master_sent_at (pd_sync p)) (cy_local_received_at (pd_sync p)) (pd_local_sent_at p)
     \<and> pd_requesting_port_identity p = local_port
     \<and> delay_req_datagram local_port (pd_sequence_id p) (pd_local_sent_at p) \<in> set sent"

definition slave_inv :: "u8 list \<Rightarrow> slave \<times> dgram list \<Rightarrow> bool" where
  "slave_inv local_port acc \<longleftrightarrow> tk_local_port_identity (sl_tracker (fst acc)) = local_port \<and>
     (case tk_announced (sl_tracker (fst acc)) of
        None \<Rightarrow> tk_pending_sync (sl_tracker (fst acc)) = None \<and> tk_pending_delay (sl_tracker (fst acc)) = None
                \<and> sl_published (fst acc) = None
      | Some a \<Rightarrow>
          pred_option (pending_ok a (snd acc)) (tk_pending_sync (sl_tracker (fst acc)))
          \<and> pred_option (delay_ok local_port (sl_sent (fst acc)) a (snd acc)) (tk_pending_delay (sl_tracker (fst acc)))
          \<and> pred_option (\<lambda>st. cs_master_clock_id st = an_grandmaster_id a \<and> measured local_port (sl_sent (fst acc)) a (snd acc) (cs_offset st))
              (sl_published (fst acc)))"

lemma pred_option_mono_ext: "pred_option P x \<Longrightarrow> (\<And>y. P y \<Longrightarrow> Q y) \<Longrightarrow> pred_option Q x"
  by (cases x) auto

lemma slave_inv_mono:
  assumes "slave_inv local_port (s, ds)"
  shows "slave_inv local_port (s, ds @ [d])"
proof -
  have "pending_ok a ds p \<Longrightarrow> pending_ok a (ds @ [d]) p" for a p
    unfolding pending_ok_def by (metis append.assoc append_Cons)
  then show ?thesis using assms
    by (auto simp: slave_inv_def delay_ok_def intro: measured_append sync_pair_append
        elim!: pred_option_mono_ext split: option.splits)
qed

lemma observe_announce_cases:
  assumes "observe_announce k0 h packet = (k, pub)"
  shows "tk_local_port_identity k = tk_local_port_identity k0 \<and> (k = k0 \<and> pub = TP_Unchanged
    \<or> tk_announced k \<noteq> None \<and> tk_pending_sync k = None \<and> tk_pending_delay k = None
      \<and> tk_announced k \<noteq> tk_announced k0 \<and> (pub = TP_Unchanged \<longrightarrow> tk_announced k0 = None))"
  using assms by (auto simp: observe_announce_def Let_def is_some_and_def split: if_splits option.splits)

lemma announce_inv:
  assumes "slave_inv local_port (s, since)"
  shows "slave_inv local_port (slave_announce s h packet,
     if tk_announced (sl_tracker (slave_announce s h packet)) = tk_announced (sl_tracker s) then since @ [d] else [])"
proof -
  obtain k pub where obs: "observe_announce (sl_tracker s) h packet = (k, pub)"
    by (cases "observe_announce (sl_tracker s) h packet")
  have lp: "tk_local_port_identity k = local_port" using observe_announce_cases [OF obs] assms by (simp add: slave_inv_def)
  from conjunct2 [OF observe_announce_cases [OF obs]] show ?thesis
  proof (elim disjE conjE)
    assume "k = sl_tracker s" "pub = TP_Unchanged"
    then show ?thesis using obs slave_inv_mono [OF assms] by (simp add: slave_announce_def)
  next
    assume new: "tk_announced k \<noteq> None" "tk_pending_sync k = None" "tk_pending_delay k = None"
      "tk_announced k \<noteq> tk_announced (sl_tracker s)"
      and inval: "pub = TP_Unchanged \<longrightarrow> tk_announced (sl_tracker s) = None"
    have "pub = TP_Unchanged \<Longrightarrow> sl_published s = None" using inval assms by (simp add: slave_inv_def)
    then show ?thesis using new obs lp
      by (cases pub) (auto simp: slave_announce_def slave_inv_def)
  qed
qed

lemma sync_inv:
  assumes inv: "slave_inv local_port (s, since)" and d: "dg_from_master d" "ptp_header_parse (dg_bytes d) = Inr h"
  shows "slave_inv local_port (s\<lparr>sl_tracker := observe_sync (sl_tracker s) h (dg_bytes d) (dg_now d)\<rparr>, since @ [d])"
proof (cases "observe_sync (sl_tracker s) h (dg_bytes d) (dg_now d) = sl_tracker s")
  case True
  then show ?thesis using slave_inv_mono [OF inv] by simp
next
  case False
  then obtain a where a: "tk_announced (sl_tracker s) = Some a" "ph_message_type h = Sync"
      "ph_source_port_identity h = an_relay_port_identity a"
    and k: "observe_sync (sl_tracker s) h (dg_bytes d) (dg_now d) =
      (sl_tracker s)\<lparr>tk_pending_sync := Some \<lparr>ps_sequence_id = ph_sequence_id h,
         ps_relay_port_identity = ph_source_port_identity h, ps_generation = an_generation a,
         ps_received_at = dg_now d\<rparr>\<rparr>"
    by (auto simp: observe_sync_def split: if_splits option.splits)
  have "from_relay a Sync (ph_sequence_id h) d" using d a by (simp add: from_relay_def)
  then have "pending_ok a (since @ [d]) \<lparr>ps_sequence_id = ph_sequence_id h,
         ps_relay_port_identity = ph_source_port_identity h, ps_generation = an_generation a,
         ps_received_at = dg_now d\<rparr>"
    unfolding pending_ok_def by (auto intro!: exI [of _ since])
  then show ?thesis using slave_inv_mono [OF inv, of d] a by (simp add: k slave_inv_def)
qed

lemma delay_response_inv:
  assumes inv: "slave_inv local_port (s, since)" and d: "dg_from_master d" "ptp_header_parse (dg_bytes d) = Inr h"
  shows "slave_inv local_port (slave_delay_response s h (dg_bytes d), since @ [d])"
    and "tk_announced (sl_tracker (slave_delay_response s h (dg_bytes d))) = tk_announced (sl_tracker s)"
proof -
  show "tk_announced (sl_tracker (slave_delay_response s h (dg_bytes d))) = tk_announced (sl_tracker s)"
    by (auto simp: slave_delay_response_def observe_delay_response_def split: option.splits sum.splits)
  show "slave_inv local_port (slave_delay_response s h (dg_bytes d), since @ [d])"
  proof (cases "snd (observe_delay_response (sl_tracker s) h (dg_bytes d))")
    case None
    then have "fst (observe_delay_response (sl_tracker s) h (dg_bytes d)) = sl_tracker s"
      by (auto simp: observe_delay_response_def split: option.splits sum.splits if_splits)
    then show ?thesis using None slave_inv_mono [OF inv]
      by (simp add: slave_delay_response_def case_prod_beta)
  next
    case (Some st)
    then obtain a p t4 where a: "tk_announced (sl_tracker s) = Some a" "tk_pending_delay (sl_tracker s) = Some p"
      and h: "ph_message_type h = DelayResp" "ph_source_port_identity h = an_relay_port_identity a"
        "ph_sequence_id h = pd_sequence_id p" "byte_range 44 54 (dg_bytes d) = pd_requesting_port_identity p"
      and t4: "carries d t4"
      and res: "observe_delay_response (sl_tracker s) h (dg_bytes d) =
        ((sl_tracker s)\<lparr>tk_pending_delay := None\<rparr>,
         Some \<lparr>cs_master_clock_id = an_grandmaster_id a,
               cs_offset = two_way_offset (cy_master_sent_at (pd_sync p)) (cy_local_received_at (pd_sync p))
                 (pd_local_sent_at p) t4\<rparr>)"
      by (auto simp: observe_delay_response_def carries_def split: option.splits sum.splits if_splits)
    have "from_relay a DelayResp (pd_sequence_id p) d" using d h by (simp add: from_relay_def)
    moreover have "delay_ok local_port (sl_sent s) a since p" using inv a by (simp add: slave_inv_def)
    ultimately have "delay_exchange local_port (sl_sent s) a (since @ [d]) (cy_master_sent_at (pd_sync p)) (cy_local_received_at (pd_sync p))
        (pd_local_sent_at p) t4"
      using t4 h(4) unfolding delay_exchange_def delay_ok_def by (intro exI [of _ since] exI [of _ d] exI [of _ "[]"] exI [of _ "pd_sequence_id p"]) simp
    then have "measured local_port (sl_sent s) a (since @ [d]) (two_way_offset (cy_master_sent_at (pd_sync p))
        (cy_local_received_at (pd_sync p)) (pd_local_sent_at p) t4)"
      unfolding measured_def by blast
    then show ?thesis
      using slave_inv_mono [OF inv, of d] a by (simp add: slave_delay_response_def res slave_inv_def)
  qed
qed

lemma follow_up_inv:
  assumes inv: "slave_inv local_port (s, since)" and d: "dg_from_master d" "ptp_header_parse (dg_bytes d) = Inr h"
  shows "slave_inv local_port (slave_follow_up s h (dg_bytes d) (dg_now d), since @ [d])"
    and "tk_announced (sl_tracker (slave_follow_up s h (dg_bytes d) (dg_now d))) = tk_announced (sl_tracker s)"
proof -
  show "tk_announced (sl_tracker (slave_follow_up s h (dg_bytes d) (dg_now d))) = tk_announced (sl_tracker s)"
    by (auto simp: slave_follow_up_def observe_follow_up_def record_delay_request_def Let_def
        split: option.splits sum.splits)
  show "slave_inv local_port (slave_follow_up s h (dg_bytes d) (dg_now d), since @ [d])"
  proof (cases "snd (observe_follow_up (sl_tracker s) h (dg_bytes d))")
    case None
    then have "fst (observe_follow_up (sl_tracker s) h (dg_bytes d)) = sl_tracker s"
      by (auto simp: observe_follow_up_def split: option.splits sum.splits if_splits)
    then show ?thesis using None slave_inv_mono [OF inv]
      by (simp add: slave_follow_up_def case_prod_beta)
  next
    case (Some st)
    then obtain a p t1 where a: "tk_announced (sl_tracker s) = Some a" "tk_pending_sync (sl_tracker s) = Some p"
      and h: "ph_message_type h = FollowUp" "ph_source_port_identity h = an_relay_port_identity a"
        "ph_sequence_id h = ps_sequence_id p"
      and t1: "carries d t1"
      and res: "observe_follow_up (sl_tracker s) h (dg_bytes d) =
        ((sl_tracker s)\<lparr>tk_pending_sync := None, tk_completed_sync := Some \<lparr>cy_generation = an_generation a,
            cy_master_sent_at = t1, cy_local_received_at = ps_received_at p\<rparr>\<rparr>,
         Some \<lparr>cs_master_clock_id = an_grandmaster_id a, cs_offset = one_way_offset t1 (ps_received_at p)\<rparr>)"
      by (auto simp: observe_follow_up_def carries_def split: option.splits sum.splits if_splits)
    obtain xs sd ys where sd: "since = xs @ sd # ys" "from_relay a Sync (ps_sequence_id p) sd"
        "dg_now sd = ps_received_at p"
      using inv a by (auto simp: slave_inv_def pending_ok_def)
    have "from_relay a FollowUp (ps_sequence_id p) d" using d h by (simp add: from_relay_def)
    then have pair: "sync_pair a (since @ [d]) t1 (ps_received_at p) (dg_now d)"
      using sd t1 unfolding sync_pair_def by (metis append.assoc append_Cons)
    then have "measured local_port sent a (since @ [d]) (one_way_offset t1 (ps_received_at p))" for sent
      unfolding measured_def by blast
    moreover have "tk_local_port_identity (sl_tracker s) = local_port" using inv by (simp add: slave_inv_def)
    ultimately show ?thesis
      using pair a
      by (simp add: slave_follow_up_def res slave_inv_def record_delay_request_def Let_def delay_ok_def)
  qed
qed

lemma slave_step_inv: "slave_inv local_port acc \<Longrightarrow> slave_inv local_port (traced_step acc d)"
proof -
  obtain s since where acc: "acc = (s, since)" by (cases acc)
  assume "slave_inv local_port acc"
  then have inv: "slave_inv local_port (s, since)" by (simp add: acc)
  have same: "slave_inv local_port (traced_step (s, since) d)" if "slave_step s d = s"
    using slave_inv_mono [OF inv] that by (simp add: traced_step_def Let_def)
  show ?thesis unfolding acc
  proof (cases "dg_from_master d")
    case True
    show "slave_inv local_port (traced_step (s, since) d)"
    proof (cases "ptp_header_parse (dg_bytes d)")
      case (Inr h)
      note steps = announce_inv [OF inv] sync_inv [OF inv True Inr] delay_response_inv [OF inv True Inr]
        follow_up_inv [OF inv True Inr]
      have sync: "tk_announced (observe_sync (sl_tracker s) h (dg_bytes d) (dg_now d)) = tk_announced (sl_tracker s)"
        by (auto simp: observe_sync_def split: option.splits)
      show ?thesis
        using True Inr steps same sync
        by (cases "dg_port d"; cases "ph_message_type h") (simp_all add: traced_step_def slave_step_def Let_def)
    qed (use same in \<open>simp add: slave_step_def\<close>)
  qed (use same in \<open>simp add: slave_step_def\<close>)
qed

lemma negotiate_clean:
  "let k = fst (negotiate local_port ds) in tk_local_port_identity k = local_port \<and> tk_pending_sync k = None \<and> tk_pending_delay k = None"
proof -
  have "tk_local_port_identity (fst acc) = local_port \<and> tk_pending_sync (fst acc) = None \<and> tk_pending_delay (fst acc) = None \<Longrightarrow>
     tk_local_port_identity (fst (foldl negotiation_step acc ds)) = local_port \<and> tk_pending_sync (fst (foldl negotiation_step acc ds)) = None
     \<and> tk_pending_delay (fst (foldl negotiation_step acc ds)) = None" for acc
  proof (induction ds arbitrary: acc)
    case (Cons d ds)
    have "tk_local_port_identity (fst (negotiation_step acc d)) = local_port
        \<and> tk_pending_sync (fst (negotiation_step acc d)) = None \<and> tk_pending_delay (fst (negotiation_step acc d)) = None"
      using Cons.prems observe_announce_cases [OF surjective_pairing]
      by (auto simp: negotiation_step_def case_prod_beta Let_def split: sum.splits) metis+
    then show ?case using Cons.IH by simp
  qed simp
  from this [of "(tracker_new local_port, 255)"] show ?thesis
    by (simp add: negotiate_def tracker_new_def Let_def)
qed

text \<open>
  C8: A published clock state is coherent: whatever datagrams the negotiation and the loop have
  received, in any order, it names the grandmaster announced at that moment, and its offset is
  computed from a Sync and, after it, its Follow_Up of the announced relay with the same sequence
  number, both received since that clock was announced; or from such a pair and, after it, a Delay_Resp
  of the same relay that names this port as the requester and has the sequence number of a request
  sent at the moment the Follow_Up was handled. After a change of clock nothing is published until such a
  measurement exists.
\<close>

theorem published_clock_coherent:
  assumes "slave_run (fst (negotiate local_port ds0)) ds = (s, since)"
  shows "case sl_published s of
      None \<Rightarrow> True
    | Some st \<Rightarrow> (\<exists>a. tk_announced (sl_tracker s) = Some a \<and> cs_master_clock_id st = an_grandmaster_id a
        \<and> measured local_port (sl_sent s) a since (cs_offset st))"
proof -
  have "slave_inv local_port (slave_start (fst (negotiate local_port ds0)), [])"
    using negotiate_clean [of local_port ds0] by (auto simp: slave_inv_def slave_start_def Let_def split: option.splits)
  then have "slave_inv local_port (foldl traced_step (slave_start (fst (negotiate local_port ds0)), []) ds)"
    by (induction ds rule: rev_induct) (simp_all add: slave_step_inv)
  then have "slave_inv local_port (s, since)" using assms by (simp add: slave_run_def)
  then show ?thesis by (auto simp: slave_inv_def split: option.splits)
qed

definition demo_clock :: "u8 list" where "demo_clock = replicate 8 7"

definition demo_dgram :: "dgram_port \<Rightarrow> u8 list \<Rightarrow> u32 \<Rightarrow> dgram" where
  "demo_dgram p bytes ns = \<lparr>dg_port = p, dg_from_master = True, dg_bytes = bytes,
     dg_now = \<lparr>ts_seconds = 5, ts_nanoseconds = ns\<rparr>\<rparr>"

definition demo_negotiated :: "tracker \<times> u8" where
  "demo_negotiated = negotiate (replicate 10 1)
     [demo_dgram General_Port (announce_datagram demo_clock 1 248 248) 0]"

definition demo_conversation :: "dgram list" where
  "demo_conversation = [demo_dgram Event_Port (sync_datagram demo_clock 5) 1100,
     demo_dgram General_Port (follow_up_datagram demo_clock 5 \<lparr>ts_seconds = 3, ts_nanoseconds = 600\<rparr>) 1200]"

lemma port_identity_ok: "length ident = 8 \<Longrightarrow> length (port_identity ident) = 10"
  by (simp add: port_identity_def)

lemma demo_negotiated_announced:
  "tk_announced (fst demo_negotiated) = Some \<lparr>an_grandmaster_id = demo_clock,
     an_relay_port_identity = port_identity demo_clock, an_generation = 1\<rparr>"
proof -
  let ?h = "(ptp_header_new Announce 1)\<lparr>ph_source_port_identity := port_identity demo_clock,
     ph_message_length := 64, ph_log_message_interval := 1\<rparr>"
  have ok: "ptp_header_ok ?h"
    by (simp add: ptp_header_ok_def ptp_header_new_def port_identity_ok demo_clock_def)
  have len: "length (ptp_header_serialize ?h) = 34" "length demo_clock = 8"
    by (simp_all add: port_identity_ok demo_clock_def)
  have parse: "ptp_header_parse (announce_datagram demo_clock 1 248 248) = Inr ?h"
    unfolding announce_datagram_def by (rule ptp_header_parse_serialize [OF ok])
  have body: "byte_range 53 61 (announce_datagram demo_clock 1 248 248) = demo_clock"
    "61 \<le> length (announce_datagram demo_clock 1 248 248)"
    using len by (simp_all add: announce_datagram_def byte_range_def)
  show ?thesis
    using body parse
    by (simp add: demo_negotiated_def negotiate_def negotiation_step_def tracker_new_def demo_dgram_def
        observe_announce_def Let_def ptp_header_new_def)
      (simp add: demo_clock_def port_identity_def)
qed

section \<open>Measurements\<close>

lemma header_parse_length: "ptp_header_parse data = Inr h \<Longrightarrow> 34 \<le> length data"
  by (simp add: ptp_header_parse_def split: if_splits)

lemma sync_follow_up_measures:
  fixes t2 t3 :: ptp_timestamp
  assumes "tk_announced (sl_tracker s) = Some a"
    and "ptp_header_parse b1 = Inr h1" "ph_message_type h1 = Sync" "ph_source_port_identity h1 = an_relay_port_identity a"
    and "ptp_header_parse b2 = Inr h2" "ph_message_type h2 = FollowUp" "ph_source_port_identity h2 = an_relay_port_identity a"
    and "ph_sequence_id h2 = ph_sequence_id h1" "44 \<le> length b2"
  defines "s2 \<equiv> slave_step (slave_step s \<lparr>dg_port = Event_Port, dg_from_master = True, dg_bytes = b1, dg_now = t2\<rparr>)
      \<lparr>dg_port = General_Port, dg_from_master = True, dg_bytes = b2, dg_now = t3\<rparr>"
  shows "\<exists>t1. ts_parse (byte_range 34 44 b2) = Inr t1
    \<and> sl_published s2 = Some \<lparr>cs_master_clock_id = an_grandmaster_id a, cs_offset = one_way_offset t1 t2\<rparr>
    \<and> sl_sent s2 = sl_sent s @ [delay_req_datagram (tk_local_port_identity (sl_tracker s)) (sl_delay_req_seq s + 1) t3]"
proof -
  obtain t1 where t1: "ts_parse (byte_range 34 44 b2) = Inr t1"
    using assms(9) by (simp add: ts_parse_def byte_range_def)
  have "34 \<le> length b1" using header_parse_length [OF assms(2)] .
  then show ?thesis
    using assms t1 by (simp add: s2_def slave_step_def observe_sync_def slave_follow_up_def observe_follow_up_def Let_def)
qed

text \<open>
  A Sync of the announced relay followed by its Follow_Up always yields a measurement: the
  loop publishes the announced grandmaster with the difference of the carried and the local time,
  and asks for the path delay under the next request number.
\<close>

theorem sync_follow_up_publishes:
  fixes t2 t3 :: ptp_timestamp
  assumes "tk_announced (sl_tracker s) = Some a"
    and "ptp_header_parse b1 = Inr h1" "ph_message_type h1 = Sync" "ph_source_port_identity h1 = an_relay_port_identity a"
    and "ptp_header_parse b2 = Inr h2" "ph_message_type h2 = FollowUp" "ph_source_port_identity h2 = an_relay_port_identity a"
    and "ph_sequence_id h2 = ph_sequence_id h1" "44 \<le> length b2"
  defines "s2 \<equiv> slave_step (slave_step s \<lparr>dg_port = Event_Port, dg_from_master = True, dg_bytes = b1, dg_now = t2\<rparr>)
      \<lparr>dg_port = General_Port, dg_from_master = True, dg_bytes = b2, dg_now = t3\<rparr>"
  shows "\<exists>t1. ts_parse (byte_range 34 44 b2) = Inr t1
    \<and> sl_published s2 = Some \<lparr>cs_master_clock_id = an_grandmaster_id a, cs_offset = one_way_offset t1 t2\<rparr>
    \<and> sl_sent s2 = sl_sent s @ [delay_req_datagram (tk_local_port_identity (sl_tracker s)) (sl_delay_req_seq s + 1) t3]"
  unfolding s2_def using assms(1-9) by (rule sync_follow_up_measures)

lemma demo_parse:
  "\<exists>h1. ptp_header_parse (sync_datagram demo_clock 5) = Inr h1 \<and> ph_message_type h1 = Sync
     \<and> ph_source_port_identity h1 = port_identity demo_clock \<and> ph_sequence_id h1 = 5"
  "\<exists>h2. ptp_header_parse (follow_up_datagram demo_clock 5 t) = Inr h2 \<and> ph_message_type h2 = FollowUp
     \<and> ph_source_port_identity h2 = port_identity demo_clock \<and> ph_sequence_id h2 = 5"
proof -
  have "length (port_identity demo_clock) = 10" by (simp add: port_identity_ok demo_clock_def)
  then show "\<exists>h1. ptp_header_parse (sync_datagram demo_clock 5) = Inr h1 \<and> ph_message_type h1 = Sync
     \<and> ph_source_port_identity h1 = port_identity demo_clock \<and> ph_sequence_id h1 = 5"
    "\<exists>h2. ptp_header_parse (follow_up_datagram demo_clock 5 t) = Inr h2 \<and> ph_message_type h2 = FollowUp
     \<and> ph_source_port_identity h2 = port_identity demo_clock \<and> ph_sequence_id h2 = 5"
    unfolding sync_datagram_def follow_up_datagram_def Let_def
    by (subst ptp_header_parse_serialize; simp add: ptp_header_ok_def ptp_header_new_def)+
qed

lemma demo_follow_up:
  "ts_ok t \<Longrightarrow> ts_parse (byte_range 34 44 (follow_up_datagram demo_clock 5 t)) = Inr t"
  "44 \<le> length (follow_up_datagram demo_clock 5 t)"
proof -
  have "length (port_identity demo_clock) = 10" by (simp add: port_identity_ok demo_clock_def)
  then have "byte_range 34 44 (follow_up_datagram demo_clock 5 t) = ts_serialize t @ []"
    "44 \<le> length (follow_up_datagram demo_clock 5 t)"
    by (simp_all add: follow_up_datagram_def Let_def byte_range_def)
  then show "ts_ok t \<Longrightarrow> ts_parse (byte_range 34 44 (follow_up_datagram demo_clock 5 t)) = Inr t"
    "44 \<le> length (follow_up_datagram demo_clock 5 t)"
    using ts_parse_ok by metis+
qed

theorem sync_follow_up_publishes_witness:
  "\<exists>st. sl_published (slave_step (slave_step (slave_start (fst demo_negotiated))
       (demo_dgram Event_Port (sync_datagram demo_clock 5) 1100))
       (demo_dgram General_Port (follow_up_datagram demo_clock 5 \<lparr>ts_seconds = 3, ts_nanoseconds = 600\<rparr>) 1200))
     = Some st \<and> cs_master_clock_id st = demo_clock"
proof -
  let ?t = "\<lparr>ts_seconds = 3, ts_nanoseconds = 600\<rparr>"
  have a: "tk_announced (sl_tracker (slave_start (fst demo_negotiated))) = Some \<lparr>an_grandmaster_id = demo_clock,
     an_relay_port_identity = port_identity demo_clock, an_generation = 1\<rparr>"
    by (simp add: slave_start_def demo_negotiated_announced)
  obtain h1 where h1: "ptp_header_parse (sync_datagram demo_clock 5) = Inr h1" "ph_message_type h1 = Sync"
     "ph_source_port_identity h1 = port_identity demo_clock" "ph_sequence_id h1 = 5"
    using demo_parse(1) by blast
  obtain h2 where h2: "ptp_header_parse (follow_up_datagram demo_clock 5 ?t) = Inr h2" "ph_message_type h2 = FollowUp"
     "ph_source_port_identity h2 = port_identity demo_clock" "ph_sequence_id h2 = 5"
    using demo_parse(2) by blast
  show ?thesis
    using sync_follow_up_publishes [OF a h1(1,2) _ h2(1,2), of "\<lparr>ts_seconds = 5, ts_nanoseconds = 1100\<rparr>"
        "\<lparr>ts_seconds = 5, ts_nanoseconds = 1200\<rparr>"] h1 h2 demo_follow_up(2)
    by (auto simp: demo_dgram_def)
qed

lemma demo_published:
  "sl_published (fst (slave_run (fst demo_negotiated) demo_conversation)) =
     Some \<lparr>cs_master_clock_id = demo_clock,
       cs_offset = one_way_offset \<lparr>ts_seconds = 3, ts_nanoseconds = 600\<rparr> \<lparr>ts_seconds = 5, ts_nanoseconds = 1100\<rparr>\<rparr>"
proof -
  let ?t = "\<lparr>ts_seconds = 3, ts_nanoseconds = 600\<rparr>"
  have a: "tk_announced (sl_tracker (slave_start (fst demo_negotiated))) = Some \<lparr>an_grandmaster_id = demo_clock,
     an_relay_port_identity = port_identity demo_clock, an_generation = 1\<rparr>"
    by (simp add: slave_start_def demo_negotiated_announced)
  obtain h1 where h1: "ptp_header_parse (sync_datagram demo_clock 5) = Inr h1" "ph_message_type h1 = Sync"
     "ph_source_port_identity h1 = port_identity demo_clock" "ph_sequence_id h1 = 5"
    using demo_parse(1) by blast
  obtain h2 where h2: "ptp_header_parse (follow_up_datagram demo_clock 5 ?t) = Inr h2" "ph_message_type h2 = FollowUp"
     "ph_source_port_identity h2 = port_identity demo_clock" "ph_sequence_id h2 = 5"
    using demo_parse(2) by blast
  show ?thesis
    using sync_follow_up_measures [OF a h1(1,2) _ h2(1,2), of "\<lparr>ts_seconds = 5, ts_nanoseconds = 1100\<rparr>"
        "\<lparr>ts_seconds = 5, ts_nanoseconds = 1200\<rparr>"] h1 h2 demo_follow_up [of ?t]
    by (simp add: slave_run_def demo_conversation_def traced_step_def Let_def demo_dgram_def ts_ok_def)
qed

theorem published_clock_coherent_witness:
  "\<exists>a. tk_announced (sl_tracker (fst (slave_run (fst demo_negotiated) demo_conversation))) = Some a
    \<and> demo_clock = an_grandmaster_id a
    \<and> measured (replicate 10 1) (sl_sent (fst (slave_run (fst demo_negotiated) demo_conversation))) a
        (snd (slave_run (fst demo_negotiated) demo_conversation))
        (one_way_offset \<lparr>ts_seconds = 3, ts_nanoseconds = 600\<rparr> \<lparr>ts_seconds = 5, ts_nanoseconds = 1100\<rparr>)"
  using published_clock_coherent [OF surjective_pairing, of "replicate 10 1"
      "[demo_dgram General_Port (announce_datagram demo_clock 1 248 248) 0]" demo_conversation]
  by (simp add: demo_negotiated_def [symmetric] demo_published)

section \<open>Accuracy\<close>

text \<open>The delay that is published as the round trip is the mean of the two directions, half of the round trip.\<close>

lemma published_delay_is_one_way:
  fixes off :: int and d1 d2 :: nat
  assumes "int (to_nanos t2) = int (to_nanos t1) + off + int d1" "int (to_nanos t4) = int (to_nanos t3) - off + int d2"
    "int d1 < 2 ^ 60" "int d2 < 2 ^ 60"
  shows "uint (co_rtt_ns (two_way_offset t1 t2 t3 t4)) = (int d1 + int d2) div 2"
proof -
  have "(int (to_nanos t2) - int (to_nanos t1)) - (int (to_nanos t3) - int (to_nanos t4)) = int d1 + int d2" using assms(1,2) by linarith
  moreover have "(int d1 + int d2) div 2 < 2 ^ 64"
  proof -
    have "int d1 < 1152921504606846976" "int d2 < 1152921504606846976" using assms(3,4) by simp_all
    then show ?thesis by simp
  qed
  ultimately show ?thesis
    by (simp add: two_way_offset_def Let_def as_u64_def div_trunc_def unsigned_of_int take_bit_int_eq_self)
qed

text \<open>
  C32: let the local clock be ahead of the master by \<open>off\<close> nanoseconds (negative when it is behind), less than
  \<open>2\<^sup>6\<^sup>2\<close> either way, and let the link take \<open>d1\<close> and \<open>d2\<close> nanoseconds in its two directions, each less than \<open>2\<^sup>6\<^sup>0\<close>.
  Then the computed offset, local minus master, misses the true one by at most half of the sum of the asymmetry
  and one nanosecond, the latter for the division that drops the remainder. It is exact on a symmetric link,
  and the one-way estimate is off by exactly the delay it cannot see.
\<close>

theorem offset_accuracy:
  fixes off :: int and d1 d2 :: nat
  assumes "int (to_nanos t2) = int (to_nanos t1) + off + int d1"
    and "int (to_nanos t4) = int (to_nanos t3) - off + int d2"
    and "\<bar>off\<bar> < 2 ^ 62" "int d1 < 2 ^ 60" "int d2 < 2 ^ 60"
  shows "2 * \<bar>co_offset_ns (two_way_offset t1 t2 t3 t4) - off\<bar> \<le> \<bar>int d1 - int d2\<bar> + 1
    \<and> (d1 = d2 \<longrightarrow> co_offset_ns (two_way_offset t1 t2 t3 t4) = off)
    \<and> co_offset_ns (one_way_offset t1 t2) = off + int d1"
proof -
  let ?sum = "(int (to_nanos t2) - int (to_nanos t1)) + (int (to_nanos t3) - int (to_nanos t4))"
  have sum: "?sum = 2 * off + (int d1 - int d2)" using assms(1,2) by linarith
  have near: "\<bar>2 * div_trunc ?sum 2 - ?sum\<bar> \<le> 1" by (rule div_trunc_two)
  have "\<bar>off\<bar> < 4611686018427387904" "int d1 < 1152921504606846976" "int d2 < 1152921504606846976"
    using assms(3-5) by simp_all
  then have "- 9223372036854775808 \<le> div_trunc ?sum 2" "div_trunc ?sum 2 < 9223372036854775808"
    using near sum by linarith+
  then have small: "- (2 ^ 63) \<le> div_trunc ?sum 2" "div_trunc ?sum 2 < 2 ^ 63" by simp_all
  have offset: "co_offset_ns (two_way_offset t1 t2 t3 t4) = div_trunc ?sum 2"
    using as_i64_id [OF small] by (simp add: two_way_offset_def Let_def)
  have "d1 = d2 \<Longrightarrow> div_trunc ?sum 2 = off" unfolding sum using div_trunc_double [of off] by simp
  moreover have "co_offset_ns (one_way_offset t1 t2) = off + int d1"
    using assms by (simp add: one_way_offset_def as_i64_id)
  moreover have "2 * \<bar>div_trunc ?sum 2 - off\<bar> \<le> \<bar>int d1 - int d2\<bar> + 1"
    using near sum by (intro half_error) simp
  ultimately show ?thesis unfolding offset by blast
qed

theorem offset_accuracy_witness:
  "2 * \<bar>co_offset_ns (two_way_offset \<lparr>ts_seconds = 0, ts_nanoseconds = 100\<rparr> \<lparr>ts_seconds = 0, ts_nanoseconds = 650\<rparr>
      \<lparr>ts_seconds = 0, ts_nanoseconds = 700\<rparr> \<lparr>ts_seconds = 0, ts_nanoseconds = 280\<rparr>) - 500\<bar> \<le> 31"
  using offset_accuracy [of "\<lparr>ts_seconds = 0, ts_nanoseconds = 650\<rparr>" "\<lparr>ts_seconds = 0, ts_nanoseconds = 100\<rparr>" 500 50
      "\<lparr>ts_seconds = 0, ts_nanoseconds = 280\<rparr>" "\<lparr>ts_seconds = 0, ts_nanoseconds = 700\<rparr>" 80]
  by (simp add: to_nanos_def)

text \<open>
  Converting between the clocks never wraps: the local time minus the offset, when that is
  representable, and zero otherwise; going back recovers the local time, and a positive offset
  means that the local clock is ahead of the master.
\<close>

theorem clock_conversion:
  fixes c :: ptp_client
  defines "off \<equiv> co_offset_ns (pc_offset c)"
  shows "uint (local_to_master c t) = (if 0 \<le> uint t - off \<and> uint t - off < 2 ^ 64 then uint t - off else 0)
    \<and> (0 \<le> uint t - off \<and> uint t - off < 2 ^ 64 \<longrightarrow> master_to_local c (local_to_master c t) = t)
    \<and> (0 < off \<and> off \<le> uint t \<longrightarrow> local_to_master c t < t)"
proof -
  have t: "0 \<le> uint t" "uint t < 2 ^ 64" using uint_bounded [of t] by simp_all
  have conv: "uint (local_to_master c t) = uint t - off" if "0 \<le> uint t - off" "uint t - off < 2 ^ 64"
  proof -
    have eq: "local_to_master c t = word_of_int (uint t - off)"
      using that unfolding local_to_master_def local_to_master_ns_def Let_def off_def [symmetric] by auto
    show ?thesis
      unfolding eq using take_bit_int_eq_self [OF that] by (subst uint_word_of_int_eq) simp
  qed
  have none: "local_to_master c t = 0" if "\<not> (0 \<le> uint t - off \<and> uint t - off < 2 ^ 64)"
    using that by (auto simp: local_to_master_def local_to_master_ns_def Let_def off_def [symmetric])
  have returns: "master_to_local c (local_to_master c t) = t" if "0 \<le> uint t - off" "uint t - off < 2 ^ 64"
    using t conv [OF that] by (simp add: master_to_local_def Let_def off_def [symmetric] min_def max_def)
  have "local_to_master c t < t" if "0 < off" "off \<le> uint t"
    using conv that t by (simp add: word_less_def)
  then show ?thesis using conv none returns by auto
qed

definition demo_client :: ptp_client where
  "demo_client = client_new\<lparr>pc_offset := \<lparr>co_offset_ns = 7, co_error_ns = 0, co_rtt_ns = 0\<rparr>\<rparr>"

theorem clock_conversion_witness:
  "local_to_master demo_client 100 < 100 \<and> master_to_local demo_client (local_to_master demo_client 100) = 100"
  using clock_conversion [of demo_client 100] by (simp add: demo_client_def)

lemma measurement_fits:
  "ptp_measurement n el t1 t2 t3 t4 = Some m \<Longrightarrow>
   as_i64 (tm_offset_local_minus_master_ns m) = tm_offset_local_minus_master_ns m
   \<and> uint t3 - uint t2 \<le> uint t4 - uint t1"
  by (auto simp: ptp_measurement_def Let_def i64_try_from_def checked_sub_eq_Some as_i64_id
      split: option.splits if_splits)

lemma u64_try_from_Some: "u64_try_from k = Some w \<Longrightarrow> int k = uint w"
  by (auto simp: u64_try_from_def unsigned_of_nat take_bit_nat_eq_self split: if_splits)

text \<open>
  The measurement recorded for diagnostics agrees with the offset the client adopts: the same
  offset, and as path delay exactly the figure that the client publishes as its round-trip time,
  which is therefore the one-way estimate.
\<close>

theorem recorded_measurement_agrees:
  assumes "u64_try_from (to_nanos t1) = Some n1" "u64_try_from (to_nanos t2) = Some n2"
    "u64_try_from (to_nanos t3) = Some n3" "u64_try_from (to_nanos t4) = Some n4"
    and m: "ptp_measurement 0 el n1 n2 n3 n4 = Some m"
  shows "record_exchange el t1 t2 t3 t4 recorder = samples_push recorder m
    \<and> tm_offset_local_minus_master_ns m = co_offset_ns (two_way_offset t1 t2 t3 t4)
    \<and> tm_mean_path_delay_ns m = co_rtt_ns (two_way_offset t1 t2 t3 t4)"
proof -
  have ns: "int (to_nanos t1) = uint n1" "int (to_nanos t2) = uint n2" "int (to_nanos t3) = uint n3" "int (to_nanos t4) = uint n4"
    using assms(1-4) by (simp_all add: u64_try_from_Some)
  have "record_exchange el t1 t2 t3 t4 recorder = samples_push recorder m"
    by (simp add: record_exchange_def assms(1-4) m)
  moreover have "tm_offset_local_minus_master_ns m = co_offset_ns (two_way_offset t1 t2 t3 t4)"
    using measurement_fits [OF m] ptp_measurement_exact(1) [OF m] by (simp add: two_way_offset_def Let_def ns)
  moreover have "tm_mean_path_delay_ns m = co_rtt_ns (two_way_offset t1 t2 t3 t4)"
  proof -
    define both where "both = (uint n4 - uint n1) - (uint n3 - uint n2)"
    have "0 \<le> both" using measurement_fits [OF m] by (simp add: both_def)
    then have "div_trunc both 2 = uint (tm_mean_path_delay_ns m)"
      using ptp_measurement_exact(2) [OF m] by (simp add: div_trunc_def both_def)
    moreover have "(uint n2 - uint n1) - (uint n3 - uint n4) = both" by (simp add: both_def)
    ultimately show ?thesis by (simp add: two_way_offset_def Let_def ns as_u64_def)
  qed
  ultimately show ?thesis by blast
qed

theorem recorded_measurement_agrees_witness:
  "record_exchange 7 \<lparr>ts_seconds = 0, ts_nanoseconds = 100\<rparr> \<lparr>ts_seconds = 0, ts_nanoseconds = 650\<rparr>
      \<lparr>ts_seconds = 0, ts_nanoseconds = 700\<rparr> \<lparr>ts_seconds = 0, ts_nanoseconds = 280\<rparr> (timing_diagnostics_pair PtpMeasured)
     = samples_push (timing_diagnostics_pair PtpMeasured)
         \<lparr>tm_measurement_sequence = 0, tm_observed_elapsed_ns = 7, tm_offset_local_minus_master_ns = 485, tm_mean_path_delay_ns = 65\<rparr>
   \<and> co_rtt_ns (two_way_offset \<lparr>ts_seconds = 0, ts_nanoseconds = 100\<rparr> \<lparr>ts_seconds = 0, ts_nanoseconds = 650\<rparr>
      \<lparr>ts_seconds = 0, ts_nanoseconds = 700\<rparr> \<lparr>ts_seconds = 0, ts_nanoseconds = 280\<rparr>) = 65"
  using recorded_measurement_agrees [where ?t1.0 = "\<lparr>ts_seconds = 0, ts_nanoseconds = 100\<rparr>" and ?n1.0 = 100
      and ?t2.0 = "\<lparr>ts_seconds = 0, ts_nanoseconds = 650\<rparr>" and ?n2.0 = 650
      and ?t3.0 = "\<lparr>ts_seconds = 0, ts_nanoseconds = 700\<rparr>" and ?n3.0 = 700
      and ?t4.0 = "\<lparr>ts_seconds = 0, ts_nanoseconds = 280\<rparr>" and ?n4.0 = 280 and el = 7
      and recorder = "timing_diagnostics_pair PtpMeasured"
      and m = "\<lparr>tm_measurement_sequence = 0, tm_observed_elapsed_ns = 7, tm_offset_local_minus_master_ns = 485, tm_mean_path_delay_ns = 65\<rparr>"]
  by (simp add: u64_try_from_def to_nanos_def ptp_measurement_def i64_try_from_def div_trunc_def checked_sub_def)

end
