(* ===== verification/Ntp.thy ===== *)
theory Ntp
  imports Clock_Math
begin

text \<open>
  NTP-style timing (\<open>crates/airplay-timing/src/ntp.rs\<close>): the request and response packets, the
  client's exchange and the server's answer. One call of \<open>sync\<close> is one definition whose arguments
  are what it observes: whether the send succeeded, the datagram received, the two clock readings
  and the time since the diagnostics recorder was installed.
\<close>

section \<open>Packets\<close>

definition TIMING_REQUEST_PT :: u8 where "TIMING_REQUEST_PT = 82"
definition TIMING_RESPONSE_PT :: u8 where "TIMING_RESPONSE_PT = 83"

record ntp_request =
  nq_sequence :: u16
  nq_reference_time :: u64

definition ntp_request_new :: "u64 \<Rightarrow> ntp_request" where
  "ntp_request_new now_ntp = \<lparr>nq_sequence = 0, nq_reference_time = now_ntp\<rparr>"

definition with_sequence :: "ntp_request \<Rightarrow> u16 \<Rightarrow> ntp_request" where
  "with_sequence r sq = r\<lparr>nq_sequence := sq\<rparr>"

definition ntp_request_serialize :: "ntp_request \<Rightarrow> u8 list" where
  "ntp_request_serialize r =
     [0x80, TIMING_REQUEST_PT OR 0x80] @ u16_be (nq_sequence r) @ replicate 20 0 @ u64_be (nq_reference_time r)"

definition expected_pt :: "u8 \<Rightarrow> u8 \<Rightarrow> parse_error" where
  "expected_pt want pt = InvalidFormat (''Expected PT='' @ digits (unat want) @ '', got '' @ digits (unat pt))"

definition ntp_request_parse :: "u8 list \<Rightarrow> parse_error + ntp_request" where
  "ntp_request_parse data =
     (if length data < 32 then Inl (InvalidFormat ''NTP request too short'')
      else let pt = data ! 1 AND 0x7F
           in if pt \<noteq> TIMING_REQUEST_PT then Inl (expected_pt TIMING_REQUEST_PT pt)
              else Inr \<lparr>nq_sequence = from_be (byte_range 2 4 data),
                        nq_reference_time = from_be (byte_range 24 32 data)\<rparr>)"

record ntp_response =
  np_sequence :: u16
  np_reference_time :: u64
  np_receive_time :: u64
  np_send_time :: u64

definition from_request :: "ntp_request \<Rightarrow> u64 \<Rightarrow> u64 \<Rightarrow> ntp_response" where
  "from_request request receive_time send_time =
     \<lparr>np_sequence = nq_sequence request, np_reference_time = nq_reference_time request,
      np_receive_time = receive_time, np_send_time = send_time\<rparr>"

definition ntp_response_serialize :: "ntp_response \<Rightarrow> u8 list" where
  "ntp_response_serialize r =
     [0x80, TIMING_RESPONSE_PT OR 0x80] @ u16_be (np_sequence r) @ replicate 4 0
     @ u64_be (np_reference_time r) @ u64_be (np_receive_time r) @ u64_be (np_send_time r)"

definition ntp_response_parse :: "u8 list \<Rightarrow> parse_error + ntp_response" where
  "ntp_response_parse data =
     (if length data < 32 then Inl (InvalidFormat ''NTP response too short'')
      else let pt = data ! 1 AND 0x7F
           in if pt \<noteq> TIMING_RESPONSE_PT then Inl (expected_pt TIMING_RESPONSE_PT pt)
              else Inr \<lparr>np_sequence = from_be (byte_range 2 4 data),
                        np_reference_time = from_be (byte_range 8 16 data),
                        np_receive_time = from_be (byte_range 16 24 data),
                        np_send_time = from_be (byte_range 24 32 data)\<rparr>)"

text \<open>The four times are \<open>i64\<close>; their sums and differences cannot leave it (\<open>ntp_math_exact\<close>).\<close>

definition unix_i64 :: "u64 \<Rightarrow> int" where
  "unix_i64 ntp = as_i64 (uint (ntp_to_unix ntp))"

definition round_trip_time :: "ntp_response \<Rightarrow> u64 \<Rightarrow> int" where
  "round_trip_time r local_recv_time =
     (let t1 = unix_i64 (np_reference_time r); t2 = unix_i64 (np_receive_time r);
          t3 = unix_i64 (np_send_time r); t4 = unix_i64 local_recv_time
      in as_i64 ((t4 - t1) - (t3 - t2)))"

definition ntp_clock_offset :: "ntp_response \<Rightarrow> u64 \<Rightarrow> int" where
  "ntp_clock_offset r local_recv_time =
     (let t1 = unix_i64 (np_reference_time r); t2 = unix_i64 (np_receive_time r);
          t3 = unix_i64 (np_send_time r); t4 = unix_i64 local_recv_time
      in div_trunc (as_i64 ((t2 - t1) + (t3 - t4))) 2)"

section \<open>The client\<close>

record ntp_client =
  nc_bound :: bool
  nc_sequence :: u16
  nc_offset :: clock_offset
  nc_synchronized :: bool
  nc_diagnostics :: "shared_samples option"

definition ntp_client_new :: ntp_client where
  "ntp_client_new = \<lparr>nc_bound = False, nc_sequence = 0, nc_offset = clock_offset_default,
     nc_synchronized = False, nc_diagnostics = None\<rparr>"

definition ntp_set_diagnostics_recorder :: "ntp_client \<Rightarrow> shared_samples \<Rightarrow> ntp_client" where
  "ntp_set_diagnostics_recorder c recorder = c\<lparr>nc_diagnostics := Some recorder\<rparr>"

text \<open>\<open>bind\<close> is the operating system's; \<open>start\<close> keeps its error.\<close>

definition ntp_start :: "ntp_client \<Rightarrow> 'io + unit \<Rightarrow> ntp_client \<times> ('io air_error + unit)" where
  "ntp_start c bind_result =
     (if nc_bound c then (c, Inr ())
      else case bind_result of
             Inl e \<Rightarrow> (c, Inl (Err_Connection e))
           | Inr _ \<Rightarrow> (c\<lparr>nc_bound := True\<rparr>, Inr ()))"

definition ntp_stop :: "ntp_client \<Rightarrow> ntp_client" where
  "ntp_stop c = c\<lparr>nc_bound := False, nc_synchronized := False\<rparr>"

definition ntp_request_of :: "ntp_client \<Rightarrow> u64 \<Rightarrow> ntp_request" where
  "ntp_request_of c now_ntp = with_sequence (ntp_request_new now_ntp) (nc_sequence c)"

definition ntp_record ::
    "u64 \<Rightarrow> ntp_request \<Rightarrow> ntp_response \<Rightarrow> u64 \<Rightarrow> shared_samples \<Rightarrow> shared_samples" where
  "ntp_record elapsed_ns request response recv_time recorder =
     (case ptp_measurement 0 elapsed_ns (ntp_to_unix (nq_reference_time request))
             (ntp_to_unix (np_receive_time response)) (ntp_to_unix (np_send_time response))
             (ntp_to_unix recv_time) of
        Some measurement \<Rightarrow> samples_push recorder measurement
      | None \<Rightarrow> recorder)"

definition ntp_sync ::
    "ntp_client \<Rightarrow> u64 \<Rightarrow> 'io + nat \<Rightarrow> 'io + u8 list \<Rightarrow> u64 \<Rightarrow> u64
     \<Rightarrow> ntp_client \<times> ('io air_error + clock_offset)" where
  "ntp_sync c now_ntp sent received recv_time elapsed_ns =
     (if \<not> nc_bound c then (c, Inl (Err_Rtsp NoSession))
      else let request = ntp_request_of c now_ntp;
               c1 = c\<lparr>nc_sequence := nc_sequence c + 1\<rparr>
           in case sent of
                Inl e \<Rightarrow> (c1, Inl (Err_Connection e))
              | Inr _ \<Rightarrow>
                  (case received of
                     Inl e \<Rightarrow> (c1, Inl (Err_Connection e))
                   | Inr data \<Rightarrow>
                       (case ntp_response_parse (take 64 data) of
                          Inl e \<Rightarrow> (c1, Inl (Err_Parse e))
                        | Inr response \<Rightarrow>
                            let offset_ns = ntp_clock_offset response recv_time;
                                rtt_ns = round_trip_time response recv_time;
                                off = \<lparr>co_offset_ns = offset_ns, co_error_ns = as_u64 (\<bar>rtt_ns\<bar> div 2),
                                       co_rtt_ns = as_u64 \<bar>rtt_ns\<bar>\<rparr>
                            in (c1\<lparr>nc_offset := off, nc_synchronized := True,
                                   nc_diagnostics := map_option (ntp_record elapsed_ns request response recv_time)
                                     (nc_diagnostics c)\<rparr>,
                                Inr off))))"

definition ntp_local_to_remote :: "ntp_client \<Rightarrow> u64 \<Rightarrow> u64" where
  "ntp_local_to_remote c local_ns = as_u64 (as_i64 (as_i64 (uint local_ns) + co_offset_ns (nc_offset c)))"

definition ntp_remote_to_local :: "ntp_client \<Rightarrow> u64 \<Rightarrow> u64" where
  "ntp_remote_to_local c remote_ns = as_u64 (as_i64 (as_i64 (uint remote_ns) - co_offset_ns (nc_offset c)))"

section \<open>The server\<close>

definition ntp_serve :: "u64 \<Rightarrow> u64 \<Rightarrow> u8 list \<Rightarrow> u8 list option" where
  "ntp_serve recv_time send_time datagram =
     (case ntp_request_parse (take 64 datagram) of
        Inl _ \<Rightarrow> None
      | Inr request \<Rightarrow> Some (ntp_response_serialize (from_request request recv_time send_time)))"

section \<open>Packets survive the wire\<close>

lemma pt_bits:
  "(TIMING_REQUEST_PT OR 0x80) AND 0x7F = TIMING_REQUEST_PT"
  "(TIMING_RESPONSE_PT OR 0x80) AND 0x7F = TIMING_RESPONSE_PT"
  by (simp_all add: TIMING_REQUEST_PT_def TIMING_RESPONSE_PT_def)

lemma ntp_request_roundtrip: "ntp_request_parse (take 64 (ntp_request_serialize r)) = Inr r"
  by (simp add: ntp_request_parse_def ntp_request_serialize_def Let_def pt_bits byte_range_def from_be_bytes
      del: be_bytes.simps)

lemma ntp_response_roundtrip: "ntp_response_parse (take 64 (ntp_response_serialize r)) = Inr r"
  by (simp add: ntp_response_parse_def ntp_response_serialize_def Let_def pt_bits byte_range_def from_be_bytes
      del: be_bytes.simps)

section \<open>Accuracy of an exchange\<close>

lemma ntp_to_unix_bound: "unat (ntp_to_unix n) < 2085978496000000000"
proof -
  have "unat n < 4294967296 * 4294967296" using unat_u64 [of n] by simp
  then have "unat n div 4294967296 < 4294967296" by (simp add: div_less_iff_less_mult)
  moreover have "unat n mod 4294967296 * 1000000000 div 4294967296 < 1000000000"
    by (simp add: div_less_iff_less_mult)
  ultimately show ?thesis unfolding unat_ntp_to_unix by linarith
qed

lemma as_i64_nat: "n < 9223372036854775808 \<Longrightarrow> as_i64 (int n) = int n"
  by (rule as_i64_id) simp_all

lemma unix_i64_eq: "unix_i64 n = int (unat (ntp_to_unix n))"
  unfolding unix_i64_def uint_nat
  by (rule as_i64_nat, rule less_trans [OF ntp_to_unix_bound]) simp

lemma unix_i64_uint: "unix_i64 n = uint (ntp_to_unix n)"
  unfolding unix_i64_eq uint_nat ..

lemma four_times_fit:
  fixes a b c d :: nat
  assumes "a < 2085978496000000000" "b < 2085978496000000000" "c < 2085978496000000000" "d < 2085978496000000000"
  shows "as_i64 ((int a - int b) - (int c - int d)) = (int a - int b) - (int c - int d)"
    and "as_i64 ((int a - int b) + (int c - int d)) = (int a - int b) + (int c - int d)"
proof -
  have "int a < 2085978496000000000" "int b < 2085978496000000000" "int c < 2085978496000000000" "int d < 2085978496000000000"
    using assms by simp_all
  then have "- 9223372036854775808 \<le> (int a - int b) - (int c - int d)" "(int a - int b) - (int c - int d) < 9223372036854775808"
    "- 9223372036854775808 \<le> (int a - int b) + (int c - int d)" "(int a - int b) + (int c - int d) < 9223372036854775808"
    by linarith+
  then show "as_i64 ((int a - int b) - (int c - int d)) = (int a - int b) - (int c - int d)"
    and "as_i64 ((int a - int b) + (int c - int d)) = (int a - int b) + (int c - int d)"
    by (simp_all add: as_i64_id)
qed

text \<open>The times on the wire are small enough that the 64-bit arithmetic of the client is exact.\<close>

lemma ntp_math_exact:
  "round_trip_time r t = (unix_i64 t - unix_i64 (np_reference_time r)) - (unix_i64 (np_send_time r) - unix_i64 (np_receive_time r))"
  "ntp_clock_offset r t = div_trunc ((unix_i64 (np_receive_time r) - unix_i64 (np_reference_time r))
     + (unix_i64 (np_send_time r) - unix_i64 t)) 2"
  unfolding round_trip_time_def ntp_clock_offset_def Let_def unix_i64_eq
  by (simp_all only: four_times_fit ntp_to_unix_bound)

lemma unix_i64_near:
  assumes "unat t < 2085978496000000000"
  shows "unix_i64 (unix_to_ntp t) \<le> uint t" and "uint t \<le> unix_i64 (unix_to_ntp t) + 1"
  using ntp_near [OF assms] unfolding unix_i64_eq uint_nat by linarith+

lemma serve_request:
  "ntp_serve rt st (ntp_request_serialize r) = Some (ntp_response_serialize (from_request r rt st))"
  by (simp add: ntp_serve_def ntp_request_roundtrip)

text \<open>
  C27: A complete exchange whose four instants lie before 7 February 2036, over a link that takes \<open>d1\<close> and \<open>d2\<close>
  nanoseconds, with a server whose clock is \<open>off\<close> ahead of the client's: the server answers the client's request, the
  client accepts the answer, and the offset it adopts is server minus local, \<open>off\<close>, to within half the asymmetry of the
  link and one and a half nanoseconds of rounding; the round-trip time is right to within two nanoseconds.
  This is the opposite sign of the convention local minus master that \<open>clock.rs\<close> documents for every offset, see
  \<open>ntp_measurement_sign\<close>.
\<close>

theorem ntp_exchange:
  fixes off :: int and d1 d2 :: nat
  assumes "nc_bound c"
    and times: "unat ta < 2085978496 * 10 ^ 9" "unat tb < 2085978496 * 10 ^ 9" "unat tc < 2085978496 * 10 ^ 9"
      "unat td < 2085978496 * 10 ^ 9"
    and "uint tb = uint ta + off + int d1" and "uint td = uint tc - off + int d2"
  shows "\<exists>reply c' res. ntp_serve (unix_to_ntp tb) (unix_to_ntp tc)
             (ntp_request_serialize (ntp_request_of c (unix_to_ntp ta))) = Some reply
     \<and> ntp_sync c (unix_to_ntp ta) (Inr n) (Inr reply) (unix_to_ntp td) el = (c', Inr res)
     \<and> nc_offset c' = res \<and> nc_synchronized c'
     \<and> 2 * \<bar>co_offset_ns res - off\<bar> \<le> \<bar>int d1 - int d2\<bar> + 3
     \<and> \<bar>uint (co_rtt_ns res) - (int d1 + int d2)\<bar> \<le> 2"
proof -
  define q where "q = ntp_request_of c (unix_to_ntp ta)"
  define p where "p = from_request q (unix_to_ntp tb) (unix_to_ntp tc)"
  define rtt where "rtt = round_trip_time p (unix_to_ntp td)"
  define res where "res = \<lparr>co_offset_ns = ntp_clock_offset p (unix_to_ntp td),
    co_error_ns = as_u64 (\<bar>rtt\<bar> div 2), co_rtt_ns = as_u64 \<bar>rtt\<bar>\<rparr>"
  have fields: "np_reference_time p = unix_to_ntp ta" "np_receive_time p = unix_to_ntp tb" "np_send_time p = unix_to_ntp tc"
    by (simp_all add: p_def q_def from_request_def ntp_request_of_def with_sequence_def ntp_request_new_def)
  have near: "unix_i64 (unix_to_ntp t) \<le> uint t" "uint t \<le> unix_i64 (unix_to_ntp t) + 1"
    if "unat t < 2085978496 * 10 ^ 9" for t using unix_i64_near [of t] that by simp_all
  let ?e = "((unix_i64 (unix_to_ntp tb) - unix_i64 (unix_to_ntp ta)) + (unix_i64 (unix_to_ntp tc) - unix_i64 (unix_to_ntp td))) - 2 * off"
  have "\<bar>?e\<bar> \<le> \<bar>int d1 - int d2\<bar> + 2"
    using near [OF times(1)] near [OF times(2)] near [OF times(3)] near [OF times(4)] assms(6,7) by linarith
  moreover have "2 * \<bar>co_offset_ns res - off\<bar> \<le> \<bar>?e\<bar> + 1"
    by (rule half_error)
      (use div_trunc_two [of "?e + 2 * off"] in \<open>simp add: res_def ntp_math_exact fields algebra_simps\<close>)
  ultimately have "2 * \<bar>co_offset_ns res - off\<bar> \<le> \<bar>int d1 - int d2\<bar> + 3" by linarith
  moreover have "\<bar>uint (co_rtt_ns res) - (int d1 + int d2)\<bar> \<le> 2"
  proof -
    have "\<bar>rtt - (int d1 + int d2)\<bar> \<le> 2"
      unfolding rtt_def ntp_math_exact fields
      using near [OF times(1)] near [OF times(2)] near [OF times(3)] near [OF times(4)] assms(6,7) by linarith
    moreover have "\<bar>rtt\<bar> < 18446744073709551616"
      unfolding rtt_def ntp_math_exact unix_i64_eq
      using ntp_to_unix_bound [of "np_reference_time p"] ntp_to_unix_bound [of "np_receive_time p"]
        ntp_to_unix_bound [of "np_send_time p"] ntp_to_unix_bound [of "unix_to_ntp td"] by linarith
    ultimately show ?thesis
      by (simp add: res_def as_u64_def uint_word_of_int_eq take_bit_int_eq_self)
  qed
  moreover define c' where "c' = c\<lparr>nc_sequence := nc_sequence c + 1, nc_offset := res, nc_synchronized := True,
         nc_diagnostics := map_option (ntp_record el q p (unix_to_ntp td)) (nc_diagnostics c)\<rparr>"
  moreover have "ntp_sync c (unix_to_ntp ta) (Inr n) (Inr (ntp_response_serialize p)) (unix_to_ntp td) el = (c', Inr res)"
    using assms(1) by (simp add: ntp_sync_def ntp_response_roundtrip Let_def q_def [symmetric] res_def rtt_def c'_def)
  moreover have "nc_offset c' = res" "nc_synchronized c'" by (simp_all add: c'_def)
  moreover have "ntp_serve (unix_to_ntp tb) (unix_to_ntp tc) (ntp_request_serialize q) = Some (ntp_response_serialize p)"
    unfolding p_def by (rule serve_request)
  ultimately show ?thesis unfolding q_def [symmetric] by blast
qed

theorem ntp_exchange_witness:
  "\<exists>reply c' res. ntp_serve (unix_to_ntp 1550) (unix_to_ntp 1700)
             (ntp_request_serialize (ntp_request_of (ntp_client_new\<lparr>nc_bound := True\<rparr>) (unix_to_ntp 1000))) = Some reply
     \<and> ntp_sync (ntp_client_new\<lparr>nc_bound := True\<rparr>) (unix_to_ntp 1000) (Inr 32 :: unit + nat) (Inr reply) (unix_to_ntp 1280) 0 = (c', Inr res)
     \<and> nc_offset c' = res \<and> nc_synchronized c'
     \<and> 2 * \<bar>co_offset_ns res - 500\<bar> \<le> 33 \<and> \<bar>uint (co_rtt_ns res) - 130\<bar> \<le> 2"
  using ntp_exchange [of "ntp_client_new\<lparr>nc_bound := True\<rparr>" 1000 1550 1700 1280 500 50 80 "32 :: nat" 0] by simp

text \<open>
  The measurement that the client records for diagnostics has the opposite sign of what its field
  declares: when the local clock is \<open>x\<close> ahead of the remote one, the field for local minus master
  holds \<open>- x\<close>, and converting a local time with it moves away from the remote time, while the
  client's own conversion arrives at it.
\<close>

theorem ntp_measurement_sign:
  assumes "uint (ntp_to_unix l) = uint (ntp_to_unix r) + x" "0 < x"
    and "nq_reference_time q = l"
    and "p = from_request q r r"
  shows "\<exists>m. ntp_record el q p l recorder = samples_push recorder m
     \<and> tm_offset_local_minus_master_ns m = - x
     \<and> measurement_local_to_master m (ntp_to_unix l) = Some (ntp_to_unix l + word_of_int x)
     \<and> ntp_local_to_remote (c\<lparr>nc_offset := \<lparr>co_offset_ns = ntp_clock_offset p l, co_error_ns = e, co_rtt_ns = d\<rparr>\<rparr>)
         (ntp_to_unix l) = ntp_to_unix r"
proof -
  let ?l = "ntp_to_unix l" and ?r = "ntp_to_unix r"
  have bound: "uint ?l < 2085978496000000000" "uint ?r < 2085978496000000000"
    unfolding uint_nat using ntp_to_unix_bound [of l] ntp_to_unix_bound [of r] by linarith+
  have sum: "(uint ?r - uint ?l) + (uint ?r - uint ?l) = 2 * (- x)" using assms(1) by simp
  have x: "x < 9223372036854775808" using assms(1,2) bound by (smt (verit) uint_ge_0)
  then have "i64_try_from (- x) = Some (- x)" using assms(2) by (simp add: i64_try_from_def)
  then obtain m where m: "ptp_measurement 0 el ?l ?r ?r ?l = Some m"
    using ptp_measurement_exists [of 0 el ?l ?r ?r ?l] sum div_trunc_double [of "- x"] by auto
  have off: "tm_offset_local_minus_master_ns m = - x"
    using ptp_measurement_exact(1) [OF m] sum div_trunc_double [of "- x"] by simp
  have "uint ?l + x < 18446744073709551616" using bound x by linarith
  moreover have "\<not> uint ?l + x < 0" using assms(2) uint_ge_0 [of ?l] by linarith
  ultimately have "measurement_local_to_master m ?l = Some (ntp_to_unix l + word_of_int x)"
    by (simp add: measurement_local_to_master_def local_to_master_ns_def off Let_def)
  moreover have "ntp_record el q p l recorder = samples_push recorder m"
    using m assms(3,4) by (simp add: ntp_record_def from_request_def)
  moreover have "ntp_clock_offset p l = - x"
    using assms(3,4) sum div_trunc_double [of "- x"]
    by (simp add: ntp_math_exact from_request_def unix_i64_uint)
  moreover have "as_i64 (uint ?l) = uint ?l" "as_i64 (uint ?r) = uint ?r"
    using unix_i64_uint [of l] unix_i64_uint [of r] by (simp_all add: unix_i64_def)
  moreover have "uint ?l + - x = uint ?r" using assms(1) by simp
  ultimately show ?thesis
    using off by (intro exI [of _ m]) (simp add: ntp_local_to_remote_def as_u64_def)
qed

theorem ntp_measurement_sign_witness:
  "\<exists>m. ntp_record 0 \<lparr>nq_sequence = 0, nq_reference_time = unix_to_ntp 2000000000\<rparr>
           (from_request \<lparr>nq_sequence = 0, nq_reference_time = unix_to_ntp 2000000000\<rparr> (unix_to_ntp 1000000000) (unix_to_ntp 1000000000))
           (unix_to_ntp 2000000000) (timing_diagnostics_pair PtpMeasured) = samples_push (timing_diagnostics_pair PtpMeasured) m
     \<and> tm_offset_local_minus_master_ns m = - 1000000000"
proof -
  have "unix_to_ntp 2000000000 = 0x83AA7E8200000000" "unix_to_ntp 1000000000 = 0x83AA7E8100000000"
    by (simp_all add: unix_to_ntp_def NTP_EPOCH_OFFSET_def)
  moreover have "ntp_to_unix 0x83AA7E8200000000 = 2000000000" "ntp_to_unix 0x83AA7E8100000000 = 1000000000"
    by (simp_all add: ntp_to_unix_def NTP_EPOCH_OFFSET_def saturating_sub_def)
  ultimately show ?thesis
    using ntp_measurement_sign [where l = "unix_to_ntp 2000000000" and r = "unix_to_ntp 1000000000" and x = 1000000000
        and q = "\<lparr>nq_sequence = 0, nq_reference_time = unix_to_ntp 2000000000\<rparr>" and el = 0
        and recorder = "timing_diagnostics_pair PtpMeasured" and c = ntp_client_new and e = 0 and d = 0,
        OF _ _ _ refl] by auto
qed

end
