(* ===== verification/Rust_Text.thy ===== *)
theory Rust_Text
  imports Wire
begin

text \<open>
  Text as Rust has it: a \<open>str\<close> is its UTF-8 bytes, so a HOL string is read as a byte string, one
  character per byte, and the byte order of \<open>str\<close> is the lexicographic order of the list. The
  operations are those the parsers call: slicing, which panics off a character boundary (\<open>None\<close>),
  \<open>trim\<close> over the Unicode white space, \<open>split\<close>, \<open>split_once\<close>, \<open>splitn\<close>, \<open>lines\<close>, \<open>strip_prefix\<close>,
  case-insensitive comparison, and the parsing and printing of unsigned numbers in any radix.
\<close>

definition bytes_of :: "string \<Rightarrow> u8 list" where
  "bytes_of s = map (\<lambda>c. of_nat (of_char c)) s"

definition string_of :: "u8 list \<Rightarrow> string" where
  "string_of bs = map (\<lambda>b. char_of (unat b)) bs"

section \<open>UTF-8\<close>

definition is_cont :: "char \<Rightarrow> bool" where
  "is_cont c \<longleftrightarrow> 128 \<le> (of_char c :: nat) \<and> (of_char c :: nat) < 192"

definition in_range :: "nat \<Rightarrow> nat \<Rightarrow> char \<Rightarrow> bool" where
  "in_range lo hi c \<longleftrightarrow> lo \<le> of_char c \<and> of_char c \<le> hi"

text \<open>\<open>str::from_utf8\<close>: the well-formed byte sequences, without overlong forms and surrogates.\<close>

fun utf8_valid :: "string \<Rightarrow> bool" where
  "utf8_valid [] = True"
| "utf8_valid (a # s) =
     (if in_range 0 0x7F a then utf8_valid s
      else if in_range 0xC2 0xDF a then (case s of b # s1 \<Rightarrow> is_cont b \<and> utf8_valid s1 | _ \<Rightarrow> False)
      else if in_range 0xE0 0xEF a then
        (case s of
           b # c # s1 \<Rightarrow>
             (if in_range 0xE0 0xE0 a then in_range 0xA0 0xBF b
              else if in_range 0xED 0xED a then in_range 0x80 0x9F b else is_cont b)
             \<and> is_cont c \<and> utf8_valid s1
         | _ \<Rightarrow> False)
      else if in_range 0xF0 0xF4 a then
        (case s of
           b # c # d # s1 \<Rightarrow>
             (if in_range 0xF0 0xF0 a then in_range 0x90 0xBF b
              else if in_range 0xF4 0xF4 a then in_range 0x80 0x8F b else is_cont b)
             \<and> is_cont c \<and> is_cont d \<and> utf8_valid s1
         | _ \<Rightarrow> False)
      else False)"

definition is_char_boundary :: "string \<Rightarrow> nat \<Rightarrow> bool" where
  "is_char_boundary s i \<longleftrightarrow> i = 0 \<or> i = length s \<or> (i < length s \<and> \<not> is_cont (s ! i))"

definition str_slice :: "string \<Rightarrow> nat \<Rightarrow> nat \<Rightarrow> string option" where
  "str_slice s i j =
     (if i \<le> j \<and> is_char_boundary s i \<and> is_char_boundary s j then Some (byte_range i j s) else None)"

definition ascii :: "string \<Rightarrow> bool" where
  "ascii s \<longleftrightarrow> list_all (in_range 0 0x7F) s"

section \<open>Trimming\<close>

definition white_space_codes :: "nat list list" where
  "white_space_codes =
     [[9], [10], [11], [12], [13], [32], [0xC2, 0x85], [0xC2, 0xA0], [0xE1, 0x9A, 0x80],
      [0xE2, 0x80, 0x80], [0xE2, 0x80, 0x81], [0xE2, 0x80, 0x82], [0xE2, 0x80, 0x83], [0xE2, 0x80, 0x84],
      [0xE2, 0x80, 0x85], [0xE2, 0x80, 0x86], [0xE2, 0x80, 0x87], [0xE2, 0x80, 0x88], [0xE2, 0x80, 0x89],
      [0xE2, 0x80, 0x8A], [0xE2, 0x80, 0xA8], [0xE2, 0x80, 0xA9], [0xE2, 0x80, 0xAF], [0xE2, 0x81, 0x9F],
      [0xE3, 0x80, 0x80]]"

definition white_space :: "string list" where
  "white_space = map (map char_of) white_space_codes"

fun starts_with :: "string \<Rightarrow> string \<Rightarrow> bool" where
  "starts_with [] s = True"
| "starts_with (p # ps) (x # s) = (p = x \<and> starts_with ps s)"
| "starts_with (p # ps) [] = False"

definition strip_prefix :: "string \<Rightarrow> string \<Rightarrow> string option" where
  "strip_prefix p s = (if starts_with p s then Some (drop (length p) s) else None)"

function trim_with :: "string list \<Rightarrow> string \<Rightarrow> string" where
  "trim_with ws s =
     (case find (\<lambda>w. w \<noteq> [] \<and> starts_with w s) ws of
        Some w \<Rightarrow> trim_with ws (drop (length w) s)
      | None \<Rightarrow> s)"
  by pat_completeness auto
termination
proof (relation "measure (\<lambda>(ws, s). length s)", simp)
  fix ws s w assume "find (\<lambda>w. w \<noteq> [] \<and> starts_with w s) ws = Some w"
  then have "w \<noteq> [] \<and> starts_with w s" by (auto simp: find_Some_iff)
  then show "((ws, drop (length w) s), ws, s) \<in> measure (\<lambda>(ws, s). length s)"
    by (cases s; cases w) auto
qed

declare trim_with.simps [simp del]

definition trim_start :: "string \<Rightarrow> string" where
  "trim_start s = trim_with white_space s"

definition trim_end :: "string \<Rightarrow> string" where
  "trim_end s = rev (trim_with (map rev white_space) (rev s))"

definition trim :: "string \<Rightarrow> string" where
  "trim s = trim_end (trim_start s)"

section \<open>Splitting\<close>

fun split_on :: "char \<Rightarrow> string \<Rightarrow> string list" where
  "split_on c [] = [[]]"
| "split_on c (x # s) =
     (if x = c then [] # split_on c s
      else case split_on c s of p # ps \<Rightarrow> (x # p) # ps | [] \<Rightarrow> [[x]])"

definition split_once :: "char \<Rightarrow> string \<Rightarrow> (string \<times> string) option" where
  "split_once c s =
     (if c \<in> set s then Some (takeWhile (\<lambda>x. x \<noteq> c) s, tl (dropWhile (\<lambda>x. x \<noteq> c) s)) else None)"

fun splitn :: "nat \<Rightarrow> char \<Rightarrow> string \<Rightarrow> string list" where
  "splitn 0 c s = []"
| "splitn (Suc 0) c s = [s]"
| "splitn (Suc n) c s = (case split_once c s of None \<Rightarrow> [s] | Some (a, b) \<Rightarrow> a # splitn n c b)"

definition LF :: char where "LF = CHR 0x0A"
definition CR :: char where "CR = CHR 0x0D"

definition strip_cr :: "string \<Rightarrow> string" where
  "strip_cr s = (if s \<noteq> [] \<and> last s = CR then butlast s else s)"

text \<open>\<open>str::lines\<close>: a final segment without a newline keeps its carriage return; an empty one is
  no line.\<close>

definition lines_of :: "string \<Rightarrow> string list" where
  "lines_of s =
     (let segments = split_on LF s
      in map strip_cr (butlast segments) @ (if last segments = [] then [] else [last segments]))"

definition ascii_lower :: "char \<Rightarrow> char" where
  "ascii_lower c = (if in_range 65 90 c then char_of (of_char c + 32 :: nat) else c)"

definition ascii_upper :: "char \<Rightarrow> char" where
  "ascii_upper c = (if in_range 97 122 c then char_of (of_char c - 32 :: nat) else c)"

definition eq_ignore_ascii_case :: "string \<Rightarrow> string \<Rightarrow> bool" where
  "eq_ignore_ascii_case a b \<longleftrightarrow> map ascii_lower a = map ascii_lower b"

section \<open>Numbers\<close>

definition digit_value :: "nat \<Rightarrow> char \<Rightarrow> nat option" where
  "digit_value radix c =
     (let n = of_char c :: nat;
          v = (if in_range 48 57 c then n - 48 else if in_range 97 122 c then n - 87
               else if in_range 65 90 c then n - 55 else radix)
      in if v < radix then Some v else None)"

fun digits_value :: "nat \<Rightarrow> nat \<Rightarrow> string \<Rightarrow> nat option" where
  "digits_value radix acc [] = Some acc"
| "digits_value radix acc (c # s) =
     (case digit_value radix c of Some d \<Rightarrow> digits_value radix (radix * acc + d) s | None \<Rightarrow> None)"

text \<open>\<open>from_str_radix\<close> and \<open>parse\<close> of an unsigned type below \<open>bound\<close>: one leading plus sign is
  accepted, anything that is no digit or does not fit is an error.\<close>

definition parse_radix :: "nat \<Rightarrow> nat \<Rightarrow> string \<Rightarrow> nat option" where
  "parse_radix radix bound s =
     (let ds = (if s \<noteq> [] \<and> hd s = CHR ''+'' then tl s else s)
      in if ds = [] then None
         else case digits_value radix 0 ds of Some n \<Rightarrow> if n < bound then Some n else None | None \<Rightarrow> None)"

abbreviation parse_dec :: "nat \<Rightarrow> string \<Rightarrow> nat option" where "parse_dec \<equiv> parse_radix 10"
abbreviation parse_hex :: "nat \<Rightarrow> string \<Rightarrow> nat option" where "parse_hex \<equiv> parse_radix 16"

text \<open>\<open>{:X}\<close>.\<close>

definition hex_upper :: "nat \<Rightarrow> char" where
  "hex_upper n = (if n < 10 then char_of (48 + n) else char_of (55 + n))"

fun hex_digits :: "nat \<Rightarrow> string" where
  "hex_digits n = (if n < 16 then [hex_upper n] else hex_digits (n div 16) @ [hex_upper (n mod 16)])"

declare hex_digits.simps [simp del]

section \<open>Laws\<close>

lemma of_char_char_of_nat: "n < 256 \<Longrightarrow> (of_char (char_of n) :: nat) = n"
  by simp

lemma bytes_of_string_of [simp]: "bytes_of (string_of bs) = bs"
  by (simp add: bytes_of_def string_of_def o_def map_idI)

lemma string_of_bytes_of [simp]: "string_of (bytes_of s) = s"
proof -
  have "char_of (unat (of_nat (of_char c) :: u8)) = c" for c
    by (simp add: unat_of_nat)
  then show ?thesis by (simp add: bytes_of_def string_of_def o_def map_idI)
qed

lemma digits_value_append:
  "digits_value radix acc (s @ t) =
     (case digits_value radix acc s of Some n \<Rightarrow> digits_value radix n t | None \<Rightarrow> None)"
  by (induction s arbitrary: acc) (auto split: option.splits)

lemma digit_value_dec: "n < 10 \<Longrightarrow> digit_value 10 (char_of (48 + n)) = Some n"
  by (simp add: digit_value_def in_range_def Let_def)

lemma digit_value_hex: "n < 16 \<Longrightarrow> digit_value 16 (hex_upper n) = Some n"
  by (cases "n < 10") (simp_all add: digit_value_def hex_upper_def in_range_def Let_def)

lemma digits_value_digits: "digits_value 10 0 (digits n) = Some n"
proof (induction n rule: digits.induct)
  case (1 n)
  show ?case
  proof (cases "n < 10")
    case True
    then show ?thesis by (simp add: digits.simps [of n] digit_value_dec)
  next
    case False
    then show ?thesis
      using 1 by (simp add: digits.simps [of n] digits_value_append digit_value_dec)
  qed
qed

lemma digits_value_hex: "digits_value 16 0 (hex_digits n) = Some n"
proof (induction n rule: hex_digits.induct)
  case (1 n)
  show ?case
  proof (cases "n < 16")
    case True
    then show ?thesis by (simp add: hex_digits.simps [of n] digit_value_hex)
  next
    case False
    then show ?thesis
      using 1 by (simp add: hex_digits.simps [of n] digits_value_append digit_value_hex)
  qed
qed

lemma parse_radix_digits:
  assumes "digits_value radix 0 s = Some n" "s \<noteq> []" "hd s \<noteq> CHR ''+''" "n < bound"
  shows "parse_radix radix bound s = Some n"
  using assms by (simp add: parse_radix_def Let_def)

lemma digits_chars: "c \<in> set (digits n) \<Longrightarrow> in_range 48 57 c"
proof (induction n rule: digits.induct)
  case (1 n)
  then show ?case
    by (subst (asm) (2) digits.simps) (auto simp: in_range_def split: if_splits)
qed

lemma hex_digits_chars: "c \<in> set (hex_digits n) \<Longrightarrow> in_range 48 57 c \<or> in_range 65 70 c"
proof (induction n rule: hex_digits.induct)
  case (1 n)
  have "in_range 48 57 (hex_upper m) \<or> in_range 65 70 (hex_upper m)" if "m < 16" for m
    using that by (cases "m < 10") (simp_all add: hex_upper_def in_range_def)
  from this [of n] this [of "n mod 16"] show ?case
    using 1 by (subst (asm) (2) hex_digits.simps) (auto split: if_splits)
qed

lemma digits_nonempty [simp]: "digits n \<noteq> []" and hex_digits_nonempty [simp]: "hex_digits n \<noteq> []"
  by (subst digits.simps, simp, subst hex_digits.simps, simp)

lemma length_digits: "n < 10 ^ Suc k \<Longrightarrow> length (digits n) \<le> Suc k"
proof (induction k arbitrary: n)
  case 0
  then show ?case by (simp add: digits.simps [of n])
next
  case (Suc k)
  then have "n div 10 < 10 ^ Suc k" by (simp add: div_less_iff_less_mult mult.commute)
  from Suc.IH [OF this] show ?case by (simp add: digits.simps [of n])
qed

lemma plus_code: "(of_char CHR ''+'' :: nat) = 43"
  by simp

lemma parse_digits: "n < bound \<Longrightarrow> parse_dec bound (digits n) = Some n"
proof (rule parse_radix_digits [OF digits_value_digits])
  show "hd (digits n) \<noteq> CHR ''+''"
    using digits_chars [of "hd (digits n)" n] by (auto simp: in_range_def)
qed simp_all

lemma parse_hex_digits: "n < bound \<Longrightarrow> parse_hex bound (hex_digits n) = Some n"
proof (rule parse_radix_digits [OF digits_value_hex])
  show "hd (hex_digits n) \<noteq> CHR ''+''"
    using hex_digits_chars [of "hd (hex_digits n)" n] by (auto simp: in_range_def)
qed simp_all

text \<open>Printable text is not trimmed.\<close>

abbreviation graphic :: "char \<Rightarrow> bool" where "graphic \<equiv> in_range 33 126"

lemma starts_with_hd: "w \<noteq> [] \<Longrightarrow> starts_with w s \<Longrightarrow> s \<noteq> [] \<and> hd s = hd w"
  by (cases w; cases s) auto

lemma white_space_heads: "w \<in> set white_space \<Longrightarrow> \<not> graphic (hd w) \<and> \<not> graphic (last w)"
proof -
  have codes: "w \<noteq> [] \<and> hd w < 256 \<and> last w < 256 \<and> \<not> (33 \<le> hd w \<and> hd w \<le> 126) \<and> \<not> (33 \<le> last w \<and> last w \<le> 126)"
    if "w \<in> set white_space_codes" for w
    using that by (auto simp: white_space_codes_def)
  assume "w \<in> set white_space"
  then obtain v where "v \<in> set white_space_codes" "w = map char_of v" by (auto simp: white_space_def)
  then show ?thesis using codes [of v] by (simp add: in_range_def hd_map last_map)
qed

lemma trim_with_id:
  assumes "\<And>w. w \<in> set ws \<Longrightarrow> w \<noteq> [] \<Longrightarrow> s \<noteq> [] \<Longrightarrow> hd w \<noteq> hd s"
  shows "trim_with ws s = s"
proof -
  have "find (\<lambda>w. w \<noteq> [] \<and> starts_with w s) ws = None"
    unfolding find_None_iff using assms starts_with_hd by metis
  then show ?thesis by (simp add: trim_with.simps [of ws s])
qed

lemma trim_graphic:
  assumes "s = [] \<or> graphic (hd s) \<and> graphic (last s)"
  shows "trim s = s"
proof -
  have "trim_start s = s"
    unfolding trim_start_def using assms white_space_heads by (intro trim_with_id) metis
  moreover have "trim_with (map rev white_space) (rev s) = rev s"
  proof (rule trim_with_id)
    fix w assume "w \<in> set (map rev white_space)" "w \<noteq> []" "rev s \<noteq> []"
    then obtain v where "v \<in> set white_space" "w = rev v" "v \<noteq> []" by auto
    then show "hd w \<noteq> hd (rev s)"
      using white_space_heads [of v] assms \<open>rev s \<noteq> []\<close> by (auto simp: hd_rev)
  qed
  ultimately show ?thesis by (simp add: trim_def trim_end_def)
qed

lemma split_on_nonempty [simp]: "split_on c s \<noteq> []"
  by (cases s) (auto split: list.splits)

lemma split_on_none: "c \<notin> set s \<Longrightarrow> split_on c s = [s]"
  by (induction s) auto

lemma split_on_sep: "c \<notin> set p \<Longrightarrow> split_on c (p @ c # s) = p # split_on c s"
  by (induction p) auto

lemma split_once_sep: "c \<notin> set p \<Longrightarrow> split_once c (p @ c # s) = Some (p, s)"
  by (induction p) (auto simp: split_once_def)

lemma split_once_none: "c \<notin> set s \<Longrightarrow> split_once c s = None"
  by (simp add: split_once_def)

lemma lines_of_Nil [simp]: "lines_of [] = []"
  by (simp add: lines_of_def)

lemma lines_of_line: "LF \<notin> set l \<Longrightarrow> lines_of (l @ CR # LF # s) = l # lines_of s"
proof -
  assume l: "LF \<notin> set l"
  have "CR \<noteq> LF" by (simp add: CR_def LF_def)
  then have "split_on LF ((l @ [CR]) @ LF # s) = (l @ [CR]) # split_on LF s"
    using l by (intro split_on_sep) auto
  then show ?thesis by (simp add: lines_of_def Let_def strip_cr_def)
qed

lemma lines_of_last: "LF \<notin> set l \<Longrightarrow> l \<noteq> [] \<Longrightarrow> lines_of l = [l]"
  by (simp add: lines_of_def split_on_none)

lemma ascii_append [simp]: "ascii (s @ t) \<longleftrightarrow> ascii s \<and> ascii t"
  by (simp add: ascii_def)

lemma ascii_simps [simp]: "ascii []" "ascii (c # s) \<longleftrightarrow> in_range 0 127 c \<and> ascii s"
  by (simp_all add: ascii_def)

lemma ascii_boundary: "ascii s \<Longrightarrow> i \<le> length s \<Longrightarrow> is_char_boundary s i"
  by (auto simp: is_char_boundary_def ascii_def is_cont_def in_range_def list_all_length dest!: spec [of _ i])

lemma ascii_slice: "ascii s \<Longrightarrow> i \<le> j \<Longrightarrow> j \<le> length s \<Longrightarrow> str_slice s i j = Some (byte_range i j s)"
  by (simp add: str_slice_def ascii_boundary)

end
