(* ===== verification/Device_Model.thy ===== *)
theory Device_Model
  imports Rust_Text Core_Types
begin

text \<open>
  The receiver as the library describes it (\<open>crates/airplay-core/src/features.rs\<close>, \<open>device.rs\<close>): the
  feature mask and its text form, the authentication method it implies, source versions, the MAC
  identity and its text forms, and what a receiver supports. A parser that slices text returns
  \<open>None\<close> for the panic of slicing off a character boundary.
\<close>

section \<open>Features\<close>

type_synonym features = u64

datatype auth_method = Auth_None | HomeKitTransient | FairPlay | MfiRequired

definition SUPPORTS_AUDIO :: u64 where "SUPPORTS_AUDIO = push_bit 9 1"
definition AUTHENTICATION_FAIRPLAY :: u64 where "AUTHENTICATION_FAIRPLAY = push_bit 14 1"
definition AUTHENTICATION_MFI :: u64 where "AUTHENTICATION_MFI = push_bit 26 1"
definition SUPPORTS_BUFFERED_AUDIO :: u64 where "SUPPORTS_BUFFERED_AUDIO = push_bit 40 1"
definition SUPPORTS_PTP :: u64 where "SUPPORTS_PTP = push_bit 41 1"
definition SUPPORTS_TRANSIENT_PAIRING :: u64 where "SUPPORTS_TRANSIENT_PAIRING = push_bit 48 1"
definition SUPPORTS_UNIFIED_PAIR_MFI :: u64 where "SUPPORTS_UNIFIED_PAIR_MFI = push_bit 51 1"

definition has_feature :: "features \<Rightarrow> u64 \<Rightarrow> bool" where
  "has_feature f flag \<longleftrightarrow> f AND flag \<noteq> 0"

definition feature_hex :: "string \<Rightarrow> parse_error + u64" where
  "feature_hex part0 =
     (let part = trim part0;
          hex_str = (case strip_prefix ''0x'' part of
                       Some h \<Rightarrow> h
                     | None \<Rightarrow> (case strip_prefix ''0X'' part of Some h \<Rightarrow> h | None \<Rightarrow> part))
      in if hex_str = [] then Inl (InvalidHex ''empty hex value'')
         else case parse_hex (2 ^ 64) hex_str of Some n \<Rightarrow> Inr (of_nat n) | None \<Rightarrow> Inl (InvalidHex part))"

definition from_txt_value :: "string \<Rightarrow> parse_error + features" where
  "from_txt_value s0 =
     (let s = trim s0
      in if s = [] then Inl (InvalidFormat ''empty features string'')
         else case split_once CHR '','' s of
                Some (lower_str, upper_str) \<Rightarrow>
                  (case feature_hex lower_str of
                     Inl e \<Rightarrow> Inl e
                   | Inr lower \<Rightarrow>
                       (case feature_hex upper_str of
                          Inl e \<Rightarrow> Inl e
                        | Inr upper \<Rightarrow> Inr (lower OR push_bit 32 upper)))
              | None \<Rightarrow> (case feature_hex s of Inl e \<Rightarrow> Inl e | Inr lower \<Rightarrow> Inr lower))"

definition to_txt_value :: "features \<Rightarrow> string" where
  "to_txt_value f =
     (let lower = f AND 0xFFFFFFFF; upper = drop_bit 32 f
      in if upper = 0 then ''0x'' @ hex_digits (unat lower)
         else ''0x'' @ hex_digits (unat lower) @ '',0x'' @ hex_digits (unat upper))"

definition metadata_features :: "features \<Rightarrow> u8" where
  "metadata_features f =
     (let b0 = drop_bit 15 f AND 1; b1 = drop_bit 16 f AND 1; b2 = drop_bit 17 f AND 1; b3 = drop_bit 50 f AND 1
      in ucast (b0 OR push_bit 1 b1 OR push_bit 2 b2 OR push_bit 3 b3))"

definition audio_formats :: "features \<Rightarrow> u8" where
  "audio_formats f = ucast (drop_bit 18 f AND 0xF)"

definition auth_method_of :: "features \<Rightarrow> auth_method" where
  "auth_method_of f =
     (if has_feature f AUTHENTICATION_MFI then MfiRequired
      else if has_feature f SUPPORTS_UNIFIED_PAIR_MFI \<or> has_feature f SUPPORTS_TRANSIENT_PAIRING then HomeKitTransient
      else if has_feature f AUTHENTICATION_FAIRPLAY then FairPlay
      else Auth_None)"

section \<open>Identity\<close>

fun collect_results :: "('e + 'a) list \<Rightarrow> 'e + 'a list" where
  "collect_results [] = Inr []"
| "collect_results (Inl e # rs) = Inl e"
| "collect_results (Inr x # rs) = (case collect_results rs of Inl e \<Rightarrow> Inl e | Inr xs \<Rightarrow> Inr (x # xs))"

definition mac_part :: "string \<Rightarrow> parse_error + u8" where
  "mac_part part = (case parse_hex 256 part of Some n \<Rightarrow> Inr (of_nat n) | None \<Rightarrow> Inl (InvalidHex part))"

text \<open>The byte pairs of bare hexadecimal text, read by slices \<open>s[2 i .. 2 i + 2]\<close>.\<close>

fun hex_slices :: "string \<Rightarrow> nat list \<Rightarrow> (parse_error + u8 list) option" where
  "hex_slices s [] = Some (Inr [])"
| "hex_slices s (i # is) =
     (case str_slice s (2 * i) (2 * i + 2) of
        None \<Rightarrow> None
      | Some part \<Rightarrow>
          (case mac_part part of
             Inl e \<Rightarrow> Some (Inl e)
           | Inr b \<Rightarrow>
               (case hex_slices s is of
                  None \<Rightarrow> None
                | Some (Inl e) \<Rightarrow> Some (Inl e)
                | Some (Inr bs) \<Rightarrow> Some (Inr (b # bs)))))"

definition mac_of_bytes :: "u8 list \<Rightarrow> parse_error + device_id" where
  "mac_of_bytes bs =
     (case bs of
        [a, b, c, d, e, f] \<Rightarrow> Inr (DeviceId a b c d e f)
      | _ \<Rightarrow> Inl (InvalidFormat (''MAC address must have 6 bytes, got '' @ digits (length bs))))"

definition from_mac_string :: "string \<Rightarrow> (parse_error + device_id) option" where
  "from_mac_string s0 =
     (let s = trim s0;
          finish = (\<lambda>r. case r of Inl e \<Rightarrow> Inl e | Inr bs \<Rightarrow> mac_of_bytes bs)
      in if CHR '':'' \<in> set s then Some (finish (collect_results (map mac_part (split_on CHR '':'' s))))
         else if CHR ''-'' \<in> set s then Some (finish (collect_results (map mac_part (split_on CHR ''-'' s))))
         else if length s \<noteq> 12
         then Some (Inl (InvalidFormat (''MAC address must be 12 hex characters, got '' @ digits (length s))))
         else map_option finish (hex_slices s [0..<6]))"

definition hex2 :: "u8 \<Rightarrow> string" where
  "hex2 b = [hex_upper (unat b div 16), hex_upper (unat b mod 16)]"

fun to_mac_string :: "device_id \<Rightarrow> string" where
  "to_mac_string (DeviceId a b c d e f) =
     hex2 a @ '':'' @ hex2 b @ '':'' @ hex2 c @ '':'' @ hex2 d @ '':'' @ hex2 e @ '':'' @ hex2 f"

section \<open>Versions\<close>

datatype version = Version (major: u32) (minor: u32) (patch: u32)

definition version_key :: "version \<Rightarrow> u32 \<times> u32 \<times> u32" where
  "version_key v = (major v, minor v, patch v)"

instantiation version :: linorder
begin

definition less_eq_version :: "version \<Rightarrow> version \<Rightarrow> bool" where
  "less_eq_version v w \<longleftrightarrow> version_key v \<le> version_key w"

definition less_version :: "version \<Rightarrow> version \<Rightarrow> bool" where
  "less_version v w \<longleftrightarrow> version_key v < version_key w"

instance
  by standard (auto simp: less_eq_version_def less_version_def version_key_def intro: version.expand)

end

definition version_default :: version where "version_default = Version 0 0 0"

definition version_part :: "string \<Rightarrow> string list \<Rightarrow> nat \<Rightarrow> parse_error + u32" where
  "version_part what parts i =
     (if i < length parts
      then case parse_dec (2 ^ 32) (parts ! i) of
             Some n \<Rightarrow> Inr (of_nat n)
           | None \<Rightarrow> Inl (InvalidValue (''invalid '' @ what @ '' version: '' @ parts ! i))
      else Inr 0)"

definition version_parse :: "string \<Rightarrow> parse_error + version" where
  "version_parse s0 =
     (let s = trim s0; parts = split_on CHR ''.'' s
      in if s = [] then Inl (InvalidFormat ''empty version string'')
         else case version_part ''major'' parts 0 of
                Inl e \<Rightarrow> Inl e
              | Inr a \<Rightarrow>
                  (case version_part ''minor'' parts 1 of
                     Inl e \<Rightarrow> Inl e
                   | Inr b \<Rightarrow>
                       (case version_part ''patch'' parts 2 of Inl e \<Rightarrow> Inl e | Inr c \<Rightarrow> Inr (Version a b c))))"

section \<open>Receivers\<close>

type_synonym uuid = "128 word"

record device =
  d_id :: device_id
  d_name :: string
  d_model :: string
  d_manufacturer :: "string option"
  d_serial_number :: "string option"
  d_addresses :: "ip_addr list"
  d_port :: u16
  d_features :: features
  d_required_sender_features :: "features option"
  d_public_key :: "u8 list option"
  d_source_version :: version
  d_firmware_version :: "string option"
  d_os_version :: "string option"
  d_protocol_version :: "string option"
  d_requires_password :: bool
  d_status_flags :: u64
  d_access_control :: "u8 option"
  d_pairing_identity :: "string option"
  d_system_pairing_identity :: "string option"
  d_bluetooth_address :: "string option"
  d_homekit_home_id :: "string option"
  d_group_id :: "uuid option"
  d_is_group_leader :: bool
  d_group_public_name :: "string option"
  d_group_contains_discoverable_leader :: bool
  d_home_group_id :: "string option"
  d_household_id :: "string option"
  d_parent_group_id :: "uuid option"
  d_parent_group_contains_discoverable_leader :: bool
  d_tight_sync_id :: "uuid option"
  d_raop_port :: "u16 option"
  d_raop_encryption_types :: "u8 list option"
  d_raop_codecs :: "u8 list option"
  d_raop_transport :: "string option"
  d_raop_metadata_types :: "u8 list option"
  d_raop_digest_auth :: bool
  d_vodka_version :: "string option"

definition MIN_AIRPLAY2_VERSION :: version where "MIN_AIRPLAY2_VERSION = Version 354 54 6"
definition MIN_PTP_VERSION :: version where "MIN_PTP_VERSION = Version 366 0 0"

definition supports_airplay2 :: "device \<Rightarrow> bool" where
  "supports_airplay2 d \<longleftrightarrow> has_feature (d_features d) SUPPORTS_BUFFERED_AUDIO \<and> MIN_AIRPLAY2_VERSION \<le> d_source_version d"

definition supports_ptp :: "device \<Rightarrow> bool" where
  "supports_ptp d \<longleftrightarrow> has_feature (d_features d) SUPPORTS_PTP \<and> MIN_PTP_VERSION \<le> d_source_version d"

definition is_ipv4 :: "ip_addr \<Rightarrow> bool" where
  "is_ipv4 a = (case a of V4 _ \<Rightarrow> True | V6 _ \<Rightarrow> False)"

definition device_socket_addr :: "device \<Rightarrow> socket_addr option" where
  "device_socket_addr d =
     (case find is_ipv4 (d_addresses d) of
        Some a \<Rightarrow> Some \<lparr>sa_ip = a, sa_port = d_port d\<rparr>
      | None \<Rightarrow> (case d_addresses d of [] \<Rightarrow> None | a # _ \<Rightarrow> Some \<lparr>sa_ip = a, sa_port = d_port d\<rparr>))"

definition supports_raop :: "device \<Rightarrow> bool" where
  "supports_raop d \<longleftrightarrow> d_raop_port d \<noteq> None \<or> \<not> supports_airplay2 d"

definition raop_connection_port :: "device \<Rightarrow> u16" where
  "raop_connection_port d = (case d_raop_port d of Some p \<Rightarrow> p | None \<Rightarrow> d_port d)"

definition supports_rsa_encryption :: "device \<Rightarrow> bool" where
  "supports_rsa_encryption d = (case d_raop_encryption_types d of Some et \<Rightarrow> 1 \<in> set et | None \<Rightarrow> False)"

end
