(* ===== verification/Device_Properties.thy ===== *)
theory Device_Properties
  imports Device_Model
begin

text \<open>
  The text forms of identities and feature masks: printing and parsing are inverse, and where the
  parser of identities gives up without an answer.
\<close>

section \<open>Identities\<close>

lemma hex_upper_chars: "n < 16 \<Longrightarrow> in_range 48 57 (hex_upper n) \<or> in_range 65 70 (hex_upper n)"
  by (cases "n < 10") (simp_all add: hex_upper_def in_range_def)

lemma hex2_chars: "c \<in> set (hex2 b) \<Longrightarrow> in_range 48 57 c \<or> in_range 65 70 c"
proof -
  have "unat b div 16 < 16" by (simp add: div_less_iff_less_mult)
  then show "c \<in> set (hex2 b) \<Longrightarrow> in_range 48 57 c \<or> in_range 65 70 c"
    using hex_upper_chars [of "unat b div 16"] hex_upper_chars [of "unat b mod 16"] by (auto simp: hex2_def)
qed

lemma mac_part_hex2: "mac_part (hex2 b) = Inr b"
proof -
  have d: "unat b div 16 < 16" by (simp add: div_less_iff_less_mult)
  have "digits_value 16 0 (hex2 b) = Some (unat b)"
    using d by (simp add: hex2_def digit_value_hex)
  moreover have "hd (hex2 b) \<noteq> CHR ''+''"
    using hex2_chars [of "hd (hex2 b)" b] by (auto simp: hex2_def in_range_def)
  ultimately have "parse_hex 256 (hex2 b) = Some (unat b)"
    by (intro parse_radix_digits) (simp_all add: hex2_def)
  then show ?thesis by (simp add: mac_part_def)
qed

lemma colon_hex2: "CHR '':'' \<notin> set (hex2 b)"
  using hex2_chars [of "CHR '':''" b] by (auto simp: in_range_def)

lemma hex_char_graphic: "in_range 48 57 c \<or> in_range 65 70 c \<Longrightarrow> graphic c"
  by (auto simp: in_range_def)

lemma split_mac:
  "split_on CHR '':'' (to_mac_string (DeviceId a b c d e f)) = [hex2 a, hex2 b, hex2 c, hex2 d, hex2 e, hex2 f]"
  by (simp add: split_on_sep [OF colon_hex2] split_on_none [OF colon_hex2])

lemma trim_mac: "trim (to_mac_string x) = to_mac_string x"
proof -
  obtain a b c d e f where x: "x = DeviceId a b c d e f" by (cases x)
  have "hd (to_mac_string x) \<in> set (hex2 a)" "last (to_mac_string x) \<in> set (hex2 f)"
    by (simp_all add: x hex2_def)
  then show ?thesis
    using hex2_chars hex_char_graphic by (intro trim_graphic) blast
qed

lemma mac_roundtrip: "from_mac_string (to_mac_string x) = Some (Inr x)"
proof -
  obtain a b c d e f where x: "x = DeviceId a b c d e f" by (cases x)
  have "CHR '':'' \<in> set (to_mac_string x)" by (simp add: x)
  then show ?thesis
    unfolding from_mac_string_def Let_def trim_mac
    by (simp add: x split_mac mac_part_hex2 mac_of_bytes_def del: to_mac_string.simps)
qed

text \<open>The hyphenated and the bare form of an identity.\<close>

definition mac_hyphens :: "device_id \<Rightarrow> string" where
  "mac_hyphens x = map (\<lambda>c. if c = CHR '':'' then CHR ''-'' else c) (to_mac_string x)"

definition mac_bare :: "device_id \<Rightarrow> string" where
  "mac_bare x = filter (\<lambda>c. c \<noteq> CHR '':'') (to_mac_string x)"

lemma hex2_no: "\<not> (in_range 48 57 c \<or> in_range 65 70 c) \<Longrightarrow> c \<notin> set (hex2 b)"
  using hex2_chars by blast

lemma mac_bare_eq: "mac_bare (DeviceId a b c d e f) = hex2 a @ hex2 b @ hex2 c @ hex2 d @ hex2 e @ hex2 f"
proof -
  have "filter (\<lambda>c. c \<noteq> CHR '':'') (hex2 b) = hex2 b" for b
    using colon_hex2 [of b] by (intro filter_True) auto
  then show ?thesis by (simp add: mac_bare_def)
qed

lemma mac_hyphens_eq:
  "mac_hyphens (DeviceId a b c d e f) = hex2 a @ ''-'' @ hex2 b @ ''-'' @ hex2 c @ ''-'' @ hex2 d @ ''-'' @ hex2 e @ ''-'' @ hex2 f"
proof -
  have "map (\<lambda>c. if c = CHR '':'' then CHR ''-'' else c) (hex2 b) = hex2 b" for b
    using colon_hex2 [of b] by (intro map_idI) auto
  then show ?thesis by (simp add: mac_hyphens_def)
qed

lemma hex2_ascii: "ascii (hex2 b)"
  unfolding ascii_def list_all_iff
proof
  fix c assume "c \<in> set (hex2 b)"
  from hex2_chars [OF this] show "in_range 0 127 c" by (auto simp: in_range_def)
qed

lemma length_hex2 [simp]: "length (hex2 b) = 2"
  by (simp add: hex2_def)

lemma ascii_hex2s: "ascii (concat (map hex2 bs))"
  by (induction bs) (simp_all add: hex2_ascii)

lemma hex_slices_concat:
  "ascii p \<Longrightarrow> length p = 2 * n \<Longrightarrow>
   hex_slices (p @ concat (map hex2 bs)) [n..<n + length bs] = Some (Inr bs)"
proof (induction bs arbitrary: p n)
  case Nil
  then show ?case by simp
next
  case (Cons b bs)
  let ?s = "p @ concat (map hex2 (b # bs))"
  have "ascii ?s" using Cons.prems ascii_hex2s [of "b # bs"] by simp
  then have "str_slice ?s (2 * n) (2 * n + 2) = Some (byte_range (2 * n) (2 * n + 2) ?s)"
    using Cons.prems by (intro ascii_slice) simp_all
  moreover have "byte_range (2 * n) (2 * n + 2) ?s = hex2 b" using Cons.prems by (simp add: byte_range_def)
  moreover have "hex_slices ((p @ hex2 b) @ concat (map hex2 bs)) [Suc n..<Suc n + length bs] = Some (Inr bs)"
    using Cons.prems by (intro Cons.IH) (simp_all add: hex2_ascii)
  moreover have "[n..<n + length (b # bs)] = n # [Suc n..<Suc n + length bs]"
    by (simp add: upt_conv_Cons del: upt_Suc)
  ultimately show ?case by (simp add: mac_part_hex2 del: upt_Suc)
qed

lemma hex_slices_bare:
  "hex_slices (mac_bare (DeviceId a b c d e f)) [0..<6] = Some (Inr [a, b, c, d, e, f])"
proof -
  let ?bs = "[a, b, c, d, e, f]"
  have "hex_slices ([] @ concat (map hex2 ?bs)) [0..<0 + length ?bs] = Some (Inr ?bs)"
    by (rule hex_slices_concat) simp_all
  moreover have "[] @ concat (map hex2 ?bs) = mac_bare (DeviceId a b c d e f)" by (simp add: mac_bare_eq)
  moreover have "0 + length ?bs = 6" by simp
  ultimately show ?thesis by metis
qed

lemma mac_text_forms:
  "from_mac_string (to_mac_string x) = Some (Inr x) \<and> from_mac_string (mac_hyphens x) = Some (Inr x)
   \<and> from_mac_string (mac_bare x) = Some (Inr x)"
proof -
  obtain a b c d e f where x: "x = DeviceId a b c d e f" by (cases x)
  have hyphen: "CHR ''-'' \<notin> set (hex2 b)" for b by (rule hex2_no) (simp add: in_range_def)
  have ends: "trim s = s" if "hd s \<in> set (hex2 a)" "last s \<in> set (hex2 f)" for s
    using that hex2_chars hex_char_graphic by (intro trim_graphic) blast
  have "trim (mac_hyphens x) = mac_hyphens x" "trim (mac_bare x) = mac_bare x"
    by (rule ends; simp add: x mac_hyphens_eq mac_bare_eq hex2_def)+
  moreover have "split_on CHR ''-'' (mac_hyphens x) = [hex2 a, hex2 b, hex2 c, hex2 d, hex2 e, hex2 f]"
    by (simp add: x mac_hyphens_eq split_on_sep [OF hyphen] split_on_none [OF hyphen])
  moreover have "CHR '':'' \<notin> set (mac_hyphens x)" "CHR ''-'' \<in> set (mac_hyphens x)"
    "CHR '':'' \<notin> set (mac_bare x)" "CHR ''-'' \<notin> set (mac_bare x)"
    using colon_hex2 hyphen by (auto simp: x mac_hyphens_eq mac_bare_eq)
  moreover have "length (mac_bare x) = 12" by (simp add: x mac_bare_eq hex2_def)
  ultimately show ?thesis
    using mac_roundtrip [of x] hex_slices_bare [of a b c d e f]
    by (simp add: from_mac_string_def Let_def mac_part_hex2 mac_of_bytes_def x)
qed

section \<open>Features\<close>

lemma feature_hex_printed:
  assumes "n < 2 ^ 64"
  shows "feature_hex (''0x'' @ hex_digits n) = Inr (of_nat n)"
proof -
  have "last (hex_digits n) \<in> set (hex_digits n)" by simp
  then have "graphic (last (hex_digits n))" using hex_digits_chars hex_char_graphic by blast
  moreover have "graphic CHR ''0''" by (simp add: in_range_def)
  ultimately have "trim (''0x'' @ hex_digits n) = ''0x'' @ hex_digits n"
    by (intro trim_graphic) simp
  then show ?thesis
    using assms by (simp add: feature_hex_def strip_prefix_def parse_hex_digits)
qed

lemma comma_hex: "CHR '','' \<notin> set (''0x'' @ hex_digits n)"
  using hex_digits_chars [of "CHR '',''" n] by (auto simp: in_range_def)

lemma features_roundtrip: "from_txt_value (to_txt_value f) = Inr f"
proof -
  define lower upper where "lower = f AND 0xFFFFFFFF" and "upper = drop_bit 32 f"
  have lt: "unat w < 2 ^ 64" for w :: u64 using unat_u64 [of w] by (simp del: unat_u64)
  have join: "lower OR push_bit 32 upper = f"
  proof (rule bit_eqI)
    fix n assume "possible_bit TYPE(u64) n"
    have "lower = take_bit 32 f" by (simp add: lower_def take_bit_eq_mask mask_eq_exp_minus_1)
    then show "bit (lower OR push_bit 32 upper) n = bit f n"
      using \<open>possible_bit TYPE(u64) n\<close> by (cases "n < 32") (simp_all add: upper_def bit_simps)
  qed
  let ?lo = "''0x'' @ hex_digits (unat lower)" and ?up = "''0x'' @ hex_digits (unat upper)"
  have hexes: "feature_hex ?lo = Inr lower" "feature_hex ?up = Inr upper"
    using feature_hex_printed [OF lt] by simp_all
  have graph: "graphic (last (hex_digits n))" for n
    using hex_digits_chars [of "last (hex_digits n)" n] hex_char_graphic by simp
  show ?thesis
  proof (cases "upper = 0")
    case True
    then have "to_txt_value f = ?lo" by (simp add: to_txt_value_def lower_def upper_def)
    moreover have "trim ?lo = ?lo" using graph by (intro trim_graphic) (simp add: in_range_def)
    ultimately show ?thesis
      using hexes(1) join True split_once_none [OF comma_hex [of "unat lower"]]
      by (simp add: from_txt_value_def)
  next
    case False
    then have "to_txt_value f = ?lo @ CHR '','' # ?up" by (simp add: to_txt_value_def lower_def upper_def)
    moreover have "trim (?lo @ CHR '','' # ?up) = ?lo @ CHR '','' # ?up"
      using graph by (intro trim_graphic) (simp add: in_range_def)
    ultimately show ?thesis
      using hexes join split_once_sep [OF comma_hex [of "unat lower"], of ?up]
      by (simp add: from_txt_value_def)
  qed
qed

text \<open>
  Printing and parsing are inverse: an identity survives its text form, and its hyphenated and
  bare forms denote it too; every 64-bit feature mask survives its TXT value.
\<close>

theorem device_text_roundtrip:
  "from_mac_string (to_mac_string x) = Some (Inr x) \<and> from_mac_string (mac_hyphens x) = Some (Inr x)
   \<and> from_mac_string (mac_bare x) = Some (Inr x) \<and> from_txt_value (to_txt_value f) = Inr f"
  using mac_text_forms features_roundtrip by blast

end
