(* ===== verification/Discovery_Parser.thy ===== *)
theory Discovery_Parser
  imports Device_Properties
begin

text \<open>
  Discovery records (\<open>crates/airplay-discovery/src/parser.rs\<close>): the TXT records of the two service
  types become receivers, and the two receivers of one device are merged. A TXT record is a map
  from keys to values; parsing a UUID is a library function and a parameter. \<open>None\<close> is a panic.
\<close>

type_synonym txt_record = "string \<rightharpoonup> string"
type_synonym uuid_parser = "string \<Rightarrow> uuid option"

definition optional_field :: "string option \<Rightarrow> (string \<Rightarrow> parse_error + 'a) \<Rightarrow> 'a option" where
  "optional_field raw parse =
     (case raw of None \<Rightarrow> None | Some r \<Rightarrow> (case parse r of Inr v \<Rightarrow> Some v | Inl _ \<Rightarrow> None))"

definition parse_group_uuid :: "uuid_parser \<Rightarrow> string \<Rightarrow> parse_error + uuid" where
  "parse_group_uuid uuid_parse s =
     (case uuid_parse s of Some u \<Rightarrow> Inr u | None \<Rightarrow> Inl (InvalidValue (''invalid UUID: '' @ s)))"

definition parse_public_key :: "string \<Rightarrow> (parse_error + u8 list) option" where
  "parse_public_key hex0 =
     (let hex = trim hex0
      in if length hex \<noteq> 64
         then Some (Inl (InvalidFormat (''public key must be 64 hex characters, got '' @ digits (length hex))))
         else hex_slices hex [0..<32])"

text \<open>\<open>optional_field\<close> around a parser that may panic.\<close>

definition optional_public_key :: "string option \<Rightarrow> u8 list option option" where
  "optional_public_key raw =
     (case raw of
        None \<Rightarrow> Some None
      | Some r \<Rightarrow>
          (case parse_public_key r of
             None \<Rightarrow> None
           | Some (Inl _) \<Rightarrow> Some None
           | Some (Inr k) \<Rightarrow> Some (Some k)))"

definition parse_hex_or_decimal :: "string \<Rightarrow> u64" where
  "parse_hex_or_decimal s0 =
     (let s = trim s0
      in if starts_with ''0x'' s \<or> starts_with ''0X'' s
         then (case parse_hex (2 ^ 64) (drop 2 s) of Some n \<Rightarrow> of_nat n | None \<Rightarrow> 0)
         else (case parse_dec (2 ^ 64) s of Some n \<Rightarrow> of_nat n | None \<Rightarrow> 0))"

definition parse_legacy_features :: "string \<Rightarrow> parse_error + features" where
  "parse_legacy_features sf0 =
     (let sf = trim sf0
      in if starts_with ''0x'' sf \<or> starts_with ''0X'' sf
         then (case parse_hex (2 ^ 64) (drop 2 sf) of Some n \<Rightarrow> Inr (of_nat n) | None \<Rightarrow> Inl (InvalidHex sf))
         else if list_all (in_range 48 57) sf
         then (case parse_dec (2 ^ 64) sf of
                 Some n \<Rightarrow> Inr (of_nat n) | None \<Rightarrow> Inl (InvalidValue (''invalid decimal: '' @ sf)))
         else (case parse_hex (2 ^ 64) sf of Some n \<Rightarrow> Inr (of_nat n) | None \<Rightarrow> Inl (InvalidHex sf)))"

definition flag_set :: "string option \<Rightarrow> bool" where
  "flag_set v = (case v of Some s \<Rightarrow> s = ''true'' \<or> s = ''1'' | None \<Rightarrow> False)"

definition or_default :: "'a \<Rightarrow> 'a option \<Rightarrow> 'a" where
  "or_default d v = (case v of Some x \<Rightarrow> x | None \<Rightarrow> d)"

definition or_else :: "'a option \<Rightarrow> 'a option \<Rightarrow> 'a option" where
  "or_else a b = (case a of Some x \<Rightarrow> Some x | None \<Rightarrow> b)"

definition byte_list :: "string \<Rightarrow> u8 list" where
  "byte_list s = map of_nat (List.map_filter (\<lambda>p. parse_dec 256 (trim p)) (split_on CHR '','' s))"

section \<open>The AirPlay record\<close>

definition airplay_device ::
    "uuid_parser \<Rightarrow> string \<Rightarrow> txt_record \<Rightarrow> ip_addr list \<Rightarrow> u16 \<Rightarrow> device_id \<Rightarrow> u8 list option \<Rightarrow> device" where
  "airplay_device uuid_parse name txt addresses port ident public_key =
     \<lparr>d_id = ident, d_name = name, d_model = or_default [] (txt ''model''),
      d_manufacturer = txt ''manufacturer'', d_serial_number = txt ''serialNumber'',
      d_addresses = addresses, d_port = port,
      d_features = or_default 0 (optional_field (txt ''features'') from_txt_value),
      d_required_sender_features = optional_field (txt ''rsf'') from_txt_value,
      d_public_key = public_key,
      d_source_version = or_default version_default (optional_field (txt ''srcvers'') version_parse),
      d_firmware_version = txt ''fv'', d_os_version = txt ''osvers'', d_protocol_version = txt ''protovers'',
      d_requires_password = flag_set (txt ''pw''),
      d_status_flags = (case or_else (txt ''flags'') (txt ''sf'') of Some f \<Rightarrow> parse_hex_or_decimal f | None \<Rightarrow> 0),
      d_access_control = (case txt ''acl'' of Some v \<Rightarrow> map_option of_nat (parse_dec 256 v) | None \<Rightarrow> None),
      d_pairing_identity = txt ''pi'', d_system_pairing_identity = txt ''psi'',
      d_bluetooth_address = txt ''btaddr'', d_homekit_home_id = txt ''hkid'',
      d_group_id = optional_field (txt ''gid'') (parse_group_uuid uuid_parse),
      d_is_group_leader = flag_set (txt ''igl''), d_group_public_name = txt ''gpn'',
      d_group_contains_discoverable_leader = flag_set (txt ''gcgl''),
      d_home_group_id = txt ''hgid'', d_household_id = txt ''hmid'',
      d_parent_group_id = optional_field (txt ''pgid'') (parse_group_uuid uuid_parse),
      d_parent_group_contains_discoverable_leader = flag_set (txt ''pgcgl''),
      d_tight_sync_id = optional_field (txt ''tsid'') (parse_group_uuid uuid_parse),
      d_raop_port = None, d_raop_encryption_types = None, d_raop_codecs = None, d_raop_transport = None,
      d_raop_metadata_types = None, d_raop_digest_auth = False, d_vodka_version = None\<rparr>"

definition parse_airplay_txt ::
    "uuid_parser \<Rightarrow> string \<Rightarrow> txt_record \<Rightarrow> ip_addr list \<Rightarrow> u16 \<Rightarrow> (parse_error + device) option" where
  "parse_airplay_txt uuid_parse name txt addresses port =
     (case txt ''deviceid'' of
        None \<Rightarrow> Some (Inl (MissingField ''deviceid''))
      | Some s \<Rightarrow>
          (case from_mac_string s of
             None \<Rightarrow> None
           | Some (Inl e) \<Rightarrow> Some (Inl e)
           | Some (Inr ident) \<Rightarrow>
               map_option (\<lambda>public_key. Inr (airplay_device uuid_parse name txt addresses port ident public_key))
                 (optional_public_key (txt ''pk''))))"

section \<open>The RAOP record\<close>

definition raop_features :: "txt_record \<Rightarrow> features" where
  "raop_features txt =
     (if txt ''ft'' \<noteq> None then or_default 0 (optional_field (txt ''ft'') from_txt_value)
      else or_default 0 (optional_field (txt ''sf'') parse_legacy_features))"

definition raop_device ::
    "string \<Rightarrow> txt_record \<Rightarrow> ip_addr list \<Rightarrow> u16 \<Rightarrow> device_id \<Rightarrow> u8 list option \<Rightarrow> device" where
  "raop_device name txt addresses port ident public_key =
     \<lparr>d_id = ident, d_name = name, d_model = or_default [] (or_else (txt ''am'') (txt ''model'')),
      d_manufacturer = None, d_serial_number = None, d_addresses = addresses, d_port = port,
      d_features = raop_features txt, d_required_sender_features = None, d_public_key = public_key,
      d_source_version = or_default version_default
        (if txt ''vs'' \<noteq> None then optional_field (txt ''vs'') version_parse
         else optional_field (txt ''vn'') version_parse),
      d_firmware_version = txt ''fv'', d_os_version = txt ''ov'', d_protocol_version = None,
      d_requires_password = flag_set (txt ''pw''),
      d_status_flags = (case txt ''sf'' of Some f \<Rightarrow> parse_hex_or_decimal f | None \<Rightarrow> 0),
      d_access_control = None, d_pairing_identity = None, d_system_pairing_identity = None,
      d_bluetooth_address = None, d_homekit_home_id = None, d_group_id = None, d_is_group_leader = False,
      d_group_public_name = None, d_group_contains_discoverable_leader = False, d_home_group_id = None,
      d_household_id = None, d_parent_group_id = None, d_parent_group_contains_discoverable_leader = False,
      d_tight_sync_id = None, d_raop_port = Some port,
      d_raop_encryption_types = map_option byte_list (txt ''et''),
      d_raop_codecs = map_option byte_list (txt ''cn''), d_raop_transport = txt ''tp'',
      d_raop_metadata_types = map_option byte_list (txt ''md''),
      d_raop_digest_auth = flag_set (txt ''da''), d_vodka_version = txt ''vv''\<rparr>"

definition parse_raop_txt ::
    "string \<Rightarrow> txt_record \<Rightarrow> ip_addr list \<Rightarrow> u16 \<Rightarrow> (parse_error + device) option" where
  "parse_raop_txt name txt addresses port =
     (case split_once CHR ''@'' name of
        None \<Rightarrow> Some (Inl (InvalidFormat (''RAOP name must contain '' @ [CHR 0x27, CHR ''@'', CHR 0x27])))
      | Some (mac_hex, device_name) \<Rightarrow>
          (case from_mac_string mac_hex of
             None \<Rightarrow> None
           | Some (Inl e) \<Rightarrow> Some (Inl e)
           | Some (Inr ident) \<Rightarrow>
               map_option (\<lambda>public_key. Inr (raop_device device_name txt addresses port ident public_key))
                 (optional_public_key (txt ''pk''))))"

section \<open>Merging\<close>

definition merge_device_info :: "device \<Rightarrow> device \<Rightarrow> device" where
  "merge_device_info airplay raop =
     airplay\<lparr>d_model := (if d_model airplay = [] then d_model raop else d_model airplay),
       d_addresses := foldl (\<lambda>acc a. if a \<in> set acc then acc else acc @ [a]) (d_addresses airplay) (d_addresses raop),
       d_features := (if d_features airplay \<noteq> 0 then d_features airplay else d_features raop),
       d_public_key := or_else (d_public_key airplay) (d_public_key raop),
       d_source_version := (if d_source_version airplay = version_default then d_source_version raop
                            else d_source_version airplay),
       d_firmware_version := or_else (d_firmware_version airplay) (d_firmware_version raop),
       d_os_version := or_else (d_os_version airplay) (d_os_version raop),
       d_requires_password := (d_requires_password airplay \<or> d_requires_password raop),
       d_status_flags := (if d_status_flags airplay \<noteq> 0 then d_status_flags airplay else d_status_flags raop),
       d_raop_port := d_raop_port raop, d_raop_encryption_types := d_raop_encryption_types raop,
       d_raop_codecs := d_raop_codecs raop, d_raop_transport := d_raop_transport raop,
       d_raop_metadata_types := d_raop_metadata_types raop, d_raop_digest_auth := d_raop_digest_auth raop,
       d_vodka_version := d_vodka_version raop\<rparr>"

section \<open>What rejects a record\<close>

lemma trim_with_sub: "set (trim_with ws s) \<subseteq> set s"
proof (induction ws s rule: trim_with.induct)
  case (1 ws s)
  show ?case
  proof (cases "find (\<lambda>w. w \<noteq> [] \<and> starts_with w s) ws")
    case None
    then show ?thesis by (simp add: trim_with.simps [of ws s])
  next
    case (Some w)
    then show ?thesis
      using 1 [OF Some] set_drop_subset [of "length w" s] by (auto simp: trim_with.simps [of ws s])
  qed
qed

lemma ascii_trim: "ascii s \<Longrightarrow> ascii (trim s)"
proof -
  assume "ascii s"
  have "set (trim s) \<subseteq> set (trim_start s)"
    unfolding trim_def trim_end_def using trim_with_sub [of _ "rev (trim_start s)"] by simp
  also have "\<dots> \<subseteq> set s" unfolding trim_start_def by (rule trim_with_sub)
  finally show ?thesis using \<open>ascii s\<close> by (auto simp: ascii_def list_all_iff)
qed

lemma hex_slices_ascii:
  "ascii s \<Longrightarrow> (\<And>i. i \<in> set is \<Longrightarrow> 2 * i + 2 \<le> length s) \<Longrightarrow> hex_slices s is \<noteq> None"
proof (induction "is")
  case Nil
  then show ?case by simp
next
  case (Cons i "is")
  then show ?case by (auto simp: ascii_slice split: option.splits sum.splits)
qed

lemma from_mac_string_ascii: "ascii s \<Longrightarrow> from_mac_string s \<noteq> None"
  using hex_slices_ascii [of "trim s" "[0..<6]"] ascii_trim [of s]
  by (auto simp: from_mac_string_def Let_def)

lemma optional_public_key_ascii: "pred_option ascii raw \<Longrightarrow> optional_public_key raw \<noteq> None"
proof -
  have "parse_public_key s \<noteq> None" if "ascii s" for s
    using hex_slices_ascii [of "trim s" "[0..<32]"] ascii_trim [OF that]
    by (auto simp: parse_public_key_def Let_def)
  then show "pred_option ascii raw \<Longrightarrow> optional_public_key raw \<noteq> None"
    by (cases raw) (auto simp: optional_public_key_def split: option.splits sum.splits)
qed

text \<open>
  C33: only the identity can make an AirPlay record unusable: when the identity field and the key are
  plain ASCII text, the record is rejected exactly if the identity is missing or unreadable, with
  that error, and otherwise yields a receiver with that identity, whatever the other fields hold.
\<close>

theorem identity_alone_rejects:
  assumes "pred_option ascii (txt ''deviceid'')" "pred_option ascii (txt ''pk'')"
  shows "\<exists>r. parse_airplay_txt uuid_parse name txt addresses port = Some r
     \<and> (case txt ''deviceid'' of
           None \<Rightarrow> r = Inl (MissingField ''deviceid'')
         | Some s \<Rightarrow>
             (case from_mac_string s of
                Some (Inr ident) \<Rightarrow> (\<exists>d. r = Inr d \<and> d_id d = ident \<and> d_name d = name \<and> d_addresses d = addresses \<and> d_port d = port)
              | Some (Inl e) \<Rightarrow> r = Inl e
              | None \<Rightarrow> False))"
proof (cases "txt ''deviceid''")
  case None
  then show ?thesis by (simp add: parse_airplay_txt_def)
next
  case (Some s)
  then have "from_mac_string s \<noteq> None" using assms(1) by (intro from_mac_string_ascii) simp
  then obtain q where q: "from_mac_string s = Some q" by blast
  obtain k where k: "optional_public_key (txt ''pk'') = Some k"
    using optional_public_key_ascii [OF assms(2)] by blast
  show ?thesis by (cases q) (simp_all add: parse_airplay_txt_def Some q k airplay_device_def)
qed

definition demo_id :: device_id where "demo_id = DeviceId 0xAA 0xBB 0xCC 0xDD 0xEE 0xFF"

definition demo_txt :: txt_record where
  "demo_txt = [''deviceid'' \<mapsto> to_mac_string demo_id, ''features'' \<mapsto> ''unreadable'', ''srcvers'' \<mapsto> ''x.y'']"

lemma ascii_mac: "ascii (to_mac_string x)"
  by (cases x) (simp add: hex2_ascii, simp add: in_range_def)

theorem identity_alone_rejects_witness:
  "\<exists>d. parse_airplay_txt (\<lambda>_. None) ''Den'' demo_txt [V4 1] 7000 = Some (Inr d) \<and> d_id d = demo_id \<and> d_port d = 7000"
  using identity_alone_rejects [of demo_txt "\<lambda>_. None" "''Den''" "[V4 1]" 7000]
  by (auto simp: demo_txt_def ascii_mac mac_roundtrip)

text \<open>Texts of multi-byte characters.\<close>

definition euros :: "nat \<Rightarrow> string" where
  "euros n = concat (replicate n [CHR 0xE2, CHR 0x82, CHR 0xAC])"

definition odd_mac :: string where "odd_mac = ''A'' @ euros 3 @ ''AA''"
definition odd_key :: string where "odd_key = ''A'' @ euros 20 @ ''AAA''"

lemma utf8_euros: "utf8_valid (euros n @ s) = utf8_valid s"
  by (induction n) (simp_all add: euros_def in_range_def is_cont_def)

lemma set_euros: "set (euros n) \<subseteq> {CHR 0xE2, CHR 0x82, CHR 0xAC}"
  by (induction n) (auto simp: euros_def)

lemma length_euros: "length (euros n) = 3 * n"
  by (induction n) (simp_all add: euros_def)

lemma odd_slice:
  assumes "s = ''A'' @ euros (Suc n) @ t" "is = 0 # js"
  shows "hex_slices s is = None"
proof -
  have "s ! 2 = CHR 0x82" "2 < length s" by (simp_all add: assms(1) euros_def)
  then have "\<not> is_char_boundary s 2" by (simp add: is_char_boundary_def is_cont_def)
  then show ?thesis by (simp add: assms(2) str_slice_def numeral_2_eq_2)
qed

lemma from_mac_string_odd: "from_mac_string odd_mac = None"
proof -
  have "trim odd_mac = odd_mac" by (rule trim_graphic) (simp add: odd_mac_def in_range_def)
  moreover have "CHR '':'' \<notin> set odd_mac" "CHR ''-'' \<notin> set odd_mac"
    using set_euros [of 3] by (auto simp: odd_mac_def)
  moreover have "length odd_mac = 12" by (simp add: odd_mac_def length_euros)
  moreover have "hex_slices odd_mac [0..<6] = None"
    by (rule odd_slice [of _ 2 "''AA''" _ "[1..<6]"]) (simp_all add: odd_mac_def upt_conv_Cons numeral_3_eq_3 numeral_2_eq_2)
  ultimately show ?thesis by (simp add: from_mac_string_def Let_def)
qed

text \<open>
  Text that is not ASCII can take the parsers down instead: twelve bytes of valid text without a
  character boundary after the second byte make both record parsers panic when they stand for
  the identity, and sixty-four such bytes do when they stand for the key.
\<close>

theorem discovery_panics:
  "utf8_valid odd_mac \<and> utf8_valid odd_key
   \<and> parse_airplay_txt uuid_parse name [''deviceid'' \<mapsto> odd_mac] addresses port = None
   \<and> parse_raop_txt (odd_mac @ ''@Den'') txt addresses port = None
   \<and> parse_airplay_txt uuid_parse name [''deviceid'' \<mapsto> to_mac_string demo_id, ''pk'' \<mapsto> odd_key] addresses port = None"
proof -
  have valid: "utf8_valid odd_mac" "utf8_valid odd_key"
    by (simp_all add: odd_mac_def odd_key_def in_range_def utf8_euros)
  have at: "CHR ''@'' \<notin> set odd_mac" using set_euros [of 3] by (auto simp: odd_mac_def)
  have "trim odd_key = odd_key" by (rule trim_graphic) (simp add: odd_key_def in_range_def)
  moreover have "length odd_key = 64" by (simp add: odd_key_def length_euros)
  moreover have "hex_slices odd_key [0..<32] = None"
    by (rule odd_slice [of _ 19 "''AAA''" _ "[1..<32]"]) (simp_all add: odd_key_def upt_conv_Cons)
  ultimately have "optional_public_key (Some odd_key) = None"
    by (simp add: optional_public_key_def parse_public_key_def Let_def)
  moreover have "odd_mac @ ''@Den'' = odd_mac @ CHR ''@'' # ''Den''" by simp
  ultimately show ?thesis
    using valid split_once_sep [OF at, of "''Den''"]
    by (simp add: parse_airplay_txt_def parse_raop_txt_def from_mac_string_odd mac_roundtrip)
qed

section \<open>Merging the two records\<close>

lemma merge_addresses:
  "set (foldl (\<lambda>acc a. if a \<in> set acc then acc else acc @ [a]) xs ys) = set xs \<union> set ys"
  "distinct xs \<Longrightarrow> distinct (foldl (\<lambda>acc a. if a \<in> set acc then acc else acc @ [a]) xs ys)"
  by (induction ys arbitrary: xs) auto

text \<open>
  An AirPlay record whose feature mask and version cannot be read loses nothing that the RAOP
  record of the same receiver states: the merged receiver has the AirPlay identity and name, the
  RAOP record's features and version, and every address once.
\<close>

theorem degraded_record_recovers:
  assumes "parse_airplay_txt uuid_parse name txt addresses port = Some (Inr a)"
    and "parse_raop_txt rname rtxt raddresses rport = Some (Inr r)"
    and "optional_field (txt ''features'') from_txt_value = None"
    and "optional_field (txt ''srcvers'') version_parse = None"
    and "distinct addresses"
  defines "m \<equiv> merge_device_info a r"
  shows "d_id m = d_id a \<and> d_name m = name \<and> d_port m = port \<and> d_raop_port m = Some rport
     \<and> d_features m = d_features r \<and> d_source_version m = d_source_version r
     \<and> supports_ptp m = supports_ptp r \<and> supports_airplay2 m = supports_airplay2 r
     \<and> set (d_addresses m) = set addresses \<union> set raddresses \<and> distinct (d_addresses m)
     \<and> d_group_id m = d_group_id a"
proof -
  obtain ident k where a: "a = airplay_device uuid_parse name txt addresses port ident k"
    using assms(1) by (auto simp: parse_airplay_txt_def split: option.splits sum.splits)
  obtain rn rident rk where r: "r = raop_device rn rtxt raddresses rport rident rk"
    using assms(2) by (auto simp: parse_raop_txt_def split: option.splits sum.splits prod.splits)
  show ?thesis
    using assms(3-5) merge_addresses [of addresses raddresses]
    by (simp add: m_def merge_device_info_def supports_ptp_def supports_airplay2_def a r airplay_device_def
        raop_device_def or_default_def)
qed

lemma demo_unreadable:
  "from_txt_value ''unreadable'' = Inl (InvalidHex ''unreadable'')"
  "version_parse ''x.y'' = Inl (InvalidValue ''invalid major version: x'')"
proof -
  have t: "trim ''unreadable'' = ''unreadable''" "trim ''x.y'' = ''x.y''"
    by (rule trim_graphic, simp add: in_range_def)+
  then show "from_txt_value ''unreadable'' = Inl (InvalidHex ''unreadable'')"
    by (simp add: from_txt_value_def feature_hex_def split_once_def strip_prefix_def parse_radix_def
        digit_value_def in_range_def)
  show "version_parse ''x.y'' = Inl (InvalidValue ''invalid major version: x'')"
    using t by (simp add: version_parse_def version_part_def parse_radix_def digit_value_def in_range_def)
qed

definition demo_rtxt :: txt_record where
  "demo_rtxt = [''ft'' \<mapsto> to_txt_value SUPPORTS_PTP]"

theorem degraded_record_recovers_witness:
  "\<exists>a r. parse_airplay_txt (\<lambda>_. None) ''Den'' demo_txt [V4 1, V4 2] 7000 = Some (Inr a)
     \<and> parse_raop_txt (mac_bare demo_id @ ''@Den'') demo_rtxt [V4 2, V4 3] 5000 = Some (Inr r)
     \<and> d_features (merge_device_info a r) = SUPPORTS_PTP \<and> d_raop_port (merge_device_info a r) = Some 5000
     \<and> set (d_addresses (merge_device_info a r)) = {V4 1, V4 2, V4 3}"
proof -
  have "CHR ''@'' \<notin> set (mac_bare demo_id)"
    using hex2_no [of "CHR ''@''"] by (auto simp: mac_bare_eq demo_id_def in_range_def)
  from split_once_sep [OF this, of "''Den''"]
  have "parse_raop_txt (mac_bare demo_id @ ''@Den'') demo_rtxt [V4 2, V4 3] 5000
      = Some (Inr (raop_device ''Den'' demo_rtxt [V4 2, V4 3] 5000 demo_id None))"
    using mac_text_forms [of demo_id] by (simp add: parse_raop_txt_def demo_rtxt_def optional_public_key_def)
  moreover have "parse_airplay_txt (\<lambda>_. None) ''Den'' demo_txt [V4 1, V4 2] 7000
      = Some (Inr (airplay_device (\<lambda>_. None) ''Den'' demo_txt [V4 1, V4 2] 7000 demo_id None))"
    by (simp add: parse_airplay_txt_def demo_txt_def mac_roundtrip optional_public_key_def)
  moreover have "optional_field (demo_txt ''features'') from_txt_value = None"
    "optional_field (demo_txt ''srcvers'') version_parse = None"
    by (simp_all add: demo_txt_def optional_field_def demo_unreadable)
  moreover have "d_features (raop_device ''Den'' demo_rtxt [V4 2, V4 3] 5000 demo_id None) = SUPPORTS_PTP"
    by (simp add: raop_device_def raop_features_def demo_rtxt_def optional_field_def or_default_def features_roundtrip)
  ultimately show ?thesis
    using degraded_record_recovers [of "\<lambda>_. None" "''Den''" demo_txt "[V4 1, V4 2]" 7000 _
        "mac_bare demo_id @ ''@Den''" demo_rtxt "[V4 2, V4 3]" 5000] by auto
qed

end
