(* ===== verification/Rtsp_Messages.thy ===== *)
theory Rtsp_Messages
  imports Rust_Text Ordered_Map
begin

text \<open>
  RTSP messages (\<open>crates/airplay-rtsp/src/request.rs\<close>, \<open>response.rs\<close>): the request builder with its
  factories and wire form, and the response parser with its accessors. Header maps are hash maps:
  entries are kept by key, and the order in which an iteration visits them is the parameter
  \<open>visit\<close>. \<open>None\<close> is a panic of the parser.
\<close>

type_synonym headers = "(string, string) omap"
type_synonym visit_order = "headers \<Rightarrow> (string \<times> string) list"

definition crlf :: string where "crlf = [CR, LF]"

section \<open>Requests\<close>

datatype rtsp_method =
    M_Options | M_Announce | M_Setup | M_Record | M_Pause | M_Flush | M_Teardown
  | M_GetParameter | M_SetParameter | M_Post | M_Get | M_SetPeers

fun method_str :: "rtsp_method \<Rightarrow> string" where
  "method_str M_Options = ''OPTIONS''"
| "method_str M_Announce = ''ANNOUNCE''"
| "method_str M_Setup = ''SETUP''"
| "method_str M_Record = ''RECORD''"
| "method_str M_Pause = ''PAUSE''"
| "method_str M_Flush = ''FLUSH''"
| "method_str M_Teardown = ''TEARDOWN''"
| "method_str M_GetParameter = ''GET_PARAMETER''"
| "method_str M_SetParameter = ''SET_PARAMETER''"
| "method_str M_Post = ''POST''"
| "method_str M_Get = ''GET''"
| "method_str M_SetPeers = ''SETPEERS''"

record rtsp_request =
  rq_method :: rtsp_method
  rq_uri :: string
  rq_headers :: headers
  rq_body :: "u8 list option"

definition request_new :: "rtsp_method \<Rightarrow> string \<Rightarrow> rtsp_request" where
  "request_new m uri = \<lparr>rq_method = m, rq_uri = uri, rq_headers = [], rq_body = None\<rparr>"

definition with_header :: "string \<Rightarrow> string \<Rightarrow> rtsp_request \<Rightarrow> rtsp_request" where
  "with_header k v r = r\<lparr>rq_headers := om_insert k v (rq_headers r)\<rparr>"

definition with_body :: "u8 list \<Rightarrow> rtsp_request \<Rightarrow> rtsp_request" where
  "with_body b r = r\<lparr>rq_body := Some b\<rparr>"

definition content_type_bplist :: "rtsp_request \<Rightarrow> rtsp_request" where
  "content_type_bplist r = with_header ''Content-Type'' ''application/x-apple-binary-plist'' r"

definition header_line :: "string \<times> string \<Rightarrow> string" where
  "header_line kv = fst kv @ '': '' @ snd kv"

text \<open>The headers are written in the order of their keys, whatever order the map visits them in.\<close>

definition request_serialize :: "rtsp_request \<Rightarrow> u32 \<Rightarrow> u8 list" where
  "request_serialize r cseq =
     bytes_of (method_str (rq_method r) @ '' '' @ rq_uri r @ '' RTSP/1.0'' @ crlf
       @ ''CSeq: '' @ digits (unat cseq) @ crlf
       @ (case rq_body r of Some b \<Rightarrow> ''Content-Length: '' @ digits (length b) @ crlf | None \<Rightarrow> [])
       @ concat (map (\<lambda>kv. header_line kv @ crlf) (rq_headers r))
       @ crlf)
     @ (case rq_body r of Some b \<Rightarrow> b | None \<Rightarrow> [])"

subsection \<open>Factories\<close>

definition req_get_info :: rtsp_request where
  "req_get_info = content_type_bplist (request_new M_Get ''/info'')"

definition req_options :: rtsp_request where
  "req_options = request_new M_Options ''*''"

definition req_announce :: "string \<Rightarrow> u8 list \<Rightarrow> rtsp_request" where
  "req_announce uri b = with_body b (with_header ''Content-Type'' ''application/sdp'' (request_new M_Announce uri))"

definition req_setup :: "string \<Rightarrow> u8 list \<Rightarrow> rtsp_request" where
  "req_setup uri b = with_body b (content_type_bplist (request_new M_Setup uri))"

definition req_record :: "string \<Rightarrow> rtsp_request" where
  "req_record uri = with_header ''X-Apple-ProtocolVersion'' ''1'' (request_new M_Record uri)"

definition req_teardown :: "string \<Rightarrow> rtsp_request" where
  "req_teardown uri = request_new M_Teardown uri"

definition req_flush :: "string \<Rightarrow> rtsp_request" where
  "req_flush uri = request_new M_Flush uri"

definition rtp_info :: "u16 \<Rightarrow> u32 \<Rightarrow> string" where
  "rtp_info sq rtptime = ''seq='' @ digits (unat sq) @ '';rtptime='' @ digits (unat rtptime)"

definition req_flush_with_info :: "string \<Rightarrow> u16 \<Rightarrow> u32 \<Rightarrow> rtsp_request" where
  "req_flush_with_info uri sq rtptime = with_header ''RTP-Info'' (rtp_info sq rtptime) (request_new M_Flush uri)"

definition req_set_parameter :: "string \<Rightarrow> u8 list \<Rightarrow> rtsp_request" where
  "req_set_parameter uri b = with_body b (content_type_bplist (request_new M_SetParameter uri))"

definition req_set_parameter_text :: "string \<Rightarrow> u8 list \<Rightarrow> rtsp_request" where
  "req_set_parameter_text uri b =
     with_body b (with_header ''Content-Type'' ''text/parameters'' (request_new M_SetParameter uri))"

definition req_setpeers :: "u8 list \<Rightarrow> rtsp_request" where
  "req_setpeers b = with_body b (content_type_bplist (request_new M_SetPeers ''/peer-list-changed''))"

definition req_record_with_info :: "string \<Rightarrow> u16 \<Rightarrow> u32 \<Rightarrow> rtsp_request" where
  "req_record_with_info uri sq rtptime =
     with_header ''RTP-Info'' (rtp_info sq rtptime)
       (with_header ''Range'' ''npt=0-'' (with_header ''X-Apple-ProtocolVersion'' ''1'' (request_new M_Record uri)))"

definition octet_stream :: "rtsp_request \<Rightarrow> rtsp_request" where
  "octet_stream r = with_header ''Content-Type'' ''application/octet-stream'' r"

definition req_pair_setup :: "u8 list \<Rightarrow> string \<Rightarrow> u8 \<Rightarrow> rtsp_request" where
  "req_pair_setup b ident hkp =
     with_body b (with_header ''User-Agent'' ''AirPlay/745.83'' (with_header ''Active-Remote'' ''1234567890''
       (with_header ''DACP-ID'' (filter (\<lambda>c. c \<noteq> CHR '':'') ident)
         (with_header ''X-Apple-HKP'' (digits (unat hkp)) (with_header ''X-Apple-Device-ID'' ident
           (octet_stream (request_new M_Post ''/pair-setup'')))))))"

definition req_pair_verify :: "u8 list \<Rightarrow> u8 \<Rightarrow> rtsp_request" where
  "req_pair_verify b hkp =
     with_body b (with_header ''X-Apple-HKP'' (digits (unat hkp)) (octet_stream (request_new M_Post ''/pair-verify'')))"

definition req_fruit_pair_setup :: "u8 list \<Rightarrow> rtsp_request" where
  "req_fruit_pair_setup b = with_body b (content_type_bplist (request_new M_Post ''/pair-setup''))"

definition req_fruit_pair_verify :: "u8 list \<Rightarrow> rtsp_request" where
  "req_fruit_pair_verify b = with_body b (octet_stream (request_new M_Post ''/pair-verify''))"

definition req_fp_setup :: "u8 list \<Rightarrow> rtsp_request" where
  "req_fp_setup b = with_body b (octet_stream (request_new M_Post ''/fp-setup''))"

definition req_feedback :: "string \<Rightarrow> rtsp_request" where
  "req_feedback uri = content_type_bplist (request_new M_Post (uri @ ''/feedback''))"

definition req_options_with_challenge :: "string \<Rightarrow> rtsp_request" where
  "req_options_with_challenge challenge = with_header ''Apple-Challenge'' challenge (request_new M_Options ''*'')"

definition req_setup_raop :: "string \<Rightarrow> string \<Rightarrow> rtsp_request" where
  "req_setup_raop uri transport = with_header ''Transport'' transport (request_new M_Setup uri)"

section \<open>Responses\<close>

record rtsp_response =
  rp_status_code :: u16
  rp_status_text :: string
  rp_headers :: headers
  rp_body :: "u8 list option"

definition header_terminator :: "u8 list" where "header_terminator = [13, 10, 13, 10]"

fun find_terminator :: "u8 list \<Rightarrow> nat option" where
  "find_terminator [] = None"
| "find_terminator (b # bs) =
     (if take 4 (b # bs) = header_terminator then Some 0 else map_option Suc (find_terminator bs))"

definition parse_status_line :: "string \<Rightarrow> rtsp_error + u16 \<times> string" where
  "parse_status_line line =
     (let parts = splitn 3 CHR '' '' line
      in if length parts < 2 then Inl (InvalidResponse (''malformed status line: '' @ line))
         else if \<not> starts_with ''RTSP/'' (parts ! 0)
         then Inl (InvalidResponse (''not an RTSP response: '' @ parts ! 0))
         else case parse_dec 65536 (parts ! 1) of
                None \<Rightarrow> Inl (InvalidResponse (''invalid status code: '' @ parts ! 1))
              | Some code \<Rightarrow> Inr (of_nat code, if 2 < length parts then parts ! 2 else []))"

definition insert_line :: "headers \<Rightarrow> string \<Rightarrow> headers" where
  "insert_line hs line =
     (case split_once CHR '':'' line of
        Some (k, v) \<Rightarrow> om_insert (trim k) (trim v) hs
      | None \<Rightarrow> hs)"

definition find_header :: "visit_order \<Rightarrow> string \<Rightarrow> headers \<Rightarrow> string option" where
  "find_header visit name hs =
     map_option snd (find (\<lambda>(k, _). eq_ignore_ascii_case k name) (visit hs))"

definition response_parse :: "visit_order \<Rightarrow> u8 list \<Rightarrow> (rtsp_error + rtsp_response) option" where
  "response_parse visit data =
     (case find_terminator data of
        None \<Rightarrow> Some (Inl (InvalidResponse ''missing header terminator''))
      | Some header_end \<Rightarrow>
          let header_str = string_of (take header_end data); body_start = header_end + 4
          in if \<not> utf8_valid header_str then Some (Inl (InvalidResponse ''invalid UTF-8 in headers''))
             else case lines_of header_str of
                    [] \<Rightarrow> Some (Inl (InvalidResponse ''missing status line''))
                  | status_line # lines \<Rightarrow>
                      (case parse_status_line status_line of
                         Inl e \<Rightarrow> Some (Inl e)
                       | Inr (code, status_text) \<Rightarrow>
                           let hs = foldl insert_line [] lines;
                               content_length = (case find_header visit ''Content-Length'' hs of
                                   Some v \<Rightarrow> (case parse_dec (2 ^ 64) v of Some n \<Rightarrow> n | None \<Rightarrow> 0)
                                 | None \<Rightarrow> 0);
                               body_end = (body_start + content_length) mod 2 ^ 64;
                               response = \<lparr>rp_status_code = code, rp_status_text = status_text, rp_headers = hs, rp_body = None\<rparr>
                           in if 0 < content_length \<and> body_end \<le> length data
                              then if body_start \<le> body_end
                                   then Some (Inr (response\<lparr>rp_body := Some (byte_range body_start body_end data)\<rparr>))
                                   else None
                              else if 0 < content_length
                              then Some (Inl (InvalidResponse (''body too short: expected '' @ digits content_length
                                     @ '' bytes, got '' @ digits (length data - body_start))))
                              else Some (Inr response)))"

definition is_success :: "rtsp_response \<Rightarrow> bool" where
  "is_success r \<longleftrightarrow> 200 \<le> rp_status_code r \<and> rp_status_code r < 300"

definition response_header :: "visit_order \<Rightarrow> rtsp_response \<Rightarrow> string \<Rightarrow> string option" where
  "response_header visit r name = find_header visit name (rp_headers r)"

definition response_cseq :: "visit_order \<Rightarrow> rtsp_response \<Rightarrow> u32 option" where
  "response_cseq visit r =
     (case response_header visit r ''CSeq'' of Some v \<Rightarrow> map_option of_nat (parse_dec (2 ^ 32) v) | None \<Rightarrow> None)"

definition response_content_length :: "visit_order \<Rightarrow> rtsp_response \<Rightarrow> nat option" where
  "response_content_length visit r =
     (case response_header visit r ''Content-Length'' of Some v \<Rightarrow> parse_dec (2 ^ 64) v | None \<Rightarrow> None)"

definition body_as_plist :: "(u8 list \<Rightarrow> rtsp_error + 'a) \<Rightarrow> rtsp_response \<Rightarrow> rtsp_error + 'a" where
  "body_as_plist decode r =
     (case rp_body r of None \<Rightarrow> Inl (InvalidResponse ''no body to parse'') | Some b \<Rightarrow> decode b)"

definition ensure_success :: "rtsp_response \<Rightarrow> rtsp_error + unit" where
  "ensure_success r = (if is_success r then Inr () else Inl (UnexpectedStatus (rp_status_code r)))"

end
