(* ===== verification/Rtsp_Properties.thy ===== *)
theory Rtsp_Properties
  imports Rtsp_Messages
begin

text \<open>
  The response parser against the wire format: what a peer writes as status line, header lines and
  body is what the parser returns, and the one input on which it panics.
\<close>

section \<open>The end of the headers\<close>

lemma take4_terminator: "take 4 xs = header_terminator \<Longrightarrow> 4 \<le> length xs"
proof -
  assume "take 4 xs = header_terminator"
  then have "length (take 4 xs) = 4" by (simp add: header_terminator_def)
  then show ?thesis by simp
qed

lemma find_terminator_bound: "find_terminator data = Some e \<Longrightarrow> e + 4 \<le> length data \<and> take 4 (drop e data) = header_terminator"
proof (induction data arbitrary: e)
  case Nil
  then show ?case by simp
next
  case (Cons b data)
  show ?case
  proof (cases "take 4 (b # data) = header_terminator")
    case True
    then have "4 \<le> length (b # data)" by (rule take4_terminator)
    then show ?thesis using True Cons.prems by simp
  next
    case False
    then show ?thesis using Cons by auto
  qed
qed

lemma find_terminator_append: "find_terminator p = Some e \<Longrightarrow> find_terminator (p @ q) = Some e"
proof (induction p arbitrary: e)
  case Nil
  then show ?case by simp
next
  case (Cons b p)
  show ?case
  proof (cases "take 4 (b # p) = header_terminator")
    case True
    then have "4 \<le> length (b # p)" by (rule take4_terminator)
    then have "take 3 (p @ q) = take 3 p" by simp
    then show ?thesis using True Cons.prems by (simp del: take_append)
  next
    case False
    then obtain e' where e': "find_terminator p = Some e'" "e = Suc e'" using Cons.prems by auto
    then have "4 \<le> length p" using find_terminator_bound by fastforce
    then have "take 3 (p @ q) = take 3 p" by simp
    then show ?thesis using False Cons.IH [OF e'(1)] e'(2) by (simp del: take_append)
  qed
qed

lemma find_terminator_skip:
  "13 \<notin> set p \<Longrightarrow> find_terminator (p @ q) = map_option (\<lambda>n. length p + n) (find_terminator q)"
  by (induction p; cases "find_terminator q") (auto simp: header_terminator_def)

definition clean :: "string \<Rightarrow> bool" where
  "clean l \<longleftrightarrow> l \<noteq> [] \<and> CR \<notin> set l \<and> LF \<notin> set l"

fun join_lines :: "string list \<Rightarrow> string" where
  "join_lines [] = []"
| "join_lines [l] = l"
| "join_lines (l # ls) = l @ crlf @ join_lines ls"

lemma bytes_of_append [simp]: "bytes_of (s @ t) = bytes_of s @ bytes_of t"
  by (simp add: bytes_of_def)

lemma bytes_of_crlf [simp]: "bytes_of crlf = [13, 10]"
  by (simp add: bytes_of_def crlf_def CR_def LF_def)

lemma length_bytes_of [simp]: "length (bytes_of s) = length s"
  by (simp add: bytes_of_def)

lemma byte_of_char_inject: "(of_nat (of_char c) :: u8) = of_nat (of_char d) \<longleftrightarrow> c = d"
proof
  assume "(of_nat (of_char c) :: u8) = of_nat (of_char d)"
  then have "char_of (unat (of_nat (of_char c) :: u8)) = char_of (unat (of_nat (of_char d) :: u8))" by simp
  then show "c = d" by (simp add: unat_of_nat)
qed simp

lemma clean_no_cr: "clean l \<Longrightarrow> 13 \<notin> set (bytes_of l)"
proof
  assume l: "clean l" and "13 \<in> set (bytes_of l)"
  then obtain c where c: "c \<in> set l" "(13 :: u8) = of_nat (of_char c)" by (auto simp: bytes_of_def)
  moreover have "(13 :: u8) = of_nat (of_char CR)" by (simp add: CR_def)
  ultimately have "c = CR" by (metis byte_of_char_inject)
  then show False using l c by (simp add: clean_def)
qed

lemma hd_bytes_of_clean: "clean l \<Longrightarrow> \<exists>b bs. bytes_of l = b # bs \<and> b \<noteq> 13"
proof -
  assume l: "clean l"
  then obtain c s where "l = c # s" by (cases l) (auto simp: clean_def)
  then show ?thesis using clean_no_cr [OF l] by (auto simp: bytes_of_def)
qed

lemma join_lines_first: "ls \<noteq> [] \<Longrightarrow> list_all clean ls \<Longrightarrow> \<exists>b bs. bytes_of (join_lines ls) = b # bs \<and> b \<noteq> 13"
proof (cases ls rule: join_lines.cases)
  case (2 l)
  then show "list_all clean ls \<Longrightarrow> ?thesis" using hd_bytes_of_clean by simp
next
  case (3 l m ls')
  then show "list_all clean ls \<Longrightarrow> ?thesis" using hd_bytes_of_clean [of l] by auto
qed simp

lemma find_terminator_lines:
  "ls \<noteq> [] \<Longrightarrow> list_all clean ls \<Longrightarrow>
   find_terminator (bytes_of (join_lines ls) @ header_terminator @ body) = Some (length (join_lines ls))"
proof (induction ls rule: join_lines.induct)
  case 1
  then show ?case by simp
next
  case (2 l)
  then show ?case by (simp add: find_terminator_skip [OF clean_no_cr] header_terminator_def)
next
  case (3 l m ls)
  let ?rest = "bytes_of (join_lines (m # ls)) @ header_terminator @ body"
  obtain b bs where b: "bytes_of (join_lines (m # ls)) = b # bs" "b \<noteq> 13"
    using join_lines_first [of "m # ls"] "3.prems" by auto
  have "find_terminator (13 # 10 # ?rest) = map_option (\<lambda>n. Suc (Suc n)) (find_terminator ?rest)"
    using b by (simp add: header_terminator_def option.map_comp o_def)
  then show ?case
    using 3 by (simp add: find_terminator_skip [OF clean_no_cr] crlf_def [symmetric] option.map_comp o_def)
      (simp add: crlf_def)
qed

lemma lines_of_join: "ls \<noteq> [] \<Longrightarrow> list_all clean ls \<Longrightarrow> lines_of (join_lines ls) = ls"
  by (induction ls rule: join_lines.induct) (simp_all add: lines_of_last lines_of_line clean_def crlf_def)

section \<open>Responses on the wire\<close>

definition response_lines :: "nat \<Rightarrow> string \<Rightarrow> (string \<times> string) list \<Rightarrow> string list" where
  "response_lines code msg hs = (''RTSP/1.0 '' @ digits code @ '' '' @ msg) # map header_line hs"

definition response_wire :: "nat \<Rightarrow> string \<Rightarrow> (string \<times> string) list \<Rightarrow> u8 list \<Rightarrow> u8 list" where
  "response_wire code msg hs body =
     bytes_of (join_lines (response_lines code msg hs)) @ header_terminator @ body"

definition one_line :: "string \<Rightarrow> bool" where
  "one_line s \<longleftrightarrow> ascii s \<and> CR \<notin> set s \<and> LF \<notin> set s"

definition field_ok :: "string \<times> string \<Rightarrow> bool" where
  "field_ok kv \<longleftrightarrow> one_line (fst kv) \<and> one_line (snd kv) \<and> CHR '':'' \<notin> set (fst kv)
     \<and> fst kv \<noteq> [] \<and> graphic (hd (fst kv)) \<and> graphic (last (fst kv))
     \<and> (snd kv = [] \<or> graphic (hd (snd kv)) \<and> graphic (last (snd kv)))"

definition visits :: "visit_order \<Rightarrow> bool" where
  "visits visit \<longleftrightarrow> (\<forall>hs. set (visit hs) = set hs)"

lemma utf8_ascii: "ascii s \<Longrightarrow> utf8_valid s"
  by (induction s) simp_all

lemma ascii_digits: "ascii (digits n)"
  unfolding ascii_def list_all_iff
proof
  fix c assume "c \<in> set (digits n)"
  from digits_chars [OF this] show "in_range 0 127 c" by (auto simp: in_range_def)
qed

lemma digits_notin: "\<not> in_range 48 57 c \<Longrightarrow> c \<notin> set (digits n)"
  using digits_chars by blast

lemma trim_space:
  assumes "v = [] \<or> graphic (hd v) \<and> graphic (last v)"
  shows "trim (CHR '' '' # v) = v"
proof -
  have hd32: "w = [CHR '' '']" if w: "w \<in> set white_space" and "w \<noteq> []" "hd w = CHR '' ''" for w
  proof -
    from w obtain c where c: "c \<in> set white_space_codes" "w = map char_of c" by (auto simp: white_space_def)
    then have "of_char (hd w) = hd c" "c = [32] \<or> hd c \<noteq> 32"
      by (auto simp: white_space_codes_def)
    then show ?thesis using that(3) c(2) by auto
  qed
  have mem: "[CHR '' ''] \<in> set white_space"
  proof -
    have "(of_char CHR '' '' :: nat) = 32" by simp
    then have "map char_of [32 :: nat] = [CHR '' '']" by (metis char_of_char list.simps(8,9))
    moreover have "[32] \<in> set white_space_codes" by (simp add: white_space_codes_def)
    ultimately show ?thesis unfolding white_space_def by (metis image_eqI image_set)
  qed
  have "find (\<lambda>w. w \<noteq> [] \<and> starts_with w (CHR '' '' # v)) white_space = Some [CHR '' '']"
  proof -
    have "find (\<lambda>w. w \<noteq> [] \<and> starts_with w (CHR '' '' # v)) white_space \<noteq> None"
      using mem by (auto simp: find_None_iff)
    then obtain w where w: "find (\<lambda>w. w \<noteq> [] \<and> starts_with w (CHR '' '' # v)) white_space = Some w" by blast
    then have "w \<in> set white_space" "w \<noteq> []" "starts_with w (CHR '' '' # v)"
      by (auto simp: find_Some_iff)
    then show ?thesis using hd32 [of w] starts_with_hd [of w "CHR '' '' # v"] w by simp
  qed
  then have "trim_start (CHR '' '' # v) = trim_start v"
    by (simp add: trim_start_def trim_with.simps [of white_space "CHR '' '' # v"])
  then have "trim (CHR '' '' # v) = trim v" by (simp add: trim_def)
  then show ?thesis using trim_graphic [OF assms] by simp
qed

lemma insert_line_header: "field_ok (k, v) \<Longrightarrow> insert_line hs (header_line (k, v)) = om_insert k v hs"
  using split_once_sep [of "CHR '':''" k "CHR '' '' # v"] trim_graphic [of k] trim_space [of v]
  by (simp add: insert_line_def header_line_def field_ok_def)

lemma clean_header: "field_ok kv \<Longrightarrow> clean (header_line kv)"
  by (auto simp: field_ok_def clean_def header_line_def one_line_def CR_def LF_def)

lemma parse_status_printed:
  assumes "code < 65536"
  shows "parse_status_line (''RTSP/1.0 '' @ digits code @ '' '' @ msg) = Inr (of_nat code, msg)"
proof -
  have "split_once CHR '' '' (''RTSP/1.0'' @ CHR '' '' # digits code @ CHR '' '' # msg) = Some (''RTSP/1.0'', digits code @ CHR '' '' # msg)"
    by (rule split_once_sep) simp
  moreover have "split_once CHR '' '' (digits code @ CHR '' '' # msg) = Some (digits code, msg)"
    by (rule split_once_sep, rule digits_notin) (simp add: in_range_def)
  ultimately show ?thesis
    using assms by (simp add: parse_status_line_def Let_def numeral_3_eq_3 parse_digits)
qed

lemma fold_headers:
  "om_ok m \<Longrightarrow> list_all field_ok hs \<Longrightarrow>
   om_ok (foldl insert_line m (map header_line hs))
   \<and> om_get (foldl insert_line m (map header_line hs)) k = (case map_of (rev hs) k of Some v \<Rightarrow> Some v | None \<Rightarrow> om_get m k)"
proof (induction hs arbitrary: m)
  case Nil
  then show ?case by simp
next
  case (Cons h hs)
  obtain a b where h: "h = (a, b)" by (cases h)
  have "om_ok (om_insert a b m)" using Cons.prems by (simp add: om_insert_ok)
  from Cons.IH [OF this] show ?case
    using Cons.prems by (simp add: h insert_line_header om_get_insert map_add_def split: option.splits)
qed

definition names_distinct :: "(string \<times> string) list \<Rightarrow> bool" where
  "names_distinct hs \<longleftrightarrow> distinct (map (\<lambda>kv. map ascii_lower (fst kv)) hs)"

lemma names_distinct_keys: "names_distinct hs \<Longrightarrow> distinct (map fst hs)"
  unfolding names_distinct_def by (metis (no_types, lifting) distinct_map list.map_comp o_def map_eq_conv)

lemma headers_set:
  assumes "list_all field_ok hs" "names_distinct hs"
  shows "set (foldl insert_line [] (map header_line hs)) = set hs"
proof -
  let ?m = "foldl insert_line [] (map header_line hs)"
  have "distinct (map fst (rev hs))" using names_distinct_keys [OF assms(2)] by (simp add: rev_map [symmetric])
  then have "map_of (rev hs) k = Some v \<longleftrightarrow> (k, v) \<in> set hs" for k v
    by (metis map_of_eq_Some_iff set_rev)
  moreover have "om_ok ?m" "om_get ?m k = map_of (rev hs) k" for k
    using fold_headers [OF om_ok_Nil assms(1)] by (simp_all split: option.splits)
  ultimately have "(k, v) \<in> set ?m \<longleftrightarrow> (k, v) \<in> set hs" for k v
    by (metis om_get_mem)
  then show ?thesis by auto
qed

lemma find_header_named:
  assumes "visits visit" "set m = set hs" "names_distinct hs" "(k, v) \<in> set hs" "eq_ignore_ascii_case k name"
  shows "find_header visit name m = Some v"
proof -
  let ?P = "\<lambda>(k, _). eq_ignore_ascii_case k name"
  have vis: "set (visit m) = set hs" using assms(1,2) by (simp add: visits_def)
  have "find ?P (visit m) \<noteq> None" using vis assms(4,5) by (auto simp: find_None_iff)
  then obtain k' v' where f: "find ?P (visit m) = Some (k', v')" by auto
  then have "(k', v') \<in> set (visit m)" "eq_ignore_ascii_case k' name"
    by (auto simp: find_Some_iff) (metis nth_mem)
  then have "(k', v') \<in> set hs" "map ascii_lower k' = map ascii_lower k"
    using vis assms(5) by (auto simp: eq_ignore_ascii_case_def)
  then have "(k', v') = (k, v)"
    using assms(3,4) unfolding names_distinct_def by (metis (no_types, lifting) distinct_map inj_onD fst_conv)
  then show ?thesis using f by (simp add: find_header_def)
qed

lemma find_header_absent:
  assumes "visits visit" "set m = set hs" "\<And>k v. (k, v) \<in> set hs \<Longrightarrow> \<not> eq_ignore_ascii_case k name"
  shows "find_header visit name m = None"
  using assms by (auto simp: find_header_def find_None_iff visits_def)

text \<open>The body a peer announces: its length under the name \<open>Content-Length\<close>, or no such header.\<close>

definition declares_body :: "(string \<times> string) list \<Rightarrow> u8 list \<Rightarrow> bool" where
  "declares_body hs body \<longleftrightarrow>
     (if body = [] then list_all (\<lambda>kv. \<not> eq_ignore_ascii_case (fst kv) ''Content-Length'') hs
      else list_ex (\<lambda>kv. eq_ignore_ascii_case (fst kv) ''Content-Length'' \<and> snd kv = digits (length body)) hs)"

lemma response_lines_clean:
  assumes "one_line msg" "list_all field_ok hs"
  shows "list_all clean (response_lines code msg hs)" "response_lines code msg hs \<noteq> []"
proof -
  have "\<not> in_range 48 57 CR" "\<not> in_range 48 57 LF" by (simp_all add: in_range_def CR_def LF_def)
  then have "clean (''RTSP/1.0 '' @ digits code @ '' '' @ msg)"
    using assms(1) digits_notin by (auto simp: clean_def one_line_def CR_def LF_def)
  then show "list_all clean (response_lines code msg hs)"
    using assms(2) by (auto simp: response_lines_def list_all_iff clean_header)
qed (simp add: response_lines_def)

lemma ascii_join: "list_all ascii ls \<Longrightarrow> ascii (join_lines ls)"
  by (induction ls rule: join_lines.induct) (simp_all add: crlf_def CR_def LF_def in_range_def)

lemma response_lines_ascii:
  "one_line msg \<Longrightarrow> list_all field_ok hs \<Longrightarrow> list_all ascii (response_lines code msg hs)"
  unfolding response_lines_def
  by (auto simp: list_all_iff ascii_digits header_line_def field_ok_def one_line_def in_range_def)

lemma response_parse_steps:
  assumes "find_terminator data = Some e" "string_of (take e data) = h" "utf8_valid h" "lines_of h = sl # ls"
    and "parse_status_line sl = Inr (code, msg)" "foldl insert_line [] ls = m"
    and "(case find_header visit ''Content-Length'' m of Some v \<Rightarrow> (case parse_dec (2 ^ 64) v of Some n \<Rightarrow> n | None \<Rightarrow> 0) | None \<Rightarrow> 0) = n"
    and "e + 4 + n < 2 ^ 64" "e + 4 + n \<le> length data"
  shows "response_parse visit data = Some (Inr \<lparr>rp_status_code = code, rp_status_text = msg, rp_headers = m,
      rp_body = (if n = 0 then None else Some (byte_range (e + 4) (e + 4 + n) data))\<rparr>)"
proof -
  have "(e + 4 + n) mod 2 ^ 64 = e + 4 + n" using assms(8) by (rule mod_less)
  then show ?thesis
    unfolding response_parse_def assms(1-4) option.case list.case Let_def assms(5,6,7) sum.case prod.case
    using assms(9) by (simp add: assms(3))
qed

lemma response_parse_panic:
  assumes "find_terminator data = Some e" "string_of (take e data) = h" "utf8_valid h" "lines_of h = sl # ls"
    and "parse_status_line sl = Inr (code, msg)" "foldl insert_line [] ls = m"
    and "find_header visit ''Content-Length'' m = Some v" "parse_dec (2 ^ 64) v = Some n"
    and "(e + 4 + n) mod 2 ^ 64 = k" "k \<le> length data" "k < e + 4" "0 < n"
  shows "response_parse visit data = None"
proof -
  have "(case find_header visit ''Content-Length'' m of Some v \<Rightarrow> (case parse_dec (2 ^ 64) v of Some n \<Rightarrow> n | None \<Rightarrow> 0) | None \<Rightarrow> 0) = n"
    unfolding assms(7) option.case assms(8) by simp
  then show ?thesis
    unfolding response_parse_def assms(1-4) option.case list.case Let_def assms(5,6) sum.case prod.case
    using assms(9-12) by (simp add: assms(3))
qed

lemma response_parse_wire:
  assumes "visits visit" "code < 65536" "one_line msg" "list_all field_ok hs" "names_distinct hs"
    and "declares_body hs body" "length (response_wire code msg hs body) < 2 ^ 64"
  defines "m \<equiv> foldl insert_line [] (map header_line hs)"
  shows "response_parse visit (response_wire code msg hs body @ extra) = Some (Inr
     \<lparr>rp_status_code = of_nat code, rp_status_text = msg, rp_headers = m,
      rp_body = (if body = [] then None else Some body)\<rparr>)"
proof -
  let ?ls = "response_lines code msg hs" and ?data = "response_wire code msg hs body @ extra"
  let ?e = "length (join_lines ?ls)"
  have data: "?data = bytes_of (join_lines ?ls) @ header_terminator @ (body @ extra)"
    by (simp add: response_wire_def)
  have clean: "list_all clean ?ls" "?ls \<noteq> []" using response_lines_clean [OF assms(3,4)] by simp_all
  have found: "find_terminator ?data = Some ?e"
    unfolding data by (rule find_terminator_lines [OF clean(2,1)])
  have header: "string_of (take ?e ?data) = join_lines ?ls" unfolding data by simp
  have utf8: "utf8_valid (join_lines ?ls)"
    by (rule utf8_ascii, rule ascii_join, rule response_lines_ascii [OF assms(3,4)])
  have lines: "lines_of (join_lines ?ls) = ?ls" by (rule lines_of_join [OF clean(2,1)])
  have set: "set m = set hs" unfolding m_def by (rule headers_set [OF assms(4,5)])
  have body: "byte_range (?e + 4) (?e + 4 + length body) ?data = body"
    unfolding data by (simp add: byte_range_def header_terminator_def)
  have size: "?e + 4 + length body < 2 ^ 64" "?e + 4 + length body \<le> length ?data"
    using assms(7) by (simp_all add: response_wire_def header_terminator_def)
  have declared: "(case find_header visit ''Content-Length'' m of Some v \<Rightarrow> (case parse_dec (2 ^ 64) v of Some n \<Rightarrow> n | None \<Rightarrow> 0) | None \<Rightarrow> 0) = length body"
  proof (cases "body = []")
    case True
    then have "find_header visit ''Content-Length'' m = None"
      using assms(6) by (intro find_header_absent [OF assms(1) set]) (auto simp: declares_body_def list_all_iff)
    then show ?thesis using True by simp
  next
    case False
    then obtain k where "(k, digits (length body)) \<in> set hs" "eq_ignore_ascii_case k ''Content-Length''"
      using assms(6) by (auto simp: declares_body_def list_ex_iff)
    from find_header_named [OF assms(1) set assms(5) this]
    show ?thesis using size(1) by (simp add: parse_digits)
  qed
  have "lines_of (join_lines ?ls) = (''RTSP/1.0 '' @ digits code @ '' '' @ msg) # map header_line hs"
    unfolding lines by (simp add: response_lines_def)
  from response_parse_steps [OF found header utf8 this parse_status_printed [OF assms(2)] m_def [THEN meta_eq_to_obj_eq, symmetric] declared size]
  show ?thesis unfolding body by simp
qed

text \<open>
  C28: what a peer writes is what the parser returns: for every status code, every status text and
  every list of header fields of plain text with names that differ ignoring case, the response is
  parsed with that code, text and body, and every field is found under its name in any case,
  whatever order the header map is visited in and whatever follows the body.
\<close>

theorem response_roundtrip:
  assumes "visits visit" "code < 65536" "one_line msg" "list_all field_ok hs" "names_distinct hs"
    and "declares_body hs body" "length (response_wire code msg hs body) < 2 ^ 64"
  shows "\<exists>r. response_parse visit (response_wire code msg hs body @ extra) = Some (Inr r)
    \<and> rp_status_code r = of_nat code \<and> rp_status_text r = msg
    \<and> rp_body r = (if body = [] then None else Some body)
    \<and> (\<forall>k v name. (k, v) \<in> set hs \<and> eq_ignore_ascii_case k name \<longrightarrow> response_header visit r name = Some v)"
proof -
  let ?m = "foldl insert_line [] (map header_line hs)"
  have "find_header visit name ?m = Some v" if "(k, v) \<in> set hs" "eq_ignore_ascii_case k name" for k v name
    by (rule find_header_named [OF assms(1) headers_set [OF assms(4,5)] assms(5) that])
  then show ?thesis
    using response_parse_wire [OF assms] by (auto simp: response_header_def)
qed

definition demo_headers :: "(string \<times> string) list" where
  "demo_headers = [(''CSeq'', ''7''), (''Content-Length'', ''3'')]"

lemma demo_headers_ok:
  "visits (\<lambda>hs. hs)" "one_line ''OK''" "list_all field_ok demo_headers" "names_distinct demo_headers"
  "declares_body demo_headers [1, 2, 3]"
proof -
  have "digits (Suc (Suc (Suc 0))) = ''3''" by code_simp
  then show "declares_body demo_headers [1, 2, 3]"
    by (simp add: declares_body_def demo_headers_def eq_ignore_ascii_case_def)
  show "names_distinct demo_headers"
    by (simp add: names_distinct_def demo_headers_def ascii_lower_def in_range_def)
qed (simp_all add: visits_def one_line_def field_ok_def demo_headers_def in_range_def CR_def LF_def)

theorem response_roundtrip_witness:
  "\<exists>r. response_parse (\<lambda>hs. hs) (response_wire 200 ''OK'' demo_headers [1, 2, 3] @ [9]) = Some (Inr r)
    \<and> rp_status_code r = 200 \<and> rp_body r = Some [1, 2, 3] \<and> response_header (\<lambda>hs. hs) r ''CSeq'' = Some ''7''"
proof -
  have "digits 200 = ''200''" by code_simp
  then have "length (response_wire 200 ''OK'' demo_headers [1, 2, 3]) < 2 ^ 64"
    by (simp add: response_wire_def response_lines_def demo_headers_def header_line_def header_terminator_def crlf_def)
  moreover have "(''CSeq'', ''7'') \<in> set demo_headers" "eq_ignore_ascii_case ''CSeq'' ''CSeq''"
    by (simp_all add: demo_headers_def eq_ignore_ascii_case_def)
  ultimately show ?thesis
    using response_roundtrip [OF demo_headers_ok(1) _ demo_headers_ok(2-5), of 200 "[9]"] by auto
qed

lemma wrap_end: "(e :: nat) \<le> 100 \<Longrightarrow> (e + 4 + 18446744073709551615) mod 2 ^ 64 = e + 3"
proof -
  assume e: "e \<le> 100"
  have "(e + 4 + 18446744073709551615) mod 2 ^ 64 = (e + 3 + 18446744073709551616) mod 18446744073709551616" by simp
  also have "\<dots> = (e + 3) mod 18446744073709551616" by (rule mod_add_self2)
  also have "\<dots> = e + 3" using e by (intro mod_less) linarith
  finally show ?thesis .
qed

lemma content_length_wraps:
  assumes "visits visit" "18446744073709551615 = n"
  shows "response_parse visit (response_wire 200 ''OK'' [(''Content-Length'', digits n)] []) = None"
proof -
  let ?hs = "[(''Content-Length'', digits n)]"
  let ?ls = "response_lines 200 ''OK'' ?hs" and ?data = "response_wire 200 ''OK'' ?hs []"
  let ?e = "length (join_lines ?ls)"
  have msg: "one_line ''OK''" by (simp add: one_line_def in_range_def CR_def LF_def)
  have "one_line (digits n)"
    unfolding one_line_def using ascii_digits digits_notin by (simp add: in_range_def CR_def LF_def)
  moreover have "graphic (hd (digits n))" "graphic (last (digits n))"
    using digits_chars [of "hd (digits n)" n] digits_chars [of "last (digits n)" n] by (auto simp: in_range_def)
  ultimately have ok: "list_all field_ok ?hs"
    by (simp add: field_ok_def one_line_def in_range_def CR_def LF_def)
  have names: "names_distinct ?hs" by (simp add: names_distinct_def)
  have data: "?data = bytes_of (join_lines ?ls) @ header_terminator @ []" by (simp add: response_wire_def)
  have clean: "list_all clean ?ls" "?ls \<noteq> []" using response_lines_clean [OF msg ok] by simp_all
  have found: "find_terminator ?data = Some ?e" unfolding data by (rule find_terminator_lines [OF clean(2,1)])
  have header: "string_of (take ?e ?data) = join_lines ?ls" unfolding data by simp
  have utf8: "utf8_valid (join_lines ?ls)"
    by (rule utf8_ascii, rule ascii_join, rule response_lines_ascii [OF msg ok])
  have lines: "lines_of (join_lines ?ls) = (''RTSP/1.0 '' @ digits 200 @ '' '' @ ''OK'') # map header_line ?hs"
    unfolding lines_of_join [OF clean(2,1)] by (simp add: response_lines_def)
  have length_field: "find_header visit ''Content-Length'' (foldl insert_line [] (map header_line ?hs)) = Some (digits n)"
    by (rule find_header_named [OF assms(1) headers_set [OF ok names] names, of "''Content-Length''"])
      (simp_all add: eq_ignore_ascii_case_def)
  have parsed: "parse_dec (2 ^ 64) (digits n) = Some n" using assms(2) by (intro parse_digits) simp
  have wraps: "(?e + 4 + n) mod 2 ^ 64 = ?e + 3"
  proof -
    have "length (digits n) \<le> 20" using length_digits [of n 19] assms(2) by simp
    moreover have "length (digits 200) \<le> 3" using length_digits [of 200 2] by simp
    ultimately have "?e \<le> 100" by (simp add: response_lines_def header_line_def crlf_def)
    then show ?thesis unfolding assms(2) [symmetric] by (rule wrap_end)
  qed
  have inside: "?e + 3 \<le> length ?data" unfolding data by (simp add: header_terminator_def)
  show ?thesis
    by (rule response_parse_panic [OF found header utf8 lines parse_status_printed refl length_field parsed wraps inside])
      (use assms(2) in simp_all)
qed

text \<open>
  A response whose header announces the largest length a machine word holds makes the parser
  panic: the end of the body wraps around to a position before its start.
\<close>

theorem content_length_panics:
  "visits visit \<Longrightarrow>
   response_parse visit (response_wire 200 ''OK'' [(''Content-Length'', digits 18446744073709551615)] []) = None"
  by (rule content_length_wraps [OF _ refl])

theorem content_length_panics_witness:
  "response_parse (\<lambda>hs. hs) (response_wire 200 ''OK'' [(''Content-Length'', digits 18446744073709551615)] []) = None"
  by (rule content_length_panics) (simp add: visits_def)

end
