(* ===== verification/Rtsp_Connection.thy ===== *)
theory Rtsp_Connection
  imports Rtsp_Properties Crypto_Properties
begin

text \<open>
  The RTSP connection (\<open>crates/airplay-rtsp/src/connection.rs\<close>): sequence numbers, session headers,
  the request on the wire, plain or sealed in frames, and the two read loops. The bytes a peer
  has sent are a list; an exact read that wants more bytes than there are ends in the error \<open>short\<close>,
  the closed connection or the expired timeout. The line reader makes no progress on a closed
  connection and ends in the timeout either way. \<open>None\<close> is a panic of the parser.
\<close>

section \<open>State\<close>

record rtsp_connection =
  rc_connected :: bool
  rc_cseq :: u32
  rc_cipher :: "control_cipher option"
  rc_session_headers :: headers

definition connection_new :: rtsp_connection where
  "connection_new = \<lparr>rc_connected = False, rc_cseq = 0, rc_cipher = None, rc_session_headers = []\<rparr>"

definition connection_connect :: "rtsp_connection \<Rightarrow> bool \<Rightarrow> rtsp_connection \<times> ('io air_error + unit)" where
  "connection_connect c accepted =
     (if accepted then (c\<lparr>rc_connected := True\<rparr>, Inr ()) else (c, Inl (Err_Rtsp ConnectionRefused)))"

definition connection_set_cipher :: "rtsp_connection \<Rightarrow> control_cipher \<Rightarrow> rtsp_connection" where
  "connection_set_cipher c cipher = c\<lparr>rc_cipher := Some cipher\<rparr>"

definition connection_clear_cipher :: "rtsp_connection \<Rightarrow> rtsp_connection" where
  "connection_clear_cipher c = c\<lparr>rc_cipher := None\<rparr>"

definition add_session_header :: "rtsp_connection \<Rightarrow> string \<Rightarrow> string \<Rightarrow> rtsp_connection" where
  "add_session_header c k v = c\<lparr>rc_session_headers := om_insert k v (rc_session_headers c)\<rparr>"

definition clear_session_headers :: "rtsp_connection \<Rightarrow> rtsp_connection" where
  "clear_session_headers c = c\<lparr>rc_session_headers := []\<rparr>"

definition connection_close :: "rtsp_connection \<Rightarrow> rtsp_connection" where
  "connection_close c = c\<lparr>rc_connected := False\<rparr>"

section \<open>Reading\<close>

text \<open>The first line that announces a readable length. The source decodes the headers lossily,
  which only replaces malformed bytes; neither the name nor a number contains any.\<close>

fun scan_content_length :: "string list \<Rightarrow> nat" where
  "scan_content_length [] = 0"
| "scan_content_length (line # lines) =
     (case split_once CHR '':'' line of
        None \<Rightarrow> scan_content_length lines
      | Some (k, v) \<Rightarrow>
          if eq_ignore_ascii_case (trim k) ''Content-Length''
          then (case parse_dec (2 ^ 64) (trim v) of Some n \<Rightarrow> n | None \<Rightarrow> scan_content_length lines)
          else scan_content_length lines)"

text \<open>\<open>read_line\<close> takes the bytes up to and including the next newline, or all that are left, and
  rejects a line that is no UTF-8 with the error \<open>bad\<close>.\<close>

function read_headers :: "'io \<Rightarrow> u8 list \<Rightarrow> u8 list \<Rightarrow> 'io air_error + u8 list \<times> u8 list" where
  "read_headers bad acc stream =
     (if stream = [] then Inl Err_Timeout
      else let line = takeWhile (\<lambda>b. b \<noteq> 10) stream @ take 1 (dropWhile (\<lambda>b. b \<noteq> 10) stream);
               rest = drop (length line) stream
           in if \<not> utf8_valid (string_of line) then Inl (Err_Connection bad)
              else if line = [13, 10] then Inr (acc @ line, rest)
              else read_headers bad (acc @ line) rest)"
  by pat_completeness auto
termination
proof (relation "measure (\<lambda>(bad, acc, stream). length stream)", simp)
  fix bad :: 'io and acc stream line rest :: "u8 list"
  assume "stream \<noteq> []" "line = takeWhile (\<lambda>b. b \<noteq> 10) stream @ take 1 (dropWhile (\<lambda>b. b \<noteq> 10) stream)"
    and rest: "rest = drop (length line) stream"
  then have "line \<noteq> []" by (cases stream) auto
  then show "((bad, acc @ line, rest), bad, acc, stream) \<in> measure (\<lambda>(bad, acc, stream). length stream)"
    using rest \<open>stream \<noteq> []\<close> by simp
qed

declare read_headers.simps [simp del]

text \<open>The read of sealed blocks ends once the buffer holds the announced response.\<close>

definition response_complete :: "u8 list \<Rightarrow> nat option" where
  "response_complete buffer =
     (case find_terminator buffer of
        None \<Rightarrow> None
      | Some header_end \<Rightarrow>
          let content_length = scan_content_length (lines_of (string_of (take header_end buffer)));
              total_len = (header_end + 4 + content_length) mod 2 ^ 64
          in if total_len \<le> length buffer then Some total_len else None)"

function read_encrypted ::
    "open_fun \<Rightarrow> 'io air_error \<Rightarrow> control_cipher \<Rightarrow> u8 list \<Rightarrow> u8 list
     \<Rightarrow> control_cipher \<times> u8 list \<times> ('io air_error + u8 list)" where
  "read_encrypted unseal short c buffer stream =
     (if length stream < 2 then (c, [], Inl short)
      else let block_len = from_le (take 2 stream) :: u16;
               rest = drop 2 stream; size = unat block_len + 16
           in if length rest < size then (c, [], Inl short)
              else case decrypt_block unseal c (take size rest) block_len of
                     (c1, Inl e) \<Rightarrow> (c1, drop size rest, Inl (Err_Crypto e))
                   | (c1, Inr plain_block) \<Rightarrow>
                       (case response_complete (buffer @ plain_block) of
                          Some total_len \<Rightarrow> (c1, drop size rest, Inr (take total_len (buffer @ plain_block)))
                        | None \<Rightarrow> read_encrypted unseal short c1 (buffer @ plain_block) (drop size rest)))"
  by pat_completeness auto
termination
  by (relation "measure (\<lambda>(unseal, short, c, buffer, stream). length stream)") auto

declare read_encrypted.simps [simp del]

text \<open>What the buffered reader has taken from the stream beyond the response is dropped with it.\<close>

definition read_plaintext :: "'io \<Rightarrow> 'io air_error \<Rightarrow> u8 list \<Rightarrow> 'io air_error + u8 list" where
  "read_plaintext bad short stream =
     (case read_headers bad [] stream of
        Inl e \<Rightarrow> Inl e
      | Inr (head, rest) \<Rightarrow>
          let content_length = scan_content_length (lines_of (string_of head))
          in if content_length \<le> length rest then Inr (head @ take content_length rest) else Inl short)"

section \<open>Sending\<close>

definition next_cseq :: "rtsp_connection \<Rightarrow> rtsp_connection \<times> u32" where
  "next_cseq c = (c\<lparr>rc_cseq := rc_cseq c + 1\<rparr>, rc_cseq c + 1)"

definition with_session_headers :: "headers \<Rightarrow> rtsp_request \<Rightarrow> rtsp_request" where
  "with_session_headers hs r = foldl (\<lambda>r kv. with_header (fst kv) (snd kv) r) r hs"

text \<open>One call of \<open>send\<close>: the connection, what is written, what is left of the peer's bytes and the
  result. \<open>written\<close> is the outcome of \<open>write_all\<close> and \<open>flush\<close>.\<close>

definition wire_request ::
    "seal_fun \<Rightarrow> rtsp_connection \<Rightarrow> u8 list \<Rightarrow> rtsp_connection \<times> (crypto_error + u8 list)" where
  "wire_request seal c data =
     (case rc_cipher c of
        None \<Rightarrow> (c, Inr data)
      | Some cipher \<Rightarrow>
          (case control_encrypt seal cipher data of (cipher1, r) \<Rightarrow> (c\<lparr>rc_cipher := Some cipher1\<rparr>, r)))"

definition read_response ::
    "open_fun \<Rightarrow> 'io \<Rightarrow> 'io air_error \<Rightarrow> rtsp_connection \<Rightarrow> u8 list
     \<Rightarrow> rtsp_connection \<times> u8 list \<times> ('io air_error + u8 list)" where
  "read_response unseal bad short c stream =
     (case rc_cipher c of
        None \<Rightarrow> (c, [], read_plaintext bad short stream)
      | Some cipher \<Rightarrow>
          (case read_encrypted unseal short cipher [] stream of
             (cipher1, rest, r) \<Rightarrow> (c\<lparr>rc_cipher := Some cipher1\<rparr>, rest, r)))"

definition connection_send ::
    "visit_order \<Rightarrow> seal_fun \<Rightarrow> open_fun \<Rightarrow> 'io \<Rightarrow> 'io air_error \<Rightarrow> rtsp_connection \<Rightarrow> rtsp_request \<Rightarrow> 'io + unit \<Rightarrow> u8 list
     \<Rightarrow> (rtsp_connection \<times> u8 list \<times> u8 list \<times> ('io air_error + rtsp_response)) option" where
  "connection_send visit seal unseal bad short c request written stream =
     (if \<not> rc_connected c then Some (c, [], stream, Inl (Err_Rtsp ConnectionRefused))
      else let (c1, cseq) = next_cseq c;
               data = request_serialize (with_session_headers (rc_session_headers c) request) cseq
           in case wire_request seal c1 data of
                (c2, Inl e) \<Rightarrow> Some (c2, [], stream, Inl (Err_Crypto e))
              | (c2, Inr wire) \<Rightarrow>
                  (case written of
                     Inl e \<Rightarrow> Some (c2, [], stream, Inl (Err_Connection e))
                   | Inr _ \<Rightarrow>
                       (case read_response unseal bad short c2 stream of
                          (c3, rest, Inl e) \<Rightarrow> Some (c3, wire, rest, Inl e)
                        | (c3, rest, Inr response_data) \<Rightarrow>
                            map_option (\<lambda>r. (c3, wire, rest, case r of Inl e \<Rightarrow> Inl (Err_Rtsp e) | Inr p \<Rightarrow> Inr p))
                              (response_parse visit response_data))))"

section \<open>A sealed response is read exactly\<close>

lemma complete_prefix:
  assumes "response_complete (p @ q) = Some (length (p @ q))" "q \<noteq> []"
  shows "response_complete p = None"
proof (cases "find_terminator p")
  case None
  then show ?thesis by (simp add: response_complete_def)
next
  case (Some e)
  then have "find_terminator (p @ q) = Some e" "take e (p @ q) = take e p"
    using find_terminator_append [OF Some] find_terminator_bound [OF Some] by simp_all
  then have "(e + 4 + scan_content_length (lines_of (string_of (take e p)))) mod 2 ^ 64 = length (p @ q)"
    using assms(1) by (simp add: response_complete_def Let_def del: take_append split: if_splits)
  then show ?thesis using Some assms(2) by (simp add: response_complete_def Let_def)
qed

lemma read_one_block:
  assumes ok: "aead_ok seal unseal" "seals_blocks seal" and len: "length block \<le> MAX_BLOCK"
    and key: "cc_read_key c = key"
  defines "c1 \<equiv> c\<lparr>cc_decrypt_counter := cc_decrypt_counter c + 1\<rparr>"
  shows "read_encrypted unseal short c buffer (frame_block seal key (cc_decrypt_counter c) block @ rest) =
     (case response_complete (buffer @ block) of
        Some total_len \<Rightarrow> (c1, rest, Inr (take total_len (buffer @ block)))
      | None \<Rightarrow> read_encrypted unseal short c1 (buffer @ block) rest)"
proof -
  let ?aad = "u16_le (of_nat (length block))"
  obtain ct where ct: "seal key (build_nonce_from_counter (cc_decrypt_counter c)) ?aad block = Inr ct"
    using seals_block [OF ok(2) len] by blast
  with ok(1) have opened: "length ct = length block + 16"
      "unseal key (build_nonce_from_counter (cc_decrypt_counter c)) ?aad ct = Some block"
    by (auto simp: aead_ok_def)
  have n: "unat (of_nat (length block) :: u16) = length block"
    using len length_take_block(2) by (intro unat_of_nat_u16) simp
  have frame: "frame_block seal key (cc_decrypt_counter c) block @ rest = ?aad @ ct @ rest"
    using ct by (simp add: frame_block_def Let_def)
  have prefix: "from_le (take 2 (?aad @ ct @ rest)) = (of_nat (length block) :: u16)"
    "drop 2 (?aad @ ct @ rest) = ct @ rest" by simp_all
  show ?thesis
    unfolding frame read_encrypted.simps [of unseal short c buffer "?aad @ ct @ rest"] prefix Let_def n
    using opened n key by (simp add: decrypt_block_def Let_def c1_def split: option.split)
qed

lemma read_frames:
  assumes ok: "aead_ok seal unseal" "seals_blocks seal"
  shows "blocks \<noteq> [] \<Longrightarrow> (\<forall>b \<in> set blocks. length b \<le> MAX_BLOCK \<and> b \<noteq> []) \<Longrightarrow> cc_read_key c = key \<Longrightarrow>
   response_complete (buffer @ concat blocks) = Some (length (buffer @ concat blocks)) \<Longrightarrow>
   read_encrypted unseal short c buffer (frames seal key (cc_decrypt_counter c) blocks @ rest) =
     (c\<lparr>cc_decrypt_counter := cc_decrypt_counter c + of_nat (length blocks)\<rparr>, rest, Inr (buffer @ concat blocks))"
proof (induction blocks arbitrary: c buffer)
  case Nil
  then show ?case by simp
next
  case (Cons b blocks)
  let ?c1 = "c\<lparr>cc_decrypt_counter := cc_decrypt_counter c + 1\<rparr>"
  have step: "read_encrypted unseal short c buffer (frames seal key (cc_decrypt_counter c) (b # blocks) @ rest) =
     (case response_complete (buffer @ b) of
        Some total_len \<Rightarrow> (?c1, frames seal key (cc_decrypt_counter c + 1) blocks @ rest, Inr (take total_len (buffer @ b)))
      | None \<Rightarrow> read_encrypted unseal short ?c1 (buffer @ b) (frames seal key (cc_decrypt_counter c + 1) blocks @ rest))"
    using read_one_block [OF ok, of b c key short buffer] Cons.prems(2,3) by simp
  show ?case
  proof (cases "blocks = []")
    case True
    then show ?thesis using step Cons.prems(4) by simp
  next
    case False
    then have "concat blocks \<noteq> []" using Cons.prems(2) by (cases blocks) auto
    then have "response_complete (buffer @ b) = None"
      using complete_prefix [of "buffer @ b" "concat blocks"] Cons.prems(4) by simp
    moreover have "read_encrypted unseal short ?c1 (buffer @ b) (frames seal key (cc_decrypt_counter ?c1) blocks @ rest)
        = (?c1\<lparr>cc_decrypt_counter := cc_decrypt_counter ?c1 + of_nat (length blocks)\<rparr>, rest, Inr ((buffer @ b) @ concat blocks))"
      using False Cons.prems by (intro Cons.IH) simp_all
    ultimately show ?thesis using step by (simp add: add.assoc)
  qed
qed

lemma scan_header:
  assumes "field_ok (k, v)"
  shows "scan_content_length (header_line (k, v) # ls) =
     (if eq_ignore_ascii_case k ''Content-Length''
      then (case parse_dec (2 ^ 64) v of Some n \<Rightarrow> n | None \<Rightarrow> scan_content_length ls)
      else scan_content_length ls)"
  using assms split_once_sep [of "CHR '':''" k "CHR '' '' # v"] trim_graphic [of k] trim_space [of v]
  by (simp add: header_line_def field_ok_def)

lemma scan_declared:
  assumes "n < 2 ^ 64"
  shows "list_all field_ok hs \<Longrightarrow>
   list_all (\<lambda>kv. eq_ignore_ascii_case (fst kv) ''Content-Length'' \<longrightarrow> snd kv = digits n) hs \<Longrightarrow>
   scan_content_length (map header_line hs) =
     (if list_ex (\<lambda>kv. eq_ignore_ascii_case (fst kv) ''Content-Length'') hs then n else 0)"
proof (induction hs)
  case Nil
  then show ?case by simp
next
  case (Cons h hs)
  obtain k v where h: "h = (k, v)" by (cases h)
  show ?case
  proof (cases "eq_ignore_ascii_case k ''Content-Length''")
    case True
    then have "parse_dec (2 ^ 64) v = Some n" using Cons.prems(2) parse_digits [OF assms] by (simp add: h)
    then show ?thesis using Cons.prems(1) True by (simp add: h scan_header del: scan_content_length.simps)
  next
    case False
    then show ?thesis using Cons by (simp add: h scan_header del: scan_content_length.simps)
  qed
qed

lemma declared_length:
  assumes "list_all field_ok hs" "names_distinct hs" "declares_body hs body" "length body < 2 ^ 64"
  shows "scan_content_length (map header_line hs) = length body"
proof (cases "body = []")
  case True
  then show ?thesis
    using scan_declared [of 0 hs] assms(1,3) by (auto simp: declares_body_def list_all_iff list_ex_iff)
next
  case False
  then obtain k where k: "(k, digits (length body)) \<in> set hs" "eq_ignore_ascii_case k ''Content-Length''"
    using assms(3) by (auto simp: declares_body_def list_ex_iff)
  have "snd kv = digits (length body)" if "kv \<in> set hs" "eq_ignore_ascii_case (fst kv) ''Content-Length''" for kv
  proof -
    have "map ascii_lower (fst kv) = map ascii_lower k" using that(2) k(2) by (simp add: eq_ignore_ascii_case_def)
    then have "kv = (k, digits (length body))"
      using assms(2) that(1) k(1) unfolding names_distinct_def
      by (metis (no_types, lifting) distinct_map inj_onD fst_conv)
    then show ?thesis by simp
  qed
  then have "list_all (\<lambda>kv. eq_ignore_ascii_case (fst kv) ''Content-Length'' \<longrightarrow> snd kv = digits (length body)) hs"
    by (simp add: list_all_iff)
  moreover have "list_ex (\<lambda>kv. eq_ignore_ascii_case (fst kv) ''Content-Length'') hs"
    unfolding list_ex_iff using k by (intro bexI [of _ "(k, digits (length body))"]) simp_all
  ultimately show ?thesis using scan_declared [OF assms(4,1)] by simp
qed

lemma wire_complete:
  assumes "one_line msg" "CHR '':'' \<notin> set msg" "list_all field_ok hs" "names_distinct hs" "declares_body hs body"
    and "length (response_wire code msg hs body) < 2 ^ 64"
  shows "response_complete (response_wire code msg hs body) = Some (length (response_wire code msg hs body))"
proof -
  let ?ls = "response_lines code msg hs" and ?data = "response_wire code msg hs body"
  let ?e = "length (join_lines ?ls)"
  have clean: "list_all clean ?ls" "?ls \<noteq> []" using response_lines_clean [OF assms(1,3)] by simp_all
  have found: "find_terminator ?data = Some ?e"
    unfolding response_wire_def by (rule find_terminator_lines [OF clean(2,1)])
  have header: "string_of (take ?e ?data) = join_lines ?ls" by (simp add: response_wire_def)
  have size: "?e + 4 + length body = length ?data" by (simp add: response_wire_def header_terminator_def)
  have "CHR '':'' \<notin> set (''RTSP/1.0 '' @ digits code @ '' '' @ msg)"
    using assms(2) digits_notin [of "CHR '':''" code] by (simp add: in_range_def)
  from split_once_none [OF this] have "scan_content_length ?ls = length body"
    using declared_length [OF assms(3-5)] size assms(6) by (simp add: response_lines_def)
  moreover have "(?e + 4 + length body) mod 2 ^ 64 = length ?data"
    unfolding size using assms(6) by (rule mod_less)
  ultimately show ?thesis
    unfolding response_complete_def found option.case header lines_of_join [OF clean(2,1)] Let_def by simp
qed

lemma chunks_read:
  "\<forall>b \<in> set (chunks MAX_BLOCK m). length b \<le> MAX_BLOCK \<and> b \<noteq> []" "concat (chunks MAX_BLOCK m) = m"
  by (auto simp: concat_chunks MAX_BLOCK_def dest: chunks_length)

lemma request_nonempty: "request_serialize r cseq \<noteq> []"
  by (simp add: request_serialize_def bytes_of_def)

text \<open>One round over a sealed connection: what \<open>send\<close> writes and returns.\<close>

lemma send_sealed:
  fixes request :: rtsp_request and c :: rtsp_connection
  assumes ok: "aead_ok seal unseal" "seals_blocks seal" and "rc_connected c" "rc_cipher c = Some k"
    and step: "in_step k d" "in_step d k"
    and complete: "response_complete m = Some (length m)" and "m \<noteq> []"
  defines "q \<equiv> request_serialize (with_session_headers (rc_session_headers c) request) (rc_cseq c + 1)"
  shows "\<exists>k' d1 d2 wire reply. control_decrypt unseal d wire = (d1, Inr q)
     \<and> control_encrypt seal d1 m = (d2, Inr reply)
     \<and> connection_send visit seal unseal bad short c request (Inr ()) (reply @ extra) =
         map_option (\<lambda>r. (c\<lparr>rc_cseq := rc_cseq c + 1, rc_cipher := Some k'\<rparr>, wire, extra,
             case r of Inl e \<Rightarrow> Inl (Err_Rtsp e) | Inr p \<Rightarrow> Inr p)) (response_parse visit m)
     \<and> in_step k' d2 \<and> in_step d2 k'"
proof -
  let ?sent = "chunks MAX_BLOCK q" and ?got = "chunks MAX_BLOCK m"
  define k1 where "k1 = k\<lparr>cc_encrypt_counter := cc_encrypt_counter k + of_nat (length ?sent)\<rparr>"
  define d1 where "d1 = d\<lparr>cc_decrypt_counter := cc_decrypt_counter d + of_nat (length ?sent)\<rparr>"
  define d2 where "d2 = d1\<lparr>cc_encrypt_counter := cc_encrypt_counter d1 + of_nat (length ?got)\<rparr>"
  define k' where "k' = k1\<lparr>cc_decrypt_counter := cc_decrypt_counter k1 + of_nat (length ?got)\<rparr>"
  define wire where "wire = frames seal (cc_write_key k) (cc_encrypt_counter k) ?sent"
  define reply where "reply = frames seal (cc_write_key d1) (cc_encrypt_counter d1) ?got"
  have q: "q \<noteq> []" unfolding q_def by (rule request_nonempty)
  have "control_encrypt seal k q = (k1, Inr wire)"
    unfolding k1_def wire_def by (rule control_encrypt_frames [OF ok(2) q])
  moreover have heard: "control_decrypt unseal d wire = (d1, Inr q)"
    using control_decrypt_frames [OF ok q, of d] step(1) by (simp add: wire_def d1_def in_step_def)
  moreover have reply: "control_encrypt seal d1 m = (d2, Inr reply)"
    unfolding d2_def reply_def by (rule control_encrypt_frames [OF ok(2) \<open>m \<noteq> []\<close>])
  moreover have "read_encrypted unseal short k1 [] (reply @ extra) = (k', extra, Inr m)"
  proof -
    have "?got \<noteq> []" using \<open>m \<noteq> []\<close> by (simp add: chunks_eq_Nil MAX_BLOCK_def)
    moreover have "cc_read_key k1 = cc_write_key d1" "cc_decrypt_counter k1 = cc_encrypt_counter d1"
      using step(2) by (simp_all add: k1_def d1_def in_step_def)
    ultimately show ?thesis
      using read_frames [OF ok _ chunks_read(1), of m k1 "cc_write_key d1" "[]" short extra] complete chunks_read(2) [of m]
      by (simp add: reply_def k'_def)
  qed
  moreover have "in_step k' d2" "in_step d2 k'"
    using step by (simp_all add: in_step_def k'_def k1_def d2_def d1_def)
  ultimately show ?thesis
    using assms(3,4)
    by (intro exI [of _ k'] exI [of _ d1] exI [of _ d2] exI [of _ wire] exI [of _ reply])
      (simp add: connection_send_def next_cseq_def Let_def wire_request_def read_response_def q_def [symmetric])
qed

text \<open>
  C10: A request over a sealed connection: the accessory reads exactly the request with the next
  sequence number and the session headers. When it seals a response, however long and in however many
  frames, \<open>send\<close> returns that response: its code, text and body, exactly its header fields, each
  found under its name in any case. It takes nothing of what follows from the stream and leaves both ends in step
  for the next request. The response is one the framing of RTSP can carry: a status text of one line without a
  colon, plain header fields whose names differ ignoring case, and a Content-Length that declares the body.
\<close>

theorem sealed_request:
  assumes "aead_ok seal unseal" "seals_blocks seal" "visits visit" "rc_connected c" "rc_cipher c = Some k"
    and "in_step k d" "in_step d k"
    and "code < 65536" "one_line msg" "CHR '':'' \<notin> set msg" "list_all field_ok hs" "names_distinct hs"
    and "declares_body hs body" "length (response_wire code msg hs body) < 2 ^ 64"
  shows "\<exists>c' k' d1 d2 wire reply r.
     control_decrypt unseal d wire =
       (d1, Inr (request_serialize (with_session_headers (rc_session_headers c) request) (rc_cseq c + 1)))
     \<and> control_encrypt seal d1 (response_wire code msg hs body) = (d2, Inr reply)
     \<and> connection_send visit seal unseal bad short c request (Inr ()) (reply @ extra) = Some (c', wire, extra, Inr r)
     \<and> rp_status_code r = of_nat code \<and> rp_status_text r = msg \<and> rp_body r = (if body = [] then None else Some body)
     \<and> set (rp_headers r) = set hs
     \<and> (\<forall>name v h. (h, v) \<in> set hs \<and> eq_ignore_ascii_case h name \<longrightarrow> response_header visit r name = Some v)
     \<and> rc_cseq c' = rc_cseq c + 1 \<and> rc_cipher c' = Some k' \<and> in_step k' d2 \<and> in_step d2 k'"
proof -
  let ?m = "response_wire code msg hs body"
  have "?m \<noteq> []" by (simp add: response_wire_def header_terminator_def)
  from send_sealed [OF assms(1,2,4-7) wire_complete [OF assms(9-14)] this, of request visit bad short extra]
  obtain k' d1 d2 wire reply where sent:
    "control_decrypt unseal d wire =
       (d1, Inr (request_serialize (with_session_headers (rc_session_headers c) request) (rc_cseq c + 1)))"
    "control_encrypt seal d1 ?m = (d2, Inr reply)"
    "connection_send visit seal unseal bad short c request (Inr ()) (reply @ extra) =
       map_option (\<lambda>r. (c\<lparr>rc_cseq := rc_cseq c + 1, rc_cipher := Some k'\<rparr>, wire, extra,
           case r of Inl e \<Rightarrow> Inl (Err_Rtsp e) | Inr p \<Rightarrow> Inr p)) (response_parse visit ?m)"
    "in_step k' d2" "in_step d2 k'" by blast
  let ?r = "\<lparr>rp_status_code = of_nat code, rp_status_text = msg, rp_headers = foldl insert_line [] (map header_line hs),
      rp_body = (if body = [] then None else Some body)\<rparr>"
  have fields: "set (rp_headers ?r) = set hs" using headers_set [OF assms(11,12)] by simp
  have named: "response_header visit ?r name = Some v" if "(h, v) \<in> set hs" "eq_ignore_ascii_case h name" for h name v
    using find_header_named [OF assms(3) headers_set [OF assms(11,12)] assms(12) that] by (simp add: response_header_def)
  have "response_parse visit ?m = Some (Inr ?r)"
    using response_parse_wire [OF assms(3,8,9,11-14), of "[]"] by simp
  with sent(3) have got: "connection_send visit seal unseal bad short c request (Inr ()) (reply @ extra) =
      Some (c\<lparr>rc_cseq := rc_cseq c + 1, rc_cipher := Some k'\<rparr>, wire, extra, Inr ?r)" by simp
  have named': "\<forall>name v h. (h, v) \<in> set hs \<and> eq_ignore_ascii_case h name \<longrightarrow> response_header visit ?r name = Some v"
    using named by blast
  show ?thesis
    by (intro exI conjI, rule sent(1), rule sent(2), rule got, simp, simp, simp, rule fields, rule named', simp, simp,
        rule sent(4), rule sent(5))
qed

text \<open>A connected end of a demo link, and its accessory.\<close>

definition demo_connection :: rtsp_connection where
  "demo_connection =
     connection_set_cipher
       (fst (connection_connect connection_new True :: rtsp_connection \<times> (unit air_error + unit))) (control_new [2] [1])"

theorem sealed_request_witness:
  "\<exists>c' k' d1 d2 wire reply r.
     control_decrypt plain_open (control_new [1] [2]) wire =
       (d1, Inr (request_serialize (with_session_headers [] req_options) 1))
     \<and> control_encrypt plain_seal d1 (response_wire 200 ''OK'' demo_headers [1, 2, 3]) = (d2, Inr reply)
     \<and> connection_send (\<lambda>hs. hs) plain_seal plain_open () Err_Timeout demo_connection req_options (Inr ()) (reply @ [7])
         = Some (c', wire, [7], Inr r)
     \<and> rp_status_code r = 200 \<and> rp_status_text r = ''OK'' \<and> rp_body r = Some [1, 2, 3]
     \<and> set (rp_headers r) = set demo_headers \<and> response_header (\<lambda>hs. hs) r ''CSeq'' = Some ''7''
     \<and> rc_cseq c' = 1 \<and> rc_cipher c' = Some k' \<and> in_step k' d2 \<and> in_step d2 k'"
proof -
  have c: "rc_connected demo_connection" "rc_cipher demo_connection = Some (control_new [2] [1])"
    "rc_session_headers demo_connection = []" "rc_cseq demo_connection = 0"
    by (simp_all add: demo_connection_def connection_connect_def connection_new_def connection_set_cipher_def)
  have d: "in_step (control_new [2] [1]) (control_new [1] [2])" "in_step (control_new [1] [2]) (control_new [2] [1])"
    by (simp_all add: in_step_def control_new_def)
  have "digits 200 = ''200''" by code_simp
  then have "length (response_wire 200 ''OK'' demo_headers [1, 2, 3]) < 2 ^ 64"
    by (simp add: response_wire_def response_lines_def demo_headers_def header_line_def header_terminator_def crlf_def)
  then obtain c' k' d1 d2 wire reply r where r:
    "control_decrypt plain_open (control_new [1] [2]) wire =
       (d1, Inr (request_serialize (with_session_headers (rc_session_headers demo_connection) req_options) (rc_cseq demo_connection + 1)))"
    "control_encrypt plain_seal d1 (response_wire 200 ''OK'' demo_headers [1, 2, 3]) = (d2, Inr reply)"
    "connection_send (\<lambda>hs. hs) plain_seal plain_open () Err_Timeout demo_connection req_options (Inr ()) (reply @ [7])
       = Some (c', wire, [7], Inr r)"
    "rp_status_code r = of_nat 200" "rp_status_text r = ''OK''" "rp_body r = Some [1, 2, 3]"
    "set (rp_headers r) = set demo_headers"
    "\<forall>name v h. (h, v) \<in> set demo_headers \<and> eq_ignore_ascii_case h name \<longrightarrow> response_header (\<lambda>hs. hs) r name = Some v"
    "rc_cseq c' = rc_cseq demo_connection + 1" "rc_cipher c' = Some k'" "in_step k' d2" "in_step d2 k'"
    using sealed_request [OF plain_aead demo_headers_ok(1) c(1,2) d, of 200, OF _ demo_headers_ok(2) _ demo_headers_ok(3-5),
        of req_options "()" Err_Timeout "[7]"] by auto
  have "(''CSeq'', ''7'') \<in> set demo_headers" "eq_ignore_ascii_case ''CSeq'' ''CSeq''"
    by (simp_all add: demo_headers_def eq_ignore_ascii_case_def)
  then have "response_header (\<lambda>hs. hs) r ''CSeq'' = Some ''7''" using r(8) by blast
  with r show ?thesis
    by (intro exI [of _ c'] exI [of _ k'] exI [of _ d1] exI [of _ d2] exI [of _ wire] exI [of _ reply] exI [of _ r]) (simp add: c)
qed

end
