(* ===== verification/Staged_Session.thy ===== *)
theory Staged_Session
  imports "HOL-Library.Sublist" Prelude
begin

text \<open>
  The contract of a session that is set up in a fixed order of stages, then played and paused any
  number of times and torn down once. The AirPlay 2 session and the RAOP session both provide it;
  their clients rely on the characterisation proved here of the operation sequences a session
  accepts.
\<close>

section \<open>Specification\<close>

datatype op_kind = Advance nat | Play | Pause | Close

text \<open>An accepted sequence: the stages in order, as far as it goes; after all of them play and pause
  in alternation; possibly a teardown at the end, but not as the first operation.\<close>

fun alternates :: "bool \<Rightarrow> op_kind list \<Rightarrow> bool" where
  "alternates playing [] \<longleftrightarrow> True"
| "alternates playing (k # ks) \<longleftrightarrow> k = (if playing then Pause else Play) \<and> alternates (\<not> playing) ks"

definition protocol_word :: "nat \<Rightarrow> op_kind list \<Rightarrow> bool" where
  "protocol_word n ks \<longleftrightarrow>
     (\<exists>begun playback ending. ks = begun @ playback @ ending
        \<and> prefix begun (map Advance [0..<n])
        \<and> (playback = [] \<or> length begun = n) \<and> alternates False playback
        \<and> (ending = [] \<or> ending = [Close] \<and> begun \<noteq> []))"

section \<open>The machine behind it\<close>

datatype life = Opening nat | Active bool | Closed

text \<open>\<open>Opening n\<close> is the stopped session with all stages done; \<open>Active\<close> tells whether it plays.\<close>

fun life_step :: "nat \<Rightarrow> life \<Rightarrow> op_kind \<Rightarrow> life option" where
  "life_step n (Opening i) (Advance j) = (if i = j \<and> i < n then Some (Opening (Suc i)) else None)"
| "life_step n (Opening i) Play = (if i = n then Some (Active True) else None)"
| "life_step n (Opening i) Close = (if 0 < i then Some Closed else None)"
| "life_step n (Active p) Play = (if p then None else Some (Active True))"
| "life_step n (Active p) Pause = (if p then Some (Active False) else None)"
| "life_step n (Active p) Close = Some Closed"
| "life_step n _ _ = None"

fun life_run :: "nat \<Rightarrow> life \<Rightarrow> op_kind list \<Rightarrow> life option" where
  "life_run n v [] = Some v"
| "life_run n v (k # ks) = (case life_step n v k of Some v' \<Rightarrow> life_run n v' ks | None \<Rightarrow> None)"

lemma life_step_Closed [simp]: "life_step n Closed k = None"
  by (cases k) simp_all

lemma closed_run: "life_run n Closed ks = (if ks = [] then Some Closed else None)"
  by (cases ks) simp_all

lemma active_run:
  "life_run n (Active p) ks \<noteq> None \<longleftrightarrow>
     (\<exists>playback ending. ks = playback @ ending \<and> alternates p playback \<and> (ending = [] \<or> ending = [Close]))"
proof (induction ks arbitrary: p)
  case Nil
  then show ?case by simp
next
  case (Cons k ks)
  show ?case (is "_ \<longleftrightarrow> (\<exists>playback ending. ?word playback ending)")
  proof
    assume run: "life_run n (Active p) (k # ks) \<noteq> None"
    show "\<exists>playback ending. ?word playback ending"
    proof (cases "k = Close")
      case True
      then have "?word [] [Close]" using run by (simp add: closed_run split: if_splits)
      then show ?thesis by blast
    next
      case False
      then have k: "k = (if p then Pause else Play)" "life_run n (Active (\<not> p)) ks \<noteq> None"
        using run by (cases k; cases p; simp)+
      then obtain playback ending where "ks = playback @ ending" "alternates (\<not> p) playback" "ending = [] \<or> ending = [Close]"
        using Cons.IH by blast
      then have "?word (k # playback) ending" using k(1) by simp
      then show ?thesis by blast
    qed
  next
    assume "\<exists>playback ending. ?word playback ending"
    then obtain playback ending where w: "?word playback ending" by blast
    show "life_run n (Active p) (k # ks) \<noteq> None"
    proof (cases playback)
      case Nil
      then show ?thesis using w by auto
    next
      case (Cons k' playback')
      then have k: "k = (if p then Pause else Play)" and "life_run n (Active (\<not> p)) ks \<noteq> None"
        using w Cons.IH [of "\<not> p"] by auto
      then show ?thesis by (cases p) simp_all
    qed
  qed
qed

text \<open>The sequences accepted from stage \<open>i\<close> on, and how such a sequence begins.\<close>

definition word_from :: "nat \<Rightarrow> nat \<Rightarrow> op_kind list \<Rightarrow> bool" where
  "word_from n i ks \<longleftrightarrow>
     (\<exists>begun playback ending. ks = begun @ playback @ ending
        \<and> prefix begun (map Advance [i..<n])
        \<and> (playback = [] \<or> length begun = n - i) \<and> alternates False playback
        \<and> (ending = [] \<or> ending = [Close] \<and> 0 < i + length begun))"

lemma prefix_stages:
  "prefix (a # begun) (map Advance [i..<n]) \<longleftrightarrow> i < n \<and> a = Advance i \<and> prefix begun (map Advance [Suc i..<n])"
  by (cases "i < n") (auto simp: upt_conv_Cons)

lemma word_from_Cons:
  assumes "0 < n" "i \<le> n"
  shows "word_from n i (k # ks) \<longleftrightarrow>
     k = Advance i \<and> i < n \<and> word_from n (Suc i) ks
     \<or> k = Play \<and> i = n \<and> life_run n (Active True) ks \<noteq> None
     \<or> k = Close \<and> ks = [] \<and> 0 < i" (is "_ \<longleftrightarrow> ?adv \<or> ?play \<or> ?close")
proof
  assume "word_from n i (k # ks)"
  then obtain begun playback ending where w: "k # ks = begun @ playback @ ending"
    "prefix begun (map Advance [i..<n])" "playback = [] \<or> length begun = n - i" "alternates False playback"
    "ending = [] \<or> ending = [Close] \<and> 0 < i + length begun"
    unfolding word_from_def by blast
  show "?adv \<or> ?play \<or> ?close"
  proof (cases begun)
    case (Cons a begun')
    then have "k = Advance i" "i < n" "ks = begun' @ playback @ ending" using w(1,2) by (simp_all add: prefix_stages)
    moreover have "word_from n (Suc i) ks"
      unfolding word_from_def using w Cons
      by (intro exI [of _ begun'] exI [of _ playback] exI [of _ ending]) (auto simp: prefix_stages)
    ultimately show ?thesis by blast
  next
    case Nil
    then show ?thesis
      using w assms unfolding active_run by (cases playback) auto
  qed
next
  assume "?adv \<or> ?play \<or> ?close"
  then consider (adv) ?adv | (play) ?play | (close) ?close by blast
  then show "word_from n i (k # ks)"
  proof cases
    case adv
    then obtain begun playback ending where w: "ks = begun @ playback @ ending"
      "prefix begun (map Advance [Suc i..<n])" "playback = [] \<or> length begun = n - Suc i" "alternates False playback"
      "ending = [] \<or> ending = [Close]" unfolding word_from_def by blast
    then show ?thesis
      unfolding word_from_def using adv
      by (intro exI [of _ "k # begun"] exI [of _ playback] exI [of _ ending]) (auto simp: prefix_stages)
  next
    case play
    then obtain playback ending where "ks = playback @ ending" "alternates True playback" "ending = [] \<or> ending = [Close]"
      unfolding active_run by blast
    then show ?thesis
      unfolding word_from_def using play assms
      by (intro exI [of _ "[]"] exI [of _ "k # playback"] exI [of _ ending]) simp
  next
    case close
    then show ?thesis
      unfolding word_from_def by (intro exI [of _ "[]"] exI [of _ "[]"] exI [of _ "[Close]"]) simp
  qed
qed

lemma opening_run: "0 < n \<Longrightarrow> i \<le> n \<Longrightarrow> life_run n (Opening i) ks \<noteq> None \<longleftrightarrow> word_from n i ks"
proof (induction ks arbitrary: i)
  case Nil
  then show ?case by (simp add: word_from_def)
next
  case (Cons k ks)
  then show ?case
    unfolding word_from_Cons [OF Cons.prems] by (cases k) (auto simp: closed_run)
qed

lemma life_run_word: "0 < n \<Longrightarrow> life_run n (Opening 0) ks \<noteq> None \<longleftrightarrow> protocol_word n ks"
  unfolding opening_run [OF _ le0] word_from_def protocol_word_def by simp

text \<open>Whoever is through with the stages has passed all of them.\<close>

lemma life_run_reached:
  "life_run n (Opening i) ks = Some v \<Longrightarrow> i \<le> n \<Longrightarrow> v = Opening n \<or> (\<exists>p. v = Active p) \<Longrightarrow>
   \<exists>rest. ks = map Advance [i..<n] @ rest"
proof (induction ks arbitrary: i)
  case Nil
  then show ?case by auto
next
  case (Cons k ks)
  show ?case
  proof (cases "i = n")
    case False
    then have "k = Advance i" "life_run n (Opening (Suc i)) ks = Some v"
      using Cons.prems by (cases k; simp add: closed_run split: if_splits; fail)+
    then show ?thesis using Cons.IH [of "Suc i"] Cons.prems(2,3) False by (auto simp: upt_conv_Cons)
  qed simp
qed

text \<open>All operations in turn, as long as none fails.\<close>

fun run_all :: "('s \<Rightarrow> 'op \<Rightarrow> 's \<times> ('e + unit)) \<Rightarrow> 's \<Rightarrow> 'op list \<Rightarrow> 'e + 's" where
  "run_all step s [] = Inr s"
| "run_all step s (x # xs) = (case step s x of (s', Inr _) \<Rightarrow> run_all step s' xs | (_, Inl e) \<Rightarrow> Inl e)"

section \<open>The interface\<close>

text \<open>What a session provides: operations that either fail and change nothing or move its life cycle
  by one step, and that fail only out of order or for what they carry. What an operation may carry
  depends on the session's fixed settings alone.\<close>

locale staged_session =
  fixes n :: nat
    and kind :: "'op \<Rightarrow> op_kind"
    and step :: "'s \<Rightarrow> 'op \<Rightarrow> 's \<times> ('e + unit)"
    and view :: "'s \<Rightarrow> life"
    and settings :: "'s \<Rightarrow> 'c"
    and acceptable :: "'c \<Rightarrow> 'op \<Rightarrow> bool"
  assumes stages: "0 < n"
    and rejected: "step s x = (s', Inl e) \<Longrightarrow> s' = s"
    and accepted: "step s x = (s', Inr u) \<Longrightarrow> life_step n (view s) (kind x) = Some (view s') \<and> acceptable (settings s) x"
    and progress: "life_step n (view s) (kind x) = Some v \<Longrightarrow> acceptable (settings s) x \<Longrightarrow> \<exists>s'. step s x = (s', Inr ())"
    and settings_kept: "settings (fst (step s x)) = settings s"
begin

lemma run_all_view:
  "(\<exists>s'. run_all step s xs = Inr s' \<and> life_run n (view s) (map kind xs) = Some (view s') \<and> settings s' = settings s
      \<and> list_all (acceptable (settings s)) xs)
   \<or> (\<exists>e. run_all step s xs = Inl e) \<and> \<not> (life_run n (view s) (map kind xs) \<noteq> None \<and> list_all (acceptable (settings s)) xs)"
proof (induction xs arbitrary: s)
  case Nil
  then show ?case by simp
next
  case (Cons x xs)
  show ?case
  proof (cases "step s x")
    case (Pair s' r)
    show ?thesis
    proof (cases r)
      case (Inl e)
      then have "life_step n (view s) (kind x) = None \<or> \<not> acceptable (settings s) x"
        using progress [of s x] Pair by (cases "life_step n (view s) (kind x)") auto
      then show ?thesis using Pair Inl by auto
    next
      case (Inr u)
      then have now: "life_step n (view s) (kind x) = Some (view s')" "acceptable (settings s) x" "settings s' = settings s"
        using accepted [of s x s' u] settings_kept [of s x] Pair by simp_all
      show ?thesis using Cons.IH [of s'] now Pair Inr by simp
    qed
  qed
qed

lemma run_all_iff:
  "view s = Opening 0 \<Longrightarrow>
   (\<exists>s'. run_all step s xs = Inr s') \<longleftrightarrow> protocol_word n (map kind xs) \<and> list_all (acceptable (settings s)) xs"
  using run_all_view [of s xs] life_run_word [OF stages, of "map kind xs"] by auto

lemma run_all_reached:
  assumes "view s = Opening 0" "run_all step s xs = Inr s'" "view s' = Opening n \<or> (\<exists>p. view s' = Active p)"
  shows "\<exists>rest. map kind xs = map Advance [0..<n] @ rest"
  using run_all_view [of s xs] life_run_reached [of n 0 "map kind xs" "view s'"] assms by auto

lemma run_all_append:
  "run_all step s (xs @ ys) = (case run_all step s xs of Inl e \<Rightarrow> Inl e | Inr s' \<Rightarrow> run_all step s' ys)"
  by (induction xs arbitrary: s) (auto split: prod.split sum.split)

end

end
