(* ===== verification/Sdp.thy ===== *)
theory Sdp
  imports Rust_Text Core_Types Stream_Config
begin

text \<open>
  The session description of an ANNOUNCE request (\<open>crates/airplay-rtsp/src/sdp.rs\<close>), with the text of
  network addresses as \<open>std::net\<close> writes it. The Base64 encoder is a parameter.
\<close>

section \<open>Addresses as text\<close>

fun join_with :: "string \<Rightarrow> string list \<Rightarrow> string" where
  "join_with sep [] = []"
| "join_with sep [s] = s"
| "join_with sep (s # ss) = s @ sep @ join_with sep ss"

definition ipv4_text :: "u32 \<Rightarrow> string" where
  "ipv4_text w = join_with ''.'' (map (\<lambda>b. digits (unat b)) (be_bytes 4 w))"

definition ipv6_segments :: "128 word \<Rightarrow> nat list" where
  "ipv6_segments w = map (\<lambda>i. unat (ucast (drop_bit (16 * (7 - i)) w) :: u16)) [0..<8]"

text \<open>The first of the longest runs of zero segments, as start and length.\<close>

fun zero_span :: "nat \<Rightarrow> nat \<times> nat \<Rightarrow> nat \<times> nat \<Rightarrow> nat list \<Rightarrow> nat \<times> nat" where
  "zero_span i current longest [] = longest"
| "zero_span i current longest (x # xs) =
     (if x = 0
      then let current1 = (if snd current = 0 then (i, 1) else (fst current, Suc (snd current)))
           in zero_span (Suc i) current1 (if snd longest < snd current1 then current1 else longest) xs
      else zero_span (Suc i) (0, 0) longest xs)"

definition segments_text :: "nat list \<Rightarrow> string" where
  "segments_text xs = join_with '':'' (map (\<lambda>x. map ascii_lower (hex_digits x)) xs)"

definition ipv6_text :: "128 word \<Rightarrow> string" where
  "ipv6_text w =
     (let segments = ipv6_segments w; span = zero_span 0 (0, 0) (0, 0) segments
      in if take 6 segments = [0, 0, 0, 0, 0, 0xFFFF] then ''::ffff:'' @ ipv4_text (ucast w)
         else if 1 < snd span
         then segments_text (take (fst span) segments) @ ''::'' @ segments_text (drop (fst span + snd span) segments)
         else segments_text segments)"

fun ip_text :: "ip_addr \<Rightarrow> string" where
  "ip_text (V4 w) = ipv4_text w"
| "ip_text (V6 w) = ipv6_text w"

section \<open>The builder\<close>

record sdp_builder =
  sb_session_id :: u32
  sb_local_ip :: string
  sb_remote_ip :: string
  sb_audio_format :: audio_format
  sb_latency_min :: u32
  sb_rsa_aes_key :: "u8 list option"
  sb_aes_iv :: "u8 list option"

definition sdp_new :: "u32 \<Rightarrow> string \<Rightarrow> string \<Rightarrow> audio_format \<Rightarrow> u32 \<Rightarrow> sdp_builder" where
  "sdp_new session_id local_ip remote_ip format latency_min =
     \<lparr>sb_session_id = session_id, sb_local_ip = local_ip, sb_remote_ip = remote_ip, sb_audio_format = format,
      sb_latency_min = latency_min, sb_rsa_aes_key = None, sb_aes_iv = None\<rparr>"

definition with_encryption :: "u8 list \<Rightarrow> u8 list \<Rightarrow> sdp_builder \<Rightarrow> sdp_builder" where
  "with_encryption key iv b = b\<lparr>sb_rsa_aes_key := Some key, sb_aes_iv := Some iv\<rparr>"

definition eol :: string where "eol = [CR, LF]"

definition sdp_build :: "(u8 list \<Rightarrow> string) \<Rightarrow> sdp_builder \<Rightarrow> u8 list" where
  "sdp_build base64 b =
     (let af = sb_audio_format b
      in bytes_of (
        ''v=0'' @ eol
        @ ''o=iTunes '' @ digits (unat (sb_session_id b)) @ '' 0 IN IP4 '' @ sb_local_ip b @ eol
        @ ''s=iTunes'' @ eol
        @ ''c=IN IP4 '' @ sb_remote_ip b @ eol
        @ ''t=0 0'' @ eol
        @ ''m=audio 0 RTP/AVP 96'' @ eol
        @ ''a=rtpmap:96 AppleLossless'' @ eol
        @ ''a=fmtp:96 '' @ digits (unat (fm_frames_per_packet af)) @ '' 0 '' @ digits (unat (fm_bit_depth af))
            @ '' 40 10 14 '' @ digits (unat (fm_channels af)) @ '' 255 0 0 '' @ digits (unat (as_hz (fm_sample_rate af))) @ eol
        @ (case (sb_rsa_aes_key b, sb_aes_iv b) of
             (Some key, Some iv) \<Rightarrow> ''a=rsaaeskey:'' @ base64 key @ eol @ ''a=aesiv:'' @ base64 iv @ eol
           | _ \<Rightarrow> [])
        @ ''a=min-latency:'' @ digits (unat (sb_latency_min b)) @ eol))"

text \<open>The description is a sequence of lines; without a line break in the addresses and in what the
  encoder returns no field can add a line of its own.\<close>

definition sdp_lines :: "(u8 list \<Rightarrow> string) \<Rightarrow> sdp_builder \<Rightarrow> string list" where
  "sdp_lines base64 b =
     [''v=0'', ''o=iTunes '' @ digits (unat (sb_session_id b)) @ '' 0 IN IP4 '' @ sb_local_ip b, ''s=iTunes'',
      ''c=IN IP4 '' @ sb_remote_ip b, ''t=0 0'', ''m=audio 0 RTP/AVP 96'', ''a=rtpmap:96 AppleLossless'',
      ''a=fmtp:96 '' @ digits (unat (fm_frames_per_packet (sb_audio_format b))) @ '' 0 ''
        @ digits (unat (fm_bit_depth (sb_audio_format b))) @ '' 40 10 14 ''
        @ digits (unat (fm_channels (sb_audio_format b))) @ '' 255 0 0 '' @ digits (unat (as_hz (fm_sample_rate (sb_audio_format b))))]
     @ (case (sb_rsa_aes_key b, sb_aes_iv b) of
          (Some key, Some iv) \<Rightarrow> [''a=rsaaeskey:'' @ base64 key, ''a=aesiv:'' @ base64 iv] | _ \<Rightarrow> [])
     @ [''a=min-latency:'' @ digits (unat (sb_latency_min b))]"

lemma digits_no_break: "LF \<notin> set (digits n)"
  using digits_chars [of LF n] by (auto simp: in_range_def LF_def)

lemma lines_of_terminated:
  "list_all (\<lambda>l. LF \<notin> set l) ls \<Longrightarrow> lines_of (concat (map (\<lambda>l. l @ eol) ls)) = ls"
  by (induction ls) (simp_all add: eol_def lines_of_line)

lemma sdp_text: "string_of (sdp_build base64 b) = concat (map (\<lambda>l. l @ eol) (sdp_lines base64 b))"
  by (simp add: sdp_build_def sdp_lines_def Let_def split: option.split)

lemma sdp_description:
  assumes "LF \<notin> set (sb_local_ip b)" "LF \<notin> set (sb_remote_ip b)" "\<And>bs. LF \<notin> set (base64 bs)"
  shows "lines_of (string_of (sdp_build base64 b)) = sdp_lines base64 b"
  unfolding sdp_text
  by (rule lines_of_terminated) (use assms digits_no_break in \<open>simp add: sdp_lines_def LF_def split: option.split\<close>)

end
