(* ===== verification/Rtsp_Session.thy ===== *)
theory Rtsp_Session
  imports Staged_Session Sdp Device_Model
begin

text \<open>
  The AirPlay 2 session (\<open>crates/airplay-rtsp/src/session.rs\<close>) and the bodies of its two SETUP phases
  (\<open>plist_codec.rs\<close>). The property-list encoder and decoder and the text of a UUID are parameters; the
  random values a new session draws are its arguments. Every error is an RTSP error.
\<close>

section \<open>Bodies\<close>

record timing_peer_info =
  tp_addresses :: "string list"
  tp_id :: string
  tp_supports_clock_port_matching_override :: bool

record setup_phase1_request =
  s1_device_id :: string
  s1_session_uuid :: string
  s1_timing_port :: u16
  s1_timing_protocol :: string
  s1_timing_peer_info :: "timing_peer_info option"
  s1_timing_peer_list :: "timing_peer_info list option"

record setup_phase1_response =
  r1_event_port :: u16
  r1_timing_port :: u16
  r1_timing_peer_info :: "timing_peer_info option"

record stream_def =
  sd_stream_type :: u32
  sd_audio_format :: u32
  sd_audio_mode :: string
  sd_sample_rate :: u32
  sd_ct :: u8
  sd_control_port :: u16
  sd_is_media :: bool
  sd_latency_min :: u32
  sd_latency_max :: u32
  sd_shk :: "u8 list"
  sd_asc :: "u8 list option"
  sd_spf :: u32
  sd_supports_dynamic_stream_id :: bool
  sd_stream_connection_id :: u32

text \<open>\<open>SetupPhase2Request\<close> and \<open>SetupPhase2Response\<close> have the stream list as their only field.\<close>

type_synonym setup_phase2_request = "stream_def list"

record stream_response =
  sr_stream_type :: u32
  sr_data_port :: u16
  sr_control_port :: u16
  sr_stream_id :: int

type_synonym setup_phase2_response = "stream_response list"

type_synonym 'a plist_encoder = "'a \<Rightarrow> string + u8 list"
type_synonym 'a plist_decoder = "u8 list \<Rightarrow> string + 'a"

text \<open>\<open>encode\<close> and \<open>decode\<close> wrap the library's error text.\<close>

definition plist_result :: "string + 'a \<Rightarrow> rtsp_error + 'a" where
  "plist_result r = (case r of Inl e \<Rightarrow> Inl (PlistError e) | Inr v \<Rightarrow> Inr v)"

section \<open>State\<close>

datatype session_state =
    Session_Disconnected | Session_Connected | Session_Paired | Session_SetupPhase1
  | Session_Ready | Session_Playing | Session_Paused | Session_TearingDown

fun session_state_name :: "session_state \<Rightarrow> string" where
  "session_state_name Session_Disconnected = ''Disconnected''"
| "session_state_name Session_Connected = ''Connected''"
| "session_state_name Session_Paired = ''Paired''"
| "session_state_name Session_SetupPhase1 = ''SetupPhase1''"
| "session_state_name Session_Ready = ''Ready''"
| "session_state_name Session_Playing = ''Playing''"
| "session_state_name Session_Paused = ''Paused''"
| "session_state_name Session_TearingDown = ''TearingDown''"

record session_ports =
  po_data_port :: u16
  po_control_port :: u16
  po_timing_port :: u16
  po_event_port :: u16

record rtsp_session =
  ss_session_id :: uuid
  ss_group_uuid :: uuid
  ss_state :: session_state
  ss_device :: device
  ss_client_device_id :: string
  ss_stream_config :: stream_config
  ss_ports :: "session_ports option"
  ss_local_control_port :: u16
  ss_stream_connection_id :: u32
  ss_eiv :: "u8 list"
  ss_ekey :: "u8 list"
  ss_shk :: "u8 list"
  ss_request_host :: "string option"

definition session_new ::
    "uuid \<Rightarrow> uuid \<Rightarrow> u16 \<Rightarrow> u32 \<Rightarrow> u8 list \<Rightarrow> u8 list \<Rightarrow> u8 list \<Rightarrow> device \<Rightarrow> stream_config \<Rightarrow> rtsp_session" where
  "session_new session_id fresh_group control_port connection_id eiv ekey shk dev config =
     \<lparr>ss_session_id = session_id,
      ss_group_uuid = (case d_group_id dev of Some g \<Rightarrow> g | None \<Rightarrow> fresh_group),
      ss_state = Session_Disconnected, ss_device = dev, ss_client_device_id = to_mac_string (d_id dev),
      ss_stream_config = config, ss_ports = None, ss_local_control_port = control_port,
      ss_stream_connection_id = connection_id, ss_eiv = eiv, ss_ekey = ekey, ss_shk = shk, ss_request_host = None\<rparr>"

definition set_client_device_id :: "rtsp_session \<Rightarrow> string \<Rightarrow> rtsp_session" where
  "set_client_device_id s ident = s\<lparr>ss_client_device_id := ident\<rparr>"

definition set_request_host :: "rtsp_session \<Rightarrow> string \<Rightarrow> rtsp_session" where
  "set_request_host s host = s\<lparr>ss_request_host := Some host\<rparr>"

definition set_local_control_port :: "rtsp_session \<Rightarrow> u16 \<Rightarrow> rtsp_session" where
  "set_local_control_port s port = s\<lparr>ss_local_control_port := port\<rparr>"

definition set_stream_key :: "rtsp_session \<Rightarrow> u8 list \<Rightarrow> rtsp_session" where
  "set_stream_key s shk = s\<lparr>ss_shk := shk\<rparr>"

definition set_stream_keys :: "rtsp_session \<Rightarrow> u8 list \<Rightarrow> u8 list \<Rightarrow> u8 list \<Rightarrow> rtsp_session" where
  "set_stream_keys s ekey eiv shk = s\<lparr>ss_ekey := ekey, ss_eiv := eiv, ss_shk := shk\<rparr>"

section \<open>Requests\<close>

text \<open>A host with a colon is an IPv6 address and stands in brackets.\<close>

definition uri_host :: "string option \<Rightarrow> string" where
  "uri_host host =
     (let h = (case host of Some h \<Rightarrow> h | None \<Rightarrow> ''local'')
      in if CHR '':'' \<in> set h \<and> \<not> starts_with ''['' h then ''['' @ h @ '']'' else h)"

definition uuid_upper :: "(uuid \<Rightarrow> string) \<Rightarrow> uuid \<Rightarrow> string" where
  "uuid_upper uuid_text u = map ascii_upper (uuid_text u)"

definition session_request_uri :: "(uuid \<Rightarrow> string) \<Rightarrow> rtsp_session \<Rightarrow> string" where
  "session_request_uri uuid_text s =
     ''rtsp://'' @ uri_host (ss_request_host s) @ ''/'' @ uuid_upper uuid_text (ss_session_id s)"

definition build_announce_sdp :: "(u8 list \<Rightarrow> string) \<Rightarrow> rtsp_session \<Rightarrow> string \<Rightarrow> u8 list" where
  "build_announce_sdp base64 s local_ip =
     (let remote_ip = (case d_addresses (ss_device s) of a # _ \<Rightarrow> ip_text a | [] \<Rightarrow> ''0.0.0.0'')
      in sdp_build base64 (sdp_new (ss_stream_connection_id s) local_ip remote_ip
           (sc_audio_format (ss_stream_config s)) (sc_latency_min (ss_stream_config s))))"

definition phase1_request :: "(uuid \<Rightarrow> string) \<Rightarrow> rtsp_session \<Rightarrow> u16 \<Rightarrow> string list option \<Rightarrow> setup_phase1_request" where
  "phase1_request uuid_text s local_timing_port local_addresses =
     (let ptp = sc_timing_protocol (ss_stream_config s) = Timing_Ptp;
          peer_info = \<lparr>tp_addresses = (case local_addresses of Some as \<Rightarrow> as | None \<Rightarrow> []),
            tp_id = uuid_text (ss_session_id s), tp_supports_clock_port_matching_override = True\<rparr>
      in \<lparr>s1_device_id = ss_client_device_id s, s1_session_uuid = uuid_upper uuid_text (ss_session_id s),
          s1_timing_port = local_timing_port, s1_timing_protocol = (if ptp then ''PTP'' else ''NTP''),
          s1_timing_peer_info = (if ptp then Some peer_info else None),
          s1_timing_peer_list = (if ptp then Some [peer_info] else None)\<rparr>)"

definition build_setup_phase1 ::
    "(uuid \<Rightarrow> string) \<Rightarrow> setup_phase1_request plist_encoder \<Rightarrow> rtsp_session \<Rightarrow> u16 \<Rightarrow> string list option \<Rightarrow> rtsp_error + u8 list" where
  "build_setup_phase1 uuid_text encode s local_timing_port local_addresses =
     plist_result (encode (phase1_request uuid_text s local_timing_port local_addresses))"

definition wrong_state :: "string \<Rightarrow> session_state \<Rightarrow> rtsp_error" where
  "wrong_state what st = SetupFailed (''Cannot '' @ what @ '' from state '' @ session_state_name st)"

definition phase2_asc :: "stream_config \<Rightarrow> u8 list option" where
  "phase2_asc c =
     (case sc_asc c of
        Some asc \<Rightarrow> Some asc
      | None \<Rightarrow> if fm_codec (sc_audio_format c) \<in> {Aac, AacEld} then Some [0x12, 0x10] else None)"

definition phase2_stream :: "rtsp_session \<Rightarrow> stream_def" where
  "phase2_stream s =
     (let c = ss_stream_config s; f = sc_audio_format c
      in \<lparr>sd_stream_type = stream_type_code (sc_stream_type c), sd_audio_format = audio_format_value (fm_codec f),
          sd_audio_mode = ''default'', sd_sample_rate = as_hz (fm_sample_rate f), sd_ct = compression_type (fm_codec f),
          sd_control_port = ss_local_control_port s, sd_is_media = True, sd_latency_min = sc_latency_min c,
          sd_latency_max = sc_latency_max c, sd_shk = ss_shk s, sd_asc = phase2_asc c, sd_spf = fm_frames_per_packet f,
          sd_supports_dynamic_stream_id = sc_supports_dynamic_stream_id c,
          sd_stream_connection_id = ss_stream_connection_id s\<rparr>)"

definition build_setup_phase2 :: "setup_phase2_request plist_encoder \<Rightarrow> rtsp_session \<Rightarrow> rtsp_error + u8 list" where
  "build_setup_phase2 encode s =
     (if ss_state s \<noteq> Session_SetupPhase1 then Inl (wrong_state ''build phase 2'' (ss_state s))
      else plist_result (encode [phase2_stream s]))"

definition build_setpeers :: "string list plist_encoder \<Rightarrow> string list \<Rightarrow> rtsp_error + u8 list" where
  "build_setpeers encode peers = plist_result (encode peers)"

section \<open>Transitions\<close>

definition move_to :: "string \<Rightarrow> session_state set \<Rightarrow> session_state \<Rightarrow> rtsp_session \<Rightarrow> rtsp_session \<times> (rtsp_error + unit)" where
  "move_to what from_states st s =
     (if ss_state s \<notin> from_states then (s, Inl (wrong_state what (ss_state s))) else (s\<lparr>ss_state := st\<rparr>, Inr ()))"

definition set_connected :: "rtsp_session \<Rightarrow> rtsp_session \<times> (rtsp_error + unit)" where
  "set_connected = move_to ''connect'' {Session_Disconnected} Session_Connected"

definition set_paired :: "rtsp_session \<Rightarrow> rtsp_session \<times> (rtsp_error + unit)" where
  "set_paired = move_to ''pair'' {Session_Connected} Session_Paired"

definition start_playing :: "rtsp_session \<Rightarrow> rtsp_session \<times> (rtsp_error + unit)" where
  "start_playing = move_to ''start playing'' {Session_Ready, Session_Paused} Session_Playing"

definition pause_session :: "rtsp_session \<Rightarrow> rtsp_session \<times> (rtsp_error + unit)" where
  "pause_session = move_to ''pause'' {Session_Playing} Session_Paused"

definition start_teardown :: "rtsp_session \<Rightarrow> rtsp_session \<times> (rtsp_error + unit)" where
  "start_teardown s =
     (case ss_state s of
        Session_Disconnected \<Rightarrow> (s, Inl (SetupFailed ''Not connected''))
      | Session_TearingDown \<Rightarrow> (s, Inl (SetupFailed ''Already tearing down''))
      | _ \<Rightarrow> (s\<lparr>ss_state := Session_TearingDown\<rparr>, Inr ()))"

definition process_setup_phase1_response ::
    "setup_phase1_response plist_decoder \<Rightarrow> rtsp_session \<Rightarrow> u8 list \<Rightarrow> rtsp_session \<times> (rtsp_error + unit)" where
  "process_setup_phase1_response decode s response =
     (if ss_state s \<noteq> Session_Paired then (s, Inl (wrong_state ''process phase 1'' (ss_state s)))
      else case plist_result (decode response) of
             Inl e \<Rightarrow> (s, Inl e)
           | Inr r \<Rightarrow>
               (s\<lparr>ss_ports := Some \<lparr>po_data_port = 0, po_control_port = 0, po_timing_port = r1_timing_port r,
                    po_event_port = r1_event_port r\<rparr>, ss_state := Session_SetupPhase1\<rparr>, Inr ()))"

definition our_stream :: "stream_config \<Rightarrow> setup_phase2_response \<Rightarrow> stream_response option" where
  "our_stream c streams = find (\<lambda>r. sr_stream_type r = stream_type_code (sc_stream_type c)) streams"

definition process_setup_phase2_response ::
    "setup_phase2_response plist_decoder \<Rightarrow> rtsp_session \<Rightarrow> u8 list \<Rightarrow> rtsp_session \<times> (rtsp_error + unit)" where
  "process_setup_phase2_response decode s response =
     (if ss_state s \<noteq> Session_SetupPhase1 then (s, Inl (wrong_state ''process phase 2'' (ss_state s)))
      else case plist_result (decode response) of
             Inl e \<Rightarrow> (s, Inl e)
           | Inr streams \<Rightarrow>
               (case our_stream (ss_stream_config s) streams of
                  None \<Rightarrow> (s, Inl (SetupFailed ''No matching stream in phase 2 response''))
                | Some audio_stream \<Rightarrow>
                    (s\<lparr>ss_ports := map_option (\<lambda>p. p\<lparr>po_data_port := sr_data_port audio_stream,
                         po_control_port := sr_control_port audio_stream\<rparr>) (ss_ports s),
                       ss_state := Session_Ready\<rparr>, Inr ())))"

section \<open>The session as a staged session\<close>

datatype session_op =
    Set_Connected | Set_Paired | Phase1_Response "u8 list" | Phase2_Response "u8 list"
  | Start_Playing | Pause_Session | Start_Teardown

fun session_step ::
    "setup_phase1_response plist_decoder \<Rightarrow> setup_phase2_response plist_decoder
     \<Rightarrow> rtsp_session \<Rightarrow> session_op \<Rightarrow> rtsp_session \<times> (rtsp_error + unit)" where
  "session_step decode1 decode2 s Set_Connected = set_connected s"
| "session_step decode1 decode2 s Set_Paired = set_paired s"
| "session_step decode1 decode2 s (Phase1_Response d) = process_setup_phase1_response decode1 s d"
| "session_step decode1 decode2 s (Phase2_Response d) = process_setup_phase2_response decode2 s d"
| "session_step decode1 decode2 s Start_Playing = start_playing s"
| "session_step decode1 decode2 s Pause_Session = pause_session s"
| "session_step decode1 decode2 s Start_Teardown = start_teardown s"

fun session_op_kind :: "session_op \<Rightarrow> op_kind" where
  "session_op_kind Set_Connected = Advance 0"
| "session_op_kind Set_Paired = Advance 1"
| "session_op_kind (Phase1_Response _) = Advance 2"
| "session_op_kind (Phase2_Response _) = Advance 3"
| "session_op_kind Start_Playing = Play"
| "session_op_kind Pause_Session = Pause"
| "session_op_kind Start_Teardown = Close"

fun session_view :: "session_state \<Rightarrow> life" where
  "session_view Session_Disconnected = Opening 0"
| "session_view Session_Connected = Opening 1"
| "session_view Session_Paired = Opening 2"
| "session_view Session_SetupPhase1 = Opening 3"
| "session_view Session_Ready = Opening 4"
| "session_view Session_Playing = Active True"
| "session_view Session_Paused = Active False"
| "session_view Session_TearingDown = Closed"

text \<open>What the two responses must carry: a readable body, and in phase 2 a stream of our type.\<close>

fun session_acceptable ::
    "setup_phase1_response plist_decoder \<Rightarrow> setup_phase2_response plist_decoder \<Rightarrow> stream_config \<Rightarrow> session_op \<Rightarrow> bool" where
  "session_acceptable decode1 decode2 c (Phase1_Response d) \<longleftrightarrow> \<not> isl (decode1 d)"
| "session_acceptable decode1 decode2 c (Phase2_Response d) \<longleftrightarrow>
     (case decode2 d of Inl _ \<Rightarrow> False | Inr streams \<Rightarrow> our_stream c streams \<noteq> None)"
| "session_acceptable decode1 decode2 c _ \<longleftrightarrow> True"

lemmas session_ops = set_connected_def set_paired_def start_playing_def pause_session_def start_teardown_def
  move_to_def process_setup_phase1_response_def process_setup_phase2_response_def plist_result_def

lemma session_step_rejected: "session_step decode1 decode2 s x = (s', Inl e) \<Longrightarrow> s' = s"
  by (cases x) (auto simp: session_ops split: if_splits sum.splits option.splits session_state.splits)

lemma session_step_accepted:
  "session_step decode1 decode2 s x = (s', Inr u) \<Longrightarrow>
   life_step 4 (session_view (ss_state s)) (session_op_kind x) = Some (session_view (ss_state s'))
   \<and> session_acceptable decode1 decode2 (ss_stream_config s) x"
  by (cases x; cases "ss_state s") (auto simp: session_ops split: if_splits sum.splits option.splits)

lemma session_step_progress:
  "life_step 4 (session_view (ss_state s)) (session_op_kind x) = Some v \<Longrightarrow>
   session_acceptable decode1 decode2 (ss_stream_config s) x \<Longrightarrow> \<exists>s'. session_step decode1 decode2 s x = (s', Inr ())"
  by (cases x; cases "ss_state s") (auto simp: session_ops split: if_splits sum.splits option.splits)

lemma session_step_settings: "ss_stream_config (fst (session_step decode1 decode2 s x)) = ss_stream_config s"
  by (cases x) (auto simp: session_ops split: sum.splits option.splits session_state.splits)

interpretation airplay2: staged_session 4 session_op_kind "session_step decode1 decode2"
    "\<lambda>s. session_view (ss_state s)" ss_stream_config "session_acceptable decode1 decode2"
  for decode1 decode2
proof unfold_locales
  show "0 < (4 :: nat)" by simp
qed (fact session_step_rejected session_step_accepted session_step_progress session_step_settings)+

section \<open>What a session accepts\<close>

text \<open>
  C34: A new session accepts a sequence of operations exactly if they come in the order connect, pair,
  phase 1, phase 2, then play and pause in alternation, then a teardown, broken off anywhere but
  not torn down before it is connected, and the two responses are readable and name a stream of
  the session's type. In any other sequence some operation fails.
\<close>

theorem session_order:
  "(\<exists>s. run_all (session_step decode1 decode2) (session_new sid gid port conn eiv ekey shk dev config) xs = Inr s)
   \<longleftrightarrow> protocol_word 4 (map session_op_kind xs) \<and> list_all (session_acceptable decode1 decode2 config) xs"
  using airplay2.run_all_iff [of "session_new sid gid port conn eiv ekey shk dev config" decode1 decode2 xs]
  by (simp add: session_new_def)

lemma op_of_kind:
  "session_op_kind x = Advance 0 \<longleftrightarrow> x = Set_Connected" "session_op_kind x = Advance 1 \<longleftrightarrow> x = Set_Paired"
  "session_op_kind x = Advance 2 \<longleftrightarrow> (\<exists>d. x = Phase1_Response d)" "session_op_kind x = Advance 3 \<longleftrightarrow> (\<exists>d. x = Phase2_Response d)"
  by (cases x; simp)+

lemma ports_settle:
  "ss_state s \<in> {Session_Ready, Session_Playing, Session_Paused, Session_TearingDown} \<Longrightarrow>
   run_all (session_step decode1 decode2) s xs = Inr s' \<Longrightarrow> ss_ports s' = ss_ports s"
proof (induction xs arbitrary: s)
  case Nil
  then show ?case by simp
next
  case (Cons x xs)
  obtain s1 r where x: "session_step decode1 decode2 s x = (s1, r)" by fastforce
  then have "r = Inr () \<and> run_all (session_step decode1 decode2) s1 xs = Inr s'"
    using Cons.prems(2) by (cases r) simp_all
  moreover from this have "ss_ports s1 = ss_ports s
      \<and> ss_state s1 \<in> {Session_Ready, Session_Playing, Session_Paused, Session_TearingDown}"
    using x Cons.prems(1) by (cases x) (auto simp: session_ops split: if_splits sum.splits option.splits session_state.splits)
  ultimately show ?case using Cons.IH [of s1] by simp
qed

text \<open>
  A session that is ready, plays or pauses has the event and timing port of the phase 1 response
  and the data and control port of the first stream of its type in the phase 2 response, whatever
  was played and paused since.
\<close>

theorem session_ports_announced:
  assumes run: "run_all (session_step decode1 decode2) (session_new sid gid port conn eiv ekey shk dev config) xs = Inr s"
    and ready: "ss_state s \<in> {Session_Ready, Session_Playing, Session_Paused}"
  shows "\<exists>d1 d2 rest r streams st.
     xs = Set_Connected # Set_Paired # Phase1_Response d1 # Phase2_Response d2 # rest
     \<and> decode1 d1 = Inr r \<and> decode2 d2 = Inr streams \<and> our_stream config streams = Some st
     \<and> ss_ports s = Some \<lparr>po_data_port = sr_data_port st, po_control_port = sr_control_port st,
          po_timing_port = r1_timing_port r, po_event_port = r1_event_port r\<rparr>"
proof -
  let ?s0 = "session_new sid gid port conn eiv ekey shk dev config" and ?step = "session_step decode1 decode2"
  have "\<exists>rest. map session_op_kind xs = map Advance [0..<4] @ rest"
    by (rule airplay2.run_all_reached [OF _ run]) (use ready in \<open>auto simp: session_new_def\<close>)
  moreover have "map Advance [0..<4] = [Advance 0, Advance 1, Advance 2, Advance 3]" by (simp add: upt_rec)
  ultimately obtain d1 d2 rest where xs: "xs = Set_Connected # Set_Paired # Phase1_Response d1 # Phase2_Response d2 # rest"
    using op_of_kind by (auto simp: map_eq_Cons_conv simp del: One_nat_def)
  have ok: "list_all (session_acceptable decode1 decode2 config) xs"
    using run airplay2.run_all_iff [of ?s0 decode1 decode2 xs] by (simp add: session_new_def)
  then obtain r where r: "decode1 d1 = Inr r" unfolding xs by (cases "decode1 d1") auto
  obtain streams st where st: "decode2 d2 = Inr streams" "our_stream config streams = Some st"
    using ok unfolding xs by (cases "decode2 d2") auto
  define ports where "ports = \<lparr>po_data_port = sr_data_port st, po_control_port = sr_control_port st,
    po_timing_port = r1_timing_port r, po_event_port = r1_event_port r\<rparr>"
  have "run_all ?step (?s0\<lparr>ss_ports := Some ports, ss_state := Session_Ready\<rparr>) rest = Inr s"
    using run r st by (simp add: xs session_new_def session_ops ports_def)
  from ports_settle [OF _ this] have "ss_ports s = Some ports" by simp
  then show ?thesis using xs r st by (auto simp: ports_def)
qed

text \<open>A concrete run: a response decoder that reads fixed bodies.\<close>

definition demo_phase1 :: "setup_phase1_response plist_decoder" where
  "demo_phase1 d = (if d = [1] then Inr \<lparr>r1_event_port = 7001, r1_timing_port = 0, r1_timing_peer_info = None\<rparr> else Inl [])"

definition demo_phase2 :: "setup_phase2_response plist_decoder" where
  "demo_phase2 d = (if d = [2] then Inr [\<lparr>sr_stream_type = 96, sr_data_port = 7002, sr_control_port = 7003, sr_stream_id = 1\<rparr>] else Inl [])"

lemma demo_session:
  "\<exists>s. run_all (session_step demo_phase1 demo_phase2) (session_new sid gid port conn eiv ekey shk dev stream_config_default)
     [Set_Connected, Set_Paired, Phase1_Response [1], Phase2_Response [2], Start_Playing] = Inr s \<and> ss_state s = Session_Playing"
  by (simp add: session_ops session_new_def demo_phase1_def demo_phase2_def our_stream_def stream_config_default_def)

theorem session_ports_announced_witness:
  "\<forall>dev. \<exists>s. run_all (session_step demo_phase1 demo_phase2) (session_new 1 2 5000 7 [] [] [] dev stream_config_default)
     [Set_Connected, Set_Paired, Phase1_Response [1], Phase2_Response [2], Start_Playing] = Inr s
   \<and> ss_ports s = Some \<lparr>po_data_port = 7002, po_control_port = 7003, po_timing_port = 0, po_event_port = 7001\<rparr>"
proof
  fix dev
  obtain s where s: "run_all (session_step demo_phase1 demo_phase2) (session_new 1 2 5000 7 [] [] [] dev stream_config_default)
     [Set_Connected, Set_Paired, Phase1_Response [1], Phase2_Response [2], Start_Playing] = Inr s" "ss_state s = Session_Playing"
    using demo_session by blast
  from session_ports_announced [OF s(1)] s
  show "\<exists>s. run_all (session_step demo_phase1 demo_phase2) (session_new 1 2 5000 7 [] [] [] dev stream_config_default)
     [Set_Connected, Set_Paired, Phase1_Response [1], Phase2_Response [2], Start_Playing] = Inr s
   \<and> ss_ports s = Some \<lparr>po_data_port = 7002, po_control_port = 7003, po_timing_port = 0, po_event_port = 7001\<rparr>"
    by (auto simp: demo_phase1_def demo_phase2_def our_stream_def stream_config_default_def)
qed

text \<open>
  The AudioSpecificConfig of phase 2 ignores the format: for every AAC stream without a descriptor
  of its own, whatever its object type, sample rate and channel count, the receiver is told AAC-LC
  at 44100 Hz in stereo.
\<close>

definition audio_specific_config :: "nat \<Rightarrow> nat \<Rightarrow> nat \<Rightarrow> u8 list" where
  "audio_specific_config object_type rate_index channels =
     [of_nat (object_type * 8 + rate_index div 2), of_nat (rate_index mod 2 * 128 + channels * 8)]"

lemma asc_ignores_format:
  assumes "sc_asc (ss_stream_config s) = None" "fm_codec (sc_audio_format (ss_stream_config s)) \<in> {Aac, AacEld}"
  shows "sd_asc (phase2_stream s) = Some (audio_specific_config 2 4 2)
     \<and> sd_sample_rate (phase2_stream s) = as_hz (fm_sample_rate (sc_audio_format (ss_stream_config s)))"
  using assms by (auto simp: phase2_stream_def Let_def phase2_asc_def audio_specific_config_def)

end
