(* ===== verification/Raop_Session.thy ===== *)
theory Raop_Session
  imports Rtsp_Session
begin

text \<open>
  The AirPlay 1 session (\<open>crates/airplay-rtsp/src/raop_session.rs\<close>): its states, the Transport header it
  sends and the one it reads.
\<close>

section \<open>State\<close>

datatype raop_session_state =
    Raop_Disconnected | Raop_Connected | Raop_Announced | Raop_SetupComplete
  | Raop_Playing | Raop_Paused | Raop_TearingDown

fun raop_state_name :: "raop_session_state \<Rightarrow> string" where
  "raop_state_name Raop_Disconnected = ''Disconnected''"
| "raop_state_name Raop_Connected = ''Connected''"
| "raop_state_name Raop_Announced = ''Announced''"
| "raop_state_name Raop_SetupComplete = ''SetupComplete''"
| "raop_state_name Raop_Playing = ''Playing''"
| "raop_state_name Raop_Paused = ''Paused''"
| "raop_state_name Raop_TearingDown = ''TearingDown''"

record raop_ports =
  rpo_server_port :: u16
  rpo_control_port :: u16
  rpo_timing_port :: u16

record raop_session =
  rs2_state :: raop_session_state
  rs2_aes_key :: "u8 list"
  rs2_aes_iv :: "u8 list"
  rs2_stream_connection_id :: u32
  rs2_audio_format :: audio_format
  rs2_stream_config :: stream_config
  rs2_ports :: "raop_ports option"
  rs2_local_control_port :: u16
  rs2_local_timing_port :: u16
  rs2_request_host :: "string option"
  rs2_client_device_id :: string

definition raop_session_new :: "u8 list \<Rightarrow> u8 list \<Rightarrow> u32 \<Rightarrow> u16 \<Rightarrow> u16 \<Rightarrow> stream_config \<Rightarrow> string \<Rightarrow> raop_session" where
  "raop_session_new aes_key aes_iv connection_id control_port timing_port config ident =
     \<lparr>rs2_state = Raop_Disconnected, rs2_aes_key = aes_key, rs2_aes_iv = aes_iv,
      rs2_stream_connection_id = connection_id, rs2_audio_format = sc_audio_format config, rs2_stream_config = config,
      rs2_ports = None, rs2_local_control_port = control_port, rs2_local_timing_port = timing_port,
      rs2_request_host = None, rs2_client_device_id = ident\<rparr>"

definition raop_set_local_control_port :: "raop_session \<Rightarrow> u16 \<Rightarrow> raop_session" where
  "raop_set_local_control_port s port = s\<lparr>rs2_local_control_port := port\<rparr>"

definition raop_set_local_timing_port :: "raop_session \<Rightarrow> u16 \<Rightarrow> raop_session" where
  "raop_set_local_timing_port s port = s\<lparr>rs2_local_timing_port := port\<rparr>"

definition raop_set_request_host :: "raop_session \<Rightarrow> string \<Rightarrow> raop_session" where
  "raop_set_request_host s host = s\<lparr>rs2_request_host := Some host\<rparr>"

definition raop_request_uri :: "raop_session \<Rightarrow> string" where
  "raop_request_uri s =
     ''rtsp://'' @ uri_host (rs2_request_host s) @ ''/'' @ digits (unat (rs2_stream_connection_id s))"

section \<open>The Transport header\<close>

definition build_transport_header :: "raop_session \<Rightarrow> string" where
  "build_transport_header s =
     ''RTP/AVP/UDP;unicast;interleaved=0-1;mode=record;control_port='' @ digits (unat (rs2_local_control_port s))
     @ '';timing_port='' @ digits (unat (rs2_local_timing_port s))"

text \<open>The three ports read so far.\<close>

type_synonym port_fields = "nat option \<times> nat option \<times> nat option"

definition port_value :: "string \<Rightarrow> nat option" where
  "port_value v = parse_dec 65536 v"

definition transport_part :: "port_fields \<Rightarrow> string \<Rightarrow> port_fields" where
  "transport_part ports p =
     (let part = trim p; (server, control, timing) = ports
      in case strip_prefix ''server_port='' part of
           Some v \<Rightarrow> (port_value v, control, timing)
         | None \<Rightarrow>
             (case strip_prefix ''control_port='' part of
                Some v \<Rightarrow> (server, port_value v, timing)
              | None \<Rightarrow>
                  (case strip_prefix ''timing_port='' part of
                     Some v \<Rightarrow> (server, control, port_value v)
                   | None \<Rightarrow> (server, control, timing))))"

definition port_or_zero :: "nat option \<Rightarrow> u16" where
  "port_or_zero p = (case p of Some n \<Rightarrow> of_nat n | None \<Rightarrow> 0)"

text \<open>The source declares a result but never fails.\<close>

definition parse_transport_header :: "string \<Rightarrow> raop_ports" where
  "parse_transport_header header =
     (case foldl transport_part (None, None, None) (split_on CHR '';'' header) of
        (server, control, timing) \<Rightarrow>
          \<lparr>rpo_server_port = port_or_zero server, rpo_control_port = port_or_zero control,
           rpo_timing_port = port_or_zero timing\<rparr>)"

section \<open>Transitions\<close>

definition raop_move_to ::
    "string \<Rightarrow> raop_session_state set \<Rightarrow> raop_session_state \<Rightarrow> raop_session \<Rightarrow> raop_session \<times> (rtsp_error + unit)" where
  "raop_move_to what from_states st s =
     (if rs2_state s \<notin> from_states
      then (s, Inl (SetupFailed (''Cannot '' @ what @ '' from state '' @ raop_state_name (rs2_state s))))
      else (s\<lparr>rs2_state := st\<rparr>, Inr ()))"

definition raop_set_connected :: "raop_session \<Rightarrow> raop_session \<times> (rtsp_error + unit)" where
  "raop_set_connected = raop_move_to ''connect'' {Raop_Disconnected} Raop_Connected"

definition raop_set_announced :: "raop_session \<Rightarrow> raop_session \<times> (rtsp_error + unit)" where
  "raop_set_announced = raop_move_to ''announce'' {Raop_Connected} Raop_Announced"

definition raop_process_setup_response :: "raop_session \<Rightarrow> string \<Rightarrow> raop_session \<times> (rtsp_error + unit)" where
  "raop_process_setup_response s transport_header =
     (if rs2_state s \<noteq> Raop_Announced
      then (s, Inl (SetupFailed (''Cannot process SETUP from state '' @ raop_state_name (rs2_state s))))
      else (s\<lparr>rs2_ports := Some (parse_transport_header transport_header), rs2_state := Raop_SetupComplete\<rparr>, Inr ()))"

definition raop_start_playing :: "raop_session \<Rightarrow> raop_session \<times> (rtsp_error + unit)" where
  "raop_start_playing = raop_move_to ''start playing'' {Raop_SetupComplete, Raop_Paused} Raop_Playing"

definition raop_pause :: "raop_session \<Rightarrow> raop_session \<times> (rtsp_error + unit)" where
  "raop_pause = raop_move_to ''pause'' {Raop_Playing} Raop_Paused"

definition raop_start_teardown :: "raop_session \<Rightarrow> raop_session \<times> (rtsp_error + unit)" where
  "raop_start_teardown s =
     (case rs2_state s of
        Raop_Disconnected \<Rightarrow> (s, Inl (SetupFailed ''Not connected''))
      | Raop_TearingDown \<Rightarrow> (s, Inl (SetupFailed ''Already tearing down''))
      | _ \<Rightarrow> (s\<lparr>rs2_state := Raop_TearingDown\<rparr>, Inr ()))"

section \<open>The session as a staged session\<close>

datatype raop_op =
    Raop_Set_Connected | Raop_Set_Announced | Raop_Setup_Response string | Raop_Start_Playing | Raop_Pause | Raop_Start_Teardown

fun raop_step :: "raop_session \<Rightarrow> raop_op \<Rightarrow> raop_session \<times> (rtsp_error + unit)" where
  "raop_step s Raop_Set_Connected = raop_set_connected s"
| "raop_step s Raop_Set_Announced = raop_set_announced s"
| "raop_step s (Raop_Setup_Response h) = raop_process_setup_response s h"
| "raop_step s Raop_Start_Playing = raop_start_playing s"
| "raop_step s Raop_Pause = raop_pause s"
| "raop_step s Raop_Start_Teardown = raop_start_teardown s"

fun raop_op_kind :: "raop_op \<Rightarrow> op_kind" where
  "raop_op_kind Raop_Set_Connected = Advance 0"
| "raop_op_kind Raop_Set_Announced = Advance 1"
| "raop_op_kind (Raop_Setup_Response _) = Advance 2"
| "raop_op_kind Raop_Start_Playing = Play"
| "raop_op_kind Raop_Pause = Pause"
| "raop_op_kind Raop_Start_Teardown = Close"

fun raop_view :: "raop_session_state \<Rightarrow> life" where
  "raop_view Raop_Disconnected = Opening 0"
| "raop_view Raop_Connected = Opening 1"
| "raop_view Raop_Announced = Opening 2"
| "raop_view Raop_SetupComplete = Opening 3"
| "raop_view Raop_Playing = Active True"
| "raop_view Raop_Paused = Active False"
| "raop_view Raop_TearingDown = Closed"

lemmas raop_ops = raop_set_connected_def raop_set_announced_def raop_start_playing_def raop_pause_def
  raop_start_teardown_def raop_move_to_def raop_process_setup_response_def

lemma raop_step_rejected: "raop_step s x = (s', Inl e) \<Longrightarrow> s' = s"
  by (cases x) (auto simp: raop_ops split: if_splits raop_session_state.splits)

lemma raop_step_accepted:
  "raop_step s x = (s', Inr u) \<Longrightarrow> life_step 3 (raop_view (rs2_state s)) (raop_op_kind x) = Some (raop_view (rs2_state s')) \<and> True"
  by (cases x; cases "rs2_state s") (auto simp: raop_ops)

lemma raop_step_progress:
  "life_step 3 (raop_view (rs2_state s)) (raop_op_kind x) = Some v \<Longrightarrow> True \<Longrightarrow> \<exists>s'. raop_step s x = (s', Inr ())"
  by (cases x; cases "rs2_state s") (auto simp: raop_ops split: if_splits)

lemma raop_step_settings: "rs2_stream_config (fst (raop_step s x)) = rs2_stream_config s"
  by (cases x) (auto simp: raop_ops split: raop_session_state.splits)

interpretation airplay1: staged_session 3 raop_op_kind raop_step "\<lambda>s. raop_view (rs2_state s)" rs2_stream_config "\<lambda>_ _. True"
proof unfold_locales
  show "0 < (3 :: nat)" by simp
qed (fact raop_step_rejected raop_step_accepted raop_step_progress raop_step_settings)+

text \<open>
  A new RAOP session accepts a sequence of operations exactly if they come in the order connect,
  announce, setup, then play and pause in alternation, then a teardown, broken off anywhere but
  not torn down before it is connected. No Transport header makes it fail.
\<close>

theorem raop_session_order:
  "(\<exists>s. run_all raop_step (raop_session_new key iv conn cport tport config ident) xs = Inr s)
   \<longleftrightarrow> protocol_word 3 (map raop_op_kind xs)"
  using airplay1.run_all_iff [of "raop_session_new key iv conn cport tport config ident" xs]
  by (simp add: raop_session_new_def list_all_iff)

section \<open>Reading the header\<close>

lemma split_on_join: "list_all (\<lambda>p. c \<notin> set p) ps \<Longrightarrow> ps \<noteq> [] \<Longrightarrow> split_on c (join_with [c] ps) = ps"
  by (induction "[c]" ps rule: join_with.induct) (simp_all add: split_on_none split_on_sep)

definition other_part :: "string \<Rightarrow> bool" where
  "other_part p \<longleftrightarrow> CHR '';'' \<notin> set p
     \<and> list_all (\<lambda>name. \<not> starts_with name (trim p)) [''server_port='', ''control_port='', ''timing_port='']"

lemma other_parts_ignored: "list_all other_part ps \<Longrightarrow> foldl transport_part ports ps = ports"
  by (induction ps arbitrary: ports)
    (simp_all add: transport_part_def other_part_def strip_prefix_def split: prod.split)

lemma port_part:
  assumes "name \<in> {''server_port='', ''control_port='', ''timing_port=''}"
  shows "CHR '';'' \<notin> set (name @ digits n)" "trim (name @ digits n) = name @ digits n"
proof -
  show "CHR '';'' \<notin> set (name @ digits n)" using assms digits_chars [of "CHR '';''" n] by (auto simp: in_range_def)
  have "graphic (hd (name @ digits n))" "graphic (last (name @ digits n))"
    using assms digits_chars [of "last (digits n)" n] by (auto simp: in_range_def)
  then show "trim (name @ digits n) = name @ digits n" by (intro trim_graphic) auto
qed

lemma starts_with_append [simp]: "starts_with p (p @ s)"
  by (induction p) simp_all

lemma transport_part_port:
  "transport_part (sv, ct, tm) (''server_port='' @ digits n) = (port_value (digits n), ct, tm)"
  "transport_part (sv, ct, tm) (''control_port='' @ digits n) = (sv, port_value (digits n), tm)"
  "transport_part (sv, ct, tm) (''timing_port='' @ digits n) = (sv, ct, port_value (digits n))"
  using port_part(2) [of "''server_port=''" n] port_part(2) [of "''control_port=''" n] port_part(2) [of "''timing_port=''" n]
  by (simp_all add: transport_part_def strip_prefix_def)

lemma port_value_digits: "port_or_zero (port_value (digits (unat (p :: u16)))) = p"
proof -
  have "unat p < 2 ^ LENGTH(16)" by (rule unsigned_less)
  then show ?thesis using parse_digits [of "unat p" 65536] by (simp add: port_value_def port_or_zero_def)
qed

lemma parse_transport_parts:
  assumes "list_all (\<lambda>p. CHR '';'' \<notin> set p) ps" "ps \<noteq> []"
  shows "parse_transport_header (join_with '';'' ps) =
     (case foldl transport_part (None, None, None) ps of
        (server, control, timing) \<Rightarrow>
          \<lparr>rpo_server_port = port_or_zero server, rpo_control_port = port_or_zero control, rpo_timing_port = port_or_zero timing\<rparr>)"
  unfolding parse_transport_header_def split_on_join [OF assms] by (rule refl)

lemma other_part_examples:
  "list_all other_part [''RTP/AVP/UDP'', ''unicast'', ''interleaved=0-1'', ''mode=record'']"
proof -
  have "trim p = p" if "p \<in> {''RTP/AVP/UDP'', ''unicast'', ''interleaved=0-1'', ''mode=record''}" for p
    using that by (intro trim_graphic) (auto simp: in_range_def)
  then show ?thesis by (simp add: other_part_def)
qed

text \<open>
  The Transport header of an answer: whatever other parameters come first, the three ports are read
  as they are written. The header a session sends carries its own control and timing port.
\<close>

theorem transport_roundtrip:
  assumes "list_all other_part others"
  shows "parse_transport_header (join_with '';'' (others
       @ [''server_port='' @ digits (unat sp), ''control_port='' @ digits (unat cp), ''timing_port='' @ digits (unat tp)]))
       = \<lparr>rpo_server_port = sp, rpo_control_port = cp, rpo_timing_port = tp\<rparr>
     \<and> parse_transport_header (build_transport_header s)
       = \<lparr>rpo_server_port = 0, rpo_control_port = rs2_local_control_port s, rpo_timing_port = rs2_local_timing_port s\<rparr>"
proof
  let ?ps = "others @ [''server_port='' @ digits (unat sp), ''control_port='' @ digits (unat cp), ''timing_port='' @ digits (unat tp)]"
  have "list_all (\<lambda>p. CHR '';'' \<notin> set p) ?ps"
    using assms port_part(1) by (auto simp: list_all_iff other_part_def)
  from parse_transport_parts [OF this]
  show "parse_transport_header (join_with '';'' ?ps) = \<lparr>rpo_server_port = sp, rpo_control_port = cp, rpo_timing_port = tp\<rparr>"
    using other_parts_ignored [OF assms] by (simp only: foldl_append foldl.simps transport_part_port prod.case port_value_digits) simp
next
  let ?own = "[''RTP/AVP/UDP'', ''unicast'', ''interleaved=0-1'', ''mode=record'']
     @ [''control_port='' @ digits (unat (rs2_local_control_port s)), ''timing_port='' @ digits (unat (rs2_local_timing_port s))]"
  have parts: "build_transport_header s = join_with '';'' ?own" by (simp add: build_transport_header_def)
  have clean: "list_all (\<lambda>p. CHR '';'' \<notin> set p) ?own" using port_part(1) by auto
  have read: "foldl transport_part (None, None, None) ?own =
     (None, port_value (digits (unat (rs2_local_control_port s))), port_value (digits (unat (rs2_local_timing_port s))))"
    unfolding foldl_append other_parts_ignored [OF other_part_examples] by (simp only: foldl.simps transport_part_port)
  have none: "port_or_zero None = 0" by (simp add: port_or_zero_def)
  have some: "?own \<noteq> []" by simp
  show "parse_transport_header (build_transport_header s)
       = \<lparr>rpo_server_port = 0, rpo_control_port = rs2_local_control_port s, rpo_timing_port = rs2_local_timing_port s\<rparr>"
    unfolding parts parse_transport_parts [OF clean some] read prod.case port_value_digits none by (rule refl)
qed

theorem transport_roundtrip_witness:
  "parse_transport_header (join_with '';'' ([''RTP/AVP/UDP'', ''unicast'', ''interleaved=0-1'', ''mode=record'']
       @ [''server_port='' @ digits (unat (6000 :: u16)), ''control_port='' @ digits (unat (6001 :: u16)), ''timing_port='' @ digits (unat (6002 :: u16))]))
     = \<lparr>rpo_server_port = 6000, rpo_control_port = 6001, rpo_timing_port = 6002\<rparr>"
  using transport_roundtrip [OF other_part_examples, of 6000 6001 6002] by blast

end
