(* ===== verification/Key_Schedule.thy ===== *)
theory Key_Schedule
  imports Rust_Text Crypto_Properties Tlv
begin

text \<open>
  The primitives behind pairing and the code that calls them: HKDF labels (\<open>airplay-crypto/src/hkdf.rs\<close>),
  session keys (\<open>keys.rs\<close>), the checks around X25519 (\<open>curve25519.rs\<close>) and Ed25519 signatures
  (\<open>ed25519.rs\<close>). The primitives themselves come from other crates and are one record of functions;
  \<open>primitives_ok\<close> states what their documentation promises.
\<close>

section \<open>Primitives\<close>

record primitives =
  pr_sha512 :: "u8 list \<Rightarrow> u8 list"
  pr_hkdf :: "u8 list \<Rightarrow> u8 list \<Rightarrow> u8 list \<Rightarrow> nat \<Rightarrow> u8 list option"
  pr_x25519 :: "u8 list \<Rightarrow> u8 list \<Rightarrow> u8 list"
  pr_x25519_base :: "u8 list \<Rightarrow> u8 list"
  pr_ed_public :: "u8 list \<Rightarrow> u8 list"
  pr_ed_sign :: "u8 list \<Rightarrow> u8 list \<Rightarrow> u8 list"
  pr_ed_verify :: "u8 list \<Rightarrow> u8 list \<Rightarrow> u8 list \<Rightarrow> bool"
  pr_seal :: seal_fun
  pr_open :: open_fun

text \<open>Lengths of hashes, keys and signatures; a signature verifies under the key of its seed; a
  Diffie-Hellman secret is the same from both sides; a derivation of at most 255 hashes succeeds;
  what is sealed opens.\<close>

definition primitives_ok :: "primitives \<Rightarrow> bool" where
  "primitives_ok pr \<longleftrightarrow>
     (\<forall>m. length (pr_sha512 pr m) = 64)
   \<and> (\<forall>salt ikm info n. n \<le> 255 * 64 \<longrightarrow> (\<exists>k. pr_hkdf pr salt ikm info n = Some k \<and> length k = n))
   \<and> (\<forall>a b. pr_x25519 pr a (pr_x25519_base pr b) = pr_x25519 pr b (pr_x25519_base pr a))
   \<and> (\<forall>a. length (pr_x25519_base pr a) = 32)
   \<and> (\<forall>seed. length (pr_ed_public pr seed) = 32)
   \<and> (\<forall>seed m. length (pr_ed_sign pr seed m) = 64 \<and> pr_ed_verify pr (pr_ed_public pr seed) m (pr_ed_sign pr seed m))
   \<and> aead_ok (pr_seal pr) (pr_open pr) \<and> seals_blocks (pr_seal pr)"

section \<open>Key derivation\<close>

definition derive_key :: "primitives \<Rightarrow> u8 list \<Rightarrow> u8 list \<Rightarrow> u8 list \<Rightarrow> nat \<Rightarrow> crypto_error + u8 list" where
  "derive_key pr ikm salt info n =
     (case pr_hkdf pr salt ikm info n of Some okm \<Rightarrow> Inr okm | None \<Rightarrow> Inl (KeyDerivation ''HKDF expand failed''))"

definition derive_key_32 :: "primitives \<Rightarrow> u8 list \<Rightarrow> u8 list \<Rightarrow> u8 list \<Rightarrow> crypto_error + u8 list" where
  "derive_key_32 pr ikm salt info = derive_key pr ikm salt info 32"

definition derive_pair_setup_key :: "primitives \<Rightarrow> u8 list \<Rightarrow> crypto_error + u8 list" where
  "derive_pair_setup_key pr secret =
     derive_key_32 pr secret (bytes_of ''Pair-Setup-Encrypt-Salt'') (bytes_of ''Pair-Setup-Encrypt-Info'')"

definition derive_pair_verify_key :: "primitives \<Rightarrow> u8 list \<Rightarrow> crypto_error + u8 list" where
  "derive_pair_verify_key pr secret =
     derive_key_32 pr secret (bytes_of ''Pair-Verify-Encrypt-Salt'') (bytes_of ''Pair-Verify-Encrypt-Info'')"

definition derive_control_write_key :: "primitives \<Rightarrow> u8 list \<Rightarrow> crypto_error + u8 list" where
  "derive_control_write_key pr secret =
     derive_key_32 pr secret (bytes_of ''Control-Salt'') (bytes_of ''Control-Write-Encryption-Key'')"

definition derive_control_read_key :: "primitives \<Rightarrow> u8 list \<Rightarrow> crypto_error + u8 list" where
  "derive_control_read_key pr secret =
     derive_key_32 pr secret (bytes_of ''Control-Salt'') (bytes_of ''Control-Read-Encryption-Key'')"

record session_keys =
  sk_write_key :: "u8 list"
  sk_read_key :: "u8 list"

definition derive_control_keys :: "primitives \<Rightarrow> u8 list \<Rightarrow> crypto_error + session_keys" where
  "derive_control_keys pr secret =
     (case derive_control_write_key pr secret of
        Inl e \<Rightarrow> Inl e
      | Inr w \<Rightarrow> (case derive_control_read_key pr secret of
                    Inl e \<Rightarrow> Inl e
                  | Inr r \<Rightarrow> Inr \<lparr>sk_write_key = w, sk_read_key = r\<rparr>))"

section \<open>Diffie-Hellman and signatures\<close>

text \<open>An \<open>EcdhKeyPair\<close> is its secret; the public key is computed from it.\<close>

definition diffie_hellman :: "primitives \<Rightarrow> u8 list \<Rightarrow> u8 list \<Rightarrow> crypto_error + u8 list" where
  "diffie_hellman pr secret peer_public =
     (if list_all (\<lambda>b. b = 0) peer_public then Inl (Encryption ''Invalid peer public key: all zeros'')
      else let shared = pr_x25519 pr secret peer_public
           in if list_all (\<lambda>b. b = 0) shared
              then Inl (Encryption ''Weak ECDH: shared secret is all zeros (low-order point)'')
              else Inr shared)"

text \<open>The error texts of \<open>thiserror\<close>, where the source formats an error into another one.\<close>

fun crypto_error_text :: "crypto_error \<Rightarrow> string" where
  "crypto_error_text (Encryption s) = ''Encryption failed: '' @ s"
| "crypto_error_text (Decryption s) = ''Decryption failed: '' @ s"
| "crypto_error_text (KeyDerivation s) = ''Key derivation failed: '' @ s"
| "crypto_error_text (InvalidKeyLength expected actual) =
     ''Invalid key length: expected '' @ digits expected @ '', got '' @ digits actual"
| "crypto_error_text AuthTagMismatch = ''Authentication tag mismatch''"

fun tlv_error_message :: "tlv_error \<Rightarrow> string" where
  "tlv_error_message Truncated_Header = ''TLV8: truncated header''"
| "tlv_error_message (Truncated_Value expected got) =
     ''TLV8: truncated value (expected '' @ digits expected @ '' bytes, got '' @ digits got @ '')''"

definition tlv_error_text :: "tlv_error \<Rightarrow> string" where
  "tlv_error_text e = ''Invalid format: '' @ tlv_error_message e"

section \<open>What the laws give\<close>

lemma derive_key_ok:
  assumes "primitives_ok pr" "n \<le> 255 * 64"
  shows "\<exists>k. derive_key pr ikm salt info n = Inr k \<and> length k = n"
proof -
  from assms have "\<exists>k. pr_hkdf pr salt ikm info n = Some k \<and> length k = n"
    unfolding primitives_ok_def by blast
  then show ?thesis by (auto simp: derive_key_def)
qed

lemma derive_key_32_ok: "primitives_ok pr \<Longrightarrow> \<exists>k. derive_key_32 pr ikm salt info = Inr k \<and> length k = 32"
  unfolding derive_key_32_def by (rule derive_key_ok) simp_all

lemma control_keys_ok:
  assumes "primitives_ok pr"
  shows "\<exists>w r. derive_control_keys pr secret = Inr \<lparr>sk_write_key = w, sk_read_key = r\<rparr>"
  using derive_key_32_ok [OF assms, of secret "bytes_of ''Control-Salt''" "bytes_of ''Control-Write-Encryption-Key''"]
    derive_key_32_ok [OF assms, of secret "bytes_of ''Control-Salt''" "bytes_of ''Control-Read-Encryption-Key''"]
  by (auto simp: derive_control_keys_def derive_control_write_key_def derive_control_read_key_def)

lemma pairing_seal_open:
  assumes "primitives_ok pr" "length msg \<le> MAX_BLOCK"
  shows "\<exists>ct. pairing_encrypt (pr_seal pr) key nonce msg = Inr ct \<and> pairing_decrypt (pr_open pr) key nonce ct = Inr msg
     \<and> length ct = length msg + 16"
proof -
  obtain ct where "pr_seal pr key nonce [] msg = Inr ct"
    using assms seals_block [of "pr_seal pr" msg key nonce "[]"] by (auto simp: primitives_ok_def)
  moreover from this have "length ct = length msg + 16" "pr_open pr key nonce [] ct = Some msg"
    using assms(1) by (auto simp: primitives_ok_def aead_ok_def)
  ultimately show ?thesis by (simp add: pairing_encrypt_def pairing_decrypt_def)
qed

lemma signature_ok:
  assumes "primitives_ok pr"
  shows "length (pr_ed_public pr seed) = 32" "length (pr_ed_sign pr seed m) = 64"
    "pr_ed_verify pr (pr_ed_public pr seed) m (pr_ed_sign pr seed m)"
  using assms unfolding primitives_ok_def by blast+

text \<open>Functions that keep the laws, for concrete runs.\<close>

definition demo_primitives :: primitives where
  "demo_primitives =
     \<lparr>pr_sha512 = (\<lambda>m. replicate 63 0 @ [1]), pr_hkdf = (\<lambda>salt ikm info n. Some (replicate n 1)),
      pr_x25519 = (\<lambda>a b. replicate 32 3), pr_x25519_base = (\<lambda>a. replicate 32 5),
      pr_ed_public = (\<lambda>seed. replicate 32 200), pr_ed_sign = (\<lambda>seed m. replicate 64 7),
      pr_ed_verify = (\<lambda>pk m sig. sig = replicate 64 7), pr_seal = plain_seal, pr_open = plain_open\<rparr>"

lemma demo_primitives_ok: "primitives_ok demo_primitives"
  unfolding primitives_ok_def demo_primitives_def by (simp add: plain_aead)

end
