(* ===== verification/Srp.thy ===== *)
theory Srp
  imports Key_Schedule
begin

text \<open>
  SRP-6a as the client runs it (\<open>airplay-crypto/src/srp.rs\<close>), over the natural numbers with the hash as
  a parameter, and the accessory's side as the repository's own pair-setup server computes it.
\<close>

section \<open>Numbers as bytes\<close>

definition from_bytes_be :: "u8 list \<Rightarrow> nat" where
  "from_bytes_be bs = foldl (\<lambda>n b. 256 * n + unat b) 0 bs"

fun to_bytes_be :: "nat \<Rightarrow> u8 list" where
  "to_bytes_be n = (if n < 256 then [of_nat n] else to_bytes_be (n div 256) @ [of_nat (n mod 256)])"

declare to_bytes_be.simps [simp del]

definition N_BYTES :: nat where "N_BYTES = 384"

definition pad_to_n :: "nat \<Rightarrow> u8 list" where
  "pad_to_n v =
     (let bytes = to_bytes_be v
      in if N_BYTES \<le> length bytes then drop (length bytes - N_BYTES) bytes
         else replicate (N_BYTES - length bytes) 0 @ bytes)"

section \<open>Parameters and client\<close>

record srp_params =
  sp_n :: nat
  sp_g :: nat

definition RFC5054_N_3072 :: nat where
  "RFC5054_N_3072 = 0xFFFFFFFFFFFFFFFFC90FDAA22168C234C4C6628B80DC1CD129024E088A67CC74020BBEA63B139B22514A08798E3404DDEF9519B3CD3A431B302B0A6DF25F14374FE1356D6D51C245E485B576625E7EC6F44C42E9A637ED6B0BFF5CB6F406B7EDEE386BFB5A899FA5AE9F24117C4B1FE649286651ECE45B3DC2007CB8A163BF0598DA48361C55D39A69163FA8FD24CF5F83655D23DCA3AD961C62F356208552BB9ED529077096966D670C354E4ABC9804F1746C08CA18217C32905E462E36CE3BE39E772C180E86039B2783A2EC07A28FB5C55DF06F4C52C9DE2BCBF6955817183995497CEA956AE515D2261898FA051015728E5A8AAAC42DAD33170D04507A33A85521ABDF1CBA64ECFB850458DBEF0A8AEA71575D060C7DB3970F85A6E1E4C7ABF5AE8CDB0933D71E8C94E04A25619DCEE3D2261AD2EE6BF12FFA06D98A0864D87602733EC86A64521F2B18177B200CBBE117577A615D6C770988C0BAD946E208E24FA074E5AB3143DB5BFCE0FD108E4B82D120A93AD2CAFFFFFFFFFFFFFFFF"

definition srp_params_default :: srp_params where
  "srp_params_default = \<lparr>sp_n = RFC5054_N_3072, sp_g = 5\<rparr>"

record srp_client =
  cl_params :: srp_params
  cl_identity :: "u8 list"
  cl_password :: "u8 list"
  cl_private_key :: "u8 list"
  cl_public_key :: nat

record srp_challenge =
  ch_salt :: "u8 list"
  ch_server_public_key :: "u8 list"

record srp_proof =
  pf_client_proof :: "u8 list"
  pf_shared_secret :: "u8 list"
  pf_expected_server_proof :: "u8 list"

text \<open>The constructor, with its parameters made an argument. The random exponent of \<open>new\<close> is passed
  as its big-endian bytes, as \<open>with_private_key\<close> takes it.\<close>

definition srp_client_new :: "srp_params \<Rightarrow> u8 list \<Rightarrow> u8 list \<Rightarrow> u8 list \<Rightarrow> srp_client" where
  "srp_client_new params identity password private_key =
     \<lparr>cl_params = params, cl_identity = identity, cl_password = password, cl_private_key = private_key,
      cl_public_key = sp_g params ^ from_bytes_be private_key mod sp_n params\<rparr>"

definition srp_public_key :: "srp_client \<Rightarrow> u8 list" where
  "srp_public_key c = pad_to_n (cl_public_key c)"

section \<open>Hashes of the protocol\<close>

definition compute_k :: "primitives \<Rightarrow> srp_params \<Rightarrow> nat" where
  "compute_k pr p = from_bytes_be (pr_sha512 pr (pad_to_n (sp_n p) @ pad_to_n (sp_g p)))"

definition compute_u :: "primitives \<Rightarrow> nat \<Rightarrow> nat \<Rightarrow> nat" where
  "compute_u pr a b = from_bytes_be (pr_sha512 pr (pad_to_n a @ pad_to_n b))"

definition compute_x :: "primitives \<Rightarrow> u8 list \<Rightarrow> u8 list \<Rightarrow> u8 list \<Rightarrow> nat" where
  "compute_x pr salt identity password =
     from_bytes_be (pr_sha512 pr (salt @ pr_sha512 pr (identity @ bytes_of '':'' @ password)))"

definition compute_m1 :: "primitives \<Rightarrow> srp_params \<Rightarrow> u8 list \<Rightarrow> u8 list \<Rightarrow> nat \<Rightarrow> nat \<Rightarrow> u8 list \<Rightarrow> u8 list" where
  "compute_m1 pr p identity salt a b k =
     (let h_n = pr_sha512 pr (pad_to_n (sp_n p)); h_g = pr_sha512 pr (to_bytes_be (sp_g p));
          xor_result = map (\<lambda>i. (h_n ! i) XOR (h_g ! i)) [0..<64]
      in pr_sha512 pr (xor_result @ pr_sha512 pr identity @ salt @ pad_to_n a @ pad_to_n b @ k))"

section \<open>The challenge\<close>

definition process_challenge :: "primitives \<Rightarrow> srp_client \<Rightarrow> srp_challenge \<Rightarrow> crypto_error + srp_proof" where
  "process_challenge pr c challenge =
     (let n = sp_n (cl_params c); g = sp_g (cl_params c); b = from_bytes_be (ch_server_public_key challenge)
      in if b mod n = 0 then Inl (Encryption ''Invalid server public key: B mod N = 0'')
         else let a = from_bytes_be (cl_private_key c); u = compute_u pr (cl_public_key c) b
              in if u = 0 then Inl (Encryption ''Invalid u value: u = 0'')
                 else let x = compute_x pr (ch_salt challenge) (cl_identity c) (cl_password c);
                          k = compute_k pr (cl_params c);
                          g_x = g ^ x mod n; k_gx = k * g_x mod n;
                          base = (if k_gx \<le> b then (b - k_gx) mod n else (b + n - k_gx) mod n);
                          exponent = (a + u * x) mod (n - 1);
                          s = base ^ exponent mod n;
                          shared_secret = pr_sha512 pr (pad_to_n s);
                          client_proof = compute_m1 pr (cl_params c) (cl_identity c) (ch_salt challenge) (cl_public_key c) b shared_secret
                      in Inr \<lparr>pf_client_proof = client_proof, pf_shared_secret = shared_secret,
                              pf_expected_server_proof = pr_sha512 pr (pad_to_n (cl_public_key c) @ client_proof @ shared_secret)\<rparr>)"

definition verify_server_proof :: "u8 list \<Rightarrow> u8 list \<Rightarrow> bool" where
  "verify_server_proof proof expected \<longleftrightarrow> proof = expected"

section \<open>The accessory\<close>

record srp_server =
  sv_params :: srp_params
  sv_salt :: "u8 list"
  sv_verifier :: nat
  sv_private_key :: nat
  sv_public_key :: nat
  sv_shared_secret :: "u8 list option"

definition srp_server_new :: "primitives \<Rightarrow> srp_params \<Rightarrow> nat \<Rightarrow> u8 list \<Rightarrow> u8 list \<Rightarrow> u8 list \<Rightarrow> srp_server" where
  "srp_server_new pr params b identity password salt =
     (let n = sp_n params; verifier = sp_g params ^ compute_x pr salt identity password mod n;
          g_b = sp_g params ^ b mod n; k_v = compute_k pr params * verifier mod n
      in \<lparr>sv_params = params, sv_salt = salt, sv_verifier = verifier, sv_private_key = b,
          sv_public_key = (k_v + g_b) mod n, sv_shared_secret = None\<rparr>)"

definition server_session :: "primitives \<Rightarrow> srp_server \<Rightarrow> u8 list \<Rightarrow> srp_server \<times> u8 list \<times> u8 list" where
  "server_session pr sv client_public =
     (let n = sp_n (sv_params sv); a = from_bytes_be client_public; u = compute_u pr a (sv_public_key sv);
          base = a * (sv_verifier sv ^ u mod n) mod n; s = base ^ sv_private_key sv mod n;
          shared_secret = pr_sha512 pr (pad_to_n s);
          m1 = compute_m1 pr (sv_params sv) (bytes_of ''Pair-Setup'') (sv_salt sv) a (sv_public_key sv) shared_secret
      in (sv\<lparr>sv_shared_secret := Some shared_secret\<rparr>, shared_secret, pr_sha512 pr (pad_to_n a @ m1 @ shared_secret)))"

section \<open>Byte conversions\<close>

lemma from_bytes_be_Nil [simp]: "from_bytes_be [] = 0"
  by (simp add: from_bytes_be_def)

lemma from_bytes_be_snoc [simp]: "from_bytes_be (bs @ [b]) = 256 * from_bytes_be bs + unat b"
  by (simp add: from_bytes_be_def)

lemma unat_byte: "unat (of_nat (n mod 256) :: u8) = n mod 256"
  by (simp add: unsigned_of_nat take_bit_nat_eq_self)

lemma from_to_bytes_be [simp]: "from_bytes_be (to_bytes_be n) = n"
proof (induction n rule: to_bytes_be.induct)
  case (1 n)
  show ?case
  proof (cases "n < 256")
    case True
    then show ?thesis using from_bytes_be_snoc [of "[]" "of_nat n"] unat_byte [of n] by (simp add: to_bytes_be.simps)
  next
    case False
    then show ?thesis using 1 by (simp add: to_bytes_be.simps [of n] unat_byte)
  qed
qed

lemma length_to_bytes_be: "n < 256 ^ Suc k \<Longrightarrow> length (to_bytes_be n) \<le> Suc k"
proof (induction k arbitrary: n)
  case 0
  then show ?case by (simp add: to_bytes_be.simps [of n])
next
  case (Suc k)
  show ?case
  proof (cases "n < 256")
    case False
    moreover have "n div 256 < 256 ^ Suc k" using Suc.prems by (simp add: div_less_iff_less_mult mult.commute)
    ultimately show ?thesis using Suc.IH [of "n div 256"] by (simp add: to_bytes_be.simps [of n])
  qed (simp add: to_bytes_be.simps)
qed

lemma from_bytes_be_zeros: "from_bytes_be (replicate k 0 @ bs) = from_bytes_be bs"
proof -
  have "foldl (\<lambda>n b. 256 * n + unat b) 0 (replicate k (0 :: u8)) = 0" by (induction k) simp_all
  then show ?thesis by (simp add: from_bytes_be_def)
qed

lemma from_pad_to_n [simp]: "v < 256 ^ N_BYTES \<Longrightarrow> from_bytes_be (pad_to_n v) = v"
  using length_to_bytes_be [of v 383] by (auto simp: pad_to_n_def Let_def N_BYTES_def from_bytes_be_zeros)

lemma length_pad_to_n [simp]: "length (pad_to_n v) = N_BYTES"
  by (simp add: pad_to_n_def Let_def)

section \<open>Both sides compute the same secret\<close>

text \<open>What the exponent arithmetic needs of the modulus: Fermat's theorem, which holds for every prime.\<close>

definition fermat_modulus :: "nat \<Rightarrow> bool" where
  "fermat_modulus n \<longleftrightarrow> 2 < n \<and> (\<forall>x. x mod n \<noteq> 0 \<longrightarrow> x ^ (n - 1) mod n = 1)"

lemma power_reduced_exponent:
  assumes "fermat_modulus n" "x mod n \<noteq> 0"
  shows "x ^ (e mod (n - 1)) mod n = x ^ e mod n"
proof -
  have "x ^ e = (x ^ (n - 1)) ^ (e div (n - 1)) * x ^ (e mod (n - 1))"
    by (simp flip: power_mult power_add)
  also have "\<dots> mod n = ((x ^ (n - 1) mod n) ^ (e div (n - 1)) mod n) * x ^ (e mod (n - 1)) mod n"
    by (simp add: power_mod mod_mult_left_eq)
  also have "\<dots> = x ^ (e mod (n - 1)) mod n"
    using assms by (simp add: fermat_modulus_def mod_mult_left_eq)
  finally show ?thesis by simp
qed

lemma power_not_zero:
  assumes "fermat_modulus n" "x mod n \<noteq> 0"
  shows "x ^ e mod n \<noteq> 0"
proof
  assume zero: "x ^ e mod n = 0"
  have n: "0 < n - 1" "1 < n" using assms(1) by (auto simp: fermat_modulus_def)
  have "(x ^ e) ^ (n - 1) mod n = (x ^ e mod n) ^ (n - 1) mod n" by (simp add: power_mod)
  also have "\<dots> = 0" using zero n by (simp add: power_0_left)
  finally have "(x ^ e) ^ (n - 1) mod n = 0" .
  moreover have "(x ^ e) ^ (n - 1) mod n = (x ^ (n - 1) mod n) ^ e mod n"
    by (simp add: power_mod power_mult [symmetric] mult.commute)
  moreover have "(x ^ (n - 1) mod n) ^ e mod n = 1" using assms n by (simp add: fermat_modulus_def)
  ultimately show False by simp
qed

text \<open>The client's base is \<open>g\<^sup>b\<close>, whichever branch of the subtraction is taken.\<close>

lemma client_base:
  fixes n kv y :: nat
  assumes "0 < n" "kv < n" "y < n" "b = (kv + y) mod n"
  shows "(if kv \<le> b then (b - kv) mod n else (b + n - kv) mod n) = y"
proof (cases "kv + y < n")
  case True
  then show ?thesis using assms by simp
next
  case False
  then have "b = kv + y - n" using assms by (simp add: mod_if)
  then show ?thesis using assms False by auto
qed

lemma srp_secret:
  assumes "fermat_modulus n" "g mod n \<noteq> 0"
  shows "(g ^ b mod n) ^ ((a + u * x) mod (n - 1)) mod n = (g ^ a mod n * ((g ^ x mod n) ^ u mod n) mod n) ^ b mod n"
proof -
  have "(g ^ b mod n) ^ ((a + u * x) mod (n - 1)) mod n = (g ^ b mod n) ^ (a + u * x) mod n"
    by (rule power_reduced_exponent [OF assms(1)]) (use power_not_zero [OF assms] in simp)
  also have "\<dots> = g ^ (b * (a + u * x)) mod n" by (simp add: power_mod power_mult)
  also have "\<dots> = (g ^ a * (g ^ x) ^ u) ^ b mod n"
    by (simp add: power_mult [symmetric] power_add [symmetric] ac_simps)
  also have "\<dots> = (g ^ a mod n * ((g ^ x mod n) ^ u mod n) mod n) ^ b mod n"
    by (simp add: power_mod mod_mult_eq)
  finally show ?thesis .
qed

lemma srp_session_agrees:
  fixes pr :: primitives and params :: srp_params and password salt key :: "u8 list" and b :: nat
  assumes n: "fermat_modulus (sp_n params)" "sp_n params \<le> 256 ^ N_BYTES" and g: "sp_g params mod sp_n params \<noteq> 0"
  defines "c \<equiv> srp_client_new params (bytes_of ''Pair-Setup'') password key"
    and "sv \<equiv> srp_server_new pr params b (bytes_of ''Pair-Setup'') password salt"
  assumes "sv_public_key sv \<noteq> 0" "compute_u pr (cl_public_key c) (sv_public_key sv) \<noteq> 0"
  shows "\<exists>proof. process_challenge pr c \<lparr>ch_salt = salt, ch_server_public_key = pad_to_n (sv_public_key sv)\<rparr> = Inr proof
     \<and> server_session pr sv (srp_public_key c) =
         (sv\<lparr>sv_shared_secret := Some (pf_shared_secret proof)\<rparr>, pf_shared_secret proof, pf_expected_server_proof proof)"
proof -
  let ?n = "sp_n params" and ?g = "sp_g params" and ?a = "from_bytes_be key"
  let ?x = "compute_x pr salt (bytes_of ''Pair-Setup'') password" and ?k = "compute_k pr params"
  define kv where "kv = ?k * (?g ^ ?x mod ?n) mod ?n"
  have pos: "0 < ?n" using n(1) by (simp add: fermat_modulus_def)
  have c: "cl_params c = params" "cl_identity c = bytes_of ''Pair-Setup''" "cl_password c = password"
    "cl_private_key c = key" "cl_public_key c = ?g ^ ?a mod ?n"
    by (simp_all add: c_def srp_client_new_def)
  have sv: "sv_params sv = params" "sv_salt sv = salt" "sv_verifier sv = ?g ^ ?x mod ?n" "sv_private_key sv = b"
    "sv_public_key sv = (kv + ?g ^ b mod ?n) mod ?n"
    by (simp_all add: sv_def srp_server_new_def Let_def kv_def)
  have small: "cl_public_key c < 256 ^ N_BYTES" "sv_public_key sv < 256 ^ N_BYTES" "sv_public_key sv mod ?n = sv_public_key sv"
    unfolding c(5) sv(5) using pos n(2) by (auto intro: less_le_trans [OF mod_less_divisor])
  have base: "(if kv \<le> sv_public_key sv then (sv_public_key sv - kv) mod ?n else (sv_public_key sv + ?n - kv) mod ?n) = ?g ^ b mod ?n"
    by (rule client_base [OF pos _ _ sv(5)]) (use pos in \<open>simp_all add: kv_def\<close>)
  have secret: "(?g ^ b mod ?n) ^ ((?a + u * ?x) mod (?n - 1)) mod ?n =
      (cl_public_key c * (sv_verifier sv ^ u mod ?n) mod ?n) ^ sv_private_key sv mod ?n" for u
    unfolding c(5) sv(3,4) by (rule srp_secret [OF n(1) g])
  note small' = from_pad_to_n [OF small(1)] from_pad_to_n [OF small(2)]
  show ?thesis
    unfolding process_challenge_def server_session_def srp_public_key_def Let_def srp_challenge.simps small' c(1-4) sv(1,2)
    using assms(6,7) small(3)
    unfolding kv_def [symmetric] base secret by simp
qed

text \<open>
  Whenever the accessory's public value and the scrambler are not zero, client and accessory with
  the same PIN compute the same shared secret, and the proof the client expects is the one the
  accessory sends. A public value divisible by the modulus, of any size, is rejected.
\<close>

theorem srp_agreement:
  fixes pr :: primitives and params :: srp_params and password salt key :: "u8 list" and b :: nat
  assumes "fermat_modulus (sp_n params)" "sp_n params \<le> 256 ^ N_BYTES" "sp_g params mod sp_n params \<noteq> 0"
  defines "c \<equiv> srp_client_new params (bytes_of ''Pair-Setup'') password key"
    and "sv \<equiv> srp_server_new pr params b (bytes_of ''Pair-Setup'') password salt"
  assumes "sv_public_key sv \<noteq> 0" "compute_u pr (cl_public_key c) (sv_public_key sv) \<noteq> 0"
  shows "(\<exists>proof. process_challenge pr c \<lparr>ch_salt = salt, ch_server_public_key = pad_to_n (sv_public_key sv)\<rparr> = Inr proof
       \<and> server_session pr sv (srp_public_key c) =
           (sv\<lparr>sv_shared_secret := Some (pf_shared_secret proof)\<rparr>, pf_shared_secret proof, pf_expected_server_proof proof))
     \<and> (\<forall>pk m. from_bytes_be pk = m * sp_n params \<longrightarrow>
          process_challenge pr c \<lparr>ch_salt = salt, ch_server_public_key = pk\<rparr>
            = Inl (Encryption ''Invalid server public key: B mod N = 0''))"
proof
  show "\<exists>proof. process_challenge pr c \<lparr>ch_salt = salt, ch_server_public_key = pad_to_n (sv_public_key sv)\<rparr> = Inr proof
       \<and> server_session pr sv (srp_public_key c) =
           (sv\<lparr>sv_shared_secret := Some (pf_shared_secret proof)\<rparr>, pf_shared_secret proof, pf_expected_server_proof proof)"
    using assms(6,7) unfolding c_def sv_def by (rule srp_session_agrees [OF assms(1-3)])
qed (simp add: process_challenge_def Let_def c_def srp_client_new_def)

text \<open>A small group for concrete runs: the integers modulo 7 with generator 5.\<close>

definition small_params :: srp_params where
  "small_params = \<lparr>sp_n = 7, sp_g = 5\<rparr>"

lemma fermat_7: "fermat_modulus 7"
proof -
  have "\<forall>y \<in> {1, 2, 3, 4, 5, 6}. y ^ 6 mod 7 = (1 :: nat)" by simp
  moreover have "y \<in> {1, 2, 3, 4, 5, 6}" if "y < 7" "y \<noteq> 0" for y :: nat using that by auto
  ultimately have "(x mod 7) ^ 6 mod 7 = (1 :: nat)" if "x mod 7 \<noteq> 0" for x using that by (metis mod_less_divisor zero_less_numeral)
  then show ?thesis by (simp add: fermat_modulus_def power_mod)
qed

lemma small_params_ok:
  "fermat_modulus (sp_n small_params)" "sp_n small_params \<le> 256 ^ N_BYTES" "sp_g small_params mod sp_n small_params \<noteq> 0"
proof -
  have "(7 :: nat) \<le> 256 ^ 1" by simp
  also have "\<dots> \<le> 256 ^ N_BYTES" by (rule power_increasing) (simp_all add: N_BYTES_def)
  finally show "sp_n small_params \<le> 256 ^ N_BYTES" by (simp add: small_params_def)
qed (use fermat_7 in \<open>simp_all add: small_params_def\<close>)

lemma demo_hash: "from_bytes_be (pr_sha512 demo_primitives m) = 1"
  using from_bytes_be_snoc [of "replicate 63 0" 1] from_bytes_be_zeros [of 63 "[]"] by (simp add: demo_primitives_def)

lemma demo_server: "sv_public_key (srp_server_new demo_primitives small_params 2 identity password salt) = 2"
  by (simp add: srp_server_new_def Let_def small_params_def compute_k_def compute_x_def demo_hash)

theorem srp_agreement_witness:
  "\<exists>proof. process_challenge demo_primitives (srp_client_new small_params (bytes_of ''Pair-Setup'') [3, 9] [4])
       \<lparr>ch_salt = [1], ch_server_public_key = pad_to_n 2\<rparr> = Inr proof
     \<and> fst (snd (server_session demo_primitives (srp_server_new demo_primitives small_params 2 (bytes_of ''Pair-Setup'') [3, 9] [1])
         (srp_public_key (srp_client_new small_params (bytes_of ''Pair-Setup'') [3, 9] [4])))) = pf_shared_secret proof"
  using srp_agreement [OF small_params_ok, of demo_primitives 2 "[3, 9]" "[1]" "[4]"]
  by (auto simp: demo_server compute_u_def demo_hash)

end
