(* ===== verification/Pair_Setup.thy ===== *)
theory Pair_Setup
  imports Srp
begin

text \<open>
  Pair-setup, messages M1 to M6 (\<open>airplay-pairing/src/pair_setup.rs\<close>): the controller's state machine
  and the accessory that the repository's tests run it against. The source computes in the group
  of RFC 5054 (\<open>srp_params_default\<close>); the group and the random exponents are arguments here. Every
  error is a pairing error.
\<close>

section \<open>State\<close>

datatype pair_setup_state =
    PS_Initial | PS_M1Sent | PS_M2Received | PS_M3Sent | PS_M4Received | PS_M5Sent | PS_Complete | PS_Failed

record pair_setup =
  ps_state :: pair_setup_state
  ps_pin :: string
  ps_srp_client :: "srp_client option"
  ps_srp_proof :: "srp_proof option"
  ps_session_key :: "u8 list option"
  ps_transient_mode :: bool
  ps_server_identifier :: "u8 list option"
  ps_server_ltpk :: "u8 list option"

definition setup_create :: "string \<Rightarrow> bool \<Rightarrow> pair_setup" where
  "setup_create pin transient =
     \<lparr>ps_state = PS_Initial, ps_pin = pin, ps_srp_client = None, ps_srp_proof = None, ps_session_key = None,
      ps_transient_mode = transient, ps_server_identifier = None, ps_server_ltpk = None\<rparr>"

definition setup_new :: "string \<Rightarrow> pair_setup" where
  "setup_new pin = setup_create pin False"

definition setup_new_transient :: pair_setup where
  "setup_new_transient = setup_create ''3939'' True"

definition setup_new_transient_with_pin :: "string \<Rightarrow> pair_setup" where
  "setup_new_transient_with_pin pin = setup_create pin True"

definition setup_fail :: "pair_setup \<Rightarrow> pairing_error \<Rightarrow> pair_setup \<times> (pairing_error + 'a)" where
  "setup_fail s e = (s\<lparr>ps_state := PS_Failed\<rparr>, Inl e)"

definition PS_MSG05_NONCE :: "u8 list" where "PS_MSG05_NONCE = bytes_of ''PS-Msg05''"
definition PS_MSG06_NONCE :: "u8 list" where "PS_MSG06_NONCE = bytes_of ''PS-Msg06''"

section \<open>M1 to M4\<close>

definition generate_m1_internal :: "srp_params \<Rightarrow> u8 list \<Rightarrow> pair_setup \<Rightarrow> bool \<Rightarrow> pair_setup \<times> (pairing_error + u8 list)" where
  "generate_m1_internal params key s with_flags =
     (if ps_state s \<noteq> PS_Initial
      then setup_fail s (Pairing_InvalidState ''M1 can only be generated from Initial state'')
      else (s\<lparr>ps_srp_client := Some (srp_client_new params (bytes_of ''Pair-Setup'') (bytes_of (ps_pin s)) key),
               ps_state := PS_M1Sent\<rparr>,
            Inr (tlv_encode (if with_flags then pair_setup_m1_with_flags else pair_setup_m1))))"

definition setup_generate_m1 :: "srp_params \<Rightarrow> u8 list \<Rightarrow> pair_setup \<Rightarrow> pair_setup \<times> (pairing_error + u8 list)" where
  "setup_generate_m1 params key s = generate_m1_internal params key s (ps_transient_mode s)"

definition setup_generate_m1_with_flags :: "srp_params \<Rightarrow> u8 list \<Rightarrow> pair_setup \<Rightarrow> pair_setup \<times> (pairing_error + u8 list)" where
  "setup_generate_m1_with_flags params key s = generate_m1_internal params key s True"

text \<open>The checks that open \<open>process_m2\<close>, \<open>process_m4\<close> and \<open>process_m6\<close>.\<close>

definition checked_message :: "string \<Rightarrow> string \<Rightarrow> u8 \<Rightarrow> u8 list \<Rightarrow> pairing_error + tlv8" where
  "checked_message name remark number response =
     (case tlv_parse response of
        Inl e \<Rightarrow> Inl (Pairing_Protocol (''Failed to parse '' @ name @ '': '' @ tlv_error_text e))
      | Inr tlv \<Rightarrow>
          if tlv_error_code tlv \<noteq> None then Inl (Pairing_Protocol (''Server returned error in '' @ name @ remark))
          else if tlv_state tlv \<noteq> Some number then Inl (Pairing_Protocol (name @ '' has wrong state value''))
          else Inr tlv)"

definition no_client :: pairing_error where "no_client = Pairing_Protocol ''SRP client not initialized''"
definition no_proof :: pairing_error where "no_proof = Pairing_Protocol ''SRP proof not computed''"
definition no_session_key :: pairing_error where "no_session_key = Pairing_Protocol ''Session key not derived''"

definition setup_process_m2 :: "primitives \<Rightarrow> pair_setup \<Rightarrow> u8 list \<Rightarrow> pair_setup \<times> (pairing_error + unit)" where
  "setup_process_m2 pr s response =
     (if ps_state s \<noteq> PS_M1Sent then setup_fail s (Pairing_InvalidState ''M2 can only be processed after M1'')
      else case checked_message ''M2'' [] 2 response of
        Inl e \<Rightarrow> setup_fail s e
      | Inr tlv \<Rightarrow>
       (case tlv_get tlv Tlv_Salt of
          None \<Rightarrow> setup_fail s (Pairing_Protocol ''M2 missing salt'')
        | Some salt \<Rightarrow>
          if length salt \<noteq> 16
          then setup_fail s (Pairing_Protocol (''M2 salt has wrong length: '' @ digits (length salt) @ '' (expected 16)''))
          else case tlv_get tlv Tlv_PublicKey of
            None \<Rightarrow> setup_fail s (Pairing_Protocol ''M2 missing server public key'')
          | Some pk \<Rightarrow>
            if 384 < length pk
            then setup_fail s (Pairing_Protocol (''M2 public key too long: '' @ digits (length pk) @ '' (expected <= 384)''))
            else case ps_srp_client s of
              None \<Rightarrow> setup_fail s no_client
            | Some client \<Rightarrow>
             (case process_challenge pr client
                     \<lparr>ch_salt = salt, ch_server_public_key = replicate (384 - length pk) 0 @ pk\<rparr> of
                Inl e \<Rightarrow> setup_fail s (Pairing_Protocol (''Failed to process SRP challenge: '' @ crypto_error_text e))
              | Inr proof \<Rightarrow> (s\<lparr>ps_srp_proof := Some proof, ps_state := PS_M2Received\<rparr>, Inr ()))))"

definition setup_generate_m3 :: "pair_setup \<Rightarrow> pair_setup \<times> (pairing_error + u8 list)" where
  "setup_generate_m3 s =
     (if ps_state s \<noteq> PS_M2Received
      then setup_fail s (Pairing_InvalidState ''M3 can only be generated after processing M2'')
      else case (ps_srp_client s, ps_srp_proof s) of
        (None, _) \<Rightarrow> setup_fail s no_client
      | (Some _, None) \<Rightarrow> setup_fail s no_proof
      | (Some client, Some proof) \<Rightarrow>
          (s\<lparr>ps_state := PS_M3Sent\<rparr>,
           Inr (tlv_encode (tlv_set (tlv_set (tlv_set tlv_new Tlv_State [0x03]) Tlv_PublicKey (srp_public_key client))
                  Tlv_Proof (pf_client_proof proof)))))"

definition setup_process_m4 :: "primitives \<Rightarrow> pair_setup \<Rightarrow> u8 list \<Rightarrow> pair_setup \<times> (pairing_error + unit)" where
  "setup_process_m4 pr s response =
     (if ps_state s \<noteq> PS_M3Sent then setup_fail s (Pairing_InvalidState ''M4 can only be processed after M3'')
      else case checked_message ''M4'' '' (wrong PIN?)'' 4 response of
        Inl e \<Rightarrow> setup_fail s e
      | Inr tlv \<Rightarrow>
       (case tlv_get tlv Tlv_Proof of
          None \<Rightarrow> setup_fail s (Pairing_Protocol ''M4 missing server proof'')
        | Some server_proof \<Rightarrow>
          (case (ps_srp_client s, ps_srp_proof s) of
             (None, _) \<Rightarrow> setup_fail s no_client
           | (Some _, None) \<Rightarrow> setup_fail s no_proof
           | (Some _, Some proof) \<Rightarrow>
             if \<not> verify_server_proof server_proof (pf_expected_server_proof proof)
             then setup_fail s (Pairing_Protocol ''Server proof verification failed'')
             else case derive_pair_setup_key pr (pf_shared_secret proof) of
               Inl e \<Rightarrow> setup_fail s (Pairing_Protocol (''Failed to derive session key: '' @ crypto_error_text e))
             | Inr key \<Rightarrow> (s\<lparr>ps_session_key := Some key, ps_state := PS_M4Received\<rparr>, Inr ()))))"

definition complete_transient :: "pair_setup \<Rightarrow> pair_setup \<times> (pairing_error + u8 list)" where
  "complete_transient s =
     (if ps_state s \<noteq> PS_M4Received
      then setup_fail s (Pairing_InvalidState ''complete_transient() can only be called after processing M4'')
      else if \<not> ps_transient_mode s
      then (s, Inl (Pairing_InvalidState ''complete_transient() should only be called in transient mode''))
      else case ps_srp_proof s of
        None \<Rightarrow> setup_fail s no_proof
      | Some proof \<Rightarrow> (s\<lparr>ps_state := PS_Complete\<rparr>, Inr (pf_shared_secret proof)))"

section \<open>M5 and M6\<close>

text \<open>An identity key pair is its seed. Its identifier in UUID form is taken from the first sixteen
  bytes of the public key (also \<open>controller.rs\<close>).\<close>

definition hex2_upper :: "u8 \<Rightarrow> string" where
  "hex2_upper b = [hex_upper (unat b div 16), hex_upper (unat b mod 16)]"

definition derived_identifier :: "u8 list \<Rightarrow> string" where
  "derived_identifier pk =
     (let part = (\<lambda>i j. concat (map hex2_upper (byte_range i j pk)))
      in part 0 4 @ ''-'' @ part 4 6 @ ''-'' @ part 6 8 @ ''-'' @ part 8 10 @ ''-'' @ part 10 16)"

definition identity_tlv :: "u8 list \<Rightarrow> u8 list \<Rightarrow> u8 list \<Rightarrow> tlv8" where
  "identity_tlv ident pk signature =
     tlv_set (tlv_set (tlv_set tlv_new Tlv_Identifier ident) Tlv_PublicKey pk) Tlv_Signature signature"

definition sealed_message :: "u8 \<Rightarrow> u8 list \<Rightarrow> u8 list" where
  "sealed_message number encrypted =
     tlv_encode (tlv_set (tlv_set tlv_new Tlv_State [number]) Tlv_EncryptedData encrypted)"

definition generate_m5_internal :: "primitives \<Rightarrow> pair_setup \<Rightarrow> u8 list \<Rightarrow> u8 list \<Rightarrow> pair_setup \<times> (pairing_error + u8 list)" where
  "generate_m5_internal pr s pairing_id seed =
     (if ps_state s \<noteq> PS_M4Received
      then setup_fail s (Pairing_InvalidState ''M5 can only be generated after processing M4'')
      else case (ps_session_key s, ps_srp_proof s) of
        (None, _) \<Rightarrow> setup_fail s no_session_key
      | (Some _, None) \<Rightarrow> setup_fail s no_proof
      | (Some session_key, Some proof) \<Rightarrow>
         (case derive_key pr (pf_shared_secret proof) (bytes_of ''Pair-Setup-Controller-Sign-Salt'')
                 (bytes_of ''Pair-Setup-Controller-Sign-Info'') 32 of
            Inl e \<Rightarrow> setup_fail s (Pairing_Protocol (''Failed to derive signing key: '' @ crypto_error_text e))
          | Inr ios_device_x \<Rightarrow>
              let pk = pr_ed_public pr seed;
                  signature = pr_ed_sign pr seed (ios_device_x @ pairing_id @ pk)
              in case pairing_encrypt (pr_seal pr) session_key (nonce_from_string PS_MSG05_NONCE)
                        (tlv_encode (identity_tlv pairing_id pk signature)) of
                   Inl e \<Rightarrow> setup_fail s (Pairing_Protocol (''Failed to encrypt M5: '' @ crypto_error_text e))
                 | Inr encrypted \<Rightarrow> (s\<lparr>ps_state := PS_M5Sent\<rparr>, Inr (sealed_message 0x05 encrypted))))"

definition setup_generate_m5 :: "primitives \<Rightarrow> pair_setup \<Rightarrow> u8 list \<Rightarrow> pair_setup \<times> (pairing_error + u8 list)" where
  "setup_generate_m5 pr s seed =
     generate_m5_internal pr s (bytes_of (derived_identifier (pr_ed_public pr seed))) seed"

definition generate_m5_with_controller ::
    "primitives \<Rightarrow> pair_setup \<Rightarrow> string \<Rightarrow> u8 list \<Rightarrow> pair_setup \<times> (pairing_error + u8 list)" where
  "generate_m5_with_controller pr s controller_id seed = generate_m5_internal pr s (bytes_of controller_id) seed"

definition setup_process_m6 :: "primitives \<Rightarrow> pair_setup \<Rightarrow> u8 list \<Rightarrow> pair_setup \<times> (pairing_error + u8 list)" where
  "setup_process_m6 pr s response =
     (if ps_state s \<noteq> PS_M5Sent then setup_fail s (Pairing_InvalidState ''M6 can only be processed after M5'')
      else case checked_message ''M6'' [] 6 response of
        Inl e \<Rightarrow> setup_fail s e
      | Inr tlv \<Rightarrow>
       (case (ps_session_key s, ps_srp_proof s) of
          (None, _) \<Rightarrow> setup_fail s no_session_key
        | (Some _, None) \<Rightarrow> setup_fail s no_proof
        | (Some session_key, Some proof) \<Rightarrow>
         (case tlv_get tlv Tlv_EncryptedData of
            None \<Rightarrow> setup_fail s (Pairing_Protocol ''M6 missing encrypted data'')
          | Some encrypted \<Rightarrow>
           (case pairing_decrypt (pr_open pr) session_key (nonce_from_string PS_MSG06_NONCE) encrypted of
              Inl e \<Rightarrow> setup_fail s (Pairing_Protocol (''Failed to decrypt M6: '' @ crypto_error_text e))
            | Inr decrypted \<Rightarrow>
             (case tlv_parse decrypted of
                Inl e \<Rightarrow> setup_fail s (Pairing_Protocol (''Failed to parse M6 inner TLV: '' @ tlv_error_text e))
              | Inr inner \<Rightarrow>
               (case (tlv_get inner Tlv_Identifier, tlv_get inner Tlv_PublicKey, tlv_get inner Tlv_Signature) of
                  (None, _, _) \<Rightarrow> setup_fail s (Pairing_Protocol ''M6 missing server identifier'')
                | (Some _, None, _) \<Rightarrow> setup_fail s (Pairing_Protocol ''M6 missing server public key'')
                | (Some _, Some _, None) \<Rightarrow> setup_fail s (Pairing_Protocol ''M6 missing server signature'')
                | (Some server_id, Some server_pk, Some server_sig) \<Rightarrow>
                 (case derive_key pr (pf_shared_secret proof) (bytes_of ''Pair-Setup-Accessory-Sign-Salt'')
                         (bytes_of ''Pair-Setup-Accessory-Sign-Info'') 32 of
                    Inl e \<Rightarrow> setup_fail s (Pairing_Protocol (''Failed to derive accessory signing key: '' @ crypto_error_text e))
                  | Inr accessory_x \<Rightarrow>
                    if length server_pk \<noteq> 32
                    then setup_fail s (Pairing_Protocol ''M6 server public key has wrong length'')
                    else if length server_sig \<noteq> 64
                    then setup_fail s (Pairing_Protocol ''M6 server signature has wrong length'')
                    else if \<not> pr_ed_verify pr server_pk (accessory_x @ server_id @ server_pk) server_sig
                    then setup_fail s (Pairing_Protocol ''M6 server signature verification failed'')
                    else (s\<lparr>ps_server_identifier := Some server_id, ps_server_ltpk := Some server_pk, ps_state := PS_Complete\<rparr>,
                          Inr (pf_shared_secret proof)))))))))"

section \<open>The accessory\<close>

record setup_server =
  ms_seed :: "u8 list"
  ms_salt :: "u8 list"
  ms_srp :: srp_server
  ms_client_public_key :: "u8 list option"
  ms_session_key :: "u8 list option"

definition setup_server_new :: "primitives \<Rightarrow> srp_params \<Rightarrow> u8 list \<Rightarrow> u8 list \<Rightarrow> nat \<Rightarrow> string \<Rightarrow> setup_server" where
  "setup_server_new pr params seed salt b pin =
     \<lparr>ms_seed = seed, ms_salt = salt, ms_srp = srp_server_new pr params b (bytes_of ''Pair-Setup'') (bytes_of pin) salt,
      ms_client_public_key = None, ms_session_key = None\<rparr>"

definition server_generate_m2 :: "setup_server \<Rightarrow> u8 list" where
  "server_generate_m2 sv =
     tlv_encode (tlv_set (tlv_set (tlv_set tlv_new Tlv_State [0x02]) Tlv_Salt (ms_salt sv))
       Tlv_PublicKey (pad_to_n (sv_public_key (ms_srp sv))))"

definition server_process_m3 :: "primitives \<Rightarrow> setup_server \<Rightarrow> u8 list \<Rightarrow> setup_server \<times> (pairing_error + u8 list)" where
  "server_process_m3 pr sv m3 =
     (case tlv_parse m3 of
        Inl e \<Rightarrow> (sv, Inl (Pairing_Protocol (''Failed to parse M3: '' @ tlv_error_text e)))
      | Inr tlv \<Rightarrow>
       (case (tlv_get tlv Tlv_PublicKey, tlv_get tlv Tlv_Proof) of
          (None, _) \<Rightarrow> (sv, Inl (Pairing_Protocol ''M3 missing public key''))
        | (Some _, None) \<Rightarrow> (sv, Inl (Pairing_Protocol ''M3 missing proof''))
        | (Some client_pk, Some _) \<Rightarrow>
            let (srp1, shared_secret, server_proof) = server_session pr (ms_srp sv) client_pk;
                sv1 = sv\<lparr>ms_client_public_key := Some client_pk, ms_srp := srp1\<rparr>
            in case derive_pair_setup_key pr shared_secret of
                 Inl e \<Rightarrow> (sv1, Inl (Pairing_Protocol (''Failed to derive session key: '' @ crypto_error_text e)))
               | Inr key \<Rightarrow>
                   (sv1\<lparr>ms_session_key := Some key\<rparr>,
                    Inr (tlv_encode (tlv_set (tlv_set tlv_new Tlv_State [0x04]) Tlv_Proof server_proof)))))"

definition server_process_m5 :: "primitives \<Rightarrow> setup_server \<Rightarrow> u8 list \<Rightarrow> pairing_error + u8 list" where
  "server_process_m5 pr sv m5 =
     (case tlv_parse m5 of
        Inl e \<Rightarrow> Inl (Pairing_Protocol (''Failed to parse M5: '' @ tlv_error_text e))
      | Inr tlv \<Rightarrow>
       (case tlv_get tlv Tlv_EncryptedData of
          None \<Rightarrow> Inl (Pairing_Protocol ''M5 missing encrypted data'')
        | Some encrypted \<Rightarrow>
         (case ms_session_key sv of
            None \<Rightarrow> Inl no_session_key
          | Some session_key \<Rightarrow>
           (case pairing_decrypt (pr_open pr) session_key (nonce_from_string PS_MSG05_NONCE) encrypted of
              Inl e \<Rightarrow> Inl (Pairing_Protocol (''Failed to decrypt M5: '' @ crypto_error_text e))
            | Inr _ \<Rightarrow>
             (case sv_shared_secret (ms_srp sv) of
                None \<Rightarrow> Inl (Pairing_Protocol ''Shared secret not computed'')
              | Some shared_secret \<Rightarrow>
               (case derive_key pr shared_secret (bytes_of ''Pair-Setup-Accessory-Sign-Salt'')
                       (bytes_of ''Pair-Setup-Accessory-Sign-Info'') 32 of
                  Inl e \<Rightarrow> Inl (Pairing_Protocol (''Failed to derive accessory signing key: '' @ crypto_error_text e))
                | Inr accessory_x \<Rightarrow>
                    let server_id = bytes_of ''AirPlay-Server''; pk = pr_ed_public pr (ms_seed sv);
                        signature = pr_ed_sign pr (ms_seed sv) (accessory_x @ server_id @ pk)
                    in case pairing_encrypt (pr_seal pr) session_key (nonce_from_string PS_MSG06_NONCE)
                              (tlv_encode (identity_tlv server_id pk signature)) of
                         Inl e \<Rightarrow> Inl (Pairing_Protocol (''Failed to encrypt M6: '' @ crypto_error_text e))
                       | Inr encrypted \<Rightarrow> Inr (sealed_message 0x06 encrypted)))))))"

end
