(* ===== verification/Pair_Verify.thy ===== *)
theory Pair_Verify
  imports Pair_Setup
begin

text \<open>
  Pair-verify, messages M1 to M4 (\<open>airplay-pairing/src/pair_verify.rs\<close>), standard and transient, and the
  accessory that the repository's tests run it against. The ephemeral secrets are arguments.
\<close>

section \<open>State\<close>

datatype pair_verify_state = PV_Initial | PV_M1Sent | PV_M2Received | PV_M3Sent | PV_Complete | PV_Failed

fun verify_state_code :: "pair_verify_state \<Rightarrow> u8" where
  "verify_state_code PV_Initial = 0"
| "verify_state_code PV_M1Sent = 1"
| "verify_state_code PV_M2Received = 2"
| "verify_state_code PV_M3Sent = 3"
| "verify_state_code PV_Complete = 4"
| "verify_state_code PV_Failed = 5"

datatype signature_order = SignerIdPeer | SignerPeerId | IdSignerPeer | PeerIdSigner | PeerSignerId | IdPeerSigner

record pair_verify =
  pv_state :: pair_verify_state
  pv_identity :: "u8 list"
  pv_custom_identifier :: "string option"
  pv_ecdh_keypair :: "u8 list option"
  pv_ecdh_public :: "u8 list option"
  pv_server_public :: "u8 list option"
  pv_shared_secret :: "u8 list option"
  pv_session_key :: "u8 list option"
  pv_server_ltpk :: "u8 list option"
  pv_signature_order :: signature_order

definition verify_create :: "u8 list \<Rightarrow> string option \<Rightarrow> pair_verify" where
  "verify_create seed ident =
     \<lparr>pv_state = PV_Initial, pv_identity = seed, pv_custom_identifier = ident, pv_ecdh_keypair = None,
      pv_ecdh_public = None, pv_server_public = None, pv_shared_secret = None, pv_session_key = None,
      pv_server_ltpk = None, pv_signature_order = SignerIdPeer\<rparr>"

definition verify_new :: "u8 list \<Rightarrow> pair_verify" where
  "verify_new seed = verify_create seed None"

definition verify_new_with_controller :: "u8 list \<Rightarrow> string \<Rightarrow> pair_verify" where
  "verify_new_with_controller seed ident = verify_create seed (Some ident)"

definition set_server_ltpk :: "pair_verify \<Rightarrow> u8 list \<Rightarrow> pair_verify" where
  "set_server_ltpk s ltpk = s\<lparr>pv_server_ltpk := Some ltpk\<rparr>"

definition verify_reset :: "pair_verify \<Rightarrow> pair_verify" where
  "verify_reset s =
     s\<lparr>pv_state := PV_Initial, pv_ecdh_keypair := None, pv_ecdh_public := None, pv_server_public := None,
       pv_shared_secret := None, pv_session_key := None\<rparr>"

definition PV_MSG02_NONCE :: "u8 list" where "PV_MSG02_NONCE = bytes_of ''PV-Msg02''"
definition PV_MSG03_NONCE :: "u8 list" where "PV_MSG03_NONCE = bytes_of ''PV-Msg03''"

fun build_signed_message :: "signature_order \<Rightarrow> u8 list \<Rightarrow> u8 list \<Rightarrow> u8 list \<Rightarrow> u8 list" where
  "build_signed_message SignerIdPeer signer peer ident = signer @ ident @ peer"
| "build_signed_message SignerPeerId signer peer ident = signer @ peer @ ident"
| "build_signed_message IdSignerPeer signer peer ident = ident @ signer @ peer"
| "build_signed_message PeerIdSigner signer peer ident = peer @ ident @ signer"
| "build_signed_message PeerSignerId signer peer ident = peer @ signer @ ident"
| "build_signed_message IdPeerSigner signer peer ident = ident @ peer @ signer"

definition state_mismatch :: "u8 \<Rightarrow> pair_verify \<Rightarrow> 'io air_error" where
  "state_mismatch expected s = Err_Pairing (StateMismatch expected (verify_state_code (pv_state s)))"

definition verify_fail :: "pair_verify \<Rightarrow> 'io air_error \<Rightarrow> pair_verify \<times> ('io air_error + 'a)" where
  "verify_fail s e = (s\<lparr>pv_state := PV_Failed\<rparr>, Inl e)"

section \<open>M1\<close>

text \<open>What all forms of M1 share: the guard, the fresh key pair and the new state.\<close>

definition begin_verify ::
    "primitives \<Rightarrow> u8 list \<Rightarrow> pair_verify \<Rightarrow> (u8 list \<Rightarrow> u8 list) \<Rightarrow> pair_verify \<times> ('io air_error + u8 list)" where
  "begin_verify pr secret s build =
     (if pv_state s \<noteq> PV_Initial then (s, Inl (state_mismatch 0 s))
      else let public = pr_x25519_base pr secret
           in (s\<lparr>pv_ecdh_public := Some public, pv_ecdh_keypair := Some secret, pv_state := PV_M1Sent\<rparr>, Inr (build public)))"

definition verify_generate_m1 :: "primitives \<Rightarrow> u8 list \<Rightarrow> pair_verify \<Rightarrow> pair_verify \<times> ('io air_error + u8 list)" where
  "verify_generate_m1 pr secret s =
     begin_verify pr secret s
       (\<lambda>public. tlv_encode (tlv_set (tlv_set tlv_new Tlv_State [0x01]) Tlv_PublicKey public))"

definition m1_flags :: "u8 list" where "m1_flags = [0x01, 0x00, 0x00, 0x00]"

definition generate_m1_transient :: "primitives \<Rightarrow> u8 list \<Rightarrow> pair_verify \<Rightarrow> pair_verify \<times> ('io air_error + u8 list)" where
  "generate_m1_transient pr secret s =
     begin_verify pr secret s (\<lambda>public. public @ pr_ed_public pr (pv_identity s) @ m1_flags)"

definition generate_m1_transient_prefix :: "primitives \<Rightarrow> u8 list \<Rightarrow> pair_verify \<Rightarrow> pair_verify \<times> ('io air_error + u8 list)" where
  "generate_m1_transient_prefix pr secret s =
     begin_verify pr secret s (\<lambda>public. m1_flags @ public @ pr_ed_public pr (pv_identity s))"

definition generate_m1_transient_no_flags :: "primitives \<Rightarrow> u8 list \<Rightarrow> pair_verify \<Rightarrow> pair_verify \<times> ('io air_error + u8 list)" where
  "generate_m1_transient_no_flags pr secret s =
     begin_verify pr secret s (\<lambda>public. public @ pr_ed_public pr (pv_identity s))"

definition generate_m1_transient_signed :: "primitives \<Rightarrow> u8 list \<Rightarrow> pair_verify \<Rightarrow> pair_verify \<times> ('io air_error + u8 list)" where
  "generate_m1_transient_signed pr secret s =
     begin_verify pr secret s (\<lambda>public. m1_flags @ public @ take 32 (pr_ed_sign pr (pv_identity s) public))"

definition generate_m1_transient_full_sig :: "primitives \<Rightarrow> u8 list \<Rightarrow> pair_verify \<Rightarrow> pair_verify \<times> ('io air_error + u8 list)" where
  "generate_m1_transient_full_sig pr secret s =
     begin_verify pr secret s (\<lambda>public. m1_flags @ public @ pr_ed_sign pr (pv_identity s) public)"

definition generate_m1_transient_tlv :: "primitives \<Rightarrow> u8 list \<Rightarrow> pair_verify \<Rightarrow> pair_verify \<times> ('io air_error + u8 list)" where
  "generate_m1_transient_tlv pr secret s =
     begin_verify pr secret s
       (\<lambda>public. tlv_encode (tlv_set (tlv_set (tlv_set (tlv_set tlv_new Tlv_State [0x01]) Tlv_PublicKey public)
          Tlv_Identifier (pr_ed_public pr (pv_identity s))) Tlv_Flags [0x01]))"

section \<open>M2\<close>

text \<open>The key agreement in the middle of both forms: Diffie-Hellman, the session key, and the
  decryption of what the accessory sealed. The key pair is used up.\<close>

definition open_m2 ::
    "primitives \<Rightarrow> pair_verify \<Rightarrow> u8 list \<Rightarrow> u8 list \<Rightarrow> pair_verify \<times> ('io air_error + u8 list)" where
  "open_m2 pr s server_public encrypted =
     (case pv_ecdh_keypair s of
        None \<Rightarrow> verify_fail s (Err_Pairing SrpVerificationFailed)
      | Some secret \<Rightarrow>
          let s1 = s\<lparr>pv_ecdh_keypair := None\<rparr>
          in case diffie_hellman pr secret server_public of
               Inl e \<Rightarrow> verify_fail s1 (Err_Crypto e)
             | Inr shared \<Rightarrow>
                 let s2 = s1\<lparr>pv_shared_secret := Some shared\<rparr>
                 in case derive_pair_verify_key pr shared of
                      Inl e \<Rightarrow> verify_fail s2 (Err_Crypto e)
                    | Inr key \<Rightarrow>
                        let s3 = s2\<lparr>pv_session_key := Some key\<rparr>
                        in case pairing_decrypt (pr_open pr) key (nonce_from_string PV_MSG02_NONCE) encrypted of
                             Inl e \<Rightarrow> verify_fail s3 (Err_Crypto e)
                           | Inr decrypted \<Rightarrow> (s3, Inr decrypted))"

definition accept_signed ::
    "primitives \<Rightarrow> pair_verify \<Rightarrow> u8 list \<Rightarrow> u8 list \<Rightarrow> u8 list \<Rightarrow> pair_verify \<times> ('io air_error + unit)" where
  "accept_signed pr s ltpk signed_message signature =
     (if pr_ed_verify pr ltpk signed_message signature then (s\<lparr>pv_state := PV_M2Received\<rparr>, Inr ())
      else verify_fail s (Err_Pairing SignatureInvalid))"

definition transient_identity :: "u8 list \<Rightarrow> (u8 list \<times> u8 list) option" where
  "transient_identity decrypted =
     (case tlv_parse decrypted of
        Inl _ \<Rightarrow> None
      | Inr inner \<Rightarrow>
         (case (tlv_get inner Tlv_Identifier, tlv_get inner Tlv_Signature) of
            (Some ident, Some signature) \<Rightarrow>
              if length ident = 32 \<and> length signature = 64 then Some (ident, signature) else None
          | _ \<Rightarrow> None))"

definition process_m2_transient :: "primitives \<Rightarrow> pair_verify \<Rightarrow> u8 list \<Rightarrow> pair_verify \<times> ('io air_error + unit)" where
  "process_m2_transient pr s response =
     (if pv_state s \<noteq> PV_M1Sent then (s, Inl (state_mismatch 1 s))
      else if length response < 96
      then verify_fail s (Err_Pairing (TlvParse (''M2 response too short: expected 96 bytes, got '' @ digits (length response))))
      else let server_public = take 32 response; s1 = s\<lparr>pv_server_public := Some server_public\<rparr>
        in case pv_ecdh_public s of
             None \<Rightarrow> verify_fail s1 (Err_Pairing SrpVerificationFailed)
           | Some client_public \<Rightarrow>
              (case open_m2 pr s1 server_public (drop 32 response) of
                 (s2, Inl e) \<Rightarrow> (s2, Inl e)
               | (s2, Inr decrypted) \<Rightarrow>
                  (case transient_identity decrypted of
                     Some (ident, signature) \<Rightarrow> accept_signed pr s2 ident (server_public @ ident @ client_public) signature
                   | None \<Rightarrow>
                      if length decrypted = 64
                      then (case pv_server_ltpk s of
                              Some ltpk \<Rightarrow> accept_signed pr s2 ltpk (server_public @ ltpk @ client_public) decrypted
                            | None \<Rightarrow> verify_fail s2 (Err_Pairing (TlvParse
                                ''M2 decrypted to 64 bytes (signature only) - call set_server_ltpk() first'')))
                      else if length decrypted = 96
                      then let ltpk = take 32 decrypted
                           in accept_signed pr s2 ltpk (server_public @ ltpk @ client_public) (drop 32 decrypted)
                      else verify_fail s2 (Err_Pairing (TlvParse
                             (''M2 decrypted data has unexpected format: '' @ digits (length decrypted) @ '' bytes''))))))"

text \<open>The key that M2 itself names: an identifier of 32 bytes that is no UTF-8 text, or else a public
  key field of 32 bytes.\<close>

definition presented_ltpk :: "tlv8 \<Rightarrow> u8 list \<Rightarrow> u8 list option" where
  "presented_ltpk inner ident =
     (let field = (case tlv_get inner Tlv_PublicKey of Some pk \<Rightarrow> if length pk = 32 then Some pk else None | None \<Rightarrow> None)
      in if length ident = 32 then (if utf8_valid (string_of ident) then field else Some ident) else field)"

definition orders :: "signature_order list" where
  "orders = [SignerIdPeer, SignerPeerId, IdSignerPeer, PeerIdSigner, PeerSignerId, IdPeerSigner]"

definition or_known :: "'a option \<Rightarrow> 'a option \<Rightarrow> 'a option" where
  "or_known a b = (case a of Some x \<Rightarrow> Some x | None \<Rightarrow> b)"

definition verify_process_m2 :: "primitives \<Rightarrow> pair_verify \<Rightarrow> u8 list \<Rightarrow> pair_verify \<times> ('io air_error + unit)" where
  "verify_process_m2 pr s response =
     (if pv_state s \<noteq> PV_M1Sent then (s, Inl (state_mismatch 1 s))
      else case tlv_parse response of
        Inl e \<Rightarrow> verify_fail s (Err_Pairing (TlvParse (tlv_error_text e)))
      | Inr tlv \<Rightarrow>
        if tlv_error_code tlv \<noteq> None then verify_fail s (Err_Pairing Pairing_Rejected)
        else if tlv_state tlv \<noteq> Some 2
        then verify_fail s (Err_Pairing (StateMismatch 2 (case tlv_state tlv of Some n \<Rightarrow> n | None \<Rightarrow> 0)))
        else case tlv_get tlv Tlv_PublicKey of
          None \<Rightarrow> verify_fail s (Err_Pairing (MissingTlv (tlv_byte Tlv_PublicKey)))
        | Some server_public \<Rightarrow>
          if length server_public \<noteq> 32 then verify_fail s (Err_Crypto (InvalidKeyLength 32 (length server_public)))
          else let s1 = s\<lparr>pv_server_public := Some server_public\<rparr>
          in case tlv_get tlv Tlv_EncryptedData of
            None \<Rightarrow> verify_fail s1 (Err_Pairing (MissingTlv (tlv_byte Tlv_EncryptedData)))
          | Some encrypted \<Rightarrow>
           (case open_m2 pr s1 server_public encrypted of
              (s2, Inl e) \<Rightarrow> (s2, Inl e)
            | (s2, Inr decrypted) \<Rightarrow>
             (case tlv_parse decrypted of
                Inl e \<Rightarrow> verify_fail s2 (Err_Pairing (TlvParse (tlv_error_text e)))
              | Inr inner \<Rightarrow>
               (case tlv_get inner Tlv_Identifier of
                  None \<Rightarrow> verify_fail s2 (Err_Pairing (MissingTlv (tlv_byte Tlv_Identifier)))
                | Some ident \<Rightarrow>
                 (case tlv_get inner Tlv_Signature of
                    None \<Rightarrow> verify_fail s2 (Err_Pairing (MissingTlv (tlv_byte Tlv_Signature)))
                  | Some signature \<Rightarrow>
                    if length signature \<noteq> 64 then verify_fail s2 (Err_Pairing SignatureInvalid)
                    else case pv_ecdh_public s of
                      None \<Rightarrow> verify_fail s2 (Err_Pairing SrpVerificationFailed)
                    | Some client_public \<Rightarrow>
                     (case or_known (presented_ltpk inner ident) (pv_server_ltpk s) of
                        None \<Rightarrow> (s2\<lparr>pv_state := PV_M2Received\<rparr>, Inr ())
                      | Some ltpk \<Rightarrow>
                         (case find (\<lambda>order. pr_ed_verify pr ltpk
                                  (build_signed_message order server_public client_public ident) signature) orders of
                            None \<Rightarrow> verify_fail s2 (Err_Pairing SignatureInvalid)
                          | Some order \<Rightarrow> (s2\<lparr>pv_signature_order := order, pv_state := PV_M2Received\<rparr>, Inr ()))))))))"

section \<open>M3\<close>

text \<open>What M3 needs from M2; where a part is missing the state is left alone.\<close>

definition m3_inputs :: "pair_verify \<Rightarrow> (u8 list \<times> u8 list \<times> u8 list) option" where
  "m3_inputs s =
     (case (pv_ecdh_public s, pv_server_public s, pv_session_key s) of
        (Some client_public, Some server_public, Some session_key) \<Rightarrow> Some (client_public, server_public, session_key)
      | _ \<Rightarrow> None)"

definition generate_m3_with_identifier ::
    "primitives \<Rightarrow> pair_verify \<Rightarrow> string option \<Rightarrow> pair_verify \<times> ('io air_error + u8 list)" where
  "generate_m3_with_identifier pr s identifier =
     (if pv_state s \<noteq> PV_M2Received then (s, Inl (state_mismatch 2 s))
      else case m3_inputs s of
        None \<Rightarrow> (s, Inl (Err_Pairing SrpVerificationFailed))
      | Some (client_public, server_public, session_key) \<Rightarrow>
          let pk = pr_ed_public pr (pv_identity s);
              ident = bytes_of (case identifier of Some i \<Rightarrow> i | None \<Rightarrow> derived_identifier pk);
              signature = pr_ed_sign pr (pv_identity s)
                (build_signed_message (pv_signature_order s) client_public server_public ident)
          in case pairing_encrypt (pr_seal pr) session_key (nonce_from_string PV_MSG03_NONCE)
                    (tlv_encode (identity_tlv ident pk signature)) of
               Inl e \<Rightarrow> (s, Inl (Err_Crypto e))
             | Inr encrypted \<Rightarrow> (s\<lparr>pv_state := PV_M3Sent\<rparr>, Inr (sealed_message 0x03 encrypted)))"

definition verify_generate_m3 :: "primitives \<Rightarrow> pair_verify \<Rightarrow> pair_verify \<times> ('io air_error + u8 list)" where
  "verify_generate_m3 pr s = generate_m3_with_identifier pr s (pv_custom_identifier s)"

definition generate_m3_transient :: "primitives \<Rightarrow> pair_verify \<Rightarrow> pair_verify \<times> ('io air_error + u8 list)" where
  "generate_m3_transient pr s =
     (if pv_state s \<noteq> PV_M2Received then (s, Inl (state_mismatch 2 s))
      else case m3_inputs s of
        None \<Rightarrow> (s, Inl (Err_Pairing SrpVerificationFailed))
      | Some (client_public, server_public, session_key) \<Rightarrow>
         (case pairing_encrypt (pr_seal pr) session_key (nonce_from_string PV_MSG03_NONCE)
                 (pr_ed_sign pr (pv_identity s) (client_public @ server_public)) of
            Inl e \<Rightarrow> (s, Inl (Err_Crypto e))
          | Inr encrypted \<Rightarrow> (s\<lparr>pv_state := PV_M3Sent\<rparr>, Inr (encrypted @ [0x00, 0x00, 0x00, 0x00]))))"

section \<open>M4\<close>

definition derive_session_keys :: "primitives \<Rightarrow> pair_verify \<Rightarrow> pair_verify \<times> ('io air_error + session_keys)" where
  "derive_session_keys pr s =
     (case pv_shared_secret s of
        None \<Rightarrow> verify_fail s (Err_Pairing SrpVerificationFailed)
      | Some secret \<Rightarrow>
         (case derive_control_keys pr secret of
            Inl e \<Rightarrow> verify_fail s (Err_Crypto e)
          | Inr keys \<Rightarrow> (s\<lparr>pv_state := PV_Complete\<rparr>, Inr keys)))"

definition verify_process_m4 :: "primitives \<Rightarrow> pair_verify \<Rightarrow> u8 list \<Rightarrow> pair_verify \<times> ('io air_error + session_keys)" where
  "verify_process_m4 pr s response =
     (if pv_state s \<noteq> PV_M3Sent then (s, Inl (state_mismatch 3 s))
      else case tlv_parse response of
        Inl e \<Rightarrow> verify_fail s (Err_Pairing (TlvParse (tlv_error_text e)))
      | Inr tlv \<Rightarrow>
        if tlv_error_code tlv \<noteq> None then verify_fail s (Err_Pairing Pairing_Rejected)
        else if tlv_state tlv \<noteq> Some 4
        then verify_fail s (Err_Pairing (StateMismatch 4 (case tlv_state tlv of Some n \<Rightarrow> n | None \<Rightarrow> 0)))
        else derive_session_keys pr s)"

definition process_m4_transient :: "primitives \<Rightarrow> pair_verify \<Rightarrow> u8 list \<Rightarrow> pair_verify \<times> ('io air_error + session_keys)" where
  "process_m4_transient pr s response =
     (if pv_state s \<noteq> PV_M3Sent then (s, Inl (state_mismatch 3 s))
      else let parsed = tlv_parse response;
               refused = (case parsed of Inr tlv \<Rightarrow> tlv_error_code tlv \<noteq> None | Inl _ \<Rightarrow> False);
               acknowledged = (case parsed of Inr tlv \<Rightarrow> tlv_state tlv = Some 4 | Inl _ \<Rightarrow> False)
        in if refused then verify_fail s (Err_Pairing Pairing_Rejected)
           else if acknowledged then derive_session_keys pr s
           else if response = [0, 0, 0, 0] then derive_session_keys pr s
           else if length response \<le> 8 \<and> (response = [] \<or> hd response = 0) then derive_session_keys pr s
           else verify_fail s (Err_Pairing Pairing_Rejected))"

section \<open>The accessory\<close>

record verify_server =
  mv_seed :: "u8 list"
  mv_client_public :: "u8 list option"
  mv_shared_secret :: "u8 list option"
  mv_session_key :: "u8 list option"

definition verify_server_with_identity :: "u8 list \<Rightarrow> verify_server" where
  "verify_server_with_identity seed =
     \<lparr>mv_seed = seed, mv_client_public = None, mv_shared_secret = None, mv_session_key = None\<rparr>"

definition server_process_m1 ::
    "primitives \<Rightarrow> u8 list \<Rightarrow> verify_server \<Rightarrow> u8 list \<Rightarrow> verify_server \<times> ('io air_error + u8 list)" where
  "server_process_m1 pr secret sv m1 =
     (case tlv_parse m1 of
        Inl e \<Rightarrow> (sv, Inl (Err_Parse (InvalidFormat (tlv_error_message e))))
      | Inr tlv \<Rightarrow>
       (case tlv_get tlv Tlv_PublicKey of
          None \<Rightarrow> (sv, Inl (Err_Pairing (MissingTlv (tlv_byte Tlv_PublicKey))))
        | Some client_public \<Rightarrow>
          if length client_public \<noteq> 32 then (sv, Inl (Err_Crypto (InvalidKeyLength 32 (length client_public))))
          else let sv1 = sv\<lparr>mv_client_public := Some client_public\<rparr>; server_public = pr_x25519_base pr secret
          in case diffie_hellman pr secret client_public of
               Inl e \<Rightarrow> (sv1, Inl (Err_Crypto e))
             | Inr shared \<Rightarrow>
                 let sv2 = sv1\<lparr>mv_shared_secret := Some shared\<rparr>
                 in case derive_pair_verify_key pr shared of
                      Inl e \<Rightarrow> (sv2, Inl (Err_Crypto e))
                    | Inr key \<Rightarrow>
                        let ltpk = pr_ed_public pr (mv_seed sv);
                            signature = pr_ed_sign pr (mv_seed sv) (server_public @ ltpk @ client_public);
                            inner = tlv_set (tlv_set tlv_new Tlv_Identifier ltpk) Tlv_Signature signature
                        in case pairing_encrypt (pr_seal pr) key (nonce_from_string PV_MSG02_NONCE) (tlv_encode inner) of
                             Inl e \<Rightarrow> (sv2\<lparr>mv_session_key := Some key\<rparr>, Inl (Err_Crypto e))
                           | Inr encrypted \<Rightarrow>
                               (sv2\<lparr>mv_session_key := Some key\<rparr>,
                                Inr (tlv_encode (tlv_set (tlv_set (tlv_set tlv_new Tlv_State [0x02]) Tlv_PublicKey server_public)
                                       Tlv_EncryptedData encrypted)))))"

definition server_accept_m3 :: "primitives \<Rightarrow> verify_server \<Rightarrow> u8 list \<Rightarrow> 'io air_error + u8 list" where
  "server_accept_m3 pr sv m3 =
     (case tlv_parse m3 of
        Inl e \<Rightarrow> Inl (Err_Parse (InvalidFormat (tlv_error_message e)))
      | Inr tlv \<Rightarrow>
       (case mv_session_key sv of
          None \<Rightarrow> Inl (Err_Pairing SrpVerificationFailed)
        | Some key \<Rightarrow>
         (case tlv_get tlv Tlv_EncryptedData of
            None \<Rightarrow> Inl (Err_Pairing (MissingTlv (tlv_byte Tlv_EncryptedData)))
          | Some encrypted \<Rightarrow>
           (case pairing_decrypt (pr_open pr) key (nonce_from_string PV_MSG03_NONCE) encrypted of
              Inl e \<Rightarrow> Inl (Err_Crypto e)
            | Inr decrypted \<Rightarrow>
             (case tlv_parse decrypted of
                Inl e \<Rightarrow> Inl (Err_Parse (InvalidFormat (tlv_error_message e)))
              | Inr inner \<Rightarrow>
                if tlv_get inner Tlv_Identifier = None then Inl (Err_Pairing (MissingTlv (tlv_byte Tlv_Identifier)))
                else if tlv_get inner Tlv_Signature = None then Inl (Err_Pairing (MissingTlv (tlv_byte Tlv_Signature)))
                else Inr (tlv_encode (tlv_set tlv_new Tlv_State [0x04])))))))"

end
