(* ===== verification/Pairing_Session.thy ===== *)
theory Pairing_Session
  imports Pair_Verify Device_Model
begin

text \<open>
  The pairing session (\<open>airplay-pairing/src/session.rs\<close>), which drives pair-setup, transient pairing,
  pair-verify and the FairPlay exchange (\<open>fairplay.rs\<close>) and keeps what they yield. Random values are
  arguments of the operations that draw them.
\<close>

section \<open>FairPlay framing\<close>

datatype fp_state = FP_Initial | FP_Phase1Sent | FP_Phase1Complete | FP_Phase3Sent | FP_Complete | FP_Failed

record fairplay_setup =
  fp_state :: fp_state
  fp_mode :: "u8 option"
  fp_session_key :: "u8 list option"
  fp_phase1_response :: "u8 list option"

definition fairplay_new :: fairplay_setup where
  "fairplay_new = \<lparr>fp_state = FP_Initial, fp_mode = None, fp_session_key = None, fp_phase1_response = None\<rparr>"

definition fp_fail :: "fairplay_setup \<Rightarrow> pairing_error \<Rightarrow> fairplay_setup \<times> (pairing_error + 'a)" where
  "fp_fail f e = (f\<lparr>fp_state := FP_Failed\<rparr>, Inl e)"

definition fply_head :: "u8 \<Rightarrow> u8 list" where
  "fply_head phase = bytes_of ''FPLY'' @ [3, 0, phase]"

definition generate_phase1 :: "fairplay_setup \<Rightarrow> fairplay_setup \<times> (pairing_error + u8 list)" where
  "generate_phase1 f =
     (if fp_state f \<noteq> FP_Initial
      then fp_fail f (Pairing_InvalidState ''Phase 1 can only be generated from Initial state'')
      else (f\<lparr>fp_state := FP_Phase1Sent\<rparr>, Inr (fply_head 1 @ replicate 9 0)))"

definition process_phase1_response :: "fairplay_setup \<Rightarrow> u8 list \<Rightarrow> fairplay_setup \<times> (pairing_error + unit)" where
  "process_phase1_response f response =
     (if fp_state f \<noteq> FP_Phase1Sent
      then fp_fail f (Pairing_InvalidState ''Phase 1 response can only be processed after sending Phase 1'')
      else if length response \<noteq> 142
      then fp_fail f (FairPlayFailed (''Phase 1 response has wrong length: '' @ digits (length response) @ '' (expected 142)''))
      else if take 4 response \<noteq> bytes_of ''FPLY''
      then fp_fail f (FairPlayFailed ''Phase 1 response has invalid FPLY header'')
      else (f\<lparr>fp_mode := Some (response ! 7), fp_phase1_response := Some response, fp_state := FP_Phase1Complete\<rparr>, Inr ()))"

definition generate_phase3 :: "fairplay_setup \<Rightarrow> fairplay_setup \<times> (pairing_error + u8 list)" where
  "generate_phase3 f =
     (if fp_state f \<noteq> FP_Phase1Complete
      then fp_fail f (Pairing_InvalidState ''Phase 3 can only be generated after Phase 1 completes'')
      else (f\<lparr>fp_state := FP_Phase3Sent\<rparr>,
            Inr (fply_head 3 @ take 157 ((case fp_phase1_response f of Some d \<Rightarrow> d | None \<Rightarrow> []) @ replicate 157 0))))"

definition process_phase3_response :: "fairplay_setup \<Rightarrow> u8 list \<Rightarrow> fairplay_setup \<times> (pairing_error + u8 list)" where
  "process_phase3_response f response =
     (if fp_state f \<noteq> FP_Phase3Sent
      then fp_fail f (Pairing_InvalidState ''Phase 3 response can only be processed after sending Phase 3'')
      else if length response \<noteq> 32
      then fp_fail f (FairPlayFailed (''Phase 3 response has wrong length: '' @ digits (length response) @ '' (expected 32)''))
      else (f\<lparr>fp_session_key := Some response, fp_state := FP_Complete\<rparr>, Inr response))"

section \<open>State\<close>

datatype pair_setup_stage = Setup_NotStarted | Setup_WaitingM2 | Setup_WaitingM4 | Setup_WaitingM6 | Setup_Complete
datatype pair_verify_stage = Verify_NotStarted | Verify_WaitingM2 | Verify_WaitingM4 | Verify_Complete
datatype fairplay_stage = FairPlay_NotStarted | FairPlay_WaitingPhase1 | FairPlay_WaitingPhase3 | FairPlay_Complete
datatype transient_stage = Transient_NotStarted | Transient_WaitingM2 | Transient_WaitingM4 | Transient_Complete

record pairing_session =
  pg_auth_method :: auth_method
  pg_identity :: "u8 list"
  pg_pair_setup :: "pair_setup option"
  pg_setup_stage :: pair_setup_stage
  pg_transient_setup :: "pair_setup option"
  pg_transient_stage :: transient_stage
  pg_pair_verify :: "pair_verify option"
  pg_verify_stage :: pair_verify_stage
  pg_fairplay :: "fairplay_setup option"
  pg_fairplay_stage :: fairplay_stage
  pg_shared_secret :: "u8 list option"
  pg_session_keys :: "session_keys option"

definition pairing_with_identity :: "auth_method \<Rightarrow> u8 list \<Rightarrow> pairing_session" where
  "pairing_with_identity method seed =
     \<lparr>pg_auth_method = method, pg_identity = seed, pg_pair_setup = None, pg_setup_stage = Setup_NotStarted,
      pg_transient_setup = None, pg_transient_stage = Transient_NotStarted, pg_pair_verify = None,
      pg_verify_stage = Verify_NotStarted, pg_fairplay = None, pg_fairplay_stage = FairPlay_NotStarted,
      pg_shared_secret = None, pg_session_keys = None\<rparr>"

definition invalid :: "string \<Rightarrow> 'io air_error" where
  "invalid what = Err_Pairing (Pairing_InvalidState what)"

section \<open>Pair-setup\<close>

definition start_pair_setup ::
    "srp_params \<Rightarrow> u8 list \<Rightarrow> pairing_session \<Rightarrow> string \<Rightarrow> pairing_session \<times> ('io air_error + u8 list)" where
  "start_pair_setup params key g pin =
     (if pg_pair_setup g \<noteq> None then (g, Inl (invalid ''Pair-setup already started''))
      else case setup_generate_m1 params key (setup_new pin) of
             (_, Inl e) \<Rightarrow> (g, Inl (Err_Pairing e))
           | (ps, Inr m1) \<Rightarrow> (g\<lparr>pg_pair_setup := Some ps, pg_setup_stage := Setup_WaitingM2\<rparr>, Inr m1))"

definition continue_pair_setup ::
    "primitives \<Rightarrow> pairing_session \<Rightarrow> u8 list \<Rightarrow> pairing_session \<times> ('io air_error + u8 list option)" where
  "continue_pair_setup pr g response =
     (case pg_pair_setup g of
        None \<Rightarrow> (g, Inl (invalid ''Pair-setup not started''))
      | Some ps \<Rightarrow>
         (case pg_setup_stage g of
            Setup_WaitingM2 \<Rightarrow>
             (case setup_process_m2 pr ps response of
                (ps1, Inl e) \<Rightarrow> (g\<lparr>pg_pair_setup := Some ps1\<rparr>, Inl (Err_Pairing e))
              | (ps1, Inr _) \<Rightarrow>
                 (case setup_generate_m3 ps1 of
                    (ps2, Inl e) \<Rightarrow> (g\<lparr>pg_pair_setup := Some ps2\<rparr>, Inl (Err_Pairing e))
                  | (ps2, Inr m3) \<Rightarrow> (g\<lparr>pg_pair_setup := Some ps2, pg_setup_stage := Setup_WaitingM4\<rparr>, Inr (Some m3))))
          | Setup_WaitingM4 \<Rightarrow>
             (case setup_process_m4 pr ps response of
                (ps1, Inl e) \<Rightarrow> (g\<lparr>pg_pair_setup := Some ps1\<rparr>, Inl (Err_Pairing e))
              | (ps1, Inr _) \<Rightarrow>
                 (case setup_generate_m5 pr ps1 (pg_identity g) of
                    (ps2, Inl e) \<Rightarrow> (g\<lparr>pg_pair_setup := Some ps2\<rparr>, Inl (Err_Pairing e))
                  | (ps2, Inr m5) \<Rightarrow> (g\<lparr>pg_pair_setup := Some ps2, pg_setup_stage := Setup_WaitingM6\<rparr>, Inr (Some m5))))
          | Setup_WaitingM6 \<Rightarrow>
             (case setup_process_m6 pr ps response of
                (ps1, Inl e) \<Rightarrow> (g\<lparr>pg_pair_setup := Some ps1\<rparr>, Inl (Err_Pairing e))
              | (ps1, Inr secret) \<Rightarrow>
                 (g\<lparr>pg_pair_setup := Some ps1, pg_shared_secret := Some secret, pg_setup_stage := Setup_Complete\<rparr>, Inr None))
          | _ \<Rightarrow> (g, Inl (invalid ''Invalid pair-setup state for continue''))))"

section \<open>Transient pairing\<close>

definition start_transient_pairing_with_pin ::
    "srp_params \<Rightarrow> u8 list \<Rightarrow> pairing_session \<Rightarrow> string \<Rightarrow> pairing_session \<times> ('io air_error + u8 list)" where
  "start_transient_pairing_with_pin params key g pin =
     (if pg_transient_setup g \<noteq> None then (g, Inl (invalid ''Transient pairing already started''))
      else case setup_generate_m1 params key (setup_new_transient_with_pin pin) of
             (_, Inl e) \<Rightarrow> (g, Inl (Err_Pairing e))
           | (ps, Inr m1) \<Rightarrow> (g\<lparr>pg_transient_setup := Some ps, pg_transient_stage := Transient_WaitingM2\<rparr>, Inr m1))"

definition start_transient_pairing ::
    "srp_params \<Rightarrow> u8 list \<Rightarrow> pairing_session \<Rightarrow> pairing_session \<times> ('io air_error + u8 list)" where
  "start_transient_pairing params key g = start_transient_pairing_with_pin params key g ''3939''"

definition continue_transient_pairing ::
    "primitives \<Rightarrow> pairing_session \<Rightarrow> u8 list \<Rightarrow> pairing_session \<times> ('io air_error + u8 list option)" where
  "continue_transient_pairing pr g response =
     (case pg_transient_setup g of
        None \<Rightarrow> (g, Inl (invalid ''Transient pairing not started''))
      | Some ps \<Rightarrow>
         (case pg_transient_stage g of
            Transient_WaitingM2 \<Rightarrow>
             (case setup_process_m2 pr ps response of
                (ps1, Inl e) \<Rightarrow> (g\<lparr>pg_transient_setup := Some ps1\<rparr>, Inl (Err_Pairing e))
              | (ps1, Inr _) \<Rightarrow>
                 (case setup_generate_m3 ps1 of
                    (ps2, Inl e) \<Rightarrow> (g\<lparr>pg_transient_setup := Some ps2\<rparr>, Inl (Err_Pairing e))
                  | (ps2, Inr m3) \<Rightarrow>
                      (g\<lparr>pg_transient_setup := Some ps2, pg_transient_stage := Transient_WaitingM4\<rparr>, Inr (Some m3))))
          | Transient_WaitingM4 \<Rightarrow>
             (case setup_process_m4 pr ps response of
                (ps1, Inl e) \<Rightarrow> (g\<lparr>pg_transient_setup := Some ps1\<rparr>, Inl (Err_Pairing e))
              | (ps1, Inr _) \<Rightarrow>
                 (case complete_transient ps1 of
                    (ps2, Inl e) \<Rightarrow> (g\<lparr>pg_transient_setup := Some ps2\<rparr>, Inl (Err_Pairing e))
                  | (ps2, Inr secret) \<Rightarrow>
                     (case derive_control_keys pr secret of
                        Inl e \<Rightarrow> (g\<lparr>pg_transient_setup := Some ps2\<rparr>, Inl (Err_Crypto e))
                      | Inr keys \<Rightarrow>
                          (g\<lparr>pg_transient_setup := Some ps2, pg_shared_secret := Some secret, pg_session_keys := Some keys,
                             pg_transient_stage := Transient_Complete\<rparr>, Inr None))))
          | _ \<Rightarrow> (g, Inl (invalid ''Invalid transient state for continue''))))"

datatype pairing_step = Step_Send "u8 list" | Step_Complete session_keys

definition take_session_keys :: "pairing_session \<Rightarrow> pairing_session \<times> session_keys option" where
  "take_session_keys g = (g\<lparr>pg_session_keys := None\<rparr>, pg_session_keys g)"

definition transient_pairing_start ::
    "srp_params \<Rightarrow> u8 list \<Rightarrow> pairing_session \<Rightarrow> string \<Rightarrow> pairing_session \<times> ('io air_error + pairing_step)" where
  "transient_pairing_start params key g pin =
     (case start_transient_pairing_with_pin params key g pin of
        (g1, Inl e) \<Rightarrow> (g1, Inl e) | (g1, Inr m1) \<Rightarrow> (g1, Inr (Step_Send m1)))"

definition transient_pairing_continue ::
    "primitives \<Rightarrow> pairing_session \<Rightarrow> u8 list \<Rightarrow> pairing_session \<times> ('io air_error + pairing_step)" where
  "transient_pairing_continue pr g response =
     (case continue_transient_pairing pr g response of
        (g1, Inl e) \<Rightarrow> (g1, Inl e)
      | (g1, Inr (Some msg)) \<Rightarrow> (g1, Inr (Step_Send msg))
      | (g1, Inr None) \<Rightarrow>
         (case take_session_keys g1 of
            (g2, Some keys) \<Rightarrow> (g2, Inr (Step_Complete keys))
          | (g2, None) \<Rightarrow> (g2, Inl (Err_Pairing (Pairing_Protocol ''Transient pairing completed without session keys'')))))"

section \<open>Pair-verify\<close>

definition start_pair_verify ::
    "primitives \<Rightarrow> u8 list \<Rightarrow> pairing_session \<Rightarrow> pairing_session \<times> ('io air_error + u8 list)" where
  "start_pair_verify pr secret g =
     (if pg_pair_verify g \<noteq> None then (g, Inl (invalid ''Pair-verify already started''))
      else case verify_generate_m1 pr secret (verify_new (pg_identity g)) of
             (_, Inl e) \<Rightarrow> (g, Inl e)
           | (pv, Inr m1) \<Rightarrow> (g\<lparr>pg_pair_verify := Some pv, pg_verify_stage := Verify_WaitingM2\<rparr>, Inr m1))"

definition continue_pair_verify ::
    "primitives \<Rightarrow> pairing_session \<Rightarrow> u8 list \<Rightarrow> pairing_session \<times> ('io air_error + u8 list option)" where
  "continue_pair_verify pr g response =
     (case pg_pair_verify g of
        None \<Rightarrow> (g, Inl (invalid ''Pair-verify not started''))
      | Some pv \<Rightarrow>
         (case pg_verify_stage g of
            Verify_WaitingM2 \<Rightarrow>
             (case verify_process_m2 pr pv response of
                (pv1, Inl e) \<Rightarrow> (g\<lparr>pg_pair_verify := Some pv1\<rparr>, Inl e)
              | (pv1, Inr _) \<Rightarrow>
                 (case verify_generate_m3 pr pv1 of
                    (pv2, Inl e) \<Rightarrow> (g\<lparr>pg_pair_verify := Some pv2\<rparr>, Inl e)
                  | (pv2, Inr m3) \<Rightarrow> (g\<lparr>pg_pair_verify := Some pv2, pg_verify_stage := Verify_WaitingM4\<rparr>, Inr (Some m3))))
          | Verify_WaitingM4 \<Rightarrow>
             (case verify_process_m4 pr pv response of
                (pv1, Inl e) \<Rightarrow> (g\<lparr>pg_pair_verify := Some pv1\<rparr>, Inl e)
              | (pv1, Inr keys) \<Rightarrow>
                 (g\<lparr>pg_pair_verify := Some pv1, pg_session_keys := Some keys, pg_verify_stage := Verify_Complete\<rparr>, Inr None))
          | _ \<Rightarrow> (g, Inl (invalid ''Invalid pair-verify state for continue''))))"

section \<open>FairPlay\<close>

definition start_fairplay :: "pairing_session \<Rightarrow> pairing_session \<times> ('io air_error + u8 list)" where
  "start_fairplay g =
     (if pg_fairplay g \<noteq> None then (g, Inl (invalid ''FairPlay already started''))
      else case generate_phase1 fairplay_new of
             (_, Inl e) \<Rightarrow> (g, Inl (Err_Pairing e))
           | (f, Inr msg) \<Rightarrow> (g\<lparr>pg_fairplay := Some f, pg_fairplay_stage := FairPlay_WaitingPhase1\<rparr>, Inr msg))"

definition continue_fairplay :: "pairing_session \<Rightarrow> u8 list \<Rightarrow> pairing_session \<times> ('io air_error + u8 list option)" where
  "continue_fairplay g response =
     (case pg_fairplay g of
        None \<Rightarrow> (g, Inl (invalid ''FairPlay not started''))
      | Some f \<Rightarrow>
         (case pg_fairplay_stage g of
            FairPlay_WaitingPhase1 \<Rightarrow>
             (case process_phase1_response f response of
                (f1, Inl e) \<Rightarrow> (g\<lparr>pg_fairplay := Some f1\<rparr>, Inl (Err_Pairing e))
              | (f1, Inr _) \<Rightarrow>
                 (case generate_phase3 f1 of
                    (f2, Inl e) \<Rightarrow> (g\<lparr>pg_fairplay := Some f2\<rparr>, Inl (Err_Pairing e))
                  | (f2, Inr msg) \<Rightarrow> (g\<lparr>pg_fairplay := Some f2, pg_fairplay_stage := FairPlay_WaitingPhase3\<rparr>, Inr (Some msg))))
          | FairPlay_WaitingPhase3 \<Rightarrow>
             (case process_phase3_response f response of
                (f1, Inl e) \<Rightarrow> (g\<lparr>pg_fairplay := Some f1\<rparr>, Inl (Err_Pairing e))
              | (f1, Inr _) \<Rightarrow> (g\<lparr>pg_fairplay := Some f1, pg_fairplay_stage := FairPlay_Complete\<rparr>, Inr None))
          | _ \<Rightarrow> (g, Inl (invalid ''Invalid FairPlay state for continue''))))"

end
