(* ===== verification/Pairing_Properties.thy ===== *)
theory Pairing_Properties
  imports Pairing_Session
begin

text \<open>
  What pairing promises: the honest exchanges complete with the same secret on both sides, what a
  completed exchange has checked, and how calls out of order end.
\<close>

section \<open>Messages\<close>

lemma tlv_byte_eq [simp]: "tlv_byte a = tlv_byte b \<longleftrightarrow> a = b"
  using tlv_from_byte_inverse by (metis option.inject)

lemma tlv_new_ok [simp]: "om_ok tlv_new"
  by (simp add: tlv_new_def)

lemma tlv_get_new [simp]: "tlv_get tlv_new ty = None"
  by (simp add: tlv_get_def tlv_new_def)

lemma tlv_set_ok [simp]: "om_ok t \<Longrightarrow> om_ok (tlv_set t ty v)"
  by (simp add: tlv_set_def om_insert_ok)

lemma tlv_get_set [simp]: "om_ok t \<Longrightarrow> tlv_get (tlv_set t ty v) ty' = (if ty' = ty then Some v else tlv_get t ty')"
  by (simp add: tlv_set_def tlv_get_def om.get_insert)

lemma length_encode_item: "length (tlv_encode_item ty v) \<le> 3 * length v + 2"
proof (cases "v = []")
  case False
  have "length (concat (map (\<lambda>chunk. [ty, of_nat (length chunk)] @ chunk) cs)) = 2 * length cs + length (concat cs)" for cs :: "u8 list list"
    by (induction cs) simp_all
  moreover have "length (chunks 255 v) \<le> length v" by (rule length_chunks) simp
  ultimately show ?thesis using False by (simp add: tlv_encode_item_def concat_chunks del: append_Cons append_Nil)
qed (simp add: tlv_encode_item_def)

lemma identity_entries: "identity_tlv ident pk signature = [(1, ident), (3, pk), (10, signature)]"
  by (simp add: identity_tlv_def tlv_set_def tlv_new_def)

lemma length_identity:
  "length (tlv_encode (identity_tlv ident pk signature)) \<le> 3 * (length ident + length pk + length signature) + 6"
  using length_encode_item [of 1 ident] length_encode_item [of 3 pk] length_encode_item [of 10 signature]
  by (simp add: identity_entries tlv_encode_def om_keys_def om_get_def)

lemma identity_ok [simp]: "om_ok (identity_tlv ident pk signature)"
  by (simp add: identity_tlv_def)

lemma identity_get [simp]:
  "tlv_get (identity_tlv ident pk signature) Tlv_Identifier = Some ident"
  "tlv_get (identity_tlv ident pk signature) Tlv_PublicKey = Some pk"
  "tlv_get (identity_tlv ident pk signature) Tlv_Signature = Some signature"
  by (simp_all add: identity_tlv_def)

lemma length_derived_identifier: "length (derived_identifier pk) \<le> 100"
proof -
  have "length (concat (map hex2_upper bs)) = 2 * length bs" for bs
    by (induction bs) (simp_all add: hex2_upper_def)
  then show ?thesis by (simp add: derived_identifier_def Let_def byte_range_def)
qed

lemma identity_seals:
  assumes "primitives_ok pr" "length ident \<le> 100" "length pk = 32" "length signature = 64"
  shows "\<exists>ct. pairing_encrypt (pr_seal pr) key nonce (tlv_encode (identity_tlv ident pk signature)) = Inr ct
     \<and> pairing_decrypt (pr_open pr) key nonce ct = Inr (tlv_encode (identity_tlv ident pk signature))"
proof -
  have "length (tlv_encode (identity_tlv ident pk signature)) \<le> MAX_BLOCK"
    using length_identity [of ident pk signature] assms(2-4) by (simp add: MAX_BLOCK_def)
  from pairing_seal_open [OF assms(1) this, of key nonce] show ?thesis by blast
qed

lemma derive_32: "primitives_ok pr \<Longrightarrow> \<exists>k. derive_key pr ikm salt info 32 = Inr k"
  using derive_key_ok [of pr 32 ikm salt info] by auto

lemmas message_simps = checked_message_def tlv_roundtrip tlv_state_def tlv_error_code_def sealed_message_def

section \<open>Pair-setup between controller and accessory\<close>

lemma setup_m2_step:
  assumes "ps_state s = PS_M1Sent" "ps_srp_client s = Some c" "length (ms_salt sv) = 16"
    "process_challenge pr c \<lparr>ch_salt = ms_salt sv, ch_server_public_key = pad_to_n (sv_public_key (ms_srp sv))\<rparr> = Inr pf"
  shows "setup_process_m2 pr s (server_generate_m2 sv) = (s\<lparr>ps_srp_proof := Some pf, ps_state := PS_M2Received\<rparr>, Inr ())"
  using assms by (simp add: setup_process_m2_def server_generate_m2_def message_simps N_BYTES_def)

lemma server_m3_step:
  assumes "server_session pr (ms_srp sv) client_pk = (srp1, secret, server_proof)" "derive_pair_setup_key pr secret = Inr key"
  shows "server_process_m3 pr sv (tlv_encode (tlv_set (tlv_set (tlv_set tlv_new Tlv_State [0x03]) Tlv_PublicKey client_pk) Tlv_Proof p))
     = (sv\<lparr>ms_client_public_key := Some client_pk, ms_srp := srp1, ms_session_key := Some key\<rparr>,
        Inr (tlv_encode (tlv_set (tlv_set tlv_new Tlv_State [0x04]) Tlv_Proof server_proof)))"
  using assms by (simp add: server_process_m3_def message_simps)

lemma setup_m4_step:
  assumes "ps_state s = PS_M3Sent" "ps_srp_client s = Some c" "ps_srp_proof s = Some pf"
    "derive_pair_setup_key pr (pf_shared_secret pf) = Inr key"
  shows "setup_process_m4 pr s (tlv_encode (tlv_set (tlv_set tlv_new Tlv_State [0x04]) Tlv_Proof (pf_expected_server_proof pf)))
     = (s\<lparr>ps_session_key := Some key, ps_state := PS_M4Received\<rparr>, Inr ())"
  using assms by (simp add: setup_process_m4_def message_simps verify_server_proof_def)

lemma setup_m5_step:
  assumes "primitives_ok pr" "ps_state s = PS_M4Received" "ps_session_key s = Some key" "ps_srp_proof s = Some pf"
  shows "\<exists>ct plain. setup_generate_m5 pr s seed = (s\<lparr>ps_state := PS_M5Sent\<rparr>, Inr (sealed_message 0x05 ct))
     \<and> pairing_decrypt (pr_open pr) key (nonce_from_string PS_MSG05_NONCE) ct = Inr plain"
proof -
  let ?pk = "pr_ed_public pr seed"
  let ?id = "bytes_of (derived_identifier ?pk)"
  obtain x where x: "derive_key pr (pf_shared_secret pf) (bytes_of ''Pair-Setup-Controller-Sign-Salt'')
      (bytes_of ''Pair-Setup-Controller-Sign-Info'') 32 = Inr x"
    using derive_32 [OF assms(1)] by blast
  have "length ?id \<le> 100" using length_derived_identifier [of ?pk] by (simp add: bytes_of_def)
  then obtain ct where "pairing_encrypt (pr_seal pr) key (nonce_from_string PS_MSG05_NONCE)
        (tlv_encode (identity_tlv ?id ?pk (pr_ed_sign pr seed (x @ ?id @ ?pk)))) = Inr ct"
      "pairing_decrypt (pr_open pr) key (nonce_from_string PS_MSG05_NONCE) ct
        = Inr (tlv_encode (identity_tlv ?id ?pk (pr_ed_sign pr seed (x @ ?id @ ?pk))))"
    using identity_seals [OF assms(1) _ signature_ok(1,2) [OF assms(1)]] by blast
  then show ?thesis using assms x by (auto simp: setup_generate_m5_def generate_m5_internal_def Let_def)
qed

lemma server_m5_step:
  assumes "primitives_ok pr" "ms_session_key sv = Some key" "sv_shared_secret (ms_srp sv) = Some secret"
    "pairing_decrypt (pr_open pr) key (nonce_from_string PS_MSG05_NONCE) ct = Inr plain"
    "ps_state s = PS_M5Sent" "ps_session_key s = Some key" "ps_srp_proof s = Some pf" "pf_shared_secret pf = secret"
  shows "\<exists>m6. server_process_m5 pr sv (sealed_message 0x05 ct) = Inr m6
     \<and> setup_process_m6 pr s m6 =
         (s\<lparr>ps_server_identifier := Some (bytes_of ''AirPlay-Server''), ps_server_ltpk := Some (pr_ed_public pr (ms_seed sv)),
            ps_state := PS_Complete\<rparr>, Inr secret)"
proof -
  let ?pk = "pr_ed_public pr (ms_seed sv)" and ?id = "bytes_of ''AirPlay-Server''"
  obtain x where x: "derive_key pr secret (bytes_of ''Pair-Setup-Accessory-Sign-Salt'')
      (bytes_of ''Pair-Setup-Accessory-Sign-Info'') 32 = Inr x"
    using derive_32 [OF assms(1)] by blast
  let ?sig = "pr_ed_sign pr (ms_seed sv) (x @ ?id @ ?pk)"
  have "length ?id \<le> 100" by (simp add: bytes_of_def)
  then obtain ct6 where ct6: "pairing_encrypt (pr_seal pr) key (nonce_from_string PS_MSG06_NONCE) (tlv_encode (identity_tlv ?id ?pk ?sig)) = Inr ct6"
      "pairing_decrypt (pr_open pr) key (nonce_from_string PS_MSG06_NONCE) ct6 = Inr (tlv_encode (identity_tlv ?id ?pk ?sig))"
    using identity_seals [OF assms(1) _ signature_ok(1,2) [OF assms(1)]] by blast
  have "server_process_m5 pr sv (sealed_message 0x05 ct) = Inr (sealed_message 0x06 ct6)"
    using assms(2-4) x ct6(1) by (simp add: server_process_m5_def message_simps Let_def)
  moreover have "setup_process_m6 pr s (sealed_message 0x06 ct6) =
         (s\<lparr>ps_server_identifier := Some ?id, ps_server_ltpk := Some ?pk, ps_state := PS_Complete\<rparr>, Inr secret)"
    using assms(5-8) x ct6(2) signature_ok [OF assms(1)] by (simp add: setup_process_m6_def message_simps)
  ultimately show ?thesis by blast
qed

text \<open>The part that pair-setup and transient pairing share: from M1 to an accepted M4.\<close>

lemma setup_exchange:
  fixes pr :: primitives and params :: srp_params and salt key seed :: "u8 list" and b :: nat and pin :: string and transient :: bool
  assumes pr: "primitives_ok pr"
    and group: "fermat_modulus (sp_n params)" "sp_n params \<le> 256 ^ N_BYTES" "sp_g params mod sp_n params \<noteq> 0"
    and salt: "length salt = 16"
  defines "c \<equiv> srp_client_new params (bytes_of ''Pair-Setup'') (bytes_of pin) key"
    and "sv \<equiv> setup_server_new pr params seed salt b pin"
  assumes nonzero: "sv_public_key (ms_srp sv) \<noteq> 0" "compute_u pr (cl_public_key c) (sv_public_key (ms_srp sv)) \<noteq> 0"
  obtains s1 m1 s2 s3 m3 sv1 m4 s4 pf session_key where
    "setup_generate_m1 params key (setup_create pin transient) = (s1, Inr m1)"
    "setup_process_m2 pr s1 (server_generate_m2 sv) = (s2, Inr ())" "setup_generate_m3 s2 = (s3, Inr m3)"
    "server_process_m3 pr sv m3 = (sv1, Inr m4)" "setup_process_m4 pr s3 m4 = (s4, Inr ())"
    "ps_state s4 = PS_M4Received" "ps_transient_mode s4 = transient"
    "ps_session_key s4 = Some session_key" "ps_srp_proof s4 = Some pf"
    "ms_session_key sv1 = Some session_key" "sv_shared_secret (ms_srp sv1) = Some (pf_shared_secret pf)" "ms_seed sv1 = seed"
proof -
  let ?s1 = "(setup_create pin transient)\<lparr>ps_srp_client := Some c, ps_state := PS_M1Sent\<rparr>"
  have srp: "ms_srp sv = srp_server_new pr params b (bytes_of ''Pair-Setup'') (bytes_of pin) salt" "ms_salt sv = salt" "ms_seed sv = seed"
    by (simp_all add: sv_def setup_server_new_def)
  obtain pf where pf: "process_challenge pr c \<lparr>ch_salt = salt, ch_server_public_key = pad_to_n (sv_public_key (ms_srp sv))\<rparr> = Inr pf"
      "server_session pr (ms_srp sv) (srp_public_key c)
         = ((ms_srp sv)\<lparr>sv_shared_secret := Some (pf_shared_secret pf)\<rparr>, pf_shared_secret pf, pf_expected_server_proof pf)"
    using srp_session_agrees [OF group, of pr b "bytes_of pin" salt key] nonzero unfolding srp c_def by blast
  obtain session_key where key: "derive_pair_setup_key pr (pf_shared_secret pf) = Inr session_key"
    using derive_32 [OF pr] unfolding derive_pair_setup_key_def derive_key_32_def by blast
  let ?s2 = "?s1\<lparr>ps_srp_proof := Some pf, ps_state := PS_M2Received\<rparr>"
  let ?s3 = "?s2\<lparr>ps_state := PS_M3Sent\<rparr>"
  have m1: "\<exists>m1. setup_generate_m1 params key (setup_create pin transient) = (?s1, Inr m1)"
    by (simp add: setup_generate_m1_def generate_m1_internal_def setup_create_def c_def)
  have m2: "setup_process_m2 pr ?s1 (server_generate_m2 sv) = (?s2, Inr ())"
    by (rule setup_m2_step [where c = c]) (use pf(1) salt in \<open>simp_all add: srp\<close>)
  have m3: "setup_generate_m3 ?s2 = (?s3, Inr (tlv_encode (tlv_set (tlv_set (tlv_set tlv_new Tlv_State [0x03]) Tlv_PublicKey (srp_public_key c))
                  Tlv_Proof (pf_client_proof pf))))"
    by (simp add: setup_generate_m3_def)
  have m4: "setup_process_m4 pr ?s3 (tlv_encode (tlv_set (tlv_set tlv_new Tlv_State [0x04]) Tlv_Proof (pf_expected_server_proof pf)))
     = (?s3\<lparr>ps_session_key := Some session_key, ps_state := PS_M4Received\<rparr>, Inr ())"
    by (rule setup_m4_step [where c = c]) (use key in simp_all)
  from m1 show thesis
    by (elim exE) (rule that [OF _ m2 m3 server_m3_step [OF pf(2) key] m4], simp_all add: srp setup_create_def)
qed

text \<open>
  C29: pair-setup with the accessory of the repository's tests and the same PIN completes: after M6 both
  hold the same secret, and the controller has stored the accessory's identifier and long-term key.
\<close>

theorem pair_setup_completes:
  fixes pr :: primitives and params :: srp_params and salt key seed :: "u8 list" and b :: nat and pin :: string
    and g :: pairing_session
  assumes "primitives_ok pr"
    "fermat_modulus (sp_n params)" "sp_n params \<le> 256 ^ N_BYTES" "sp_g params mod sp_n params \<noteq> 0" "length salt = 16"
  defines "c \<equiv> srp_client_new params (bytes_of ''Pair-Setup'') (bytes_of pin) key"
    and "sv \<equiv> setup_server_new pr params seed salt b pin"
  assumes "sv_public_key (ms_srp sv) \<noteq> 0" "compute_u pr (cl_public_key c) (sv_public_key (ms_srp sv)) \<noteq> 0" "pg_pair_setup g = None"
  shows "\<exists>g1 m1 g2 m3 sv1 m4 g3 m5 m6 g4 s secret.
      start_pair_setup params key g pin = (g1, Inr m1)
    \<and> continue_pair_setup pr g1 (server_generate_m2 sv) = (g2, Inr (Some m3))
    \<and> server_process_m3 pr sv m3 = (sv1, Inr m4)
    \<and> continue_pair_setup pr g2 m4 = (g3, Inr (Some m5))
    \<and> server_process_m5 pr sv1 m5 = Inr m6
    \<and> continue_pair_setup pr g3 m6 = (g4, Inr None)
    \<and> pg_setup_stage g4 = Setup_Complete \<and> pg_shared_secret g4 = Some secret \<and> sv_shared_secret (ms_srp sv1) = Some secret
    \<and> pg_pair_setup g4 = Some s \<and> ps_server_ltpk s = Some (pr_ed_public pr seed)
    \<and> ps_server_identifier s = Some (bytes_of ''AirPlay-Server'')"
proof -
  obtain s1 m1 s2 s3 m3 sv1 m4 s4 pf session_key where run:
    "setup_generate_m1 params key (setup_create pin False) = (s1, Inr m1)"
    "setup_process_m2 pr s1 (server_generate_m2 sv) = (s2, Inr ())" "setup_generate_m3 s2 = (s3, Inr m3)"
    "server_process_m3 pr sv m3 = (sv1, Inr m4)" "setup_process_m4 pr s3 m4 = (s4, Inr ())"
    and s4: "ps_state s4 = PS_M4Received" "ps_session_key s4 = Some session_key" "ps_srp_proof s4 = Some pf"
    and sv1: "ms_session_key sv1 = Some session_key" "sv_shared_secret (ms_srp sv1) = Some (pf_shared_secret pf)" "ms_seed sv1 = seed"
    using setup_exchange [OF assms(1-5), where transient = False] assms(8,9) unfolding c_def sv_def by metis
  obtain ct plain where m5: "setup_generate_m5 pr s4 (pg_identity g) = (s4\<lparr>ps_state := PS_M5Sent\<rparr>, Inr (sealed_message 0x05 ct))"
      "pairing_decrypt (pr_open pr) session_key (nonce_from_string PS_MSG05_NONCE) ct = Inr plain"
    using setup_m5_step [OF assms(1) s4] by blast
  obtain m6 where m6: "server_process_m5 pr sv1 (sealed_message 0x05 ct) = Inr m6"
      "setup_process_m6 pr (s4\<lparr>ps_state := PS_M5Sent\<rparr>) m6 =
         (s4\<lparr>ps_state := PS_M5Sent, ps_server_identifier := Some (bytes_of ''AirPlay-Server''), ps_server_ltpk := Some (pr_ed_public pr seed),
            ps_state := PS_Complete\<rparr>, Inr (pf_shared_secret pf))"
    using server_m5_step [OF assms(1) sv1(1,2) m5(2), of "s4\<lparr>ps_state := PS_M5Sent\<rparr>"] s4 sv1(3) by auto
  show ?thesis
    using run m5(1) m6 sv1 assms(10)
    by (simp add: start_pair_setup_def setup_new_def continue_pair_setup_def)
qed

text \<open>
  C17: transient pairing with the same PIN completes after M4 with the control keys of the secret that the
  accessory holds, and over the channel of these keys every conversation is delivered.
\<close>

theorem transient_pairing_completes:
  fixes pr :: primitives and params :: srp_params and salt key seed :: "u8 list" and b :: nat and pin :: string
    and g :: pairing_session
  assumes "primitives_ok pr"
    "fermat_modulus (sp_n params)" "sp_n params \<le> 256 ^ N_BYTES" "sp_g params mod sp_n params \<noteq> 0" "length salt = 16"
  defines "c \<equiv> srp_client_new params (bytes_of ''Pair-Setup'') (bytes_of pin) key"
    and "sv \<equiv> setup_server_new pr params seed salt b pin"
  assumes "sv_public_key (ms_srp sv) \<noteq> 0" "compute_u pr (cl_public_key c) (sv_public_key (ms_srp sv)) \<noteq> 0" "pg_transient_setup g = None"
  shows "\<exists>g1 m1 g2 m3 sv1 m4 g3 secret write read.
      transient_pairing_start params key g pin = (g1, Inr (Step_Send m1))
    \<and> transient_pairing_continue pr g1 (server_generate_m2 sv) = (g2, Inr (Step_Send m3))
    \<and> server_process_m3 pr sv m3 = (sv1, Inr m4)
    \<and> transient_pairing_continue pr g2 m4 = (g3, Inr (Step_Complete \<lparr>sk_write_key = write, sk_read_key = read\<rparr>))
    \<and> sv_shared_secret (ms_srp sv1) = Some secret
    \<and> derive_control_keys pr secret = Inr \<lparr>sk_write_key = write, sk_read_key = read\<rparr>
    \<and> (\<forall>msgs. snd (conversation (pr_seal pr) (pr_open pr) (with_keys write read, with_keys read write) msgs)
         = map (delivered \<circ> snd) msgs)"
proof -
  obtain s1 m1 s2 s3 m3 sv1 m4 s4 pf where run:
    "setup_generate_m1 params key (setup_create pin True) = (s1, Inr m1)"
    "setup_process_m2 pr s1 (server_generate_m2 sv) = (s2, Inr ())" "setup_generate_m3 s2 = (s3, Inr m3)"
    "server_process_m3 pr sv m3 = (sv1, Inr m4)" "setup_process_m4 pr s3 m4 = (s4, Inr ())"
    and s4: "ps_state s4 = PS_M4Received" "ps_transient_mode s4" "ps_srp_proof s4 = Some pf"
    and sv1: "sv_shared_secret (ms_srp sv1) = Some (pf_shared_secret pf)"
    using setup_exchange [OF assms(1-5), where transient = True] assms(8,9) unfolding c_def sv_def by metis
  obtain w r where keys: "derive_control_keys pr (pf_shared_secret pf) = Inr \<lparr>sk_write_key = w, sk_read_key = r\<rparr>"
    using control_keys_ok [OF assms(1)] by blast
  have talk: "snd (conversation (pr_seal pr) (pr_open pr) (with_keys w r, with_keys r w) msgs) = map (delivered \<circ> snd) msgs" for msgs
    using assms(1) conversation_delivers [of "pr_seal pr" "pr_open pr" "(with_keys w r, with_keys r w)" msgs]
    by (simp add: primitives_ok_def channels_in_step_def in_step_def with_keys_def new_unidirectional_def control_new_def)
  show ?thesis
    using run s4 sv1 keys talk assms(10)
    by (simp add: transient_pairing_start_def start_transient_pairing_with_pin_def setup_new_transient_with_pin_def
        transient_pairing_continue_def continue_transient_pairing_def complete_transient_def take_session_keys_def)
qed

section \<open>Pair-verify between controller and accessory\<close>

lemma verify_inner_entries: "tlv_set (tlv_set tlv_new Tlv_Identifier ident) Tlv_Signature signature = [(1, ident), (10, signature)]"
  by (simp add: tlv_set_def tlv_new_def)

lemma verify_inner_seals:
  fixes key nonce ident signature :: "u8 list"
  assumes "primitives_ok pr" "length ident = 32" "length signature = 64"
  defines "inner \<equiv> tlv_set (tlv_set tlv_new Tlv_Identifier ident) Tlv_Signature signature"
  shows "\<exists>ct. pairing_encrypt (pr_seal pr) key nonce (tlv_encode inner) = Inr ct
     \<and> pairing_decrypt (pr_open pr) key nonce ct = Inr (tlv_encode inner)"
proof -
  have "length (tlv_encode inner) \<le> MAX_BLOCK"
    using length_encode_item [of 1 ident] length_encode_item [of 10 signature] assms(2,3)
    by (simp add: inner_def verify_inner_entries tlv_encode_def om_keys_def om_get_def MAX_BLOCK_def)
  from pairing_seal_open [OF assms(1) this, of key nonce] show ?thesis by blast
qed

lemma verify_m1_m2:
  assumes pr: "primitives_ok pr" and fresh: "pv_state s = PV_Initial" and binary: "\<not> utf8_valid (string_of (pr_ed_public pr seed))"
    and dh: "diffie_hellman pr secret (pr_x25519_base pr server_secret) = Inr shared"
      "diffie_hellman pr server_secret (pr_x25519_base pr secret) = Inr shared"
  shows "\<exists>s1 m1 sv m2 key. verify_generate_m1 pr secret s = (s1, Inr m1 :: 'io air_error + u8 list)
    \<and> server_process_m1 pr server_secret (verify_server_with_identity seed) m1 = (sv, Inr m2 :: 'io air_error + u8 list)
    \<and> mv_shared_secret sv = Some shared \<and> mv_session_key sv = Some key
    \<and> verify_process_m2 pr s1 m2 =
        (s1\<lparr>pv_server_public := Some (pr_x25519_base pr server_secret), pv_ecdh_keypair := None, pv_shared_secret := Some shared,
            pv_session_key := Some key, pv_signature_order := SignerIdPeer, pv_state := PV_M2Received\<rparr>, Inr () :: 'io air_error + unit)
    \<and> s1 = s\<lparr>pv_ecdh_public := Some (pr_x25519_base pr secret), pv_ecdh_keypair := Some secret, pv_state := PV_M1Sent\<rparr>"
proof -
  let ?C = "pr_x25519_base pr secret" and ?S = "pr_x25519_base pr server_secret" and ?pk = "pr_ed_public pr seed"
  let ?s1 = "s\<lparr>pv_ecdh_public := Some ?C, pv_ecdh_keypair := Some secret, pv_state := PV_M1Sent\<rparr>"
  let ?sig = "pr_ed_sign pr seed (?S @ ?pk @ ?C)"
  let ?inner = "tlv_set (tlv_set tlv_new Tlv_Identifier ?pk) Tlv_Signature ?sig"
  have len: "length ?C = 32" "length ?S = 32" using pr by (simp_all add: primitives_ok_def)
  obtain key where key: "derive_pair_verify_key pr shared = Inr key"
    using derive_32 [OF pr] unfolding derive_pair_verify_key_def derive_key_32_def by blast
  obtain ct where ct: "pairing_encrypt (pr_seal pr) key (nonce_from_string PV_MSG02_NONCE) (tlv_encode ?inner) = Inr ct"
      "pairing_decrypt (pr_open pr) key (nonce_from_string PV_MSG02_NONCE) ct = Inr (tlv_encode ?inner)"
    using verify_inner_seals [OF pr signature_ok(1,2) [OF pr]] by blast
  let ?m1 = "tlv_encode (tlv_set (tlv_set tlv_new Tlv_State [0x01]) Tlv_PublicKey ?C)"
  let ?m2 = "tlv_encode (tlv_set (tlv_set (tlv_set tlv_new Tlv_State [0x02]) Tlv_PublicKey ?S) Tlv_EncryptedData ct)"
  have m1: "verify_generate_m1 pr secret s = (?s1, Inr ?m1)"
    using fresh by (simp add: verify_generate_m1_def begin_verify_def Let_def)
  have sv: "server_process_m1 pr server_secret (verify_server_with_identity seed) ?m1 =
      (\<lparr>mv_seed = seed, mv_client_public = Some ?C, mv_shared_secret = Some shared, mv_session_key = Some key\<rparr>, Inr ?m2)"
    using len dh(2) key ct(1)
    by (simp add: server_process_m1_def verify_server_with_identity_def message_simps Let_def)
  have opened: "open_m2 pr (?s1\<lparr>pv_server_public := Some ?S\<rparr>) ?S ct =
      (?s1\<lparr>pv_server_public := Some ?S, pv_ecdh_keypair := None, pv_shared_secret := Some shared, pv_session_key := Some key\<rparr>,
       Inr (tlv_encode ?inner))"
    using dh(1) key ct(2) by (simp add: open_m2_def Let_def)
  have ltpk: "presented_ltpk ?inner ?pk = Some ?pk"
    using binary signature_ok(1) [OF pr, of seed] by (simp add: presented_ltpk_def)
  have m2: "verify_process_m2 pr ?s1 ?m2 =
      (?s1\<lparr>pv_server_public := Some ?S, pv_ecdh_keypair := None, pv_shared_secret := Some shared,
            pv_session_key := Some key, pv_signature_order := SignerIdPeer, pv_state := PV_M2Received\<rparr>, Inr () :: 'io air_error + unit)"
    using len signature_ok [OF pr] ltpk
    by (simp add: opened verify_process_m2_def message_simps or_known_def orders_def Let_def)
  show ?thesis by (simp add: m1 sv m2)
qed

lemma verify_m3_m4:
  assumes "primitives_ok pr" "pv_state s = PV_M2Received" "m3_inputs s = Some (cp, sp, key)" "mv_session_key sv = Some key"
    "pv_shared_secret s = Some shared" "derive_control_keys pr shared = Inr keys"
    "\<And>i. pv_custom_identifier s = Some i \<Longrightarrow> length i \<le> 100"
  shows "\<exists>m3 m4. verify_generate_m3 pr s = (s\<lparr>pv_state := PV_M3Sent\<rparr>, Inr m3 :: 'io air_error + u8 list) \<and> server_accept_m3 pr sv m3 = (Inr m4 :: 'io air_error + u8 list)
    \<and> verify_process_m4 pr (s\<lparr>pv_state := PV_M3Sent\<rparr>) m4 = (s\<lparr>pv_state := PV_Complete\<rparr>, Inr keys :: 'io air_error + session_keys)"
proof -
  let ?pk = "pr_ed_public pr (pv_identity s)"
  let ?id = "bytes_of (case pv_custom_identifier s of Some i \<Rightarrow> i | None \<Rightarrow> derived_identifier ?pk)"
  let ?sig = "pr_ed_sign pr (pv_identity s) (build_signed_message (pv_signature_order s) cp sp ?id)"
  have "length ?id \<le> 100"
    using length_derived_identifier [of ?pk] assms(7) by (auto simp: bytes_of_def split: option.split)
  then obtain ct where ct: "pairing_encrypt (pr_seal pr) key (nonce_from_string PV_MSG03_NONCE) (tlv_encode (identity_tlv ?id ?pk ?sig)) = Inr ct"
      "pairing_decrypt (pr_open pr) key (nonce_from_string PV_MSG03_NONCE) ct = Inr (tlv_encode (identity_tlv ?id ?pk ?sig))"
    using identity_seals [OF assms(1) _ signature_ok(1,2) [OF assms(1)]] by blast
  have "verify_generate_m3 pr s = (s\<lparr>pv_state := PV_M3Sent\<rparr>, Inr (sealed_message 3 ct) :: 'io air_error + u8 list)"
    using assms(2,3) ct(1) by (simp add: verify_generate_m3_def generate_m3_with_identifier_def Let_def)
  moreover have "server_accept_m3 pr sv (sealed_message 3 ct) = (Inr (tlv_encode (tlv_set tlv_new Tlv_State [0x04])) :: 'io air_error + u8 list)"
    using assms(4) ct(2) by (simp add: server_accept_m3_def message_simps)
  moreover have "verify_process_m4 pr (s\<lparr>pv_state := PV_M3Sent\<rparr>) (tlv_encode (tlv_set tlv_new Tlv_State [0x04]))
      = (s\<lparr>pv_state := PV_Complete\<rparr>, Inr keys :: 'io air_error + session_keys)"
    using assms(5,6) by (simp add: verify_process_m4_def message_simps derive_session_keys_def)
  ultimately show ?thesis by blast
qed

text \<open>
  C31: a pair-verify exchange with the accessory of the repository's tests completes, and both sides derive
  the same control keys, whatever long-term key the controller has on record, provided that the bytes of the
  accessory's public key are not valid UTF-8, an identifier set by the controller has at most 100 characters, and neither
  public value nor the shared secret is zero. Under these conditions the key that M2 presents is the one its signature is
  checked against; the recorded key is only a fallback, taken where the presented bytes read as text.
\<close>

theorem pair_verify_completes:
  fixes pr :: primitives and secret server_secret seed :: "u8 list" and s :: pair_verify
  assumes "primitives_ok pr" "pv_state s = PV_Initial" "\<not> utf8_valid (string_of (pr_ed_public pr seed))"
    "\<And>i. pv_custom_identifier s = Some i \<Longrightarrow> length i \<le> 100"
    "\<not> list_all (\<lambda>b. b = 0) (pr_x25519_base pr secret)" "\<not> list_all (\<lambda>b. b = 0) (pr_x25519_base pr server_secret)"
    "\<not> list_all (\<lambda>b. b = 0) (pr_x25519 pr secret (pr_x25519_base pr server_secret))"
  shows "\<exists>s1 m1 sv m2 s2 s3 m3 m4 s4 keys shared.
      verify_generate_m1 pr secret (set_server_ltpk s recorded) = (s1, Inr m1 :: 'io air_error + u8 list)
    \<and> server_process_m1 pr server_secret (verify_server_with_identity seed) m1 = (sv, Inr m2 :: 'io air_error + u8 list)
    \<and> verify_process_m2 pr s1 m2 = (s2, Inr () :: 'io air_error + unit) \<and> verify_generate_m3 pr s2 = (s3, Inr m3 :: 'io air_error + u8 list)
    \<and> server_accept_m3 pr sv m3 = (Inr m4 :: 'io air_error + u8 list) \<and> verify_process_m4 pr s3 m4 = (s4, Inr keys :: 'io air_error + session_keys)
    \<and> pv_state s4 = PV_Complete \<and> pv_server_ltpk s4 = Some recorded
    \<and> mv_shared_secret sv = Some shared \<and> derive_control_keys pr shared = Inr keys"
proof -
  define shared where "shared = pr_x25519 pr secret (pr_x25519_base pr server_secret)"
  have both: "pr_x25519 pr server_secret (pr_x25519_base pr secret) = shared"
    using assms(1) by (simp add: primitives_ok_def shared_def)
  have dh: "diffie_hellman pr secret (pr_x25519_base pr server_secret) = Inr shared"
      "diffie_hellman pr server_secret (pr_x25519_base pr secret) = Inr shared"
    using assms(5-7) both by (simp_all add: diffie_hellman_def shared_def Let_def)
  obtain w r where keys: "derive_control_keys pr shared = Inr \<lparr>sk_write_key = w, sk_read_key = r\<rparr>"
    using control_keys_ok [OF assms(1)] by blast
  have fresh: "pv_state (set_server_ltpk s recorded) = PV_Initial" using assms(2) by (simp add: set_server_ltpk_def)
  from verify_m1_m2 [OF assms(1) fresh assms(3) dh] obtain s1 m1 sv m2 key s2 where run:
    "verify_generate_m1 pr secret (set_server_ltpk s recorded) = (s1, Inr m1 :: 'io air_error + u8 list)"
    "server_process_m1 pr server_secret (verify_server_with_identity seed) m1 = (sv, Inr m2 :: 'io air_error + u8 list)"
    "mv_shared_secret sv = Some shared" "mv_session_key sv = Some key" "verify_process_m2 pr s1 m2 = (s2, Inr () :: 'io air_error + unit)"
    "s2 = s1\<lparr>pv_server_public := Some (pr_x25519_base pr server_secret), pv_ecdh_keypair := None, pv_shared_secret := Some shared,
            pv_session_key := Some key, pv_signature_order := SignerIdPeer, pv_state := PV_M2Received\<rparr>"
    "s1 = (set_server_ltpk s recorded)\<lparr>pv_ecdh_public := Some (pr_x25519_base pr secret), pv_ecdh_keypair := Some secret, pv_state := PV_M1Sent\<rparr>"
    by blast
  have s2: "pv_state s2 = PV_M2Received" "m3_inputs s2 = Some (pr_x25519_base pr secret, pr_x25519_base pr server_secret, key)"
      "pv_shared_secret s2 = Some shared" "pv_custom_identifier s2 = pv_custom_identifier s" "pv_server_ltpk s2 = Some recorded"
    unfolding run(6,7) by (simp_all add: m3_inputs_def set_server_ltpk_def)
  obtain m3 m4 where "verify_generate_m3 pr s2 = (s2\<lparr>pv_state := PV_M3Sent\<rparr>, Inr m3 :: 'io air_error + u8 list)" "server_accept_m3 pr sv m3 = (Inr m4 :: 'io air_error + u8 list)"
      "verify_process_m4 pr (s2\<lparr>pv_state := PV_M3Sent\<rparr>) m4 = (s2\<lparr>pv_state := PV_Complete\<rparr>, Inr \<lparr>sk_write_key = w, sk_read_key = r\<rparr> :: 'io air_error + session_keys)"
    using verify_m3_m4 [OF assms(1) s2(1,2) run(4) s2(3) keys] assms(4) s2(4) by auto
  then show ?thesis using run(1-3,5) keys s2(5) by fastforce
qed

section \<open>What a completed exchange has checked\<close>

lemma open_m2_accepted:
  assumes "open_m2 pr s server_public encrypted = (s2, Inr decrypted :: 'io air_error + u8 list)"
  shows "\<exists>secret shared key. pv_ecdh_keypair s = Some secret \<and> diffie_hellman pr secret server_public = Inr shared
    \<and> derive_pair_verify_key pr shared = Inr key
    \<and> pairing_decrypt (pr_open pr) key (nonce_from_string PV_MSG02_NONCE) encrypted = Inr decrypted
    \<and> s2 = s\<lparr>pv_ecdh_keypair := None, pv_shared_secret := Some shared, pv_session_key := Some key\<rparr>"
  using assms by (auto simp: open_m2_def verify_fail_def Let_def split: option.splits sum.splits)

lemma verify_fail_Inr [simp]: "verify_fail s e \<noteq> (s', Inr u)"
  by (simp add: verify_fail_def)

lemma m2_message:
  assumes "verify_process_m2 pr s response = (s', Inr () :: 'io air_error + unit)"
  obtains tlv server_public encrypted s2 decrypted inner ident signature client_public where
    "pv_state s = PV_M1Sent" "tlv_parse response = Inr tlv" "tlv_error_code tlv = None" "tlv_state tlv = Some 2"
    "tlv_get tlv Tlv_PublicKey = Some server_public" "length server_public = 32" "tlv_get tlv Tlv_EncryptedData = Some encrypted"
    "open_m2 pr (s\<lparr>pv_server_public := Some server_public\<rparr>) server_public encrypted = (s2, Inr decrypted :: 'io air_error + u8 list)"
    "tlv_parse decrypted = Inr inner" "tlv_get inner Tlv_Identifier = Some ident" "tlv_get inner Tlv_Signature = Some signature"
    "length signature = 64" "pv_ecdh_public s = Some client_public"
    "case or_known (presented_ltpk inner ident) (pv_server_ltpk s) of
       None \<Rightarrow> s' = s2\<lparr>pv_state := PV_M2Received\<rparr>
     | Some ltpk \<Rightarrow> \<exists>order. find (\<lambda>order. pr_ed_verify pr ltpk
            (build_signed_message order server_public client_public ident) signature) orders = Some order
          \<and> s' = s2\<lparr>pv_signature_order := order, pv_state := PV_M2Received\<rparr>"
  using assms unfolding verify_process_m2_def Let_def
  by (auto split: if_splits sum.splits option.splits prod.splits)

text \<open>
  C30: when the controller accepts M2 it holds a shared secret agreed with the sender of the message and
  neither its public key nor the secret is zero; the message decrypts under the key of that
  secret; and whenever a long-term key is presented or recorded, the signature verifies under it
  over both ephemeral keys and the identifier, in the order that M3 then uses. The key pair is
  used up, so no second M2 can be accepted.
\<close>

theorem pair_verify_checks:
  assumes "verify_process_m2 pr s response = (s', Inr () :: 'io air_error + unit)"
  shows "\<exists>tlv server_public client_public secret shared key encrypted decrypted inner ident signature.
      pv_state s = PV_M1Sent \<and> tlv_parse response = Inr tlv \<and> tlv_get tlv Tlv_PublicKey = Some server_public
    \<and> tlv_get tlv Tlv_EncryptedData = Some encrypted
    \<and> pv_ecdh_keypair s = Some secret \<and> pv_ecdh_public s = Some client_public
    \<and> \<not> list_all (\<lambda>b. b = 0) server_public \<and> shared = pr_x25519 pr secret server_public \<and> \<not> list_all (\<lambda>b. b = 0) shared
    \<and> derive_pair_verify_key pr shared = Inr key
    \<and> pairing_decrypt (pr_open pr) key (nonce_from_string PV_MSG02_NONCE) encrypted = Inr decrypted
    \<and> tlv_parse decrypted = Inr inner \<and> tlv_get inner Tlv_Identifier = Some ident \<and> tlv_get inner Tlv_Signature = Some signature
    \<and> (case or_known (presented_ltpk inner ident) (pv_server_ltpk s) of None \<Rightarrow> True
       | Some ltpk \<Rightarrow> pr_ed_verify pr ltpk (build_signed_message (pv_signature_order s') server_public client_public ident) signature)
    \<and> pv_state s' = PV_M2Received \<and> pv_shared_secret s' = Some shared \<and> pv_session_key s' = Some key \<and> pv_ecdh_keypair s' = None"
proof -
  obtain tlv server_public encrypted s2 decrypted inner ident signature client_public where m2:
    "pv_state s = PV_M1Sent" "tlv_parse response = Inr tlv" "tlv_get tlv Tlv_PublicKey = Some server_public"
    "tlv_get tlv Tlv_EncryptedData = Some encrypted"
    and opened: "open_m2 pr (s\<lparr>pv_server_public := Some server_public\<rparr>) server_public encrypted = (s2, Inr decrypted :: 'io air_error + u8 list)"
    and inner: "tlv_parse decrypted = Inr inner" "tlv_get inner Tlv_Identifier = Some ident" "tlv_get inner Tlv_Signature = Some signature"
    and client: "pv_ecdh_public s = Some client_public"
    and signed: "case or_known (presented_ltpk inner ident) (pv_server_ltpk s) of
       None \<Rightarrow> s' = s2\<lparr>pv_state := PV_M2Received\<rparr>
     | Some ltpk \<Rightarrow> \<exists>order. find (\<lambda>order. pr_ed_verify pr ltpk
            (build_signed_message order server_public client_public ident) signature) orders = Some order
          \<and> s' = s2\<lparr>pv_signature_order := order, pv_state := PV_M2Received\<rparr>"
    using assms by (rule m2_message) blast
  from open_m2_accepted [OF opened] obtain secret shared key where key: "pv_ecdh_keypair s = Some secret"
      "diffie_hellman pr secret server_public = Inr shared" "derive_pair_verify_key pr shared = Inr key"
      "pairing_decrypt (pr_open pr) key (nonce_from_string PV_MSG02_NONCE) encrypted = Inr decrypted"
    and s2: "s2 = s\<lparr>pv_server_public := Some server_public, pv_ecdh_keypair := None, pv_shared_secret := Some shared, pv_session_key := Some key\<rparr>"
    by auto
  have dh: "\<not> list_all (\<lambda>b. b = 0) server_public" "shared = pr_x25519 pr secret server_public" "\<not> list_all (\<lambda>b. b = 0) shared"
    using key(2) by (auto simp: diffie_hellman_def Let_def split: if_splits)
  have "case or_known (presented_ltpk inner ident) (pv_server_ltpk s) of None \<Rightarrow> True
       | Some ltpk \<Rightarrow> pr_ed_verify pr ltpk (build_signed_message (pv_signature_order s') server_public client_public ident) signature"
    using signed by (auto simp: find_Some_iff split: option.splits)
  moreover have "pv_state s' = PV_M2Received" "pv_shared_secret s' = Some shared" "pv_session_key s' = Some key" "pv_ecdh_keypair s' = None"
    using signed s2 by (auto split: option.splits)
  ultimately show ?thesis using m2 inner client key(1,3,4) dh by blast
qed

section \<open>Calls in any order\<close>

text \<open>Every public call of the exchange: M1 with the flags of the mode or always with flags, M5 with the identifier derived
  from the identity or with that of a controller.\<close>

datatype setup_call =
    Call_M1 | Call_M1_Flags | Call_M2 "u8 list" | Call_M3 | Call_M4 "u8 list"
  | Call_M5 "u8 list" | Call_M5_Controller string "u8 list" | Call_M6 "u8 list" | Call_Complete

text \<open>A call with whether it succeeded.\<close>

definition succeeded :: "'s \<times> ('e + 'a) \<Rightarrow> 's \<times> bool" where
  "succeeded r = (fst r, case snd r of Inl _ \<Rightarrow> False | Inr _ \<Rightarrow> True)"

fun setup_call_step :: "primitives \<Rightarrow> srp_params \<Rightarrow> u8 list \<Rightarrow> pair_setup \<Rightarrow> setup_call \<Rightarrow> pair_setup \<times> bool" where
  "setup_call_step pr params key s Call_M1 = succeeded (setup_generate_m1 params key s)"
| "setup_call_step pr params key s Call_M1_Flags = succeeded (setup_generate_m1_with_flags params key s)"
| "setup_call_step pr params key s (Call_M2 r) = succeeded (setup_process_m2 pr s r)"
| "setup_call_step pr params key s Call_M3 = succeeded (setup_generate_m3 s)"
| "setup_call_step pr params key s (Call_M4 r) = succeeded (setup_process_m4 pr s r)"
| "setup_call_step pr params key s (Call_M5 seed) = succeeded (setup_generate_m5 pr s seed)"
| "setup_call_step pr params key s (Call_M5_Controller controller seed) = succeeded (generate_m5_with_controller pr s controller seed)"
| "setup_call_step pr params key s (Call_M6 r) = succeeded (setup_process_m6 pr s r)"
| "setup_call_step pr params key s Call_Complete = succeeded (complete_transient s)"

text \<open>All calls in turn, whether they succeed or not, with the list of those that did.\<close>

definition setup_calls ::
    "primitives \<Rightarrow> srp_params \<Rightarrow> u8 list \<Rightarrow> pair_setup \<Rightarrow> setup_call list \<Rightarrow> pair_setup \<times> setup_call list" where
  "setup_calls pr params key s cs =
     foldl (\<lambda>(s, accepted) c. let (s', ok) = setup_call_step pr params key s c in (s', if ok then accepted @ [c] else accepted)) (s, []) cs"

text \<open>An M4 with the proof the controller expects.\<close>

definition proven :: "pair_setup \<Rightarrow> u8 list \<Rightarrow> bool" where
  "proven s m4 \<longleftrightarrow> (\<exists>pf tlv. ps_srp_proof s = Some pf \<and> tlv_parse m4 = Inr tlv
     \<and> tlv_get tlv Tlv_Proof = Some (pf_expected_server_proof pf))"

definition is_m1 :: "setup_call \<Rightarrow> bool" where
  "is_m1 c \<longleftrightarrow> c = Call_M1 \<or> c = Call_M1_Flags"

definition is_m5 :: "setup_call \<Rightarrow> bool" where
  "is_m5 c \<longleftrightarrow> (\<exists>seed. c = Call_M5 seed) \<or> (\<exists>controller seed. c = Call_M5_Controller controller seed)"

definition so_far :: "pair_setup \<Rightarrow> setup_call list \<Rightarrow> bool" where
  "so_far s accepted \<longleftrightarrow>
     (case ps_state s of
        PS_Initial \<Rightarrow> accepted = []
      | PS_M1Sent \<Rightarrow> (\<exists>m1. is_m1 m1 \<and> accepted = [m1])
      | PS_M2Received \<Rightarrow> (\<exists>m1 m2. is_m1 m1 \<and> accepted = [m1, Call_M2 m2])
      | PS_M3Sent \<Rightarrow> (\<exists>m1 m2. is_m1 m1 \<and> accepted = [m1, Call_M2 m2, Call_M3])
      | PS_M4Received \<Rightarrow> (\<exists>m1 m2 m4. is_m1 m1 \<and> accepted = [m1, Call_M2 m2, Call_M3, Call_M4 m4] \<and> proven s m4)
      | PS_M5Sent \<Rightarrow> (\<exists>m1 m2 m4 m5. is_m1 m1 \<and> is_m5 m5 \<and> accepted = [m1, Call_M2 m2, Call_M3, Call_M4 m4, m5] \<and> proven s m4)
      | PS_Complete \<Rightarrow> (\<exists>m1 m2 m4 rest. is_m1 m1 \<and> accepted = [m1, Call_M2 m2, Call_M3, Call_M4 m4] @ rest \<and> proven s m4
          \<and> (rest = [Call_Complete] \<and> ps_transient_mode s \<or> (\<exists>m5 m6. is_m5 m5 \<and> rest = [m5, Call_M6 m6])))
      | PS_Failed \<Rightarrow> True)"

lemma proven_frame: "proven (s\<lparr>ps_state := x\<rparr>) m4 = proven s m4" "proven (s\<lparr>ps_session_key := y\<rparr>) m4 = proven s m4"
    "proven (s\<lparr>ps_server_identifier := z\<rparr>) m4 = proven s m4" "proven (s\<lparr>ps_server_ltpk := z\<rparr>) m4 = proven s m4"
  by (simp_all add: proven_def)

lemma m4_proves: "setup_process_m4 pr s r = (s', Inr ()) \<Longrightarrow> ps_state s = PS_M3Sent \<and> ps_state s' = PS_M4Received \<and> proven s' r"
  by (auto simp: setup_process_m4_def setup_fail_def checked_message_def verify_server_proof_def proven_def
      split: if_splits sum.splits option.splits prod.splits)

lemma m6_proves:
  "setup_process_m6 pr s r = (s', Inr k) \<Longrightarrow>
   ps_state s = PS_M5Sent \<and> ps_state s' = PS_Complete \<and> proven s' = proven s"
  by (auto simp: setup_process_m6_def setup_fail_def proven_def fun_eq_iff
      split: if_splits sum.splits option.splits prod.splits)

lemma succeeded_True: "succeeded r = (s', True) \<longleftrightarrow> (\<exists>x. r = (s', Inr x))"
  by (cases r) (auto simp: succeeded_def split: sum.splits)

lemma succeeded_False: "succeeded r = (s', False) \<longleftrightarrow> (\<exists>e. r = (s', Inl e))"
  by (cases r) (auto simp: succeeded_def split: sum.splits)

lemma failed_call:
  assumes "setup_call_step pr params key s c = (s', False)"
  shows "ps_state s' = PS_Failed \<or> s' = s"
proof -
  have defs: "setup_process_m2 pr s r = (s1, Inl e) \<Longrightarrow> ps_state s1 = PS_Failed"
      "setup_process_m4 pr s r = (s1, Inl e) \<Longrightarrow> ps_state s1 = PS_Failed"
      "setup_process_m6 pr s r = (s1, Inl e) \<Longrightarrow> ps_state s1 = PS_Failed" for r s1 e
    by (auto simp: setup_process_m2_def setup_process_m4_def setup_process_m6_def setup_fail_def
        split: if_splits sum.splits option.splits prod.splits)
  show ?thesis
    using assms defs
    by (cases c) (auto simp: succeeded_False setup_fail_def setup_generate_m1_def setup_generate_m1_with_flags_def generate_m1_internal_def
        setup_generate_m3_def setup_generate_m5_def generate_m5_with_controller_def generate_m5_internal_def complete_transient_def Let_def
        split: if_splits sum.splits option.splits prod.splits)
qed

lemma m2_call: "setup_process_m2 pr s r = (s', Inr ()) \<Longrightarrow> ps_state s = PS_M1Sent \<and> ps_state s' = PS_M2Received"
  by (auto simp: setup_process_m2_def setup_fail_def split: if_splits sum.splits option.splits prod.splits)

lemma m1_call:
  "generate_m1_internal params key s flags = (s', Inr m) \<Longrightarrow> ps_state s = PS_Initial \<and> ps_state s' = PS_M1Sent"
  by (auto simp: generate_m1_internal_def setup_fail_def split: if_splits)

lemma m5_call:
  "generate_m5_internal pr s ident seed = (s', Inr m) \<Longrightarrow> ps_state s = PS_M4Received \<and> s' = s\<lparr>ps_state := PS_M5Sent\<rparr>"
  by (auto simp: generate_m5_internal_def setup_fail_def Let_def split: if_splits sum.splits option.splits prod.splits)

lemma m5_accepted: "so_far s accepted \<Longrightarrow> is_m5 c \<Longrightarrow> generate_m5_internal pr s ident seed = (s', Inr m) \<Longrightarrow> so_far s' (accepted @ [c])"
  using m5_call [of pr s ident seed s' m] by (auto simp: so_far_def proven_frame)

lemma accepted_call:
  assumes "setup_call_step pr params key s c = (s', True)" "so_far s accepted"
  shows "so_far s' (accepted @ [c])"
proof (cases c)
  case Call_M1
  with assms m1_call [of params key s "ps_transient_mode s" s'] show ?thesis
    by (auto simp: succeeded_True setup_generate_m1_def is_m1_def so_far_def)
next
  case Call_M1_Flags
  with assms m1_call [of params key s True s'] show ?thesis
    by (auto simp: succeeded_True setup_generate_m1_with_flags_def is_m1_def so_far_def)
next
  case (Call_M2 r)
  with assms m2_call [of pr s r s'] show ?thesis by (auto simp: succeeded_True so_far_def)
next
  case Call_M3
  with assms show ?thesis
    by (auto simp: succeeded_True setup_generate_m3_def setup_fail_def so_far_def split: if_splits option.splits)
next
  case (Call_M4 r)
  with assms m4_proves [of pr s r s'] show ?thesis by (auto simp: succeeded_True so_far_def)
next
  case (Call_M5 seed)
  then show ?thesis using assms m5_accepted [OF assms(2), of c pr _ seed s'] by (auto simp: succeeded_True setup_generate_m5_def is_m5_def)
next
  case (Call_M5_Controller controller seed)
  then show ?thesis using assms m5_accepted [OF assms(2), of c pr _ seed s'] by (auto simp: succeeded_True generate_m5_with_controller_def is_m5_def)
next
  case (Call_M6 r)
  with assms m6_proves [of pr s r s'] show ?thesis by (auto simp: succeeded_True so_far_def)
next
  case Call_Complete
  with assms show ?thesis
    by (auto simp: succeeded_True complete_transient_def setup_fail_def so_far_def proven_frame split: if_splits option.splits)
qed

lemma setup_calls_so_far: "case setup_calls pr params key (setup_create pin transient) cs of (s, accepted) \<Rightarrow> so_far s accepted"
proof (induction cs rule: rev_induct)
  case Nil
  then show ?case by (simp add: setup_calls_def so_far_def setup_create_def)
next
  case (snoc c cs)
  obtain s accepted where before: "setup_calls pr params key (setup_create pin transient) cs = (s, accepted)" by fastforce
  obtain s' ok where step: "setup_call_step pr params key s c = (s', ok)" by fastforce
  have "so_far s' (if ok then accepted @ [c] else accepted)"
    using snoc before step accepted_call [of pr params key s c s' accepted] failed_call [of pr params key s c s']
    by (cases ok) (auto simp: so_far_def)
  then show ?case using before step by (simp add: setup_calls_def)
qed

text \<open>
  C11: pair-setup completes in one way only. Whatever public calls are made, in any order and with any
  responses, and whether or not the caller goes on after an error: a completed exchange has
  accepted one M1 (in either form) and M2 to M4 once each and in order, M4 carried the proof the controller
  expected, and then either the transient completion or one M5 (in either form) and M6 followed.
\<close>

theorem pair_setup_order:
  assumes "setup_calls pr params key (setup_create pin transient) cs = (s, accepted)" "ps_state s = PS_Complete"
  shows "\<exists>m1 m2 m4 rest pf tlv. accepted = [m1, Call_M2 m2, Call_M3, Call_M4 m4] @ rest \<and> m1 \<in> {Call_M1, Call_M1_Flags}
    \<and> ps_srp_proof s = Some pf \<and> tlv_parse m4 = Inr tlv \<and> tlv_get tlv Tlv_Proof = Some (pf_expected_server_proof pf)
    \<and> (rest = [Call_Complete] \<and> ps_transient_mode s
        \<or> (\<exists>seed m6. rest = [Call_M5 seed, Call_M6 m6]) \<or> (\<exists>controller seed m6. rest = [Call_M5_Controller controller seed, Call_M6 m6]))"
  using setup_calls_so_far [of pr params key pin transient cs] assms by (auto simp: so_far_def proven_def is_m1_def is_m5_def)

section \<open>Concrete runs\<close>

lemma demo_x25519:
  "\<not> list_all (\<lambda>b. b = 0) (pr_x25519_base demo_primitives a)" "\<not> list_all (\<lambda>b. b = 0) (pr_x25519 demo_primitives a b)"
  by (simp_all add: demo_primitives_def list_all_iff)

lemma demo_binary: "\<not> utf8_valid (string_of (pr_ed_public demo_primitives seed))"
proof -
  have "replicate 32 c = c # c # replicate 30 c" for c :: char by (simp flip: replicate_Suc)
  then show ?thesis by (simp add: demo_primitives_def string_of_def in_range_def is_cont_def)
qed

lemma demo_setup:
  "sv_public_key (ms_srp (setup_server_new demo_primitives small_params seed salt 2 pin)) \<noteq> 0"
  "compute_u demo_primitives a b \<noteq> 0"
  by (simp_all add: setup_server_new_def demo_server compute_u_def demo_hash)

abbreviation demo_accessory :: setup_server where
  "demo_accessory \<equiv> setup_server_new demo_primitives small_params [9] (replicate 16 1) 2 ''1234''"

theorem pair_setup_completes_witness:
  "\<exists>g1 m1 g2 m3 sv1 m4 g3 m5 m6 g4 s secret.
      start_pair_setup small_params [4] (pairing_with_identity HomeKitTransient [7]) ''1234'' = (g1, Inr m1 :: unit air_error + u8 list)
    \<and> continue_pair_setup demo_primitives g1 (server_generate_m2 demo_accessory) = (g2, Inr (Some m3) :: unit air_error + u8 list option)
    \<and> server_process_m3 demo_primitives demo_accessory m3 = (sv1, Inr m4)
    \<and> continue_pair_setup demo_primitives g2 m4 = (g3, Inr (Some m5) :: unit air_error + u8 list option)
    \<and> server_process_m5 demo_primitives sv1 m5 = Inr m6
    \<and> continue_pair_setup demo_primitives g3 m6 = (g4, Inr None :: unit air_error + u8 list option)
    \<and> pg_setup_stage g4 = Setup_Complete \<and> pg_shared_secret g4 = Some secret \<and> sv_shared_secret (ms_srp sv1) = Some secret
    \<and> pg_pair_setup g4 = Some s \<and> ps_server_ltpk s = Some (pr_ed_public demo_primitives [9])
    \<and> ps_server_identifier s = Some (bytes_of ''AirPlay-Server'')"
  by (rule pair_setup_completes [OF demo_primitives_ok small_params_ok]) (simp_all add: demo_setup pairing_with_identity_def)

theorem transient_pairing_completes_witness:
  "\<exists>g1 m1 g2 m3 sv1 m4 g3 secret write read.
      transient_pairing_start small_params [4] (pairing_with_identity HomeKitTransient [7]) ''1234'' = (g1, Inr (Step_Send m1) :: unit air_error + pairing_step)
    \<and> transient_pairing_continue demo_primitives g1 (server_generate_m2 demo_accessory) = (g2, Inr (Step_Send m3) :: unit air_error + pairing_step)
    \<and> server_process_m3 demo_primitives demo_accessory m3 = (sv1, Inr m4)
    \<and> transient_pairing_continue demo_primitives g2 m4
        = (g3, Inr (Step_Complete \<lparr>sk_write_key = write, sk_read_key = read\<rparr>) :: unit air_error + pairing_step)
    \<and> sv_shared_secret (ms_srp sv1) = Some secret
    \<and> derive_control_keys demo_primitives secret = Inr \<lparr>sk_write_key = write, sk_read_key = read\<rparr>
    \<and> (\<forall>msgs. snd (conversation (pr_seal demo_primitives) (pr_open demo_primitives) (with_keys write read, with_keys read write) msgs)
         = map (delivered \<circ> snd) msgs)"
  by (rule transient_pairing_completes [OF demo_primitives_ok small_params_ok]) (simp_all add: demo_setup pairing_with_identity_def)

theorem pair_verify_completes_witness:
  "\<exists>s1 m1 sv m2 s2 s3 m3 m4 s4 keys shared.
      verify_generate_m1 demo_primitives [4] (set_server_ltpk (verify_new [7]) [1, 2, 3]) = (s1, Inr m1 :: unit air_error + u8 list)
    \<and> server_process_m1 demo_primitives [5] (verify_server_with_identity [9]) m1 = (sv, Inr m2 :: unit air_error + u8 list)
    \<and> verify_process_m2 demo_primitives s1 m2 = (s2, Inr () :: unit air_error + unit)
    \<and> verify_generate_m3 demo_primitives s2 = (s3, Inr m3 :: unit air_error + u8 list)
    \<and> server_accept_m3 demo_primitives sv m3 = (Inr m4 :: unit air_error + u8 list)
    \<and> verify_process_m4 demo_primitives s3 m4 = (s4, Inr keys :: unit air_error + session_keys)
    \<and> pv_state s4 = PV_Complete \<and> pv_server_ltpk s4 = Some [1, 2, 3]
    \<and> mv_shared_secret sv = Some shared \<and> derive_control_keys demo_primitives shared = Inr keys"
  by (rule pair_verify_completes [OF demo_primitives_ok _ demo_binary _ demo_x25519(1) demo_x25519(1) demo_x25519(2)])
    (simp_all add: verify_new_def verify_create_def)

theorem pair_verify_checks_witness:
  "\<exists>s1 m2 s2 shared key. verify_process_m2 demo_primitives s1 m2 = (s2, Inr () :: unit air_error + unit)
    \<and> pv_shared_secret s2 = Some shared \<and> \<not> list_all (\<lambda>b. b = 0) shared
    \<and> derive_pair_verify_key demo_primitives shared = Inr key \<and> pv_ecdh_keypair s2 = None"
proof -
  have dh: "diffie_hellman demo_primitives a (pr_x25519_base demo_primitives b) = Inr (replicate 32 3)" for a b
    using demo_x25519 [of b] demo_x25519(2) [of a "pr_x25519_base demo_primitives b"]
    by (simp add: diffie_hellman_def Let_def demo_primitives_def)
  obtain s1 m2 s2 where "verify_process_m2 demo_primitives s1 m2 = (s2, Inr () :: unit air_error + unit)"
    using verify_m1_m2 [OF demo_primitives_ok _ demo_binary dh dh, of "verify_new [7]" "[9]" "[5]" "[4]"]
    by (fastforce simp: verify_new_def verify_create_def)
  from this pair_verify_checks [OF this] show ?thesis by blast
qed

theorem pair_setup_order_witness:
  "\<exists>cs s accepted m2 m4 pf. setup_calls demo_primitives small_params [4] (setup_create ''1234'' True) cs = (s, accepted)
    \<and> ps_state s = PS_Complete \<and> accepted = [Call_M1, Call_M2 m2, Call_M3, Call_M4 m4, Call_Complete] \<and> ps_srp_proof s = Some pf"
proof -
  obtain s1 m1 s2 s3 m3 sv1 m4 s4 pf where run:
    "setup_generate_m1 small_params [4] (setup_create ''1234'' True) = (s1, Inr m1)"
    "setup_process_m2 demo_primitives s1 (server_generate_m2 demo_accessory) = (s2, Inr ())" "setup_generate_m3 s2 = (s3, Inr m3)"
    "setup_process_m4 demo_primitives s3 m4 = (s4, Inr ())"
    "ps_state s4 = PS_M4Received" "ps_transient_mode s4" "ps_srp_proof s4 = Some pf"
    by (rule setup_exchange [OF demo_primitives_ok small_params_ok length_replicate demo_setup(1) demo_setup(2),
          where seed = "[9]" and pin = "''1234''" and key = "[4]" and transient = True]) blast
  let ?cs = "[Call_M1, Call_M2 (server_generate_m2 demo_accessory), Call_M3, Call_M4 m4, Call_Complete]"
  have calls: "setup_calls demo_primitives small_params [4] (setup_create ''1234'' True) ?cs = (s4\<lparr>ps_state := PS_Complete\<rparr>, ?cs)"
    using run by (simp add: setup_calls_def succeeded_def complete_transient_def)
  from pair_setup_order [OF this] this show ?thesis by fastforce
qed

end
