(* ===== verification/Device_Snapshot.thy ===== *)
theory Device_Snapshot
  imports "HOL-Library.Log_Nat" Rejoin Command_Outcomes Device_Model
begin

text \<open>
  What the device backend publishes and what it keeps on disk: the snapshot types of
  \<open>backend/model.rs\<close>, the persisted state with its validation (\<open>backend/persistence.rs\<close>), the
  calibration profile (\<open>calibration.rs\<close>) and the guard of the test tone
  (\<open>backend/listening_check.rs\<close>). A \<open>BTreeSet\<close> of receivers is a set here and is visited in ascending
  order; the Unicode lower-case mapping behind \<open>str::to_lowercase\<close> is an argument.
\<close>

section \<open>Products of volumes\<close>

text \<open>Multiplication of \<open>f32\<close> values: the exact product rounded to 24 significant bits, ties to even.\<close>

definition binary_exponent :: "rat \<Rightarrow> int" where
  "binary_exponent r =
     (let (p, q) = quotient_of r; e = int (floorlog 2 (nat p)) - int (floorlog 2 (nat q))
      in if r < 2 powi e then e - 1 else e)"

definition round_half_even :: "rat \<Rightarrow> int" where
  "round_half_even x =
     (let n = \<lfloor>x\<rfloor>; d = x - of_int n
      in if d < 1 / 2 then n else if 1 / 2 < d then n + 1 else if even n then n else n + 1)"

definition f32_round :: "rat \<Rightarrow> f32" where
  "f32_round r =
     (if r = 0 then f32_zero
      else let ulp = 2 powi (max (- 126) (binary_exponent \<bar>r\<bar>) - 23); v = ulp * of_int (round_half_even (r / ulp))
           in if \<bar>v\<bar> < 2 ^ 128 then Finite v else if 0 < v then PosInf else NegInf)"

fun f32_mul :: "f32 \<Rightarrow> f32 \<Rightarrow> f32" where
  "f32_mul (Finite x) (Finite y) = f32_round (x * y)"
| "f32_mul NaN _ = NaN"
| "f32_mul _ NaN = NaN"
| "f32_mul (Finite x) PosInf = (if x = 0 then NaN else if 0 < x then PosInf else NegInf)"
| "f32_mul (Finite x) NegInf = (if x = 0 then NaN else if 0 < x then NegInf else PosInf)"
| "f32_mul PosInf (Finite x) = (if x = 0 then NaN else if 0 < x then PosInf else NegInf)"
| "f32_mul NegInf (Finite x) = (if x = 0 then NaN else if 0 < x then NegInf else PosInf)"
| "f32_mul PosInf PosInf = PosInf"
| "f32_mul PosInf NegInf = NegInf"
| "f32_mul NegInf PosInf = NegInf"
| "f32_mul NegInf NegInf = PosInf"

definition VOLUME_DEFAULT_MASTER :: volume_t where "VOLUME_DEFAULT_MASTER = Volume (Finite (1 / 4))"
definition VOLUME_UNITY :: volume_t where "VOLUME_UNITY = Volume f32_one"
definition VOLUME_MUTED :: volume_t where "VOLUME_MUTED = Volume f32_zero"

definition effective_volume :: "volume_t \<Rightarrow> volume_t \<Rightarrow> bool \<Rightarrow> volume_t" where
  "effective_volume master level muted =
     (if muted then VOLUME_MUTED
      else case volume_new (f32_mul (volume_get master) (volume_get level)) of Inr v \<Rightarrow> v | Inl _ \<Rightarrow> VOLUME_MUTED)"

section \<open>Snapshot types\<close>

type_synonym saved_group_id = uuid

record saved_group_member =
  gm_receiver :: device_id
  gm_last_known_name :: string
  gm_level :: volume_t

text \<open>\<open>SavedGroup\<close> and \<open>SavedGroupSnapshot\<close> have the same fields.\<close>

record saved_group =
  sg_id :: saved_group_id
  sg_name :: string
  sg_members :: "saved_group_member list"

datatype endpoint_preference = SystemDefault | Explicit_Endpoint string string

datatype restart_reason =
    MembershipChange | SavedGroupActivated | SecondaryRejoin_R | FailedTargetRemoved | PrimaryReplaced
  | ReceiverAddressChanged_R | LocalInterfaceChanged | TimingModeTransition | StreamFormatChanged_R
  | LatencyPresetChanged | SystemResume | DeadRtspRecovered | CalibrationChanged_R

datatype session_phase =
    Phase_Stopped
  | Phase_Starting u64
  | Phase_Streaming u64
  | Phase_Degraded u64
  | Phase_Restarting u64 restart_reason
  | Phase_Stopping u64
  | Phase_Failed u64 user_facing_error

datatype audio_flow = Flow_Live | SilenceBridged

record session_snapshot =
  sx_phase :: session_phase
  sx_desired :: "device_id set"
  sx_active :: "device_id set"
  sx_failed :: "device_id set"
  sx_retry_waiting :: "device_id set"
  sx_primary :: "device_id option"
  sx_audio_flow :: audio_flow
  sx_resume_pending :: bool

definition session_snapshot_default :: session_snapshot where
  "session_snapshot_default =
     \<lparr>sx_phase = Phase_Stopped, sx_desired = {}, sx_active = {}, sx_failed = {}, sx_retry_waiting = {},
      sx_primary = None, sx_audio_flow = SilenceBridged, sx_resume_pending = False\<rparr>"

datatype discovery_phase = Browse_Stopped | Browse_Running | Browse_Retrying u32 system_time

record dev_discovery_snapshot =
  dx_generation :: u64
  dx_phase :: discovery_phase

record dev_receiver_snapshot =
  rw_id :: device_id
  rw_name :: string
  rw_model :: string
  rw_lifecycle :: receiver_lifecycle

record audio_endpoint =
  ae_id :: string
  ae_name :: string

datatype audio_source_state = Capturing | SilentSystem | Source_Recovering | Source_Unavailable | Source_Failed

record audio_source_snapshot =
  au_active_endpoints :: "audio_endpoint list option"
  au_refresh_failed :: bool
  au_preference :: endpoint_preference
  au_captured_endpoint :: "audio_endpoint option"
  au_state :: audio_source_state
  au_windows_input_peak_permille :: "u16 option"
  au_pcm_frames_dropped_total :: u64

definition audio_source_default :: audio_source_snapshot where
  "audio_source_default =
     \<lparr>au_active_endpoints = None, au_refresh_failed = False, au_preference = SystemDefault, au_captured_endpoint = None,
      au_state = Source_Unavailable, au_windows_input_peak_permille = None, au_pcm_frames_dropped_total = 0\<rparr>"

datatype persistence_snapshot = Persistence_Idle | Persistence_Healthy | Persistence_Error

text \<open>The revision counts publications. The source stops with a panic at \<open>2\<^sup>6\<^sup>4\<close> of them; the model counts on.\<close>

record device_snapshot =
  ds_command_outcomes :: command_outcomes
  ds_revision :: nat
  ds_desired_revision :: u64
  ds_discovery :: dev_discovery_snapshot
  ds_receivers :: "dev_receiver_snapshot list"
  ds_saved_groups :: "saved_group list"
  ds_desired_members :: "device_id set"
  ds_run_intent :: run_intent
  ds_session :: session_snapshot
  ds_audio_source :: audio_source_snapshot
  ds_master_volume :: volume_t
  ds_receiver_levels :: "(device_id, volume_t) omap"
  ds_muted :: bool
  ds_latency_preset :: latency_preset
  ds_latency_presets :: "(latency_preset \<times> user_facing_error option) list"
  ds_auto_connect :: bool
  ds_persistence :: persistence_snapshot

definition device_snapshot_default :: device_snapshot where
  "device_snapshot_default =
     \<lparr>ds_command_outcomes = outcomes_new, ds_revision = 0, ds_desired_revision = 0,
      ds_discovery = \<lparr>dx_generation = 0, dx_phase = Browse_Stopped\<rparr>, ds_receivers = [], ds_saved_groups = [],
      ds_desired_members = {}, ds_run_intent = Run_Stopped, ds_session = session_snapshot_default,
      ds_audio_source = audio_source_default, ds_master_volume = VOLUME_DEFAULT_MASTER, ds_receiver_levels = [],
      ds_muted = False, ds_latency_preset = Preset_Normal, ds_latency_presets = presets_offered,
      ds_auto_connect = False, ds_persistence = Persistence_Idle\<rparr>"

text \<open>Sorting by folded name, then identity. Rows have distinct identities, so the order is total.\<close>

definition by_name :: "(string \<Rightarrow> string) \<Rightarrow> ('a \<Rightarrow> string) \<Rightarrow> ('a \<Rightarrow> 'b::linorder) \<Rightarrow> 'a list \<Rightarrow> 'a list" where
  "by_name lower name ident xs = sort_key (\<lambda>x. lower (name x)) (sort_key ident xs)"

definition sort_for_publication :: "(string \<Rightarrow> string) \<Rightarrow> device_snapshot \<Rightarrow> device_snapshot" where
  "sort_for_publication lower s =
     s\<lparr>ds_receivers := by_name lower rw_name rw_id (ds_receivers s),
       ds_saved_groups := by_name lower sg_name sg_id (ds_saved_groups s)\<rparr>"

section \<open>Persisted state\<close>

record persisted_state =
  pt_version :: u32
  pt_master_volume :: volume_t
  pt_muted :: bool
  pt_receiver_levels :: "(device_id, volume_t) omap"
  pt_saved_groups :: "saved_group list"
  pt_last_desired_members :: "device_id set"
  pt_audio_endpoint :: endpoint_preference
  pt_latency_preset :: latency_preset
  pt_auto_connect :: bool

definition persisted_default :: persisted_state where
  "persisted_default =
     \<lparr>pt_version = 1, pt_master_volume = VOLUME_DEFAULT_MASTER, pt_muted = False, pt_receiver_levels = [], pt_saved_groups = [],
      pt_last_desired_members = {}, pt_audio_endpoint = SystemDefault, pt_latency_preset = Preset_Normal, pt_auto_connect = False\<rparr>"

text \<open>Validation with its messages as constructors.\<close>

datatype invalid_state =
    Unsupported_Version u32 | Preset_Not_Enabled | Name_Not_Trimmed string | Duplicate_Name string
  | No_Members string | Repeated_Receiver string device_id

text \<open>The receiver named is the first that was already seen.\<close>

definition first_repeated :: "'a list \<Rightarrow> 'a option" where
  "first_repeated xs = map_option (\<lambda>i. xs ! i) (find (\<lambda>i. xs ! i \<in> set (take i xs)) [0..<length xs])"

fun validate_groups :: "(string \<Rightarrow> string) \<Rightarrow> string set \<Rightarrow> saved_group list \<Rightarrow> invalid_state option" where
  "validate_groups lower seen_names [] = None"
| "validate_groups lower seen_names (g # gs) =
     (let trimmed = trim (sg_name g)
      in if trimmed = [] \<or> trimmed \<noteq> sg_name g then Some (Name_Not_Trimmed (sg_name g))
         else if lower trimmed \<in> seen_names then Some (Duplicate_Name trimmed)
         else if sg_members g = [] then Some (No_Members trimmed)
         else case first_repeated (map gm_receiver (sg_members g)) of
                Some r \<Rightarrow> Some (Repeated_Receiver trimmed r)
              | None \<Rightarrow> validate_groups lower (insert (lower trimmed) seen_names) gs)"

definition validate_preferences :: "(string \<Rightarrow> string) \<Rightarrow> latency_preset \<Rightarrow> saved_group list \<Rightarrow> invalid_state option" where
  "validate_preferences lower preset groups =
     (if enabled_config preset = None then Some Preset_Not_Enabled else validate_groups lower {} groups)"

definition persisted_validate :: "(string \<Rightarrow> string) \<Rightarrow> persisted_state \<Rightarrow> invalid_state option" where
  "persisted_validate lower p =
     (if pt_version p \<noteq> 1 then Some (Unsupported_Version (pt_version p))
      else validate_preferences lower (pt_latency_preset p) (pt_saved_groups p))"

section \<open>Calibration\<close>

type_synonym i64 = "64 word"

record calibration_profile =
  cp_reference_receiver :: "device_id option"
  cp_requested_delay_ns :: "(device_id, i64) omap"

definition calibration_default :: calibration_profile where
  "calibration_default = \<lparr>cp_reference_receiver = None, cp_requested_delay_ns = []\<rparr>"

record effective_calibration =
  ec_minimum_requested_ns :: i64
  ec_effective_delay_ns :: "(device_id, u64) omap"

datatype calibration_error = EmptySelection | ReferenceNotInSelection | ArithmeticOverflow

datatype calibration_command =
    ApplyCalibrationProfile u64 calibration_profile
  | ResetCalibration u64
  | RunCalibrationClickTest

definition requested_delay_ns :: "calibration_profile \<Rightarrow> device_id \<Rightarrow> i64" where
  "requested_delay_ns profile receiver = (case om_get (cp_requested_delay_ns profile) receiver of Some d \<Rightarrow> d | None \<Rightarrow> 0)"

text \<open>The checked narrowing of a 128-bit difference.\<close>

definition to_u64 :: "int \<Rightarrow> u64 option" where
  "to_u64 n = (if 0 \<le> n \<and> n < 2 ^ 64 then Some (word_of_int n) else None)"

fun shifted_delays :: "calibration_profile \<Rightarrow> int \<Rightarrow> device_id list \<Rightarrow> (device_id, u64) omap \<Rightarrow> (device_id, u64) omap option" where
  "shifted_delays profile least [] acc = Some acc"
| "shifted_delays profile least (r # rs) acc =
     (case to_u64 (sint (requested_delay_ns profile r) - least) of
        None \<Rightarrow> None
      | Some d \<Rightarrow> shifted_delays profile least rs (om_insert r d acc))"

definition normalize_calibration :: "device_id set \<Rightarrow> calibration_profile \<Rightarrow> calibration_error + effective_calibration" where
  "normalize_calibration active profile =
     (if active = {} then Inl EmptySelection
      else if is_some_and (cp_reference_receiver profile) (\<lambda>reference. reference \<notin> active) then Inl ReferenceNotInSelection
      else let least = Min ((\<lambda>r. sint (requested_delay_ns profile r)) ` active)
           in case shifted_delays profile least (sorted_ids active) [] of
                None \<Rightarrow> Inl ArithmeticOverflow
              | Some delays \<Rightarrow> Inr \<lparr>ec_minimum_requested_ns = word_of_int least, ec_effective_delay_ns = delays\<rparr>)"

section \<open>The guard of the test tone\<close>

text \<open>The bound is the single-precision value of \<open>0.15\<close>.\<close>

record listening_test_guard =
  lg_generation :: u64
  lg_members :: "device_id set"
  lg_volume :: volume_t
  lg_levels :: "(device_id, volume_t) omap"
  lg_endpoint :: endpoint_preference
  lg_captured :: "audio_endpoint option"

definition guard_capture :: "device_snapshot \<Rightarrow> listening_test_guard option" where
  "guard_capture s =
     (case sx_phase (ds_session s) of
        Phase_Streaming generation \<Rightarrow>
          if ds_run_intent s \<noteq> Run_Running \<or> ds_muted s \<or> ds_desired_members s = {}
             \<or> sx_active (ds_session s) \<noteq> ds_desired_members s
             \<or> f32_le (volume_get (ds_master_volume s)) f32_zero
             \<or> f32_lt (Finite (5033165 / 33554432)) (volume_get (ds_master_volume s))
             \<or> ds_latency_preset s \<noteq> Preset_Normal
             \<or> au_state (ds_audio_source s) \<notin> {Capturing, SilentSystem}
             \<or> (\<exists>i \<in> ds_desired_members s. is_some_and (om_get (ds_receiver_levels s) i) (\<lambda>v. f32_le (volume_get v) f32_zero))
          then None
          else Some \<lparr>lg_generation = generation, lg_members = ds_desired_members s, lg_volume = ds_master_volume s,
                     lg_levels = ds_receiver_levels s, lg_endpoint = au_preference (ds_audio_source s),
                     lg_captured = au_captured_endpoint (ds_audio_source s)\<rparr>
      | _ \<Rightarrow> None)"

definition guard_matches :: "listening_test_guard \<Rightarrow> device_snapshot \<Rightarrow> bool" where
  "guard_matches g s \<longleftrightarrow> guard_capture s = Some g"

end
