(* ===== verification/Controller_State.thy ===== *)
theory Controller_State
  imports Device_Snapshot
begin

text \<open>
  The state of the device backend's controller (\<open>backend/controller.rs\<close>), what it sends out, and the
  operations that all handlers share: receiver rows, machine transitions, publication, command
  outcomes, the persist-before-publish transaction and the request for a new session. The clock is
  read once per event. What the controller asks of the disk, of the capture worker and of the
  random source is answered by the world, which sees how much has been sent out before. Diagnostic
  records and log lines are left out.
\<close>

section \<open>State\<close>

record inventory_entry =
  iv_name :: string
  iv_castable :: bool
  iv_available :: bool
  iv_device :: "device option"

datatype capture_control = Cap_RequestEndpointChange | Cap_Suspend | Cap_Resume | Cap_Stop
datatype discovery_control = RestartAfterNetworkChange | Disc_Shutdown

datatype session_request =
    Req_Reconcile u64 "device list" "device_id option" latency_config calibration_profile bool
  | Req_SetVolume device_id f32
  | Req_Probe
  | Req_NetworkChanged
  | Req_Suspend
  | Req_Resume

datatype backend_event =
    CommandCompleted u64
  | CommandFailed u64 user_facing_error
  | Notice_PersistenceWrite string
  | Notice_DiscoveryFailed string

record command_confirmation =
  cf_revision :: nat
  cf_error :: "command_failure option"
  cf_session_generation_floor :: "u64 option"

text \<open>A receipt is the sender of a one-shot channel and is named by a number.\<close>

type_synonym receipt = nat

datatype ctl_output =
    Out_Save persisted_state bool
  | Out_SaveCalibration "calibration_profile option" bool
  | Out_Publish device_snapshot
  | Out_Event backend_event
  | Out_Session session_request
  | Out_RememberVolume device_id f32
  | Out_Capture capture_control
  | Out_CapturePreference endpoint_preference
  | Out_Discovery discovery_control
  | Out_ScanEndpoints
  | Out_StartTone bool
  | Out_CancelTone
  | Out_ClickPattern
  | Out_Confirm receipt command_confirmation

record controller =
  c_listening_test :: "listening_test_guard option"
  c_last_listening_test_generation :: "u64 option"
  c_published :: device_snapshot
  c_snapshot :: device_snapshot
  c_persisted :: persisted_state
  c_calibration :: calibration_profile
  c_calibration_pending_generation :: "u64 option"
  c_inventory :: "(device_id, inventory_entry) omap"
  c_saved_names :: "device_id \<Rightarrow> string option"
  c_session_generation :: u64
  c_live_session_generation :: "u64 option"
  c_capture_generation :: u64
  c_primary :: "device_id option"
  c_active :: "device_id set"
  c_discovery_failures :: u32
  c_seen_discovery_generation :: u64
  c_machines :: "(device_id, receiver_machine) omap"
  c_retry :: retry_state
  c_rejoin :: rejoin_limiter
  c_pending_desired :: "device_id set"
  c_suspended :: bool
  c_resume_at :: "instant option"
  c_startup_auto_connect_until :: "instant option"
  c_out :: "ctl_output list"

text \<open>The answers to the \<open>n\<close>-th request; the session handle is there unless the backend runs without one.\<close>

record ctl_world =
  w_now :: instant
  w_wall :: system_time
  w_lower :: "string \<Rightarrow> string"
  w_save :: "nat \<Rightarrow> bool"
  w_tone :: "nat \<Rightarrow> bool"
  w_fresh_group :: "nat \<Rightarrow> saved_group_id"
  w_has_session :: bool

definition send :: "ctl_output \<Rightarrow> controller \<Rightarrow> controller" where
  "send out c = c\<lparr>c_out := c_out c @ [out]\<rparr>"

definition send_session :: "ctl_world \<Rightarrow> session_request \<Rightarrow> controller \<Rightarrow> controller" where
  "send_session w req c = (if w_has_session w then send (Out_Session req) c else c)"

definition on_snapshot :: "(device_snapshot \<Rightarrow> device_snapshot) \<Rightarrow> controller \<Rightarrow> controller" where
  "on_snapshot f c = c\<lparr>c_snapshot := f (c_snapshot c)\<rparr>"

definition on_session :: "(session_snapshot \<Rightarrow> session_snapshot) \<Rightarrow> device_snapshot \<Rightarrow> device_snapshot" where
  "on_session f s = s\<lparr>ds_session := f (ds_session s)\<rparr>"

definition on_audio :: "(audio_source_snapshot \<Rightarrow> audio_source_snapshot) \<Rightarrow> device_snapshot \<Rightarrow> device_snapshot" where
  "on_audio f s = s\<lparr>ds_audio_source := f (ds_audio_source s)\<rparr>"

section \<open>Publication\<close>

definition publish :: "ctl_world \<Rightarrow> controller \<Rightarrow> controller" where
  "publish w c =
     (let c1 = (if is_some_and (c_listening_test c) (\<lambda>g. \<not> guard_matches g (c_snapshot c))
                then send Out_CancelTone (c\<lparr>c_listening_test := None\<rparr>) else c);
          s = sort_for_publication (w_lower w) ((c_snapshot c1)\<lparr>ds_revision := ds_revision (c_snapshot c1) + 1\<rparr>)
      in send (Out_Publish s) (c1\<lparr>c_snapshot := s, c_published := s\<rparr>))"

definition maybe_publish :: "ctl_world \<Rightarrow> device_snapshot \<Rightarrow> controller \<Rightarrow> controller" where
  "maybe_publish w next c = (if next = c_snapshot c then c else publish w (c\<lparr>c_snapshot := next\<rparr>))"

section \<open>Receiver rows and machines\<close>

definition castable :: "controller \<Rightarrow> device_id \<Rightarrow> bool" where
  "castable c i = is_some_and (om_get (c_inventory c) i) (\<lambda>e. iv_available e \<and> iv_castable e)"

definition ctl_receiver_row :: "controller \<Rightarrow> device_id \<Rightarrow> dev_receiver_snapshot" where
  "ctl_receiver_row c i =
     (let entry = om_get (c_inventory c) i
      in \<lparr>rw_id = i,
          rw_name = (case entry of
                       Some e \<Rightarrow> if iv_name e \<noteq> [] then iv_name e else (case c_saved_names c i of Some n \<Rightarrow> n | None \<Rightarrow> [])
                     | None \<Rightarrow> (case c_saved_names c i of Some n \<Rightarrow> n | None \<Rightarrow> [])),
          rw_model = (case Option.bind entry iv_device of Some d \<Rightarrow> d_model d | None \<Rightarrow> []),
          rw_lifecycle = (case om_get (c_machines c) i of Some m \<Rightarrow> rm_state m | None \<Rightarrow> Unavailable_L)\<rparr>)"

definition is_retry_waiting :: "receiver_lifecycle \<Rightarrow> bool" where
  "is_retry_waiting l = (case l of RetryWaiting _ _ \<Rightarrow> True | _ \<Rightarrow> False)"

definition waiting_ids :: "(device_id, receiver_machine) omap \<Rightarrow> device_id set" where
  "waiting_ids ms = {i. is_some_and (om_get ms i) (\<lambda>m. is_retry_waiting (rm_state m))}"

definition add_machine :: "controller \<Rightarrow> (device_id, receiver_machine) omap \<Rightarrow> device_id \<Rightarrow> (device_id, receiver_machine) omap" where
  "add_machine c ms i = (if om_get ms i = None then om_insert i (machine_new (castable c i)) ms else ms)"

text \<open>The state that \<open>rebuild_receiver_rows\<close> leaves behind, and the rows it writes into a snapshot.\<close>

definition tidy_receivers :: "controller \<Rightarrow> controller" where
  "tidy_receivers c =
     (let desired = ds_desired_members (c_snapshot c);
          c1 = c\<lparr>c_inventory := filter (\<lambda>(i, e). i \<in> desired \<or> iv_available e \<and> iv_castable e) (c_inventory c)\<rparr>;
          ids = set (map fst (c_inventory c1)) \<union> desired;
          kept = filter (\<lambda>(i, _). i \<in> ids) (foldl (add_machine c1) (c_machines c) (sorted_ids ids))
      in c1\<lparr>c_machines := map (\<lambda>(i, m). (i, if i \<in> desired then m else release m)) kept,
            c_retry := foldl (\<lambda>retry (i, _). if i \<in> desired then retry else clear_deadline retry i) (c_retry c) kept\<rparr>)"

definition receiver_ids :: "controller \<Rightarrow> device_id set" where
  "receiver_ids c = set (map fst (c_inventory c)) \<union> ds_desired_members (c_snapshot c)"

definition write_rows :: "controller \<Rightarrow> device_snapshot \<Rightarrow> device_snapshot" where
  "write_rows c s =
     on_session (\<lambda>x. x\<lparr>sx_retry_waiting := waiting_ids (c_machines c)\<rparr>)
       (s\<lparr>ds_receivers := map (ctl_receiver_row c) (sorted_ids (receiver_ids c))\<rparr>)"

definition rebuild_receiver_rows :: "controller \<Rightarrow> device_snapshot \<Rightarrow> controller \<times> device_snapshot" where
  "rebuild_receiver_rows c s = (let c1 = tidy_receivers c in (c1, write_rows c1 s))"

definition drive :: "device_id \<Rightarrow> (receiver_machine \<Rightarrow> machine_result) \<Rightarrow> controller \<Rightarrow> controller" where
  "drive receiver apply c =
     (let m = (case om_get (c_machines c) receiver of Some m \<Rightarrow> m | None \<Rightarrow> machine_new (castable c receiver))
      in c\<lparr>c_machines := om_insert receiver (fst (apply m)) (c_machines c)\<rparr>)"

definition republish_rows :: "ctl_world \<Rightarrow> controller \<Rightarrow> controller" where
  "republish_rows w c = (let (c1, next) = rebuild_receiver_rows c (c_snapshot c) in maybe_publish w next c1)"

definition sync_one :: "ctl_world \<Rightarrow> controller \<Rightarrow> device_id \<times> bool \<Rightarrow> controller" where
  "sync_one w c state =
     (let (i, available) = state;
          c1 = c\<lparr>c_rejoin := (if available then note_discovered (c_rejoin c) (w_now w) i else note_lost (c_rejoin c) i)\<rparr>
      in if is_some_and (om_get (c_machines c1) i) (\<lambda>m. rm_service_available m = available) then c1
         else drive i (\<lambda>m. set_service_available m available) c1)"

definition sync_service_availability :: "ctl_world \<Rightarrow> controller \<Rightarrow> controller" where
  "sync_service_availability w c = foldl (sync_one w) c (map (\<lambda>i. (i, castable c i)) (om_keys (c_machines c)))"

definition refresh_receivers :: "ctl_world \<Rightarrow> controller \<Rightarrow> controller" where
  "refresh_receivers w c = republish_rows w (sync_service_availability w (tidy_receivers c))"

section \<open>Command outcomes\<close>

definition record_result :: "u64 \<Rightarrow> command_failure option \<Rightarrow> controller \<Rightarrow> controller" where
  "record_result ident r = on_snapshot (\<lambda>s. s\<lparr>ds_command_outcomes := record_outcome (ds_command_outcomes s) (ident, r)\<rparr>)"

definition complete :: "u64 \<Rightarrow> controller \<Rightarrow> controller" where
  "complete ident c = send (Out_Event (CommandCompleted ident)) (record_result ident None c)"

definition fail_with_kind :: "u64 \<Rightarrow> string \<Rightarrow> command_failure \<Rightarrow> controller \<Rightarrow> controller" where
  "fail_with_kind ident message kind c =
     send (Out_Event (CommandFailed ident message)) (record_result ident (Some kind) c)"

definition fail_command :: "u64 \<Rightarrow> string \<Rightarrow> controller \<Rightarrow> controller" where
  "fail_command ident message = fail_with_kind ident message Cmd_Rejected"

definition note_persistence_failure :: "u64 \<Rightarrow> controller \<Rightarrow> controller" where
  "note_persistence_failure ident c =
     fail_with_kind ident ''the change could not be saved to disk'' Cmd_Persistence
       (send (Out_Event (Notice_PersistenceWrite ''saving device state failed; the change was not applied''))
         (on_snapshot (\<lambda>s. s\<lparr>ds_persistence := Persistence_Error\<rparr>) c))"

section \<open>The durable transaction\<close>

datatype commit_outcome = Applied | Unchanged | Commit_Rejected | Commit_Failed

definition state_is_intended :: "commit_outcome \<Rightarrow> bool" where
  "state_is_intended r \<longleftrightarrow> r = Applied \<or> r = Unchanged"

definition saved_names_of :: "persisted_state \<Rightarrow> device_id \<Rightarrow> string option" where
  "saved_names_of p =
     map_of (rev (concat (map (\<lambda>g. map (\<lambda>m. (gm_receiver m, gm_last_known_name m)) (sg_members g)) (pt_saved_groups p))))"

definition sync_saved_names :: "controller \<Rightarrow> controller" where
  "sync_saved_names c = c\<lparr>c_saved_names := saved_names_of (c_persisted c)\<rparr>"

text \<open>What happens once the candidate is on disk.\<close>

definition announce_commit ::
    "ctl_world \<Rightarrow> u64 \<Rightarrow> (device_snapshot \<Rightarrow> device_snapshot) \<Rightarrow> bool \<Rightarrow> bool \<Rightarrow> persisted_state \<Rightarrow> controller \<Rightarrow> controller" where
  "announce_commit w ident announce refresh_rows sync_names candidate c =
     (let c1 = on_snapshot (\<lambda>s. announce (s\<lparr>ds_receiver_levels := pt_receiver_levels candidate\<rparr>)) (c\<lparr>c_persisted := candidate\<rparr>);
          c2 = (if refresh_rows
                then let (c', next) = rebuild_receiver_rows c1 (c_snapshot c1) in c'\<lparr>c_snapshot := next\<rparr> else c1);
          c3 = (if sync_names then sync_saved_names c2 else c2)
      in publish w (complete ident c3))"

definition commit_durable ::
    "ctl_world \<Rightarrow> u64 \<Rightarrow> (persisted_state \<Rightarrow> persisted_state) \<Rightarrow> (device_snapshot \<Rightarrow> device_snapshot) \<Rightarrow> bool \<Rightarrow> bool
     \<Rightarrow> controller \<Rightarrow> controller \<times> commit_outcome" where
  "commit_durable w ident mutate announce refresh_rows sync_names c =
     (let candidate = mutate (c_persisted c)
      in if persisted_validate (w_lower w) candidate \<noteq> None
         then (fail_command ident ''the requested change could not be applied'' c, Commit_Rejected)
         else if candidate = c_persisted c then (complete ident c, Unchanged)
         else let ok = w_save w (length (c_out c)); c1 = send (Out_Save candidate ok) c
              in if ok then (announce_commit w ident announce refresh_rows sync_names candidate c1, Applied)
                 else (publish w (note_persistence_failure ident c1), Commit_Failed))"

section \<open>Volumes\<close>

definition effective_level :: "controller \<Rightarrow> device_id \<Rightarrow> f32" where
  "effective_level c receiver =
     volume_get (effective_volume (pt_master_volume (c_persisted c))
       (case om_get (pt_receiver_levels (c_persisted c)) receiver of Some v \<Rightarrow> v | None \<Rightarrow> VOLUME_UNITY)
       (pt_muted (c_persisted c)))"

definition forward_effective_volumes :: "ctl_world \<Rightarrow> controller \<Rightarrow> controller" where
  "forward_effective_volumes w c =
     foldl (\<lambda>c' r. send_session w (Req_SetVolume r (effective_level c r)) c') c (sorted_ids (c_active c))"

definition remember_effective_volumes :: "ctl_world \<Rightarrow> controller \<Rightarrow> controller" where
  "remember_effective_volumes w c =
     (if w_has_session w
      then foldl (\<lambda>c' r. send (Out_RememberVolume r (effective_level c r)) c') c
             (sorted_ids (ds_desired_members (c_snapshot c)))
      else c)"

section \<open>Requesting a session\<close>

datatype reconcile_cause =
    Cause_Membership | Cause_SavedGroup | Cause_LatencyPreset | Cause_Retry | Cause_PrimaryFailure
  | Cause_Resume | Cause_NetworkRebind | Cause_CalibrationChanged

text \<open>The devices handed down: those that may be connected now; none while the user wants silence.\<close>

definition connectable :: "controller \<Rightarrow> device_id \<Rightarrow> bool" where
  "connectable c i \<longleftrightarrow> castable c i \<and> \<not> is_some_and (om_get (c_machines c) i) in_backoff"

definition desired_devices :: "controller \<Rightarrow> device list" where
  "desired_devices c =
     List.map_filter (\<lambda>i. Option.bind (om_get (c_inventory c) i) iv_device)
       (filter (connectable c) (sorted_ids (ds_desired_members (c_snapshot c))))"

definition session_latency :: "controller \<Rightarrow> latency_config" where
  "session_latency c =
     (case enabled_config (pt_latency_preset (c_persisted c)) of
        Some config \<Rightarrow> config | None \<Rightarrow> \<lparr>sender_buffer_ms = 2000, render_delay_ms = 200\<rparr>)"

definition request_reconcile :: "ctl_world \<Rightarrow> reconcile_cause \<Rightarrow> controller \<Rightarrow> controller" where
  "request_reconcile w cause c =
     (let stopped = (ds_run_intent (c_snapshot c) = Run_Stopped)
      in if \<not> w_has_session w \<or> c_suspended c then c
         else if stopped \<and> c_active c = {} \<and> c_pending_desired c = {} then c
         else let generation = saturating_add (c_session_generation c) 1;
                  devices = (if stopped then [] else desired_devices c);
                  c1 = c\<lparr>c_session_generation := generation, c_live_session_generation := Some generation,
                         c_calibration_pending_generation :=
                           (if cause = Cause_CalibrationChanged then Some generation else c_calibration_pending_generation c),
                         c_pending_desired := set (map d_id devices)\<rparr>;
                  preferred = (case c_primary c of
                                 Some p \<Rightarrow> if p \<in> ds_desired_members (c_snapshot c) then Some p else None
                               | None \<Rightarrow> None)
              in send (Out_Session (Req_Reconcile generation devices preferred (session_latency c) (c_calibration c) stopped))
                   (remember_effective_volumes w c1))"

end
