(* ===== verification/Controller_Commands.thy ===== *)
theory Controller_Commands
  imports Controller_State
begin

text \<open>
  Commands of the controller (\<open>backend/command.rs\<close>, \<open>backend/controller.rs\<close>): how a burst of commands is
  coalesced, how each slot and each edge is executed, and the platform edges.
\<close>

section \<open>Commands\<close>

datatype system_event = Suspending | Resumed | NetworkChanged bool

datatype backend_command =
    RunListeningTest listening_test_guard
  | ApplyDesiredMembers "device_id set"
  | SetDesiredMembers "device_id set"
  | SetRunIntent run_intent
  | SetMasterVolume volume_t
  | SetMuted bool
  | SetReceiverLevel device_id volume_t
  | SetAudioEndpoint endpoint_preference
  | SetLatencyPreset latency_preset
  | SetAutoConnect bool
  | SaveGroup "saved_group_id option" string "saved_group_member list"
  | DeleteGroup saved_group_id
  | ActivateSavedGroup saved_group_id bool
  | RetryReceiver device_id
  | NotifySystem system_event
  | Calibration calibration_command
  | Cmd_Shutdown

record command_envelope =
  en_id :: u64
  en_command :: backend_command
  en_confirmation :: "receipt option"

fun is_edge :: "backend_command \<Rightarrow> bool" where
  "is_edge (ApplyDesiredMembers _) = True"
| "is_edge (SaveGroup _ _ _) = True"
| "is_edge (DeleteGroup _) = True"
| "is_edge (ActivateSavedGroup _ _) = True"
| "is_edge (RetryReceiver _) = True"
| "is_edge (NotifySystem _) = True"
| "is_edge (Calibration _) = True"
| "is_edge (RunListeningTest _) = True"
| "is_edge Cmd_Shutdown = True"
| "is_edge _ = False"

section \<open>Coalescing\<close>

text \<open>Each slot holds the identity and the value of the newest command of its kind.\<close>

record pending_batch =
  pb_desired_members :: "(u64 \<times> device_id set) option"
  pb_run_intent :: "(u64 \<times> run_intent) option"
  pb_master_volume :: "(u64 \<times> volume_t) option"
  pb_master_receipt :: "receipt option"
  pb_muted :: "(u64 \<times> bool) option"
  pb_endpoint :: "(u64 \<times> endpoint_preference) option"
  pb_latency_preset :: "(u64 \<times> latency_preset) option"
  pb_auto_connect :: "(u64 \<times> bool) option"
  pb_levels :: "(device_id, u64 \<times> volume_t) omap"
  pb_edges :: "command_envelope list"
  pb_drained_total :: u32

definition batch_new :: pending_batch where
  "batch_new =
     \<lparr>pb_desired_members = None, pb_run_intent = None, pb_master_volume = None, pb_master_receipt = None, pb_muted = None,
      pb_endpoint = None, pb_latency_preset = None, pb_auto_connect = None, pb_levels = [], pb_edges = [], pb_drained_total = 0\<rparr>"

fun without_start :: "backend_command \<Rightarrow> backend_command" where
  "without_start (ActivateSavedGroup i _) = ActivateSavedGroup i False"
| "without_start cmd = cmd"

definition cancel_starts :: "command_envelope list \<Rightarrow> command_envelope list" where
  "cancel_starts edges = map (\<lambda>e. e\<lparr>en_command := without_start (en_command e)\<rparr>) edges"

definition batch_insert :: "pending_batch \<Rightarrow> command_envelope \<Rightarrow> pending_batch" where
  "batch_insert b0 e =
     (let b = b0\<lparr>pb_drained_total := pb_drained_total b0 + 1\<rparr>
      in case en_command e of
           SetDesiredMembers members \<Rightarrow> b\<lparr>pb_desired_members := Some (en_id e, members)\<rparr>
         | SetRunIntent intent \<Rightarrow>
             b\<lparr>pb_edges := (if intent = Run_Stopped then cancel_starts (pb_edges b) else pb_edges b),
               pb_run_intent := Some (en_id e, intent)\<rparr>
         | SetMasterVolume v \<Rightarrow>
             b\<lparr>pb_master_receipt := (case en_confirmation e of Some r \<Rightarrow> Some r | None \<Rightarrow> pb_master_receipt b),
               pb_master_volume := Some (en_id e, v)\<rparr>
         | SetMuted m \<Rightarrow> b\<lparr>pb_muted := Some (en_id e, m)\<rparr>
         | SetReceiverLevel receiver level \<Rightarrow> b\<lparr>pb_levels := om_insert receiver (en_id e, level) (pb_levels b)\<rparr>
         | SetAudioEndpoint p \<Rightarrow> b\<lparr>pb_endpoint := Some (en_id e, p)\<rparr>
         | SetLatencyPreset p \<Rightarrow> b\<lparr>pb_latency_preset := Some (en_id e, p)\<rparr>
         | SetAutoConnect a \<Rightarrow> b\<lparr>pb_auto_connect := Some (en_id e, a)\<rparr>
         | _ \<Rightarrow> b\<lparr>pb_edges := pb_edges b @ [e]\<rparr>)"

definition winner_count :: "pending_batch \<Rightarrow> u32" where
  "winner_count b =
     of_nat (length (filter id [pb_desired_members b \<noteq> None, pb_run_intent b \<noteq> None, pb_master_volume b \<noteq> None,
        pb_muted b \<noteq> None, pb_endpoint b \<noteq> None, pb_latency_preset b \<noteq> None, pb_auto_connect b \<noteq> None]))
     + of_nat (length (pb_levels b)) + of_nat (length (pb_edges b))"

section \<open>Platform edges\<close>

definition RESUME_SETTLE :: duration where "RESUME_SETTLE = from_secs 2"
definition SUSPEND_WATCHDOG :: duration where "SUSPEND_WATCHDOG = from_secs 300"
definition AUTO_CONNECT_WINDOW :: duration where "AUTO_CONNECT_WINDOW = from_secs 60"

definition begin_suspend :: "ctl_world \<Rightarrow> controller \<Rightarrow> controller" where
  "begin_suspend w c =
     (let c1 = c\<lparr>c_suspended := True, c_resume_at := Some (w_now w + SUSPEND_WATCHDOG)\<rparr>;
          c2 = send_session w Req_Suspend (send (Out_Capture Cap_Suspend) c1)
      in maybe_publish w
           (on_session (\<lambda>x. x\<lparr>sx_resume_pending := True, sx_audio_flow := SilenceBridged\<rparr>) (c_snapshot c2)) c2)"

definition begin_resume :: "ctl_world \<Rightarrow> controller \<Rightarrow> controller" where
  "begin_resume w c = c\<lparr>c_resume_at := Some (w_now w + RESUME_SETTLE)\<rparr>"

definition resume_delay :: "ctl_world \<Rightarrow> controller \<Rightarrow> duration option" where
  "resume_delay w c = map_option (\<lambda>deadline. deadline - w_now w) (c_resume_at c)"

definition release_one :: "controller \<Rightarrow> device_id \<Rightarrow> controller" where
  "release_one c receiver = drive receiver retry_now (c\<lparr>c_retry := clear_deadline (c_retry c) receiver\<rparr>)"

definition release_backoff :: "controller \<Rightarrow> controller" where
  "release_backoff c = foldl release_one c (map fst (filter (\<lambda>(_, m). in_backoff m) (c_machines c)))"

definition note_group_restart :: "ctl_world \<Rightarrow> controller \<Rightarrow> controller" where
  "note_group_restart w c = c\<lparr>c_rejoin := note_restart (c_rejoin c) (w_now w)\<rparr>"

definition finish_resume :: "ctl_world \<Rightarrow> controller \<Rightarrow> controller" where
  "finish_resume w c =
     (let c1 = send (Out_Capture Cap_Resume) (send (Out_Discovery RestartAfterNetworkChange)
                 (c\<lparr>c_resume_at := None, c_suspended := False\<rparr>));
          c2 = release_backoff c1;
          c3 = maybe_publish w (on_session (\<lambda>x. x\<lparr>sx_resume_pending := False\<rparr>) (c_snapshot c2)) c2
      in if ds_run_intent (c_snapshot c3) = Run_Running
         then request_reconcile w Cause_Resume (note_group_restart w c3) else c3)"

definition apply_network_change :: "ctl_world \<Rightarrow> bool \<Rightarrow> controller \<Rightarrow> controller" where
  "apply_network_change w local_binding_changed c =
     (if c_suspended c then c
      else let c1 = send (Out_Discovery RestartAfterNetworkChange) c
           in if local_binding_changed \<and> ds_run_intent (c_snapshot c1) = Run_Running
              then request_reconcile w Cause_NetworkRebind (note_group_restart w (release_backoff c1)) else c1)"

fun handle_system_event :: "ctl_world \<Rightarrow> system_event \<Rightarrow> controller \<Rightarrow> controller" where
  "handle_system_event w Suspending c = begin_suspend w c"
| "handle_system_event w Resumed c = begin_resume w c"
| "handle_system_event w (NetworkChanged moved) c = apply_network_change w moved c"

section \<open>Saved groups\<close>

text \<open>\<open>chars().count()\<close> of UTF-8 text.\<close>

definition char_count :: "string \<Rightarrow> nat" where
  "char_count s = length (filter (\<lambda>ch. \<not> is_cont ch) s)"

definition without_group :: "saved_group_id \<Rightarrow> saved_group list \<Rightarrow> saved_group list" where
  "without_group i groups = filter (\<lambda>g. sg_id g \<noteq> i) groups"

definition handle_save_group ::
    "ctl_world \<Rightarrow> u64 \<Rightarrow> saved_group_id option \<Rightarrow> string \<Rightarrow> saved_group_member list \<Rightarrow> controller \<Rightarrow> controller" where
  "handle_save_group w ident group_ident name members c =
     (let trimmed = trim name
      in if trimmed = [] \<or> 64 < char_count trimmed then fail_command ident ''group names need 1-64 characters'' c
         else if \<exists>g \<in> set (pt_saved_groups (c_persisted c)). eq_ignore_ascii_case (sg_name g) trimmed
                   \<and> (case group_ident of None \<Rightarrow> True | Some edit \<Rightarrow> sg_id g \<noteq> edit)
         then fail_command ident ''a group with that name already exists'' c
         else if \<not> distinct (map gm_receiver members)
         then fail_command ident ''each receiver may appear once per group'' c
         else if members = [] then fail_command ident ''a saved group needs at least one receiver'' c
         else let resolved = (case group_ident of Some i \<Rightarrow> i | None \<Rightarrow> w_fresh_group w (length (c_out c)));
                  stored = \<lparr>sg_id = resolved, sg_name = trimmed, sg_members = members\<rparr>
              in fst (commit_durable w ident
                   (\<lambda>p. p\<lparr>pt_saved_groups := by_name (w_lower w) sg_name sg_id (without_group resolved (pt_saved_groups p) @ [stored])\<rparr>)
                   (\<lambda>s. s\<lparr>ds_saved_groups := without_group resolved (ds_saved_groups s) @ [stored]\<rparr>) False True c))"

definition handle_delete_group :: "ctl_world \<Rightarrow> u64 \<Rightarrow> saved_group_id \<Rightarrow> controller \<Rightarrow> controller" where
  "handle_delete_group w ident group_ident c =
     (if \<not> (\<exists>g \<in> set (pt_saved_groups (c_persisted c)). sg_id g = group_ident) then complete ident c
      else fst (commit_durable w ident
             (\<lambda>p. p\<lparr>pt_saved_groups := without_group group_ident (pt_saved_groups p)\<rparr>)
             (\<lambda>s. s\<lparr>ds_saved_groups := without_group group_ident (ds_saved_groups s)\<rparr>) False True c))"

text \<open>The controller and whether a new session is owed.\<close>

definition handle_activate_group :: "ctl_world \<Rightarrow> u64 \<Rightarrow> saved_group_id \<Rightarrow> bool \<Rightarrow> controller \<Rightarrow> controller \<times> bool" where
  "handle_activate_group w ident group_ident start c =
     (case find (\<lambda>g. sg_id g = group_ident) (pt_saved_groups (c_persisted c)) of
        None \<Rightarrow> (fail_command ident ''that saved group no longer exists'' c, False)
      | Some g \<Rightarrow>
          let members = set (map gm_receiver (sg_members g));
              differs = (members \<noteq> pt_last_desired_members (c_persisted c));
              (c1, outcome) = commit_durable w ident
                (\<lambda>p. p\<lparr>pt_last_desired_members := members,
                       pt_receiver_levels := foldl (\<lambda>ls m. om_insert (gm_receiver m) (gm_level m) ls) (pt_receiver_levels p) (sg_members g)\<rparr>)
                (\<lambda>s. s\<lparr>ds_desired_members := members,
                       ds_desired_revision := (if differs then saturating_add (ds_desired_revision s) 1 else ds_desired_revision s)\<rparr>)
                True False c;
              c2 = (if \<not> start \<and> state_is_intended outcome then c1\<lparr>c_startup_auto_connect_until := None\<rparr> else c1)
          in if start \<and> state_is_intended outcome \<and> ds_run_intent (c_snapshot c2) \<noteq> Run_Running
             then (publish w (on_snapshot (\<lambda>s. s\<lparr>ds_run_intent := Run_Running\<rparr>) c2), True)
             else (c2, outcome = Applied))"

section \<open>Calibration\<close>

definition handle_click_test :: "u64 \<Rightarrow> controller \<Rightarrow> controller" where
  "handle_click_test ident c =
     (if card (c_active c) < 2 then fail_command ident ''the alignment test needs at least two connected receivers'' c
      else complete ident (send Out_ClickPattern c))"

text \<open>Applying a profile, or clearing it, against the selection it was made for.\<close>

definition apply_calibration ::
    "ctl_world \<Rightarrow> u64 \<Rightarrow> u64 \<Rightarrow> calibration_profile option \<Rightarrow> controller \<Rightarrow> controller \<times> bool" where
  "apply_calibration w ident expected requested c =
     (let active = ds_desired_members (c_snapshot c);
          ok = w_save w (length (c_out c)); c1 = send (Out_SaveCalibration requested ok) c
      in if expected \<noteq> ds_desired_revision (c_snapshot c)
         then (fail_command ident ''the receiver selection changed while calibrating; review it and apply again'' c, False)
         else if requested \<noteq> None \<and> card active < 2
         then (fail_command ident ''calibration needs at least two selected receivers'' c, False)
         else if is_some_and requested (\<lambda>profile. case normalize_calibration active profile of Inl _ \<Rightarrow> True | Inr _ \<Rightarrow> False)
         then (fail_command ident ''the calibration values could not be applied'' c, False)
         else if \<not> ok then (publish w (note_persistence_failure ident c1), False)
         else (complete ident (c1\<lparr>c_calibration := (case requested of Some p \<Rightarrow> p | None \<Rightarrow> calibration_default)\<rparr>), True))"

fun handle_calibration :: "ctl_world \<Rightarrow> u64 \<Rightarrow> calibration_command \<Rightarrow> controller \<Rightarrow> controller \<times> bool" where
  "handle_calibration w ident (ApplyCalibrationProfile expected profile) c = apply_calibration w ident expected (Some profile) c"
| "handle_calibration w ident (ResetCalibration expected) c = apply_calibration w ident expected None c"
| "handle_calibration w ident RunCalibrationClickTest c = (handle_click_test ident c, False)"

section \<open>The test tone\<close>

definition run_listening_test :: "ctl_world \<Rightarrow> u64 \<Rightarrow> listening_test_guard \<Rightarrow> controller \<Rightarrow> controller" where
  "run_listening_test w ident g c =
     (if \<not> guard_matches g (c_snapshot c) \<or> c_last_listening_test_generation c = Some (lg_generation g)
      then fail_command ident ''the listening test configuration changed or was already used'' c
      else let ok = w_tone w (length (c_out c)); c1 = send (Out_StartTone ok) c
           in if ok then complete ident (c1\<lparr>c_last_listening_test_generation := Some (lg_generation g), c_listening_test := Some g\<rparr>)
              else fail_command ident ''the listening test audio source is busy'' c1)"

end
