(* ===== verification/Controller.thy ===== *)
theory Controller
  imports Controller_Commands
begin

text \<open>
  The controller as a whole (\<open>backend/controller.rs\<close>): a drained batch of commands, the updates of the
  discovery, capture and session supervisors, the timers, and the main loop's dispatch.
\<close>

section \<open>A batch of commands\<close>

record batch_progress =
  bp_ctl :: controller
  bp_reconcile :: "reconcile_cause option"
  bp_volumes_changed :: bool
  bp_shutdown :: bool
  bp_group_starts :: "receipt list"

definition on_ctl :: "(controller \<Rightarrow> controller) \<Rightarrow> batch_progress \<Rightarrow> batch_progress" where
  "on_ctl f p = p\<lparr>bp_ctl := f (bp_ctl p)\<rparr>"

definition bump_desired :: "device_id set \<Rightarrow> device_snapshot \<Rightarrow> device_snapshot" where
  "bump_desired members s = s\<lparr>ds_desired_members := members, ds_desired_revision := saturating_add (ds_desired_revision s) 1\<rparr>"

definition apply_members :: "ctl_world \<Rightarrow> u64 \<Rightarrow> device_id set \<Rightarrow> batch_progress \<Rightarrow> batch_progress" where
  "apply_members w ident members p =
     (if members \<noteq> pt_last_desired_members (c_persisted (bp_ctl p))
      then let (c1, outcome) = commit_durable w ident (\<lambda>q. q\<lparr>pt_last_desired_members := members\<rparr>) (bump_desired members) True False (bp_ctl p)
           in p\<lparr>bp_ctl := c1, bp_reconcile := (if outcome = Applied then Some Cause_Membership else bp_reconcile p)\<rparr>
      else on_ctl (complete ident) p)"

definition slot_run_intent :: "ctl_world \<Rightarrow> u64 \<times> run_intent \<Rightarrow> batch_progress \<Rightarrow> batch_progress" where
  "slot_run_intent w slot p =
     (let (ident, intent) = slot; c = (bp_ctl p)\<lparr>c_startup_auto_connect_until := None\<rparr>
      in if intent \<noteq> ds_run_intent (c_snapshot c)
         then p\<lparr>bp_ctl := publish w (complete ident (on_snapshot (\<lambda>s. s\<lparr>ds_run_intent := intent\<rparr>) c)), bp_reconcile := Some Cause_Membership\<rparr>
         else p\<lparr>bp_ctl := complete ident c\<rparr>)"

text \<open>A durable value without a session restart; whether volumes changed is remembered.\<close>

definition slot_durable ::
    "ctl_world \<Rightarrow> u64 \<Rightarrow> bool \<Rightarrow> (persisted_state \<Rightarrow> persisted_state) \<Rightarrow> (device_snapshot \<Rightarrow> device_snapshot) \<Rightarrow> bool
     \<Rightarrow> batch_progress \<Rightarrow> batch_progress" where
  "slot_durable w ident changed mutate announce is_volume p =
     (if changed
      then let (c1, outcome) = commit_durable w ident mutate announce False False (bp_ctl p)
           in p\<lparr>bp_ctl := c1, bp_volumes_changed := (bp_volumes_changed p \<or> is_volume \<and> outcome = Applied)\<rparr>
      else on_ctl (complete ident) p)"

definition outcome_of :: "u64 \<Rightarrow> controller \<Rightarrow> (u64 \<times> command_failure option) option" where
  "outcome_of ident c = find (\<lambda>r. fst r = ident) (co_recent (ds_command_outcomes (c_snapshot c)))"

definition confirmation :: "command_failure option \<Rightarrow> u64 option \<Rightarrow> controller \<Rightarrow> command_confirmation" where
  "confirmation error gen_floor c =
     \<lparr>cf_revision = ds_revision (c_snapshot c) + 1, cf_error = error, cf_session_generation_floor = gen_floor\<rparr>"

definition confirm :: "u64 \<Rightarrow> receipt \<Rightarrow> controller \<Rightarrow> controller" where
  "confirm ident r c =
     (case outcome_of ident c of Some (_, error) \<Rightarrow> send (Out_Confirm r (confirmation error None c)) c | None \<Rightarrow> c)"

definition slot_master_volume :: "ctl_world \<Rightarrow> receipt option \<Rightarrow> u64 \<times> volume_t \<Rightarrow> batch_progress \<Rightarrow> batch_progress" where
  "slot_master_volume w rcpt slot p =
     (let (ident, v) = slot;
          p1 = slot_durable w ident (v \<noteq> pt_master_volume (c_persisted (bp_ctl p)))
                 (\<lambda>q. q\<lparr>pt_master_volume := v\<rparr>) (\<lambda>s. s\<lparr>ds_master_volume := v\<rparr>) True p
      in case rcpt of Some r \<Rightarrow> on_ctl (\<lambda>c. publish w (confirm ident r c)) p1 | None \<Rightarrow> p1)"

definition slot_muted :: "ctl_world \<Rightarrow> u64 \<times> bool \<Rightarrow> batch_progress \<Rightarrow> batch_progress" where
  "slot_muted w slot p =
     (let (ident, m) = slot
      in slot_durable w ident (m \<noteq> pt_muted (c_persisted (bp_ctl p))) (\<lambda>q. q\<lparr>pt_muted := m\<rparr>) (\<lambda>s. s\<lparr>ds_muted := m\<rparr>) True p)"

definition slot_endpoint :: "ctl_world \<Rightarrow> u64 \<times> endpoint_preference \<Rightarrow> batch_progress \<Rightarrow> batch_progress" where
  "slot_endpoint w slot p =
     (let (ident, preference) = slot
      in if preference \<noteq> pt_audio_endpoint (c_persisted (bp_ctl p))
         then let (c1, outcome) = commit_durable w ident (\<lambda>q. q\<lparr>pt_audio_endpoint := preference\<rparr>)
                    (on_audio (\<lambda>a. a\<lparr>au_preference := preference\<rparr>)) False False (bp_ctl p)
              in p\<lparr>bp_ctl := (if outcome = Applied
                             then send (Out_Capture Cap_RequestEndpointChange) (send (Out_CapturePreference preference) (send Out_ScanEndpoints c1))
                             else c1)\<rparr>
         else on_ctl (complete ident) p)"

definition slot_latency :: "ctl_world \<Rightarrow> u64 \<times> latency_preset \<Rightarrow> batch_progress \<Rightarrow> batch_progress" where
  "slot_latency w slot p =
     (let (ident, preset) = slot
      in case disabled_reason preset of
           Some reason \<Rightarrow> on_ctl (fail_command ident reason) p
         | None \<Rightarrow>
             if preset \<noteq> pt_latency_preset (c_persisted (bp_ctl p))
             then let (c1, outcome) = commit_durable w ident (\<lambda>q. q\<lparr>pt_latency_preset := preset\<rparr>)
                        (\<lambda>s. s\<lparr>ds_latency_preset := preset\<rparr>) False False (bp_ctl p)
                  in p\<lparr>bp_ctl := c1, bp_reconcile := (if outcome = Applied then Some Cause_LatencyPreset else bp_reconcile p)\<rparr>
             else on_ctl (complete ident) p)"

definition slot_auto_connect :: "ctl_world \<Rightarrow> u64 \<times> bool \<Rightarrow> batch_progress \<Rightarrow> batch_progress" where
  "slot_auto_connect w slot p =
     (let (ident, enabled) = slot;
          p1 = (if enabled then p else on_ctl (\<lambda>c. c\<lparr>c_startup_auto_connect_until := None\<rparr>) p)
      in slot_durable w ident (enabled \<noteq> pt_auto_connect (c_persisted (bp_ctl p1)))
           (\<lambda>q. q\<lparr>pt_auto_connect := enabled\<rparr>) (\<lambda>s. s\<lparr>ds_auto_connect := enabled\<rparr>) False p1)"

definition slot_level :: "ctl_world \<Rightarrow> batch_progress \<Rightarrow> device_id \<times> u64 \<times> volume_t \<Rightarrow> batch_progress" where
  "slot_level w p slot =
     (let (receiver, ident, level) = slot
      in slot_durable w ident (om_get (pt_receiver_levels (c_persisted (bp_ctl p))) receiver \<noteq> Some level)
           (\<lambda>q. q\<lparr>pt_receiver_levels := om_insert receiver level (pt_receiver_levels q)\<rparr>) (\<lambda>s. s) True p)"

definition with_slot :: "('a \<Rightarrow> batch_progress \<Rightarrow> batch_progress) \<Rightarrow> 'a option \<Rightarrow> batch_progress \<Rightarrow> batch_progress" where
  "with_slot f slot p = (case slot of Some x \<Rightarrow> f x p | None \<Rightarrow> p)"

definition run_scalars :: "ctl_world \<Rightarrow> pending_batch \<Rightarrow> batch_progress \<Rightarrow> batch_progress" where
  "run_scalars w b p0 =
     (let p1 = with_slot (\<lambda>(ident, members). apply_members w ident members) (pb_desired_members b) p0;
          p2 = with_slot (slot_run_intent w) (pb_run_intent b) p1;
          p3 = with_slot (slot_master_volume w (pb_master_receipt b)) (pb_master_volume b) p2;
          p4 = with_slot (slot_muted w) (pb_muted b) p3;
          p5 = with_slot (slot_endpoint w) (pb_endpoint b) p4;
          p6 = with_slot (slot_latency w) (pb_latency_preset b) p5;
          p7 = with_slot (slot_auto_connect w) (pb_auto_connect b) p6
      in foldl (slot_level w) p7 (pb_levels b))"

text \<open>One edge; a command that is no edge never stands in the queue.\<close>

fun run_edge_command :: "ctl_world \<Rightarrow> u64 \<Rightarrow> backend_command \<Rightarrow> batch_progress \<Rightarrow> batch_progress" where
  "run_edge_command w ident (ApplyDesiredMembers members) p = apply_members w ident members p"
| "run_edge_command w ident (SaveGroup group_ident name members) p = on_ctl (handle_save_group w ident group_ident name members) p"
| "run_edge_command w ident (DeleteGroup group_ident) p = on_ctl (handle_delete_group w ident group_ident) p"
| "run_edge_command w ident (ActivateSavedGroup group_ident start) p =
     (let (c1, owed) = handle_activate_group w ident group_ident start (bp_ctl p)
      in p\<lparr>bp_ctl := c1, bp_reconcile := (if owed \<and> bp_reconcile p = None then Some Cause_SavedGroup else bp_reconcile p)\<rparr>)"
| "run_edge_command w ident (RetryReceiver receiver) p =
     p\<lparr>bp_ctl := complete ident (republish_rows w (drive receiver retry_now ((bp_ctl p)\<lparr>c_retry := manual_retry (c_retry (bp_ctl p)) receiver\<rparr>))),
       bp_reconcile := Some Cause_Retry\<rparr>"
| "run_edge_command w ident (NotifySystem event) p = on_ctl (\<lambda>c. complete ident (handle_system_event w event c)) p"
| "run_edge_command w ident (Calibration command) p =
     (let (c1, owed) = handle_calibration w ident command (bp_ctl p)
      in p\<lparr>bp_ctl := c1, bp_reconcile := (if owed then Some Cause_CalibrationChanged else bp_reconcile p)\<rparr>)"
| "run_edge_command w ident (RunListeningTest g) p = on_ctl (run_listening_test w ident g) p"
| "run_edge_command w ident Cmd_Shutdown p =
     p\<lparr>bp_ctl := complete ident (if c_listening_test (bp_ctl p) \<noteq> None
                  then send Out_CancelTone ((bp_ctl p)\<lparr>c_listening_test := None\<rparr>) else bp_ctl p),
       bp_shutdown := True\<rparr>"
| "run_edge_command w ident _ p = p"

definition starts_group :: "backend_command \<Rightarrow> bool" where
  "starts_group cmd = (case cmd of ActivateSavedGroup _ start \<Rightarrow> start | _ \<Rightarrow> False)"

text \<open>The receipt of an edge: a successful group start is answered once its session generation is known.\<close>

definition answer_edge :: "ctl_world \<Rightarrow> command_envelope \<Rightarrow> batch_progress \<Rightarrow> batch_progress" where
  "answer_edge w e p =
     (case en_confirmation e of
        None \<Rightarrow> p
      | Some r \<Rightarrow>
          on_ctl (publish w)
            (case outcome_of (en_id e) (bp_ctl p) of
               None \<Rightarrow> p
             | Some (_, error) \<Rightarrow>
                 if starts_group (en_command e) \<and> error = None then p\<lparr>bp_group_starts := bp_group_starts p @ [r]\<rparr>
                 else on_ctl (\<lambda>c. send (Out_Confirm r (confirmation error None c)) c) p))"

fun run_edges :: "ctl_world \<Rightarrow> command_envelope list \<Rightarrow> batch_progress \<Rightarrow> batch_progress" where
  "run_edges w [] p = p"
| "run_edges w (e # es) p =
     (let p1 = answer_edge w e (run_edge_command w (en_id e) (en_command e) p)
      in if bp_shutdown p1 then p1 else run_edges w es p1)"

definition answer_group_starts :: "ctl_world \<Rightarrow> receipt list \<Rightarrow> controller \<Rightarrow> controller" where
  "answer_group_starts w rs c =
     (if rs = [] then c
      else let gen_floor = (if c_suspended c \<or> \<not> w_has_session w then saturating_add (c_session_generation c) 1 else c_session_generation c)
           in publish w (foldl (\<lambda>c' r. send (Out_Confirm r (confirmation None (Some gen_floor) c)) c') c rs))"

definition process_batch :: "ctl_world \<Rightarrow> pending_batch \<Rightarrow> controller \<Rightarrow> controller \<times> bool" where
  "process_batch w b c =
     (let p = run_edges w (pb_edges b) (run_scalars w b
                \<lparr>bp_ctl = c, bp_reconcile = None, bp_volumes_changed = False, bp_shutdown = False, bp_group_starts = []\<rparr>);
          c1 = (if bp_volumes_changed p then forward_effective_volumes w (remember_effective_volumes w (bp_ctl p)) else bp_ctl p);
          c2 = (case bp_reconcile p of Some cause \<Rightarrow> request_reconcile w cause c1 | None \<Rightarrow> c1);
          c3 = answer_group_starts w (bp_group_starts p) c2;
          c4 = (if ds_command_outcomes (c_published c3) \<noteq> ds_command_outcomes (c_snapshot c3) then publish w c3 else c3)
      in (c4, bp_shutdown p))"

section \<open>Automatic starts\<close>

definition rejoin_view :: "controller \<Rightarrow> rejoin_ctl" where
  "rejoin_view c =
     \<lparr>rc_suspended = c_suspended c, rc_run_intent = ds_run_intent (c_snapshot c),
      rc_desired_members = sorted_ids (ds_desired_members (c_snapshot c)), rc_machines = c_machines c,
      rc_retry = c_retry c, rc_rejoin = c_rejoin c\<rparr>"

definition ctl_fire_due_retries :: "ctl_world \<Rightarrow> controller \<Rightarrow> controller" where
  "ctl_fire_due_retries w c =
     (let due = fst (rejoin_candidates (rejoin_view c) (w_now w))
      in if due = [] then c
         else request_reconcile w Cause_Retry (republish_rows w (note_group_restart w (foldl release_one c due))))"

definition auto_connect_delay :: "ctl_world \<Rightarrow> controller \<Rightarrow> duration option" where
  "auto_connect_delay w c =
     (case c_startup_auto_connect_until c of
        None \<Rightarrow> None
      | Some until \<Rightarrow>
          if c_suspended c \<or> until < w_now w then None
          else case min_by_key id (List.map_filter (rejoin_eligible_at (c_rejoin c)) (sorted_ids (ds_desired_members (c_snapshot c)))) of
                 Some a \<Rightarrow> if a \<le> until then Some (a - w_now w) else None
               | None \<Rightarrow> None)"

definition apply_startup_auto_connect :: "ctl_world \<Rightarrow> controller \<Rightarrow> controller" where
  "apply_startup_auto_connect w c =
     (case c_startup_auto_connect_until c of
        None \<Rightarrow> c
      | Some until \<Rightarrow>
          if c_suspended c then c
          else if until < w_now w \<or> ds_run_intent (c_snapshot c) \<noteq> Run_Stopped then c\<lparr>c_startup_auto_connect_until := None\<rparr>
          else if \<not> (\<exists>r \<in> ds_desired_members (c_snapshot c). may_rejoin (c_rejoin c) (w_now w) r) then c
          else request_reconcile w Cause_Membership
                 (publish w (on_snapshot (\<lambda>s. s\<lparr>ds_run_intent := Run_Running\<rparr>) (c\<lparr>c_startup_auto_connect_until := None\<rparr>))))"

section \<open>Discovery and capture\<close>

datatype browse_event = Browse_Added device | Browse_Updated device | Browse_Removed device_id

datatype discovery_update =
    Disc_Started u64
  | Disc_Receiver u64 browse_event
  | Disc_Failed u64 user_facing_error instant

definition device_castable :: "device \<Rightarrow> bool" where
  "device_castable d \<longleftrightarrow> supports_airplay2 d \<and> is_some_and (device_socket_addr d) (\<lambda>a. is_ipv4 (sa_ip a))"

definition see_device :: "device \<Rightarrow> controller \<Rightarrow> controller" where
  "see_device d c =
     c\<lparr>c_inventory := om_insert (d_id d)
         \<lparr>iv_name = d_name d, iv_castable = device_castable d, iv_available = True, iv_device = Some d\<rparr> (c_inventory c)\<rparr>"

fun apply_browse :: "browse_event \<Rightarrow> controller \<Rightarrow> controller" where
  "apply_browse (Browse_Added d) c = see_device d c"
| "apply_browse (Browse_Updated d) c = see_device d c"
| "apply_browse (Browse_Removed i) c =
     (case om_get (c_inventory c) i of
        Some e \<Rightarrow> c\<lparr>c_inventory := om_insert i (e\<lparr>iv_available := False\<rparr>) (c_inventory c)\<rparr>
      | None \<Rightarrow> c)"

fun apply_discovery_update :: "ctl_world \<Rightarrow> discovery_update \<Rightarrow> controller \<Rightarrow> controller" where
  "apply_discovery_update w (Disc_Started generation) c =
     maybe_publish w ((c_snapshot c)\<lparr>ds_discovery := \<lparr>dx_generation = generation, dx_phase = Browse_Running\<rparr>\<rparr>)
       (c\<lparr>c_seen_discovery_generation := max generation (c_seen_discovery_generation c)\<rparr>)"
| "apply_discovery_update w (Disc_Receiver generation event) c =
     (if generation < c_seen_discovery_generation c then c else refresh_receivers w (apply_browse event c))"
| "apply_discovery_update w (Disc_Failed generation _ _) c =
     (if generation < c_seen_discovery_generation c then c
      else let attempt = saturating_add (c_discovery_failures c) 1; c1 = c\<lparr>c_discovery_failures := attempt\<rparr>;
               next = (c_snapshot c1)\<lparr>ds_discovery := (ds_discovery (c_snapshot c1))\<lparr>dx_phase := Browse_Retrying attempt (w_wall w)\<rparr>\<rparr>;
               c2 = maybe_publish w next c1
           in if next \<noteq> c_snapshot c1
              then send (Out_Event (Notice_DiscoveryFailed ''receiver discovery is retrying in the background'')) c2 else c2)"

definition apply_endpoints :: "ctl_world \<Rightarrow> audio_endpoint list option \<Rightarrow> controller \<Rightarrow> controller" where
  "apply_endpoints w result c =
     (case result of
        Some endpoints \<Rightarrow>
          maybe_publish w (on_audio (\<lambda>a. a\<lparr>au_active_endpoints := Some (by_name (w_lower w) ae_name ae_id endpoints),
                                            au_refresh_failed := False\<rparr>) (c_snapshot c)) c
      | None \<Rightarrow> maybe_publish w (on_audio (\<lambda>a. a\<lparr>au_refresh_failed := True\<rparr>) (c_snapshot c)) c)"

text \<open>The decoder generation, the error and the deadline of a capture update are not used.\<close>

datatype capture_update =
    Cap_Started u64
  | Cap_Ready u64 audio_endpoint
  | Cap_FrameDrop u64 u64
  | Cap_Recovering u64
  | Cap_Stopped
  | Cap_Suspended u64

fun update_generation :: "capture_update \<Rightarrow> u64 option" where
  "update_generation (Cap_Started g) = Some g"
| "update_generation (Cap_Ready g _) = Some g"
| "update_generation (Cap_FrameDrop g _) = Some g"
| "update_generation (Cap_Recovering g) = Some g"
| "update_generation (Cap_Suspended g) = Some g"
| "update_generation Cap_Stopped = None"

definition silence :: "audio_source_state \<Rightarrow> device_snapshot \<Rightarrow> device_snapshot" where
  "silence state s =
     on_session (\<lambda>x. x\<lparr>sx_audio_flow := SilenceBridged\<rparr>)
       (on_audio (\<lambda>a. a\<lparr>au_state := state, au_captured_endpoint := None, au_windows_input_peak_permille := None\<rparr>) s)"

fun capture_effect :: "controller \<Rightarrow> capture_update \<Rightarrow> device_snapshot \<Rightarrow> device_snapshot" where
  "capture_effect c (Cap_Ready _ endpoint) s =
     on_session (\<lambda>x. x\<lparr>sx_audio_flow := (if c_active c = {} then SilenceBridged else Flow_Live)\<rparr>)
       (on_audio (\<lambda>a. a\<lparr>au_state := Capturing, au_captured_endpoint := Some endpoint, au_windows_input_peak_permille := None\<rparr>) s)"
| "capture_effect c (Cap_Suspended _) s = silence Source_Unavailable s"
| "capture_effect c (Cap_Recovering _) s = silence Source_Recovering s"
| "capture_effect c Cap_Stopped s = silence Source_Unavailable s"
| "capture_effect c (Cap_Started _) s = on_audio (\<lambda>a. a\<lparr>au_windows_input_peak_permille := None\<rparr>) s"
| "capture_effect c (Cap_FrameDrop _ dropped) s =
     on_audio (\<lambda>a. a\<lparr>au_pcm_frames_dropped_total := max (au_pcm_frames_dropped_total a) dropped\<rparr>) s"

definition apply_capture_update :: "ctl_world \<Rightarrow> capture_update \<Rightarrow> controller \<Rightarrow> controller" where
  "apply_capture_update w u c =
     (let c1 = c\<lparr>c_capture_generation := (case update_generation u of Some g \<Rightarrow> max (c_capture_generation c) g | None \<Rightarrow> 0)\<rparr>
      in maybe_publish w (capture_effect c1 u (c_snapshot c1)) c1)"

definition apply_capture_telemetry :: "ctl_world \<Rightarrow> u16 option \<Rightarrow> u64 \<Rightarrow> controller \<Rightarrow> controller" where
  "apply_capture_telemetry w peak dropped c =
     maybe_publish w (on_audio (\<lambda>a. a\<lparr>au_windows_input_peak_permille := peak,
        au_pcm_frames_dropped_total := max (au_pcm_frames_dropped_total a) dropped\<rparr>) (c_snapshot c)) c"

section \<open>Session updates\<close>

record member_failure =
  mf_receiver :: device_id
  mf_phase :: setup_phase
  mf_retryable :: bool

datatype session_update =
    Ses_Starting u64
  | Ses_Active u64 device_id "device_id set" "member_failure list"
  | Ses_MemberControlFailed u64 device_id user_facing_error
  | Ses_MemberFailed u64 device_id bool user_facing_error
  | Ses_Recovering u64 restart_reason u32
  | Ses_Stopped u64

fun setup_phase_debug :: "setup_phase \<Rightarrow> string" where
  "setup_phase_debug Setup_Connect = ''Connect''"
| "setup_phase_debug Setup_Pair = ''Pair''"
| "setup_phase_debug Setup_PrimaryTiming = ''PrimaryTiming''"
| "setup_phase_debug Setup_RtspSetup = ''RtspSetup''"
| "setup_phase_debug Setup_SetPeers = ''SetPeers''"
| "setup_phase_debug Setup_BuildSender = ''BuildSender''"
| "setup_phase_debug Setup_StartAudio = ''StartAudio''"

definition setup_failure_error :: "member_failure \<Rightarrow> user_facing_error" where
  "setup_failure_error f = ''receiver rejected '' @ setup_phase_debug (mf_phase f) @ '' during setup''"

definition role_of :: "device_id option \<Rightarrow> device_id \<Rightarrow> receiver_role" where
  "role_of primary i = (if primary = Some i then Role_Primary else Role_Secondary)"

definition derive_phase :: "device_id set \<Rightarrow> device_id set \<Rightarrow> run_intent \<Rightarrow> u64 \<Rightarrow> session_phase" where
  "derive_phase desired active intent generation =
     (if intent = Run_Stopped then Phase_Stopped
      else if desired \<noteq> {} \<and> active = desired then Phase_Streaming generation
      else if active \<noteq> {} then Phase_Degraded generation
      else Phase_Starting generation)"

text \<open>The policy is the default one, whose delays always exist.\<close>

definition note_receiver_failure :: "ctl_world \<Rightarrow> device_id \<Rightarrow> bool \<Rightarrow> user_facing_error \<Rightarrow> controller \<Rightarrow> controller" where
  "note_receiver_failure w receiver retryable error c =
     (let c1 = drive receiver (\<lambda>m. machine_fail m retryable error) c
      in if \<not> retryable then c1
         else case note_failure (fst (note_streaming (c_retry c1) retry_policy_default (w_now w) receiver))
                     retry_policy_default (w_now w) receiver of
                None \<Rightarrow> c1
              | Some (retry, deadline) \<Rightarrow>
                  drive receiver (\<lambda>m. wait_retry m (attempt_of retry receiver) (w_wall w + (deadline - w_now w)))
                    (c1\<lparr>c_retry := retry\<rparr>))"

definition settle_calibration_generation :: "u64 \<Rightarrow> controller \<Rightarrow> controller" where
  "settle_calibration_generation generation c =
     (if is_some_and (c_calibration_pending_generation c) (\<lambda>pending. pending \<le> generation)
      then c\<lparr>c_calibration_pending_generation := None\<rparr> else c)"

definition adopt_generation :: "u64 \<Rightarrow> controller \<Rightarrow> controller" where
  "adopt_generation generation c =
     (let g = max (c_session_generation c) generation in c\<lparr>c_session_generation := g, c_live_session_generation := Some g\<rparr>)"

text \<open>Rebuilding the rows into the next snapshot and publishing it.\<close>

definition publish_rows :: "ctl_world \<Rightarrow> (device_snapshot \<Rightarrow> device_snapshot) \<Rightarrow> controller \<Rightarrow> controller" where
  "publish_rows w f c = (let (c1, next) = rebuild_receiver_rows c (f (c_snapshot c)) in maybe_publish w next c1)"

definition activate_members ::
    "ctl_world \<Rightarrow> u64 \<Rightarrow> device_id \<Rightarrow> device_id set \<Rightarrow> member_failure list \<Rightarrow> controller \<Rightarrow> controller" where
  "activate_members w generation primary members failures c =
     (let c1 = settle_calibration_generation generation
                 (forward_effective_volumes w (c\<lparr>c_primary := Some primary, c_active := members\<rparr>));
          role = (\<lambda>r. if card members \<le> 1 then Role_Single else role_of (Some primary) r);
          c2 = foldl (\<lambda>c' r. drive r (\<lambda>m. enter_streaming m (role r)) c') c1 (sorted_ids members);
          c3 = foldl (\<lambda>c' r. c'\<lparr>c_retry := fst (note_streaming (c_retry c') retry_policy_default (w_now w) r)\<rparr>) c2 (sorted_ids members);
          c4 = foldl (\<lambda>c' f. note_receiver_failure w (mf_receiver f) (mf_retryable f) (setup_failure_error f) c') c3 failures;
          missing = filter (\<lambda>r. r \<notin> members \<and> r \<notin> mf_receiver ` set failures) (sorted_ids (c_pending_desired c4))
      in foldl (\<lambda>c' r. note_receiver_failure w r True ''the receiver did not join the group'' c') c4 missing)"

fun apply_session_update :: "ctl_world \<Rightarrow> session_update \<Rightarrow> controller \<Rightarrow> controller" where
  "apply_session_update w (Ses_Starting generation) c =
     (let c1 = adopt_generation generation c;
          c2 = foldl (\<lambda>c' r. drive r (\<lambda>m. begin_generation m generation (attempt_of (c_retry c') r)) c') c1 (sorted_ids (c_pending_desired c1))
      in publish_rows w (\<lambda>s. on_session (\<lambda>x. x\<lparr>sx_phase := Phase_Starting generation, sx_desired := ds_desired_members s, sx_failed := {}\<rparr>) s) c2)"
| "apply_session_update w (Ses_Active generation primary members failures) c =
     publish_rows w (\<lambda>s. on_session (\<lambda>x. x\<lparr>
         sx_phase := derive_phase (ds_desired_members s) members (ds_run_intent s) generation,
         sx_desired := ds_desired_members s, sx_active := members, sx_failed := mf_receiver ` set failures,
         sx_primary := Some primary,
         sx_audio_flow := (if au_state (ds_audio_source s) = Capturing then Flow_Live else SilenceBridged)\<rparr>) s)
       (activate_members w generation primary members failures c)"
| "apply_session_update w (Ses_MemberControlFailed _ _ _) c = c"
| "apply_session_update w (Ses_MemberFailed generation receiver primary error) c =
     (let c1 = note_receiver_failure w receiver True error
                 (c\<lparr>c_active := c_active c - {receiver},
                    c_primary := (if primary \<and> c_primary c = Some receiver then None else c_primary c)\<rparr>);
          c2 = publish_rows w (\<lambda>s. on_session (\<lambda>x. x\<lparr>
                   sx_phase := derive_phase (ds_desired_members s) (c_active c1) (ds_run_intent s) generation,
                   sx_active := c_active c1, sx_failed := insert receiver (sx_failed x),
                   sx_primary := (if primary then None else sx_primary x)\<rparr>) s) c1
      in if primary then request_reconcile w Cause_PrimaryFailure (note_group_restart w c2) else c2)"
| "apply_session_update w (Ses_Recovering generation reason _) c =
     (let c1 = adopt_generation generation c
      in maybe_publish w (on_session (\<lambda>x. x\<lparr>sx_phase := Phase_Restarting generation reason\<rparr>) (c_snapshot c1)) c1)"
| "apply_session_update w (Ses_Stopped _) c =
     publish_rows w (on_session (\<lambda>x. x\<lparr>sx_phase := Phase_Stopped, sx_active := {}, sx_primary := None, sx_audio_flow := SilenceBridged\<rparr>))
       (c\<lparr>c_live_session_generation := None, c_active := {}, c_primary := None,
          c_machines := map (\<lambda>(i, m). (i, leave_session m)) (c_machines c)\<rparr>)"

section \<open>The main loop\<close>

datatype ctl_event =
    Ev_Commands "command_envelope list"
  | Ev_Discovery discovery_update
  | Ev_Capture capture_update
  | Ev_CaptureTelemetry "u16 option" u64
  | Ev_Endpoints "audio_endpoint list option"
  | Ev_Session session_update
  | Ev_RetryDue
  | Ev_System system_event
  | Ev_ResumeSettled
  | Ev_AutoConnectDue

fun ctl_step :: "ctl_world \<Rightarrow> ctl_event \<Rightarrow> controller \<Rightarrow> controller \<times> bool" where
  "ctl_step w (Ev_Commands envelopes) c = process_batch w (foldl batch_insert batch_new envelopes) c"
| "ctl_step w (Ev_Discovery u) c = (apply_discovery_update w u c, False)"
| "ctl_step w (Ev_Capture u) c =
     (apply_capture_update w u (case u of Cap_Ready _ _ \<Rightarrow> send Out_ScanEndpoints c | Cap_Recovering _ \<Rightarrow> send Out_ScanEndpoints c | _ \<Rightarrow> c), False)"
| "ctl_step w (Ev_CaptureTelemetry peak dropped) c = (apply_capture_telemetry w peak dropped c, False)"
| "ctl_step w (Ev_Endpoints result) c = (apply_endpoints w result c, False)"
| "ctl_step w (Ev_Session u) c = (apply_session_update w u c, False)"
| "ctl_step w Ev_RetryDue c = (ctl_fire_due_retries w c, False)"
| "ctl_step w (Ev_System event) c = (handle_system_event w event c, False)"
| "ctl_step w Ev_ResumeSettled c = (finish_resume w (send Out_ScanEndpoints c), False)"
| "ctl_step w Ev_AutoConnectDue c = (apply_startup_auto_connect w c, False)"

definition loaded_snapshot :: "persisted_state \<Rightarrow> device_snapshot" where
  "loaded_snapshot p =
     device_snapshot_default\<lparr>ds_master_volume := pt_master_volume p, ds_receiver_levels := pt_receiver_levels p,
       ds_muted := pt_muted p, ds_latency_preset := pt_latency_preset p, ds_auto_connect := pt_auto_connect p,
       ds_audio_source := audio_source_default\<lparr>au_preference := pt_audio_endpoint p\<rparr>,
       ds_saved_groups := pt_saved_groups p, ds_desired_members := pt_last_desired_members p\<rparr>"

definition from_persisted :: "ctl_world \<Rightarrow> persisted_state \<Rightarrow> calibration_profile \<Rightarrow> controller" where
  "from_persisted w p profile =
     (let s = loaded_snapshot p;
          c = \<lparr>c_listening_test = None, c_last_listening_test_generation = None, c_published = s, c_snapshot = s, c_persisted = p,
               c_calibration = profile, c_calibration_pending_generation = None, c_inventory = [], c_saved_names = saved_names_of p,
               c_session_generation = 0, c_live_session_generation = None, c_capture_generation = 0, c_primary = None, c_active = {},
               c_discovery_failures = 0, c_seen_discovery_generation = 0, c_machines = [], c_retry = [], c_rejoin = limiter_new,
               c_pending_desired = {}, c_suspended = False, c_resume_at = None,
               c_startup_auto_connect_until = (if pt_auto_connect p then Some (w_now w + AUTO_CONNECT_WINDOW) else None), c_out = []\<rparr>;
          (c1, restored) = rebuild_receiver_rows c s;
          s1 = sort_for_publication (w_lower w) restored
      in c1\<lparr>c_snapshot := s1, c_published := s1\<rparr>)"

text \<open>Runs from a loaded state: any events, each handled in a world of its own. The loop ends at a shutdown; the relation does not need to.\<close>

inductive ctl_reach :: "(string \<Rightarrow> string) \<Rightarrow> persisted_state \<Rightarrow> calibration_profile \<Rightarrow> controller \<Rightarrow> bool" for lower p profile where
  start: "w_lower w = lower \<Longrightarrow> ctl_reach lower p profile (from_persisted w p profile)"
| step: "ctl_reach lower p profile c \<Longrightarrow> w_lower w = lower \<Longrightarrow> ctl_step w e c = (c', stop) \<Longrightarrow> ctl_reach lower p profile c'"

end
