(* ===== verification/Controller_Frame.thy ===== *)
theory Controller_Frame
  imports "HOL-Library.Multiset" Controller
begin

text \<open>
  What most handlers of the controller have in common. A handler that answers no command changes
  bookkeeping, shows a snapshot whose durable part is the old one, forwards volumes, and asks for
  sessions. The interface \<open>ctl_frame\<close> states when a property survives each of these moves, and
  every such handler keeps the property; \<open>ctl_commands\<close> adds the moves of the command handlers.
\<close>

section \<open>Moves\<close>

definition keyed :: "(device_id, inventory_entry) omap \<Rightarrow> bool" where
  "keyed found \<longleftrightarrow> (\<forall>(i, e) \<in> set found. \<forall>d. iv_device e = Some d \<longrightarrow> d_id d = i)"

text \<open>Bookkeeping: everything but the machines, the retry state and other private tables is as before, and the automatic start is not armed.\<close>

definition same_core :: "controller \<Rightarrow> controller \<Rightarrow> bool" where
  "same_core c c' \<longleftrightarrow>
     c_out c' = c_out c \<and> c_snapshot c' = c_snapshot c \<and> c_published c' = c_published c \<and> c_persisted c' = c_persisted c
     \<and> c_suspended c' = c_suspended c \<and> c_session_generation c' = c_session_generation c
     \<and> c_listening_test c' = c_listening_test c \<and> c_last_listening_test_generation c' = c_last_listening_test_generation c
     \<and> (keyed (c_inventory c) \<longrightarrow> keyed (c_inventory c'))
     \<and> (c_startup_auto_connect_until c = None \<longrightarrow> c_startup_auto_connect_until c' = None)"

text \<open>The published durable fields are those of the saved state.\<close>

definition mirrors :: "device_snapshot \<Rightarrow> persisted_state \<Rightarrow> bool" where
  "mirrors s p \<longleftrightarrow>
     ds_master_volume s = pt_master_volume p \<and> ds_muted s = pt_muted p \<and> ds_receiver_levels s = pt_receiver_levels p
     \<and> mset (ds_saved_groups s) = mset (pt_saved_groups p) \<and> ds_desired_members s = pt_last_desired_members p
     \<and> au_preference (ds_audio_source s) = pt_audio_endpoint p \<and> ds_latency_preset s = pt_latency_preset p
     \<and> ds_auto_connect s = pt_auto_connect p"

definition keeps_durable :: "device_snapshot \<Rightarrow> device_snapshot \<Rightarrow> bool" where
  "keeps_durable s t \<longleftrightarrow>
     ds_revision t = ds_revision s \<and> ds_run_intent t = ds_run_intent s \<and> ds_command_outcomes t = ds_command_outcomes s
     \<and> ds_master_volume t = ds_master_volume s \<and> ds_muted t = ds_muted s \<and> ds_receiver_levels t = ds_receiver_levels s
     \<and> ds_saved_groups t = ds_saved_groups s \<and> ds_desired_members t = ds_desired_members s
     \<and> au_preference (ds_audio_source t) = au_preference (ds_audio_source s)
     \<and> ds_latency_preset t = ds_latency_preset s \<and> ds_auto_connect t = ds_auto_connect s"

fun quiet_output :: "controller \<Rightarrow> ctl_output \<Rightarrow> bool" where
  "quiet_output c (Out_Session (Req_SetVolume r v)) \<longleftrightarrow> v = effective_level c r"
| "quiet_output c (Out_Session (Req_Reconcile _ _ _ _ _ _)) \<longleftrightarrow> False"
| "quiet_output c (Out_Session r) \<longleftrightarrow> r = Req_Suspend"
| "quiet_output c (Out_RememberVolume r v) \<longleftrightarrow> v = effective_level c r"
| "quiet_output c (Out_Capture m) \<longleftrightarrow> m = Cap_RequestEndpointChange"
| "quiet_output c (Out_Event (Notice_PersistenceWrite _)) \<longleftrightarrow> True"
| "quiet_output c (Out_Event (Notice_DiscoveryFailed _)) \<longleftrightarrow> True"
| "quiet_output c (Out_Discovery _) \<longleftrightarrow> True"
| "quiet_output c Out_ScanEndpoints \<longleftrightarrow> True"
| "quiet_output c (Out_CapturePreference _) \<longleftrightarrow> True"
| "quiet_output c Out_ClickPattern \<longleftrightarrow> True"
| "quiet_output c _ \<longleftrightarrow> False"

text \<open>The devices a request may name.\<close>

definition may_request :: "controller \<Rightarrow> device list \<Rightarrow> bool \<Rightarrow> bool" where
  "may_request c devices teardown \<longleftrightarrow>
     \<not> c_suspended c \<and> (teardown \<longleftrightarrow> ds_run_intent (c_snapshot c) = Run_Stopped) \<and> (teardown \<longrightarrow> devices = [])
     \<and> (\<forall>d \<in> set devices. \<exists>(i, e) \<in> set (c_inventory c). iv_device e = Some d \<and> i \<in> ds_desired_members (c_snapshot c))"

section \<open>Facts about the moves\<close>

lemma set_om_insert: "set (om_insert k v m) \<subseteq> insert (k, v) (set m)"
  by (induction k v m rule: om_insert.induct) auto

lemma om_get_in_set: "om_get m k = Some v \<Longrightarrow> (k, v) \<in> set m"
  by (simp add: om_get_def map_of_SomeD)

lemma keyed_Nil [simp]: "keyed []"
  by (simp add: keyed_def)

lemma keyed_filter: "keyed found \<Longrightarrow> keyed (filter f found)"
  by (auto simp: keyed_def)

lemma keyed_insert: "keyed found \<Longrightarrow> (\<And>d. iv_device e = Some d \<Longrightarrow> d_id d = i) \<Longrightarrow> keyed (om_insert i e found)"
  using set_om_insert [of i e found] by (fastforce simp: keyed_def)

lemma same_core_refl [simp]: "same_core c c"
  by (simp add: same_core_def)

lemma same_core_trans: "same_core a b \<Longrightarrow> same_core b c \<Longrightarrow> same_core a c"
  by (simp add: same_core_def)

lemma same_core_foldl: "(\<And>c x. same_core c (f c x)) \<Longrightarrow> same_core c (foldl f c xs)"
  by (induction xs arbitrary: c) (auto intro: same_core_trans)

lemma same_core_fields [simp]:
  "same_core c (c\<lparr>c_machines := ms\<rparr>)" "same_core c (c\<lparr>c_retry := rt\<rparr>)" "same_core c (c\<lparr>c_rejoin := rj\<rparr>)"
  "same_core c (c\<lparr>c_saved_names := ns\<rparr>)" "same_core c (c\<lparr>c_resume_at := ra\<rparr>)"
  "same_core c (c\<lparr>c_startup_auto_connect_until := None\<rparr>)" "same_core c (c\<lparr>c_calibration := prof\<rparr>)"
  "same_core c (c\<lparr>c_calibration_pending_generation := pg\<rparr>)" "same_core c (c\<lparr>c_live_session_generation := lv\<rparr>)"
  "same_core c (c\<lparr>c_capture_generation := cg\<rparr>)" "same_core c (c\<lparr>c_primary := pr\<rparr>)" "same_core c (c\<lparr>c_active := ac\<rparr>)"
  "same_core c (c\<lparr>c_discovery_failures := df\<rparr>)" "same_core c (c\<lparr>c_seen_discovery_generation := sd\<rparr>)"
  "same_core c (c\<lparr>c_pending_desired := pd\<rparr>)"
  by (simp_all add: same_core_def)

lemma same_core_drive [simp]: "same_core c (drive r f c') \<longleftrightarrow> same_core c c'" "same_core c (c'\<lparr>c_retry := rt\<rparr>) \<longleftrightarrow> same_core c c'"
  by (simp_all add: drive_def Let_def same_core_def)

lemma same_core_tidy [simp]: "same_core c (tidy_receivers c)"
  by (simp add: tidy_receivers_def Let_def same_core_def keyed_filter)

lemma same_core_sync [simp]: "same_core c (sync_service_availability w c)"
proof -
  have "same_core c (sync_one w c x)" for c x
    by (simp add: sync_one_def Let_def split: prod.split)
  then show ?thesis unfolding sync_service_availability_def by (rule same_core_foldl)
qed

lemma same_core_release_one [simp]: "same_core c (release_one c r)"
  by (simp add: release_one_def)

lemma same_core_release [simp]: "same_core c (release_backoff c)" "same_core c (foldl release_one c rs)"
  by (simp_all add: release_backoff_def same_core_foldl)

lemma same_core_note_group [simp]: "same_core c (note_group_restart w c)"
  by (simp add: note_group_restart_def)

lemma same_core_failure [simp]: "same_core c (note_receiver_failure w r retryable error c)"
  by (simp add: note_receiver_failure_def Let_def split: option.split)

lemma same_core_settle [simp]: "same_core c (settle_calibration_generation g c)"
  by (simp add: settle_calibration_generation_def)

lemma same_core_browse [simp]: "same_core c (apply_browse event c)"
proof (cases event)
  case (Browse_Removed i)
  have "keyed (om_insert i (e\<lparr>iv_available := False\<rparr>) (c_inventory c))"
    if "om_get (c_inventory c) i = Some e" "keyed (c_inventory c)" for e
    using that om_get_in_set [OF that(1)] by (intro keyed_insert) (auto simp: keyed_def)
  with Browse_Removed show ?thesis by (auto simp: same_core_def split: option.split)
qed (auto simp: see_device_def same_core_def intro: keyed_insert)

lemma keeps_durable_refl [simp]: "keeps_durable s s"
  by (simp add: keeps_durable_def)

lemma keeps_durable_trans: "keeps_durable r s \<Longrightarrow> keeps_durable s t \<Longrightarrow> keeps_durable r t"
  by (simp add: keeps_durable_def)

lemma keeps_durable_session [simp]: "keeps_durable s (on_session f s)"
  by (simp add: keeps_durable_def on_session_def)

lemma keeps_durable_rows [simp]: "keeps_durable s (write_rows c t) \<longleftrightarrow> keeps_durable s t"
  by (simp add: keeps_durable_def write_rows_def on_session_def)

lemma keeps_durable_audio:
  "(\<And>a. au_preference (f a) = au_preference a) \<Longrightarrow> keeps_durable s (on_audio f s)"
  by (simp add: keeps_durable_def on_audio_def)

lemma keeps_durable_mirrors: "keeps_durable s t \<Longrightarrow> mirrors t p \<longleftrightarrow> mirrors s p"
  by (simp add: keeps_durable_def mirrors_def)

lemma capture_keeps_durable [simp]: "keeps_durable s (capture_effect c u s)"
  by (cases u) (auto simp: silence_def intro!: keeps_durable_audio
      intro: keeps_durable_trans [OF _ keeps_durable_session])

lemma sends_eq: "foldl (\<lambda>c' r. send (f r) c') c rs = c\<lparr>c_out := c_out c @ map f rs\<rparr>"
  by (induction rs arbitrary: c) (simp_all add: send_def)

lemma foldl_idle: "foldl (\<lambda>c _. c) c xs = c"
  by (induction xs) simp_all

lemma may_request_desired:
  assumes "\<not> c_suspended c"
  shows "may_request c (if ds_run_intent (c_snapshot c) = Run_Stopped then [] else desired_devices c)
           (ds_run_intent (c_snapshot c) = Run_Stopped)"
proof -
  have desired: "set (sorted_ids X) \<subseteq> X" for X by (cases "finite X") (simp_all add: sorted_ids_def)
  have "\<exists>(i, e) \<in> set (c_inventory c). iv_device e = Some d \<and> i \<in> ds_desired_members (c_snapshot c)"
    if "d \<in> set (desired_devices c)" for d
    using that subsetD [OF desired] om_get_in_set [of "c_inventory c"]
    by (fastforce simp: desired_devices_def map_filter_def bind_eq_Some_conv)
  then show ?thesis using assms by (auto simp: may_request_def)
qed

lemma quiet_output_send [simp]: "quiet_output (send x c) = quiet_output c"
proof (intro ext)
  have [simp]: "effective_level (send x c) = effective_level c" by (intro ext) (simp add: effective_level_def send_def)
  show "quiet_output (send x c) out = quiet_output c out" for out
    by (cases "(c, out)" rule: quiet_output.cases) simp_all
qed

section \<open>The interface of the supervisor handlers\<close>

locale ctl_frame =
  fixes lower :: "string \<Rightarrow> string" and P :: "controller \<Rightarrow> bool"
  assumes core: "P c \<Longrightarrow> same_core c c' \<Longrightarrow> P c'"
    and shown: "P c \<Longrightarrow> w_lower w = lower \<Longrightarrow> keeps_durable (c_snapshot c) s \<Longrightarrow> P (publish w (c\<lparr>c_snapshot := s\<rparr>))"
    and sent: "P c \<Longrightarrow> quiet_output c x \<Longrightarrow> P (send x c)"
    and requested: "P c \<Longrightarrow> may_request c devices teardown \<Longrightarrow> generation = saturating_add (c_session_generation c) 1 \<Longrightarrow>
      P (c\<lparr>c_session_generation := generation,
           c_out := c_out c @ map (\<lambda>r. Out_RememberVolume r (effective_level c r)) rs
             @ [Out_Session (Req_Reconcile generation devices preferred latency profile teardown)]\<rparr>)"
    and adopted: "P c \<Longrightarrow> c_session_generation c \<le> g \<Longrightarrow> P (c\<lparr>c_session_generation := g\<rparr>)"
    and slept: "P c \<Longrightarrow> P (send (Out_Capture Cap_Suspend) (c\<lparr>c_suspended := True\<rparr>))"
    and woken: "P c \<Longrightarrow> P (send (Out_Capture Cap_Resume) (send (Out_Discovery RestartAfterNetworkChange) (c\<lparr>c_suspended := False\<rparr>)))"
begin

lemma maybe_publish_keeps: "P c \<Longrightarrow> w_lower w = lower \<Longrightarrow> keeps_durable (c_snapshot c) s \<Longrightarrow> P (maybe_publish w s c)"
  by (simp add: maybe_publish_def shown)

lemma publish_rows_keeps:
  "P c \<Longrightarrow> w_lower w = lower \<Longrightarrow> (\<And>s. keeps_durable s (f s)) \<Longrightarrow> P (publish_rows w f c)"
  using same_core_tidy [of c]
  by (auto simp: publish_rows_def rebuild_receiver_rows_def Let_def same_core_def intro!: maybe_publish_keeps
      intro: core [OF _ same_core_tidy])

lemma republish_rows_keeps: "P c \<Longrightarrow> w_lower w = lower \<Longrightarrow> P (republish_rows w c)"
  using publish_rows_keeps [of c w "\<lambda>s. s"] by (simp add: publish_rows_def republish_rows_def)

lemma refresh_receivers_keeps: "P c \<Longrightarrow> w_lower w = lower \<Longrightarrow> P (refresh_receivers w c)"
  unfolding refresh_receivers_def by (intro republish_rows_keeps core [OF _ same_core_sync] core [OF _ same_core_tidy])

lemma send_session_keeps: "P c \<Longrightarrow> quiet_output c (Out_Session req) \<Longrightarrow> P (send_session w req c)"
  by (simp add: send_session_def sent)

lemma sends_keep: "P c \<Longrightarrow> (\<And>r. quiet_output c (f r)) \<Longrightarrow> P (foldl (\<lambda>c' r. send (f r) c') c rs)"
  by (induction rs arbitrary: c) (simp_all add: sent)

lemma forward_keeps: "P c \<Longrightarrow> P (forward_effective_volumes w c)"
  by (cases "w_has_session w") (simp_all add: forward_effective_volumes_def send_session_def sends_keep foldl_idle)

lemma remember_keeps: "P c \<Longrightarrow> P (remember_effective_volumes w c)"
  by (simp add: remember_effective_volumes_def sends_keep)

lemma request_reconcile_keeps:
  assumes "P c"
  shows "P (request_reconcile w cause c)"
proof -
  have "P (send (Out_Session (Req_Reconcile g devices preferred latency profile teardown))
      (remember_effective_volumes w (c\<lparr>c_session_generation := g, c_live_session_generation := lv,
         c_calibration_pending_generation := pg, c_pending_desired := pd\<rparr>)))"
    if "may_request c devices teardown" "g = saturating_add (c_session_generation c) 1" "w_has_session w"
    for g devices preferred latency profile teardown lv pg pd
    by (rule core [OF requested [OF assms that(1,2), of "sorted_ids (ds_desired_members (c_snapshot c))" preferred latency profile]])
      (simp add: same_core_def remember_effective_volumes_def sends_eq that(3), simp add: send_def effective_level_def)
  note asked = this [OF may_request_desired refl]
  show ?thesis
  proof (cases "\<not> w_has_session w \<or> c_suspended c
      \<or> ds_run_intent (c_snapshot c) = Run_Stopped \<and> c_active c = {} \<and> c_pending_desired c = {}")
    case True
    then show ?thesis using assms by (auto simp: request_reconcile_def)
  next
    case False
    then show ?thesis unfolding request_reconcile_def Let_def by (simp only: if_False de_Morgan_disj simp_thms) (rule asked; simp)
  qed
qed

lemma begin_suspend_keeps: "P c \<Longrightarrow> w_lower w = lower \<Longrightarrow> P (begin_suspend w c)"
  unfolding begin_suspend_def Let_def
  by (rule maybe_publish_keeps, rule send_session_keeps, rule core [OF slept]) (auto simp: same_core_def send_def)

lemma finish_resume_keeps:
  assumes "P c" "w_lower w = lower"
  shows "P (finish_resume w c)"
proof -
  let ?d = "release_backoff (send (Out_Capture Cap_Resume) (send (Out_Discovery RestartAfterNetworkChange)
      (c\<lparr>c_resume_at := None, c_suspended := False\<rparr>)))"
  have "P ?d"
    by (rule core [OF _ same_core_release(1)], rule core [OF woken [OF assms(1)]]) (simp add: same_core_def send_def)
  then have "P (maybe_publish w s ?d)" if "keeps_durable (c_snapshot ?d) s" for s
    using that assms(2) by (simp add: maybe_publish_keeps)
  then show ?thesis
    by (auto simp: finish_resume_def Let_def intro!: request_reconcile_keeps core [OF _ same_core_note_group])
qed

lemma apply_network_change_keeps: "P c \<Longrightarrow> P (apply_network_change w moved c)"
  by (auto simp: apply_network_change_def Let_def sent
      intro!: request_reconcile_keeps core [OF _ same_core_note_group] core [OF _ same_core_release(1)])

lemma handle_system_event_keeps: "P c \<Longrightarrow> w_lower w = lower \<Longrightarrow> P (handle_system_event w event c)"
  by (cases event) (auto simp: begin_suspend_keeps apply_network_change_keeps begin_resume_def intro: core)

lemma fire_due_retries_keeps: "P c \<Longrightarrow> w_lower w = lower \<Longrightarrow> P (ctl_fire_due_retries w c)"
  by (auto simp: ctl_fire_due_retries_def Let_def
      intro!: request_reconcile_keeps republish_rows_keeps core [OF _ same_core_note_group] core [OF _ same_core_release(2)])

lemma apply_discovery_update_keeps: "P c \<Longrightarrow> w_lower w = lower \<Longrightarrow> P (apply_discovery_update w u c)"
proof (cases u)
  case (Disc_Receiver g event)
  then show "P c \<Longrightarrow> w_lower w = lower \<Longrightarrow> ?thesis" by (auto intro!: refresh_receivers_keeps core [OF _ same_core_browse])
next
  case (Disc_Started g)
  then show "P c \<Longrightarrow> w_lower w = lower \<Longrightarrow> ?thesis"
    by (auto intro!: maybe_publish_keeps core [of c "c\<lparr>c_seen_discovery_generation := x\<rparr>" for x] simp: keeps_durable_def)
next
  case (Disc_Failed g error at_time)
  have "P (maybe_publish w s (c\<lparr>c_discovery_failures := n\<rparr>))"
    if "P c" "w_lower w = lower" "keeps_durable (c_snapshot c) s" for n s
    by (rule maybe_publish_keeps) (use that in \<open>auto intro: core\<close>)
  with Disc_Failed show "P c \<Longrightarrow> w_lower w = lower \<Longrightarrow> ?thesis" by (simp add: Let_def sent keeps_durable_def)
qed

lemma apply_capture_update_keeps: "P c \<Longrightarrow> w_lower w = lower \<Longrightarrow> P (apply_capture_update w u c)"
  unfolding apply_capture_update_def Let_def
  by (intro maybe_publish_keeps) (auto intro: core)

lemma apply_capture_telemetry_keeps: "P c \<Longrightarrow> w_lower w = lower \<Longrightarrow> P (apply_capture_telemetry w peak dropped c)"
  unfolding apply_capture_telemetry_def by (intro maybe_publish_keeps keeps_durable_audio) auto

lemma apply_endpoints_keeps: "P c \<Longrightarrow> w_lower w = lower \<Longrightarrow> P (apply_endpoints w result c)"
  unfolding apply_endpoints_def by (auto split: option.split intro!: maybe_publish_keeps keeps_durable_audio)

lemma adopt_generation_keeps: "P c \<Longrightarrow> P (adopt_generation g c)"
  unfolding adopt_generation_def Let_def by (rule core [OF adopted, of _ "max (c_session_generation c) g"]) (auto simp: same_core_def)

lemma activate_members_keeps:
  assumes "P c"
  shows "P (activate_members w g primary members failures c)"
proof -
  have "P (forward_effective_volumes w (c\<lparr>c_primary := Some primary, c_active := members\<rparr>))"
    by (rule forward_keeps, rule core [OF assms]) (simp add: same_core_def)
  then show ?thesis
    unfolding activate_members_def Let_def
    by (intro core [OF _ same_core_foldl] core [OF _ same_core_settle]) auto
qed

lemma apply_session_update_keeps:
  assumes "P c" "w_lower w = lower"
  shows "P (apply_session_update w u c)"
proof (cases u)
  case (Ses_Starting g)
  then show ?thesis using assms
    by (auto simp: Let_def intro!: publish_rows_keeps core [OF _ same_core_foldl] adopt_generation_keeps)
next
  case (Ses_Active g primary members failures)
  then show ?thesis using assms by (auto intro!: publish_rows_keeps activate_members_keeps)
next
  case (Ses_MemberFailed g receiver primary error)
  have "P (c\<lparr>c_active := ac, c_primary := pr\<rparr>)" "P (c\<lparr>c_active := ac\<rparr>)" for ac pr
    by (rule core [OF assms(1)], simp add: same_core_def)+
  with Ses_MemberFailed show ?thesis using assms
    by (auto simp: Let_def intro!: request_reconcile_keeps publish_rows_keeps core [OF _ same_core_note_group] core [OF _ same_core_failure])
next
  case (Ses_Recovering g reason n)
  then show ?thesis using assms by (auto simp: Let_def intro!: maybe_publish_keeps adopt_generation_keeps)
next
  case (Ses_Stopped g)
  have "P (c\<lparr>c_live_session_generation := None, c_active := {}, c_primary := None, c_machines := ms\<rparr>)" for ms
    by (rule core [OF assms(1)]) (simp add: same_core_def)
  with Ses_Stopped show ?thesis using assms by (auto intro!: publish_rows_keeps)
qed (use assms in simp)

text \<open>Everything but a batch of commands and the automatic start.\<close>

lemma supervisor_keeps:
  assumes "P c" "w_lower w = lower" "\<nexists>es. e = Ev_Commands es" "e \<noteq> Ev_AutoConnectDue"
  shows "P (fst (ctl_step w e c))"
proof (cases e)
  case (Ev_Capture u)
  have "P (case u of Cap_Ready _ _ \<Rightarrow> send Out_ScanEndpoints c | Cap_Recovering _ \<Rightarrow> send Out_ScanEndpoints c | _ \<Rightarrow> c)"
    using assms(1) by (cases u) (simp_all add: sent)
  then show ?thesis using Ev_Capture assms(2) by (simp add: apply_capture_update_keeps)
qed (use assms in \<open>simp_all add: apply_discovery_update_keeps apply_capture_telemetry_keeps apply_endpoints_keeps
    apply_session_update_keeps fire_due_retries_keeps handle_system_event_keeps finish_resume_keeps sent\<close>)

end

section \<open>The interface of the command handlers\<close>

text \<open>What a durable change announces is what it stores.\<close>

definition announces :: "(persisted_state \<Rightarrow> persisted_state) \<Rightarrow> (device_snapshot \<Rightarrow> device_snapshot) \<Rightarrow> bool" where
  "announces mutate announce \<longleftrightarrow>
     (\<forall>p s. mirrors s p \<longrightarrow> mirrors (announce (s\<lparr>ds_receiver_levels := pt_receiver_levels (mutate p)\<rparr>)) (mutate p))
     \<and> (\<forall>s. ds_revision (announce s) = ds_revision s \<and> ds_run_intent (announce s) = ds_run_intent s)"

lemma announces_values:
  "announces (\<lambda>q. q\<lparr>pt_last_desired_members := members\<rparr>) (bump_desired members)"
  "announces (\<lambda>q. q\<lparr>pt_master_volume := v\<rparr>) (\<lambda>s. s\<lparr>ds_master_volume := v\<rparr>)"
  "announces (\<lambda>q. q\<lparr>pt_muted := m\<rparr>) (\<lambda>s. s\<lparr>ds_muted := m\<rparr>)"
  "announces (\<lambda>q. q\<lparr>pt_audio_endpoint := e\<rparr>) (on_audio (\<lambda>a. a\<lparr>au_preference := e\<rparr>))"
  "announces (\<lambda>q. q\<lparr>pt_latency_preset := preset\<rparr>) (\<lambda>s. s\<lparr>ds_latency_preset := preset\<rparr>)"
  "announces (\<lambda>q. q\<lparr>pt_auto_connect := a\<rparr>) (\<lambda>s. s\<lparr>ds_auto_connect := a\<rparr>)"
  "announces (\<lambda>q. q\<lparr>pt_receiver_levels := f (pt_receiver_levels q)\<rparr>) (\<lambda>s. s)"
  by (simp_all add: announces_def mirrors_def bump_desired_def on_audio_def)

lemma announces_groups:
  "announces (\<lambda>p. p\<lparr>pt_saved_groups := by_name lower sg_name sg_id (without_group i (pt_saved_groups p) @ [g])\<rparr>)
     (\<lambda>s. s\<lparr>ds_saved_groups := without_group i (ds_saved_groups s) @ [g]\<rparr>)"
  "announces (\<lambda>p. p\<lparr>pt_saved_groups := without_group i (pt_saved_groups p)\<rparr>)
     (\<lambda>s. s\<lparr>ds_saved_groups := without_group i (ds_saved_groups s)\<rparr>)"
  "announces (\<lambda>p. p\<lparr>pt_last_desired_members := members,
       pt_receiver_levels := foldl (\<lambda>ls m. om_insert (gm_receiver m) (gm_level m) ls) (pt_receiver_levels p) ms\<rparr>)
     (\<lambda>s. s\<lparr>ds_desired_members := members,
       ds_desired_revision := (if differs then saturating_add (ds_desired_revision s) 1 else ds_desired_revision s)\<rparr>)"
  by (simp_all add: announces_def mirrors_def by_name_def without_group_def)

lemma complete_commute:
  "complete ident (on_snapshot (\<lambda>s. s\<lparr>ds_run_intent := i\<rparr>) c) = on_snapshot (\<lambda>s. s\<lparr>ds_run_intent := i\<rparr>) (complete ident c)"
  by (simp add: complete_def record_result_def on_snapshot_def send_def)

definition batch_start :: "controller \<Rightarrow> batch_progress" where
  "batch_start c = \<lparr>bp_ctl = c, bp_reconcile = None, bp_volumes_changed = False, bp_shutdown = False, bp_group_starts = []\<rparr>"

locale ctl_commands = ctl_frame lower P for lower P +
  fixes allowed :: "run_intent \<Rightarrow> bool"
  assumes completed: "P c \<Longrightarrow> P (complete ident c)"
    and failed: "P c \<Longrightarrow> P (fail_with_kind ident message kind c)"
    and committed: "P c \<Longrightarrow> w_lower w = lower \<Longrightarrow> announces mutate announce \<Longrightarrow>
      P (fst (commit_durable w ident mutate announce refresh_rows sync_names c))"
    and intended: "P c \<Longrightarrow> w_lower w = lower \<Longrightarrow> allowed i \<Longrightarrow> P (publish w (on_snapshot (\<lambda>s. s\<lparr>ds_run_intent := i\<rparr>) c))"
    and profiled: "P c \<Longrightarrow> P (send (Out_SaveCalibration requested ok) c)"
    and unsaved: "P c \<Longrightarrow> w_lower w = lower \<Longrightarrow> P (publish w (note_persistence_failure ident c))"
    and toned: "P c \<Longrightarrow> P (run_listening_test w ident g c)"
    and hushed: "P c \<Longrightarrow> c_listening_test c \<noteq> None \<Longrightarrow> P (send Out_CancelTone (c\<lparr>c_listening_test := None\<rparr>))"
    and confirmed: "P c \<Longrightarrow> cf_revision k = ds_revision (c_snapshot c) + 1 \<Longrightarrow> P (send (Out_Confirm r k) c)"
begin

lemma publish_keeps: "P c \<Longrightarrow> w_lower w = lower \<Longrightarrow> P (publish w c)"
  using shown [of c w "c_snapshot c"] by simp

lemma fail_keeps: "P c \<Longrightarrow> P (fail_command ident message c)"
  by (simp add: fail_command_def failed)

lemma committed_fst:
  "commit_durable w ident mutate announce rr sn c = (c', outcome) \<Longrightarrow> P c \<Longrightarrow> w_lower w = lower \<Longrightarrow> announces mutate announce \<Longrightarrow> P c'"
  using committed [of c w mutate announce ident rr sn] by simp

lemmas commit_laws = committed_fst committed announces_values announces_groups completed fail_keeps

lemma dropped: "P c \<Longrightarrow> P (c\<lparr>c_startup_auto_connect_until := None\<rparr>)"
  by (erule core) simp

lemma recalibrated: "P c \<Longrightarrow> P (c\<lparr>c_calibration := profile\<rparr>)"
  by (erule core) simp

lemma apply_members_keeps: "P (bp_ctl p) \<Longrightarrow> w_lower w = lower \<Longrightarrow> P (bp_ctl (apply_members w ident members p))"
  by (auto simp: apply_members_def on_ctl_def completed split: prod.split intro: commit_laws)

lemma slot_durable_keeps:
  "P (bp_ctl p) \<Longrightarrow> w_lower w = lower \<Longrightarrow> announces mutate announce \<Longrightarrow> P (bp_ctl (slot_durable w ident changed mutate announce v p))"
  by (auto simp: slot_durable_def on_ctl_def completed split: prod.split intro: committed_fst)

lemma confirm_keeps: "P c \<Longrightarrow> P (confirm ident r c)"
  by (auto simp: confirm_def confirmation_def confirmed split: option.split)

lemma slot_keeps:
  assumes "P (bp_ctl p)" "w_lower w = lower"
  shows "P (bp_ctl (slot_master_volume w rcpt sv p))" "P (bp_ctl (slot_muted w sm p))" "P (bp_ctl (slot_level w p sl))"
    "P (bp_ctl (slot_auto_connect w sa p))" "P (bp_ctl (slot_endpoint w se p))" "P (bp_ctl (slot_latency w sp p))"
    "allowed (snd si) \<Longrightarrow> P (bp_ctl (slot_run_intent w si p))"
proof -
  show "P (bp_ctl (slot_master_volume w rcpt sv p))"
    using slot_durable_keeps [OF assms announces_values(2)] assms(2)
    by (auto simp: slot_master_volume_def Let_def on_ctl_def split: prod.split option.split intro!: publish_keeps confirm_keeps)
  show "P (bp_ctl (slot_muted w sm p))" "P (bp_ctl (slot_level w p sl))"
    using slot_durable_keeps [OF assms announces_values(3)] slot_durable_keeps [OF assms announces_values(7)]
    by (simp_all add: slot_muted_def slot_level_def split: prod.split)
  have "P (bp_ctl (on_ctl (\<lambda>c. c\<lparr>c_startup_auto_connect_until := None\<rparr>) p))"
    using core [OF assms(1)] by (simp add: on_ctl_def)
  then show "P (bp_ctl (slot_auto_connect w sa p))"
    using assms by (auto simp: slot_auto_connect_def Let_def split: prod.split intro!: slot_durable_keeps announces_values)
  show "P (bp_ctl (slot_endpoint w se p))"
    using assms by (auto simp: slot_endpoint_def on_ctl_def completed split: prod.split intro!: sent intro: commit_laws)
  show "P (bp_ctl (slot_latency w sp p))"
    using assms by (auto simp: slot_latency_def on_ctl_def completed fail_keeps split: prod.split option.split intro: commit_laws)
  show "allowed (snd si) \<Longrightarrow> P (bp_ctl (slot_run_intent w si p))"
    using assms(2) by (auto simp: slot_run_intent_def Let_def complete_commute assms(1) split: prod.split intro!: intended completed dropped)
qed

text \<open>The slots after the run intent, which may be what brings the property about.\<close>

lemma run_scalars_after_intent:
  assumes "P (bp_ctl (with_slot (slot_run_intent w) (pb_run_intent b)
      (with_slot (\<lambda>(ident, members). apply_members w ident members) (pb_desired_members b) p)))" (is "P (bp_ctl ?p2)")
    and "w_lower w = lower"
  shows "P (bp_ctl (run_scalars w b p))"
proof -
  have levels: "P (bp_ctl (foldl (slot_level w) q ls))" if "P (bp_ctl q)" for q ls
    using that assms(2) by (induction ls arbitrary: q) (simp_all add: slot_keeps)
  have slot: "P (bp_ctl (with_slot f sl q))" if "P (bp_ctl q)" "\<And>x q. P (bp_ctl q) \<Longrightarrow> P (bp_ctl (f x q))" for f sl q
    using that by (auto simp: with_slot_def split: option.split)
  show ?thesis
    unfolding run_scalars_def Let_def
    by (intro levels slot slot_keeps assms)
qed

lemma run_scalars_keeps:
  assumes "P (bp_ctl p)" "w_lower w = lower" "\<And>ident i. pb_run_intent b = Some (ident, i) \<Longrightarrow> allowed i"
  shows "P (bp_ctl (run_scalars w b p))"
  using assms by (intro run_scalars_after_intent)
    (auto simp: with_slot_def apply_members_keeps slot_keeps split: option.split prod.split)

lemma save_group_keeps: "P c \<Longrightarrow> w_lower w = lower \<Longrightarrow> P (handle_save_group w ident gi name members c)"
  by (simp add: handle_save_group_def Let_def fail_keeps committed announces_groups)

lemma delete_group_keeps: "P c \<Longrightarrow> w_lower w = lower \<Longrightarrow> P (handle_delete_group w ident gi c)"
  by (simp add: handle_delete_group_def completed committed announces_groups)

lemma activate_group_keeps:
  assumes "P c" "w_lower w = lower" "start \<Longrightarrow> allowed Run_Running"
  shows "P (fst (handle_activate_group w ident gi start c))"
  using assms
  by (auto simp: handle_activate_group_def Let_def fail_keeps split: option.split prod.split
      intro!: intended dropped intro: committed_fst announces_groups)

lemma calibration_keeps: "P c \<Longrightarrow> w_lower w = lower \<Longrightarrow> P (fst (handle_calibration w ident cmd c))"
  by (cases cmd) (auto simp: apply_calibration_def Let_def handle_click_test_def fail_keeps completed
      intro!: unsaved completed sent recalibrated profiled)

lemma retry_receiver_keeps:
  "P c \<Longrightarrow> w_lower w = lower \<Longrightarrow> P (complete ident (republish_rows w (drive r retry_now (c\<lparr>c_retry := rt\<rparr>))))"
  by (intro completed republish_rows_keeps) (auto intro: core)

lemma run_edge_command_keeps:
  assumes "P (bp_ctl p)" "w_lower w = lower" "starts_group cmd \<Longrightarrow> allowed Run_Running"
  shows "P (bp_ctl (run_edge_command w ident cmd p))"
proof (cases cmd)
  case (ActivateSavedGroup gi start)
  then show ?thesis using activate_group_keeps [OF assms(1,2), of start ident gi] assms(3)
    by (auto simp: starts_group_def split: prod.split)
next
  case (Calibration cc)
  then show ?thesis using calibration_keeps [OF assms(1,2), of ident cc] by (auto split: prod.split)
qed (use assms in \<open>simp_all add: on_ctl_def apply_members_keeps save_group_keeps delete_group_keeps retry_receiver_keeps
    handle_system_event_keeps completed toned hushed\<close>)

lemma answer_edge_keeps:
  "P (bp_ctl p) \<Longrightarrow> w_lower w = lower \<Longrightarrow> P (bp_ctl (answer_edge w e p))"
  by (auto simp: answer_edge_def on_ctl_def confirmation_def confirmed publish_keeps split: option.split)

lemma run_edges_keeps:
  "P (bp_ctl p) \<Longrightarrow> w_lower w = lower \<Longrightarrow> (\<And>e. e \<in> set es \<Longrightarrow> starts_group (en_command e) \<Longrightarrow> allowed Run_Running) \<Longrightarrow>
   P (bp_ctl (run_edges w es p))"
proof (induction es arbitrary: p)
  case (Cons e es)
  have "P (bp_ctl (answer_edge w e (run_edge_command w (en_id e) (en_command e) p)))"
    by (intro answer_edge_keeps run_edge_command_keeps Cons.prems) auto
  moreover from this have "P (bp_ctl (run_edges w es (answer_edge w e (run_edge_command w (en_id e) (en_command e) p))))"
    by (rule Cons.IH) (use Cons.prems in auto)
  ultimately show ?case by (simp add: Let_def)
qed simp

lemma answer_group_starts_keeps:
  assumes "P c" "w_lower w = lower"
  shows "P (answer_group_starts w rs c)"
proof -
  have "P (foldl (\<lambda>c' r. send (Out_Confirm r k) c') d rs)" if "P d" "cf_revision k = ds_revision (c_snapshot d) + 1" for d k
    using that
  proof (induction rs arbitrary: d)
    case (Cons r rs)
    have "ds_revision (c_snapshot (send (Out_Confirm r k) d)) = ds_revision (c_snapshot d)" by (simp add: send_def)
    with Cons show ?case by (simp add: confirmed)
  qed simp
  with assms show ?thesis by (simp add: answer_group_starts_def Let_def publish_keeps confirmation_def)
qed

lemma process_batch_after_scalars:
  assumes "P (bp_ctl (run_scalars w b (batch_start c)))" "w_lower w = lower"
    "\<And>e. e \<in> set (pb_edges b) \<Longrightarrow> starts_group (en_command e) \<Longrightarrow> allowed Run_Running"
  shows "P (fst (process_batch w b c))"
proof -
  let ?p = "run_edges w (pb_edges b) (run_scalars w b (batch_start c))"
  have p: "P (bp_ctl ?p)" using assms by (intro run_edges_keeps) auto
  let ?c1 = "if bp_volumes_changed ?p then forward_effective_volumes w (remember_effective_volumes w (bp_ctl ?p)) else bp_ctl ?p"
  let ?c2 = "case bp_reconcile ?p of Some cause \<Rightarrow> request_reconcile w cause ?c1 | None \<Rightarrow> ?c1"
  let ?c3 = "answer_group_starts w (bp_group_starts ?p) ?c2"
  have "P ?c1" using p by (simp add: forward_keeps remember_keeps)
  then have "P ?c2" by (cases "bp_reconcile ?p") (simp_all only: option.case request_reconcile_keeps)
  then have "P ?c3" using assms(2) by (rule answer_group_starts_keeps)
  then show ?thesis using assms(2) by (simp add: process_batch_def Let_def publish_keeps batch_start_def [symmetric])
qed

lemma process_batch_keeps:
  assumes "P c" "w_lower w = lower" "\<And>ident i. pb_run_intent b = Some (ident, i) \<Longrightarrow> allowed i"
    "\<And>e. e \<in> set (pb_edges b) \<Longrightarrow> starts_group (en_command e) \<Longrightarrow> allowed Run_Running"
  shows "P (fst (process_batch w b c))"
  using assms by (intro process_batch_after_scalars run_scalars_keeps) (auto simp: batch_start_def)

lemma auto_connect_keeps:
  assumes "P c" "w_lower w = lower" "allowed Run_Running"
  shows "P (apply_startup_auto_connect w c)"
  using assms
  by (auto simp: apply_startup_auto_connect_def split: option.split intro!: request_reconcile_keeps intended dropped)

end

end
