(* ===== verification/Controller_Spec.thy ===== *)
theory Controller_Spec
  imports Controller_Frame
begin

text \<open>
  What the controller promises to everyone it talks to, as a small automaton over the messages it
  sends: it remembers the saved state, the last snapshot shown, whether the machine sleeps, the
  last session generation asked for and the test tone, and rejects a message that breaks the promise.
  Every run of the controller is accepted.
\<close>

section \<open>The automaton\<close>

record dev_spec =
  sp_saved :: persisted_state
  sp_view :: device_snapshot
  sp_asleep :: bool
  sp_generation :: u64
  sp_tone :: "listening_test_guard option"
  sp_last_tone :: "u64 option"

definition spec_start :: "persisted_state \<Rightarrow> dev_spec" where
  "spec_start p = \<lparr>sp_saved = p, sp_view = loaded_snapshot p, sp_asleep = False, sp_generation = 0, sp_tone = None, sp_last_tone = None\<rparr>"

definition level_of :: "persisted_state \<Rightarrow> device_id \<Rightarrow> f32" where
  "level_of p r =
     volume_get (effective_volume (pt_master_volume p)
       (case om_get (pt_receiver_levels p) r of Some v \<Rightarrow> v | None \<Rightarrow> VOLUME_UNITY) (pt_muted p))"

definition request_allowed :: "dev_spec \<Rightarrow> u64 \<Rightarrow> device list \<Rightarrow> bool \<Rightarrow> bool" where
  "request_allowed sp g devices teardown \<longleftrightarrow>
     \<not> sp_asleep sp \<and> (sp_generation sp < g \<or> g = - 1) \<and> (teardown \<longleftrightarrow> ds_run_intent (sp_view sp) = Run_Stopped)
     \<and> (teardown \<longrightarrow> devices = []) \<and> d_id ` set devices \<subseteq> pt_last_desired_members (sp_saved sp)"

definition tone_allowed :: "dev_spec \<Rightarrow> bool" where
  "tone_allowed sp \<longleftrightarrow> sp_tone sp = None \<and> is_some_and (guard_capture (sp_view sp)) (\<lambda>g. sp_last_tone sp \<noteq> Some (lg_generation g))"

definition allow :: "bool \<Rightarrow> 'a \<Rightarrow> 'a option" where
  "allow b x = (if b then Some x else None)"

fun spec_step :: "(string \<Rightarrow> string) \<Rightarrow> dev_spec \<Rightarrow> ctl_output \<Rightarrow> dev_spec option" where
  "spec_step lower sp (Out_Save candidate ok) =
     allow (persisted_validate lower candidate = None \<and> candidate \<noteq> sp_saved sp) (if ok then sp\<lparr>sp_saved := candidate\<rparr> else sp)"
| "spec_step lower sp (Out_Publish s) =
     allow (mirrors s (sp_saved sp) \<and> ds_revision s = ds_revision (sp_view sp) + 1 \<and> (sp_tone sp = None \<or> guard_capture s = sp_tone sp))
       (sp\<lparr>sp_view := s\<rparr>)"
| "spec_step lower sp (Out_Session (Req_Reconcile g devices preferred latency profile teardown)) =
     allow (request_allowed sp g devices teardown) (sp\<lparr>sp_generation := g\<rparr>)"
| "spec_step lower sp (Out_Session (Req_SetVolume r v)) = allow (v = level_of (sp_saved sp) r) sp"
| "spec_step lower sp (Out_RememberVolume r v) = allow (v = level_of (sp_saved sp) r) sp"
| "spec_step lower sp (Out_Capture Cap_Suspend) = Some (sp\<lparr>sp_asleep := True\<rparr>)"
| "spec_step lower sp (Out_Capture Cap_Resume) = Some (sp\<lparr>sp_asleep := False\<rparr>)"
| "spec_step lower sp (Out_StartTone ok) =
     allow (tone_allowed sp)
       (if ok then sp\<lparr>sp_tone := guard_capture (sp_view sp), sp_last_tone := map_option lg_generation (guard_capture (sp_view sp))\<rparr> else sp)"
| "spec_step lower sp Out_CancelTone = allow (sp_tone sp \<noteq> None) (sp\<lparr>sp_tone := None\<rparr>)"
| "spec_step lower sp (Out_Confirm _ k) = allow (cf_revision k = ds_revision (sp_view sp) + 1) sp"
| "spec_step lower sp _ = Some sp"

definition spec_run :: "(string \<Rightarrow> string) \<Rightarrow> dev_spec \<Rightarrow> ctl_output list \<Rightarrow> dev_spec option" where
  "spec_run lower sp outs = foldl (\<lambda>r out. Option.bind r (\<lambda>sp'. spec_step lower sp' out)) (Some sp) outs"

section \<open>The simulation relation\<close>

definition tied :: "controller \<Rightarrow> dev_spec \<Rightarrow> bool" where
  "tied c sp \<longleftrightarrow>
     sp_saved sp = c_persisted c \<and> sp_asleep sp = c_suspended c \<and> sp_generation sp \<le> c_session_generation c
     \<and> sp_tone sp = c_listening_test c \<and> sp_last_tone sp = c_last_listening_test_generation c
     \<and> ds_revision (sp_view sp) = ds_revision (c_snapshot c) \<and> mirrors (c_snapshot c) (c_persisted c) \<and> keyed (c_inventory c)
     \<and> (c_listening_test c = None \<or> map_option lg_generation (c_listening_test c) = c_last_listening_test_generation c)"

definition settled :: "controller \<Rightarrow> dev_spec \<Rightarrow> bool" where
  "settled c sp \<longleftrightarrow>
     tied c sp \<and> ds_run_intent (sp_view sp) = ds_run_intent (c_snapshot c) \<and> guard_capture (sp_view sp) = guard_capture (c_snapshot c)
     \<and> (c_listening_test c = None \<or> guard_capture (c_snapshot c) = c_listening_test c)"

definition accepted :: "(string \<Rightarrow> string) \<Rightarrow> dev_spec \<Rightarrow> controller \<Rightarrow> bool" where
  "accepted lower sp0 c \<longleftrightarrow> (\<exists>sp. spec_run lower sp0 (c_out c) = Some sp \<and> settled c sp)"

definition pending :: "(string \<Rightarrow> string) \<Rightarrow> dev_spec \<Rightarrow> controller \<Rightarrow> bool" where
  "pending lower sp0 c \<longleftrightarrow> (\<exists>sp. spec_run lower sp0 (c_out c) = Some sp \<and> tied c sp)"

lemma spec_run_Nil [simp]: "spec_run lower sp [] = Some sp"
  by (simp add: spec_run_def)

lemma spec_run_None [simp]: "foldl (\<lambda>r out. Option.bind r (f out)) None outs = None"
  by (induction outs) simp_all

lemma spec_run_Cons [simp]:
  "spec_run lower sp (out # outs) = Option.bind (spec_step lower sp out) (\<lambda>sp'. spec_run lower sp' outs)"
  by (cases "spec_step lower sp out") (simp_all add: spec_run_def)

lemma spec_run_append [simp]:
  "spec_run lower sp (xs @ ys) = Option.bind (spec_run lower sp xs) (\<lambda>sp'. spec_run lower sp' ys)"
  by (induction xs arbitrary: sp) (simp_all add: bind_assoc)

lemma allow_Some [simp]: "allow b x = Some y \<longleftrightarrow> b \<and> y = x"
  by (auto simp: allow_def)

lemma allow_True [simp]: "allow True x = Some x"
  by (simp add: allow_def)

lemma effective_level_of: "effective_level c = level_of (c_persisted c)"
  by (intro ext) (simp add: effective_level_def level_of_def)

lemma accepted_pending: "accepted lower sp0 c \<Longrightarrow> pending lower sp0 c"
  by (auto simp: accepted_def pending_def settled_def)

lemma guard_capture_cong:
  "guard_capture (s\<lparr>ds_revision := n\<rparr>) = guard_capture s" "guard_capture (s\<lparr>ds_command_outcomes := os\<rparr>) = guard_capture s"
  "guard_capture (sort_for_publication lower s) = guard_capture s"
  by (cases "sx_phase (ds_session s)"; simp add: guard_capture_def sort_for_publication_def)+

lemma sorted_mirrors [simp]: "mirrors (sort_for_publication lower s) p \<longleftrightarrow> mirrors s p"
  by (simp add: mirrors_def sort_for_publication_def by_name_def)

lemma bare_mirrors [simp]:
  "mirrors (s\<lparr>ds_revision := n\<rparr>) p \<longleftrightarrow> mirrors s p" "mirrors (s\<lparr>ds_run_intent := i\<rparr>) p \<longleftrightarrow> mirrors s p"
  "mirrors (s\<lparr>ds_command_outcomes := os\<rparr>) p \<longleftrightarrow> mirrors s p" "mirrors (s\<lparr>ds_persistence := st\<rparr>) p \<longleftrightarrow> mirrors s p"
  "mirrors (write_rows c s) p \<longleftrightarrow> mirrors s p"
  by (simp_all add: mirrors_def write_rows_def on_session_def)

lemma sorted_fields [simp]:
  "ds_revision (write_rows c s) = ds_revision s"
  "ds_revision (sort_for_publication lower s) = ds_revision s" "ds_run_intent (sort_for_publication lower s) = ds_run_intent s"
  by (simp_all add: sort_for_publication_def write_rows_def on_session_def)

text \<open>Publishing turns a pending state into an accepted one: a tone whose guard no longer holds is cancelled first.\<close>

lemma publish_accepted:
  assumes "pending lower sp0 c"
  shows "accepted lower sp0 (publish w c)"
proof -
  let ?bad = "is_some_and (c_listening_test c) (\<lambda>g. \<not> guard_matches g (c_snapshot c))"
  let ?c1 = "if ?bad then send Out_CancelTone (c\<lparr>c_listening_test := None\<rparr>) else c"
  obtain sp where sp: "spec_run lower sp0 (c_out c) = Some sp" "tied c sp" using assms by (auto simp: pending_def)
  obtain sp1 where sp1: "spec_run lower sp0 (c_out ?c1) = Some sp1" "tied ?c1 sp1"
    "sp_tone sp1 = None \<or> guard_capture (c_snapshot c) = sp_tone sp1"
  proof (cases ?bad)
    case True
    then show thesis using sp by (intro that [of "sp\<lparr>sp_tone := None\<rparr>"]) (auto simp: send_def tied_def is_some_and_def split: option.splits)
  next
    case False
    then show thesis using sp by (intro that [of sp]; cases "c_listening_test c") (auto simp: tied_def guard_matches_def)
  qed
  have "c_snapshot ?c1 = c_snapshot c" by (simp add: send_def)
  with sp1 show ?thesis
    unfolding accepted_def publish_def Let_def
    by (intro exI [of _ "sp1\<lparr>sp_view := sort_for_publication (w_lower w) ((c_snapshot ?c1)\<lparr>ds_revision := ds_revision (c_snapshot ?c1) + 1\<rparr>)\<rparr>"])
      (auto simp: send_def settled_def tied_def guard_capture_cong simp del: if_split)
qed

section \<open>The laws of the handlers\<close>

lemma settled_core: "settled c sp \<Longrightarrow> same_core c c' \<Longrightarrow> settled c' sp"
  by (auto simp: settled_def tied_def same_core_def)

lemma accepted_core: "accepted lower sp0 c \<Longrightarrow> same_core c c' \<Longrightarrow> accepted lower sp0 c'"
  using settled_core by (fastforce simp: accepted_def same_core_def)

lemma accepted_shown:
  assumes "accepted lower sp0 c" "keeps_durable (c_snapshot c) s"
  shows "accepted lower sp0 (publish w (c\<lparr>c_snapshot := s\<rparr>))"
proof (rule publish_accepted)
  show "pending lower sp0 (c\<lparr>c_snapshot := s\<rparr>)"
    using assms keeps_durable_mirrors [OF assms(2)]
    by (auto simp: accepted_def pending_def settled_def tied_def keeps_durable_def)
qed

lemma quiet_neutral:
  assumes "quiet_output c out" "sp_saved sp = c_persisted c"
  shows "spec_step lower sp out = Some sp"
  using assms by (cases "(c, out)" rule: quiet_output.cases) (simp_all add: effective_level_of)

lemma settled_out [simp]: "settled (c\<lparr>c_out := outs\<rparr>) sp \<longleftrightarrow> settled c sp"
  by (simp add: settled_def tied_def)

lemma accepted_send:
  "accepted lower sp0 c \<Longrightarrow> (\<And>sp. settled c sp \<Longrightarrow> spec_step lower sp out = Some sp) \<Longrightarrow> accepted lower sp0 (send out c)"
  by (auto simp: accepted_def send_def)

lemma accepted_quiet: "accepted lower sp0 c \<Longrightarrow> quiet_output c out \<Longrightarrow> accepted lower sp0 (send out c)"
  by (rule accepted_send) (auto simp: settled_def tied_def intro: quiet_neutral)

lemma spec_run_quiet:
  assumes "\<And>x. x \<in> set xs \<Longrightarrow> spec_step lower sp (f x) = Some sp"
  shows "spec_run lower sp (map f xs) = Some sp"
  using assms by (induction xs) simp_all

lemma next_generation: "(g :: u64) \<le> c \<Longrightarrow> g < saturating_add c 1 \<or> saturating_add c 1 = - 1"
proof -
  assume le: "g \<le> c"
  have "unat (- 1 :: u64) = 2 ^ 64 - 1" by (simp add: unsigned_minus_1_eq_mask mask_eq_exp_minus_1)
  moreover have "unat (saturating_add c 1) = min (unat c + 1) (2 ^ 64 - 1)" by (simp add: unat_saturating_add)
  ultimately show ?thesis
    using le by (auto simp: word_less_nat_alt word_le_nat_alt word_unat_eq_iff min_def split: if_splits)
qed

lemma accepted_requested:
  assumes "accepted lower sp0 c" "may_request c devices teardown" "generation = saturating_add (c_session_generation c) 1"
  shows "accepted lower sp0 (c\<lparr>c_session_generation := generation,
    c_out := c_out c @ map (\<lambda>r. Out_RememberVolume r (effective_level c r)) rs
      @ [Out_Session (Req_Reconcile generation devices preferred latency profile teardown)]\<rparr>)"
proof -
  obtain sp where sp: "spec_run lower sp0 (c_out c) = Some sp" "settled c sp" using assms(1) by (auto simp: accepted_def)
  have "spec_run lower sp (map (\<lambda>r. Out_RememberVolume r (effective_level c r)) rs) = Some sp"
    by (rule spec_run_quiet) (use sp in \<open>simp_all add: settled_def tied_def effective_level_of\<close>)
  moreover have "d_id ` set devices \<subseteq> pt_last_desired_members (c_persisted c)"
    using sp(2) assms(2) by (fastforce simp: settled_def tied_def may_request_def keyed_def mirrors_def)
  then have "request_allowed sp generation devices teardown"
    using sp(2) assms next_generation [of "sp_generation sp" "c_session_generation c"]
    by (auto simp: request_allowed_def settled_def tied_def may_request_def)
  moreover have "settled (c\<lparr>c_session_generation := generation\<rparr>) (sp\<lparr>sp_generation := generation\<rparr>)"
    using sp(2) by (simp add: settled_def tied_def)
  ultimately show ?thesis using sp(1) by (simp add: accepted_def)
qed

lemma record_result_settled: "settled c sp \<Longrightarrow> settled (record_result ident r c) sp"
  by (simp add: settled_def tied_def record_result_def on_snapshot_def guard_capture_cong)

lemma accepted_answer:
  assumes "accepted lower sp0 c" "\<And>sp. spec_step lower sp (Out_Event ev) = Some sp"
  shows "accepted lower sp0 (send (Out_Event ev) (record_result ident r c))"
proof (rule accepted_send)
  show "accepted lower sp0 (record_result ident r c)"
    using assms(1) record_result_settled by (auto simp: accepted_def record_result_def on_snapshot_def)
qed (rule assms(2))

lemma persistence_failure_pending:
  assumes "accepted lower sp0 c"
  shows "pending lower sp0 (note_persistence_failure ident c)"
  using assms
  by (auto simp: accepted_def pending_def settled_def tied_def note_persistence_failure_def fail_with_kind_def send_def
      record_result_def on_snapshot_def)

lemma tied_core: "tied c sp \<Longrightarrow> same_core c c' \<Longrightarrow> tied c' sp"
  by (auto simp: tied_def same_core_def)

lemma tied_rows: "tied c sp \<Longrightarrow> tied ((tidy_receivers c)\<lparr>c_snapshot := write_rows d (c_snapshot c)\<rparr>) sp"
  using same_core_tidy [of c] by (auto simp: tied_def same_core_def)

lemma announce_accepted:
  assumes "spec_run lower sp0 (c_out c) = Some sp" "tied (c\<lparr>c_persisted := old\<rparr>) (sp\<lparr>sp_saved := old\<rparr>)" "sp_saved sp = mutate old"
    "announces mutate announce"
  shows "accepted lower sp0 (announce_commit w ident announce refresh_rows sync_names (mutate old) c)"
proof -
  define c1 where "c1 = on_snapshot (\<lambda>s. announce (s\<lparr>ds_receiver_levels := pt_receiver_levels (mutate old)\<rparr>)) (c\<lparr>c_persisted := mutate old\<rparr>)"
  have one: "tied c1 sp" "c_out c1 = c_out c"
    using assms(2-4) by (auto simp: tied_def announces_def on_snapshot_def c1_def)
  define c2 where "c2 = (if refresh_rows then (tidy_receivers c1)\<lparr>c_snapshot := write_rows (tidy_receivers c1) (c_snapshot c1)\<rparr> else c1)"
  have two: "tied c2 sp" "c_out c2 = c_out c"
    using one tied_rows [of c1] same_core_tidy [of c1] by (simp_all add: same_core_def c2_def)
  define c3 where "c3 = (if sync_names then sync_saved_names c2 else c2)"
  have "tied c3 sp" "c_out c3 = c_out c"
    using two by (simp_all add: c3_def sync_saved_names_def tied_def)
  then have "pending lower sp0 (complete ident c3)"
    using assms(1) by (simp add: pending_def complete_def send_def record_result_def on_snapshot_def tied_def)
  then have "accepted lower sp0 (publish w (complete ident c3))" by (rule publish_accepted)
  then show ?thesis
    unfolding announce_commit_def Let_def rebuild_receiver_rows_def c3_def c2_def c1_def by (simp only: prod.case)
qed

lemma accepted_committed:
  assumes acc: "accepted (w_lower w) sp0 c" and ann: "announces mutate announce"
  shows "accepted (w_lower w) sp0 (fst (commit_durable w ident mutate announce refresh_rows sync_names c))"
proof -
  obtain sp where sp: "spec_run (w_lower w) sp0 (c_out c) = Some sp" "settled c sp" using acc by (auto simp: accepted_def)
  let ?save = "\<lambda>ok. send (Out_Save (mutate (c_persisted c)) ok) c"
  have "accepted (w_lower w) sp0 (announce_commit w ident announce refresh_rows sync_names (mutate (c_persisted c)) (?save True))"
    if "persisted_validate (w_lower w) (mutate (c_persisted c)) = None" "mutate (c_persisted c) \<noteq> c_persisted c"
    by (rule announce_accepted [of _ _ _ "sp\<lparr>sp_saved := mutate (c_persisted c)\<rparr>"])
      (use that sp ann in \<open>auto simp: send_def settled_def tied_def\<close>)
  moreover have "accepted (w_lower w) sp0 (?save False)"
    if "persisted_validate (w_lower w) (mutate (c_persisted c)) = None" "mutate (c_persisted c) \<noteq> c_persisted c"
    by (rule accepted_send [OF acc]) (use that in \<open>auto simp: settled_def tied_def\<close>)
  moreover have "accepted (w_lower w) sp0 (complete ident c)" "accepted (w_lower w) sp0 (fail_command ident message c)" for message
    using accepted_answer [OF acc] by (simp_all add: complete_def fail_command_def fail_with_kind_def)
  ultimately show ?thesis
    by (auto simp: commit_durable_def Let_def intro!: publish_accepted persistence_failure_pending)
qed

lemma accepted_toned:
  assumes "accepted lower sp0 c"
  shows "accepted lower sp0 (run_listening_test w ident g c)"
proof -
  obtain sp where sp: "spec_run lower sp0 (c_out c) = Some sp" "settled c sp" using assms by (auto simp: accepted_def)
  have "accepted lower sp0 (send (Out_StartTone False) c)"
    "accepted lower sp0 ((send (Out_StartTone True) c)\<lparr>c_last_listening_test_generation := Some (lg_generation g), c_listening_test := Some g\<rparr>)"
    if "guard_matches g (c_snapshot c)" "c_last_listening_test_generation c \<noteq> Some (lg_generation g)"
    using sp that by (cases "c_listening_test c"; auto simp: accepted_def send_def settled_def tied_def tone_allowed_def guard_matches_def)+
  then show ?thesis
    using accepted_answer [OF assms] accepted_answer
    by (auto simp: run_listening_test_def Let_def complete_def fail_command_def fail_with_kind_def)
qed

interpretation accepted_cmds: ctl_commands lower "accepted lower sp0" "\<lambda>_. True" for lower sp0
proof unfold_locales
  fix c c' :: controller and w :: ctl_world and s x devices teardown generation rs preferred latency profile g
  show "accepted lower sp0 c \<Longrightarrow> same_core c c' \<Longrightarrow> accepted lower sp0 c'" by (rule accepted_core)
  show "accepted lower sp0 c \<Longrightarrow> w_lower w = lower \<Longrightarrow> keeps_durable (c_snapshot c) s \<Longrightarrow> accepted lower sp0 (publish w (c\<lparr>c_snapshot := s\<rparr>))"
    by (rule accepted_shown)
  show "accepted lower sp0 c \<Longrightarrow> quiet_output c x \<Longrightarrow> accepted lower sp0 (send x c)" by (rule accepted_quiet)
  show "accepted lower sp0 c \<Longrightarrow> c_session_generation c \<le> g \<Longrightarrow> accepted lower sp0 (c\<lparr>c_session_generation := g\<rparr>)"
    by (auto simp: accepted_def settled_def tied_def)
  show "accepted lower sp0 c \<Longrightarrow> may_request c devices teardown \<Longrightarrow> generation = saturating_add (c_session_generation c) 1 \<Longrightarrow>
      accepted lower sp0 (c\<lparr>c_session_generation := generation,
        c_out := c_out c @ map (\<lambda>r. Out_RememberVolume r (effective_level c r)) rs
          @ [Out_Session (Req_Reconcile generation devices preferred latency profile teardown)]\<rparr>)"
    by (rule accepted_requested)
  show "accepted lower sp0 c \<Longrightarrow> accepted lower sp0 (send (Out_Capture Cap_Suspend) (c\<lparr>c_suspended := True\<rparr>))"
    "accepted lower sp0 c \<Longrightarrow>
      accepted lower sp0 (send (Out_Capture Cap_Resume) (send (Out_Discovery RestartAfterNetworkChange) (c\<lparr>c_suspended := False\<rparr>)))"
    by (auto simp: accepted_def send_def settled_def tied_def)
next
  fix c :: controller and w :: ctl_world and ident message kind mutate announce refresh_rows sync_names i requested ok g k r
  show "accepted lower sp0 c \<Longrightarrow> accepted lower sp0 (complete ident c)"
    "accepted lower sp0 c \<Longrightarrow> accepted lower sp0 (fail_with_kind ident message kind c)"
    by (simp_all add: complete_def fail_with_kind_def accepted_answer)
  show "accepted lower sp0 c \<Longrightarrow> w_lower w = lower \<Longrightarrow> announces mutate announce \<Longrightarrow>
      accepted lower sp0 (fst (commit_durable w ident mutate announce refresh_rows sync_names c))"
    using accepted_committed by blast
  show "accepted lower sp0 c \<Longrightarrow> w_lower w = lower \<Longrightarrow> True \<Longrightarrow>
      accepted lower sp0 (publish w (on_snapshot (\<lambda>s. s\<lparr>ds_run_intent := i\<rparr>) c))"
    by (rule publish_accepted) (auto simp: accepted_def pending_def settled_def tied_def on_snapshot_def)
  show "accepted lower sp0 c \<Longrightarrow> accepted lower sp0 (send (Out_SaveCalibration requested ok) c)"
    by (rule accepted_send) simp_all
  show "accepted lower sp0 c \<Longrightarrow> w_lower w = lower \<Longrightarrow> accepted lower sp0 (publish w (note_persistence_failure ident c))"
    by (intro publish_accepted persistence_failure_pending)
  show "accepted lower sp0 c \<Longrightarrow> accepted lower sp0 (run_listening_test w ident g c)" by (rule accepted_toned)
  show "accepted lower sp0 c \<Longrightarrow> c_listening_test c \<noteq> None \<Longrightarrow>
      accepted lower sp0 (send Out_CancelTone (c\<lparr>c_listening_test := None\<rparr>))"
    by (auto simp: accepted_def send_def settled_def tied_def)
  show "accepted lower sp0 c \<Longrightarrow> cf_revision k = ds_revision (c_snapshot c) + 1 \<Longrightarrow> accepted lower sp0 (send (Out_Confirm r k) c)"
    by (rule accepted_send) (auto simp: settled_def tied_def)
qed

section \<open>Every run is accepted\<close>

lemma step_accepted:
  assumes "accepted lower sp0 c" "w_lower w = lower"
  shows "accepted lower sp0 (fst (ctl_step w e c))"
proof (cases "(\<exists>es. e = Ev_Commands es) \<or> e = Ev_AutoConnectDue")
  case True
  then show ?thesis
    using assms accepted_cmds.process_batch_keeps [OF assms] accepted_cmds.auto_connect_keeps [OF assms] by auto
next
  case False
  then show ?thesis using accepted_cmds.supervisor_keeps [OF assms] by blast
qed

lemma start_accepted: "w_lower w = lower \<Longrightarrow> accepted lower (spec_start p) (from_persisted w p profile)"
  by (simp add: from_persisted_def Let_def rebuild_receiver_rows_def accepted_def settled_def tied_def tidy_receivers_def
      spec_start_def guard_capture_cong)
    (simp add: loaded_snapshot_def device_snapshot_default_def session_snapshot_default_def guard_capture_def write_rows_def
      on_session_def mirrors_def)

end
