(* ===== verification/Controller_Answers.thy ===== *)
theory Controller_Answers
  imports Controller_Spec
begin

text \<open>
  Which commands the controller has answered, read off what it sent: every command that survives
  the coalescing of its burst is answered once, in the order of execution.
\<close>

section \<open>Answers\<close>

fun answer_of :: "ctl_output \<Rightarrow> u64 list" where
  "answer_of (Out_Event (CommandCompleted i)) = [i]"
| "answer_of (Out_Event (CommandFailed i _)) = [i]"
| "answer_of _ = []"

definition answered :: "controller \<Rightarrow> u64 list" where
  "answered c = concat (map answer_of (c_out c))"

lemma answered_send [simp]: "answered (send x c) = answered c @ answer_of x"
  by (simp add: answered_def send_def)

lemma answered_fields [simp]:
  "answered (c\<lparr>c_snapshot := s\<rparr>) = answered c" "answered (c\<lparr>c_published := s\<rparr>) = answered c"
  "answered (c\<lparr>c_persisted := p\<rparr>) = answered c" "answered (c\<lparr>c_listening_test := t\<rparr>) = answered c"
  "answered (c\<lparr>c_last_listening_test_generation := lg\<rparr>) = answered c" "answered (c\<lparr>c_session_generation := g\<rparr>) = answered c"
  "answered (c\<lparr>c_suspended := b\<rparr>) = answered c" "answered (on_snapshot f c) = answered c" "answered (record_result i r c) = answered c"
  by (simp_all add: answered_def on_snapshot_def record_result_def)

lemma answered_core: "same_core c c' \<Longrightarrow> answered c' = answered c"
  by (simp add: answered_def same_core_def)

lemma answered_publish [simp]: "answered (publish w c) = answered c"
  by (simp add: publish_def Let_def)

lemma answered_quiet: "quiet_output c x \<Longrightarrow> answer_of x = []"
  by (cases "(c, x)" rule: quiet_output.cases) simp_all

interpretation answers: ctl_frame lower "\<lambda>c. answered c = ids" for lower ids
proof unfold_locales
  fix c :: controller and generation devices teardown rs preferred latency profile
  show "answered c = ids \<Longrightarrow> may_request c devices teardown \<Longrightarrow> generation = saturating_add (c_session_generation c) 1 \<Longrightarrow>
      answered (c\<lparr>c_session_generation := generation,
        c_out := c_out c @ map (\<lambda>r. Out_RememberVolume r (effective_level c r)) rs
          @ [Out_Session (Req_Reconcile generation devices preferred latency profile teardown)]\<rparr>) = ids"
    by (simp add: answered_def comp_def)
qed (auto simp: answered_core answered_quiet)

lemma answered_complete [simp]: "answered (complete i c) = answered c @ [i]"
  by (simp add: complete_def)

lemma answered_fail [simp]:
  "answered (fail_with_kind i message kind c) = answered c @ [i]" "answered (fail_command i message c) = answered c @ [i]"
  "answered (note_persistence_failure i c) = answered c @ [i]"
  by (simp_all add: fail_with_kind_def fail_command_def note_persistence_failure_def)

lemma answered_commit [simp]: "answered (fst (commit_durable w i mutate announce rr sn c)) = answered c @ [i]"
  by (simp add: commit_durable_def announce_commit_def Let_def rebuild_receiver_rows_def sync_saved_names_def
      answered_core [OF same_core_tidy] answered_core [OF same_core_fields(4)])

lemma answered_committed: "commit_durable w i mutate announce rr sn c = (c', outcome) \<Longrightarrow> answered c' = answered c @ [i]"
  using answered_commit [of w i mutate announce rr sn c] by simp

lemma answered_frame [simp]:
  "answered (republish_rows w c) = answered c" "answered (request_reconcile w cause c) = answered c"
  "answered (forward_effective_volumes w c) = answered c" "answered (remember_effective_volumes w c) = answered c"
  "answered (handle_system_event w event c) = answered c" "answered (drive r f c) = answered c"
  "answered (c\<lparr>c_retry := rt\<rparr>) = answered c" "answered (c\<lparr>c_startup_auto_connect_until := None\<rparr>) = answered c"
  "answered (c\<lparr>c_calibration := pf\<rparr>) = answered c"
  by (rule answers.republish_rows_keeps answers.request_reconcile_keeps answers.forward_keeps answers.remember_keeps
      answers.handle_system_event_keeps answered_core refl | simp)+

lemma answered_slots [simp]:
  "answered (bp_ctl (apply_members w i members p)) = answered (bp_ctl p) @ [i]"
  "answered (bp_ctl (slot_run_intent w si p)) = answered (bp_ctl p) @ [fst si]"
  "answered (bp_ctl (slot_durable w i changed mutate announce v p)) = answered (bp_ctl p) @ [i]"
  by (auto simp: apply_members_def slot_run_intent_def slot_durable_def on_ctl_def Let_def split: prod.split dest: answered_committed)

lemma answered_more_slots [simp]:
  "answered (bp_ctl (slot_master_volume w rcpt sv p)) = answered (bp_ctl p) @ [fst sv]"
  "answered (bp_ctl (slot_muted w sm p)) = answered (bp_ctl p) @ [fst sm]"
  "answered (bp_ctl (slot_endpoint w se p)) = answered (bp_ctl p) @ [fst se]"
  "answered (bp_ctl (slot_latency w sp p)) = answered (bp_ctl p) @ [fst sp]"
  "answered (bp_ctl (slot_auto_connect w sa p)) = answered (bp_ctl p) @ [fst sa]"
  "answered (bp_ctl (slot_level w p sl)) = answered (bp_ctl p) @ [fst (snd sl)]"
  by (auto simp: slot_master_volume_def slot_muted_def slot_endpoint_def slot_latency_def slot_auto_connect_def slot_level_def
      on_ctl_def Let_def confirm_def split: prod.split option.split dest: answered_committed)

definition slot_ids :: "(u64 \<times> 'a) option \<Rightarrow> u64 list" where
  "slot_ids slot = (case slot of Some (i, _) \<Rightarrow> [i] | None \<Rightarrow> [])"

text \<open>The edges of a batch that are run: those up to the first shutdown.\<close>

fun run_part :: "command_envelope list \<Rightarrow> command_envelope list" where
  "run_part [] = []"
| "run_part (e # es) = (if en_command e = Cmd_Shutdown then [e] else e # run_part es)"

definition batch_ids :: "pending_batch \<Rightarrow> u64 list" where
  "batch_ids b =
     slot_ids (pb_desired_members b) @ slot_ids (pb_run_intent b) @ slot_ids (pb_master_volume b) @ slot_ids (pb_muted b)
     @ slot_ids (pb_endpoint b) @ slot_ids (pb_latency_preset b) @ slot_ids (pb_auto_connect b)
     @ map (\<lambda>(_, i, _). i) (pb_levels b) @ map en_id (run_part (pb_edges b))"

lemma answered_levels: "answered (bp_ctl (foldl (slot_level w) p ls)) = answered (bp_ctl p) @ map (\<lambda>(_, i, _). i) ls"
  by (induction ls arbitrary: p) (auto split: prod.split)

lemma answered_with_slot:
  "(\<And>x q. answered (bp_ctl (f x q)) = answered (bp_ctl q) @ [fst x]) \<Longrightarrow>
   answered (bp_ctl (with_slot f slot p)) = answered (bp_ctl p) @ slot_ids slot"
  by (auto simp: with_slot_def slot_ids_def split: option.split prod.split)

lemma answered_scalars:
  "answered (bp_ctl (run_scalars w b p)) = answered (bp_ctl p)
     @ slot_ids (pb_desired_members b) @ slot_ids (pb_run_intent b) @ slot_ids (pb_master_volume b) @ slot_ids (pb_muted b)
     @ slot_ids (pb_endpoint b) @ slot_ids (pb_latency_preset b) @ slot_ids (pb_auto_connect b) @ map (\<lambda>(_, i, _). i) (pb_levels b)"
  by (simp add: run_scalars_def Let_def answered_levels answered_with_slot split_beta)

lemma answered_activate: "answered (fst (handle_activate_group w i g start c)) = answered c @ [i]"
  by (auto simp: handle_activate_group_def Let_def split: option.split prod.split dest: answered_committed)

lemma answered_calibration: "answered (fst (handle_calibration w i cmd c)) = answered c @ [i]"
  by (cases cmd) (auto simp: apply_calibration_def handle_click_test_def Let_def)

lemma answered_edge:
  assumes "is_edge cmd"
  shows "answered (bp_ctl (run_edge_command w i cmd p)) = answered (bp_ctl p) @ [i]"
proof (cases cmd)
  case (ActivateSavedGroup g start)
  then show ?thesis using answered_activate [of w i g start "bp_ctl p"] by (auto split: prod.split)
next
  case (Calibration cc)
  then show ?thesis using answered_calibration [of w i cc "bp_ctl p"] by (auto split: prod.split)
qed (use assms in \<open>auto simp: on_ctl_def handle_save_group_def handle_delete_group_def run_listening_test_def Let_def\<close>)

lemma answered_answer_edge [simp]: "answered (bp_ctl (answer_edge w e p)) = answered (bp_ctl p)"
  by (auto simp: answer_edge_def on_ctl_def split: option.split)

lemma shutdown_only:
  "bp_shutdown (run_edge_command w i cmd p) \<longleftrightarrow> bp_shutdown p \<or> cmd = Cmd_Shutdown"
  by (cases cmd) (auto simp: apply_members_def on_ctl_def Let_def split: prod.split)

lemma shutdown_answer [simp]: "bp_shutdown (answer_edge w e p) = bp_shutdown p"
  by (auto simp: answer_edge_def on_ctl_def split: option.split)

lemma answered_edges:
  "\<not> bp_shutdown p \<Longrightarrow> (\<forall>e \<in> set es. is_edge (en_command e)) \<Longrightarrow>
   answered (bp_ctl (run_edges w es p)) = answered (bp_ctl p) @ map en_id (run_part es)"
  by (induction es arbitrary: p) (auto simp: Let_def answered_edge shutdown_only)

lemma shutdown_scalars: "bp_shutdown (run_scalars w b p) = bp_shutdown p"
proof -
  have slot: "bp_shutdown (with_slot f slot q) = bp_shutdown q" if "\<And>x q. bp_shutdown (f x q) = bp_shutdown q" for f slot q
    using that by (simp add: with_slot_def split: option.split)
  have levels: "bp_shutdown (foldl (slot_level w) q ls) = bp_shutdown q" for q ls
    by (induction ls arbitrary: q) (auto simp: slot_level_def slot_durable_def on_ctl_def Let_def split: prod.split)
  show ?thesis
    unfolding run_scalars_def Let_def levels
    by (simp add: slot apply_members_def slot_run_intent_def slot_master_volume_def slot_muted_def slot_endpoint_def
        slot_latency_def slot_auto_connect_def slot_durable_def on_ctl_def Let_def split: prod.split option.split)
qed

lemma batch_edges: "\<forall>e \<in> set (pb_edges b). is_edge (en_command e) \<Longrightarrow> \<forall>e \<in> set (pb_edges (batch_insert b x)). is_edge (en_command e)"
proof -
  have edge: "is_edge (without_start cmd) = is_edge cmd" for cmd by (cases cmd) simp_all
  show "\<forall>e \<in> set (pb_edges b). is_edge (en_command e) \<Longrightarrow> ?thesis"
    by (auto simp: batch_insert_def Let_def cancel_starts_def edge split: backend_command.split)
qed

lemma edges_of_batch: "\<forall>e \<in> set (pb_edges (foldl batch_insert batch_new es)). is_edge (en_command e)"
proof (induction es rule: rev_induct)
  case (snoc e es)
  then show ?case using batch_edges by simp
qed (simp add: batch_new_def)

lemma answered_group_starts: "answered (answer_group_starts w rs c) = answered c"
proof -
  have "answered (foldl (\<lambda>c' r. send (Out_Confirm r k) c') d rs) = answered d" for k d
    by (induction rs arbitrary: d) simp_all
  then show ?thesis by (simp add: answer_group_starts_def Let_def)
qed

lemma answered_batch:
  assumes "\<forall>e \<in> set (pb_edges b). is_edge (en_command e)"
  shows "answered (fst (process_batch w b c)) = answered c @ batch_ids b"
proof -
  let ?p = "run_edges w (pb_edges b) (run_scalars w b
    \<lparr>bp_ctl = c, bp_reconcile = None, bp_volumes_changed = False, bp_shutdown = False, bp_group_starts = []\<rparr>)"
  have "answered (bp_ctl ?p) = answered c @ batch_ids b"
    using assms by (simp add: answered_edges shutdown_scalars answered_scalars batch_ids_def)
  then show ?thesis
    by (simp add: process_batch_def Let_def answered_group_starts split: option.split)
qed

end
