(* ===== verification/Controller_Properties.thy ===== *)
theory Controller_Properties
  imports Controller_Answers
begin

text \<open>
  Properties of the controller: it refines its specification, it answers every command once, a
  burst of commands counts like its newest values and its edges in order, a stop wins over what came
  before it, and playback starts on request or once by itself.
\<close>

section \<open>Coalescing\<close>

definition latest :: "('a \<Rightarrow> 'b option) \<Rightarrow> 'a list \<Rightarrow> 'b option" where
  "latest f xs = (case List.map_filter f (rev xs) of [] \<Rightarrow> None | y # _ \<Rightarrow> Some y)"

lemma latest_snoc [simp]: "latest f (xs @ [x]) = (case f x of Some y \<Rightarrow> Some y | None \<Rightarrow> latest f xs)"
  by (simp add: latest_def map_filter_simps split: option.split)

lemma latest_Nil [simp]: "latest f [] = None"
  by (simp add: latest_def map_filter_simps)

definition as_members :: "command_envelope \<Rightarrow> (u64 \<times> device_id set) option" where
  "as_members e = (case en_command e of SetDesiredMembers m \<Rightarrow> Some (en_id e, m) | _ \<Rightarrow> None)"

definition as_intent :: "command_envelope \<Rightarrow> (u64 \<times> run_intent) option" where
  "as_intent e = (case en_command e of SetRunIntent i \<Rightarrow> Some (en_id e, i) | _ \<Rightarrow> None)"

definition as_master :: "command_envelope \<Rightarrow> (u64 \<times> volume_t) option" where
  "as_master e = (case en_command e of SetMasterVolume v \<Rightarrow> Some (en_id e, v) | _ \<Rightarrow> None)"

definition as_master_receipt :: "command_envelope \<Rightarrow> receipt option" where
  "as_master_receipt e = (case en_command e of SetMasterVolume _ \<Rightarrow> en_confirmation e | _ \<Rightarrow> None)"

definition as_muted :: "command_envelope \<Rightarrow> (u64 \<times> bool) option" where
  "as_muted e = (case en_command e of SetMuted m \<Rightarrow> Some (en_id e, m) | _ \<Rightarrow> None)"

definition as_endpoint :: "command_envelope \<Rightarrow> (u64 \<times> endpoint_preference) option" where
  "as_endpoint e = (case en_command e of SetAudioEndpoint p \<Rightarrow> Some (en_id e, p) | _ \<Rightarrow> None)"

definition as_preset :: "command_envelope \<Rightarrow> (u64 \<times> latency_preset) option" where
  "as_preset e = (case en_command e of SetLatencyPreset p \<Rightarrow> Some (en_id e, p) | _ \<Rightarrow> None)"

definition as_auto :: "command_envelope \<Rightarrow> (u64 \<times> bool) option" where
  "as_auto e = (case en_command e of SetAutoConnect a \<Rightarrow> Some (en_id e, a) | _ \<Rightarrow> None)"

definition as_level :: "device_id \<Rightarrow> command_envelope \<Rightarrow> (u64 \<times> volume_t) option" where
  "as_level r e = (case en_command e of SetReceiverLevel r' v \<Rightarrow> if r' = r then Some (en_id e, v) else None | _ \<Rightarrow> None)"

lemmas as_defs = as_members_def as_intent_def as_master_def as_master_receipt_def as_muted_def as_endpoint_def as_preset_def
  as_auto_def as_level_def

text \<open>The edges in order; a group start that a later stop overtakes activates its group without starting it.\<close>

fun standing_edges :: "command_envelope list \<Rightarrow> command_envelope list" where
  "standing_edges [] = []"
| "standing_edges (e # es) =
     (if is_edge (en_command e)
      then [if SetRunIntent Run_Stopped \<in> en_command ` set es then e\<lparr>en_command := without_start (en_command e)\<rparr> else e] else [])
     @ standing_edges es"

lemma without_start_idem [simp]: "without_start (without_start cmd) = without_start cmd"
  by (cases cmd) simp_all

lemma standing_snoc:
  "standing_edges (es @ [x]) =
     (if en_command x = SetRunIntent Run_Stopped then cancel_starts (standing_edges es) else standing_edges es)
     @ (if is_edge (en_command x) then [x] else [])"
  by (induction es) (auto simp: cancel_starts_def)

lemma batch_levels_ok: "om_ok (pb_levels (foldl batch_insert batch_new es))"
  by (induction es rule: rev_induct)
    (auto simp: batch_new_def batch_insert_def Let_def om_insert_ok split: backend_command.split)

lemma batch_slots:
  assumes "b = foldl batch_insert batch_new es"
  shows "pb_desired_members b = latest as_members es \<and> pb_run_intent b = latest as_intent es
    \<and> pb_master_volume b = latest as_master es \<and> pb_master_receipt b = latest as_master_receipt es
    \<and> pb_muted b = latest as_muted es \<and> pb_endpoint b = latest as_endpoint es
    \<and> pb_latency_preset b = latest as_preset es \<and> pb_auto_connect b = latest as_auto es"
  unfolding assms
proof (induction es rule: rev_induct)
  case Nil
  then show ?case by (simp add: batch_new_def)
next
  case (snoc x es)
  then show ?case by (cases "en_command x") (simp_all add: batch_insert_def Let_def as_defs split: option.split)
qed

lemma batch_standing: "pb_edges (foldl batch_insert batch_new es) = standing_edges es"
proof (induction es rule: rev_induct)
  case Nil
  then show ?case by (simp add: batch_new_def)
next
  case (snoc x es)
  then show ?case by (cases "en_command x") (simp_all add: batch_insert_def Let_def standing_snoc)
qed

lemma insert_level:
  "om_ok (pb_levels b) \<Longrightarrow>
   om_get (pb_levels (batch_insert b x)) r = (case as_level r x of Some y \<Rightarrow> Some y | None \<Rightarrow> om_get (pb_levels b) r)"
  by (cases "en_command x") (simp_all add: batch_insert_def Let_def as_level_def om_get_insert)

lemma batch_level: "om_get (pb_levels (foldl batch_insert batch_new es)) r = latest (as_level r) es"
proof (induction es rule: rev_induct)
  case (snoc x es)
  then show ?case using batch_levels_ok [of es] by (simp add: insert_level split: option.split)
qed (simp add: batch_new_def)

lemma batch_total: "pb_drained_total (foldl batch_insert batch_new es) = of_nat (length es)"
proof (induction es rule: rev_induct)
  case (snoc x es)
  then show ?case by (cases "en_command x") (simp_all add: batch_insert_def Let_def)
qed (simp add: batch_new_def)

section \<open>Requests for a session\<close>

fun ask_of :: "ctl_output \<Rightarrow> (device list \<times> bool) list" where
  "ask_of (Out_Session (Req_Reconcile _ devices _ _ _ teardown)) = [(devices, teardown)]"
| "ask_of _ = []"

definition asked :: "controller \<Rightarrow> (device list \<times> bool) list" where
  "asked c = concat (map ask_of (c_out c))"

text \<open>Playback is stopped, and all requests after the given ones tear the session down.\<close>

definition silent_since :: "(device list \<times> bool) list \<Rightarrow> controller \<Rightarrow> bool" where
  "silent_since before c \<longleftrightarrow> ds_run_intent (c_snapshot c) = Run_Stopped
     \<and> (\<exists>rs. asked c = before @ rs \<and> set rs \<subseteq> {([], True)})"

lemma asked_send [simp]: "asked (send x c) = asked c @ ask_of x"
  by (simp add: asked_def send_def)

lemma asked_fields [simp]:
  "asked (c\<lparr>c_snapshot := s\<rparr>) = asked c" "asked (c\<lparr>c_published := s\<rparr>) = asked c"
  "asked (c\<lparr>c_persisted := p\<rparr>) = asked c" "asked (c\<lparr>c_listening_test := t\<rparr>) = asked c"
  "asked (c\<lparr>c_last_listening_test_generation := lg\<rparr>) = asked c" "asked (c\<lparr>c_session_generation := g\<rparr>) = asked c"
  "asked (c\<lparr>c_suspended := b\<rparr>) = asked c" "asked (on_snapshot f c) = asked c" "asked (record_result i r c) = asked c"
  "asked (c\<lparr>c_startup_auto_connect_until := None\<rparr>) = asked c"
  by (simp_all add: asked_def on_snapshot_def record_result_def)

lemma asked_core: "same_core c c' \<Longrightarrow> asked c' = asked c"
  by (simp add: asked_def same_core_def)

lemma asked_publish [simp]: "asked (publish w c) = asked c"
  by (simp add: publish_def Let_def)

lemma intent_publish [simp]: "ds_run_intent (c_snapshot (publish w c)) = ds_run_intent (c_snapshot c)"
  by (simp add: publish_def Let_def send_def)

lemma asked_answers [simp]:
  "asked (complete i c) = asked c" "asked (fail_with_kind i message kind c) = asked c" "asked (fail_command i message c) = asked c"
  "asked (note_persistence_failure i c) = asked c"
  by (simp_all add: complete_def fail_with_kind_def fail_command_def note_persistence_failure_def)

lemma intent_answers [simp]:
  "ds_run_intent (c_snapshot (complete i c)) = ds_run_intent (c_snapshot c)"
  "ds_run_intent (c_snapshot (fail_with_kind i message kind c)) = ds_run_intent (c_snapshot c)"
  "ds_run_intent (c_snapshot (fail_command i message c)) = ds_run_intent (c_snapshot c)"
  "ds_run_intent (c_snapshot (note_persistence_failure i c)) = ds_run_intent (c_snapshot c)"
  "ds_run_intent (c_snapshot (send x c)) = ds_run_intent (c_snapshot c)"
  by (simp_all add: complete_def fail_with_kind_def fail_command_def note_persistence_failure_def send_def on_snapshot_def record_result_def)

lemma asked_commit [simp]: "asked (fst (commit_durable w i mutate announce rr sn c)) = asked c"
  by (simp add: commit_durable_def announce_commit_def Let_def rebuild_receiver_rows_def sync_saved_names_def
      asked_core [OF same_core_tidy] asked_core [OF same_core_fields(4)])

lemma intent_commit:
  "announces mutate announce \<Longrightarrow>
   ds_run_intent (c_snapshot (fst (commit_durable w i mutate announce rr sn c))) = ds_run_intent (c_snapshot c)"
  by (simp add: commit_durable_def announce_commit_def Let_def rebuild_receiver_rows_def sync_saved_names_def announces_def
      write_rows_def on_session_def on_snapshot_def)

lemma silent_quiet: "quiet_output c x \<Longrightarrow> ask_of x = []"
  by (cases "(c, x)" rule: quiet_output.cases) simp_all

interpretation silence: ctl_commands lower "silent_since before" "\<lambda>i. i = Run_Stopped" for lower before
proof unfold_locales
  fix c c' :: controller and w :: ctl_world and generation devices teardown rs preferred latency profile s
  show "silent_since before c \<Longrightarrow> may_request c devices teardown \<Longrightarrow> generation = saturating_add (c_session_generation c) 1 \<Longrightarrow>
      silent_since before (c\<lparr>c_session_generation := generation,
        c_out := c_out c @ map (\<lambda>r. Out_RememberVolume r (effective_level c r)) rs
          @ [Out_Session (Req_Reconcile generation devices preferred latency profile teardown)]\<rparr>)"
    by (auto simp: silent_since_def asked_def comp_def may_request_def)
  show "silent_since before c \<Longrightarrow> same_core c c' \<Longrightarrow> silent_since before c'"
    using asked_core [of c c'] by (auto simp: silent_since_def same_core_def)
  show "silent_since before c \<Longrightarrow> w_lower w = lower \<Longrightarrow> keeps_durable (c_snapshot c) s \<Longrightarrow>
      silent_since before (publish w (c\<lparr>c_snapshot := s\<rparr>))"
    by (simp add: silent_since_def keeps_durable_def)
next
  fix c :: controller and w :: ctl_world and g ident
  show "silent_since before c \<Longrightarrow> silent_since before (run_listening_test w ident g c)"
    by (simp add: silent_since_def run_listening_test_def Let_def)
qed (auto simp: silent_since_def silent_quiet intent_commit, auto simp: on_snapshot_def)

section \<open>Automatic start\<close>

lemma armed_frame [simp]:
  "c_startup_auto_connect_until (send x c) = c_startup_auto_connect_until c"
  "c_startup_auto_connect_until (publish w c) = c_startup_auto_connect_until c"
  "c_startup_auto_connect_until (on_snapshot f c) = c_startup_auto_connect_until c"
  "c_startup_auto_connect_until (complete i c) = c_startup_auto_connect_until c"
  "c_startup_auto_connect_until (fail_with_kind i message kind c) = c_startup_auto_connect_until c"
  "c_startup_auto_connect_until (note_persistence_failure i c) = c_startup_auto_connect_until c"
  "c_startup_auto_connect_until (tidy_receivers c) = c_startup_auto_connect_until c"
  by (simp_all add: send_def publish_def on_snapshot_def complete_def fail_with_kind_def record_result_def note_persistence_failure_def
      tidy_receivers_def Let_def)

lemma armed_commit [simp]:
  "c_startup_auto_connect_until (fst (commit_durable w i mutate announce rr sn c)) = c_startup_auto_connect_until c"
  by (simp add: commit_durable_def announce_commit_def rebuild_receiver_rows_def sync_saved_names_def fail_command_def Let_def)

interpretation unarmed: ctl_commands lower "\<lambda>c. c_startup_auto_connect_until c = None" "\<lambda>_. True" for lower
proof unfold_locales
qed (auto simp: same_core_def run_listening_test_def fail_command_def Let_def)

lemma latest_append: "latest f (xs @ ys) = (case latest f ys of None \<Rightarrow> latest f xs | Some y \<Rightarrow> Some y)"
  by (induction ys rule: rev_induct) (auto simp: append_assoc [symmetric] simp del: append_assoc split: option.splits)

lemma latest_SomeD: "latest f xs = Some y \<Longrightarrow> \<exists>x \<in> set xs. f x = Some y"
  by (induction xs rule: rev_induct) (auto split: option.splits)

lemma latest_None: "(\<And>x. x \<in> set xs \<Longrightarrow> f x = None) \<Longrightarrow> latest f xs = None"
  using latest_SomeD [of f xs] by (cases "latest f xs") auto

lemma starts_without [simp]: "\<not> starts_group (without_start cmd)"
  by (cases cmd) (simp_all add: starts_group_def)

lemma standing_starts:
  "e \<in> set (standing_edges es) \<Longrightarrow> starts_group (en_command e) \<Longrightarrow>
   \<exists>xs y ys. es = xs @ y # ys \<and> starts_group (en_command y) \<and> SetRunIntent Run_Stopped \<notin> en_command ` set ys"
proof (induction es)
  case (Cons x es)
  show ?case
  proof (cases "e \<in> set (standing_edges es)")
    case True
    then obtain xs y ys where "es = xs @ y # ys" "starts_group (en_command y)" "SetRunIntent Run_Stopped \<notin> en_command ` set ys"
      using Cons by blast
    then show ?thesis by (metis append_Cons)
  next
    case False
    then have "e = x" "SetRunIntent Run_Stopped \<notin> en_command ` set es"
      using Cons.prems by (auto split: if_splits)
    then show ?thesis using Cons.prems(2) by (metis append_Nil)
  qed
qed simp

definition asks_start :: "command_envelope list \<Rightarrow> bool" where
  "asks_start es \<longleftrightarrow> (\<exists>x \<in> set es. en_command x = SetRunIntent Run_Running \<or> starts_group (en_command x))"

lemma as_intent_Some: "as_intent x = Some (i, v) \<longleftrightarrow> en_command x = SetRunIntent v \<and> i = en_id x"
  by (cases "en_command x") (auto simp: as_intent_def)

lemma intent_cases: "(i :: run_intent) \<noteq> Run_Running \<longleftrightarrow> i = Run_Stopped"
  by (cases i) auto

lemma step_silent:
  assumes silent: "silent_since before c" and quiet: "\<And>es. e = Ev_Commands es \<Longrightarrow> \<not> asks_start es" and "e \<noteq> Ev_AutoConnectDue"
  shows "silent_since before (fst (ctl_step w e c))"
proof (cases "\<exists>es. e = Ev_Commands es")
  case True
  then obtain es where es: "e = Ev_Commands es" "\<not> asks_start es" using quiet by blast
  let ?b = "foldl batch_insert batch_new es"
  have intent: "i = Run_Stopped" if "pb_run_intent ?b = Some (ident, i)" for ident i
    using that batch_slots [of ?b es] latest_SomeD [of as_intent es] es(2)
    by (fastforce simp: as_intent_Some asks_start_def intent_cases [symmetric])
  have edge: "\<not> starts_group (en_command x)" if "x \<in> set (pb_edges ?b)" for x
    using that standing_starts [of x es] es(2) by (fastforce simp: batch_standing asks_start_def)
  show ?thesis using es(1) silence.process_batch_keeps [OF silent refl, of ?b] intent edge by auto
next
  case False
  then show ?thesis using silence.supervisor_keeps [OF silent refl] assms(3) by blast
qed

fun ctl_runs :: "(ctl_world \<times> ctl_event) list \<Rightarrow> controller \<Rightarrow> controller" where
  "ctl_runs [] c = c"
| "ctl_runs ((w, e) # rest) c = ctl_runs rest (fst (ctl_step w e c))"

lemma step_unarmed: "c_startup_auto_connect_until c = None \<Longrightarrow> c_startup_auto_connect_until (fst (ctl_step w e c)) = None"
  using unarmed.process_batch_keeps [of c w, OF _ refl] unarmed.auto_connect_keeps [of c w, OF _ refl]
    unarmed.supervisor_keeps [of c w, OF _ refl, of e]
  by (cases "(\<exists>es. e = Ev_Commands es) \<or> e = Ev_AutoConnectDue") auto

lemma runs_unarmed: "c_startup_auto_connect_until c = None \<Longrightarrow> c_startup_auto_connect_until (ctl_runs es c) = None"
  by (induction es c rule: ctl_runs.induct) (simp_all add: step_unarmed)

lemma members_frame:
  "asked (bp_ctl (apply_members w i members p)) = asked (bp_ctl p)"
proof -
  have "commit_durable w i mutate announce rr sn c = (c', outcome) \<Longrightarrow> asked c' = asked c" for mutate announce rr sn c c' outcome
    using asked_commit [of w i mutate announce rr sn c] by simp
  then show ?thesis by (auto simp: apply_members_def on_ctl_def split: prod.split)
qed

lemma stopped_slot: "silent_since (asked (bp_ctl p)) (bp_ctl (slot_run_intent w (i, Run_Stopped) p))"
  by (simp add: slot_run_intent_def silent_since_def Let_def) (simp add: on_snapshot_def)

lemma stop_silences:
  assumes "en_command x = SetRunIntent Run_Stopped" "es = before @ x # after"
    "\<forall>y \<in> set after. as_intent y = None \<and> \<not> starts_group (en_command y)"
  shows "silent_since (asked c) (fst (ctl_step w (Ev_Commands es) c))"
proof -
  let ?b = "foldl batch_insert batch_new es"
  have "latest as_intent es = Some (en_id x, Run_Stopped)"
    using assms latest_append [of as_intent "before @ [x]" after] latest_None [of after as_intent] by (simp add: as_intent_def)
  then have slot: "pb_run_intent ?b = Some (en_id x, Run_Stopped)" using batch_slots [of ?b es] by simp
  have edge: "\<not> starts_group (en_command e)" if queued: "e \<in> set (pb_edges ?b)" for e
  proof
    assume "starts_group (en_command e)"
    then obtain xs y ys where y: "es = xs @ y # ys" "starts_group (en_command y)" "SetRunIntent Run_Stopped \<notin> en_command ` set ys"
      using standing_starts [of e es] queued by (auto simp: batch_standing)
    have "x \<notin> set ys" using y(3) assms(1) by (metis imageI)
    moreover have "y \<notin> set after" "y \<noteq> x" using y(2) assms by (auto simp: starts_group_def)
    ultimately show False using y(1) assms(2) by (auto simp: append_eq_append_conv2 append_eq_Cons_conv Cons_eq_append_conv)
  qed
  have "silent_since (asked c) (bp_ctl (with_slot (slot_run_intent w) (pb_run_intent ?b)
      (with_slot (\<lambda>(ident, members). apply_members w ident members) (pb_desired_members ?b) (batch_start c))))"
    using stopped_slot [of "with_slot (\<lambda>(ident, members). apply_members w ident members) (pb_desired_members ?b) (batch_start c)" w "en_id x"]
    by (simp add: slot with_slot_def members_frame batch_start_def split: option.splits prod.splits)
  then show ?thesis using edge
    by (auto intro!: silence.process_batch_after_scalars [OF _ refl] silence.run_scalars_after_intent)
qed

section \<open>Calibration\<close>

lemma i64_range: "- (2 ^ 63) \<le> sint (x :: i64) \<and> sint x < 2 ^ 63"
  using sint_ge [of x] sint_lt [of x] by simp

lemma to_u64_difference: "m \<le> sint (x :: i64) \<Longrightarrow> m \<ge> - (2 ^ 63) \<Longrightarrow> to_u64 (sint x - m) = Some (word_of_int (sint x - m))"
  using i64_range [of x] by (simp add: to_u64_def)

lemma shifted_delays_total:
  assumes "\<And>r. r \<in> set rs \<Longrightarrow> m \<le> sint (requested_delay_ns profile r)" "m \<ge> - (2 ^ 63)" "om_ok acc" "distinct rs"
  shows "\<exists>delays. shifted_delays profile m rs acc = Some delays \<and> om_ok delays
    \<and> (\<forall>r. om_get delays r = (if r \<in> set rs then Some (word_of_int (sint (requested_delay_ns profile r) - m)) else om_get acc r))"
  using assms
proof (induction rs arbitrary: acc)
  case (Cons r rs)
  let ?acc = "om_insert r (word_of_int (sint (requested_delay_ns profile r) - m)) acc"
  have "\<exists>delays. shifted_delays profile m rs ?acc = Some delays \<and> om_ok delays
    \<and> (\<forall>q. om_get delays q = (if q \<in> set rs then Some (word_of_int (sint (requested_delay_ns profile q) - m)) else om_get ?acc q))"
    by (rule Cons.IH) (use Cons.prems in \<open>auto simp: om_insert_ok\<close>)
  then show ?case using Cons.prems to_u64_difference [of m "requested_delay_ns profile r"]
    by (auto simp: om_get_insert split: if_splits)
qed simp

lemma delay_unat:
  assumes "m \<le> sint (x :: i64)" "m \<ge> - (2 ^ 63)"
  shows "int (unat (word_of_int (sint x - m) :: u64)) = sint x - m"
proof -
  have "int (unat (word_of_int k :: u64)) = k" if "0 \<le> k" "k < 2 ^ 64" for k
    using that by (simp add: unsigned_of_int take_bit_int_eq_self)
  moreover have "sint x - m < 2 ^ 64" using assms(2) i64_range [of x] by simp
  ultimately show ?thesis using assms(1) by (metis diff_ge_0_iff_ge)
qed

lemma normalize_value:
  assumes "finite active" "active \<noteq> {}" "\<forall>r. cp_reference_receiver profile = Some r \<longrightarrow> r \<in> active"
  defines "least \<equiv> Min ((\<lambda>r. sint (requested_delay_ns profile r)) ` active)"
  shows "\<exists>delays. normalize_calibration active profile = Inr \<lparr>ec_minimum_requested_ns = word_of_int least, ec_effective_delay_ns = delays\<rparr> \<and> om_ok delays
    \<and> (\<forall>r. r \<notin> active \<longrightarrow> om_get delays r = None)
    \<and> (\<forall>r \<in> active. \<exists>d. om_get delays r = Some d \<and> int (unat d) = sint (requested_delay_ns profile r) - least)"
proof -
  have low: "least \<le> sint (requested_delay_ns profile r)" if "r \<in> active" for r
    using that assms(1) by (simp add: least_def)
  have "least \<in> (\<lambda>r. sint (requested_delay_ns profile r)) ` active"
    unfolding least_def using assms(1,2) by (intro Min_in) auto
  then have bound: "least \<ge> - (2 ^ 63)" using i64_range by fastforce
  obtain delays where d: "shifted_delays profile least (sorted_ids active) [] = Some delays" "om_ok delays"
    "\<And>r. om_get delays r = (if r \<in> active then Some (word_of_int (sint (requested_delay_ns profile r) - least)) else None)"
    using shifted_delays_total [of "sorted_ids active" least profile "[]"] low bound assms(1) by auto
  have "normalize_calibration active profile = Inr \<lparr>ec_minimum_requested_ns = word_of_int least, ec_effective_delay_ns = delays\<rparr>"
    using assms(2,3) d(1) by (simp add: normalize_calibration_def least_def Let_def is_some_and_def split: option.splits)
  with d(2,3) delay_unat low bound show ?thesis by auto
qed

section \<open>Theorems\<close>

text \<open>
  C2: Every run of the controller is accepted by the automaton over its messages. So, whatever the
  user and the supervisors do: the state is written to disk before it is shown, only when it is valid and
  changed; every snapshot shown has the revision after the previous one and exactly the saved volumes,
  levels, groups, members, endpoint, preset and auto-connect choice; a session is asked for only while the
  machine is awake, under a new generation, for saved members only, and is a teardown exactly when playback is
  stopped; every volume sent is the effective volume of the saved state; a test tone starts only for a snapshot
  that allows it, once per session generation, and is cancelled before a snapshot that does not allow it is shown.
\<close>

theorem controller_refines:
  assumes "ctl_reach lower p profile c"
  shows "\<exists>sp. spec_run lower (spec_start p) (c_out c) = Some sp \<and> sp_saved sp = c_persisted c \<and> mirrors (c_snapshot c) (sp_saved sp)
    \<and> ds_revision (sp_view sp) = ds_revision (c_snapshot c) \<and> ds_run_intent (sp_view sp) = ds_run_intent (c_snapshot c)
    \<and> sp_asleep sp = c_suspended c \<and> sp_generation sp \<le> c_session_generation c \<and> sp_tone sp = c_listening_test c"
proof -
  have "accepted lower (spec_start p) c"
    using assms
  proof induction
    case (step c w e c' stop)
    then show ?case using step_accepted [of lower "spec_start p" c w e] by simp
  qed (rule start_accepted)
  then show ?thesis by (auto simp: accepted_def settled_def tied_def)
qed

definition demo_world :: ctl_world where
  "demo_world = \<lparr>w_now = 0, w_wall = 0, w_lower = (\<lambda>s. s), w_save = (\<lambda>_. True), w_tone = (\<lambda>_. True),
     w_fresh_group = (\<lambda>_. 1), w_has_session = True\<rparr>"

definition demo_mute :: command_envelope where
  "demo_mute = \<lparr>en_id = 7, en_command = SetMuted True, en_confirmation = None\<rparr>"

lemma persisted_frame [simp]:
  "c_persisted (send x c) = c_persisted c" "c_persisted (publish w c) = c_persisted c" "c_persisted (complete i c) = c_persisted c"
  by (simp_all add: send_def publish_def complete_def record_result_def on_snapshot_def Let_def)

lemma persisted_volumes [simp]:
  "c_persisted (forward_effective_volumes w c) = c_persisted c" "c_persisted (remember_effective_volumes w c) = c_persisted c"
  by (cases "w_has_session w"; simp add: forward_effective_volumes_def send_session_def remember_effective_volumes_def sends_eq foldl_idle)+

lemma commit_persists:
  "persisted_validate (w_lower w) (mutate (c_persisted c)) = None \<Longrightarrow> mutate (c_persisted c) \<noteq> c_persisted c \<Longrightarrow> (\<And>n. w_save w n) \<Longrightarrow>
   c_persisted (fst (commit_durable w i mutate announce False False c)) = mutate (c_persisted c)"
  by (simp add: commit_durable_def announce_commit_def Let_def on_snapshot_def)

lemma demo_mute_batch:
  "batch_insert batch_new demo_mute = batch_new\<lparr>pb_drained_total := 1, pb_muted := Some (7, True)\<rparr>"
  by (simp add: batch_insert_def demo_mute_def batch_new_def Let_def)

lemma process_batch_muted:
  assumes "\<not> pt_muted (c_persisted c)"
  shows "c_persisted (fst (process_batch w (batch_new\<lparr>pb_drained_total := n, pb_muted := Some (i, True)\<rparr>) c)) =
    c_persisted (fst (commit_durable w i (\<lambda>q. q\<lparr>pt_muted := True\<rparr>) (\<lambda>s. s\<lparr>ds_muted := True\<rparr>) False False c))"
  using assms
  by (simp add: process_batch_def run_scalars_def with_slot_def batch_new_def slot_muted_def slot_durable_def answer_group_starts_def
      split_beta Let_def)

lemma demo_valid:
  "persisted_validate lower (persisted_default\<lparr>pt_muted := b\<rparr>) = None" "\<not> pt_muted persisted_default"
  "w_save demo_world n" "persisted_default\<lparr>pt_muted := True\<rparr> \<noteq> persisted_default"
  by (simp_all add: persisted_validate_def validate_preferences_def persisted_default_def demo_world_def)

theorem controller_refines_witness:
  "ctl_reach (\<lambda>s. s) persisted_default calibration_default
     (fst (ctl_step demo_world (Ev_Commands [demo_mute]) (from_persisted demo_world persisted_default calibration_default)))
   \<and> (\<exists>sp. spec_run (\<lambda>s. s) (spec_start persisted_default)
         (c_out (fst (ctl_step demo_world (Ev_Commands [demo_mute]) (from_persisted demo_world persisted_default calibration_default)))) = Some sp
       \<and> pt_muted (sp_saved sp))"
  (is "?reach \<and> _")
proof -
  have lower: "w_lower demo_world = (\<lambda>s. s)" by (simp add: demo_world_def)
  have reach: ?reach by (rule ctl_reach.step [OF ctl_reach.start [OF lower] lower surjective_pairing])
  have saved: "c_persisted (from_persisted demo_world persisted_default calibration_default) = persisted_default"
    "c_out (from_persisted demo_world persisted_default calibration_default) = []"
    by (simp_all add: from_persisted_def rebuild_receiver_rows_def tidy_receivers_def Let_def)
  have "c_persisted (fst (process_batch demo_world (foldl batch_insert batch_new [demo_mute]) c)) = persisted_default\<lparr>pt_muted := True\<rparr>"
    if "c_persisted c = persisted_default" for c
    using that by (simp add: demo_mute_batch process_batch_muted demo_valid commit_persists)
  with saved have "pt_muted (c_persisted (fst (ctl_step demo_world (Ev_Commands [demo_mute]) (from_persisted demo_world persisted_default calibration_default))))"
    by simp
  then show ?thesis using reach controller_refines [OF reach] by auto
qed

text \<open>
  C13: Of the commands that the coalescing of a burst keeps, the values, the receiver levels and the edges up to and
  including the first shutdown are answered exactly once, as done or as failed, in the order of execution: the values,
  the receiver levels in order of the receivers, then the edges. Edges behind a shutdown in the same burst are neither
  run nor answered. Nothing else that happens to the controller answers a command.
\<close>

theorem commands_answered:
  "answered (fst (ctl_step w e c)) = answered c
     @ (case e of Ev_Commands es \<Rightarrow> batch_ids (foldl batch_insert batch_new es) | _ \<Rightarrow> [])"
proof (cases "(\<exists>es. e = Ev_Commands es) \<or> e = Ev_AutoConnectDue")
  case True
  then show ?thesis
    using answered_batch [OF edges_of_batch] by (auto simp: apply_startup_auto_connect_def split: option.split)
next
  case False
  then show ?thesis using answers.supervisor_keeps [where c = c and w = w and e = e, OF refl refl] by (auto split: ctl_event.split)
qed

text \<open>
  C22: A burst of commands counts like the newest value for each setting and each receiver level, the
  newest receipt for the master volume, and all edges in order; a stop takes the start out of every group
  activation before it and leaves later ones alone.
\<close>

theorem burst_coalesces:
  "b = foldl batch_insert batch_new es \<Longrightarrow>
   pb_desired_members b = latest as_members es \<and> pb_run_intent b = latest as_intent es
   \<and> pb_master_volume b = latest as_master es \<and> pb_master_receipt b = latest as_master_receipt es
   \<and> pb_muted b = latest as_muted es \<and> pb_endpoint b = latest as_endpoint es
   \<and> pb_latency_preset b = latest as_preset es \<and> pb_auto_connect b = latest as_auto es
   \<and> (\<forall>r. om_get (pb_levels b) r = latest (as_level r) es) \<and> pb_edges b = standing_edges es
   \<and> pb_drained_total b = of_nat (length es)"
  using batch_slots [of b es] by (simp add: batch_level batch_standing batch_total)

theorem burst_coalesces_witness:
  "pb_muted (foldl batch_insert batch_new [demo_mute, demo_mute\<lparr>en_id := 8, en_command := SetMuted False\<rparr>]) = Some (8, False)"
  using burst_coalesces [OF refl, of "[demo_mute, demo_mute\<lparr>en_id := 8, en_command := SetMuted False\<rparr>]"]
  by (simp add: latest_def map_filter_simps as_muted_def)

text \<open>
  C12: A stop wins: after a burst in which nothing later asks for playback, playback is stopped, and every
  session request of that burst is a teardown without devices, whatever came before the stop.
\<close>

theorem stop_wins:
  assumes "en_command x = SetRunIntent Run_Stopped"
    and "\<forall>y \<in> set after. as_intent y = None \<and> \<not> starts_group (en_command y)"
    and "c' = fst (ctl_step w (Ev_Commands (before @ x # after)) c)"
  shows "ds_run_intent (c_snapshot c') = Run_Stopped \<and> (\<exists>rs. asked c' = asked c @ rs \<and> set rs \<subseteq> {([], True)})"
  using stop_silences [OF assms(1) refl assms(2)] assms(3) by (simp add: silent_since_def)

definition demo_group_start :: command_envelope where
  "demo_group_start = \<lparr>en_id = 8, en_command = ActivateSavedGroup 1 True, en_confirmation = None\<rparr>"

definition demo_stop :: command_envelope where
  "demo_stop = \<lparr>en_id = 9, en_command = SetRunIntent Run_Stopped, en_confirmation = None\<rparr>"

theorem stop_wins_witness:
  "ds_run_intent (c_snapshot (fst (ctl_step demo_world (Ev_Commands ([demo_group_start] @ demo_stop # [demo_mute]))
     (from_persisted demo_world persisted_default calibration_default)))) = Run_Stopped"
  using stop_wins [of demo_stop "[demo_mute]", OF _ _ refl, of demo_world "[demo_group_start]" "from_persisted demo_world persisted_default calibration_default"]
  by (simp add: demo_stop_def demo_mute_def as_intent_def starts_group_def)

text \<open>
  C21: Playback never starts by itself but once: when it is stopped and no command of the burst asks to start, a step
  that leaves it running is the automatic start after a program start, within its window, while the machine is
  awake and some wanted receiver has been seen for long enough; and after it the automatic start is never armed again.
\<close>

theorem automatic_start_once:
  assumes "ds_run_intent (c_snapshot c) = Run_Stopped"
    and "ds_run_intent (c_snapshot (fst (ctl_step w e c))) = Run_Running"
    and "\<forall>es. e = Ev_Commands es \<longrightarrow> \<not> asks_start es"
  shows "e = Ev_AutoConnectDue \<and> \<not> c_suspended c
    \<and> (\<exists>until. c_startup_auto_connect_until c = Some until \<and> w_now w \<le> until)
    \<and> (\<exists>r \<in> ds_desired_members (c_snapshot c). may_rejoin (c_rejoin c) (w_now w) r)
    \<and> c_startup_auto_connect_until (ctl_runs later (fst (ctl_step w e c))) = None"
proof -
  have "silent_since (asked c) c" using assms(1) by (simp add: silent_since_def)
  then have auto: "e = Ev_AutoConnectDue"
    using step_silent [of "asked c" c e w] assms(2,3) by (auto simp: silent_since_def)
  let ?d = "publish w (on_snapshot (\<lambda>s. s\<lparr>ds_run_intent := Run_Running\<rparr>) (c\<lparr>c_startup_auto_connect_until := None\<rparr>))"
  have "c_startup_auto_connect_until (request_reconcile w Cause_Membership ?d) = None"
    by (rule unarmed.request_reconcile_keeps) simp
  then show ?thesis
    using auto assms(1,2)
    by (auto simp: apply_startup_auto_connect_def intro!: runs_unarmed split: option.splits if_splits)
qed

definition demo_receiver :: device_id where
  "demo_receiver = DeviceId 0 0 0 0 0 1"

definition demo_restored :: controller where
  "demo_restored = (from_persisted demo_world (persisted_default\<lparr>pt_auto_connect := True, pt_last_desired_members := {demo_receiver}\<rparr>)
     calibration_default)\<lparr>c_rejoin := note_discovered limiter_new 0 demo_receiver\<rparr>"

definition demo_later :: ctl_world where
  "demo_later = demo_world\<lparr>w_now := from_secs 40\<rparr>"

lemma demo_restored_state:
  "ds_run_intent (c_snapshot demo_restored) = Run_Stopped" "ds_desired_members (c_snapshot demo_restored) = {demo_receiver}"
  "c_startup_auto_connect_until demo_restored = Some AUTO_CONNECT_WINDOW" "\<not> c_suspended demo_restored"
  by (simp_all add: demo_restored_def from_persisted_def rebuild_receiver_rows_def tidy_receivers_def write_rows_def on_session_def
      loaded_snapshot_def device_snapshot_default_def sort_for_publication_def demo_world_def Let_def)

lemma requested_snapshot [simp]: "c_snapshot (request_reconcile w cause c) = c_snapshot c"
  by (simp add: request_reconcile_def Let_def remember_effective_volumes_def sends_eq) (simp add: send_def)

theorem automatic_start_once_witness:
  "ds_run_intent (c_snapshot (fst (ctl_step demo_later Ev_AutoConnectDue demo_restored))) = Run_Running
   \<and> c_startup_auto_connect_until (ctl_runs [(demo_later, Ev_RetryDue)] (fst (ctl_step demo_later Ev_AutoConnectDue demo_restored))) = None"
proof -
  have "may_rejoin (c_rejoin demo_restored) (w_now demo_later) demo_receiver"
    by (simp add: demo_restored_def demo_later_def may_rejoin_def rejoin_eligible_at_def note_discovered_def limiter_new_def
        REJOIN_ONLINE_STABLE_FOR_def from_secs_def om_get_def)
  moreover have "w_now demo_later \<le> AUTO_CONNECT_WINDOW"
    by (simp add: demo_later_def AUTO_CONNECT_WINDOW_def from_secs_def)
  ultimately have run: "ds_run_intent (c_snapshot (fst (ctl_step demo_later Ev_AutoConnectDue demo_restored))) = Run_Running"
    by (simp add: apply_startup_auto_connect_def demo_restored_state on_snapshot_def)
  show ?thesis
    using automatic_start_once [OF demo_restored_state(1) run, of "[(demo_later, Ev_RetryDue)]"] run by blast
qed

text \<open>
  Calibration takes the smallest requested delay to zero and keeps all differences: it succeeds for every
  selection that contains the reference receiver, for any requested delays, and gives each selected
  receiver, and no other, its requested delay less the smallest one, which fits an unsigned 64-bit number.
\<close>

theorem calibration_normalizes:
  assumes "finite active" "active \<noteq> {}" "\<forall>r. cp_reference_receiver profile = Some r \<longrightarrow> r \<in> active"
  shows "\<exists>least delays. normalize_calibration active profile = Inr \<lparr>ec_minimum_requested_ns = word_of_int least, ec_effective_delay_ns = delays\<rparr>
    \<and> least = Min ((\<lambda>r. sint (requested_delay_ns profile r)) ` active) \<and> (\<forall>r. r \<notin> active \<longrightarrow> om_get delays r = None)
    \<and> (\<forall>r \<in> active. \<exists>d. om_get delays r = Some d \<and> int (unat d) = sint (requested_delay_ns profile r) - least)"
  using normalize_value [OF assms] by blast

definition demo_profile :: calibration_profile where
  "demo_profile = \<lparr>cp_reference_receiver = Some demo_receiver, cp_requested_delay_ns = [(demo_receiver, - 5), (DeviceId 0 0 0 0 0 2, 7)]\<rparr>"

theorem calibration_normalizes_witness:
  "\<exists>least delays d. normalize_calibration {demo_receiver, DeviceId 0 0 0 0 0 2} demo_profile
      = Inr \<lparr>ec_minimum_requested_ns = word_of_int least, ec_effective_delay_ns = delays\<rparr>
     \<and> om_get delays (DeviceId 0 0 0 0 0 2) = Some d \<and> unat d = 12"
proof -
  have requested: "sint (requested_delay_ns demo_profile demo_receiver) = - 5" "sint (requested_delay_ns demo_profile (DeviceId 0 0 0 0 0 2)) = 7"
    by (simp_all add: requested_delay_ns_def demo_profile_def om_get_def demo_receiver_def)
  have "\<forall>r. cp_reference_receiver demo_profile = Some r \<longrightarrow> r \<in> {demo_receiver, DeviceId 0 0 0 0 0 2}"
    by (simp add: demo_profile_def)
  from calibration_normalizes [OF finite.insertI [OF finite.insertI [OF finite.emptyI]] insert_not_empty this] obtain least delays where
    r: "normalize_calibration {demo_receiver, DeviceId 0 0 0 0 0 2} demo_profile
        = Inr \<lparr>ec_minimum_requested_ns = word_of_int least, ec_effective_delay_ns = delays\<rparr>"
      "least = Min ((\<lambda>r. sint (requested_delay_ns demo_profile r)) ` {demo_receiver, DeviceId 0 0 0 0 0 2})"
      "\<forall>r \<in> {demo_receiver, DeviceId 0 0 0 0 0 2}. \<exists>d. om_get delays r = Some d \<and> int (unat d) = sint (requested_delay_ns demo_profile r) - least"
    by (elim exE conjE)
  have "least = - 5" by (simp add: r(2) requested)
  moreover obtain d where d: "om_get delays (DeviceId 0 0 0 0 0 2) = Some d"
    "int (unat d) = sint (requested_delay_ns demo_profile (DeviceId 0 0 0 0 0 2)) - least"
    using r(3) by (meson insertI1 insertI2)
  ultimately have "int (unat d) = 12" by (simp add: requested)
  then have "unat d = 12" by linarith
  then show ?thesis using r(1) d(1) by (intro exI conjI)
qed

end
