(* ===== verification/Persistence.thy ===== *)
theory Persistence
  imports Device_Snapshot
begin

text \<open>
  The file store of the device state (\<open>backend/persistence.rs\<close>): schema versions 1 and 2, loading with
  quarantine and migration, saving with the carried calibration, and the replacement through a
  temporary file. JSON encoding and decoding are third-party code and enter as functions; what the
  operating system answers is one record of outcomes per call. A write passes through the list of
  disks that a crash could leave behind.
\<close>

section \<open>Documents\<close>

record calibration_state =
  cs_reference :: "device_id option"
  cs_delays_ns :: "(device_id, i64) omap"

definition calibration_state_default :: calibration_state where
  "calibration_state_default = \<lparr>cs_reference = None, cs_delays_ns = []\<rparr>"

definition profile_of_section :: "calibration_state \<Rightarrow> calibration_profile" where
  "profile_of_section s = \<lparr>cp_reference_receiver = cs_reference s, cp_requested_delay_ns = cs_delays_ns s\<rparr>"

definition section_of_profile :: "calibration_profile \<Rightarrow> calibration_state" where
  "section_of_profile p = \<lparr>cs_reference = cp_reference_receiver p, cs_delays_ns = cp_requested_delay_ns p\<rparr>"

record persisted_v2 =
  p2_version :: u32
  p2_master_volume :: volume_t
  p2_muted :: bool
  p2_receiver_levels :: "(device_id, volume_t) omap"
  p2_saved_groups :: "saved_group list"
  p2_last_desired_members :: "device_id set"
  p2_audio_endpoint :: endpoint_preference
  p2_latency_preset :: latency_preset
  p2_auto_connect :: bool
  p2_calibration :: calibration_state

definition v2_from_v1 :: "persisted_state \<Rightarrow> persisted_v2" where
  "v2_from_v1 s =
     \<lparr>p2_version = 2, p2_master_volume = pt_master_volume s, p2_muted = pt_muted s, p2_receiver_levels = pt_receiver_levels s,
      p2_saved_groups = pt_saved_groups s, p2_last_desired_members = pt_last_desired_members s, p2_audio_endpoint = pt_audio_endpoint s,
      p2_latency_preset = pt_latency_preset s, p2_auto_connect = pt_auto_connect s, p2_calibration = calibration_state_default\<rparr>"

definition v2_default :: persisted_v2 where
  "v2_default =
     \<lparr>p2_version = 2, p2_master_volume = VOLUME_DEFAULT_MASTER, p2_muted = False, p2_receiver_levels = [],
      p2_saved_groups = [], p2_last_desired_members = {}, p2_audio_endpoint = SystemDefault,
      p2_latency_preset = Preset_Normal, p2_auto_connect = False, p2_calibration = calibration_state_default\<rparr>"

definition into_v1_projection :: "persisted_v2 \<Rightarrow> persisted_state" where
  "into_v1_projection s =
     \<lparr>pt_version = 1, pt_master_volume = p2_master_volume s, pt_muted = p2_muted s, pt_receiver_levels = p2_receiver_levels s,
      pt_saved_groups = p2_saved_groups s, pt_last_desired_members = p2_last_desired_members s, pt_audio_endpoint = p2_audio_endpoint s,
      pt_latency_preset = p2_latency_preset s, pt_auto_connect = p2_auto_connect s\<rparr>"

definition v2_validate :: "(string \<Rightarrow> string) \<Rightarrow> persisted_v2 \<Rightarrow> invalid_state option" where
  "v2_validate lower s =
     (if p2_version s \<noteq> 2 then Some (Unsupported_Version (p2_version s))
      else validate_preferences lower (p2_latency_preset s) (p2_saved_groups s))"

datatype persist_error =
    Pe_CreateDirectory | Pe_Serialize | Pe_WriteTemporary | Pe_Sync | Pe_Replace
  | Pe_Invalid invalid_state | Pe_MalformedSchemaV2 | Pe_Io

datatype load_outcome =
    Loaded persisted_state
  | FreshDefaults
  | RecoveredCorrupt nat
  | MigratedLegacyVolume persisted_state

fun into_state :: "load_outcome \<Rightarrow> persisted_state" where
  "into_state (Loaded s) = s"
| "into_state (MigratedLegacyVolume s) = s"
| "into_state FreshDefaults = persisted_default"
| "into_state (RecoveredCorrupt _) = persisted_default"

section \<open>JSON\<close>

text \<open>\<open>serde_json\<close>: probing the version, reading either schema, writing either schema.\<close>

record json =
  js_version :: "u8 list \<Rightarrow> u32 option"
  js_read_v1 :: "u8 list \<Rightarrow> persisted_state option"
  js_read_v2 :: "u8 list \<Rightarrow> persisted_v2 option"
  js_write_v1 :: "persisted_state \<Rightarrow> u8 list option"
  js_write_v2 :: "persisted_v2 \<Rightarrow> u8 list option"

text \<open>What was written reads back, and its version field is found.\<close>

definition json_ok :: "json \<Rightarrow> bool" where
  "json_ok js \<longleftrightarrow>
     (\<forall>s b. js_write_v1 js s = Some b \<longrightarrow> js_version js b = Some (pt_version s) \<and> js_read_v1 js b = Some s)
     \<and> (\<forall>s b. js_write_v2 js s = Some b \<longrightarrow> js_version js b = Some (p2_version s) \<and> js_read_v2 js b = Some s)"

datatype state_document = Doc_V1 persisted_state | Doc_V2 persisted_v2
datatype parse_state_error = Unrecognizable | UnknownVersion u32 | MalformedSchemaV2

definition parse_state_document :: "json \<Rightarrow> u8 list \<Rightarrow> parse_state_error + state_document" where
  "parse_state_document js bytes =
     (case js_version js bytes of
        None \<Rightarrow> Inl Unrecognizable
      | Some v \<Rightarrow>
          if v = 1 then (case js_read_v1 js bytes of Some s \<Rightarrow> Inr (Doc_V1 s) | None \<Rightarrow> Inl Unrecognizable)
          else if v = 2 then (case js_read_v2 js bytes of Some s \<Rightarrow> Inr (Doc_V2 s) | None \<Rightarrow> Inl MalformedSchemaV2)
          else Inl (UnknownVersion v))"

section \<open>The legacy volume\<close>

text \<open>\<open>str::parse::<f32>\<close>: optional sign, then \<open>inf\<close>, \<open>infinity\<close>, \<open>nan\<close> in any case, or decimal digits with an optional
  point and exponent; the value is rounded to nearest.\<close>

definition is_dec :: "char \<Rightarrow> bool" where
  "is_dec c \<longleftrightarrow> in_range 48 57 c"

definition dec_value :: "string \<Rightarrow> nat" where
  "dec_value s = foldl (\<lambda>n c. 10 * n + (of_char c - 48)) 0 s"

definition split_sign :: "string \<Rightarrow> bool \<times> string" where
  "split_sign s = (case s of c # r \<Rightarrow> if c = CHR ''-'' then (True, r) else if c = CHR ''+'' then (False, r) else (False, s) | [] \<Rightarrow> (False, s))"

definition parse_exponent :: "string \<Rightarrow> int option" where
  "parse_exponent s =
     (case s of
        [] \<Rightarrow> Some 0
      | c # r \<Rightarrow>
          if ascii_lower c \<noteq> CHR ''e'' then None
          else let (neg, ds) = split_sign r
               in if ds = [] \<or> \<not> list_all is_dec ds then None else Some (if neg then - int (dec_value ds) else int (dec_value ds)))"

definition parse_number :: "string \<Rightarrow> rat option" where
  "parse_number s =
     (let whole = takeWhile is_dec s; r = dropWhile is_dec s;
          (frac, r2) = (case r of c # r1 \<Rightarrow> if c = CHR ''.'' then (takeWhile is_dec r1, dropWhile is_dec r1) else ([], r) | [] \<Rightarrow> ([], r))
      in if whole = [] \<and> frac = [] then None
         else map_option (\<lambda>e. of_nat (dec_value (whole @ frac)) * 10 powi (e - int (length frac))) (parse_exponent r2))"

definition parse_f32 :: "string \<Rightarrow> f32 option" where
  "parse_f32 s =
     (let (neg, r) = split_sign s; word = map ascii_lower r
      in if word = ''inf'' \<or> word = ''infinity'' then Some (if neg then NegInf else PosInf)
         else if word = ''nan'' then Some NaN
         else map_option (\<lambda>v. f32_round (if neg then - v else v)) (parse_number r))"

definition parse_legacy_volume :: "string \<Rightarrow> volume_t option" where
  "parse_legacy_volume raw =
     (case parse_f32 (trim raw) of
        None \<Rightarrow> None
      | Some parsed \<Rightarrow>
          if \<not> f32_is_finite parsed then None
          else case volume_new (f32_clamp parsed f32_zero f32_one) of Inr v \<Rightarrow> Some v | Inl _ \<Rightarrow> None)"

section \<open>Disk\<close>

text \<open>The state file, its temporary, the quarantined files by time stamp and the old program's volume file.\<close>

record disk =
  dk_state :: "u8 list option"
  dk_temporary :: "u8 list option"
  dk_quarantined :: "nat \<Rightarrow> u8 list option"
  dk_legacy_volume :: "string option"

text \<open>Outcomes of the calls of one operation. A failed write has written some bytes.\<close>

record disk_io =
  io_read :: bool
  io_read_legacy :: bool
  io_rename :: bool
  io_create_dir :: bool
  io_open :: bool
  io_write :: "nat option"
  io_flush :: bool
  io_sync :: bool
  io_replace :: bool
  io_remove :: bool
  io_millis :: nat

definition io_fine :: "nat \<Rightarrow> disk_io" where
  "io_fine now = \<lparr>io_read = True, io_read_legacy = True, io_rename = True, io_create_dir = True, io_open = True, io_write = None,
     io_flush = True, io_sync = True, io_replace = True, io_remove = True, io_millis = now\<rparr>"

definition read_state_bytes :: "disk_io \<Rightarrow> disk \<Rightarrow> persist_error + u8 list option" where
  "read_state_bytes io d =
     (case dk_state d of None \<Rightarrow> Inr None | Some bytes \<Rightarrow> if io_read io then Inr (Some bytes) else Inl Pe_Io)"

text \<open>Writing the temporary file byte by byte, then replacing the state file.\<close>

definition written :: "u8 list \<Rightarrow> nat \<Rightarrow> disk \<Rightarrow> disk list" where
  "written bytes n d = map (\<lambda>i. d\<lparr>dk_temporary := Some (take i bytes)\<rparr>) [0..<Suc n]"

definition replace_atomically :: "disk_io \<Rightarrow> u8 list \<Rightarrow> disk \<Rightarrow> (persist_error + unit) \<times> disk list" where
  "replace_atomically io bytes d =
     (if \<not> io_create_dir io then (Inl Pe_CreateDirectory, [d])
      else if \<not> io_open io then (Inl Pe_WriteTemporary, [d])
      else case io_write io of
             Some n \<Rightarrow> (Inl Pe_WriteTemporary, d # written bytes n d)
           | None \<Rightarrow>
               let steps = d # written bytes (length bytes) d; full = d\<lparr>dk_temporary := Some bytes\<rparr>
               in if \<not> io_flush io \<or> \<not> io_sync io then (Inl Pe_Sync, steps)
                  else if \<not> io_replace io
                  then (Inl Pe_Replace, steps @ [if io_remove io then full\<lparr>dk_temporary := None\<rparr> else full])
                  else (Inr (), steps @ [full\<lparr>dk_state := Some bytes, dk_temporary := None\<rparr>]))"

definition carried_calibration :: "json \<Rightarrow> u8 list option \<Rightarrow> calibration_state option" where
  "carried_calibration js found =
     (case found of
        None \<Rightarrow> None
      | Some bytes \<Rightarrow> (case parse_state_document js bytes of Inr (Doc_V2 existing) \<Rightarrow> Some (p2_calibration existing) | _ \<Rightarrow> None))"

definition encode_state :: "json \<Rightarrow> calibration_state option \<Rightarrow> persisted_state \<Rightarrow> u8 list option" where
  "encode_state js carried s =
     (case carried of
        Some calibration \<Rightarrow> js_write_v2 js ((v2_from_v1 s)\<lparr>p2_calibration := calibration\<rparr>)
      | None \<Rightarrow> js_write_v1 js s)"

definition write_atomic_sync :: "json \<Rightarrow> (string \<Rightarrow> string) \<Rightarrow> disk_io \<Rightarrow> persisted_state \<Rightarrow> disk \<Rightarrow> (persist_error + unit) \<times> disk list" where
  "write_atomic_sync js lower io s d =
     (case persisted_validate lower s of
        Some e \<Rightarrow> (Inl (Pe_Invalid e), [d])
      | None \<Rightarrow>
          (case read_state_bytes io d of
             Inl e \<Rightarrow> (Inl e, [d])
           | Inr found \<Rightarrow>
               (case encode_state js (carried_calibration js found) s of
                  None \<Rightarrow> (Inl Pe_Serialize, [d])
                | Some bytes \<Rightarrow> replace_atomically io bytes d)))"

definition write_atomic_sync_v2 :: "json \<Rightarrow> (string \<Rightarrow> string) \<Rightarrow> disk_io \<Rightarrow> persisted_v2 \<Rightarrow> disk \<Rightarrow> (persist_error + unit) \<times> disk list" where
  "write_atomic_sync_v2 js lower io s d =
     (case v2_validate lower s of
        Some e \<Rightarrow> (Inl (Pe_Invalid e), [d])
      | None \<Rightarrow> (case js_write_v2 js s of None \<Rightarrow> (Inl Pe_Serialize, [d]) | Some bytes \<Rightarrow> replace_atomically io bytes d))"

section \<open>Loading\<close>

definition quarantine_corrupt :: "disk_io \<Rightarrow> disk \<Rightarrow> (persist_error + load_outcome) \<times> disk" where
  "quarantine_corrupt io d =
     (case dk_state d of
        Some bytes \<Rightarrow>
          if io_rename io
          then (Inr (RecoveredCorrupt (io_millis io)), d\<lparr>dk_state := None, dk_quarantined := (dk_quarantined d)(io_millis io \<mapsto> bytes)\<rparr>)
          else (Inl Pe_Io, d)
      | None \<Rightarrow> (Inl Pe_Io, d))"

text \<open>A failed write of the migrated state is only logged.\<close>

definition load_missing :: "json \<Rightarrow> (string \<Rightarrow> string) \<Rightarrow> disk_io \<Rightarrow> disk \<Rightarrow> load_outcome \<times> disk" where
  "load_missing js lower io d =
     (case (if io_read_legacy io then dk_legacy_volume d else None) of
        None \<Rightarrow> (FreshDefaults, d)
      | Some raw \<Rightarrow>
          (case parse_legacy_volume raw of
             None \<Rightarrow> (FreshDefaults, d)
           | Some volume \<Rightarrow>
               let s = persisted_default\<lparr>pt_master_volume := volume\<rparr>
               in (MigratedLegacyVolume s, last (snd (write_atomic_sync js lower io s d)))))"

definition load_blocking :: "json \<Rightarrow> (string \<Rightarrow> string) \<Rightarrow> disk_io \<Rightarrow> disk \<Rightarrow> (persist_error + load_outcome) \<times> disk" where
  "load_blocking js lower io d =
     (case read_state_bytes io d of
        Inr (Some bytes) \<Rightarrow>
          (case parse_state_document js bytes of
             Inr (Doc_V1 s) \<Rightarrow> (case persisted_validate lower s of Some e \<Rightarrow> (Inl (Pe_Invalid e), d) | None \<Rightarrow> (Inr (Loaded s), d))
           | Inr (Doc_V2 s) \<Rightarrow>
               (case v2_validate lower s of Some e \<Rightarrow> (Inl (Pe_Invalid e), d) | None \<Rightarrow> (Inr (Loaded (into_v1_projection s)), d))
           | Inl _ \<Rightarrow> quarantine_corrupt io d)
      | Inr None \<Rightarrow> (let (outcome, d1) = load_missing js lower io d in (Inr outcome, d1))
      | Inl _ \<Rightarrow> quarantine_corrupt io d)"

definition load_calibration_blocking :: "json \<Rightarrow> disk_io \<Rightarrow> disk \<Rightarrow> persist_error + calibration_state option" where
  "load_calibration_blocking js io d =
     (case read_state_bytes io d of
        Inl e \<Rightarrow> Inl e
      | Inr found \<Rightarrow> Inr (carried_calibration js found))"

text \<open>The document to merge the calibration into, with the disk after a quarantine.\<close>

definition calibration_base :: "json \<Rightarrow> disk_io \<Rightarrow> disk \<Rightarrow> (persist_error + persisted_v2) \<times> disk" where
  "calibration_base js io d =
     (case read_state_bytes io d of
        Inl e \<Rightarrow> (Inl e, d)
      | Inr None \<Rightarrow> (Inr v2_default, d)
      | Inr (Some bytes) \<Rightarrow>
          (case parse_state_document js bytes of
             Inr (Doc_V1 s) \<Rightarrow> (Inr (v2_from_v1 s), d)
           | Inr (Doc_V2 s) \<Rightarrow> (Inr s, d)
           | Inl (UnknownVersion v) \<Rightarrow> (Inl (Pe_Invalid (Unsupported_Version v)), d)
           | Inl MalformedSchemaV2 \<Rightarrow> (Inl Pe_MalformedSchemaV2, d)
           | Inl Unrecognizable \<Rightarrow>
               (case quarantine_corrupt io d of (Inl e, d1) \<Rightarrow> (Inl e, d1) | (Inr _, d1) \<Rightarrow> (Inr v2_default, d1))))"

definition save_calibration_blocking ::
    "json \<Rightarrow> (string \<Rightarrow> string) \<Rightarrow> disk_io \<Rightarrow> calibration_state option \<Rightarrow> disk \<Rightarrow> (persist_error + unit) \<times> disk list" where
  "save_calibration_blocking js lower io calibration d =
     (case calibration_base js io d of
        (Inl e, d1) \<Rightarrow> (Inl e, [d, d1])
      | (Inr migrated, d1) \<Rightarrow>
          let (r, steps) = write_atomic_sync_v2 js lower io
                (migrated\<lparr>p2_calibration := (case calibration of Some s \<Rightarrow> s | None \<Rightarrow> calibration_state_default)\<rparr>) d1
          in (r, d # steps))"

end
