(* ===== verification/Persistence_Properties.thy ===== *)
theory Persistence_Properties
  imports Persistence
begin

text \<open>
  Properties of the file store: a save that is cut off at any point leaves the old or the new state
  and never touches the calibration, a calibration save keeps all other settings, and nothing that
  stood in the state file is ever deleted by a load.
\<close>

section \<open>Reading what was written\<close>

lemma projection_of_upgrade: "pt_version s = 1 \<Longrightarrow> into_v1_projection ((v2_from_v1 s)\<lparr>p2_calibration := cs\<rparr>) = s"
  by (simp add: into_v1_projection_def v2_from_v1_def)

lemma validate_version: "persisted_validate lower s = None \<Longrightarrow> pt_version s = 1"
  by (auto simp: persisted_validate_def split: if_splits)

lemma v2_validate_version: "v2_validate lower s = None \<Longrightarrow> p2_version s = 2"
  by (auto simp: v2_validate_def split: if_splits)

lemma upgrade_valid: "persisted_validate lower s = None \<Longrightarrow> v2_validate lower ((v2_from_v1 s)\<lparr>p2_calibration := cs\<rparr>) = None"
  by (auto simp: persisted_validate_def v2_validate_def v2_from_v1_def split: if_splits)

lemma validate_calibration: "v2_validate lower (s\<lparr>p2_calibration := cs\<rparr>) = v2_validate lower s"
  by (simp add: v2_validate_def)

lemma read_fine [simp]: "io_read io \<Longrightarrow> read_state_bytes io d = Inr (dk_state d)"
  by (simp add: read_state_bytes_def split: option.split)

lemma parse_v2:
  assumes "json_ok js" "js_write_v2 js s = Some bytes" "p2_version s = 2"
  shows "parse_state_document js bytes = Inr (Doc_V2 s)"
  using assms by (auto simp: json_ok_def parse_state_document_def)

lemma parse_v1:
  assumes "json_ok js" "js_write_v1 js s = Some bytes" "pt_version s = 1"
  shows "parse_state_document js bytes = Inr (Doc_V1 s)"
  using assms by (auto simp: json_ok_def parse_state_document_def)

lemma load_encoded:
  assumes "json_ok js" "persisted_validate lower s = None" "encode_state js carried s = Some bytes" "io_read io"
    "dk_state d = Some bytes"
  shows "fst (load_blocking js lower io d) = Inr (Loaded s) \<and> load_calibration_blocking js io d = Inr carried"
proof (cases carried)
  case None
  then have "parse_state_document js bytes = Inr (Doc_V1 s)"
    using parse_v1 [OF assms(1) _ validate_version [OF assms(2)], of bytes] assms(3) by (simp add: encode_state_def)
  then show ?thesis using None assms by (simp add: load_blocking_def load_calibration_blocking_def carried_calibration_def)
next
  case (Some cs)
  let ?u = "(v2_from_v1 s)\<lparr>p2_calibration := cs\<rparr>"
  have "parse_state_document js bytes = Inr (Doc_V2 ?u)"
    using parse_v2 [OF assms(1), of ?u bytes] Some assms(3) by (simp add: encode_state_def v2_from_v1_def)
  then show ?thesis using Some assms upgrade_valid [OF assms(2), of cs] projection_of_upgrade [OF validate_version [OF assms(2)], of cs]
    by (simp add: load_blocking_def load_calibration_blocking_def carried_calibration_def)
qed

section \<open>Steps of a replacement\<close>

lemma replace_steps:
  assumes "replace_atomically io bytes d = (r, steps)"
  shows "steps \<noteq> []"
    and "x \<in> set steps \<Longrightarrow> dk_quarantined x = dk_quarantined d \<and> dk_legacy_volume x = dk_legacy_volume d"
    and "x \<in> set steps \<Longrightarrow> dk_state x = dk_state d \<or> r = Inr () \<and> dk_state x = Some bytes"
    and "r = Inr () \<Longrightarrow> dk_state (last steps) = Some bytes"
    and "hd steps = d"
  using assms by (auto simp: replace_atomically_def written_def Let_def split: if_splits option.splits)

lemma load_same:
  assumes "dk_state x = dk_state d" "dk_legacy_volume x = dk_legacy_volume d"
  shows "fst (load_blocking js lower io x) = fst (load_blocking js lower io d)"
    and "load_calibration_blocking js io x = load_calibration_blocking js io d"
  using assms
  by (auto simp: load_blocking_def load_calibration_blocking_def read_state_bytes_def quarantine_corrupt_def load_missing_def Let_def
      split: option.splits sum.splits state_document.splits prod.splits)

lemma write_steps:
  assumes js: "json_ok js" and run: "write_atomic_sync js lower io s d = (r, steps)" and "io_read io'"
  shows "x \<in> set steps \<Longrightarrow>
      fst (load_blocking js lower io' x) = fst (load_blocking js lower io' d)
        \<or> r = Inr () \<and> fst (load_blocking js lower io' x) = Inr (Loaded s)"
    and "x \<in> set steps \<Longrightarrow> load_calibration_blocking js io' x = load_calibration_blocking js io' d"
    and "r = Inr () \<Longrightarrow> fst (load_blocking js lower io' (last steps)) = Inr (Loaded s)"
proof -
  consider "r \<noteq> Inr ()" "steps = [d]"
    | bytes where "persisted_validate lower s = None" "io_read io \<or> dk_state d = None"
      "encode_state js (carried_calibration js (dk_state d)) s = Some bytes" "replace_atomically io bytes d = (r, steps)"
    using run by (auto simp: write_atomic_sync_def read_state_bytes_def split: option.splits sum.splits if_splits)
  then have "(\<forall>x \<in> set steps. (fst (load_blocking js lower io' x) = fst (load_blocking js lower io' d)
        \<or> r = Inr () \<and> fst (load_blocking js lower io' x) = Inr (Loaded s))
      \<and> load_calibration_blocking js io' x = load_calibration_blocking js io' d)
    \<and> (r = Inr () \<longrightarrow> fst (load_blocking js lower io' (last steps)) = Inr (Loaded s))"
  proof cases
    case 1
    then show ?thesis by simp
  next
    case 2
    have new: "fst (load_blocking js lower io' x) = Inr (Loaded s) \<and> load_calibration_blocking js io' x = load_calibration_blocking js io' d"
      if "dk_state x = Some bytes" for x
      using load_encoded [OF js 2(1) 2(3) assms(3) that] assms(3) by (simp add: load_calibration_blocking_def)
    show ?thesis
      using replace_steps [OF 2(4)] new load_same(1) [of _ d js lower io'] load_same(2) [of _ d js io'] by blast
  qed
  then show "x \<in> set steps \<Longrightarrow>
      fst (load_blocking js lower io' x) = fst (load_blocking js lower io' d)
        \<or> r = Inr () \<and> fst (load_blocking js lower io' x) = Inr (Loaded s)"
    "x \<in> set steps \<Longrightarrow> load_calibration_blocking js io' x = load_calibration_blocking js io' d"
    "r = Inr () \<Longrightarrow> fst (load_blocking js lower io' (last steps)) = Inr (Loaded s)"
    by blast+
qed

section \<open>Saving a calibration\<close>

lemma loaded_base:
  assumes "fst (load_blocking js lower io' d) = Inr (Loaded s0)" "io_read io'"
  shows "\<exists>bytes doc. dk_state d = Some bytes \<and> parse_state_document js bytes = Inr doc
    \<and> (case doc of Doc_V1 s \<Rightarrow> s = s0 \<and> persisted_validate lower s = None
       | Doc_V2 s \<Rightarrow> into_v1_projection s = s0 \<and> v2_validate lower s = None)"
  using assms
  by (auto simp: load_blocking_def quarantine_corrupt_def load_missing_def Let_def
      split: option.splits sum.splits state_document.splits if_splits prod.splits)

lemma v2_written:
  assumes "json_ok js" "v2_validate lower s = None" "js_write_v2 js s = Some bytes" "io_read io" "dk_state d = Some bytes"
  shows "fst (load_blocking js lower io d) = Inr (Loaded (into_v1_projection s)) \<and> load_calibration_blocking js io d = Inr (Some (p2_calibration s))"
  using parse_v2 [OF assms(1,3) v2_validate_version [OF assms(2)]] assms
  by (simp add: load_blocking_def load_calibration_blocking_def carried_calibration_def)

lemma calibration_steps:
  assumes js: "json_ok js" and before: "fst (load_blocking js lower io' d) = Inr (Loaded s0)" and io': "io_read io'"
    and run: "save_calibration_blocking js lower io calibration d = (r, steps)"
  shows "(\<forall>x \<in> set steps. fst (load_blocking js lower io' x) = Inr (Loaded s0)
      \<and> (load_calibration_blocking js io' x = load_calibration_blocking js io' d
         \<or> r = Inr () \<and> load_calibration_blocking js io' x = Inr (Some (case calibration of Some cs \<Rightarrow> cs | None \<Rightarrow> calibration_state_default))))
    \<and> (r = Inr () \<longrightarrow> load_calibration_blocking js io' (last steps)
        = Inr (Some (case calibration of Some cs \<Rightarrow> cs | None \<Rightarrow> calibration_state_default)))"
proof -
  let ?cs = "case calibration of Some cs \<Rightarrow> cs | None \<Rightarrow> calibration_state_default"
  obtain bytes doc where d: "dk_state d = Some bytes" "parse_state_document js bytes = Inr doc"
    "case doc of Doc_V1 s \<Rightarrow> s = s0 \<and> persisted_validate lower s = None
       | Doc_V2 s \<Rightarrow> into_v1_projection s = s0 \<and> v2_validate lower s = None"
    using loaded_base [OF before io'] by blast
  define base where "base = (case doc of Doc_V1 s \<Rightarrow> v2_from_v1 s | Doc_V2 s \<Rightarrow> s)"
  have base: "into_v1_projection (base\<lparr>p2_calibration := ?cs\<rparr>) = s0" "v2_validate lower (base\<lparr>p2_calibration := ?cs\<rparr>) = None"
    using d(3) projection_of_upgrade [of s0 ?cs] validate_version [of lower s0] upgrade_valid [of lower s0 ?cs] validate_calibration
    by (auto simp: base_def into_v1_projection_def split: state_document.splits)
  consider "r \<noteq> Inr ()" "set steps \<subseteq> {d}"
    | out steps' where "js_write_v2 js (base\<lparr>p2_calibration := ?cs\<rparr>) = Some out" "replace_atomically io out d = (r, steps')" "steps = d # steps'"
    using run d(1,2) base(2)
    by (auto simp: save_calibration_blocking_def calibration_base_def write_atomic_sync_v2_def read_state_bytes_def base_def
        split: if_splits state_document.splits option.splits prod.splits)
  then show ?thesis
  proof cases
    case 1
    then show ?thesis using before by auto
  next
    case 2
    have new: "fst (load_blocking js lower io' x) = Inr (Loaded s0) \<and> load_calibration_blocking js io' x = Inr (Some ?cs)"
      if "dk_state x = Some out" for x
      using v2_written [OF js base(2) 2(1) io' that] base(1) by simp
    have each: "fst (load_blocking js lower io' x) = Inr (Loaded s0)
        \<and> (load_calibration_blocking js io' x = load_calibration_blocking js io' d \<or> r = Inr () \<and> load_calibration_blocking js io' x = Inr (Some ?cs))"
      if "x \<in> set steps'" for x
      using replace_steps(3) [OF 2(2) that]
    proof
      assume "dk_state x = dk_state d"
      then show ?thesis
        using load_same(1) [of x d js lower io'] load_same(2) [of x d js io'] replace_steps(2) [OF 2(2) that] before by simp
    qed (use new in blast)
    have "last steps = last steps'" using replace_steps(1) [OF 2(2)] 2(3) by simp
    then have "load_calibration_blocking js io' (last steps) = Inr (Some ?cs)" if "r = Inr ()"
      using new replace_steps(4) [OF 2(2) that] by simp
    then show ?thesis using each before 2(3) by simp
  qed
qed

section \<open>Theorems\<close>

text \<open>
  C14: a save may fail or be cut off by a crash after any of its file operations and any written byte:
  what the next start loads is what it would have loaded before the save, or, if the save went through, the saved state;
  the stored calibration is the same throughout, and a save that reports success is loaded.
\<close>

theorem save_crash_safe:
  assumes "json_ok js" "write_atomic_sync js lower io s d = (r, steps)" "x \<in> set steps" "io_read io'"
  shows "(fst (load_blocking js lower io' x) = fst (load_blocking js lower io' d)
      \<or> r = Inr () \<and> fst (load_blocking js lower io' x) = Inr (Loaded s))
    \<and> load_calibration_blocking js io' x = load_calibration_blocking js io' d
    \<and> (r = Inr () \<longrightarrow> fst (load_blocking js lower io' (last steps)) = Inr (Loaded s))"
  using write_steps [OF assms(1,2,4)] assms(3) by blast

definition demo_json :: json where
  "demo_json = \<lparr>js_version = (\<lambda>b. if b = [7] then Some 1 else None), js_read_v1 = (\<lambda>b. if b = [7] then Some persisted_default else None),
     js_read_v2 = (\<lambda>_. None), js_write_v1 = (\<lambda>s. if s = persisted_default then Some [7] else None), js_write_v2 = (\<lambda>_. None)\<rparr>"

definition demo_disk :: disk where
  "demo_disk = \<lparr>dk_state = None, dk_temporary = None, dk_quarantined = (\<lambda>_. None), dk_legacy_volume = None\<rparr>"

lemma demo_json_ok: "json_ok demo_json"
  by (simp add: json_ok_def demo_json_def persisted_default_def)

lemma demo_save:
  "write_atomic_sync demo_json (\<lambda>s. s) (io_fine 0) persisted_default demo_disk =
     (Inr (), [demo_disk, demo_disk\<lparr>dk_temporary := Some []\<rparr>, demo_disk\<lparr>dk_temporary := Some [7]\<rparr>, demo_disk\<lparr>dk_state := Some [7]\<rparr>])"
proof -
  have "persisted_validate (\<lambda>s. s) persisted_default = None"
    by (simp add: persisted_validate_def validate_preferences_def persisted_default_def)
  then show ?thesis
    by (simp add: write_atomic_sync_def read_state_bytes_def demo_disk_def io_fine_def encode_state_def carried_calibration_def demo_json_def
        replace_atomically_def written_def Let_def)
qed

theorem save_crash_safe_witness:
  "fst (load_blocking demo_json (\<lambda>s. s) (io_fine 1) (demo_disk\<lparr>dk_state := Some [7]\<rparr>)) = Inr (Loaded persisted_default)
   \<and> load_calibration_blocking demo_json (io_fine 1) (demo_disk\<lparr>dk_temporary := Some [7]\<rparr>) = load_calibration_blocking demo_json (io_fine 1) demo_disk"
  using save_crash_safe [OF demo_json_ok demo_save, of "demo_disk\<lparr>dk_temporary := Some [7]\<rparr>" "io_fine 1"]
  by (simp add: io_fine_def)

text \<open>
  C23: saving a calibration keeps every other setting: on a disk whose state loads, the same state loads after
  the save, after a failed save, and at every point in between; the calibration is the old one until the save
  went through and then the new one.
\<close>

theorem calibration_save_keeps_settings:
  assumes "json_ok js" "fst (load_blocking js lower io' d) = Inr (Loaded s0)" "io_read io'"
    "save_calibration_blocking js lower io calibration d = (r, steps)" "x \<in> set steps"
  shows "fst (load_blocking js lower io' x) = Inr (Loaded s0)
    \<and> (load_calibration_blocking js io' x = load_calibration_blocking js io' d
       \<or> r = Inr () \<and> load_calibration_blocking js io' x = Inr (Some (case calibration of Some cs \<Rightarrow> cs | None \<Rightarrow> calibration_state_default)))
    \<and> (r = Inr () \<longrightarrow> load_calibration_blocking js io' (last steps)
        = Inr (Some (case calibration of Some cs \<Rightarrow> cs | None \<Rightarrow> calibration_state_default)))"
  using calibration_steps [OF assms(1-4)] assms(5) by blast

definition demo_upgraded :: persisted_v2 where
  "demo_upgraded = (v2_from_v1 persisted_default)\<lparr>p2_calibration := calibration_state_default\<rparr>"

definition demo_json2 :: json where
  "demo_json2 = \<lparr>js_version = (\<lambda>b. if b = [7] then Some 1 else if b = [8] then Some 2 else None),
     js_read_v1 = (\<lambda>b. if b = [7] then Some persisted_default else None),
     js_read_v2 = (\<lambda>b. if b = [8] then Some demo_upgraded else None), js_write_v1 = (\<lambda>_. None),
     js_write_v2 = (\<lambda>s. if s = demo_upgraded then Some [8] else None)\<rparr>"

lemma demo_json2_ok: "json_ok demo_json2"
  by (simp add: json_ok_def demo_json2_def demo_upgraded_def v2_from_v1_def)

lemma demo_valid_default: "persisted_validate (\<lambda>s. s) persisted_default = None" "v2_validate (\<lambda>s. s) demo_upgraded = None"
  by (simp_all add: persisted_validate_def v2_validate_def validate_preferences_def persisted_default_def demo_upgraded_def v2_from_v1_def)

lemma demo_document_parse: "parse_state_document demo_json2 [7] = Inr (Doc_V1 persisted_default)"
  by (simp add: parse_state_document_def demo_json2_def)

lemma demo_loads: "fst (load_blocking demo_json2 (\<lambda>s. s) (io_fine 1) (demo_disk\<lparr>dk_state := Some [7]\<rparr>)) = Inr (Loaded persisted_default)"
  by (simp add: load_blocking_def read_state_bytes_def io_fine_def demo_document_parse demo_valid_default)

lemma demo_calibration_save:
  "\<exists>steps. save_calibration_blocking demo_json2 (\<lambda>s. s) (io_fine 0) None (demo_disk\<lparr>dk_state := Some [7]\<rparr>) = (Inr (), steps)
     \<and> demo_disk\<lparr>dk_state := Some [8]\<rparr> = last steps \<and> last steps \<in> set steps"
proof -
  have "(v2_from_v1 persisted_default)\<lparr>p2_calibration := calibration_state_default\<rparr> = demo_upgraded" by (simp add: demo_upgraded_def)
  moreover have "js_write_v2 demo_json2 demo_upgraded = Some [8]" by (simp add: demo_json2_def)
  ultimately show ?thesis
    by (simp add: save_calibration_blocking_def calibration_base_def read_state_bytes_def io_fine_def demo_document_parse write_atomic_sync_v2_def
        demo_valid_default replace_atomically_def written_def Let_def demo_disk_def)
qed

theorem calibration_save_keeps_settings_witness:
  "fst (load_blocking demo_json2 (\<lambda>s. s) (io_fine 1) (demo_disk\<lparr>dk_state := Some [8]\<rparr>)) = Inr (Loaded persisted_default)
   \<and> load_calibration_blocking demo_json2 (io_fine 1) (demo_disk\<lparr>dk_state := Some [8]\<rparr>) = Inr (Some calibration_state_default)"
proof -
  obtain steps where s: "save_calibration_blocking demo_json2 (\<lambda>s. s) (io_fine 0) None (demo_disk\<lparr>dk_state := Some [7]\<rparr>) = (Inr (), steps)"
    "demo_disk\<lparr>dk_state := Some [8]\<rparr> = last steps" "last steps \<in> set steps"
    using demo_calibration_save by blast
  have "io_read (io_fine 1)" by (simp add: io_fine_def)
  from calibration_save_keeps_settings [OF demo_json2_ok demo_loads this s(1,3)] show ?thesis using s(2) by simp
qed

text \<open>
  C39: no load destroys a document: what stood in the state file is still there or has been set aside, and files set
  aside earlier stay, except one with the same time stamp. But a document that can be read and fails its
  validation is neither loaded nor set aside: every start, now and later, ends with that error.
\<close>

theorem load_preserves_documents:
  assumes "dk_state d = Some bytes" "load_blocking js lower io d = (r, d')"
  shows "(dk_state d' = Some bytes \<or> dk_state d' = None \<and> dk_quarantined d' (io_millis io) = Some bytes)
    \<and> (\<forall>t. t \<noteq> io_millis io \<longrightarrow> dk_quarantined d' t = dk_quarantined d t)
    \<and> (\<forall>s e. io_read io \<longrightarrow> parse_state_document js bytes = Inr (Doc_V1 s) \<longrightarrow> persisted_validate lower s = Some e \<longrightarrow>
         r = Inl (Pe_Invalid e) \<and> d' = d)
    \<and> (\<forall>s e. io_read io \<longrightarrow> parse_state_document js bytes = Inr (Doc_V2 s) \<longrightarrow> v2_validate lower s = Some e \<longrightarrow>
         r = Inl (Pe_Invalid e) \<and> d' = d)"
  using assms
  by (auto simp: load_blocking_def read_state_bytes_def quarantine_corrupt_def split: if_splits sum.splits state_document.splits option.splits)

definition demo_json3 :: json where
  "demo_json3 = demo_json\<lparr>js_read_v1 := (\<lambda>_. Some (persisted_default\<lparr>pt_latency_preset := Preset_Low\<rparr>))\<rparr>"

theorem load_preserves_documents_witness:
  "load_blocking demo_json3 (\<lambda>s. s) (io_fine 1) (demo_disk\<lparr>dk_state := Some [7]\<rparr>)
     = (Inl (Pe_Invalid Preset_Not_Enabled), demo_disk\<lparr>dk_state := Some [7]\<rparr>)"
proof -
  let ?s = "persisted_default\<lparr>pt_latency_preset := Preset_Low\<rparr>" and ?d = "demo_disk\<lparr>dk_state := Some [7]\<rparr>"
  have "parse_state_document demo_json3 [7] = Inr (Doc_V1 ?s)" by (simp add: parse_state_document_def demo_json3_def demo_json_def)
  moreover have "persisted_validate (\<lambda>s. s) ?s = Some Preset_Not_Enabled"
    by (simp add: persisted_validate_def validate_preferences_def persisted_default_def)
  moreover have "dk_state ?d = Some [7]" "io_read (io_fine 1)" by (simp_all add: io_fine_def)
  ultimately show ?thesis
    using load_preserves_documents [of ?d "[7]" demo_json3 "\<lambda>s. s" "io_fine 1", OF _ surjective_pairing] by (metis prod.collapse)
qed

end
