(* ===== verification/Session_Transport.thy ===== *)
theory Session_Transport
  imports Controller Stream_Config
begin

text \<open>
  The levels shared between the controller and a session that is being set up (\<open>EffectiveVolumeState\<close> of
  \<open>backend/session.rs\<close>) and the production transport (\<open>backend/transport.rs\<close>): connecting the group,
  setting every level before audio, the release of prepared audio at adoption and the feed of runtime
  events. The protocol client is reached through a trait; its answers, and the levels that are changed
  while a call is waiting for its answer, come from a world. Calls are logged in their order.
\<close>

section \<open>Effective levels\<close>

record effective_volumes =
  ev_version :: u64
  ev_values :: "(device_id, f32) omap"

definition volumes_default :: effective_volumes where
  "volumes_default = \<lparr>ev_version = 0, ev_values = []\<rparr>"

definition volumes_set :: "device_id \<Rightarrow> f32 \<Rightarrow> effective_volumes \<Rightarrow> effective_volumes" where
  "volumes_set receiver volume s =
     (let clamped = f32_clamp volume f32_zero f32_one
      in \<lparr>ev_version = (if is_some_and (om_get (ev_values s) receiver) (\<lambda>old. f32_eq old clamped) then ev_version s else ev_version s + 1),
          ev_values = om_insert receiver clamped (ev_values s)\<rparr>)"

definition volumes_get :: "effective_volumes \<Rightarrow> device_id \<Rightarrow> f32" where
  "volumes_get s receiver = (case om_get (ev_values s) receiver of Some v \<Rightarrow> v | None \<Rightarrow> f32_one)"

text \<open>A snapshot is a copy of version and values.\<close>

definition is_current :: "effective_volumes \<Rightarrow> effective_volumes \<Rightarrow> bool" where
  "is_current s snapshot \<longleftrightarrow> ev_version s = ev_version snapshot"

text \<open>The sender of the release channel is present or taken; it says whether the other half still listens.\<close>

definition release_if_current :: "effective_volumes \<Rightarrow> effective_volumes \<Rightarrow> bool option \<Rightarrow> bool \<times> bool option" where
  "release_if_current s snapshot sender =
     (if ev_version s \<noteq> ev_version snapshot then (False, sender)
      else case sender of Some listening \<Rightarrow> (listening, None) | None \<Rightarrow> (False, None))"

section \<open>The protocol client\<close>

record connect_report =
  cr_primary :: "device_id option"
  cr_connected :: "device_id list"
  cr_failures :: "member_failure list"

datatype client_call =
    Cl_SetBuffer sender_buffer_capacity
  | Cl_SetRenderDelay u32
  | Cl_Connect "device list" "device_id option"
  | Cl_SetVolume device_id f32 bool
  | Cl_StartSingle bool
  | Cl_StartGroup "(device_id, u64) omap" bool
  | Cl_Disconnect
  | Cl_Release

record client_world =
  cw_create :: "user_facing_error option"
  cw_connect :: "connect_report option"
  cw_accepts :: "nat \<Rightarrow> bool"
  cw_starts :: bool
  cw_listening :: bool
  cw_updates :: "nat \<Rightarrow> (device_id \<times> f32) list"
  cw_events :: "device_id list option"
  cw_lost :: u64

record link =
  lk_volumes :: effective_volumes
  lk_calls :: "client_call list"

definition volumes_set_all :: "(device_id \<times> f32) list \<Rightarrow> effective_volumes \<Rightarrow> effective_volumes" where
  "volumes_set_all us s = fold (\<lambda>(r, v). volumes_set r v) us s"

text \<open>While a call waits for its answer, the controller may change levels.\<close>

definition call_client :: "client_world \<Rightarrow> client_call \<Rightarrow> link \<Rightarrow> link" where
  "call_client w call l =
     \<lparr>lk_volumes = volumes_set_all (cw_updates w (length (lk_calls l))) (lk_volumes l), lk_calls = lk_calls l @ [call]\<rparr>"

text \<open>Settings are plain calls that do not wait.\<close>

definition note_client :: "client_call \<Rightarrow> link \<Rightarrow> link" where
  "note_client call l = l\<lparr>lk_calls := lk_calls l @ [call]\<rparr>"

fun set_levels :: "client_world \<Rightarrow> effective_volumes \<Rightarrow> device_id list \<Rightarrow> link \<Rightarrow> bool \<times> link" where
  "set_levels w snapshot [] l = (True, l)"
| "set_levels w snapshot (r # rs) l =
     (let ok = cw_accepts w (length (lk_calls l));
          l1 = call_client w (Cl_SetVolume r (volumes_get snapshot r) ok) l
      in if ok then set_levels w snapshot rs l1 else (False, l1))"

section \<open>Starting\<close>

definition INITIAL_VOLUME_MAX_PASSES :: nat where "INITIAL_VOLUME_MAX_PASSES = 3"

definition NO_MEMBER_REACHABLE :: user_facing_error where
  "NO_MEMBER_REACHABLE = ''no selected receiver could be reached''"
definition AUDIO_START_FAILED :: user_facing_error where
  "AUDIO_START_FAILED = ''the receivers accepted the session but audio could not start''"
definition INITIAL_VOLUME_FAILED :: user_facing_error where
  "INITIAL_VOLUME_FAILED = ''the receivers accepted the session but safe volume setup failed''"

text \<open>Whether the levels settled within the remaining passes.\<close>

fun initial_levels :: "client_world \<Rightarrow> nat \<Rightarrow> device_id list \<Rightarrow> link \<Rightarrow> bool \<times> link" where
  "initial_levels w 0 rs l = (False, l)"
| "initial_levels w (Suc passes) rs l =
     (let snapshot = lk_volumes l; (ok, l1) = set_levels w snapshot rs l
      in if \<not> ok then (False, l1)
         else if is_current (lk_volumes l1) snapshot then (True, l1)
         else initial_levels w passes rs l1)"

definition presentation_delays_for :: "device_id list \<Rightarrow> calibration_profile \<Rightarrow> calibration_error + (device_id, u64) omap" where
  "presentation_delays_for members calibration =
     (let active = set members;
          anchored = calibration\<lparr>cp_reference_receiver :=
            (case cp_reference_receiver calibration of Some r \<Rightarrow> if r \<in> active then Some r else None | None \<Rightarrow> None)\<rparr>
      in case normalize_calibration active anchored of Inl e \<Rightarrow> Inl e | Inr ec \<Rightarrow> Inr (ec_effective_delay_ns ec))"

record session_start_failure =
  sf_error :: user_facing_error
  sf_failures :: "member_failure list"

record group_transport =
  gt_release :: "bool option"
  gt_primary :: device_id
  gt_members :: "device_id set"
  gt_failures :: "member_failure list option"
  gt_events :: "device_id list option"
  gt_lost_seen :: u64

definition start_failed :: "client_world \<Rightarrow> user_facing_error \<Rightarrow> member_failure list \<Rightarrow> link \<Rightarrow> (session_start_failure + group_transport) \<times> link" where
  "start_failed w e fs l = (Inl \<lparr>sf_error = e, sf_failures = fs\<rparr>, call_client w Cl_Disconnect l)"

definition start_audio :: "client_world \<Rightarrow> connect_report \<Rightarrow> device_id \<Rightarrow> calibration_profile \<Rightarrow> link \<Rightarrow> (session_start_failure + group_transport) \<times> link" where
  "start_audio w report primary calibration l =
     (let started = (\<lambda>call. if cw_starts w
            then (Inr \<lparr>gt_release = Some (cw_listening w), gt_primary = primary, gt_members = set (cr_connected report),
                       gt_failures = Some (cr_failures report), gt_events = cw_events w,
                       gt_lost_seen = cw_lost w\<rparr>, call_client w call l)
            else start_failed w AUDIO_START_FAILED (cr_failures report) (call_client w call l))
      in if length (cr_connected report) \<le> 1 then started (Cl_StartSingle (cw_starts w))
         else case presentation_delays_for (cr_connected report) calibration of
                Inl _ \<Rightarrow> start_failed w AUDIO_START_FAILED (cr_failures report) l
              | Inr delays \<Rightarrow> started (Cl_StartGroup delays (cw_starts w)))"

definition start_with_volumes :: "client_world \<Rightarrow> device list \<Rightarrow> device_id option \<Rightarrow> latency_config \<Rightarrow> calibration_profile \<Rightarrow> link
    \<Rightarrow> (session_start_failure + group_transport) \<times> link" where
  "start_with_volumes w desired preferred latency calibration l =
     (case capacity_from_millis (sender_buffer_ms latency) of
        None \<Rightarrow> (Inl \<lparr>sf_error = ''the selected sender buffer capacity is invalid'', sf_failures = []\<rparr>, l)
      | Some capacity \<Rightarrow>
          (case cw_create w of
             Some e \<Rightarrow> (Inl \<lparr>sf_error = e, sf_failures = []\<rparr>, l)
           | None \<Rightarrow>
               let l1 = note_client (Cl_SetRenderDelay (render_delay_ms latency)) (note_client (Cl_SetBuffer capacity) l);
                   l2 = call_client w (Cl_Connect desired preferred) l1
               in case cw_connect w of
                    None \<Rightarrow> start_failed w NO_MEMBER_REACHABLE [] l2
                  | Some report \<Rightarrow>
                      (case cr_primary report of
                         None \<Rightarrow> start_failed w NO_MEMBER_REACHABLE (cr_failures report) l2
                       | Some primary \<Rightarrow>
                           (case initial_levels w INITIAL_VOLUME_MAX_PASSES (cr_connected report) l2 of
                              (False, l3) \<Rightarrow> start_failed w INITIAL_VOLUME_FAILED (cr_failures report) l3
                            | (True, l3) \<Rightarrow> start_audio w report primary calibration l3))))"

section \<open>Activation\<close>

fun activate_passes :: "client_world \<Rightarrow> nat \<Rightarrow> group_transport \<Rightarrow> link \<Rightarrow> (user_facing_error + unit) \<times> group_transport \<times> link" where
  "activate_passes w 0 t l = (Inl INITIAL_VOLUME_FAILED, t, l)"
| "activate_passes w (Suc passes) t l =
     (let snapshot = lk_volumes l; (ok, l1) = set_levels w snapshot (sorted_ids (gt_members t)) l
      in if \<not> ok then (Inl INITIAL_VOLUME_FAILED, t, l1)
         else let (released, sender) = release_if_current (lk_volumes l1) snapshot (gt_release t); t1 = t\<lparr>gt_release := sender\<rparr>
              in if released then (Inr (), t1, note_client Cl_Release l1) else activate_passes w passes t1 l1)"

definition activate :: "client_world \<Rightarrow> group_transport \<Rightarrow> link \<Rightarrow> (user_facing_error + unit) \<times> group_transport \<times> link" where
  "activate w t l = (if gt_release t = None then (Inr (), t, l) else activate_passes w INITIAL_VOLUME_MAX_PASSES t l)"

section \<open>Runtime events\<close>

definition setup_failures :: "group_transport \<Rightarrow> member_failure list \<times> group_transport" where
  "setup_failures t = ((case gt_failures t of Some fs \<Rightarrow> fs | None \<Rightarrow> []), t\<lparr>gt_failures := None\<rparr>)"

text \<open>One event, nothing, or the number of events lost since the last report.\<close>

definition try_runtime_event :: "u64 \<Rightarrow> group_transport \<Rightarrow> (u64 + device_id option) \<times> group_transport" where
  "try_runtime_event lost t =
     (case gt_events t of
        Some (r # rs) \<Rightarrow> (Inr (Some r), t\<lparr>gt_events := Some rs\<rparr>)
      | _ \<Rightarrow> if gt_lost_seen t < lost then (Inl (lost - gt_lost_seen t), t\<lparr>gt_lost_seen := lost\<rparr>) else (Inr None, t))"

end
