(* ===== verification/Transport_Properties.thy ===== *)
theory Transport_Properties
  imports Session_Transport
begin

text \<open>
  What the transport guarantees about levels: audio is released only when every member has last been
  given the level that is current at that moment, and a start that fails leaves nothing connected.
\<close>

section \<open>Versions of the levels\<close>

text \<open>How many of the updates change a level.\<close>

fun level_changes :: "(device_id \<times> f32) list \<Rightarrow> effective_volumes \<Rightarrow> nat" where
  "level_changes [] s = 0"
| "level_changes ((r, v) # us) s =
     (if ev_version (volumes_set r v s) = ev_version s then 0 else 1) + level_changes us (volumes_set r v s)"

lemma level_changes_le: "level_changes us s \<le> length us"
  by (induction us s rule: level_changes.induct) auto

lemma volumes_set_all_simps [simp]:
  "volumes_set_all [] s = s"
  "volumes_set_all (u # us) s = volumes_set_all us (volumes_set (fst u) (snd u) s)"
  "volumes_set_all (us @ vs) s = volumes_set_all vs (volumes_set_all us s)"
  by (simp_all add: volumes_set_all_def case_prod_beta)

lemma volumes_set_ok: "om_ok (ev_values s) \<Longrightarrow> om_ok (ev_values (volumes_set r v s))"
  by (simp add: volumes_set_def Let_def om.insert_ok)

lemma volumes_set_all_ok: "om_ok (ev_values s) \<Longrightarrow> om_ok (ev_values (volumes_set_all us s))"
  by (induction us arbitrary: s) (simp_all add: volumes_set_ok)

lemma volumes_set_version: "ev_version (volumes_set r v s) = ev_version s \<or> ev_version (volumes_set r v s) = ev_version s + 1"
  by (simp add: volumes_set_def Let_def)

lemma volumes_version: "ev_version (volumes_set_all us s) = ev_version s + of_nat (level_changes us s)"
proof (induction us s rule: level_changes.induct)
  case (2 r v us s)
  then show ?case using volumes_set_version [of r v s] by auto
qed simp

lemma volumes_set_quiet:
  assumes "om_ok (ev_values s)" "ev_version (volumes_set r v s) = ev_version s"
  shows "volumes_get (volumes_set r v s) q = volumes_get s q"
proof -
  obtain old where "om_get (ev_values s) r = Some old" "f32_eq old (f32_clamp v f32_zero f32_one)"
    using assms(2) by (cases "om_get (ev_values s) r") (auto simp: volumes_set_def Let_def split: if_splits)
  then show ?thesis using assms(1) f32_eq_imp_eq by (auto simp: volumes_set_def Let_def volumes_get_def om_get_insert)
qed

lemma volumes_quiet:
  assumes "om_ok (ev_values s)" "level_changes us s = 0"
  shows "volumes_get (volumes_set_all us s) q = volumes_get s q"
  using assms
proof (induction us s rule: level_changes.induct)
  case (2 r v us s)
  then show ?case by (simp add: volumes_set_ok volumes_set_quiet split: if_splits)
qed simp

text \<open>Fewer than \<open>2 ^ 64\<close> updates cannot bring an old version back.\<close>

lemma volumes_current:
  assumes "om_ok (ev_values s)" "length us < 2 ^ 64" "ev_version (volumes_set_all us s) = ev_version s"
  shows "volumes_get (volumes_set_all us s) q = volumes_get s q"
proof -
  have bound: "level_changes us s < 2 ^ 64" using level_changes_le [of us s] assms(2) by linarith
  have "of_nat (level_changes us s) = (0 :: u64)" using assms(3) by (simp add: volumes_version)
  then have "level_changes us s = 0" using bound
    by (auto simp: word_of_nat_eq_0_iff dest: dvd_imp_le)
  then show ?thesis using volumes_quiet [OF assms(1)] by blast
qed

section \<open>Passes\<close>

definition updates_between :: "client_world \<Rightarrow> nat \<Rightarrow> nat \<Rightarrow> (device_id \<times> f32) list" where
  "updates_between w i j = concat (map (cw_updates w) [i..<j])"

lemma updates_between_self [simp]: "updates_between w i i = []"
  by (simp add: updates_between_def)

lemma updates_between_step: "i < j \<Longrightarrow> updates_between w i j = cw_updates w i @ updates_between w (Suc i) j"
  by (simp add: updates_between_def upt_conv_Cons)

definition set_call :: "effective_volumes \<Rightarrow> device_id \<Rightarrow> client_call" where
  "set_call snapshot r = Cl_SetVolume r (volumes_get snapshot r) True"

lemma set_levels_result:
  assumes "set_levels w snapshot rs l = (ok, l')"
  shows "lk_volumes l' = volumes_set_all (updates_between w (length (lk_calls l)) (length (lk_calls l'))) (lk_volumes l)"
    and "\<exists>calls. lk_calls l' = lk_calls l @ calls \<and> Cl_Release \<notin> set calls
      \<and> (ok \<longrightarrow> calls = map (set_call snapshot) rs)"
proof -
  have "lk_volumes l' = volumes_set_all (updates_between w (length (lk_calls l)) (length (lk_calls l'))) (lk_volumes l)
    \<and> (\<exists>calls. lk_calls l' = lk_calls l @ calls \<and> Cl_Release \<notin> set calls
      \<and> (ok \<longrightarrow> calls = map (set_call snapshot) rs))"
    using assms
  proof (induction w snapshot rs l rule: set_levels.induct)
    case (2 w snapshot r rs l)
    show ?case
    proof (cases "cw_accepts w (length (lk_calls l))")
      case True
      define l1 where "l1 = call_client w (Cl_SetVolume r (volumes_get snapshot r) True) l"
      have run: "set_levels w snapshot rs l1 = (ok, l')" using 2(2) True by (simp add: l1_def)
      have ih: "lk_volumes l' = volumes_set_all (updates_between w (length (lk_calls l1)) (length (lk_calls l'))) (lk_volumes l1)
          \<and> (\<exists>calls. lk_calls l' = lk_calls l1 @ calls \<and> Cl_Release \<notin> set calls
            \<and> (ok \<longrightarrow> calls = map (set_call snapshot) rs))"
        using 2(1) [OF refl _ _ run] True by (simp add: l1_def)
      then obtain calls where calls: "lk_calls l' = lk_calls l1 @ calls" "Cl_Release \<notin> set calls"
        "ok \<longrightarrow> calls = map (set_call snapshot) rs" by blast
      have "updates_between w (length (lk_calls l)) (length (lk_calls l'))
          = cw_updates w (length (lk_calls l)) @ updates_between w (length (lk_calls l1)) (length (lk_calls l'))"
        using calls(1) by (subst updates_between_step) (simp_all add: l1_def call_client_def)
      then have "lk_volumes l' = volumes_set_all (updates_between w (length (lk_calls l)) (length (lk_calls l'))) (lk_volumes l)"
        using ih by (simp add: l1_def call_client_def)
      moreover have "lk_calls l' = lk_calls l @ set_call snapshot r # calls"
        using calls(1) by (simp add: l1_def call_client_def set_call_def)
      ultimately show ?thesis using calls by (intro conjI exI [of _ "set_call snapshot r # calls"]) (auto simp: set_call_def)
    next
      case False
      then show ?thesis using 2(2) by (auto simp: call_client_def updates_between_def)
    qed
  qed auto
  then show "lk_volumes l' = volumes_set_all (updates_between w (length (lk_calls l)) (length (lk_calls l'))) (lk_volumes l)"
    and "\<exists>calls. lk_calls l' = lk_calls l @ calls \<and> Cl_Release \<notin> set calls
      \<and> (ok \<longrightarrow> calls = map (set_call snapshot) rs)" by blast+
qed

section \<open>What every part of a start keeps\<close>

definition calm :: "link \<Rightarrow> link \<Rightarrow> bool" where
  "calm l l' \<longleftrightarrow> (om_ok (ev_values (lk_volumes l)) \<longrightarrow> om_ok (ev_values (lk_volumes l')))
     \<and> (Cl_Release \<notin> set (lk_calls l) \<longrightarrow> Cl_Release \<notin> set (lk_calls l'))"

lemma calm_refl [simp]: "calm l l"
  by (simp add: calm_def)

lemma calm_trans: "calm l l1 \<Longrightarrow> calm l1 l2 \<Longrightarrow> calm l l2"
  by (simp add: calm_def)

lemma calm_call: "c \<noteq> Cl_Release \<Longrightarrow> calm l (call_client w c l)"
  by (auto simp: calm_def call_client_def volumes_set_all_ok)

lemma calm_note: "c \<noteq> Cl_Release \<Longrightarrow> calm l (note_client c l)"
  by (auto simp: calm_def note_client_def)

lemma calm_set_levels: "set_levels w snapshot rs l = (ok, l') \<Longrightarrow> calm l l'"
  using set_levels_result [of w snapshot rs l ok l'] by (auto simp: calm_def volumes_set_all_ok)

lemma calm_initial: "initial_levels w n rs l = (ok, l') \<Longrightarrow> calm l l'"
proof (induction w n rs l rule: initial_levels.induct)
  case (2 w n rs l)
  obtain ok1 l1 where levels: "set_levels w (lk_volumes l) rs l = (ok1, l1)" by (cases "set_levels w (lk_volumes l) rs l")
  then show ?case using 2 calm_set_levels [OF levels] calm_trans
    by (auto simp: Let_def split: if_splits)
qed auto

lemma calm_failed: "start_failed w e fs l = (r, l') \<Longrightarrow> calm l l' \<and> last (lk_calls l') = Cl_Disconnect \<and> r = Inl \<lparr>sf_error = e, sf_failures = fs\<rparr>"
  using calm_call [of Cl_Disconnect l w] by (auto simp: start_failed_def call_client_def)

lemma calm_start_audio:
  assumes "start_audio w report primary calibration l = (r, l')"
  shows "calm l l' \<and> (\<forall>f. r = Inl f \<longrightarrow> last (lk_calls l') = Cl_Disconnect)
    \<and> (\<forall>t. r = Inr t \<longrightarrow> gt_release t \<noteq> None \<and> gt_members t = set (cr_connected report))"
  using assms calm_call [of "Cl_StartSingle (cw_starts w)" l w] calm_call [of "Cl_StartGroup _ (cw_starts w)" l w]
  by (auto simp: start_audio_def Let_def dest!: calm_failed intro: calm_trans split: if_splits sum.splits)

lemma start_result:
  assumes "start_with_volumes w desired preferred latency calibration l = (r, l')"
  shows "calm l l' \<and> (\<forall>f. r = Inl f \<longrightarrow> lk_calls l' = lk_calls l \<or> last (lk_calls l') = Cl_Disconnect)
    \<and> (\<forall>t. r = Inr t \<longrightarrow> gt_release t \<noteq> None \<and> (\<exists>report. cw_connect w = Some report \<and> gt_members t = set (cr_connected report)))"
proof (cases "capacity_from_millis (sender_buffer_ms latency) = None \<or> cw_create w \<noteq> None")
  case True
  then show ?thesis using assms by (auto simp: start_with_volumes_def split: option.splits)
next
  case False
  then obtain capacity where capacity: "capacity_from_millis (sender_buffer_ms latency) = Some capacity" "cw_create w = None" by auto
  define l2 where "l2 = call_client w (Cl_Connect desired preferred)
    (note_client (Cl_SetRenderDelay (render_delay_ms latency)) (note_client (Cl_SetBuffer capacity) l))"
  have calm2: "calm l l2" unfolding l2_def
    by (meson calm_call calm_note calm_trans client_call.distinct)
  show ?thesis
  proof (cases "\<exists>report primary. cw_connect w = Some report \<and> cr_primary report = Some primary")
    case True
    then obtain report primary where report: "cw_connect w = Some report" "cr_primary report = Some primary" by blast
    obtain ok l3 where levels: "initial_levels w INITIAL_VOLUME_MAX_PASSES (cr_connected report) l2 = (ok, l3)" by fastforce
    have calm3: "calm l l3" using calm_trans [OF calm2 calm_initial [OF levels]] .
    have "(if ok then start_audio w report primary calibration l3 else start_failed w INITIAL_VOLUME_FAILED (cr_failures report) l3) = (r, l')"
      using assms capacity report levels by (cases ok) (simp_all add: start_with_volumes_def l2_def)
    then show ?thesis using calm3 calm_trans report(1) by (auto split: if_splits dest!: calm_start_audio calm_failed)
  next
    case False
    then have "\<exists>fs. start_failed w NO_MEMBER_REACHABLE fs l2 = (r, l')"
      using assms capacity by (auto simp: start_with_volumes_def l2_def Let_def split: option.splits)
    then show ?thesis using calm2 calm_trans by (auto dest!: calm_failed)
  qed
qed

section \<open>Release\<close>

text \<open>The level a receiver was last given, and whether it accepted it.\<close>

fun last_level :: "device_id \<Rightarrow> client_call list \<Rightarrow> (f32 \<times> bool) option" where
  "last_level r [] = None"
| "last_level r (c # cs) =
     (case last_level r cs of
        Some x \<Rightarrow> Some x
      | None \<Rightarrow> (case c of Cl_SetVolume q v ok \<Rightarrow> if q = r then Some (v, ok) else None | _ \<Rightarrow> None))"

lemma last_level_append: "last_level r (cs @ ds) = (case last_level r ds of Some x \<Rightarrow> Some x | None \<Rightarrow> last_level r cs)"
  by (induction cs) (auto split: option.splits)

lemma last_level_pass: "r \<in> set rs \<Longrightarrow> last_level r (map (set_call snapshot) rs) = Some (volumes_get snapshot r, True)"
proof (induction rs)
  case (Cons q rs)
  have "r \<notin> set rs \<Longrightarrow> last_level r (map (set_call snapshot) rs) = None" by (induction rs) (auto simp: set_call_def)
  moreover have "last_level r [set_call snapshot q] = (if q = r then Some (volumes_get snapshot q, True) else None)"
    by (simp add: set_call_def)
  ultimately show ?case using Cons by (cases "r \<in> set rs") auto
qed simp

definition levels_current :: "device_id set \<Rightarrow> link \<Rightarrow> bool" where
  "levels_current members l \<longleftrightarrow>
     (\<exists>calls. lk_calls l = calls @ [Cl_Release] \<and> (\<forall>m\<in>members. last_level m calls = Some (volumes_get (lk_volumes l) m, True)))"

lemma activate_passes_release:
  assumes "activate_passes w n t l = (r, t', l')" "om_ok (ev_values (lk_volumes l))" "finite (gt_members t)"
    "\<And>i j. length (updates_between w i j) < 2 ^ 64" "Cl_Release \<notin> set (lk_calls l)"
  shows "if r = Inr () then levels_current (gt_members t) l' else Cl_Release \<notin> set (lk_calls l')"
  using assms
proof (induction w n t l rule: activate_passes.induct)
  case (2 w n t l)
  obtain ok l1 where levels: "set_levels w (lk_volumes l) (sorted_ids (gt_members t)) l = (ok, l1)" by fastforce
  note calm = calm_set_levels [OF levels]
  obtain released sender where release: "release_if_current (lk_volumes l1) (lk_volumes l) (gt_release t) = (released, sender)" by fastforce
  show ?case
  proof (cases "ok \<and> released")
    case True
    have "ev_version (lk_volumes l1) = ev_version (lk_volumes l)"
      using release True by (auto simp: release_if_current_def split: if_splits)
    then have "volumes_get (lk_volumes l1) q = volumes_get (lk_volumes l) q" for q
      using volumes_current [OF 2(3) 2(5)] set_levels_result(1) [OF levels] by simp
    moreover have "\<exists>calls. lk_calls l1 = lk_calls l @ map (set_call (lk_volumes l)) (sorted_ids (gt_members t))"
      using set_levels_result(2) [OF levels] True by blast
    ultimately have "levels_current (gt_members t) (note_client Cl_Release l1)"
      using 2(4) by (auto simp: levels_current_def note_client_def last_level_append last_level_pass)
    then show ?thesis using 2(2) levels release True by simp
  next
    case False
    then show ?thesis using 2 levels release calm by (auto simp: Let_def calm_def split: if_splits)
  qed
qed auto

text \<open>
  C5: no receiver is ever heard at a stale level: a start releases no audio, and an activation that succeeds releases
  it exactly then, when every member has last been given, and has accepted, the level recorded for it at that
  moment, whatever was changed during the connect, between start and activation, and during the activation.
  An activation that fails releases nothing, and a start that fails after it used the client ends with a disconnect.
\<close>

theorem audio_at_current_levels:
  assumes "start_with_volumes w desired preferred latency calibration \<lparr>lk_volumes = volumes, lk_calls = []\<rparr> = (started, l)"
    "om_ok (ev_values volumes)" "\<And>i j. length (updates_between w i j) < 2 ^ 64"
  shows "Cl_Release \<notin> set (lk_calls l)
    \<and> (\<forall>f. started = Inl f \<longrightarrow> lk_calls l = [] \<or> last (lk_calls l) = Cl_Disconnect)
    \<and> (\<forall>t meanwhile r t' l'. started = Inr t \<longrightarrow> activate w t (l\<lparr>lk_volumes := volumes_set_all meanwhile (lk_volumes l)\<rparr>) = (r, t', l') \<longrightarrow>
        (if r = Inr () then levels_current (gt_members t) l' else Cl_Release \<notin> set (lk_calls l')))"
proof (intro conjI allI impI)
  note start = start_result [OF assms(1)]
  show calm: "Cl_Release \<notin> set (lk_calls l)" using start by (simp add: calm_def)
  show "lk_calls l = [] \<or> last (lk_calls l) = Cl_Disconnect" if "started = Inl f" for f using start that by simp
  fix t meanwhile r t' l'
  assume run: "started = Inr t" "activate w t (l\<lparr>lk_volumes := volumes_set_all meanwhile (lk_volumes l)\<rparr>) = (r, t', l')"
  have "om_ok (ev_values (volumes_set_all meanwhile (lk_volumes l)))" using start assms(2) by (auto simp: calm_def volumes_set_all_ok)
  moreover have "finite (gt_members t)" "gt_release t \<noteq> None" using start run(1) by auto
  moreover have "activate_passes w INITIAL_VOLUME_MAX_PASSES t (l\<lparr>lk_volumes := volumes_set_all meanwhile (lk_volumes l)\<rparr>) = (r, t', l')"
    using run(2) calculation(3) by (simp add: activate_def)
  ultimately show "if r = Inr () then levels_current (gt_members t) l' else Cl_Release \<notin> set (lk_calls l')"
    using activate_passes_release [OF _ _ _ assms(3)] calm by simp
qed

definition demo_speaker :: device_id where "demo_speaker = DeviceId 2 0 0 0 0 1"

definition demo_speaker_client :: client_world where
  "demo_speaker_client = \<lparr>cw_create = None, cw_connect = Some \<lparr>cr_primary = Some demo_speaker, cr_connected = [demo_speaker], cr_failures = []\<rparr>,
     cw_accepts = (\<lambda>_. True), cw_starts = True, cw_listening = True,
     cw_updates = (\<lambda>n. if n = 5 then [(demo_speaker, Finite (1/2))] else []), cw_events = Some [], cw_lost = 0\<rparr>"

lemma demo_updates: "length (updates_between demo_speaker_client i j) < 2 ^ 64"
proof -
  have "length (updates_between demo_speaker_client i j) \<le> (if i \<le> 5 \<and> 5 < j then 1 else 0)"
  proof (induction j)
    case (Suc j)
    then show ?case by (auto simp: updates_between_def demo_speaker_client_def)
  qed (simp add: updates_between_def)
  then show ?thesis by (auto split: if_splits)
qed

definition demo_latency :: latency_config where
  "demo_latency = \<lparr>sender_buffer_ms = 2000, render_delay_ms = 200\<rparr>"

definition demo_uncalibrated :: calibration_profile where
  "demo_uncalibrated = \<lparr>cp_reference_receiver = None, cp_requested_delay_ns = []\<rparr>"

lemma demo_start:
  "start_with_volumes demo_speaker_client [] None demo_latency demo_uncalibrated \<lparr>lk_volumes = volumes_default, lk_calls = []\<rparr>
    = (Inr \<lparr>gt_release = Some True, gt_primary = demo_speaker, gt_members = {demo_speaker}, gt_failures = Some [],
          gt_events = Some [], gt_lost_seen = 0\<rparr>,
       \<lparr>lk_volumes = volumes_default, lk_calls = [Cl_SetBuffer 2000, Cl_SetRenderDelay 200, Cl_Connect [] None,
          Cl_SetVolume demo_speaker f32_one True, Cl_StartSingle True]\<rparr>)"
  by (simp add: start_with_volumes_def start_audio_def demo_speaker_client_def demo_latency_def capacity_from_millis_def MIN_MILLIS_def MAX_MILLIS_def
      note_client_def call_client_def INITIAL_VOLUME_MAX_PASSES_def numeral_3_eq_3 volumes_default_def volumes_get_def om_get_def is_current_def)

theorem audio_at_current_levels_witness:
  "\<exists>t l t' l'. start_with_volumes demo_speaker_client [] None demo_latency demo_uncalibrated \<lparr>lk_volumes = volumes_default, lk_calls = []\<rparr> = (Inr t, l)
     \<and> activate demo_speaker_client t l = (Inr (), t', l') \<and> levels_current {demo_speaker} l' \<and> volumes_get (lk_volumes l') demo_speaker = Finite (1/2)"
proof -
  have ok: "om_ok (ev_values volumes_default)" by (simp add: volumes_default_def om_ok_def om_keys_def)
  obtain r t' l' where run: "activate demo_speaker_client (projr (fst (start_with_volumes demo_speaker_client [] None demo_latency demo_uncalibrated
      \<lparr>lk_volumes = volumes_default, lk_calls = []\<rparr>))) (snd (start_with_volumes demo_speaker_client [] None demo_latency demo_uncalibrated
      \<lparr>lk_volumes = volumes_default, lk_calls = []\<rparr>)) = (r, t', l')" by (metis prod_cases3)
  have "r = Inr () \<and> volumes_get (lk_volumes l') demo_speaker = Finite (1/2)"
    using run unfolding demo_start
    by (auto simp: activate_def demo_speaker_client_def note_client_def call_client_def INITIAL_VOLUME_MAX_PASSES_def numeral_3_eq_3
        volumes_default_def volumes_get_def om_get_def release_if_current_def sorted_ids_def volumes_set_def f32_clamp_def)
  then show ?thesis
    using audio_at_current_levels [OF demo_start ok demo_updates] run unfolding demo_start
    by (auto intro!: exI [of _ t'] exI [of _ l'] dest!: spec [of _ "[]"])
qed

end
