(* ===== verification/Session_Supervisor.thy ===== *)
theory Session_Supervisor
  imports Session_Transport
begin

text \<open>
  The session supervisor (\<open>backend/session.rs\<close>): it owns at most one session, admits generations,
  starts and adopts transports, probes members and tears down. The task is a state machine whose
  phases are the points at which it waits; producers, the clock, the cancellation and the outcome of
  a start are inputs that may arrive between any two of its turns. Transports are named by the number
  of the start that made them, and what they answer comes from a world that sees how much has been
  sent out before. Everything the supervisor does to the outside is logged in order.
\<close>

section \<open>Reconfiguration causes\<close>

datatype reconfigure_cause =
    Rc_Membership | Rc_PrimaryFailure | Rc_LatencyChanged | Rc_ProtocolDesync | Rc_NetworkRebind | Rc_ReceiverAddressChanged
  | Rc_TimingModeChanged | Rc_StreamFormatChanged | Rc_Resume | Rc_SecondaryRejoin | Rc_RemoveFailedTarget | Rc_MasterVolume
  | Rc_ReceiverVolume | Rc_Mute | Rc_CaptureEndpoint | Rc_SecondaryFailure | Rc_DiscoveryMetadata | Rc_SavedGroupEdited
  | Rc_CalibrationChanged

definition requires_full_restart :: "reconfigure_cause \<Rightarrow> bool" where
  "requires_full_restart c \<longleftrightarrow> c \<in> {Rc_Membership, Rc_PrimaryFailure, Rc_LatencyChanged, Rc_ProtocolDesync, Rc_NetworkRebind,
     Rc_ReceiverAddressChanged, Rc_TimingModeChanged, Rc_StreamFormatChanged, Rc_Resume, Rc_SecondaryRejoin, Rc_RemoveFailedTarget,
     Rc_CalibrationChanged}"

text \<open>The inner option is the panic of the rows that restart nothing.\<close>

fun matrix_reason :: "reconfigure_cause \<Rightarrow> restart_reason option" where
  "matrix_reason Rc_Membership = Some MembershipChange"
| "matrix_reason Rc_PrimaryFailure = Some PrimaryReplaced"
| "matrix_reason Rc_LatencyChanged = Some LatencyPresetChanged"
| "matrix_reason Rc_ProtocolDesync = Some DeadRtspRecovered"
| "matrix_reason Rc_NetworkRebind = Some LocalInterfaceChanged"
| "matrix_reason Rc_ReceiverAddressChanged = Some ReceiverAddressChanged_R"
| "matrix_reason Rc_TimingModeChanged = Some TimingModeTransition"
| "matrix_reason Rc_StreamFormatChanged = Some StreamFormatChanged_R"
| "matrix_reason Rc_Resume = Some SystemResume"
| "matrix_reason Rc_SecondaryRejoin = Some SecondaryRejoin_R"
| "matrix_reason Rc_RemoveFailedTarget = Some FailedTargetRemoved"
| "matrix_reason Rc_CalibrationChanged = Some CalibrationChanged_R"
| "matrix_reason _ = None"

definition cause_restart_reason :: "reconfigure_cause \<Rightarrow> restart_reason option option" where
  "cause_restart_reason c = (if \<not> requires_full_restart c then Some None else map_option Some (matrix_reason c))"

section \<open>State\<close>

definition SESSION_REQUEST_CAPACITY :: nat where "SESSION_REQUEST_CAPACITY = 256"
definition PROBE_INTERVAL :: nat where "PROBE_INTERVAL = 2000"
definition TIMEOUT_STREAK_TO_FAIL :: u32 where "TIMEOUT_STREAK_TO_FAIL = 2"
definition TEARDOWN_PER_RECEIVER :: nat where "TEARDOWN_PER_RECEIVER = 2000"
definition TEARDOWN_GROUP :: nat where "TEARDOWN_GROUP = 4000"

datatype health = Healthy | TimedOut

datatype session_stop_reason = Reason_Stopped | Reason_Restarted | Reason_Failed

datatype session_diagnostics_state =
    Diag_Inactive u64 session_stop_reason
  | Diag_Active u64 "device_id option" "device_id set"

record reconcile_params =
  rp_generation :: u64
  rp_desired :: "device list"
  rp_preferred_primary :: "device_id option"
  rp_latency :: latency_config
  rp_calibration :: calibration_profile
  rp_teardown_only :: bool

record health_state =
  hs_streak :: "(device_id, u32) omap"
  hs_failed :: "device_id set"
  hs_urgent :: "device_id set"

definition health_default :: health_state where
  "health_default = \<lparr>hs_streak = [], hs_failed = {}, hs_urgent = {}\<rparr>"

datatype session_send_error = Send_Busy | Send_Closed

datatype sup_output =
    Sup_Update session_update bool
  | Sup_Spawn nat reconcile_params
  | Sup_Abort nat
  | Sup_Join nat
  | Sup_Take nat bool
  | Sup_Activate nat
  | Sup_Stop nat
  | Sup_Drain nat
  | Sup_Probe nat
  | Sup_SetVolume nat device_id f32
  | Sup_Diagnostics session_diagnostics_state

text \<open>The points at which the task waits: in its select, between the requests of a drained burst, in the
  activation of a prepared transport, and its end.\<close>

datatype sup_phase =
    Waiting "session_request option option"
  | Working "session_request list" "reconcile_params option"
  | Activating nat u64
  | Finished

record supervisor =
  sv_phase :: sup_phase
  sv_gate :: u64
  sv_in_flight :: "(nat \<times> u64) option"
  sv_active :: "nat option"
  sv_retained :: "reconcile_params option"
  sv_health :: health_state
  sv_volumes :: effective_volumes
  sv_diagnostics :: session_diagnostics_state
  sv_next_probe :: nat
  sv_queue :: "session_request list"
  sv_closed :: bool
  sv_cancelled :: bool
  sv_starts :: nat
  sv_out :: "sup_output list"

text \<open>Answers by transport and by what has been sent out before.\<close>

record sup_world =
  sw_accepts :: "nat \<Rightarrow> bool"
  sw_primary :: "nat \<Rightarrow> nat \<Rightarrow> device_id option"
  sw_members :: "nat \<Rightarrow> nat \<Rightarrow> device_id set"
  sw_failures :: "nat \<Rightarrow> member_failure list"
  sw_has_diagnostics :: "nat \<Rightarrow> bool"
  sw_events :: "nat \<Rightarrow> nat \<Rightarrow> (u64 + device_id option) list"
  sw_probe :: "nat \<Rightarrow> nat \<Rightarrow> (device_id \<times> (member_failure + health)) list"
  sw_set_volume :: "nat \<Rightarrow> nat \<Rightarrow> member_failure option"

definition supervisor_start :: "nat \<Rightarrow> effective_volumes \<Rightarrow> session_diagnostics_state \<Rightarrow> supervisor" where
  "supervisor_start now volumes diagnostics =
     \<lparr>sv_phase = Waiting None, sv_gate = 0, sv_in_flight = None, sv_active = None, sv_retained = None, sv_health = health_default,
      sv_volumes = volumes, sv_diagnostics = diagnostics, sv_next_probe = now + PROBE_INTERVAL, sv_queue = [], sv_closed = False,
      sv_cancelled = False, sv_starts = 0, sv_out = []\<rparr>"

definition emit :: "sup_output \<Rightarrow> supervisor \<Rightarrow> supervisor" where
  "emit out s = s\<lparr>sv_out := sv_out s @ [out]\<rparr>"

abbreviation sent :: "supervisor \<Rightarrow> nat" where
  "sent s \<equiv> length (sv_out s)"

section \<open>Producers\<close>

fun affects_session_generation :: "session_request \<Rightarrow> bool" where
  "affects_session_generation (Req_Reconcile _ _ _ _ _ _) = True"
| "affects_session_generation Req_NetworkChanged = True"
| "affects_session_generation Req_Suspend = True"
| "affects_session_generation Req_Resume = True"
| "affects_session_generation _ = False"

definition remember_volume :: "device_id \<Rightarrow> f32 \<Rightarrow> supervisor \<Rightarrow> supervisor" where
  "remember_volume receiver volume s = s\<lparr>sv_volumes := volumes_set receiver volume (sv_volumes s)\<rparr>"

text \<open>A level is recorded even when the queue refuses the request.\<close>

definition try_send :: "session_request \<Rightarrow> supervisor \<Rightarrow> (session_send_error + unit) \<times> supervisor" where
  "try_send request s =
     (let s1 = (case request of Req_SetVolume receiver volume \<Rightarrow> remember_volume receiver volume s | _ \<Rightarrow> s)
      in if sv_phase s1 = Finished then (Inl Send_Closed, s1)
         else if SESSION_REQUEST_CAPACITY \<le> length (sv_queue s1) then (Inl Send_Busy, s1)
         else (Inr (), s1\<lparr>sv_queue := sv_queue s1 @ [request]\<rparr>))"

section \<open>Diagnostics, updates and teardown\<close>

definition push_update :: "sup_world \<Rightarrow> session_update \<Rightarrow> supervisor \<Rightarrow> supervisor" where
  "push_update w u s = emit (Sup_Update u (sw_accepts w (sent s))) s"

definition publish_diagnostics :: "session_diagnostics_state \<Rightarrow> supervisor \<Rightarrow> supervisor" where
  "publish_diagnostics d s = emit (Sup_Diagnostics d) (s\<lparr>sv_diagnostics := d\<rparr>)"

definition publish_active_diagnostics :: "u64 \<Rightarrow> device_id \<Rightarrow> device_id set \<Rightarrow> supervisor \<Rightarrow> supervisor" where
  "publish_active_diagnostics generation primary members s =
     publish_diagnostics (Diag_Active generation (if 1 < card members then Some primary else None) members) s"

fun diagnostics_generation :: "session_diagnostics_state \<Rightarrow> u64" where
  "diagnostics_generation (Diag_Inactive g _) = g"
| "diagnostics_generation (Diag_Active g _ _) = g"

definition publish_inactive_diagnostics :: "session_stop_reason \<Rightarrow> supervisor \<Rightarrow> supervisor" where
  "publish_inactive_diagnostics reason s = publish_diagnostics (Diag_Inactive (diagnostics_generation (sv_diagnostics s)) reason) s"

definition abort_start :: "supervisor \<Rightarrow> supervisor" where
  "abort_start s = (case sv_in_flight s of None \<Rightarrow> s | Some (k, _) \<Rightarrow> emit (Sup_Abort k) (s\<lparr>sv_in_flight := None\<rparr>))"

definition stop_active :: "session_stop_reason \<Rightarrow> supervisor \<Rightarrow> supervisor" where
  "stop_active reason s =
     (case sv_active s of
        None \<Rightarrow> s
      | Some k \<Rightarrow> emit (Sup_Stop k) (publish_inactive_diagnostics reason (s\<lparr>sv_active := None\<rparr>)))"

definition supersede :: "session_stop_reason \<Rightarrow> supervisor \<Rightarrow> supervisor" where
  "supersede reason s = stop_active reason (abort_start s)"

section \<open>Generations\<close>

definition admit :: "u64 \<Rightarrow> supervisor \<Rightarrow> bool \<times> supervisor" where
  "admit generation s = (if generation > sv_gate s then (True, s\<lparr>sv_gate := generation\<rparr>) else (False, s))"

definition spawn_start :: "reconcile_params \<Rightarrow> supervisor \<Rightarrow> supervisor" where
  "spawn_start p s = emit (Sup_Spawn (sv_starts s) p) (s\<lparr>sv_in_flight := Some (sv_starts s, rp_generation p), sv_starts := Suc (sv_starts s)\<rparr>)"

definition start_generation :: "sup_world \<Rightarrow> reconcile_params \<Rightarrow> supervisor \<Rightarrow> supervisor" where
  "start_generation w p s =
     (case admit (rp_generation p) s of
        (False, _) \<Rightarrow> s
      | (True, s1) \<Rightarrow>
          let s2 = supersede (if rp_teardown_only p then Reason_Stopped else Reason_Restarted) s1;
              s3 = s2\<lparr>sv_health := health_default, sv_retained := Some p\<rparr>
          in if rp_desired p = []
             then push_update w (if rp_teardown_only p then Ses_Stopped (rp_generation p)
                                 else Ses_Recovering (rp_generation p) DeadRtspRecovered 0) s3
             else spawn_start p (push_update w (Ses_Starting (rp_generation p)) s3))"

definition rebuild_for_cause :: "sup_world \<Rightarrow> restart_reason \<Rightarrow> supervisor \<Rightarrow> supervisor" where
  "rebuild_for_cause w reason s =
     (case sv_retained s of
        None \<Rightarrow> s
      | Some p \<Rightarrow> start_generation w (p\<lparr>rp_generation := rp_generation p + 1\<rparr>) (push_update w (Ses_Recovering (sv_gate s) reason 0) s))"

section \<open>Health\<close>

definition member_failed_error :: "member_failure \<Rightarrow> user_facing_error" where
  "member_failed_error f = ''receiver rejected '' @ setup_phase_debug (mf_phase f) @ '' request''"

definition control_failed_error :: "member_failure \<Rightarrow> user_facing_error" where
  "control_failed_error f = ''receiver refused a '' @ setup_phase_debug (mf_phase f) @ '' control request; it keeps streaming''"

definition probe_timeout_error :: user_facing_error where
  "probe_timeout_error = ''the receiver stopped answering health probes''"

text \<open>At most the capacity of events is taken from the feed; it ends at its first gap.\<close>

fun drain_runtime_events :: "nat \<Rightarrow> (u64 + device_id option) list \<Rightarrow> device_id set \<Rightarrow> device_id set" where
  "drain_runtime_events (Suc n) (Inr (Some r) # answers) urgent = drain_runtime_events n answers (insert r urgent)"
| "drain_runtime_events _ _ urgent = urgent"

text \<open>What one answer says: the bookkeeping after it and whether the receiver has now failed.\<close>

definition judge_answer :: "device_id set \<Rightarrow> device_id \<Rightarrow> member_failure + health \<Rightarrow> health_state \<Rightarrow> health_state \<times> user_facing_error option" where
  "judge_answer urgent receiver answer h =
     (case answer of
        Inr Healthy \<Rightarrow> (h\<lparr>hs_streak := om_remove receiver (hs_streak h)\<rparr>, None)
      | Inr TimedOut \<Rightarrow>
          let streak = saturating_add (case om_get (hs_streak h) receiver of Some n \<Rightarrow> n | None \<Rightarrow> 0) 1
          in (h\<lparr>hs_streak := om_insert receiver streak (hs_streak h)\<rparr>,
              if TIMEOUT_STREAK_TO_FAIL \<le> streak \<or> receiver \<in> urgent then Some probe_timeout_error else None)
      | Inl failure \<Rightarrow> (h, Some (member_failed_error failure)))"

definition probe_answer :: "sup_world \<Rightarrow> device_id option \<Rightarrow> device_id set \<Rightarrow> device_id \<times> (member_failure + health) \<Rightarrow> supervisor \<Rightarrow> supervisor" where
  "probe_answer w primary urgent result s =
     (case result of (receiver, answer) \<Rightarrow>
        if receiver \<in> hs_failed (sv_health s) then s
        else case judge_answer urgent receiver answer (sv_health s) of
               (h, None) \<Rightarrow> s\<lparr>sv_health := h\<rparr>
             | (h, Some e) \<Rightarrow>
                 push_update w (Ses_MemberFailed (sv_gate s) receiver (primary = Some receiver) e)
                   (s\<lparr>sv_health := h\<lparr>hs_streak := om_remove receiver (hs_streak h), hs_failed := insert receiver (hs_failed h)\<rparr>\<rparr>))"

definition drain_feed :: "sup_world \<Rightarrow> nat \<Rightarrow> supervisor \<Rightarrow> supervisor" where
  "drain_feed w k s =
     emit (Sup_Drain k) (s\<lparr>sv_health := (sv_health s)\<lparr>hs_urgent :=
       drain_runtime_events SESSION_REQUEST_CAPACITY (sw_events w k (sent s)) (hs_urgent (sv_health s))\<rparr>\<rparr>)"

definition run_probe_cycle :: "sup_world \<Rightarrow> supervisor \<Rightarrow> supervisor" where
  "run_probe_cycle w s =
     (case sv_active s of
        None \<Rightarrow> s
      | Some k \<Rightarrow>
          let s1 = drain_feed w k s;
              primary = sw_primary w k (sent s1);
              results = sw_probe w k (sent s1);
              urgent = hs_urgent (sv_health s1);
              s2 = emit (Sup_Probe k) (s1\<lparr>sv_health := (sv_health s1)\<lparr>hs_urgent := {}\<rparr>\<rparr>)
          in fold (probe_answer w primary urgent) results s2)"

section \<open>Requests\<close>

definition apply_set_volume :: "sup_world \<Rightarrow> device_id \<Rightarrow> supervisor \<Rightarrow> supervisor" where
  "apply_set_volume w receiver s =
     (case sv_active s of
        None \<Rightarrow> s
      | Some k \<Rightarrow>
          if receiver \<notin> sw_members w k (sent s) then s
          else let s1 = emit (Sup_SetVolume k receiver (volumes_get (sv_volumes s) receiver)) s
               in case sw_set_volume w k (sent s) of
                    None \<Rightarrow> s1
                  | Some failure \<Rightarrow> push_update w (Ses_MemberControlFailed (sv_gate s1) receiver (control_failed_error failure)) s1)"

definition join_start :: "supervisor \<Rightarrow> supervisor" where
  "join_start s = (case sv_in_flight s of None \<Rightarrow> s | Some (k, _) \<Rightarrow> emit (Sup_Join k) (abort_start s))"

definition apply_suspend :: "sup_world \<Rightarrow> supervisor \<Rightarrow> supervisor" where
  "apply_suspend w s =
     (let had_session = sv_in_flight s \<noteq> None \<or> sv_active s \<noteq> None;
          s1 = stop_active Reason_Restarted (join_start s);
          s2 = s1\<lparr>sv_health := health_default\<rparr>
      in if had_session then push_update w (Ses_Stopped (sv_gate s2)) s2 else s2)"

fun apply_inline_request :: "sup_world \<Rightarrow> session_request \<Rightarrow> supervisor \<Rightarrow> supervisor" where
  "apply_inline_request w (Req_Reconcile _ _ _ _ _ _) s = s"
| "apply_inline_request w (Req_SetVolume receiver _) s = apply_set_volume w receiver s"
| "apply_inline_request w Req_Probe s = run_probe_cycle w s"
| "apply_inline_request w Req_NetworkChanged s = rebuild_for_cause w LocalInterfaceChanged s"
| "apply_inline_request w Req_Suspend s = apply_suspend w s"
| "apply_inline_request w Req_Resume s = rebuild_for_cause w SystemResume s"

text \<open>The newest reconcile of a burst and its other requests in their order.\<close>

fun coalesce :: "session_request list \<Rightarrow> session_request list \<Rightarrow> reconcile_params option \<Rightarrow> session_request list \<times> reconcile_params option" where
  "coalesce [] inline latest = (inline, latest)"
| "coalesce (Req_Reconcile generation desired primary latency calibration teardown # pending) inline latest =
     coalesce pending inline
       (if (case latest of None \<Rightarrow> True | Some current \<Rightarrow> generation > rp_generation current)
        then Some \<lparr>rp_generation = generation, rp_desired = desired, rp_preferred_primary = primary, rp_latency = latency,
                   rp_calibration = calibration, rp_teardown_only = teardown\<rparr>
        else latest)"
| "coalesce (other # pending) inline latest = coalesce pending (inline @ [other]) latest"

section \<open>The task\<close>

definition sup_finish :: "supervisor \<Rightarrow> supervisor" where
  "sup_finish s = (stop_active Reason_Stopped (abort_start s))\<lparr>sv_phase := Finished\<rparr>"

definition begin_request :: "session_request option \<Rightarrow> supervisor \<Rightarrow> supervisor" where
  "begin_request request s =
     (case request of
        None \<Rightarrow> sup_finish s
      | Some first \<Rightarrow>
          let (inline, latest) = coalesce (first # sv_queue s) [] None
          in s\<lparr>sv_queue := [], sv_phase := Working inline latest\<rparr>)"

text \<open>A start that ended: no answer, a failure, or a transport.\<close>

definition adopt :: "sup_world \<Rightarrow> (session_start_failure + unit) option \<Rightarrow> nat \<Rightarrow> u64 \<Rightarrow> supervisor \<Rightarrow> supervisor" where
  "adopt w outcome k generation s =
     (let s1 = emit (Sup_Take k (case outcome of Some (Inr _) \<Rightarrow> True | _ \<Rightarrow> False)) (s\<lparr>sv_in_flight := None\<rparr>)
      in case outcome of
           Some (Inr _) \<Rightarrow>
             if generation = sv_gate s1 then emit (Sup_Activate k) (s1\<lparr>sv_phase := Activating k generation\<rparr>)
             else emit (Sup_Stop k) s1
         | Some (Inl _) \<Rightarrow> if generation = sv_gate s1 then push_update w (Ses_Recovering generation DeadRtspRecovered 0) s1 else s1
         | None \<Rightarrow> s1)"

definition activation_failed :: "sup_world \<Rightarrow> nat \<Rightarrow> u64 \<Rightarrow> supervisor \<Rightarrow> supervisor" where
  "activation_failed w k generation s =
     push_update w (Ses_Recovering generation DeadRtspRecovered 0) (emit (Sup_Stop k) (s\<lparr>sv_phase := Waiting None\<rparr>))"

definition activated :: "sup_world \<Rightarrow> nat \<Rightarrow> nat \<Rightarrow> u64 \<Rightarrow> supervisor \<Rightarrow> supervisor" where
  "activated w now k generation s =
     (case sw_primary w k (sent s) of
        None \<Rightarrow> activation_failed w k generation s
      | Some primary \<Rightarrow>
          let members = sw_members w k (sent s);
              s1 = (if sw_has_diagnostics w k then publish_active_diagnostics generation primary members s else s);
              s2 = push_update w (Ses_Active generation primary members (sw_failures w k)) s1;
              s3 = drain_feed w k s2
          in s3\<lparr>sv_next_probe := (if card (hs_urgent (sv_health s2)) < card (hs_urgent (sv_health s3)) then now else sv_next_probe s3),
                sv_active := Some k, sv_phase := Waiting None\<rparr>)"

text \<open>A request that arrives while a transport is activated.\<close>

fun is_ignored_in_activation :: "u64 \<Rightarrow> session_request \<Rightarrow> bool" where
  "is_ignored_in_activation generation (Req_SetVolume _ _) = True"
| "is_ignored_in_activation generation Req_Probe = True"
| "is_ignored_in_activation generation (Req_Reconcile newer _ _ _ _ _) = (newer \<le> generation)"
| "is_ignored_in_activation generation _ = False"

definition superseded :: "nat \<Rightarrow> session_request option \<Rightarrow> supervisor \<Rightarrow> supervisor" where
  "superseded k request s = emit (Sup_Stop k) (s\<lparr>sv_phase := Waiting (Some request)\<rparr>)"

datatype sup_input =
    In_Send session_request
  | In_RememberVolume device_id f32
  | In_DropHandles
  | In_Cancel
  | In_Turn
  | In_Outcome "(session_start_failure + unit) option"
  | In_Recv
  | In_Probe nat nat
  | In_Activated nat "user_facing_error option"
  | In_Deadline

text \<open>One step, \<open>None\<close> where the input cannot occur. The arms of a select are taken in their written
  order: cancellation, then the outcome or the deadline, then requests, then the probe or the activation.\<close>

definition turn :: "sup_world \<Rightarrow> supervisor \<Rightarrow> supervisor option" where
  "turn w s =
     (case sv_phase s of
        Waiting pending \<Rightarrow>
          if sv_cancelled s then Some (sup_finish s)
          else map_option (\<lambda>request. begin_request request (s\<lparr>sv_phase := Waiting None\<rparr>)) pending
      | Working (request # inline) latest \<Rightarrow> Some (apply_inline_request w request (s\<lparr>sv_phase := Working inline latest\<rparr>))
      | Working [] (Some p) \<Rightarrow> Some (start_generation w p (s\<lparr>sv_phase := Waiting None\<rparr>))
      | Working [] None \<Rightarrow> Some (s\<lparr>sv_phase := Waiting None\<rparr>)
      | Activating k _ \<Rightarrow> if sv_cancelled s then Some (sup_finish (emit (Sup_Stop k) s)) else None
      | Finished \<Rightarrow> None)"

definition receive :: "supervisor \<Rightarrow> supervisor option" where
  "receive s =
     (if sv_cancelled s then None
      else case sv_phase s of
        Waiting None \<Rightarrow>
          (case sv_queue s of
             request # rest \<Rightarrow> Some (begin_request (Some request) (s\<lparr>sv_queue := rest\<rparr>))
           | [] \<Rightarrow> if sv_closed s then Some (begin_request None s) else None)
      | Activating k generation \<Rightarrow>
          (case sv_queue s of
             request # rest \<Rightarrow>
               Some (if is_ignored_in_activation generation request then s\<lparr>sv_queue := rest\<rparr> else superseded k (Some request) (s\<lparr>sv_queue := rest\<rparr>))
           | [] \<Rightarrow> if sv_closed s then Some (superseded k None s) else None)
      | _ \<Rightarrow> None)"

abbreviation quiet :: "supervisor \<Rightarrow> bool" where
  "quiet s \<equiv> sv_queue s = [] \<and> \<not> sv_closed s \<and> \<not> sv_cancelled s"

fun sup_step :: "sup_world \<Rightarrow> sup_input \<Rightarrow> supervisor \<Rightarrow> supervisor option" where
  "sup_step w (In_Send request) s = (if sv_closed s then None else Some (snd (try_send request s)))"
| "sup_step w (In_RememberVolume receiver volume) s = (if sv_closed s then None else Some (remember_volume receiver volume s))"
| "sup_step w In_DropHandles s = Some (s\<lparr>sv_closed := True\<rparr>)"
| "sup_step w In_Cancel s = Some (s\<lparr>sv_cancelled := True\<rparr>)"
| "sup_step w In_Turn s = turn w s"
| "sup_step w (In_Outcome outcome) s =
     (case (sv_phase s, sv_in_flight s) of
        (Waiting None, Some (k, generation)) \<Rightarrow> if sv_cancelled s then None else Some (adopt w outcome k generation s)
      | _ \<Rightarrow> None)"
| "sup_step w In_Recv s = receive s"
| "sup_step w (In_Probe now after) s =
     (if sv_phase s = Waiting None \<and> quiet s \<and> sv_next_probe s \<le> now \<and> now \<le> after
      then Some ((run_probe_cycle w s)\<lparr>sv_next_probe := after + PROBE_INTERVAL\<rparr>) else None)"
| "sup_step w (In_Activated now result) s =
     (case sv_phase s of
        Activating k generation \<Rightarrow>
          if \<not> quiet s then None
          else Some (case result of None \<Rightarrow> activated w now k generation s | Some _ \<Rightarrow> activation_failed w k generation s)
      | _ \<Rightarrow> None)"
| "sup_step w In_Deadline s =
     (case sv_phase s of
        Activating k generation \<Rightarrow> if sv_cancelled s then None else Some (activation_failed w k generation s)
      | _ \<Rightarrow> None)"

fun sup_run :: "sup_world \<Rightarrow> sup_input list \<Rightarrow> supervisor \<Rightarrow> supervisor option" where
  "sup_run w [] s = Some s"
| "sup_run w (i # is) s = (case sup_step w i s of None \<Rightarrow> None | Some s1 \<Rightarrow> sup_run w is s1)"

end
