(* ===== verification/Session_Properties.thy ===== *)
theory Session_Properties
  imports Session_Supervisor
begin

text \<open>
  Properties of the session supervisor: everything it does is accepted by a ledger of one session,
  members fail by the documented probe policy, the newest request wins, and the task ends.
\<close>

section \<open>The restart matrix\<close>

text \<open>Looking a reason up never panics, and exactly the restarting causes have one.\<close>

lemma restart_matrix_total: "cause_restart_reason c \<noteq> None"
  by (cases c) (simp_all add: cause_restart_reason_def requires_full_restart_def)

lemma restart_matrix_rows: "card {c. requires_full_restart c} = 12"
  unfolding requires_full_restart_def Collect_mem_eq by simp

section \<open>Invariants of runs\<close>

locale sup_invariant =
  fixes inv :: "supervisor \<Rightarrow> bool"
  assumes step_keeps: "inv s \<Longrightarrow> sup_step w i s = Some s' \<Longrightarrow> inv s'"
begin

lemma sup_run_keeps: "inv s \<Longrightarrow> sup_run w is s = Some s' \<Longrightarrow> inv s'"
  by (induction "is" arbitrary: s) (auto split: option.splits dest: step_keeps)

end

section \<open>The ledger of one session\<close>

text \<open>
  What an observer of the supervisor may rely on: at most one start or one transport exists, a start
  belongs to the generation announced last, a transport is used only between its activation and its
  stop, generations never go back, and a member fails at most once in a generation.
\<close>

record session_ledger =
  sl_generation :: u64
  sl_starts :: nat
  sl_starting :: "(nat \<times> u64) option"
  sl_held :: "(nat \<times> u64) option"
  sl_live :: bool
  sl_failed :: "device_id set"

definition ledger_start :: session_ledger where
  "ledger_start = \<lparr>sl_generation = 0, sl_starts = 0, sl_starting = None, sl_held = None, sl_live = False, sl_failed = {}\<rparr>"

abbreviation idle :: "session_ledger \<Rightarrow> bool" where
  "idle l \<equiv> sl_starting l = None \<and> sl_held l = None"

definition in_use :: "nat \<Rightarrow> session_ledger \<Rightarrow> bool" where
  "in_use k l \<longleftrightarrow> sl_live l \<and> map_option fst (sl_held l) = Some k"

fun ledger_update :: "session_update \<Rightarrow> session_ledger \<Rightarrow> session_ledger option" where
  "ledger_update (Ses_Starting g) l = (if sl_generation l < g \<and> idle l then Some (l\<lparr>sl_generation := g, sl_failed := {}\<rparr>) else None)"
| "ledger_update (Ses_Active g _ _ _) l =
     (if g = sl_generation l \<and> map_option snd (sl_held l) = Some g \<and> \<not> sl_live l then Some (l\<lparr>sl_live := True\<rparr>) else None)"
| "ledger_update (Ses_MemberControlFailed g _ _) l = (if g = sl_generation l \<and> sl_live l then Some l else None)"
| "ledger_update (Ses_MemberFailed g r _ _) l =
     (if g = sl_generation l \<and> sl_live l \<and> r \<notin> sl_failed l then Some (l\<lparr>sl_failed := insert r (sl_failed l)\<rparr>) else None)"
| "ledger_update (Ses_Recovering g _ _) l =
     (if g = sl_generation l \<or> sl_generation l < g \<and> idle l then Some (l\<lparr>sl_generation := g\<rparr>) else None)"
| "ledger_update (Ses_Stopped g) l = (if sl_generation l \<le> g \<and> idle l then Some (l\<lparr>sl_generation := g\<rparr>) else None)"

fun ledger_step :: "sup_output \<Rightarrow> session_ledger \<Rightarrow> session_ledger option" where
  "ledger_step (Sup_Update u _) l = ledger_update u l"
| "ledger_step (Sup_Spawn k p) l =
     (if idle l \<and> k = sl_starts l \<and> rp_generation p = sl_generation l \<and> rp_desired p \<noteq> []
      then Some (l\<lparr>sl_starting := Some (k, rp_generation p), sl_starts := Suc k\<rparr>) else None)"
| "ledger_step (Sup_Abort k) l = (if map_option fst (sl_starting l) = Some k then Some (l\<lparr>sl_starting := None\<rparr>) else None)"
| "ledger_step (Sup_Join k) l = (if sl_starting l = None then Some l else None)"
| "ledger_step (Sup_Take k ok) l =
     (if map_option fst (sl_starting l) = Some k
      then Some (l\<lparr>sl_starting := None, sl_held := (if ok then sl_starting l else sl_held l)\<rparr>) else None)"
| "ledger_step (Sup_Activate k) l = (if sl_held l = Some (k, sl_generation l) \<and> \<not> sl_live l then Some l else None)"
| "ledger_step (Sup_Stop k) l = (if map_option fst (sl_held l) = Some k then Some (l\<lparr>sl_held := None, sl_live := False\<rparr>) else None)"
| "ledger_step (Sup_Drain k) l = (if in_use k l then Some l else None)"
| "ledger_step (Sup_Probe k) l = (if in_use k l then Some l else None)"
| "ledger_step (Sup_SetVolume k _ _) l = (if in_use k l then Some l else None)"
| "ledger_step (Sup_Diagnostics d) l =
     (case d of Diag_Active g _ _ \<Rightarrow> if map_option snd (sl_held l) = Some g then Some l else None | Diag_Inactive _ _ \<Rightarrow> Some l)"

fun ledger_run :: "sup_output list \<Rightarrow> session_ledger \<Rightarrow> session_ledger option" where
  "ledger_run [] l = Some l"
| "ledger_run (out # outs) l = (case ledger_step out l of None \<Rightarrow> None | Some l1 \<Rightarrow> ledger_run outs l1)"

lemma ledger_run_append: "ledger_run (xs @ ys) l = (case ledger_run xs l of None \<Rightarrow> None | Some l1 \<Rightarrow> ledger_run ys l1)"
  by (induction xs arbitrary: l) (auto split: option.splits)

section \<open>The supervisor keeps its books\<close>

text \<open>The ledger of what has been sent out, beside the supervisor's own variables; a transport that is being
  activated is held but not yet live.\<close>

definition agrees :: "nat option \<Rightarrow> supervisor \<Rightarrow> session_ledger \<Rightarrow> bool" where
  "agrees pending s l \<longleftrightarrow>
     sl_generation l = sv_gate s \<and> sl_starts l = sv_starts s \<and> sl_starting l = sv_in_flight s
     \<and> (sv_in_flight s \<noteq> None \<longrightarrow> map_option snd (sv_in_flight s) = Some (sv_gate s) \<and> sv_active s = None \<and> pending = None)
     \<and> (pending \<noteq> None \<longrightarrow> sv_active s = None)
     \<and> sl_held l = map_option (\<lambda>k. (k, sv_gate s)) (if pending = None then sv_active s else pending)
     \<and> (sl_live l \<longleftrightarrow> sv_active s \<noteq> None)
     \<and> (sv_in_flight s \<noteq> None \<or> sv_active s \<noteq> None \<or> pending \<noteq> None \<longrightarrow> sl_failed l = hs_failed (sv_health s))"

definition books :: "nat option \<Rightarrow> supervisor \<Rightarrow> bool" where
  "books pending s \<longleftrightarrow> (\<exists>l. ledger_run (sv_out s) ledger_start = Some l \<and> agrees pending s l)"

text \<open>Fields the books do not depend on.\<close>

lemma books_frame [simp]:
  "books b (s\<lparr>sv_phase := p\<rparr>) = books b s" "books b (s\<lparr>sv_queue := q\<rparr>) = books b s" "books b (s\<lparr>sv_volumes := v\<rparr>) = books b s"
  "books b (s\<lparr>sv_closed := c\<rparr>) = books b s" "books b (s\<lparr>sv_cancelled := c\<rparr>) = books b s" "books b (s\<lparr>sv_next_probe := n\<rparr>) = books b s"
  "books b (s\<lparr>sv_retained := r\<rparr>) = books b s" "books b (s\<lparr>sv_diagnostics := d\<rparr>) = books b s"
  by (simp_all add: books_def agrees_def)

lemma books_emit:
  assumes "books b s" "\<And>l. agrees b s l \<Longrightarrow> \<exists>l'. ledger_step out l = Some l' \<and> agrees b' (f s) l'" "sv_out (f s) = sv_out s"
  shows "books b' (emit out (f s))"
proof -
  obtain l where l: "ledger_run (sv_out s) ledger_start = Some l" "agrees b s l" using assms(1) by (auto simp: books_def)
  then obtain l' where "ledger_step out l = Some l'" "agrees b' (f s) l'" using assms(2) by blast
  then show ?thesis using l assms(3) by (auto simp: books_def emit_def ledger_run_append agrees_def intro!: exI [of _ l'])
qed

lemma books_no_session:
  assumes "books None s" "sv_in_flight s = None" "sv_active s = None"
  shows "books None (s\<lparr>sv_health := h\<rparr>)"
  using assms by (auto simp: books_def agrees_def)

lemma books_health:
  assumes "books b s" "hs_failed h = hs_failed (sv_health s)"
  shows "books b (s\<lparr>sv_health := h\<rparr>)"
  using assms by (auto simp: books_def agrees_def)

lemma books_abort: "books b s \<Longrightarrow> books b (abort_start s)"
  by (auto simp: abort_start_def split: option.splits
      intro!: books_emit [where f = "\<lambda>s. s\<lparr>sv_in_flight := None\<rparr>" and b = b] simp: agrees_def)

lemma abort_fields [simp]:
  "sv_in_flight (abort_start s) = None" "sv_active (abort_start s) = sv_active s" "sv_gate (abort_start s) = sv_gate s"
  "sv_phase (abort_start s) = sv_phase s" "sv_health (abort_start s) = sv_health s" "sv_retained (abort_start s) = sv_retained s"
  "sv_queue (abort_start s) = sv_queue s"
  by (auto simp: abort_start_def emit_def split: option.split)

lemma books_inactive: "books b s \<Longrightarrow> books b (publish_inactive_diagnostics reason s)"
  by (auto simp: publish_inactive_diagnostics_def publish_diagnostics_def
      intro!: books_emit [where f = "\<lambda>s. s\<lparr>sv_diagnostics := _\<rparr>" and b = b] simp: agrees_def)

lemma publish_fields [simp]:
  "sv_in_flight (publish_diagnostics d s) = sv_in_flight s" "sv_active (publish_diagnostics d s) = sv_active s"
  "sv_gate (publish_diagnostics d s) = sv_gate s" "sv_phase (publish_diagnostics d s) = sv_phase s"
  "sv_health (publish_diagnostics d s) = sv_health s" "sv_retained (publish_diagnostics d s) = sv_retained s"
  "sv_queue (publish_diagnostics d s) = sv_queue s"
  by (simp_all add: publish_diagnostics_def emit_def)

lemma stop_fields [simp]:
  "sv_in_flight (stop_active r s) = sv_in_flight s" "sv_active (stop_active r s) = None" "sv_gate (stop_active r s) = sv_gate s"
  "sv_phase (stop_active r s) = sv_phase s" "sv_health (stop_active r s) = sv_health s" "sv_retained (stop_active r s) = sv_retained s"
  "sv_queue (stop_active r s) = sv_queue s"
  by (auto simp: stop_active_def emit_def publish_inactive_diagnostics_def split: option.split)

text \<open>The diagnostics are published before the stop, while the variable is already empty.\<close>

lemma stop_active_alt:
  "stop_active r s = (case sv_active s of None \<Rightarrow> s
     | Some k \<Rightarrow> emit (Sup_Stop k) ((publish_inactive_diagnostics r s)\<lparr>sv_active := None\<rparr>))"
  by (simp add: stop_active_def publish_inactive_diagnostics_def publish_diagnostics_def emit_def split: option.split)

lemma books_stop: "books None s \<Longrightarrow> books None (stop_active r s)"
proof (cases "sv_active s")
  case (Some k)
  assume "books None s"
  note b = books_inactive [OF this, of r]
  have "sv_active (publish_inactive_diagnostics r s) = Some k" using Some by (simp add: publish_inactive_diagnostics_def)
  then have "books None (emit (Sup_Stop k) ((publish_inactive_diagnostics r s)\<lparr>sv_active := None\<rparr>))"
    by (intro books_emit [OF b, where f = "\<lambda>s. s\<lparr>sv_active := None\<rparr>"]) (auto simp: agrees_def)
  then show ?thesis using Some by (simp add: stop_active_alt)
qed (simp add: stop_active_alt)

lemma books_supersede: "books None s \<Longrightarrow> books None (supersede r s)"
  by (simp add: supersede_def books_abort books_stop)

lemma supersede_fields [simp]:
  "sv_in_flight (supersede r s) = None" "sv_active (supersede r s) = None" "sv_gate (supersede r s) = sv_gate s"
  "sv_phase (supersede r s) = sv_phase s" "sv_retained (supersede r s) = sv_retained s" "sv_queue (supersede r s) = sv_queue s"
  by (simp_all add: supersede_def)

lemma supersede_gate: "supersede r (s\<lparr>sv_gate := g\<rparr>) = (supersede r s)\<lparr>sv_gate := g\<rparr>"
  by (simp add: supersede_def stop_active_def abort_start_def publish_inactive_diagnostics_def publish_diagnostics_def emit_def split: option.split)

lemma emit_fields [simp]:
  "sv_in_flight (emit x s) = sv_in_flight s" "sv_active (emit x s) = sv_active s" "sv_gate (emit x s) = sv_gate s"
  "sv_phase (emit x s) = sv_phase s" "sv_health (emit x s) = sv_health s" "sv_retained (emit x s) = sv_retained s"
  "sv_queue (emit x s) = sv_queue s" "sv_starts (emit x s) = sv_starts s" "sv_cancelled (emit x s) = sv_cancelled s"
  by (simp_all add: emit_def)

lemma push_fields [simp]:
  "sv_in_flight (push_update w u s) = sv_in_flight s" "sv_active (push_update w u s) = sv_active s" "sv_gate (push_update w u s) = sv_gate s"
  "sv_phase (push_update w u s) = sv_phase s" "sv_health (push_update w u s) = sv_health s" "sv_retained (push_update w u s) = sv_retained s"
  "sv_queue (push_update w u s) = sv_queue s" "sv_starts (push_update w u s) = sv_starts s"
  by (simp_all add: push_update_def)

lemma books_push:
  assumes "books b s" "\<And>l. agrees b s l \<Longrightarrow> \<exists>l'. ledger_update u l = Some l' \<and> agrees b' (f s) l'" "sv_out (f s) = sv_out s"
  shows "books b' (push_update w u (f s))"
  using books_emit [OF assms(1), of "Sup_Update u _" b' f] assms(2,3) by (simp add: push_update_def)

section \<open>Starting\<close>

lemma gate_late: "x\<lparr>sv_gate := g, sv_health := h, sv_retained := r\<rparr> = x\<lparr>sv_health := h, sv_retained := r, sv_gate := g\<rparr>"
  by simp

lemma books_start_generation:
  assumes "books None s"
  shows "books None (start_generation w p s)"
proof (cases "rp_generation p > sv_gate s")
  case True
  define s2 where "s2 = supersede (if rp_teardown_only p then Reason_Stopped else Reason_Restarted) s"
  have s2: "books None (s2\<lparr>sv_health := health_default, sv_retained := Some p\<rparr>)" "sv_in_flight s2 = None" "sv_active s2 = None" "sv_gate s2 = sv_gate s"
    using books_no_session [OF books_supersede [OF assms]] by (auto simp: s2_def)
  let ?s3 = "s2\<lparr>sv_health := health_default, sv_retained := Some p\<rparr>"
  let ?set = "\<lambda>s. s\<lparr>sv_gate := rp_generation p\<rparr>"
  have quiet: "books None (push_update w u (?set ?s3))" if "u \<in> {Ses_Stopped (rp_generation p), Ses_Recovering (rp_generation p) DeadRtspRecovered 0}" for u
    using that s2 True by (intro books_push [OF s2(1), where f = ?set]) (auto simp: agrees_def)
  obtain l where l: "ledger_run (sv_out s2) ledger_start = Some l" "agrees None ?s3 l" using s2(1) by (auto simp: books_def)
  have spawn: "books None (spawn_start p (push_update w (Ses_Starting (rp_generation p)) (?set ?s3)))" if "rp_desired p \<noteq> []"
    using l that s2 True unfolding books_def
    by (intro exI [of _ "l\<lparr>sl_generation := rp_generation p, sl_failed := {}, sl_starting := Some (sv_starts s2, rp_generation p),
          sl_starts := Suc (sv_starts s2)\<rparr>"])
       (simp add: spawn_start_def push_update_def emit_def ledger_run_append agrees_def health_default_def)
  have "start_generation w p s = (if rp_desired p = []
      then push_update w (if rp_teardown_only p then Ses_Stopped (rp_generation p) else Ses_Recovering (rp_generation p) DeadRtspRecovered 0) (?set ?s3)
      else spawn_start p (push_update w (Ses_Starting (rp_generation p)) (?set ?s3)))"
    using True by (simp add: start_generation_def admit_def s2_def supersede_gate gate_late Let_def)
  then show ?thesis using quiet spawn by simp
qed (use assms in \<open>simp add: start_generation_def admit_def\<close>)

lemma books_recovering: "books b s \<Longrightarrow> books b (push_update w (Ses_Recovering (sv_gate s) reason a) s)"
  by (rule books_push [where f = "\<lambda>s. s"]) (auto simp: agrees_def)

lemma books_rebuild: "books None s \<Longrightarrow> books None (rebuild_for_cause w reason s)"
  by (auto simp: rebuild_for_cause_def books_recovering books_start_generation split: option.split)

section \<open>Probing and levels\<close>

lemma judge_failed: "judge_answer urgent r a h = (h', e) \<Longrightarrow> hs_failed h' = hs_failed h"
  by (auto simp: judge_answer_def Let_def split: sum.splits health.splits)

lemma books_probe_answer:
  assumes "books None s" "sv_active s = Some k"
  shows "books None (probe_answer w primary urgent result s) \<and> sv_active (probe_answer w primary urgent result s) = Some k"
proof (cases result)
  case (Pair r a)
  obtain h e where judged: "judge_answer urgent r a (sv_health s) = (h, e)" by fastforce
  note failed = judge_failed [OF judged]
  let ?f = "\<lambda>s. s\<lparr>sv_health := h\<lparr>hs_streak := om_remove r (hs_streak h), hs_failed := insert r (hs_failed h)\<rparr>\<rparr>"
  have "books None (push_update w (Ses_MemberFailed (sv_gate s) r b x) (?f s))" if "r \<notin> hs_failed (sv_health s)" for b x
    using that assms failed by (intro books_push [OF assms(1), where f = ?f]) (auto simp: agrees_def)
  then show ?thesis using assms failed judged Pair books_health [OF assms(1) failed]
    by (auto simp: probe_answer_def split: option.splits)
qed

lemma books_answers:
  "books None s \<Longrightarrow> sv_active s = Some k \<Longrightarrow> books None (fold (probe_answer w primary urgent) results s)
     \<and> sv_active (fold (probe_answer w primary urgent) results s) = Some k"
  by (induction results arbitrary: s) (use books_probe_answer in \<open>auto simp: fold_Cons_rev\<close>)

lemma books_used:
  assumes "books None s" "sv_active s = Some k" "out \<in> {Sup_Drain k, Sup_Probe k, Sup_SetVolume k r v}"
  shows "books None (emit out s)"
  using assms(2,3) by (intro books_emit [OF assms(1), where f = "\<lambda>s. s"]) (auto simp: agrees_def in_use_def)

lemma books_drain: "books None s \<Longrightarrow> sv_active s = Some k \<Longrightarrow> books None (drain_feed w k s)"
  unfolding drain_feed_def by (rule books_used) (auto intro: books_health)

lemma drain_active [simp]: "sv_active (drain_feed w k s) = sv_active s"
  by (simp add: drain_feed_def)

lemma books_probe: "books None s \<Longrightarrow> books None (run_probe_cycle w s)"
proof (cases "sv_active s")
  case (Some k)
  assume "books None s"
  then have "books None (drain_feed w k s)" using Some by (rule books_drain)
  then have "books None (emit (Sup_Probe k) ((drain_feed w k s)\<lparr>sv_health := (sv_health (drain_feed w k s))\<lparr>hs_urgent := {}\<rparr>\<rparr>))"
    using Some by (intro books_used [of _ k]) (auto intro: books_health)
  then show ?thesis using Some by (simp add: run_probe_cycle_def Let_def books_answers)
qed (simp add: run_probe_cycle_def)

lemma books_set_volume: "books None s \<Longrightarrow> books None (apply_set_volume w r s)"
proof (cases "sv_active s")
  case (Some k)
  assume s: "books None s"
  let ?s1 = "emit (Sup_SetVolume k r (volumes_get (sv_volumes s) r)) s"
  have s1: "books None ?s1" using s Some by (intro books_used [of _ k]) auto
  have "books None (push_update w (Ses_MemberControlFailed (sv_gate ?s1) r x) ?s1)" for x
    using Some by (intro books_push [OF s1, where f = "\<lambda>s. s"]) (auto simp: agrees_def)
  then show ?thesis using s s1 Some by (auto simp: apply_set_volume_def Let_def split: option.split)
qed (simp add: apply_set_volume_def)

section \<open>Suspending and stopping\<close>

lemma books_join: "books None s \<Longrightarrow> books None (join_start s)"
  by (auto simp: join_start_def split: option.split intro!: books_emit [OF books_abort, where f = "\<lambda>s. s"] simp: agrees_def)

lemma join_fields [simp]: "sv_in_flight (join_start s) = None" "sv_active (join_start s) = sv_active s" "sv_gate (join_start s) = sv_gate s"
  "sv_phase (join_start s) = sv_phase s" "sv_retained (join_start s) = sv_retained s" "sv_queue (join_start s) = sv_queue s"
  by (auto simp: join_start_def split: option.split)

lemma books_stopped:
  assumes "books None s" "sv_in_flight s = None" "sv_active s = None"
  shows "books None (push_update w (Ses_Stopped (sv_gate s)) s)"
  using assms by (intro books_push [OF assms(1), where f = "\<lambda>s. s"]) (auto simp: agrees_def)

lemma books_suspend: "books None s \<Longrightarrow> books None (apply_suspend w s)"
proof -
  assume "books None s"
  then have quiet: "books None ((stop_active Reason_Restarted (join_start s))\<lparr>sv_health := health_default\<rparr>)"
    by (intro books_no_session books_stop books_join) simp_all
  from books_stopped [OF this] show ?thesis using quiet by (simp add: apply_suspend_def Let_def)
qed

lemma books_inline: "books None s \<Longrightarrow> books None (apply_inline_request w r s)"
  by (cases r) (auto simp: books_set_volume books_probe books_rebuild books_suspend)

lemma books_finish: "books None s \<Longrightarrow> books None (sup_finish s) \<and> sv_in_flight (sup_finish s) = None \<and> sv_active (sup_finish s) = None"
  by (simp add: sup_finish_def books_stop books_abort)

section \<open>Steps\<close>

lemma books_adopt:
  assumes "books None s" "sv_in_flight s = Some (k, g)"
  shows "g = sv_gate s"
    "outcome = Some (Inr u) \<Longrightarrow> books (Some k) (adopt w outcome k g s) \<and> sv_phase (adopt w outcome k g s) = Activating k g"
    "outcome \<noteq> Some (Inr ()) \<Longrightarrow> books None (adopt w outcome k g s) \<and> sv_phase (adopt w outcome k g s) = sv_phase s"
    "sv_gate (adopt w outcome k g s) = sv_gate s"
proof -
  let ?f = "\<lambda>s. s\<lparr>sv_in_flight := None\<rparr>"
  show g: "g = sv_gate s" using assms by (auto simp: books_def agrees_def)
  have taken: "books (Some k) (emit (Sup_Take k True) (?f s))"
    using assms(2) by (intro books_emit [OF assms(1), where f = ?f]) (auto simp: agrees_def)
  have "books (Some k) (emit (Sup_Activate k) (emit (Sup_Take k True) (?f s)))"
    by (rule books_emit [OF taken, where f = "\<lambda>s. s"]) (auto simp: agrees_def)
  then show "outcome = Some (Inr u) \<Longrightarrow> books (Some k) (adopt w outcome k g s) \<and> sv_phase (adopt w outcome k g s) = Activating k g"
    using g by (simp add: adopt_def Let_def emit_def books_def agrees_def)
  have failed: "books None (emit (Sup_Take k False) (?f s))"
    using assms(2) by (intro books_emit [OF assms(1), where f = ?f]) (auto simp: agrees_def)
  then have "books None (push_update w (Ses_Recovering g DeadRtspRecovered 0) (emit (Sup_Take k False) (?f s)))"
    using books_recovering [OF failed] g by simp
  then show "outcome \<noteq> Some (Inr ()) \<Longrightarrow> books None (adopt w outcome k g s) \<and> sv_phase (adopt w outcome k g s) = sv_phase s"
    using failed by (auto simp: adopt_def Let_def split: option.splits sum.splits)
  show "sv_gate (adopt w outcome k g s) = sv_gate s"
    by (auto simp: adopt_def Let_def split: option.splits sum.splits)
qed

lemma books_stop_pending: "books (Some k) s \<Longrightarrow> books None (emit (Sup_Stop k) s)"
  by (rule books_emit [where f = "\<lambda>s. s" and b = "Some k"]) (auto simp: agrees_def)

lemma books_activation_failed: "books (Some k) s \<Longrightarrow> g = sv_gate s \<Longrightarrow> books None (activation_failed w k g s)"
  using books_recovering [OF books_stop_pending, of k "s\<lparr>sv_phase := Waiting None\<rparr>"] by (simp add: activation_failed_def)

lemma books_activated:
  assumes "books (Some k) s" "g = sv_gate s"
  shows "books None (activated w now k g s)"
proof (cases "sw_primary w k (sent s)")
  case None
  then show ?thesis using books_activation_failed [OF assms] by (simp add: activated_def)
next
  case (Some primary)
  let ?ms = "sw_members w k (sent s)"
  define s1 where "s1 = (if sw_has_diagnostics w k then publish_active_diagnostics g primary ?ms s else s)"
  have s1: "books (Some k) s1" "sv_gate s1 = g" unfolding s1_def publish_active_diagnostics_def publish_diagnostics_def
    using assms by (auto intro!: books_emit [where f = "\<lambda>s. s\<lparr>sv_diagnostics := _\<rparr>"] simp: agrees_def)
  define s2 where "s2 = push_update w (Ses_Active g primary ?ms (sw_failures w k)) (s1\<lparr>sv_active := Some k\<rparr>)"
  have s2: "books None s2" "sv_active s2 = Some k" unfolding s2_def
    using s1 by (auto intro!: books_push [where f = "\<lambda>s. s\<lparr>sv_active := Some k\<rparr>"] simp: agrees_def)
  have "activated w now k g s = (drain_feed w k s2)\<lparr>sv_next_probe :=
      (if card (hs_urgent (sv_health s2)) < card (hs_urgent (sv_health (drain_feed w k s2))) then now else sv_next_probe (drain_feed w k s2)),
      sv_phase := Waiting None\<rparr>"
    using Some by (simp add: activated_def s2_def s1_def [symmetric] Let_def drain_feed_def push_update_def emit_def)
  then show ?thesis using books_drain [OF s2] by simp
qed

definition kept :: "supervisor \<Rightarrow> bool" where
  "kept s \<longleftrightarrow>
     (case sv_phase s of
        Activating k g \<Rightarrow> g = sv_gate s \<and> books (Some k) s
      | Finished \<Rightarrow> books None s \<and> sv_in_flight s = None \<and> sv_active s = None
      | _ \<Rightarrow> books None s)"

lemma start_phase [simp]: "sv_phase (start_generation w p s) = sv_phase s" "sv_queue (start_generation w p s) = sv_queue s"
  by (simp_all add: start_generation_def admit_def spawn_start_def Let_def)

lemma rebuild_phase [simp]: "sv_phase (rebuild_for_cause w r s) = sv_phase s" "sv_queue (rebuild_for_cause w r s) = sv_queue s"
  by (simp_all add: rebuild_for_cause_def split: option.split)

lemma answer_phase [simp]:
  "sv_phase (probe_answer w primary urgent result s) = sv_phase s" "sv_queue (probe_answer w primary urgent result s) = sv_queue s"
  by (auto simp: probe_answer_def split: prod.split option.split)

lemma answers_phase [simp]:
  "sv_phase (fold (probe_answer w primary urgent) results s) = sv_phase s" "sv_queue (fold (probe_answer w primary urgent) results s) = sv_queue s"
  by (induction results arbitrary: s) simp_all

lemma probe_phase [simp]: "sv_phase (run_probe_cycle w s) = sv_phase s" "sv_queue (run_probe_cycle w s) = sv_queue s"
  by (simp_all add: run_probe_cycle_def drain_feed_def Let_def split: option.split)

lemma inline_phase [simp]: "sv_phase (apply_inline_request w r s) = sv_phase s" "sv_queue (apply_inline_request w r s) = sv_queue s"
  by (cases r; simp add: apply_set_volume_def apply_suspend_def Let_def split: option.split)+

lemma finish_phase [simp]: "sv_phase (sup_finish s) = Finished"
  by (simp add: sup_finish_def)

lemma kept_finish: "books None s \<Longrightarrow> kept (sup_finish s)"
  using books_finish by (simp add: kept_def)

lemma kept_begin: "books None s \<Longrightarrow> kept (begin_request r s)"
  using kept_finish by (cases r) (auto simp: begin_request_def kept_def split: prod.split)

lemma kept_waiting: "books None s \<Longrightarrow> sv_phase s = Waiting p \<Longrightarrow> kept s"
  by (simp add: kept_def)

lemma books_send [simp]: "books b (snd (try_send r s)) = books b s"
  by (auto simp: try_send_def remember_volume_def Let_def split: session_request.split)

lemma send_fields [simp]:
  "sv_phase (snd (try_send r s)) = sv_phase s" "sv_gate (snd (try_send r s)) = sv_gate s"
  "sv_in_flight (snd (try_send r s)) = sv_in_flight s" "sv_active (snd (try_send r s)) = sv_active s"
  by (auto simp: try_send_def remember_volume_def Let_def split: session_request.split)

lemma kept_turn:
  assumes "kept s" "turn w s = Some s'"
  shows "kept s'"
proof (cases "sv_phase s")
  case (Waiting pending)
  then show ?thesis using assms kept_finish kept_begin by (auto simp: turn_def kept_def [of s] split: if_splits)
next
  case (Working inline latest)
  then have b: "books None s" using assms(1) by (simp add: kept_def)
  show ?thesis
  proof (cases inline)
    case Nil
    then show ?thesis using assms(2) Working b by (auto simp: turn_def kept_def books_start_generation split: option.splits)
  next
    case (Cons r rs)
    then show ?thesis using assms(2) Working b by (auto simp: turn_def kept_def books_inline)
  qed
next
  case (Activating k g)
  then show ?thesis using assms kept_finish [OF books_stop_pending] by (auto simp: turn_def kept_def [of s] split: if_splits)
qed (use assms in \<open>simp add: turn_def\<close>)

lemma kept_receive:
  assumes "kept s" "receive s = Some s'"
  shows "kept s'"
proof (cases "sv_phase s")
  case (Waiting pending)
  then show ?thesis using assms kept_begin
    by (auto simp: kept_def [of s] receive_def split: if_splits option.splits list.splits)
next
  case (Activating k g)
  then have b: "books (Some k) s" "g = sv_gate s" using assms(1) by (simp_all add: kept_def)
  then have stop: "kept (superseded k r (s\<lparr>sv_queue := q\<rparr>))" for r q
    using books_stop_pending [of k "s\<lparr>sv_queue := q, sv_phase := Waiting (Some r)\<rparr>"] by (simp add: kept_def superseded_def)
  have "kept (superseded k None s)" using stop [of None "sv_queue s"] by simp
  then show ?thesis using assms(2) Activating b stop
    by (auto simp: receive_def kept_def [of "s\<lparr>sv_queue := _\<rparr>"] split: if_splits list.splits)
qed (use assms in \<open>auto simp: receive_def split: if_splits\<close>)

lemma activation_phase [simp]: "sv_phase (activation_failed w k g s) = Waiting None" "sv_phase (activated w now k g s) = Waiting None"
  by (auto simp: activation_failed_def activated_def Let_def split: option.split)

lemma kept_frame [simp]:
  "kept (s\<lparr>sv_closed := c\<rparr>) = kept s" "kept (s\<lparr>sv_cancelled := c\<rparr>) = kept s" "kept (remember_volume r v s) = kept s"
  "kept (snd (try_send q s)) = kept s"
  by (simp_all add: kept_def remember_volume_def split: sup_phase.split)

lemma kept_step:
  assumes "kept s" "sup_step w i s = Some s'"
  shows "kept s'"
proof (cases i)
  case (In_Outcome outcome)
  then obtain k g where s: "sv_phase s = Waiting None" "sv_in_flight s = Some (k, g)" "s' = adopt w outcome k g s"
    using assms(2) by (auto split: sup_phase.splits option.splits if_splits)
  then have "books None s" using assms(1) by (simp add: kept_def)
  note adopted = books_adopt [OF this s(2)]
  show ?thesis using adopted s by (cases "outcome = Some (Inr ())") (auto simp: kept_def)
next
  case (In_Activated now result)
  then show ?thesis using assms books_activated books_activation_failed
    by (auto simp: kept_def split: sup_phase.splits option.splits if_splits)
next
  case In_Deadline
  then show ?thesis using assms books_activation_failed
    by (auto simp: kept_def split: sup_phase.splits if_splits)
next
  case (In_Probe now after)
  then show ?thesis using assms by (auto simp: kept_def books_probe split: if_splits)
next
  case In_Turn
  then show ?thesis using assms kept_turn [of s w s'] by simp
next
  case In_Recv
  then show ?thesis using assms kept_receive [of s s'] by simp
qed (use assms in \<open>auto split: if_splits\<close>)

interpretation kept: sup_invariant kept
  by unfold_locales (rule kept_step)

lemma kept_start: "kept (supervisor_start now volumes diagnostics)"
  by (simp add: kept_def supervisor_start_def books_def ledger_start_def agrees_def)

text \<open>
  C3: whatever requests, level changes, start outcomes, probe answers, deadlines and cancellations arrive in whatever
  order, what the session supervisor does is accepted by the ledger of one session: a start is spawned only when no
  other start and no transport exists, for the generation announced last; a transport is activated, probed and given
  levels only while it is held for the current generation; announced generations never go back; a member fails at
  most once in a generation. When the task has ended, no start and no transport is left behind.
\<close>

theorem supervisor_refines:
  assumes "sup_run w inputs (supervisor_start now volumes diagnostics) = Some s"
  shows "\<exists>l. ledger_run (sv_out s) ledger_start = Some l \<and> sl_generation l = sv_gate s \<and> sl_starting l = sv_in_flight s
    \<and> sl_held l = (case sv_phase s of Activating k g \<Rightarrow> Some (k, g) | _ \<Rightarrow> map_option (\<lambda>k. (k, sv_gate s)) (sv_active s))
    \<and> (sv_phase s = Finished \<longrightarrow> sl_starting l = None \<and> sl_held l = None)"
  using kept.sup_run_keeps [OF kept_start assms] by (auto simp: kept_def books_def agrees_def split: sup_phase.splits)

definition demo_receiver_a :: device_id where "demo_receiver_a = DeviceId 2 0 0 0 0 1"

definition demo_sup_world :: sup_world where
  "demo_sup_world = \<lparr>sw_accepts = (\<lambda>_. True), sw_primary = (\<lambda>_ _. Some demo_receiver_a), sw_members = (\<lambda>_ _. {demo_receiver_a}),
     sw_failures = (\<lambda>_. []), sw_has_diagnostics = (\<lambda>_. True), sw_events = (\<lambda>_ _. []),
     sw_probe = (\<lambda>_ _. [(demo_receiver_a, Inr TimedOut)]), sw_set_volume = (\<lambda>_ _. None)\<rparr>"

definition demo_reconcile :: "u64 \<Rightarrow> device list \<Rightarrow> session_request" where
  "demo_reconcile g ds = Req_Reconcile g ds None \<lparr>sender_buffer_ms = 2000, render_delay_ms = 200\<rparr>
     \<lparr>cp_reference_receiver = None, cp_requested_delay_ns = []\<rparr> False"

definition demo_inputs :: "device \<Rightarrow> sup_input list" where
  "demo_inputs d = [In_Send (demo_reconcile 1 [d]), In_Recv, In_Turn, In_Outcome (Some (Inr ())), In_Activated 5 None,
     In_Probe 2000 2100, In_Probe 4100 4200, In_Cancel, In_Turn]"

lemma two_not_le_one: "\<not> (2 :: u32) \<le> 1"
  by (simp add: word_le_nat_alt)

lemmas demo_sup_defs = turn_def demo_reconcile_def demo_sup_world_def supervisor_start_def try_send_def SESSION_REQUEST_CAPACITY_def
  receive_def begin_request_def start_generation_def admit_def supersede_def stop_active_def abort_start_def push_update_def emit_def
  spawn_start_def adopt_def activated_def publish_active_diagnostics_def publish_diagnostics_def drain_feed_def health_default_def
  run_probe_cycle_def probe_answer_def judge_answer_def PROBE_INTERVAL_def TIMEOUT_STREAK_TO_FAIL_def saturating_add_def om_get_def
  om_remove_def sup_finish_def publish_inactive_diagnostics_def two_not_le_one

lemma demo_sup_run:
  "\<exists>s. sup_run demo_sup_world (demo_inputs d) (supervisor_start 0 volumes_default (Diag_Inactive 0 Reason_Stopped)) = Some s
     \<and> sv_phase s = Finished \<and> Sup_Update (Ses_MemberFailed 1 demo_receiver_a True probe_timeout_error) True \<in> set (sv_out s)"
  by (simp add: demo_inputs_def demo_sup_defs Let_def)

theorem supervisor_refines_witness:
  "\<forall>d. \<exists>s l. sup_run demo_sup_world (demo_inputs d) (supervisor_start 0 volumes_default (Diag_Inactive 0 Reason_Stopped)) = Some s
     \<and> Sup_Update (Ses_MemberFailed 1 demo_receiver_a True probe_timeout_error) True \<in> set (sv_out s)
     \<and> ledger_run (sv_out s) ledger_start = Some l \<and> sl_starting l = None \<and> sl_held l = None"
proof
  fix d
  obtain s where s: "sup_run demo_sup_world (demo_inputs d) (supervisor_start 0 volumes_default (Diag_Inactive 0 Reason_Stopped)) = Some s"
    "sv_phase s = Finished" "Sup_Update (Ses_MemberFailed 1 demo_receiver_a True probe_timeout_error) True \<in> set (sv_out s)"
    using demo_sup_run by blast
  show "\<exists>s l. sup_run demo_sup_world (demo_inputs d) (supervisor_start 0 volumes_default (Diag_Inactive 0 Reason_Stopped)) = Some s
     \<and> Sup_Update (Ses_MemberFailed 1 demo_receiver_a True probe_timeout_error) True \<in> set (sv_out s)
     \<and> ledger_run (sv_out s) ledger_start = Some l \<and> sl_starting l = None \<and> sl_held l = None"
    using supervisor_refines [OF s(1)] s by auto
qed

end
