(* ===== verification/Session_Health.thy ===== *)
theory Session_Health
  imports Session_Properties
begin

text \<open>
  The probe policy against its description: over any number of probe cycles of one generation a
  member is reported exactly when its answers contain a hard error, two timeouts in a row, or a
  timeout in the cycle after a failed send.
\<close>

section \<open>The policy as described\<close>

text \<open>Answers of one member, each with whether a failed send had armed the cycle; the flag says that the
  previous answer was a timeout.\<close>

fun verdict :: "bool \<Rightarrow> (bool \<times> (member_failure + health)) list \<Rightarrow> user_facing_error option" where
  "verdict late [] = None"
| "verdict late ((armed, Inl f) # answers) = Some (member_failed_error f)"
| "verdict late ((armed, Inr Healthy) # answers) = verdict False answers"
| "verdict late ((armed, Inr TimedOut) # answers) = (if armed \<or> late then Some probe_timeout_error else verdict True answers)"

text \<open>What a cycle in this state will hear from a member.\<close>

definition cycle_answers :: "sup_world \<Rightarrow> device_id \<Rightarrow> supervisor \<Rightarrow> (bool \<times> (member_failure + health)) list" where
  "cycle_answers w r s =
     (case sv_active s of
        None \<Rightarrow> []
      | Some k \<Rightarrow> let s1 = drain_feed w k s
                in map (\<lambda>(q, a). (q \<in> hs_urgent (sv_health s1), a)) (filter (\<lambda>(q, a). q = r) (sw_probe w k (sent s1))))"

fun reports :: "device_id \<Rightarrow> sup_output list \<Rightarrow> (u64 \<times> user_facing_error) list" where
  "reports r [] = []"
| "reports r (Sup_Update (Ses_MemberFailed g q _ e) _ # outs) = (if q = r then (g, e) # reports r outs else reports r outs)"
| "reports r (_ # outs) = reports r outs"

lemma reports_append [simp]: "reports r (xs @ ys) = reports r xs @ reports r ys"
  by (induction r xs rule: reports.induct) auto

section \<open>One answer\<close>

text \<open>The bookkeeping of a member that has not failed: no streak, or one of a single timeout.\<close>

definition streak_of :: "device_id \<Rightarrow> health_state \<Rightarrow> bool option" where
  "streak_of r h = (if r \<in> hs_failed h then None
     else case om_get (hs_streak h) r of None \<Rightarrow> Some False | Some n \<Rightarrow> if n = 1 then Some True else None)"

definition in_policy :: "device_id \<Rightarrow> health_state \<Rightarrow> bool" where
  "in_policy r h \<longleftrightarrow> om_ok (hs_streak h) \<and> (r \<in> hs_failed h \<or> streak_of r h \<noteq> None)"

text \<open>What is still to be reported of a member after the answers.\<close>

definition outcome_after :: "device_id \<Rightarrow> health_state \<Rightarrow> (bool \<times> (member_failure + health)) list \<Rightarrow> user_facing_error option" where
  "outcome_after r h answers = (case streak_of r h of None \<Rightarrow> None | Some late \<Rightarrow> verdict late answers)"

definition due :: "u64 \<Rightarrow> user_facing_error option \<Rightarrow> (u64 \<times> user_facing_error) list" where
  "due g e = (case e of None \<Rightarrow> [] | Some e \<Rightarrow> [(g, e)])"

lemma due_simps [simp]: "due g None = []" "due g (Some e) = [(g, e)]"
  by (simp_all add: due_def)

lemma urgent_frame [simp]: "streak_of r (h\<lparr>hs_urgent := u\<rparr>) = streak_of r h" "in_policy r (h\<lparr>hs_urgent := u\<rparr>) = in_policy r h"
  by (simp_all add: streak_of_def in_policy_def)

lemma streak_word: "saturating_add 0 (1 :: u32) = 1" "saturating_add 1 (1 :: u32) = 2" "(2 :: u32) \<le> 2" "\<not> (2 :: u32) \<le> 1"
  by (simp_all add: saturating_add_def two_not_le_one)

lemma probe_answer_other:
  assumes "q \<noteq> r" "in_policy r (sv_health s)"
  shows "streak_of r (sv_health (probe_answer w primary urgent (q, a) s)) = streak_of r (sv_health s)
    \<and> in_policy r (sv_health (probe_answer w primary urgent (q, a) s))
    \<and> reports r (sv_out (probe_answer w primary urgent (q, a) s)) = reports r (sv_out s)"
  using assms
  by (auto simp: probe_answer_def judge_answer_def in_policy_def streak_of_def push_update_def emit_def om_get_remove om_get_insert
      om_remove_ok om_insert_ok Let_def split: sum.split health.split)

lemma probe_answer_self:
  assumes "in_policy r (sv_health s)"
  shows "in_policy r (sv_health (probe_answer w primary urgent (r, a) s))
    \<and> (\<exists>new. reports r (sv_out (probe_answer w primary urgent (r, a) s)) = reports r (sv_out s) @ new
       \<and> due (sv_gate s) (outcome_after r (sv_health s) ((r \<in> urgent, a) # answers))
         = new @ due (sv_gate s) (outcome_after r (sv_health (probe_answer w primary urgent (r, a) s)) answers))"
proof (cases "r \<in> hs_failed (sv_health s)")
  case True
  then show ?thesis using assms by (simp add: probe_answer_def outcome_after_def streak_of_def)
next
  case False
  then obtain late where late: "streak_of r (sv_health s) = Some late" "om_ok (hs_streak (sv_health s))"
    using assms by (auto simp: in_policy_def)
  then have streak: "om_get (hs_streak (sv_health s)) r = (if late then Some 1 else None)"
    using False by (auto simp: streak_of_def split: option.splits if_splits)
  consider (hard) f where "a = Inl f" | (fine) "a = Inr Healthy" | (timeout) "a = Inr TimedOut"
    by (metis health.exhaust sum.exhaust)
  then show ?thesis
    using False late streak
    by cases (auto simp: probe_answer_def judge_answer_def in_policy_def outcome_after_def streak_of_def push_update_def emit_def
        om_get_remove om_get_insert om_remove_ok om_insert_ok streak_word TIMEOUT_STREAK_TO_FAIL_def Let_def)
qed

lemma probe_answer_frame [simp]:
  "sv_gate (probe_answer w primary urgent x s) = sv_gate s" "sv_active (probe_answer w primary urgent x s) = sv_active s"
  by (auto simp: probe_answer_def split: prod.split option.split)

lemma answers_frame [simp]:
  "sv_gate (fold (probe_answer w primary urgent) xs s) = sv_gate s" "sv_active (fold (probe_answer w primary urgent) xs s) = sv_active s"
  by (induction xs arbitrary: s) simp_all

section \<open>Cycles\<close>

lemma answers_policy:
  assumes "in_policy r (sv_health s)"
  shows "in_policy r (sv_health (fold (probe_answer w primary urgent) xs s))
    \<and> (\<exists>new. reports r (sv_out (fold (probe_answer w primary urgent) xs s)) = reports r (sv_out s) @ new
       \<and> due (sv_gate s) (outcome_after r (sv_health s) (map (\<lambda>(q, a). (q \<in> urgent, a)) (filter (\<lambda>(q, a). q = r) xs) @ answers))
         = new @ due (sv_gate s) (outcome_after r (sv_health (fold (probe_answer w primary urgent) xs s)) answers))"
  using assms
proof (induction xs arbitrary: s)
  case (Cons x xs)
  obtain q a where x: "x = (q, a)" by fastforce
  let ?s = "probe_answer w primary urgent x s"
  let ?rest = "map (\<lambda>(q, a). (q \<in> urgent, a)) (filter (\<lambda>(q, a). q = r) xs) @ answers"
  have policy: "in_policy r (sv_health ?s)"
    using Cons(2) probe_answer_other probe_answer_self x by (cases "q = r") auto
  obtain new where new: "reports r (sv_out ?s) = reports r (sv_out s) @ new"
    "due (sv_gate s) (outcome_after r (sv_health s) (if q = r then (r \<in> urgent, a) # ?rest else ?rest))
      = new @ due (sv_gate s) (outcome_after r (sv_health ?s) ?rest)"
  proof (cases "q = r")
    case True
    then show ?thesis using that probe_answer_self [OF Cons(2), of w primary urgent a ?rest] x by auto
  next
    case False
    then show ?thesis using that [of "[]"] probe_answer_other [OF False Cons(2), of w primary urgent a] x by (simp add: outcome_after_def)
  qed
  from Cons(1) [OF policy] obtain more where more: "in_policy r (sv_health (fold (probe_answer w primary urgent) xs ?s))"
    "reports r (sv_out (fold (probe_answer w primary urgent) xs ?s)) = reports r (sv_out ?s) @ more"
    "due (sv_gate s) (outcome_after r (sv_health ?s) ?rest)
      = more @ due (sv_gate s) (outcome_after r (sv_health (fold (probe_answer w primary urgent) xs ?s)) answers)"
    by auto
  show ?case using new more x by (auto intro!: exI [of _ "new @ more"])
qed auto

lemma cycle_policy:
  assumes "in_policy r (sv_health s)"
  shows "in_policy r (sv_health (run_probe_cycle w s)) \<and> sv_gate (run_probe_cycle w s) = sv_gate s
    \<and> (\<exists>new. reports r (sv_out (run_probe_cycle w s)) = reports r (sv_out s) @ new
       \<and> due (sv_gate s) (outcome_after r (sv_health s) (cycle_answers w r s @ answers))
         = new @ due (sv_gate s) (outcome_after r (sv_health (run_probe_cycle w s)) answers))"
proof (cases "sv_active s")
  case (Some k)
  let ?s1 = "drain_feed w k s"
  let ?s2 = "emit (Sup_Probe k) (?s1\<lparr>sv_health := (sv_health ?s1)\<lparr>hs_urgent := {}\<rparr>\<rparr>)"
  have same: "streak_of r (sv_health ?s2) = streak_of r (sv_health s)" "in_policy r (sv_health ?s2)"
    "reports r (sv_out ?s2) = reports r (sv_out s)" "sv_gate ?s2 = sv_gate s"
    using assms by (simp_all add: drain_feed_def emit_def)
  have "run_probe_cycle w s = fold (probe_answer w (sw_primary w k (sent ?s1)) (hs_urgent (sv_health ?s1))) (sw_probe w k (sent ?s1)) ?s2"
    using Some by (simp add: run_probe_cycle_def Let_def)
  then show ?thesis
    using answers_policy [OF same(2), of w "sw_primary w k (sent ?s1)" "hs_urgent (sv_health ?s1)" "sw_probe w k (sent ?s1)" answers] same Some
    by (simp add: cycle_answers_def Let_def outcome_after_def)
qed (use assms in \<open>simp add: run_probe_cycle_def cycle_answers_def\<close>)

lemma cycles_policy:
  assumes "in_policy r (sv_health s)"
  shows "\<exists>new. reports r (sv_out ((run_probe_cycle w ^^ n) s)) = reports r (sv_out s) @ new
       \<and> due (sv_gate s) (outcome_after r (sv_health s) (concat (map (\<lambda>i. cycle_answers w r ((run_probe_cycle w ^^ i) s)) [0..<n]))) = new"
  using assms
proof (induction n arbitrary: s)
  case 0
  then show ?case by (auto simp: outcome_after_def split: option.splits)
next
  case (Suc n)
  let ?t = "run_probe_cycle w s"
  let ?later = "concat (map (\<lambda>i. cycle_answers w r ((run_probe_cycle w ^^ i) ?t)) [0..<n])"
  have shift: "concat (map (\<lambda>i. cycle_answers w r ((run_probe_cycle w ^^ i) s)) [0..<Suc n]) = cycle_answers w r s @ ?later"
    by (simp add: upt_conv_Cons map_Suc_upt [symmetric] comp_def funpow_swap1 del: upt_Suc)
  have "(run_probe_cycle w ^^ Suc n) s = (run_probe_cycle w ^^ n) ?t" by (simp add: funpow_swap1)
  moreover have t: "in_policy r (sv_health ?t)" "sv_gate ?t = sv_gate s" using cycle_policy [OF Suc(2)] by auto
  ultimately show ?case using Suc(1) [OF t(1)] cycle_policy [OF Suc(2), of w ?later] unfolding shift t(2) by auto
qed

text \<open>
  C15: over any number of probe cycles after a transport was adopted, a member is reported as failed exactly once if its
  answers contain a hard error, a second timeout in a row, or a timeout in a cycle that a failed send had armed,
  with the error of the first such answer and under the current generation, and is not reported otherwise.
\<close>

theorem probe_policy:
  assumes "hs_streak (sv_health s) = []" "hs_failed (sv_health s) = {}"
  shows "reports r (sv_out ((run_probe_cycle w ^^ n) s))
    = reports r (sv_out s) @ due (sv_gate s) (verdict False (concat (map (\<lambda>i. cycle_answers w r ((run_probe_cycle w ^^ i) s)) [0..<n])))"
proof -
  have "in_policy r (sv_health s)" "streak_of r (sv_health s) = Some False"
    using assms by (simp_all add: in_policy_def streak_of_def om_ok_def om_keys_def om_get_def)
  then show ?thesis using cycles_policy [of r s n w] by (simp add: outcome_after_def)
qed

theorem probe_policy_witness:
  "\<exists>s. reports demo_receiver_a (sv_out s) = [] \<and> cycle_answers demo_sup_world demo_receiver_a s = [(False, Inr TimedOut)]
     \<and> reports demo_receiver_a (sv_out ((run_probe_cycle demo_sup_world ^^ 2) s)) = [(0, probe_timeout_error)]"
proof -
  let ?s = "(supervisor_start 0 volumes_default (Diag_Inactive 0 Reason_Stopped))\<lparr>sv_active := Some 0\<rparr>"
  have fresh: "hs_streak (sv_health ?s) = []" "hs_failed (sv_health ?s) = {}" by (simp_all add: supervisor_start_def health_default_def)
  have first: "cycle_answers demo_sup_world demo_receiver_a ?s = [(False, Inr TimedOut)]"
    by (simp add: cycle_answers_def supervisor_start_def demo_sup_world_def drain_feed_def emit_def health_default_def SESSION_REQUEST_CAPACITY_def)
  have second: "cycle_answers demo_sup_world demo_receiver_a (run_probe_cycle demo_sup_world ?s) = [(False, Inr TimedOut)]"
    by (simp add: cycle_answers_def Let_def demo_sup_defs)
  have "concat (map (\<lambda>i. cycle_answers demo_sup_world demo_receiver_a ((run_probe_cycle demo_sup_world ^^ i) ?s)) [0..<2])
      = [(False, Inr TimedOut), (False, Inr TimedOut)]"
    using first second by (simp add: numeral_2_eq_2)
  then show ?thesis using probe_policy [OF fresh, of demo_receiver_a 2 demo_sup_world] first
    by (intro exI [of _ ?s]) (simp add: supervisor_start_def)
qed

end
