(* ===== verification/Session_Requests.thy ===== *)
theory Session_Requests
  imports Session_Properties Controller_Spec
begin

text \<open>
  The supervisor under the controller's requests: the newest set asked for is the one the session is
  built from, the requests of a burst are not handled in their order, and a cancelled supervisor ends.
\<close>

section \<open>What is on its way\<close>

fun reconciles :: "session_request list \<Rightarrow> reconcile_params list" where
  "reconciles [] = []"
| "reconciles (Req_Reconcile g desired primary latency calibration teardown # rs) =
     \<lparr>rp_generation = g, rp_desired = desired, rp_preferred_primary = primary, rp_latency = latency, rp_calibration = calibration,
      rp_teardown_only = teardown\<rparr> # reconciles rs"
| "reconciles (_ # rs) = reconciles rs"

definition is_reconcile :: "session_request \<Rightarrow> bool" where
  "is_reconcile r \<longleftrightarrow> (case r of Req_Reconcile _ _ _ _ _ _ \<Rightarrow> True | _ \<Rightarrow> False)"

text \<open>The requests that do not make the supervisor count generations of its own.\<close>

definition plain :: "session_request \<Rightarrow> bool" where
  "plain r \<longleftrightarrow> r \<noteq> Req_NetworkChanged \<and> r \<noteq> Req_Resume"

lemma reconciles_append [simp]: "reconciles (xs @ ys) = reconciles xs @ reconciles ys"
  by (induction xs rule: reconciles.induct) auto

lemma reconciles_Nil_other: "\<not> is_reconcile r \<Longrightarrow> reconciles (r # rs) = reconciles rs"
  by (cases r) (auto simp: is_reconcile_def)

definition last_option :: "'a option \<Rightarrow> 'a list \<Rightarrow> 'a option" where
  "last_option x xs = (if xs = [] then x else Some (last xs))"

lemma last_option_simps [simp]:
  "last_option x [] = x" "last_option x (y # ys) = last_option (Some y) ys" "last_option x (xs @ ys) = last_option (last_option x xs) ys"
  by (simp_all add: last_option_def)

text \<open>Bursts whose generations rise: the newest is the last.\<close>

lemma coalesce_rising:
  assumes "sorted_wrt (<) (map rp_generation ((case latest of None \<Rightarrow> [] | Some p \<Rightarrow> [p]) @ reconciles rs))"
  shows "coalesce rs inline latest = (inline @ filter (\<lambda>r. \<not> is_reconcile r) rs, last_option latest (reconciles rs))"
  using assms
proof (induction rs inline latest rule: coalesce.induct)
  case (2 g desired primary latency calibration teardown pending inline latest)
  then show ?case by (cases latest) (auto simp: is_reconcile_def)
qed (auto simp: is_reconcile_def)

definition pipeline :: "supervisor \<Rightarrow> reconcile_params list" where
  "pipeline s =
     (case sv_phase s of
        Waiting (Some (Some r)) \<Rightarrow> reconciles [r]
      | Working _ (Some p) \<Rightarrow> [p]
      | _ \<Rightarrow> []) @ reconciles (sv_queue s)"

definition newest_set :: "supervisor \<Rightarrow> reconcile_params option" where
  "newest_set s = last_option (sv_retained s) (pipeline s)"

definition waiting_requests :: "supervisor \<Rightarrow> session_request list" where
  "waiting_requests s =
     (case sv_phase s of Waiting (Some (Some r)) \<Rightarrow> [r] | Working inline _ \<Rightarrow> inline | _ \<Rightarrow> []) @ sv_queue s"

definition set_generation :: "reconcile_params option \<Rightarrow> u64" where
  "set_generation p = (case p of None \<Rightarrow> 0 | Some p \<Rightarrow> rp_generation p)"

lemma set_generation_simps [simp]: "set_generation None = 0" "set_generation (Some p) = rp_generation p"
  by (simp_all add: set_generation_def)

definition orderly :: "supervisor \<Rightarrow> bool" where
  "orderly s \<longleftrightarrow>
     sorted_wrt (<) (sv_gate s # map rp_generation (pipeline s)) \<and> list_all plain (waiting_requests s)
     \<and> set_generation (sv_retained s) = sv_gate s
     \<and> (\<forall>k g. sv_phase s = Activating k g \<longrightarrow> g = sv_gate s)"

section \<open>Steps keep the newest set\<close>

lemma inline_keeps:
  assumes "plain r"
  shows "sv_gate (apply_inline_request w r s) = sv_gate s" "sv_retained (apply_inline_request w r s) = sv_retained s"
proof -
  have answers: "sv_gate (fold (probe_answer w primary urgent) results t) = sv_gate t
      \<and> sv_retained (fold (probe_answer w primary urgent) results t) = sv_retained t" for primary urgent results t
    by (induction results arbitrary: t) (simp_all add: probe_answer_def split: prod.split option.split)
  then show "sv_gate (apply_inline_request w r s) = sv_gate s" "sv_retained (apply_inline_request w r s) = sv_retained s"
    using assms
    by (cases r; simp add: plain_def apply_set_volume_def apply_suspend_def run_probe_cycle_def drain_feed_def Let_def split: option.split)+
qed

lemma start_generation_newest:
  assumes "rp_generation p > sv_gate s"
  shows "sv_gate (start_generation w p s) = rp_generation p" "sv_retained (start_generation w p s) = Some p"
  using assms by (simp_all add: start_generation_def admit_def spawn_start_def Let_def)

lemma finish_fields [simp]: "sv_gate (sup_finish s) = sv_gate s" "sv_retained (sup_finish s) = sv_retained s" "sv_queue (sup_finish s) = sv_queue s"
  by (simp_all add: sup_finish_def)

text \<open>What the pipeline means depends on these fields only.\<close>

lemma orderly_cong:
  assumes "sv_phase t = sv_phase s" "sv_queue t = sv_queue s" "sv_gate t = sv_gate s" "sv_retained t = sv_retained s"
  shows "orderly t = orderly s" "newest_set t = newest_set s"
  using assms by (simp_all add: orderly_def newest_set_def pipeline_def waiting_requests_def)

definition passes :: "supervisor \<Rightarrow> supervisor \<Rightarrow> bool" where
  "passes s s' \<longleftrightarrow> sv_phase s' = Finished \<or> orderly s' \<and> newest_set s' = newest_set s"

lemma passes_same:
  "orderly s \<Longrightarrow> sv_phase t = sv_phase s \<Longrightarrow> sv_queue t = sv_queue s \<Longrightarrow> sv_gate t = sv_gate s \<Longrightarrow> sv_retained t = sv_retained s \<Longrightarrow> passes s t"
  using orderly_cong [of t s] by (simp add: passes_def)

lemma begin_phase: "begin_request (Some r) (s\<lparr>sv_phase := p\<rparr>) = begin_request (Some r) s"
  by (simp add: begin_request_def)

lemma passes_begin:
  assumes "orderly s" "sv_phase s = Waiting (Some (Some r)) \<and> q = sv_queue s \<or> sv_phase s = Waiting None \<and> sv_queue s = r # q"
  shows "passes s (begin_request (Some r) (s\<lparr>sv_queue := q, sv_phase := Waiting None\<rparr>))"
proof -
  have rising: "sorted_wrt (<) (sv_gate s # map rp_generation (reconciles (r # q)))" "list_all plain (r # q)"
    "newest_set s = last_option (sv_retained s) (reconciles (r # q))"
    using assms reconciles_append [of "[r]" q] by (auto simp: orderly_def pipeline_def waiting_requests_def newest_set_def)
  have "coalesce (r # q) [] None = (filter (\<lambda>r. \<not> is_reconcile r) (r # q), last_option None (reconciles (r # q)))"
    using rising(1) by (subst coalesce_rising) simp_all
  moreover have "list_all plain (filter (\<lambda>r. \<not> is_reconcile r) (r # q))" using rising(2) by (auto simp: list_all_iff)
  ultimately show ?thesis using assms(1) rising
    by (cases "reconciles (r # q) = []")
       (auto simp: begin_request_def passes_def orderly_def newest_set_def pipeline_def waiting_requests_def last_option_def
        dest: last_in_set)
qed

text \<open>A step into another waiting point with the same queue, gate and set.\<close>

lemma passes_moved:
  assumes "orderly s" "sv_queue t = sv_queue s" "sv_gate t = sv_gate s" "sv_retained t = sv_retained s"
    "sv_phase s \<in> {Waiting None} \<union> range (\<lambda>(k, g). Activating k g)"
    "sv_phase t \<in> {Waiting None, Waiting (Some None)} \<union> range (\<lambda>k. Activating k (sv_gate s))"
  shows "passes s t"
  using assms by (auto simp: passes_def orderly_def newest_set_def pipeline_def waiting_requests_def)

lemma passes_turn:
  assumes "orderly s" "turn w s = Some s'"
  shows "passes s s'"
proof (cases "sv_phase s")
  case (Waiting pending)
  show ?thesis
  proof (cases "sv_cancelled s \<or> pending = Some None")
    case True
    then show ?thesis using assms(2) Waiting by (auto simp: turn_def passes_def begin_request_def split: if_splits)
  next
    case False
    then obtain r where "pending = Some (Some r)" using assms(2) Waiting by (cases pending; cases "the pending") (auto simp: turn_def)
    then show ?thesis using assms Waiting False passes_begin [OF assms(1), of r "sv_queue s"] by (simp add: turn_def)
  qed
next
  case (Working inline latest)
  show ?thesis
  proof (cases inline)
    case Nil
    show ?thesis
    proof (cases latest)
      case (Some p)
      have "rp_generation p > sv_gate s" using assms(1) Working Some by (simp add: orderly_def pipeline_def)
      then show ?thesis using assms Working Nil Some
        by (auto simp: turn_def passes_def orderly_def newest_set_def pipeline_def waiting_requests_def start_generation_newest)
    next
      case None
      then show ?thesis using assms Working Nil
        by (auto simp: turn_def passes_def orderly_def newest_set_def pipeline_def waiting_requests_def)
    qed
  next
    case (Cons r rs)
    have "plain r" using assms(1) Working Cons by (simp add: orderly_def waiting_requests_def)
    then show ?thesis using assms Working Cons
      by (auto simp: turn_def passes_def orderly_def newest_set_def pipeline_def waiting_requests_def inline_keeps)
  qed
qed (use assms in \<open>auto simp: turn_def passes_def split: if_splits\<close>)

lemma passes_receive:
  assumes "orderly s" "receive s = Some s'"
  shows "passes s s'"
proof (cases "sv_phase s")
  case (Waiting pending)
  then have pending: "pending = None" using assms(2) by (auto simp: receive_def split: if_splits option.splits)
  show ?thesis
  proof (cases "sv_queue s")
    case Nil
    then show ?thesis using assms(2) Waiting pending by (auto simp: receive_def passes_def begin_request_def split: if_splits)
  next
    case (Cons r q)
    then show ?thesis using assms Waiting pending passes_begin [OF assms(1), of r q] unfolding begin_phase
      by (auto simp: receive_def split: if_splits)
  qed
next
  case (Activating k g)
  then have g: "g = sv_gate s" using assms(1) by (simp add: orderly_def)
  show ?thesis
  proof (cases "sv_queue s")
    case Nil
    then have "s' = superseded k None s" using assms(2) Activating by (auto simp: receive_def split: if_splits)
    then show ?thesis using assms(1) Activating by (intro passes_moved) (auto simp: superseded_def)
  next
    case (Cons r q)
    show ?thesis
    proof (cases "is_ignored_in_activation g r")
      case True
      then have "reconciles (r # q) = reconciles q"
        using assms(1) Activating Cons g by (cases r) (auto simp: orderly_def pipeline_def)
      then show ?thesis using assms Activating Cons True
        by (auto simp: receive_def passes_def orderly_def newest_set_def pipeline_def waiting_requests_def split: if_splits)
    next
      case False
      then show ?thesis using assms Activating Cons reconciles_append [of "[r]" q]
        by (auto simp: receive_def superseded_def passes_def orderly_def newest_set_def pipeline_def waiting_requests_def split: if_splits)
    qed
  qed
qed (use assms in \<open>auto simp: receive_def split: if_splits\<close>)

lemma activation_fields [simp]:
  "sv_queue (activation_failed w k g s) = sv_queue s" "sv_gate (activation_failed w k g s) = sv_gate s"
  "sv_retained (activation_failed w k g s) = sv_retained s"
  "sv_queue (activated w now k g s) = sv_queue s" "sv_gate (activated w now k g s) = sv_gate s" "sv_retained (activated w now k g s) = sv_retained s"
  by (auto simp: activation_failed_def activated_def drain_feed_def publish_active_diagnostics_def Let_def split: option.split)

lemma adopt_fields:
  "sv_queue (adopt w x k g s) = sv_queue s" "sv_gate (adopt w x k g s) = sv_gate s" "sv_retained (adopt w x k g s) = sv_retained s"
  "sv_phase (adopt w x k g s) \<in> {sv_phase s} \<union> range (\<lambda>k. Activating k (sv_gate s))"
  by (auto simp: adopt_def Let_def split: option.split sum.split)

lemma passes_step:
  assumes "orderly s" "sup_step w i s = Some s'" "\<And>r. i \<noteq> In_Send r"
  shows "passes s s'"
proof (cases i)
  case (In_Outcome x)
  then obtain k g where "sv_phase s = Waiting None" "s' = adopt w x k g s"
    using assms(2) by (auto split: sup_phase.splits option.splits if_splits)
  then show ?thesis using passes_moved [OF assms(1), of s'] adopt_fields [of w x k g s] by auto
next
  case (In_Probe now after)
  then have s': "s' = (run_probe_cycle w s)\<lparr>sv_next_probe := after + PROBE_INTERVAL\<rparr>" using assms(2) by (auto split: if_splits)
  have "plain Req_Probe" by (simp add: plain_def)
  from inline_keeps [OF this, of w s] show ?thesis unfolding s' by (intro passes_same assms(1)) simp_all
next
  case (In_Activated now result)
  then show ?thesis using assms(2) by (intro passes_moved assms(1)) (auto split: sup_phase.splits option.splits if_splits)
next
  case In_Deadline
  then show ?thesis using assms(2) by (intro passes_moved assms(1)) (auto split: sup_phase.splits if_splits)
next
  case In_Turn
  then show ?thesis using assms passes_turn by simp
next
  case In_Recv
  then show ?thesis using assms passes_receive by simp
next
  case (In_Send r)
  then show ?thesis using assms(3) by blast
qed (use assms in \<open>auto simp: remember_volume_def intro!: passes_same split: if_splits\<close>)

section \<open>Runs\<close>

text \<open>The requests that reached the queue in a run.\<close>

fun queued_requests :: "sup_world \<Rightarrow> sup_input list \<Rightarrow> supervisor \<Rightarrow> session_request list" where
  "queued_requests w [] s = []"
| "queued_requests w (i # is) s =
     (case i of In_Send r \<Rightarrow> if fst (try_send r s) = Inr () then [r] else [] | _ \<Rightarrow> [])
     @ (case sup_step w i s of None \<Rightarrow> [] | Some s1 \<Rightarrow> queued_requests w is s1)"

definition rising :: "session_request list \<Rightarrow> bool" where
  "rising rs \<longleftrightarrow> list_all plain rs \<and> sorted_wrt (<) (0 # map rp_generation (reconciles rs))"

text \<open>All that reached the queue so far is in the set retained or on its way.\<close>

definition follows :: "session_request list \<Rightarrow> supervisor \<Rightarrow> bool" where
  "follows rs s \<longleftrightarrow> sv_phase s = Finished \<or> orderly s \<and> newest_set s = last_option None (reconciles rs)"

lemma newest_generation:
  assumes "orderly s"
  shows "last (sv_gate s # map rp_generation (pipeline s)) = set_generation (newest_set s)"
  using assms by (auto simp: orderly_def newest_set_def last_option_def last_map)

lemma rising_snoc: "sorted_wrt (<) xs \<Longrightarrow> xs \<noteq> [] \<Longrightarrow> last xs < y \<Longrightarrow> sorted_wrt (<) (xs @ [y :: 'a::order])"
  by (induction xs) (auto split: if_splits intro: less_trans)

lemma follows_send:
  assumes "follows rs s" "rising (rs @ [r])" "try_send r s = (Inr (), s')"
  shows "follows (rs @ [r]) s'"
proof -
  have s: "orderly s" "newest_set s = last_option None (reconciles rs)" "sv_phase s \<noteq> Finished"
    and s': "sv_queue s' = sv_queue s @ [r]" "sv_phase s' = sv_phase s" "sv_gate s' = sv_gate s" "sv_retained s' = sv_retained s"
    using assms(1,3) by (auto simp: follows_def try_send_def remember_volume_def Let_def split: session_request.splits if_splits)
  have pipe: "pipeline s' = pipeline s @ reconciles [r]" "waiting_requests s' = waiting_requests s @ [r]"
    using s' by (auto simp: pipeline_def waiting_requests_def)
  have "sorted_wrt (<) (sv_gate s # map rp_generation (pipeline s @ reconciles [r]))"
  proof (cases "is_reconcile r")
    case True
    then obtain p where p: "reconciles [r] = [p]" by (cases r) (auto simp: is_reconcile_def)
    have "last (sv_gate s # map rp_generation (pipeline s)) < rp_generation p"
      using assms(2) p s(2) newest_generation [OF s(1)]
      by (auto simp: rising_def last_option_def sorted_wrt_append split: if_splits)
    then show ?thesis using s(1) p rising_snoc [of "sv_gate s # map rp_generation (pipeline s)" "rp_generation p"] by (simp add: orderly_def)
  next
    case False
    then show ?thesis using s(1) reconciles_Nil_other [of r "[]"] by (simp add: orderly_def)
  qed
  then show ?thesis using s s' pipe assms(2) by (auto simp: follows_def orderly_def newest_set_def rising_def)
qed

lemma follows_run:
  assumes "sup_run w is s = Some s'" "follows rs s" "rising (rs @ queued_requests w is s)"
  shows "follows (rs @ queued_requests w is s) s'"
  using assms
proof (induction "is" arbitrary: s rs)
  case (Cons i "is")
  obtain s1 where s1: "sup_step w i s = Some s1" "sup_run w is s1 = Some s'" using Cons(2) by (auto split: option.splits)
  let ?new = "case i of In_Send r \<Rightarrow> if fst (try_send r s) = Inr () then [r] else [] | _ \<Rightarrow> []"
  have all: "queued_requests w (i # is) s = ?new @ queued_requests w is s1" using s1 by simp
  have prefix: "rising (rs @ ?new)" using Cons(4) unfolding all by (auto simp: rising_def sorted_wrt_append)
  have "follows (rs @ ?new) s1"
  proof (cases "\<exists>r. i = In_Send r")
    case True
    then obtain r where r: "i = In_Send r" by blast
    have step: "s1 = snd (try_send r s)" using s1(1) r by (simp split: if_splits)
    show ?thesis
    proof (cases "fst (try_send r s) = Inr ()")
      case True
      then show ?thesis using follows_send [OF Cons(3), of r s1] prefix r step by (simp add: prod_eq_iff)
    next
      case False
      then have "sv_queue s1 = sv_queue s" "sv_phase s1 = sv_phase s" "sv_gate s1 = sv_gate s" "sv_retained s1 = sv_retained s"
        unfolding step by (auto simp: try_send_def remember_volume_def Let_def split: session_request.splits if_splits)
      then show ?thesis using Cons(3) False r orderly_cong [of s1 s] by (simp add: follows_def)
    qed
  next
    case False
    then have "?new = []" by (cases i) auto
    moreover have "sv_phase s = Finished \<Longrightarrow> sv_phase s1 = Finished"
      using s1(1) False by (cases i) (auto simp: turn_def receive_def remember_volume_def split: if_splits)
    ultimately show ?thesis using passes_step [OF _ s1(1)] False Cons(3) by (auto simp: follows_def passes_def)
  qed
  from Cons(1) [OF s1(2) this] show ?case using Cons(4) unfolding all by (simp only: append_assoc)
qed simp

lemma follows_start: "follows [] (supervisor_start now volumes diagnostics)"
  by (simp add: follows_def orderly_def newest_set_def pipeline_def waiting_requests_def supervisor_start_def)

section \<open>Bursts\<close>

text \<open>No handler of a request looks at the waiting point or the queue.\<close>

definition set_wait :: "sup_phase \<Rightarrow> session_request list \<Rightarrow> supervisor \<Rightarrow> supervisor" where
  "set_wait p q s = s\<lparr>sv_phase := p, sv_queue := q\<rparr>"

lemma set_wait_fields [simp]:
  "sv_in_flight (set_wait p q s) = sv_in_flight s" "sv_active (set_wait p q s) = sv_active s" "sv_gate (set_wait p q s) = sv_gate s"
  "sv_health (set_wait p q s) = sv_health s" "sv_retained (set_wait p q s) = sv_retained s" "sv_out (set_wait p q s) = sv_out s"
  "sv_starts (set_wait p q s) = sv_starts s" "sv_diagnostics (set_wait p q s) = sv_diagnostics s" "sv_volumes (set_wait p q s) = sv_volumes s"
  "sv_cancelled (set_wait p q s) = sv_cancelled s" "sv_phase (set_wait p q s) = p" "sv_queue (set_wait p q s) = q"
  by (simp_all add: set_wait_def)

lemma wait_emit: "emit x (set_wait p q s) = set_wait p q (emit x s)" "push_update w u (set_wait p q s) = set_wait p q (push_update w u s)"
  by (simp_all add: emit_def push_update_def set_wait_def)

lemma wait_stop: "abort_start (set_wait p q s) = set_wait p q (abort_start s)" "stop_active r (set_wait p q s) = set_wait p q (stop_active r s)"
  "join_start (set_wait p q s) = set_wait p q (join_start s)" "supersede r (set_wait p q s) = set_wait p q (supersede r s)"
  by (simp_all add: abort_start_def stop_active_def join_start_def supersede_def publish_inactive_diagnostics_def publish_diagnostics_def emit_def
      set_wait_def split: option.split)

lemma wait_start: "start_generation w g (set_wait p q s) = set_wait p q (start_generation w g s)"
proof -
  have "supersede r ((set_wait p q s)\<lparr>sv_gate := x\<rparr>) = set_wait p q (supersede r (s\<lparr>sv_gate := x\<rparr>))" for r x
    unfolding supersede_gate wait_stop by (simp add: set_wait_def)
  then show ?thesis
    by (simp add: start_generation_def admit_def Let_def spawn_start_def push_update_def emit_def) (simp add: set_wait_def)
qed

lemma wait_rebuild: "rebuild_for_cause w r (set_wait p q s) = set_wait p q (rebuild_for_cause w r s)"
  by (simp add: rebuild_for_cause_def wait_emit wait_start split: option.split)

lemma wait_answers: "fold (probe_answer w primary urgent) xs (set_wait p q s) = set_wait p q (fold (probe_answer w primary urgent) xs s)"
proof (induction xs arbitrary: s)
  case (Cons x xs)
  have "probe_answer w primary urgent x (set_wait p q s) = set_wait p q (probe_answer w primary urgent x s)"
    by (simp add: probe_answer_def push_update_def emit_def split: prod.split option.split) (simp add: set_wait_def)
  then show ?case using Cons by simp
qed simp

lemma wait_probe: "run_probe_cycle w (set_wait p q s) = set_wait p q (run_probe_cycle w s)"
proof (cases "sv_active s")
  case (Some k)
  have "drain_feed w k (set_wait p q s) = set_wait p q (drain_feed w k s)" by (simp add: drain_feed_def emit_def set_wait_def)
  moreover have "emit x ((set_wait p q t)\<lparr>sv_health := h\<rparr>) = set_wait p q (emit x (t\<lparr>sv_health := h\<rparr>))" for x t h
    by (simp add: emit_def set_wait_def)
  ultimately show ?thesis using Some by (simp add: run_probe_cycle_def Let_def wait_answers)
qed (simp add: run_probe_cycle_def)

lemma wait_inline: "apply_inline_request w r (set_wait p q s) = set_wait p q (apply_inline_request w r s)"
proof -
  have "(set_wait p q t)\<lparr>sv_health := h\<rparr> = set_wait p q (t\<lparr>sv_health := h\<rparr>)" for t h by (simp add: set_wait_def)
  then show ?thesis
    by (cases r) (simp_all add: apply_set_volume_def apply_suspend_def wait_probe wait_rebuild wait_emit wait_stop Let_def split: option.split)
qed

lemma wait_twice [simp]: "set_wait p q (set_wait p' q' s) = set_wait p q s"
  by (simp add: set_wait_def)

text \<open>The others first, then the newest set.\<close>

definition handle_burst :: "sup_world \<Rightarrow> session_request list \<times> reconcile_params option \<Rightarrow> supervisor \<Rightarrow> supervisor" where
  "handle_burst w burst s =
     (case burst of (inline, latest) \<Rightarrow>
        let t = fold (apply_inline_request w) inline s in case latest of None \<Rightarrow> t | Some p \<Rightarrow> start_generation w p t)"

lemma working_run:
  "sup_run w (replicate (Suc (length inline)) In_Turn) (set_wait (Working inline latest) q s)
     = Some (set_wait (Waiting None) q (handle_burst w (inline, latest) s))"
proof (induction inline arbitrary: s)
  case Nil
  have "x\<lparr>sv_phase := Waiting None\<rparr> = set_wait (Waiting None) q x" if "sv_queue x = q" for x using that by (simp add: set_wait_def)
  then have "(set_wait (Working [] latest) q s)\<lparr>sv_phase := Waiting None\<rparr> = set_wait (Waiting None) q s" by (simp add: set_wait_def)
  then show ?case by (cases latest) (simp_all add: turn_def handle_burst_def wait_start)
next
  case (Cons r rs)
  have "(set_wait (Working (r # rs) latest) q s)\<lparr>sv_phase := Working rs latest\<rparr> = set_wait (Working rs latest) q s" by (simp add: set_wait_def)
  then have "turn w (set_wait (Working (r # rs) latest) q s) = Some (set_wait (Working rs latest) q (apply_inline_request w r s))"
    by (simp add: turn_def wait_inline)
  then show ?case using Cons [of "apply_inline_request w r s"] by (simp add: handle_burst_def)
qed

text \<open>The first of the sets with the highest generation, in a burst of any order.\<close>

definition newer_of :: "reconcile_params option \<Rightarrow> reconcile_params \<Rightarrow> reconcile_params option" where
  "newer_of latest p = (case latest of None \<Rightarrow> Some p | Some c \<Rightarrow> if rp_generation p > rp_generation c then Some p else Some c)"

definition highest_in :: "reconcile_params \<Rightarrow> reconcile_params list \<Rightarrow> bool" where
  "highest_in p ps \<longleftrightarrow> (\<exists>before after. ps = before @ p # after
     \<and> (\<forall>x\<in>set before. rp_generation x < rp_generation p) \<and> (\<forall>x\<in>set after. rp_generation x \<le> rp_generation p))"

lemma newer_of_simps [simp]:
  "newer_of None p = Some p" "newer_of (Some c) p = (if rp_generation p > rp_generation c then Some p else Some c)"
  by (simp_all add: newer_of_def)

lemma coalesce_newest:
  "coalesce rs inline latest = (inline @ filter (\<lambda>r. \<not> is_reconcile r) rs, foldl newer_of latest (reconciles rs))"
proof (induction rs inline latest rule: coalesce.induct)
  case (2 g desired primary latency calibration teardown pending inline latest)
  then show ?case by (cases latest) (auto simp: is_reconcile_def)
qed (simp_all add: is_reconcile_def)

lemma newer_of_highest: "ps \<noteq> [] \<Longrightarrow> \<exists>p. foldl newer_of None ps = Some p \<and> highest_in p ps"
proof (induction ps rule: rev_induct)
  case (snoc x ps)
  show ?case
  proof (cases "ps = []")
    case True
    have "highest_in x [x]" by (auto simp: highest_in_def intro: exI [of _ "[]"])
    with True show ?thesis by simp
  next
    case False
    with snoc(1) obtain p where found: "foldl newer_of None ps = Some p" "highest_in p ps" by blast
    then obtain before after where p: "foldl newer_of None ps = Some p" "ps = before @ p # after"
        "\<forall>y\<in>set before. rp_generation y < rp_generation p" "\<forall>y\<in>set after. rp_generation y \<le> rp_generation p"
      unfolding highest_in_def by blast
    show ?thesis
    proof (cases "rp_generation x > rp_generation p")
      case True
      then have "\<forall>y\<in>set ps. rp_generation y < rp_generation x" using p(2-4) by force
      then have "highest_in x (ps @ [x])" unfolding highest_in_def by (intro exI [of _ ps] exI [of _ "[]"]) simp
      with True p(1) show ?thesis by simp
    next
      case False
      then have "\<forall>y\<in>set (after @ [x]). rp_generation y \<le> rp_generation p" using p(4) by auto
      then have "highest_in p (ps @ [x])" unfolding highest_in_def using p(2,3) by (intro exI [of _ before] exI [of _ "after @ [x]"]) simp
      with False p(1) show ?thesis by simp
    qed
  qed
qed simp

lemma others_keep:
  "list_all plain rs \<Longrightarrow> sv_gate (fold (apply_inline_request w) rs s) = sv_gate s
     \<and> sv_retained (fold (apply_inline_request w) rs s) = sv_retained s"
  by (induction rs arbitrary: s) (simp_all add: inline_keeps)

lemma start_generation_in_flight:
  "rp_generation p > sv_gate s \<Longrightarrow> rp_desired p \<noteq> [] \<Longrightarrow> \<exists>k. sv_in_flight (start_generation w p s) = Some (k, rp_generation p)"
  by (simp add: start_generation_def admit_def spawn_start_def emit_def Let_def)

text \<open>
  C37: a burst of requests is not handled in its order. When the waiting supervisor takes a burst of any length, it
  handles first every request that is not a reconcile, each once and in their order, and then one reconcile only: of the
  burst's reconciles the one with the highest generation, the first of them where several share it. So, when the burst
  has no network change and no resume and that generation is above the gate, the set of that reconcile is the retained
  one afterwards and its start is in flight, even when a suspend followed it in the burst.
\<close>

theorem burst_order:
  assumes "sv_phase s = Waiting None" "\<not> sv_cancelled s" "sv_queue s = r # q"
  shows "\<exists>others t. others = filter (\<lambda>r. \<not> is_reconcile r) (r # q) \<and> t = fold (apply_inline_request w) others s
    \<and> (if reconciles (r # q) = []
       then sup_run w (In_Recv # replicate (Suc (length others)) In_Turn) s = Some (set_wait (Waiting None) [] t)
       else \<exists>p s'. highest_in p (reconciles (r # q))
         \<and> sup_run w (In_Recv # replicate (Suc (length others)) In_Turn) s = Some s'
         \<and> s' = set_wait (Waiting None) [] (start_generation w p t)
         \<and> (list_all plain (r # q) \<and> sv_gate s < rp_generation p \<longrightarrow>
              sv_gate s' = rp_generation p \<and> sv_retained s' = Some p
              \<and> (rp_desired p \<noteq> [] \<longrightarrow> (\<exists>k. sv_in_flight s' = Some (k, rp_generation p)))))"
proof -
  define others where "others = filter (\<lambda>r. \<not> is_reconcile r) (r # q)"
  define t where "t = fold (apply_inline_request w) others s"
  define latest where "latest = foldl newer_of None (reconciles (r # q))"
  have "coalesce (r # q) [] None = (others, latest)"
    unfolding others_def latest_def using coalesce_newest [of "r # q" "[]" None] by simp
  then have "receive s = Some (set_wait (Working others latest) [] s)"
    using assms by (simp add: receive_def begin_request_def set_wait_def)
  then have run: "sup_run w (In_Recv # replicate (Suc (length others)) In_Turn) s
      = Some (set_wait (Waiting None) [] (case latest of None \<Rightarrow> t | Some p \<Rightarrow> start_generation w p t))"
    using working_run [of w others latest "[]" s] by (cases latest) (simp_all add: handle_burst_def t_def)
  show ?thesis
  proof (cases "reconciles (r # q) = []")
    case True
    then show ?thesis using run t_def others_def latest_def by auto
  next
    case False
    then obtain p where p: "latest = Some p" "highest_in p (reconciles (r # q))"
      using newer_of_highest unfolding latest_def by blast
    have "sv_gate t = sv_gate s" if "list_all plain (r # q)"
      using that others_keep [of others w s] by (auto simp: t_def others_def list_all_iff)
    then have "list_all plain (r # q) \<and> sv_gate s < rp_generation p \<longrightarrow>
        sv_gate (start_generation w p t) = rp_generation p \<and> sv_retained (start_generation w p t) = Some p
        \<and> (rp_desired p \<noteq> [] \<longrightarrow> (\<exists>k. sv_in_flight (start_generation w p t) = Some (k, rp_generation p)))"
      using start_generation_newest [of t p w] start_generation_in_flight [of t p w] by metis
    with False p run show ?thesis using t_def others_def by (auto simp del: sup_run.simps)
  qed
qed

theorem burst_order_witness:
  "\<forall>d. \<exists>s s' k. sv_queue s = [demo_reconcile 2 [d], demo_reconcile 1 [], Req_Suspend]
     \<and> sup_run demo_sup_world [In_Recv, In_Turn, In_Turn] s = Some s' \<and> sv_in_flight s' = Some (k, 2)"
proof
  fix d
  let ?q = "[demo_reconcile 1 [], Req_Suspend]"
  let ?s = "(supervisor_start 0 volumes_default (Diag_Inactive 0 Reason_Stopped))\<lparr>sv_queue := demo_reconcile 2 [d] # ?q\<rparr>"
  have s: "sv_phase ?s = Waiting None" "\<not> sv_cancelled ?s" "sv_queue ?s = demo_reconcile 2 [d] # ?q" "sv_gate ?s = 0"
    by (simp_all add: supervisor_start_def)
  have burst: "filter (\<lambda>r. \<not> is_reconcile r) (demo_reconcile 2 [d] # ?q) = [Req_Suspend]" "list_all plain (demo_reconcile 2 [d] # ?q)"
    by (simp_all add: demo_reconcile_def is_reconcile_def plain_def)
  have sets: "reconciles (demo_reconcile 2 [d] # ?q) \<noteq> []"
    "highest_in p (reconciles (demo_reconcile 2 [d] # ?q)) \<Longrightarrow> rp_generation p = 2 \<and> rp_desired p = [d]" for p
    by (auto simp: demo_reconcile_def highest_in_def Cons_eq_append_conv)
  obtain s' p where "highest_in p (reconciles (demo_reconcile 2 [d] # ?q))"
      "sup_run demo_sup_world [In_Recv, In_Turn, In_Turn] ?s = Some s'"
      "sv_gate ?s < rp_generation p \<longrightarrow> rp_desired p \<noteq> [] \<longrightarrow> (\<exists>k. sv_in_flight s' = Some (k, rp_generation p))"
    using burst_order [OF s(1-3), of demo_sup_world] burst sets(1) by (auto simp del: sup_run.simps)
  then show "\<exists>s s' k. sv_queue s = [demo_reconcile 2 [d], demo_reconcile 1 [], Req_Suspend]
     \<and> sup_run demo_sup_world [In_Recv, In_Turn, In_Turn] s = Some s' \<and> sv_in_flight s' = Some (k, 2)"
    using s(3,4) sets(2) [of p] by fastforce
qed

section \<open>The end of the task\<close>

fun turns_left :: "sup_phase \<Rightarrow> nat" where
  "turns_left (Waiting _) = 1"
| "turns_left (Working inline _) = length inline + 2"
| "turns_left (Activating _ _) = 1"
| "turns_left Finished = 0"

lemma cancelled_kept [simp]:
  "sv_cancelled (start_generation w p s) = sv_cancelled s" "sv_cancelled (apply_inline_request w r s) = sv_cancelled s"
proof -
  have sup: "sv_cancelled (abort_start t) = sv_cancelled t" "sv_cancelled (stop_active x t) = sv_cancelled t" "sv_cancelled (push_update w u t) = sv_cancelled t" for t x u
    by (simp_all add: abort_start_def stop_active_def publish_inactive_diagnostics_def publish_diagnostics_def push_update_def emit_def split: option.split)
  show start: "sv_cancelled (start_generation w p s) = sv_cancelled s" for p s
    by (simp add: start_generation_def admit_def supersede_def spawn_start_def sup Let_def)
  have "sv_cancelled (fold (probe_answer w primary urgent) xs t) = sv_cancelled t" for primary urgent xs t
    by (induction xs arbitrary: t) (simp_all add: probe_answer_def sup split: prod.split option.split)
  then show "sv_cancelled (apply_inline_request w r s) = sv_cancelled s"
    by (cases r) (simp_all add: apply_set_volume_def apply_suspend_def join_start_def run_probe_cycle_def drain_feed_def rebuild_for_cause_def
        sup start Let_def split: option.split)
qed

lemma cancelled_ends:
  "sv_cancelled s \<Longrightarrow> \<exists>s'. sup_run w (replicate (turns_left (sv_phase s)) In_Turn) s = Some s' \<and> sv_phase s' = Finished"
proof (induction "turns_left (sv_phase s)" arbitrary: s)
  case (Suc n)
  have "\<exists>t. turn w s = Some t \<and> sv_cancelled t \<and> turns_left (sv_phase t) = n \<or> turn w s = Some t \<and> sv_phase t = Finished \<and> n = 0"
    using Suc(2,3) by (cases "sv_phase s" rule: turns_left.cases) (auto simp: turn_def neq_Nil_conv split: list.split option.split)
  then obtain t where t: "turn w s = Some t" "sv_cancelled t \<and> n = turns_left (sv_phase t) \<or> sv_phase t = Finished \<and> n = 0" by auto
  then show ?case using Suc(1) [of t] Suc(2) by (auto simp flip: Suc(2))
qed (metis (no_types) nat.distinct(1) One_nat_def add_is_0 numeral_2_eq_2 replicate_0 sup_run.simps(1) turns_left.elims)

text \<open>
  C38: a cancelled supervisor always ends: from every state it can reach it needs no more input, only one turn for every
  request of the burst in hand and at most two more, and then neither a start nor a transport is left.
\<close>

theorem cancelled_supervisor_ends:
  assumes "sup_run w inputs (supervisor_start now volumes diagnostics) = Some s" "sv_cancelled s"
  shows "\<exists>s'. sup_run w (replicate (turns_left (sv_phase s)) In_Turn) s = Some s' \<and> sv_phase s' = Finished
    \<and> sv_in_flight s' = None \<and> sv_active s' = None"
proof -
  obtain s' where s': "sup_run w (replicate (turns_left (sv_phase s)) In_Turn) s = Some s'" "sv_phase s' = Finished"
    using cancelled_ends [OF assms(2)] by blast
  have "kept s'" using kept.sup_run_keeps [OF kept.sup_run_keeps [OF kept_start assms(1)] s'(1)] .
  then show ?thesis using s' by (simp add: kept_def)
qed

theorem cancelled_supervisor_ends_witness:
  "\<forall>d. \<exists>s s'. sup_run demo_sup_world [In_Send (demo_reconcile 1 [d]), In_Send Req_Suspend, In_Recv, In_Cancel]
       (supervisor_start 0 volumes_default (Diag_Inactive 0 Reason_Stopped)) = Some s
     \<and> sup_run demo_sup_world (replicate 3 In_Turn) s = Some s' \<and> sv_phase s' = Finished \<and> sv_in_flight s' = None"
proof
  fix d
  let ?is = "[In_Send (demo_reconcile 1 [d]), In_Send Req_Suspend, In_Recv, In_Cancel]"
  obtain s where s: "sup_run demo_sup_world ?is (supervisor_start 0 volumes_default (Diag_Inactive 0 Reason_Stopped)) = Some s"
    "sv_cancelled s" "turns_left (sv_phase s) = 3"
    by (simp add: demo_sup_defs Let_def)
  from cancelled_supervisor_ends [OF s(1,2)] s show "\<exists>s s'. sup_run demo_sup_world ?is
       (supervisor_start 0 volumes_default (Diag_Inactive 0 Reason_Stopped)) = Some s
     \<and> sup_run demo_sup_world (replicate 3 In_Turn) s = Some s' \<and> sv_phase s' = Finished \<and> sv_in_flight s' = None" by auto
qed

end
