(* ===== verification/Session_Composition.thy ===== *)
theory Session_Composition
  imports Session_Requests
begin

text \<open>
  The controller and the session supervisor together: the controller numbers its requests upwards and
  sends none of those for which the supervisor counts by itself, so the set a session is built from is
  always the one the controller asked for last.
\<close>

section \<open>The controller's requests\<close>

fun request_of :: "ctl_output \<Rightarrow> session_request list" where
  "request_of (Out_Session r) = [r]"
| "request_of _ = []"

definition requests_of :: "ctl_output list \<Rightarrow> session_request list" where
  "requests_of outs = concat (map request_of outs)"

lemma requests_of_append [simp]: "requests_of (xs @ ys) = requests_of xs @ requests_of ys"
  by (simp add: requests_of_def)

lemma requests_of_simps [simp]: "requests_of [] = []" "requests_of (x # xs) = request_of x @ requests_of xs"
  by (simp_all add: requests_of_def)

lemma requests_of_volumes [simp]: "requests_of (map (\<lambda>r. Out_RememberVolume r (f r)) rs) = []"
  by (induction rs) simp_all

definition asking :: "controller \<Rightarrow> session_request list \<times> u64" where
  "asking c = (requests_of (c_out c), c_session_generation c)"

definition ascending :: "controller \<Rightarrow> bool" where
  "ascending c \<longleftrightarrow> (case asking c of (rs, g) \<Rightarrow>
     list_all plain rs \<and> (g = - 1 \<or> sorted_wrt (<) (0 # map rp_generation (reconciles rs)) \<and> (\<forall>p\<in>set (reconciles rs). rp_generation p \<le> g)))"

lemma asking_send: "asking (send x c) = (requests_of (c_out c) @ request_of x, c_session_generation c)"
  by (simp add: asking_def send_def)

lemma asking_fields [simp]:
  "asking (c\<lparr>c_snapshot := s\<rparr>) = asking c" "asking (c\<lparr>c_published := s\<rparr>) = asking c" "asking (c\<lparr>c_persisted := p\<rparr>) = asking c"
  "asking (c\<lparr>c_listening_test := t\<rparr>) = asking c" "asking (c\<lparr>c_last_listening_test_generation := lg\<rparr>) = asking c"
  "asking (c\<lparr>c_suspended := b\<rparr>) = asking c" "asking (on_snapshot f c) = asking c" "asking (record_result i r c) = asking c"
  by (simp_all add: asking_def on_snapshot_def record_result_def)

lemma asking_core: "same_core c c' \<Longrightarrow> asking c' = asking c"
  by (simp add: asking_def same_core_def)

lemma asking_silent_send: "request_of x = [] \<Longrightarrow> asking (send x c) = asking c"
  by (simp add: asking_def send_def)

lemma asking_publish [simp]: "asking (publish w c) = asking c"
  by (simp add: publish_def Let_def asking_silent_send)

lemma asking_answers [simp]:
  "asking (complete i c) = asking c" "asking (fail_with_kind i message kind c) = asking c" "asking (fail_command i message c) = asking c"
  "asking (note_persistence_failure i c) = asking c"
  by (simp_all add: complete_def fail_with_kind_def fail_command_def note_persistence_failure_def asking_silent_send)

lemma asking_commit [simp]: "asking (fst (commit_durable w i mutate announce rr sn c)) = asking c"
  by (simp add: commit_durable_def announce_commit_def Let_def rebuild_receiver_rows_def sync_saved_names_def asking_silent_send
      asking_core [OF same_core_tidy] asking_core [OF same_core_fields(4)])

lemma ascending_request:
  assumes "ascending c" "generation = saturating_add (c_session_generation c) 1"
  shows "ascending (c\<lparr>c_session_generation := generation,
        c_out := c_out c @ map (\<lambda>r. Out_RememberVolume r (effective_level c r)) rs
          @ [Out_Session (Req_Reconcile generation devices preferred latency profile teardown)]\<rparr>)"
proof (cases "generation = - 1")
  case False
  then have "c_session_generation c \<noteq> - 1"
    using saturating_add_ge [of "c_session_generation c" 1] assms(2) by (metis word_order.extremum_unique)
  moreover have "g < generation" if "g \<le> c_session_generation c" for g using next_generation [OF that] False assms(2) by simp
  ultimately show ?thesis using assms(1) False by (auto simp: ascending_def asking_def plain_def sorted_wrt_append intro: less_imp_le)
qed (use assms in \<open>auto simp: ascending_def asking_def plain_def\<close>)

lemma quiet_request: "quiet_output c x \<Longrightarrow> list_all plain (request_of x) \<and> reconciles (request_of x) = []"
  by (cases "(c, x)" rule: quiet_output.cases) (auto simp: plain_def)

interpretation ascending: ctl_commands lower ascending "\<lambda>_. True" for lower
proof unfold_locales
  fix c c' :: controller and w :: ctl_world and generation devices teardown rs preferred latency profile s x g ident
  show "ascending c \<Longrightarrow> same_core c c' \<Longrightarrow> ascending c'" by (simp add: ascending_def asking_core)
  show "ascending c \<Longrightarrow> quiet_output c x \<Longrightarrow> ascending (send x c)"
    using quiet_request [of c x] by (auto simp: ascending_def asking_send) (auto simp: asking_def)
  show "ascending c \<Longrightarrow> may_request c devices teardown \<Longrightarrow> generation = saturating_add (c_session_generation c) 1 \<Longrightarrow>
      ascending (c\<lparr>c_session_generation := generation,
        c_out := c_out c @ map (\<lambda>r. Out_RememberVolume r (effective_level c r)) rs
          @ [Out_Session (Req_Reconcile generation devices preferred latency profile teardown)]\<rparr>)"
    by (rule ascending_request)
  show "ascending c \<Longrightarrow> c_session_generation c \<le> g \<Longrightarrow> ascending (c\<lparr>c_session_generation := g\<rparr>)"
    using word_order.extremum_unique [of g] by (auto simp: ascending_def asking_def)
  show "ascending c \<Longrightarrow> ascending (run_listening_test w ident s c)" for s
    by (simp add: ascending_def run_listening_test_def Let_def asking_silent_send)
qed (simp_all add: ascending_def asking_silent_send)

lemma ascending_reach: "ctl_reach lower p profile c \<Longrightarrow> ascending c"
proof (induction rule: ctl_reach.induct)
  case (start w)
  then show ?case
    by (simp add: from_persisted_def Let_def rebuild_receiver_rows_def tidy_receivers_def ascending_def asking_def)
next
  case (step c w e c' stop)
  have "ascending (fst (ctl_step w e c))"
  proof (cases "(\<exists>es. e = Ev_Commands es) \<or> e = Ev_AutoConnectDue")
    case True
    then show ?thesis using ascending.process_batch_keeps [OF step(4,2)] ascending.auto_connect_keeps [OF step(4,2)] step(4) by auto
  next
    case False
    then show ?thesis using ascending.supervisor_keeps [OF step(4,2)] by blast
  qed
  then show ?case using step(3) by simp
qed

lemma requests_rising:
  assumes "ctl_reach lower p profile c" "c_session_generation c \<noteq> - 1"
  shows "rising (requests_of (c_out c))"
  using ascending_reach [OF assms(1)] assms(2) by (simp add: rising_def ascending_def asking_def)

section \<open>What a session was built from\<close>

definition owners :: "supervisor \<Rightarrow> nat set" where
  "owners s = {k. map_option fst (sv_in_flight s) = Some k \<or> sv_active s = Some k \<or> (\<exists>g. sv_phase s = Activating k g)}"

definition rooted :: "supervisor \<Rightarrow> bool" where
  "rooted s \<longleftrightarrow> (\<forall>k\<in>owners s. \<exists>p. sv_retained s = Some p \<and> Sup_Spawn k p \<in> set (sv_out s))"

text \<open>A step that takes on no new start or transport, keeps the set and only adds to what was sent.\<close>

definition quietly :: "supervisor \<Rightarrow> supervisor \<Rightarrow> bool" where
  "quietly s t \<longleftrightarrow> sv_retained t = sv_retained s \<and> set (sv_out s) \<subseteq> set (sv_out t)
     \<and> (\<forall>k. map_option fst (sv_in_flight t) = Some k \<longrightarrow> map_option fst (sv_in_flight s) = Some k)
     \<and> (\<forall>k. sv_active t = Some k \<longrightarrow> sv_active s = Some k)"

lemma quietly_refl [simp]: "quietly s s" "quietly s (s\<lparr>sv_phase := p\<rparr>)" "quietly s (s\<lparr>sv_queue := q\<rparr>)" "quietly s (s\<lparr>sv_health := h\<rparr>)"
  "quietly s (emit out s)" "quietly s (push_update w u s)"
  by (auto simp: quietly_def emit_def push_update_def)

lemma quietly_trans: "quietly s t \<Longrightarrow> quietly t u \<Longrightarrow> quietly s u"
  by (auto simp: quietly_def)

lemma quietly_abort [simp]: "quietly s (abort_start s)"
  by (auto simp: abort_start_def quietly_def emit_def split: option.split)

lemma quietly_stop [simp]: "quietly s (stop_active r s)"
  by (auto simp: stop_active_def quietly_def emit_def publish_inactive_diagnostics_def publish_diagnostics_def split: option.split)

lemma quietly_supersede [simp]: "quietly s (supersede r s)"
  unfolding supersede_def by (rule quietly_trans [OF quietly_abort quietly_stop])

lemma quietly_answer [simp]: "quietly s (probe_answer w primary urgent x s)"
  by (auto simp: probe_answer_def quietly_def push_update_def emit_def split: prod.split option.split)

lemma quietly_answers [simp]: "quietly s (fold (probe_answer w primary urgent) xs s)"
  by (induction xs arbitrary: s) (auto intro: quietly_trans [OF quietly_answer])

lemma quietly_drain [simp]: "quietly s (drain_feed w k s)"
  by (auto simp: drain_feed_def quietly_def emit_def)

lemma quietly_probe [simp]: "quietly s (run_probe_cycle w s)"
proof (cases "sv_active s")
  case (Some k)
  let ?s1 = "drain_feed w k s"
  have "quietly s (emit (Sup_Probe k) (?s1\<lparr>sv_health := (sv_health ?s1)\<lparr>hs_urgent := {}\<rparr>\<rparr>))"
    by (rule quietly_trans [OF quietly_trans [OF quietly_drain quietly_refl(4)] quietly_refl(5)])
  then show ?thesis using Some quietly_trans [OF _ quietly_answers] by (simp add: run_probe_cycle_def Let_def)
qed (simp add: run_probe_cycle_def)

lemma quietly_volume [simp]: "quietly s (apply_set_volume w r s)"
  by (auto simp: apply_set_volume_def quietly_def push_update_def emit_def Let_def split: option.split)

lemma quietly_suspend [simp]: "quietly s (apply_suspend w s)"
proof -
  have "quietly s (join_start s)" by (auto simp: join_start_def intro: quietly_trans [OF quietly_abort quietly_refl(5)] split: option.split)
  from quietly_trans [OF quietly_trans [OF this quietly_stop] quietly_refl(4)]
  have "quietly s ((stop_active Reason_Restarted (join_start s))\<lparr>sv_health := health_default\<rparr>)" .
  then show ?thesis using quietly_trans [OF _ quietly_refl(6)] by (simp add: apply_suspend_def Let_def)
qed

lemma quietly_finish [simp]: "quietly s (sup_finish s)"
  unfolding sup_finish_def by (rule quietly_trans [OF quietly_trans [OF quietly_abort quietly_stop] quietly_refl(2)])

lemma rooted_quietly:
  assumes "rooted s" "quietly s t" "\<And>k g. sv_phase t = Activating k g \<Longrightarrow> k \<in> owners s"
  shows "rooted t"
  using assms unfolding rooted_def quietly_def owners_def by (smt (verit) mem_Collect_eq subsetD)

lemma rooted_start_generation:
  assumes "rooted s" "\<And>k g. sv_phase s \<noteq> Activating k g"
  shows "rooted (start_generation w p s)"
  using assms
  by (auto simp: rooted_def owners_def start_generation_def admit_def spawn_start_def push_update_def emit_def Let_def)

lemma rooted_inline:
  assumes "rooted s" "\<And>k g. sv_phase s \<noteq> Activating k g"
  shows "rooted (apply_inline_request w r s)"
proof -
  have rebuild: "rooted (rebuild_for_cause w reason s)" for reason
    using rooted_start_generation [OF rooted_quietly [OF assms(1)], of "push_update w _ s"] assms
    by (auto simp: rebuild_for_cause_def split: option.split)
  have "rooted t" if "quietly s t" "sv_phase t = sv_phase s" for t using rooted_quietly [OF assms(1) that(1)] that(2) assms(2) by simp
  then show ?thesis using assms(1) rebuild inline_phase(1) [of w r s] by (cases r) auto
qed

lemma rooted_frame:
  "rooted s \<Longrightarrow> (\<And>k g. p \<noteq> Activating k g) \<Longrightarrow> rooted (s\<lparr>sv_phase := p\<rparr>)"
  "rooted (s\<lparr>sv_queue := q\<rparr>) = rooted s" "rooted (s\<lparr>sv_closed := c\<rparr>) = rooted s" "rooted (s\<lparr>sv_cancelled := c\<rparr>) = rooted s"
  "rooted (remember_volume r v s) = rooted s" "rooted (s\<lparr>sv_next_probe := n\<rparr>) = rooted s" "rooted (snd (try_send x s)) = rooted s"
  by (auto simp: rooted_def owners_def remember_volume_def try_send_def Let_def split: session_request.split)

lemma rooted_finish: "rooted s \<Longrightarrow> rooted (sup_finish s)"
  by (rule rooted_quietly [OF _ quietly_finish]) simp_all

lemma rooted_begin: "rooted s \<Longrightarrow> rooted (begin_request r s)"
  by (auto simp: begin_request_def rooted_finish rooted_frame split: option.split prod.split)

lemma rooted_stop: "rooted s \<Longrightarrow> (\<And>k g. p \<noteq> Activating k g) \<Longrightarrow> rooted (emit x (s\<lparr>sv_phase := p\<rparr>))"
  by (rule rooted_quietly [OF rooted_frame(1) quietly_refl(5)]) simp_all

lemma rooted_activation_failed: "rooted s \<Longrightarrow> rooted (activation_failed w k g s)"
  unfolding activation_failed_def by (rule rooted_quietly [OF rooted_stop quietly_refl(6)]) simp_all

lemma rooted_activated:
  assumes "rooted s" "sv_phase s = Activating k g"
  shows "rooted (activated w now k g s)"
proof (cases "sw_primary w k (sent s)")
  case None
  then show ?thesis using assms by (simp add: activated_def rooted_activation_failed)
next
  case (Some primary)
  have "sv_retained (activated w now k g s) = sv_retained s" "sv_in_flight (activated w now k g s) = sv_in_flight s"
    "sv_active (activated w now k g s) = Some k" "sv_phase (activated w now k g s) = Waiting None"
    "set (sv_out s) \<subseteq> set (sv_out (activated w now k g s))"
    using Some by (auto simp: activated_def drain_feed_def publish_active_diagnostics_def publish_diagnostics_def push_update_def emit_def Let_def)
  moreover from this have "owners (activated w now k g s) \<subseteq> owners s" using assms(2) by (auto simp: owners_def)
  ultimately show ?thesis using assms(1) unfolding rooted_def by (metis subsetD)
qed

lemma rooted_adopt:
  assumes "rooted s" "sv_in_flight s = Some (k, g)" "sv_phase s = Waiting None"
  shows "rooted (adopt w x k g s)"
proof -
  have "quietly s (adopt w x k g s)" "sv_phase (adopt w x k g s) \<in> {Waiting None, Activating k g}"
    using assms(2,3) by (auto simp: adopt_def quietly_def emit_def push_update_def Let_def split: option.split sum.split)
  moreover have "k \<in> owners s" using assms(2) by (simp add: owners_def)
  ultimately show ?thesis using rooted_quietly [OF assms(1), of "adopt w x k g s"] by auto
qed

lemma rooted_turn:
  assumes "rooted s" "turn w s = Some s'"
  shows "rooted s'"
proof (cases "sv_phase s")
  case (Waiting pending)
  then show ?thesis using assms by (auto simp: turn_def rooted_finish rooted_begin rooted_frame split: if_splits)
next
  case (Working inline latest)
  have frame: "rooted (s\<lparr>sv_phase := Working is l\<rparr>)" "rooted (s\<lparr>sv_phase := Waiting None\<rparr>)" for "is" l
    using assms(1) by (auto intro: rooted_frame(1))
  show ?thesis
  proof (cases inline)
    case Nil
    then show ?thesis using assms(2) Working frame rooted_start_generation [OF frame(2)] by (auto simp: turn_def split: option.splits)
  next
    case (Cons r rs)
    then show ?thesis using assms(2) Working rooted_inline [OF frame(1)] by (auto simp: turn_def)
  qed
next
  case (Activating k g)
  have "rooted (emit (Sup_Stop k) s)" using Activating by (intro rooted_quietly [OF assms(1)]) (auto simp: owners_def)
  then show ?thesis using assms(2) Activating rooted_finish by (auto simp: turn_def split: if_splits)
qed (use assms in \<open>simp add: turn_def\<close>)

lemma rooted_receive:
  assumes "rooted s" "receive s = Some s'"
  shows "rooted s'"
proof -
  have stop: "rooted (superseded k x (s\<lparr>sv_queue := q\<rparr>))" for k x q
    unfolding superseded_def using assms(1) by (intro rooted_stop) (simp_all add: rooted_frame)
  have "rooted (superseded k x s)" for k x using stop [of k x "sv_queue s"] by simp
  then show ?thesis using assms stop
    by (auto simp: receive_def rooted_begin rooted_frame split: if_splits sup_phase.splits option.splits list.splits)
qed

lemma rooted_step:
  assumes "rooted s" "sup_step w i s = Some s'"
  shows "rooted s'"
proof (cases i)
  case (In_Outcome x)
  then show ?thesis using assms rooted_adopt by (auto split: sup_phase.splits option.splits if_splits)
next
  case (In_Probe now after)
  then show ?thesis using assms rooted_quietly [OF assms(1) quietly_probe] by (auto simp: rooted_frame split: if_splits)
next
  case (In_Activated now result)
  then show ?thesis using assms rooted_activated rooted_activation_failed by (auto split: sup_phase.splits option.splits if_splits)
next
  case In_Deadline
  then show ?thesis using assms rooted_activation_failed by (auto split: sup_phase.splits if_splits)
next
  case In_Turn
  then show ?thesis using assms rooted_turn by simp
next
  case In_Recv
  then show ?thesis using assms rooted_receive by simp
qed (use assms in \<open>auto simp: rooted_frame split: if_splits\<close>)

interpretation rooted: sup_invariant rooted
  by unfold_locales (rule rooted_step)

text \<open>
  C4: when the supervisor has taken in everything the controller sent and waits, the set it holds is the one of the
  controller's last request, and the session that is up, being activated or being set up was started from exactly
  that request: its members, primary, latency, calibration and intent. No ordering, coalescing or late outcome
  of an older start puts an older set back.
\<close>

theorem session_follows_controller:
  assumes "ctl_reach lower p profile c" "c_session_generation c \<noteq> - 1"
    "sup_run w inputs (supervisor_start now volumes diagnostics) = Some s"
    "queued_requests w inputs (supervisor_start now volumes diagnostics) = requests_of (c_out c)"
    "sv_phase s = Waiting None \<or> (\<exists>k g. sv_phase s = Activating k g)" "sv_queue s = []"
  shows "sv_retained s = last_option None (reconciles (requests_of (c_out c)))
    \<and> (\<forall>k. map_option fst (sv_in_flight s) = Some k \<or> sv_active s = Some k \<or> (\<exists>g. sv_phase s = Activating k g) \<longrightarrow>
        reconciles (requests_of (c_out c)) \<noteq> [] \<and> Sup_Spawn k (last (reconciles (requests_of (c_out c)))) \<in> set (sv_out s))"
proof -
  have "follows (requests_of (c_out c)) s"
    using follows_run [OF assms(3) follows_start] requests_rising [OF assms(1,2)] assms(4) by simp
  then have "sv_retained s = last_option None (reconciles (requests_of (c_out c)))"
    using assms(5,6) by (auto simp: follows_def newest_set_def pipeline_def)
  moreover have "rooted (supervisor_start now volumes diagnostics)" by (simp add: rooted_def owners_def supervisor_start_def)
  from rooted.sup_run_keeps [OF this assms(3)] have "rooted s" .
  ultimately show ?thesis by (auto simp: rooted_def owners_def last_option_def split: if_splits)
qed

section \<open>A request on its way\<close>

lemma asking_reconcile:
  assumes "w_has_session w" "\<not> c_suspended c" "ds_run_intent (c_snapshot c) = Run_Running" "c_primary c = None"
  shows "asking (request_reconcile w cause c) =
    (requests_of (c_out c) @ [Req_Reconcile (saturating_add (c_session_generation c) 1) (desired_devices c) None (session_latency c) (c_calibration c) False],
     saturating_add (c_session_generation c) 1)"
  using assms by (simp add: request_reconcile_def remember_effective_volumes_def sends_eq asking_send Let_def)

definition demo_link_world :: ctl_world where
  "demo_link_world = \<lparr>w_now = 0, w_wall = 0, w_lower = (\<lambda>s. s), w_save = (\<lambda>_. True), w_tone = (\<lambda>_. True),
     w_fresh_group = (\<lambda>_. 1), w_has_session = True\<rparr>"

definition demo_play :: command_envelope where
  "demo_play = \<lparr>en_id = 1, en_command = SetRunIntent Run_Running, en_confirmation = None\<rparr>"

definition demo_playing :: controller where
  "demo_playing = fst (ctl_step demo_link_world (Ev_Commands [demo_play]) (from_persisted demo_link_world persisted_default calibration_default))"

definition demo_request :: session_request where
  "demo_request = Req_Reconcile 1 [] None \<lparr>sender_buffer_ms = 2000, render_delay_ms = 200\<rparr> calibration_default False"

lemma demo_batch: "batch_insert batch_new demo_play = batch_new\<lparr>pb_drained_total := 1, pb_run_intent := Some (1, Run_Running)\<rparr>"
  by (simp add: batch_insert_def demo_play_def batch_new_def cancel_starts_def Let_def)

lemma process_batch_play:
  assumes "ds_run_intent (c_snapshot c) = Run_Stopped"
  shows "asking (fst (process_batch w (batch_new\<lparr>pb_drained_total := n, pb_run_intent := Some (i, Run_Running)\<rparr>) c))
    = asking (request_reconcile w Cause_Membership (publish w (complete i (on_snapshot (\<lambda>s. s\<lparr>ds_run_intent := Run_Running\<rparr>)
        (c\<lparr>c_startup_auto_connect_until := None\<rparr>)))))"
  using assms
  by (simp add: process_batch_def run_scalars_def with_slot_def batch_new_def slot_run_intent_def answer_group_starts_def split_beta Let_def)

lemma play_frame [simp]:
  "c_suspended (publish w c) = c_suspended c" "c_primary (publish w c) = c_primary c" "c_session_generation (publish w c) = c_session_generation c"
  "c_suspended (complete i c) = c_suspended c" "c_primary (complete i c) = c_primary c" "c_session_generation (complete i c) = c_session_generation c"
  "c_calibration (publish w c) = c_calibration c" "c_calibration (complete i c) = c_calibration c"
  "c_persisted (publish w c) = c_persisted c" "c_persisted (complete i c) = c_persisted c"
  "ds_run_intent (c_snapshot (publish w c)) = ds_run_intent (c_snapshot c)" "ds_run_intent (c_snapshot (complete i c)) = ds_run_intent (c_snapshot c)"
  "ds_desired_members (c_snapshot (publish w c)) = ds_desired_members (c_snapshot c)"
  "ds_desired_members (c_snapshot (complete i c)) = ds_desired_members (c_snapshot c)"
  "requests_of (c_out (publish w c)) = requests_of (c_out c)" "requests_of (c_out (complete i c)) = requests_of (c_out c)"
  by (simp_all add: publish_def complete_def send_def on_snapshot_def record_result_def sort_for_publication_def Let_def)

lemma demo_asking: "asking demo_playing = ([demo_request], 1)"
proof -
  define c0 where "c0 = from_persisted demo_link_world persisted_default calibration_default"
  have c0: "ds_run_intent (c_snapshot c0) = Run_Stopped" "\<not> c_suspended c0" "c_primary c0 = None" "c_session_generation c0 = 0"
    "requests_of (c_out c0) = []" "c_calibration c0 = calibration_default" "c_persisted c0 = persisted_default" "ds_desired_members (c_snapshot c0) = {}"
    by (simp_all add: c0_def from_persisted_def Let_def rebuild_receiver_rows_def tidy_receivers_def sort_for_publication_def write_rows_def on_session_def
        loaded_snapshot_def device_snapshot_default_def persisted_default_def)
  let ?c = "publish demo_link_world (complete 1 (on_snapshot (\<lambda>s. s\<lparr>ds_run_intent := Run_Running\<rparr>) (c0\<lparr>c_startup_auto_connect_until := None\<rparr>)))"
  have "asking demo_playing = asking (request_reconcile demo_link_world Cause_Membership ?c)"
    using process_batch_play [OF c0(1)] by (simp add: demo_playing_def c0_def [symmetric] demo_batch)
  also have "\<dots> = ([demo_request], 1)"
    using c0 by (subst asking_reconcile) (simp_all add: demo_link_world_def on_snapshot_def demo_request_def desired_devices_def sorted_ids_def
        session_latency_def persisted_default_def saturating_add_def map_filter_simps)
  finally show ?thesis .
qed

lemma demo_reach: "ctl_reach (\<lambda>s. s) persisted_default calibration_default demo_playing"
proof -
  have lower: "w_lower demo_link_world = (\<lambda>s. s)" by (simp add: demo_link_world_def)
  show ?thesis unfolding demo_playing_def by (rule ctl_reach.step [OF ctl_reach.start [OF lower] lower surjective_pairing])
qed

theorem session_follows_controller_witness:
  "\<exists>s. sup_run demo_sup_world [In_Send demo_request, In_Recv, In_Turn] (supervisor_start 0 volumes_default (Diag_Inactive 0 Reason_Stopped)) = Some s
     \<and> sv_retained s = last_option None (reconciles (requests_of (c_out demo_playing))) \<and> map_option rp_generation (sv_retained s) = Some 1"
proof -
  let ?is = "[In_Send demo_request, In_Recv, In_Turn]"
  let ?s0 = "supervisor_start 0 volumes_default (Diag_Inactive 0 Reason_Stopped)"
  obtain s where s: "sup_run demo_sup_world ?is ?s0 = Some s" "queued_requests demo_sup_world ?is ?s0 = [demo_request]"
    "sv_phase s = Waiting None" "sv_queue s = []"
    by (simp add: demo_request_def demo_sup_defs Let_def)
  have requests: "requests_of (c_out demo_playing) = [demo_request]" "c_session_generation demo_playing \<noteq> - 1"
    using demo_asking by (simp_all add: asking_def)
  have "sv_retained s = last_option None (reconciles (requests_of (c_out demo_playing)))"
    using session_follows_controller [OF demo_reach requests(2) s(1)] s requests(1) by simp
  then show ?thesis using s(1) requests(1) by (auto simp: demo_request_def)
qed

end
