(* ===== verification/Client_Group.thy ===== *)
theory Client_Group
  imports Session_Transport Sdp
begin

text \<open>
  Multi-room groups of the client library: the group record and the failure classes of \<open>group.rs\<close>, and the
  best-effort connection of \<open>client.rs\<close>, which establishes all members, elects a primary with one fallback,
  lets the others join its clock and falls back to a single receiver. Links to receivers are a trait;
  they are numbered in the order of the requests, and what each call on them answers comes from a world.
  The calls are logged in their order. The instrumentation of tests is left out.
\<close>

section \<open>Device groups\<close>

record device_group_member =
  gm_device :: device
  gm_volume :: f32
  gm_is_leader :: bool

record device_group =
  dg_members :: "device_id \<Rightarrow> device_group_member option"
  dg_leader_id :: device_id

definition group_new :: "device \<Rightarrow> device_group" where
  "group_new leader =
     \<lparr>dg_members = [d_id leader \<mapsto> \<lparr>gm_device = leader, gm_volume = f32_one, gm_is_leader = True\<rparr>], dg_leader_id = d_id leader\<rparr>"

definition add_member :: "device \<Rightarrow> device_group \<Rightarrow> device_group" where
  "add_member device g =
     (if dg_members g (d_id device) \<noteq> None then g
      else g\<lparr>dg_members := (dg_members g)(d_id device \<mapsto> \<lparr>gm_device = device, gm_volume = f32_one, gm_is_leader = False\<rparr>)\<rparr>)"

definition remove_member :: "device_id \<Rightarrow> device_group \<Rightarrow> unit air_error + device_group" where
  "remove_member i g =
     (if i = dg_leader_id g then Inl (Err_Rtsp (SetupFailed ''Cannot remove group leader''))
      else Inr (g\<lparr>dg_members := (dg_members g)(i := None)\<rparr>))"

definition group_leader :: "device_group \<Rightarrow> device_group_member option" where
  "group_leader g = dg_members g (dg_leader_id g)"

definition group_set_member_volume :: "device_id \<Rightarrow> f32 \<Rightarrow> device_group \<Rightarrow> unit air_error + device_group" where
  "group_set_member_volume i volume g =
     (case dg_members g i of
        Some m \<Rightarrow> Inr (g\<lparr>dg_members := (dg_members g)(i \<mapsto> m\<lparr>gm_volume := f32_clamp volume f32_zero f32_one\<rparr>)\<rparr>)
      | None \<Rightarrow> Inl (Err_Discovery (DeviceNotFound (to_mac_string i))))"

text \<open>The first segment of a link-local address is \<open>0xfe80\<close>. The order is the one in which the hash map is visited.\<close>

fun is_peer_address :: "ip_addr \<Rightarrow> bool" where
  "is_peer_address (V4 _) = True"
| "is_peer_address (V6 w) = (drop_bit 112 w \<noteq> 0xfe80)"

definition peer_addresses :: "device_id list \<Rightarrow> device_group \<Rightarrow> string list" where
  "peer_addresses order g =
     concat (map (\<lambda>i. case dg_members g i of None \<Rightarrow> [] | Some m \<Rightarrow> map ip_text (filter is_peer_address (d_addresses (gm_device m)))) order)"

section \<open>Failures\<close>

fun is_retryable :: "setup_phase \<Rightarrow> bool" where
  "is_retryable Setup_Connect = True"
| "is_retryable Setup_PrimaryTiming = True"
| "is_retryable Setup_SetPeers = True"
| "is_retryable Setup_StartAudio = True"
| "is_retryable _ = False"

definition phase_failure :: "device_id \<Rightarrow> setup_phase \<Rightarrow> member_failure" where
  "phase_failure receiver phase = \<lparr>mf_receiver = receiver, mf_phase = phase, mf_retryable = is_retryable phase\<rparr>"

fun connect_phase :: "unit air_error \<Rightarrow> setup_phase" where
  "connect_phase (Err_Pairing _) = Setup_Pair"
| "connect_phase (Err_Crypto _) = Setup_Pair"
| "connect_phase Err_MfiRequired = Setup_Pair"
| "connect_phase _ = Setup_Connect"

definition classify_connect_failure :: "device_id \<Rightarrow> unit air_error \<Rightarrow> member_failure" where
  "classify_connect_failure receiver source = phase_failure receiver (connect_phase source)"

definition classify_runtime_failure :: "device_id \<Rightarrow> member_failure" where
  "classify_runtime_failure receiver = phase_failure receiver Setup_StartAudio"

section \<open>Choices\<close>

fun find_duplicate :: "device_id list \<Rightarrow> device list \<Rightarrow> device_id option" where
  "find_duplicate seen [] = None"
| "find_duplicate seen (d # ds) = (if d_id d \<in> set seen then Some (d_id d) else find_duplicate (d_id d # seen) ds)"

definition find_duplicate_member :: "device list \<Rightarrow> device_id option" where
  "find_duplicate_member ds = find_duplicate [] ds"

fun min_by_id :: "device list \<Rightarrow> device option" where
  "min_by_id [] = None"
| "min_by_id (d # ds) = (case min_by_id ds of None \<Rightarrow> Some d | Some e \<Rightarrow> if d_id e < d_id d then Some e else Some d)"

definition choose_primary :: "device list \<Rightarrow> device_id option \<Rightarrow> device option" where
  "choose_primary healthy preferred =
     (let capable = filter supports_ptp healthy
      in case Option.bind preferred (\<lambda>i. List.find (\<lambda>d. d_id d = i) capable) of Some d \<Rightarrow> Some d | None \<Rightarrow> min_by_id capable)"

fun is_ipv4 :: "ip_addr \<Rightarrow> bool" where
  "is_ipv4 (V4 _) = True"
| "is_ipv4 (V6 _) = False"

definition build_peer_addresses :: "device list \<Rightarrow> string option \<Rightarrow> string list" where
  "build_peer_addresses members own =
     (let peers = List.map_filter (\<lambda>d. map_option ip_text (List.find is_ipv4 (d_addresses d))) members
      in case own of Some a \<Rightarrow> if a \<in> set peers then peers else peers @ [a] | None \<Rightarrow> peers)"

text \<open>Delays by receiver in the order of the targets; the error names how many entries are missing or how many there are.\<close>

definition map_presentation_delays_for :: "device_id list \<Rightarrow> (device_id, u64) omap \<Rightarrow> nat + u64 list" where
  "map_presentation_delays_for targets effective =
     (let missing = length (filter (\<lambda>r. om_get effective r = None) targets)
      in if missing > 0 then Inl missing
         else if length effective \<noteq> length targets then Inl (length effective)
         else Inr (map (\<lambda>r. case om_get effective r of Some d \<Rightarrow> d | None \<Rightarrow> 0) targets))"

section \<open>Connecting a group\<close>

record established_member =
  em_device :: device
  em_healthy :: bool
  em_link :: "nat option"

datatype playback_state = Pb_Stopped | Pb_Playing | Pb_Paused | Pb_Buffering | Pb_Error

text \<open>Every event of the client; the position, an \<open>f64\<close> of the code, is a floating-point value of the model.\<close>

datatype client_event =
    Ce_DeviceDiscovered device
  | Ce_DeviceLost device_id
  | Ce_Connected device
  | Ce_Disconnected "string option"
  | Ce_PlaybackStateChanged playback_state
  | Ce_PositionUpdated f32
  | Ce_VolumeChanged f32
  | Ce_BufferLevelChanged f32
  | Ce_Error string
  | Ce_GroupChanged

datatype link_call =
    Lk_Connect nat device timing_protocol bool
  | Lk_Setup nat bool
  | Lk_SetPeers nat "string list" bool
  | Lk_Join nat u32 bool
  | Lk_RenderDelay nat u32
  | Lk_Teardown nat
  | Lk_Disconnect "nat list"
  | Lk_Emit client_event

text \<open>Answers by the number of the link.\<close>

record group_world =
  gw_disconnect :: "unit air_error option"
  gw_cookie :: "unit air_error option"
  gw_connect :: "nat \<Rightarrow> unit air_error option"
  gw_setup :: "nat \<Rightarrow> bool"
  gw_timing :: "nat \<Rightarrow> bool"
  gw_setpeers :: "nat \<Rightarrow> bool"
  gw_join :: "nat \<Rightarrow> bool"
  gw_local :: "nat \<Rightarrow> string option"

record air_client =
  ac_connection :: "nat option"
  ac_group_connections :: "nat list"
  ac_group :: "device_group option"
  ac_stream_config :: stream_config
  ac_render_delay_ms :: u32
  ac_links :: nat
  ac_calls :: "link_call list"

record connecting =
  cn_members :: "established_member option list"
  cn_failures :: "member_failure list"
  cn_peers :: "string list"
  cn_attempts :: "device_id list"
  cn_calls :: "link_call list"

definition logged :: "link_call \<Rightarrow> connecting \<Rightarrow> connecting" where
  "logged call c = c\<lparr>cn_calls := cn_calls c @ [call]\<rparr>"

text \<open>The results of the parallel establishment, back in the order of the devices.\<close>

fun establish :: "group_world \<Rightarrow> nat \<Rightarrow> device list \<Rightarrow> connecting \<Rightarrow> connecting" where
  "establish w k [] c = c"
| "establish w k (d # ds) c =
     establish w (Suc k) ds
       (case gw_connect w k of
          None \<Rightarrow> (logged (Lk_Connect k d Timing_Ptp True) c)\<lparr>cn_members := cn_members c @ [Some \<lparr>em_device = d, em_healthy = True, em_link = Some k\<rparr>]\<rparr>
        | Some e \<Rightarrow> (logged (Lk_Connect k d Timing_Ptp False) c)\<lparr>cn_members := cn_members c @ [None],
                       cn_failures := cn_failures c @ [classify_connect_failure (d_id d) e]\<rparr>)"

definition candidates :: "established_member option list \<Rightarrow> device list" where
  "candidates members = map em_device (filter (\<lambda>m. em_healthy m \<and> em_link m \<noteq> None) (List.map_filter (\<lambda>m. m) members))"

definition linked :: "established_member option list \<Rightarrow> device list" where
  "linked members = map em_device (filter (\<lambda>m. em_link m \<noteq> None) (List.map_filter (\<lambda>m. m) members))"

fun position_of :: "device_id \<Rightarrow> established_member option list \<Rightarrow> nat option" where
  "position_of i [] = None"
| "position_of i (m # ms) = (if is_some_and m (\<lambda>m. d_id (em_device m) = i) then Some 0 else map_option Suc (position_of i ms))"

text \<open>The failed phase of a primary, if any.\<close>

definition run_primary_critical :: "group_world \<Rightarrow> nat \<Rightarrow> string list \<Rightarrow> connecting \<Rightarrow> setup_phase option \<times> connecting" where
  "run_primary_critical w k peers c =
     (let c1 = logged (Lk_Setup k (gw_setup w k)) c
      in if \<not> gw_setup w k then (Some Setup_RtspSetup, c1)
         else if \<not> gw_timing w k then (Some Setup_PrimaryTiming, c1)
         else (if gw_setpeers w k then None else Some Setup_SetPeers, logged (Lk_SetPeers k peers (gw_setpeers w k)) c1))"

text \<open>The outer option is a panic: a chosen primary without a slot or a link.\<close>

fun elect_primary :: "group_world \<Rightarrow> nat \<Rightarrow> device_id option \<Rightarrow> connecting \<Rightarrow> (nat option \<times> connecting) option" where
  "elect_primary w 0 preferred c = Some (None, c)"
| "elect_primary w (Suc rounds) preferred c =
     (case choose_primary (candidates (cn_members c)) preferred of
        None \<Rightarrow> Some (None, c)
      | Some d \<Rightarrow>
          (case position_of (d_id d) (cn_members c) of
             None \<Rightarrow> None
           | Some index \<Rightarrow>
               (case Option.bind (cn_members c ! index) em_link of
                  None \<Rightarrow> None
                | Some k \<Rightarrow>
                    let peers = build_peer_addresses (linked (cn_members c)) (gw_local w k);
                        (failed, c1) = run_primary_critical w k peers (c\<lparr>cn_peers := peers, cn_attempts := cn_attempts c @ [d_id d]\<rparr>)
                    in case failed of
                         None \<Rightarrow> Some (Some index, c1)
                       | Some phase \<Rightarrow>
                           elect_primary w rounds None
                             ((logged (Lk_Teardown k) c1)\<lparr>cn_failures := cn_failures c1 @ [phase_failure (d_id d) phase],
                                cn_members := (cn_members c1)[index :=
                                  map_option (\<lambda>m. m\<lparr>em_link := None, em_healthy := False\<rparr>) (cn_members c1 ! index)]\<rparr>))))"

definition teardown_all :: "connecting \<Rightarrow> connecting" where
  "teardown_all c = c\<lparr>cn_calls := cn_calls c @ map Lk_Teardown (List.map_filter (\<lambda>m. Option.bind m em_link) (cn_members c))\<rparr>"

text \<open>Teardown and failure of a member that could not join; its slot keeps the dead link.\<close>

definition drop_secondary :: "nat \<Rightarrow> device_id \<Rightarrow> setup_phase \<Rightarrow> connecting \<Rightarrow> connecting" where
  "drop_secondary k receiver phase c =
     (logged (Lk_Teardown k) c)\<lparr>cn_failures := cn_failures c @ [phase_failure receiver phase]\<rparr>"

fun join_secondaries :: "group_world \<Rightarrow> u32 \<Rightarrow> (device \<times> nat) list \<Rightarrow> connecting \<Rightarrow> (device \<times> nat) list \<times> connecting" where
  "join_secondaries w delay [] c = ([], c)"
| "join_secondaries w delay ((d, k) # ms) c =
     (let c1 = logged (Lk_Join k delay (gw_join w k)) c
      in if \<not> gw_join w k then join_secondaries w delay ms (drop_secondary k (d_id d) Setup_RtspSetup c1)
         else let c2 = logged (Lk_SetPeers k (cn_peers c1) (gw_setpeers w k)) c1
              in if \<not> gw_setpeers w k then join_secondaries w delay ms (drop_secondary k (d_id d) Setup_SetPeers c2)
                 else let (survivors, c3) = join_secondaries w delay ms c2 in ((d, k) # survivors, c3))"

definition secondaries :: "nat \<Rightarrow> established_member option list \<Rightarrow> (device \<times> nat) list" where
  "secondaries primary_index members =
     List.map_filter (\<lambda>(i, m). if i = primary_index then None
       else Option.bind m (\<lambda>m. map_option (\<lambda>k. (em_device m, k)) (em_link m))) (enumerate 0 members)"

type_synonym group_result = "unit air_error + connect_report"

definition no_session :: "connecting \<Rightarrow> connect_report" where
  "no_session c = \<lparr>cr_primary = None, cr_connected = [], cr_failures = cn_failures c\<rparr>"

definition finish_single_survivor_session ::
    "group_world \<Rightarrow> device \<Rightarrow> nat option \<Rightarrow> connecting \<Rightarrow> air_client \<Rightarrow> connect_report \<times> air_client" where
  "finish_single_survivor_session w d old c client =
     (let k = ac_links client;
          c1 = (case old of Some j \<Rightarrow> logged (Lk_Teardown j) c | None \<Rightarrow> c);
          client1 = client\<lparr>ac_links := Suc k\<rparr>
      in case gw_connect w k of
           Some e \<Rightarrow>
             (no_session (c1\<lparr>cn_failures := cn_failures c1 @ [classify_connect_failure (d_id d) e]\<rparr>),
              client1\<lparr>ac_calls := cn_calls (logged (Lk_Connect k d Timing_Ntp False) c1)\<rparr>)
         | None \<Rightarrow>
             let c2 = logged (Lk_Setup k (gw_setup w k)) (logged (Lk_RenderDelay k (ac_render_delay_ms client)) (logged (Lk_Connect k d Timing_Ntp True) c1))
             in if gw_setup w k
                then (\<lparr>cr_primary = Some (d_id d), cr_connected = [d_id d], cr_failures = cn_failures c2\<rparr>,
                      client1\<lparr>ac_connection := Some k, ac_group_connections := [], ac_group := Some (group_new d),
                        ac_calls := cn_calls c2 @ [Lk_Emit (Ce_Connected d), Lk_Emit Ce_GroupChanged]\<rparr>)
                else (no_session (drop_secondary k (d_id d) Setup_RtspSetup c2),
                      client1\<lparr>ac_calls := cn_calls (drop_secondary k (d_id d) Setup_RtspSetup c2)\<rparr>))"

definition client_disconnect :: "group_world \<Rightarrow> air_client \<Rightarrow> (unit air_error option) \<times> air_client" where
  "client_disconnect w client =
     (let client1 = client\<lparr>ac_group_connections := [],
                      ac_calls := ac_calls client @ [Lk_Disconnect (ac_group_connections client @ (case ac_connection client of Some k \<Rightarrow> [k] | None \<Rightarrow> []))]\<rparr>
      in if ac_connection client \<noteq> None \<and> gw_disconnect w \<noteq> None then (gw_disconnect w, client1)
         else (None, client1\<lparr>ac_connection := None, ac_calls := ac_calls client1 @ [Lk_Emit (Ce_Disconnected None)]\<rparr>))"

definition store_session :: "(device \<times> nat) \<Rightarrow> (device \<times> nat) list \<Rightarrow> connecting \<Rightarrow> air_client \<Rightarrow> connect_report \<times> air_client" where
  "store_session primary survivors c client =
     (\<lparr>cr_primary = Some (d_id (fst primary)), cr_connected = d_id (fst primary) # map (d_id \<circ> fst) survivors, cr_failures = cn_failures c\<rparr>,
      client\<lparr>ac_connection := Some (snd primary), ac_group_connections := map snd survivors,
        ac_group := Some (fold (\<lambda>(d, _) g. add_member d g) survivors (group_new (fst primary))),
        ac_calls := cn_calls c @ [Lk_Emit (Ce_Connected (fst primary)), Lk_Emit Ce_GroupChanged]\<rparr>)"

text \<open>With the primary elected: the others join, and a primary left alone becomes a single session.\<close>

definition finish_group :: "group_world \<Rightarrow> nat \<Rightarrow> connecting \<Rightarrow> air_client \<Rightarrow> (connect_report \<times> air_client) option" where
  "finish_group w index c client =
     (case cn_members c ! index of
        None \<Rightarrow> None
      | Some m \<Rightarrow>
          let (survivors, c1) = join_secondaries w (ac_render_delay_ms client) (secondaries index (cn_members c)) c
          in if survivors = [] then Some (finish_single_survivor_session w (em_device m) (em_link m) c1 client)
             else map_option (\<lambda>k. store_session (em_device m, k) survivors c1 client) (em_link m))"

definition connect_group_best_effort ::
    "group_world \<Rightarrow> device list \<Rightarrow> device_id option \<Rightarrow> air_client \<Rightarrow> (group_result \<times> air_client) option" where
  "connect_group_best_effort w devices preferred client =
     (if devices = [] then Some (Inl (Err_Discovery NoDevicesFound), client)
      else case find_duplicate_member devices of
        Some i \<Rightarrow> Some (Inl (Err_Discovery (Resolution (''duplicate group member '' @ to_mac_string i))), client)
      | None \<Rightarrow>
          (case client_disconnect w client of
             (Some e, client1) \<Rightarrow> Some (Inl e, client1)
           | (None, client1) \<Rightarrow>
               if fm_codec (sc_audio_format (ac_stream_config client1)) = Alac \<and> sc_asc (ac_stream_config client1) = None \<and> gw_cookie w \<noteq> None
               then Some (Inl (the (gw_cookie w)), client1)
               else let client2 = client1\<lparr>ac_links := ac_links client1 + length devices\<rparr>;
                        c = establish w (ac_links client1) devices
                              \<lparr>cn_members = [], cn_failures = [], cn_peers = [], cn_attempts = [], cn_calls = ac_calls client1\<rparr>
                    in case elect_primary w 2 preferred c of
                         None \<Rightarrow> None
                       | Some (None, c1) \<Rightarrow> Some (Inr (no_session c1), client2\<lparr>ac_calls := cn_calls (teardown_all c1)\<rparr>)
                       | Some (Some index, c1) \<Rightarrow> map_option (\<lambda>(r, cl). (Inr r, cl)) (finish_group w index c1 client2)))"

end
