(* ===== verification/Group_Properties.thy ===== *)
theory Group_Properties
  imports Client_Group "HOL-Library.Sublist"
begin

text \<open>
  Properties of the best-effort group connection: every receiver is accounted for, no link is leaked, the
  primary follows the documented rule, and the code never panics.
\<close>

section \<open>Links that are up\<close>

fun live_step :: "link_call \<Rightarrow> nat set \<Rightarrow> nat set" where
  "live_step (Lk_Connect k _ _ ok) l = (if ok then insert k l else l)"
| "live_step (Lk_Teardown k) l = l - {k}"
| "live_step (Lk_Disconnect ks) l = l - set ks"
| "live_step _ l = l"

definition live :: "link_call list \<Rightarrow> nat set" where
  "live calls = fold live_step calls {}"

lemma live_simps [simp]: "live [] = {}" "live (cs @ ds) = fold live_step ds (live cs)"
  by (simp_all add: live_def)

lemma live_teardowns [simp]: "fold live_step (map Lk_Teardown ks) l = l - set ks"
  by (induction ks arbitrary: l) auto

definition holders :: "air_client \<Rightarrow> nat set" where
  "holders client = set (case ac_connection client of Some k \<Rightarrow> [k] | None \<Rightarrow> []) \<union> set (ac_group_connections client)"

text \<open>All links that are up are held, and all numbers given out lie below the counter.\<close>

definition client_ok :: "air_client \<Rightarrow> bool" where
  "client_ok client \<longleftrightarrow> live (ac_calls client) \<subseteq> holders client \<and> (\<forall>k\<in>holders client. k < ac_links client)"

section \<open>Slots\<close>

abbreviation id_of :: "device \<times> nat \<Rightarrow> device_id" where
  "id_of x \<equiv> d_id (fst x)"

definition open_slot :: "established_member option \<Rightarrow> (device \<times> nat) list" where
  "open_slot m = (case m of None \<Rightarrow> [] | Some m \<Rightarrow> (case em_link m of None \<Rightarrow> [] | Some k \<Rightarrow> [(em_device m, k)]))"

definition open_slots :: "established_member option list \<Rightarrow> (device \<times> nat) list" where
  "open_slots ms = concat (map open_slot ms)"

lemma open_slots_simps [simp]: "open_slots [] = []" "open_slots (m # ms) = open_slot m @ open_slots ms" "open_slots (ms @ ns) = open_slots ms @ open_slots ns"
  by (simp_all add: open_slots_def)

definition slot_ids :: "established_member option list \<Rightarrow> device_id list" where
  "slot_ids ms = concat (map (\<lambda>m. case m of None \<Rightarrow> [] | Some m \<Rightarrow> [d_id (em_device m)]) ms)"

lemma slot_ids_simps [simp]: "slot_ids [] = []" "slot_ids (m # ms) = (case m of None \<Rightarrow> [] | Some m \<Rightarrow> [d_id (em_device m)]) @ slot_ids ms"
  "slot_ids (ms @ ns) = slot_ids ms @ slot_ids ns"
  by (simp_all add: slot_ids_def)

text \<open>The state of an attempt at the given devices.\<close>

definition accounted :: "device list \<Rightarrow> nat \<Rightarrow> connecting \<Rightarrow> bool" where
  "accounted ds bound c \<longleftrightarrow>
     distinct (map id_of (open_slots (cn_members c)) @ map mf_receiver (cn_failures c))
     \<and> set (map id_of (open_slots (cn_members c))) \<union> set (map mf_receiver (cn_failures c)) = d_id ` set ds
     \<and> subseq (map fst (open_slots (cn_members c))) ds
     \<and> distinct (slot_ids (cn_members c))
     \<and> (\<forall>m. Some m \<in> set (cn_members c) \<longrightarrow> (em_healthy m \<longleftrightarrow> em_link m \<noteq> None))
     \<and> distinct (map snd (open_slots (cn_members c)))
     \<and> live (cn_calls c) = set (map snd (open_slots (cn_members c)))
     \<and> (\<forall>x\<in>set (open_slots (cn_members c)). snd x < bound)"

lemma establish_accounted:
  assumes "accounted done k c" "distinct (map d_id (done @ ds))" "set (slot_ids (cn_members c)) \<subseteq> d_id ` set done"
  shows "accounted (done @ ds) (k + length ds) (establish w k ds c)"
  using assms
proof (induction ds arbitrary: "done" k c)
  case (Cons d ds)
  let ?c = "case gw_connect w k of
          None \<Rightarrow> (logged (Lk_Connect k d Timing_Ptp True) c)\<lparr>cn_members := cn_members c @ [Some \<lparr>em_device = d, em_healthy = True, em_link = Some k\<rparr>]\<rparr>
        | Some e \<Rightarrow> (logged (Lk_Connect k d Timing_Ptp False) c)\<lparr>cn_members := cn_members c @ [None],
                       cn_failures := cn_failures c @ [classify_connect_failure (d_id d) e]\<rparr>"
  have new: "d_id d \<notin> d_id ` set done" using Cons(3) by auto
  have "accounted (done @ [d]) (Suc k) ?c"
  proof (cases "gw_connect w k")
    case None
    have "subseq (map fst (open_slots (cn_members c)) @ [d]) (done @ [d])"
      using Cons(2) by (intro list_emb_append_mono) (auto simp: accounted_def)
    then show ?thesis using None Cons(2) new Cons(4)
      by (auto simp: accounted_def logged_def open_slot_def image_iff)
  next
    case (Some e)
    then show ?thesis using Cons(2) new
      by (auto simp: accounted_def logged_def open_slot_def classify_connect_failure_def phase_failure_def
          intro: list_emb_prefix)
  qed
  moreover have "set (slot_ids (cn_members ?c)) \<subseteq> d_id ` set (done @ [d])"
    using Cons(4) by (auto simp: logged_def split: option.split)
  ultimately show ?case using Cons(1) [of "done @ [d]" "Suc k" ?c] Cons(3) by simp
qed simp

lemma establish_starts:
  assumes "live calls = {}" "distinct (map d_id ds)"
  shows "accounted ds (k + length ds)
           (establish w k ds \<lparr>cn_members = [], cn_failures = [], cn_peers = [], cn_attempts = [], cn_calls = calls\<rparr>)"
proof -
  let ?c = "\<lparr>cn_members = [], cn_failures = [], cn_peers = [], cn_attempts = [], cn_calls = calls\<rparr>"
  have "accounted [] k ?c" using assms(1) by (simp add: accounted_def)
  then show ?thesis using establish_accounted [of "[]" k ?c ds w] assms(2) by simp
qed

section \<open>The election\<close>

lemma position_of_split:
  "position_of i ms = Some n \<Longrightarrow> \<exists>xs m ys. ms = xs @ Some m # ys \<and> n = length xs \<and> d_id (em_device m) = i"
proof (induction ms arbitrary: n)
  case (Cons a ms)
  show ?case
  proof (cases "is_some_and a (\<lambda>m. d_id (em_device m) = i)")
    case True
    then obtain m where "a = Some m" "d_id (em_device m) = i" by (cases a) auto
    then show ?thesis using True Cons(2) by (intro exI [of _ "[]"] exI [of _ m] exI [of _ ms]) simp
  next
    case False
    then obtain n' where "position_of i ms = Some n'" "n = Suc n'" using Cons(2) by auto
    then obtain xs m ys where "ms = xs @ Some m # ys" "n' = length xs" "d_id (em_device m) = i" using Cons(1) by blast
    then show ?thesis using \<open>n = Suc n'\<close> by (intro exI [of _ "a # xs"] exI [of _ m] exI [of _ ys]) simp
  qed
qed simp

lemma position_of_found: "Some m \<in> set ms \<Longrightarrow> position_of (d_id (em_device m)) ms \<noteq> None"
  by (induction ms) auto

lemma candidates_open: "d \<in> set (candidates ms) \<Longrightarrow> \<exists>m k. Some m \<in> set ms \<and> em_device m = d \<and> em_link m = Some k"
  by (auto simp: candidates_def List.map_filter_def)

lemma min_by_id_member: "min_by_id ds = Some d \<Longrightarrow> d \<in> set ds"
  by (induction ds arbitrary: d) (auto split: option.splits if_splits)

lemma choose_primary_member:
  assumes "choose_primary ds preferred = Some d"
  shows "d \<in> set ds \<and> supports_ptp d"
proof -
  have found: "e \<in> set xs" if "List.find P xs = Some e" for P e and xs :: "device list"
    using that by (induction xs) (auto split: if_splits)
  have "d \<in> set (filter supports_ptp ds)"
    using assms min_by_id_member found unfolding choose_primary_def Let_def
    by (auto simp del: set_filter split: option.splits bind_splits)
  then show ?thesis by simp
qed

lemma slots_unique:
  assumes "distinct (slot_ids ms)" "Some m \<in> set ms" "Some m' \<in> set ms" "d_id (em_device m) = d_id (em_device m')"
  shows "m = m'"
proof -
  have mem: "d_id (em_device n) \<in> set (slot_ids ns)" if "Some n \<in> set ns" for n ns
    using that by (auto simp: slot_ids_def intro!: bexI [of _ "Some n"])
  show ?thesis using assms
  proof (induction ms)
    case (Cons a ms)
    show ?case
    proof (cases "a = Some m \<or> a = Some m'")
      case True
      then have "\<not> (Some m \<in> set ms \<and> a = Some m')" "\<not> (Some m' \<in> set ms \<and> a = Some m)"
        using Cons(2,5) mem [of m ms] mem [of m' ms] by auto
      then show ?thesis using True Cons(3,4) by auto
    next
      case False
      then have "Some m \<in> set ms" "Some m' \<in> set ms" "distinct (slot_ids ms)" using Cons(2-4) by auto
      then show ?thesis using Cons(1,5) by blast
    qed
  qed simp
qed

lemma chosen_slot:
  assumes "accounted ds b c" "choose_primary (candidates (cn_members c)) preferred = Some d"
  shows "\<exists>xs m ys k. cn_members c = xs @ Some m # ys \<and> position_of (d_id d) (cn_members c) = Some (length xs)
           \<and> em_device m = d \<and> em_link m = Some k \<and> supports_ptp d"
proof -
  obtain m k where m: "Some m \<in> set (cn_members c)" "em_device m = d" "em_link m = Some k"
    using choose_primary_member [OF assms(2)] candidates_open by blast
  obtain n where n: "position_of (d_id d) (cn_members c) = Some n" using position_of_found [OF m(1)] m(2) by auto
  then obtain xs m' ys where s: "cn_members c = xs @ Some m' # ys" "n = length xs" "d_id (em_device m') = d_id d"
    using position_of_split by blast
  then have "m' = m" using slots_unique [of "cn_members c" m' m] assms(1) m by (auto simp: accounted_def)
  then show ?thesis using m n s choose_primary_member [OF assms(2)] by blast
qed

lemma critical_frame:
  assumes "run_primary_critical w k peers c = (failed, c1)"
  shows "cn_members c1 = cn_members c \<and> cn_failures c1 = cn_failures c \<and> live (cn_calls c1) = live (cn_calls c)"
  using assms by (auto simp: run_primary_critical_def logged_def Let_def split: if_splits)

lemma accounted_cong:
  assumes "accounted ds b c" "cn_members c1 = cn_members c" "cn_failures c1 = cn_failures c" "live (cn_calls c1) = live (cn_calls c)"
  shows "accounted ds b c1"
  using assms by (simp add: accounted_def)

text \<open>A failed primary is torn down, reported, and keeps a slot without a link.\<close>

lemma accounted_close:
  assumes "accounted ds b c" "cn_members c = xs @ Some m # ys" "em_link m = Some k"
    "cn_members c1 = xs @ Some (m\<lparr>em_link := None, em_healthy := False\<rparr>) # ys"
    "map mf_receiver (cn_failures c1) = map mf_receiver (cn_failures c) @ [d_id (em_device m)]"
    "live (cn_calls c1) = live (cn_calls c) - {k}"
  shows "accounted ds b c1"
proof -
  have sub: "subseq (map fst (open_slots xs @ open_slots ys)) (map fst (open_slots (xs @ Some m # ys)))"
    using assms(3) by (auto simp: open_slot_def intro: list_emb_append_mono)
  have f: "set (map mf_receiver (cn_failures c1)) = insert (d_id (em_device m)) (set (map mf_receiver (cn_failures c)))"
    "distinct (map mf_receiver (cn_failures c1)) \<longleftrightarrow>
       distinct (map mf_receiver (cn_failures c)) \<and> d_id (em_device m) \<notin> set (map mf_receiver (cn_failures c))"
    unfolding assms(5) by auto
  show ?thesis using assms(1) sub unfolding accounted_def distinct_append f assms(2,4,6)
    by (auto simp: open_slot_def assms(3) intro: subseq_order.trans)
qed

definition elected :: "device list \<Rightarrow> nat \<Rightarrow> nat option \<times> connecting \<Rightarrow> bool" where
  "elected ds b r \<longleftrightarrow> accounted ds b (snd r)
     \<and> (\<forall>i. fst r = Some i \<longrightarrow> (\<exists>xs m ys k. cn_members (snd r) = xs @ Some m # ys \<and> i = length xs
            \<and> em_link m = Some k \<and> supports_ptp (em_device m)))"

lemma elect_primary_total:
  "accounted ds b c \<Longrightarrow> \<exists>r. elect_primary w n preferred c = Some r \<and> elected ds b r"
proof (induction n arbitrary: preferred c)
  case (Suc n)
  show ?case
  proof (cases "choose_primary (candidates (cn_members c)) preferred")
    case None
    then show ?thesis using Suc(2) by (simp add: elected_def)
  next
    case (Some d)
    obtain xs m ys k where s: "cn_members c = xs @ Some m # ys" "position_of (d_id d) (cn_members c) = Some (length xs)"
        "em_device m = d" "em_link m = Some k" "supports_ptp d"
      using chosen_slot [OF Suc(2) Some] by blast
    define peers where "peers = build_peer_addresses (linked (cn_members c)) (gw_local w k)"
    obtain failed c1 where r: "run_primary_critical w k peers (c\<lparr>cn_peers := peers, cn_attempts := cn_attempts c @ [d_id d]\<rparr>) = (failed, c1)"
      by fastforce
    have fr: "cn_members c1 = cn_members c" "cn_failures c1 = cn_failures c" "live (cn_calls c1) = live (cn_calls c)"
      using critical_frame [OF r] by simp_all
    note step = Some s(2) s(4) r [unfolded peers_def s(1)]
    show ?thesis
    proof (cases failed)
      case None
      then have "elect_primary w (Suc n) preferred c = Some (Some (length xs), c1)" using step by (simp add: s(1) nth_append)
      moreover have "elected ds b (Some (length xs), c1)"
        using accounted_cong [OF Suc(2) fr] fr s by (auto simp: elected_def)
      ultimately show ?thesis by blast
    next
      case (Some phase)
      let ?c = "(logged (Lk_Teardown k) c1)\<lparr>cn_failures := cn_failures c1 @ [phase_failure (d_id d) phase],
                  cn_members := (cn_members c1)[length xs := map_option (\<lambda>m. m\<lparr>em_link := None, em_healthy := False\<rparr>) (cn_members c1 ! length xs)]\<rparr>"
      have "elect_primary w (Suc n) preferred c = elect_primary w n None ?c" using step Some fr s(1) by (simp add: nth_append)
      moreover have "accounted ds b ?c"
        using Suc(2) s(1,4) by (rule accounted_close) (simp_all add: fr s logged_def phase_failure_def)
      ultimately show ?thesis using Suc(1) by presburger
    qed
  qed
qed (simp add: elected_def)

section \<open>The join\<close>

definition joins :: "group_world \<Rightarrow> device \<times> nat \<Rightarrow> bool" where
  "joins w x \<longleftrightarrow> gw_join w (snd x) \<and> gw_setpeers w (snd x)"

lemma secondaries_away: "p \<notin> {n ..< n + length ms} \<Longrightarrow>
    List.map_filter (\<lambda>(i, m). if i = p then None else Option.bind m (\<lambda>m. map_option (\<lambda>k. (em_device m, k)) (em_link m))) (enumerate n ms)
    = open_slots ms"
  by (induction ms arbitrary: n) (auto simp: List.map_filter_simps open_slot_def split: option.split)

lemma map_filter_append: "List.map_filter f (us @ vs) = List.map_filter f us @ List.map_filter f vs"
  by (simp add: List.map_filter_def)

lemma secondaries_split: "secondaries (length xs) (xs @ m # ys) = open_slots (xs @ ys)"
proof -
  have "enumerate 0 (xs @ m # ys) = enumerate 0 xs @ (length xs, m) # enumerate (Suc (length xs)) ys"
    by (simp add: enumerate_append_eq)
  then show ?thesis unfolding secondaries_def by (simp add: map_filter_append List.map_filter_simps secondaries_away)
qed

lemma join_exact:
  assumes "join_secondaries w delay ms c = (survivors, c1)"
  shows "survivors = filter (joins w) ms \<and> cn_members c1 = cn_members c
    \<and> map mf_receiver (cn_failures c1) = map mf_receiver (cn_failures c) @ map id_of (filter (\<lambda>x. \<not> joins w x) ms)
    \<and> live (cn_calls c1) = live (cn_calls c) - snd ` set (filter (\<lambda>x. \<not> joins w x) ms)"
  using assms
proof (induction ms arbitrary: c survivors)
  case (Cons x ms)
  obtain d k where x: "x = (d, k)" by (cases x)
  define c2 where "c2 = logged (Lk_Join k delay (gw_join w k)) c"
  define c3 where "c3 = logged (Lk_SetPeers k (cn_peers c2) (gw_setpeers w k)) c2"
  note frames = c3_def c2_def logged_def drop_secondary_def phase_failure_def joins_def
  consider (no) "\<not> gw_join w k" | (peers) "gw_join w k" "\<not> gw_setpeers w k" | (yes) "gw_join w k" "gw_setpeers w k" by blast
  then show ?case
  proof cases
    case no
    then have "join_secondaries w delay ms (drop_secondary k (d_id d) Setup_RtspSetup c2) = (survivors, c1)"
      using Cons(2) by (simp add: x c2_def)
    from Cons(1) [OF this] show ?thesis using no by (auto simp: x frames)
  next
    case peers
    then have "join_secondaries w delay ms (drop_secondary k (d_id d) Setup_SetPeers c3) = (survivors, c1)"
      using Cons(2) by (simp add: x c2_def c3_def Let_def)
    from Cons(1) [OF this] show ?thesis using peers by (auto simp: x frames)
  next
    case yes
    then obtain rest where "join_secondaries w delay ms c3 = (rest, c1)" "survivors = (d, k) # rest"
      using Cons(2) by (auto simp: x c2_def c3_def Let_def split: prod.splits)
    with Cons(1) [OF this(1)] show ?thesis using yes by (auto simp: x frames)
  qed
qed simp

section \<open>The outcome\<close>

text \<open>A receiver is connected, failed, or, without any primary, at most left out of the report.\<close>

definition report_ok :: "device list \<Rightarrow> connect_report \<Rightarrow> bool" where
  "report_ok ds r \<longleftrightarrow>
     distinct (cr_connected r @ map mf_receiver (cr_failures r))
     \<and> set (cr_connected r @ map mf_receiver (cr_failures r)) \<subseteq> d_id ` set ds
     \<and> (cr_primary r = None \<longrightarrow> cr_connected r = [])
     \<and> (\<forall>p. cr_primary r = Some p \<longrightarrow>
           set (cr_connected r @ map mf_receiver (cr_failures r)) = d_id ` set ds
           \<and> (\<exists>d rest. d \<in> set ds \<and> d_id d = p \<and> supports_ptp d \<and> cr_connected r = p # rest \<and> subseq rest (map d_id ds)))"

lemma report_primary:
  assumes "distinct ((d_id d # rest) @ map mf_receiver f)" "set ((d_id d # rest) @ map mf_receiver f) = d_id ` set ds"
    "d \<in> set ds" "supports_ptp d" "subseq rest (map d_id ds)"
  shows "report_ok ds \<lparr>cr_primary = Some (d_id d), cr_connected = d_id d # rest, cr_failures = f\<rparr>"
  using assms unfolding report_ok_def connect_report.simps by blast

definition idle :: "air_client \<Rightarrow> bool" where
  "idle client \<longleftrightarrow> ac_connection client = None \<and> ac_group_connections client = []"

lemma idle_holders: "idle client \<Longrightarrow> holders (client\<lparr>ac_links := n, ac_calls := cs\<rparr>) = {}"
  by (simp add: idle_def holders_def)

lemma single_outcome:
  assumes "idle client" "live (cn_calls c) = {j}" "d \<in> set ds" "supports_ptp d"
    and fails: "distinct (d_id d # map mf_receiver (cn_failures c))" "set (d_id d # map mf_receiver (cn_failures c)) = d_id ` set ds"
    and run: "finish_single_survivor_session w d (Some j) c client = (r, client1)"
  shows "report_ok ds r \<and> live (ac_calls client1) = holders client1 \<and> client_ok client1"
proof -
  have sub: "d_id d \<in> d_id ` set ds" "\<forall>x\<in>set (cn_failures c). mf_receiver x \<in> d_id ` set ds"
    using assms(3) fails(2) by auto
  consider (refused) e where "gw_connect w (ac_links client) = Some e"
    | (unset) "gw_connect w (ac_links client) = None" "\<not> gw_setup w (ac_links client)"
    | (up) "gw_connect w (ac_links client) = None" "gw_setup w (ac_links client)"
    by (cases "gw_connect w (ac_links client)") auto
  then show ?thesis
  proof cases
    case refused
    then show ?thesis using run fails(1) sub assms(1,2)
      by (auto simp: finish_single_survivor_session_def Let_def logged_def no_session_def report_ok_def client_ok_def holders_def idle_def
          classify_connect_failure_def phase_failure_def)
  next
    case unset
    then show ?thesis using run fails(1) sub assms(1,2)
      by (auto simp: finish_single_survivor_session_def Let_def logged_def no_session_def drop_secondary_def report_ok_def client_ok_def
          holders_def idle_def phase_failure_def)
  next
    case up
    then have "r = \<lparr>cr_primary = Some (d_id d), cr_connected = [d_id d], cr_failures = cn_failures c\<rparr>"
      "live (ac_calls client1) = {ac_links client}" "holders client1 = {ac_links client}" "ac_links client1 = Suc (ac_links client)"
      using run assms(1,2) by (auto simp: finish_single_survivor_session_def Let_def logged_def holders_def)
    then show ?thesis using report_primary [of d "[]" "cn_failures c" ds] fails assms(3,4) by (simp add: client_ok_def)
  qed
qed

lemma split_filter: "set (filter P xs) \<union> set (filter (\<lambda>x. \<not> P x) xs) = set xs"
  by auto

text \<open>What the join leaves of the receivers that are open besides the primary.\<close>

lemma join_accounted:
  assumes "accounted ds b c" "cn_members c = xs @ Some m # ys" "em_link m = Some k"
    "join_secondaries w delay (open_slots (xs @ ys)) c = (survivors, c1)"
  shows "distinct ((d_id (em_device m) # map id_of survivors) @ map mf_receiver (cn_failures c1))"
    "set ((d_id (em_device m) # map id_of survivors) @ map mf_receiver (cn_failures c1)) = d_id ` set ds"
    "live (cn_calls c1) = insert k (snd ` set survivors)"
    "em_device m \<in> set ds" "subseq (map id_of survivors) (map d_id ds)" "\<forall>x\<in>insert (em_device m, k) (set survivors). snd x < b"
proof -
  define others where "others = open_slots (xs @ ys)"
  have all: "set (open_slots (cn_members c)) = insert (em_device m, k) (set others)"
    "distinct (map id_of (open_slots (cn_members c))) \<longleftrightarrow> d_id (em_device m) \<notin> id_of ` set others \<and> distinct (map id_of others)"
    "distinct (map snd (open_slots (cn_members c))) \<longleftrightarrow> k \<notin> snd ` set others \<and> distinct (map snd others)"
    by (auto simp: others_def assms(2,3) open_slot_def)
  have sub: "subseq others (open_slots (cn_members c))"
    using assms(3) by (auto simp: others_def assms(2) open_slot_def intro: list_emb_append_mono)
  note a = assms(1) [unfolded accounted_def distinct_append set_map all]
  note j = join_exact [OF assms(4), folded others_def]
  have surv: "survivors = filter (joins w) others" using j by blast
  have fails: "set (map mf_receiver (cn_failures c1)) = mf_receiver ` set (cn_failures c) \<union> id_of ` set (filter (\<lambda>x. \<not> joins w x) others)"
    "distinct (map mf_receiver (cn_failures c1)) \<longleftrightarrow> distinct (map mf_receiver (cn_failures c) @ map id_of (filter (\<lambda>x. \<not> joins w x) others))"
    using j by (simp_all add: image_Un)
  have inj: "inj_on id_of (set others)" "inj_on snd (set others)" using a by (simp_all add: distinct_map)
  have part: "id_of ` set (filter (joins w) others) \<inter> id_of ` set (filter (\<lambda>x. \<not> joins w x) others) = {}"
    "snd ` set (filter (joins w) others) \<inter> snd ` set (filter (\<lambda>x. \<not> joins w x) others) = {}"
    using inj by (auto simp: inj_on_def)
  have d: "distinct (map id_of (filter P others))" for P using a by (simp add: distinct_map_filter)
  have both: "id_of ` set (filter (joins w) others) \<union> id_of ` set (filter (\<lambda>x. \<not> joins w x) others) = id_of ` set others"
    by (simp only: image_Un [symmetric] split_filter)
  show "distinct ((d_id (em_device m) # map id_of survivors) @ map mf_receiver (cn_failures c1))"
    using a part(1) d unfolding surv distinct_append fails by auto
  show "set ((d_id (em_device m) # map id_of survivors) @ map mf_receiver (cn_failures c1)) = d_id ` set ds"
  proof -
    have "insert (d_id (em_device m)) (id_of ` set others \<union> mf_receiver ` set (cn_failures c)) = d_id ` set ds" using a by simp
    then show ?thesis unfolding both [symmetric] by (auto simp: fails [unfolded set_map] surv simp del: set_filter)
  qed
  show "live (cn_calls c1) = insert k (snd ` set survivors)" using a j part(2) by (auto simp: surv)
  have "subseq (map fst (open_slots (cn_members c))) ds" using a by blast
  then have s: "subseq (map d_id (map fst (open_slots (cn_members c)))) (map d_id ds)" by (rule subseq_map)
  have "subseq survivors (open_slots (cn_members c))" unfolding surv using sub subseq_filter_left subseq_order.trans by blast
  then have "subseq (map id_of survivors) (map id_of (open_slots (cn_members c)))" by (rule subseq_map)
  with s show "subseq (map id_of survivors) (map d_id ds)" by (auto simp: comp_def intro: subseq_order.trans)
  have "em_device m \<in> set (map fst (open_slots (cn_members c)))" unfolding set_map all by simp
  then show "em_device m \<in> set ds" using a list_emb_set [of "(=)" "map fst (open_slots (cn_members c))" ds "em_device m"] by auto
  show "\<forall>x\<in>insert (em_device m, k) (set survivors). snd x < b" using a by (auto simp: surv)
qed

lemma finish_outcome:
  assumes "elected ds (ac_links client) (Some index, c)" "idle client"
  shows "\<exists>r client1. finish_group w index c client = Some (r, client1)
           \<and> report_ok ds r \<and> live (ac_calls client1) = holders client1 \<and> client_ok client1"
proof -
  obtain xs m ys k where s: "cn_members c = xs @ Some m # ys" "index = length xs" "em_link m = Some k" "supports_ptp (em_device m)"
    and a: "accounted ds (ac_links client) c"
    using assms(1) unfolding elected_def fst_conv snd_conv by blast
  obtain survivors c1 where j: "join_secondaries w (ac_render_delay_ms client) (open_slots (xs @ ys)) c = (survivors, c1)"
    by fastforce
  note out = join_accounted [OF a s(1,3) j]
  have run: "finish_group w index c client =
      (if survivors = [] then Some (finish_single_survivor_session w (em_device m) (Some k) c1 client)
       else Some (store_session (em_device m, k) survivors c1 client))"
    using j by (simp add: finish_group_def s secondaries_split nth_append del: open_slots_simps)
  show ?thesis
  proof (cases "survivors = []")
    case True
    obtain r client1 where f: "finish_single_survivor_session w (em_device m) (Some k) c1 client = (r, client1)" by fastforce
    show ?thesis using single_outcome [OF assms(2) _ out(4) s(4) _ _ f] out(1-3) True f run by simp
  next
    case False
    let ?client = "snd (store_session (em_device m, k) survivors c1 client)"
    have "live (ac_calls ?client) = insert k (snd ` set survivors)" "holders ?client = insert k (snd ` set survivors)"
      "\<forall>n\<in>insert k (snd ` set survivors). n < ac_links ?client"
      using out(3,6) by (auto simp: store_session_def holders_def)
    moreover have "report_ok ds (fst (store_session (em_device m, k) survivors c1 client))"
      using report_primary [OF out(1,2,4) s(4) out(5)] by (simp add: store_session_def comp_def)
    ultimately show ?thesis using run False by (auto simp: client_ok_def store_session_def)
  qed
qed

lemma disconnect_idle:
  assumes "client_ok client" "client_disconnect w client = (failed, client1)"
  shows "live (ac_calls client1) = {}" "client_ok client1" "failed = None \<Longrightarrow> idle client1"
  using assms by (auto simp: client_disconnect_def client_ok_def holders_def idle_def Let_def split: if_splits option.splits)

lemma find_duplicate_none: "find_duplicate seen ds = None \<longleftrightarrow> distinct (map d_id ds) \<and> set (map d_id ds) \<inter> set seen = {}"
  by (induction seen ds rule: find_duplicate.induct) auto

lemma no_session_ok: "accounted ds b c \<Longrightarrow> report_ok ds (no_session c)"
  by (auto simp: accounted_def report_ok_def no_session_def)

lemma teardown_all_empty: "accounted ds b c \<Longrightarrow> live (cn_calls (teardown_all c)) = {}"
proof -
  have "set (List.map_filter (\<lambda>m. Option.bind m em_link) ms) = snd ` set (open_slots ms)" for ms
  proof (induction ms)
    case (Cons a ms)
    then show ?case by (cases a; cases "em_link (the a)") (auto simp: List.map_filter_simps open_slot_def)
  qed (simp add: List.map_filter_simps)
  then show "accounted ds b c \<Longrightarrow> live (cn_calls (teardown_all c)) = {}"
    by (simp add: teardown_all_def accounted_def)
qed

section \<open>A group without failures\<close>

text \<open>Every call of every receiver succeeds.\<close>

definition all_answer :: "group_world \<Rightarrow> bool" where
  "all_answer w \<longleftrightarrow> gw_disconnect w = None \<and> gw_cookie w = None
     \<and> (\<forall>k. gw_connect w k = None \<and> gw_setup w k \<and> gw_timing w k \<and> gw_setpeers w k \<and> gw_join w k)"

lemma establish_all:
  assumes "all_answer w"
  shows "cn_failures (establish w k ds c) = cn_failures c \<and> candidates (cn_members (establish w k ds c)) = candidates (cn_members c) @ ds"
  using assms
  by (induction ds arbitrary: k c) (auto simp: all_answer_def logged_def candidates_def map_filter_append List.map_filter_simps)

lemma elect_all:
  assumes "all_answer w" "accounted ds b c" "choose_primary (candidates (cn_members c)) preferred = Some d"
  shows "\<exists>c1 xs m ys k. elect_primary w (Suc n) preferred c = Some (Some (length xs), c1) \<and> cn_failures c1 = cn_failures c
           \<and> cn_members c1 = xs @ Some m # ys \<and> em_device m = d \<and> em_link m = Some k"
proof -
  obtain xs m ys k where s: "cn_members c = xs @ Some m # ys" "position_of (d_id d) (cn_members c) = Some (length xs)"
      "em_device m = d" "em_link m = Some k"
    using chosen_slot [OF assms(2,3)] by blast
  define peers where "peers = build_peer_addresses (linked (cn_members c)) (gw_local w k)"
  obtain c1 where r: "run_primary_critical w k peers (c\<lparr>cn_peers := peers, cn_attempts := cn_attempts c @ [d_id d]\<rparr>) = (None, c1)"
    using assms(1) by (simp add: run_primary_critical_def all_answer_def Let_def)
  have "elect_primary w (Suc n) preferred c = Some (Some (length xs), c1)"
    using assms(3) s(2,4) r [unfolded peers_def s(1)] by (simp add: s(1) nth_append)
  then show ?thesis using critical_frame [OF r] s by auto
qed

lemma finish_all:
  assumes "all_answer w" "cn_members c = xs @ Some m # ys" "em_link m = Some k" "finish_group w (length xs) c client = Some (r, client1)"
  shows "cr_primary r = Some (d_id (em_device m)) \<and> map mf_receiver (cr_failures r) = map mf_receiver (cn_failures c)"
proof -
  obtain survivors c1 where j: "join_secondaries w (ac_render_delay_ms client) (open_slots (xs @ ys)) c = (survivors, c1)"
    by fastforce
  have "map mf_receiver (cn_failures c1) = map mf_receiver (cn_failures c)"
    using join_exact [OF j] assms(1) by (simp add: joins_def all_answer_def)
  moreover have "(r, client1) = (if survivors = [] then finish_single_survivor_session w (em_device m) (Some k) c1 client
       else store_session (em_device m, k) survivors c1 client)"
    using j assms(2-4) by (simp add: finish_group_def secondaries_split nth_append split: if_splits del: open_slots_simps)
  ultimately show ?thesis using assms(1)
    by (auto simp: finish_single_survivor_session_def store_session_def all_answer_def logged_def Let_def split: if_splits)
qed

definition started :: "group_world \<Rightarrow> device list \<Rightarrow> air_client \<Rightarrow> connecting" where
  "started w ds client1 = establish w (ac_links client1) ds
     \<lparr>cn_members = [], cn_failures = [], cn_peers = [], cn_attempts = [], cn_calls = ac_calls client1\<rparr>"

definition after_election :: "group_world \<Rightarrow> device list \<Rightarrow> device_id option \<Rightarrow> air_client \<Rightarrow> (group_result \<times> air_client) option" where
  "after_election w ds preferred client1 =
     (let client2 = client1\<lparr>ac_links := ac_links client1 + length ds\<rparr>
      in case elect_primary w 2 preferred (started w ds client1) of
           None \<Rightarrow> None
         | Some (None, c1) \<Rightarrow> Some (Inr (no_session c1), client2\<lparr>ac_calls := cn_calls (teardown_all c1)\<rparr>)
         | Some (Some index, c1) \<Rightarrow> map_option (\<lambda>(r, cl). (Inr r, cl)) (finish_group w index c1 client2))"

lemma after_election_outcome:
  assumes "idle client1" "live (ac_calls client1) = {}" "distinct (map d_id ds)"
  shows "\<exists>r client2. after_election w ds preferred client1 = Some (Inr r, client2) \<and> client_ok client2
    \<and> report_ok ds r \<and> live (ac_calls client2) = holders client2"
proof -
  let ?c = "started w ds client1" and ?client = "client1\<lparr>ac_links := ac_links client1 + length ds\<rparr>"
  have "accounted ds (ac_links client1 + length ds) ?c" using establish_starts [OF assms(2,3)] by (simp add: started_def)
  then obtain index c1 where e: "elect_primary w 2 preferred ?c = Some (index, c1)" "elected ds (ac_links ?client) (index, c1)"
    using elect_primary_total by fastforce
  have i: "idle ?client" using assms(1) by (simp add: idle_def)
  show ?thesis
  proof (cases index)
    case None
    have "accounted ds (ac_links ?client) c1" using e(2) by (simp add: elected_def)
    with None e(1) show ?thesis using no_session_ok teardown_all_empty idle_holders [OF assms(1)]
      by (auto simp: after_election_def client_ok_def)
  next
    case (Some n)
    with e finish_outcome [OF e(2) [unfolded Some] i, of w] show ?thesis by (auto simp: after_election_def)
  qed
qed

lemma after_election_all:
  assumes "all_answer w" "live (ac_calls client1) = {}" "distinct (map d_id ds)" "\<exists>d\<in>set ds. supports_ptp d"
    "after_election w ds preferred client1 = Some (Inr r, client2)"
  shows "cr_failures r = [] \<and> cr_primary r = map_option d_id (choose_primary ds preferred)"
proof -
  let ?c = "started w ds client1"
  have c: "cn_failures ?c = []" "candidates (cn_members ?c) = ds"
    using establish_all [OF assms(1)] by (simp_all add: started_def candidates_def List.map_filter_simps)
  have "min_by_id xs = None \<longleftrightarrow> xs = []" for xs by (cases xs) (auto split: option.split)
  moreover have "filter supports_ptp ds \<noteq> []" using assms(4) by (auto simp: filter_empty_conv)
  ultimately have "choose_primary ds preferred \<noteq> None" unfolding choose_primary_def Let_def by (auto split: option.split)
  then obtain d where d: "choose_primary ds preferred = Some d" by blast
  obtain c1 xs m ys k where e: "elect_primary w (Suc (Suc 0)) preferred ?c = Some (Some (length xs), c1)" "cn_failures c1 = cn_failures ?c"
      "cn_members c1 = xs @ Some m # ys" "em_device m = d" "em_link m = Some k"
    using elect_all [OF assms(1) establish_starts [OF assms(2,3), of "ac_links client1" w, folded started_def], of preferred d "Suc 0"] c d by auto
  have "finish_group w (length xs) c1 (client1\<lparr>ac_links := ac_links client1 + length ds\<rparr>) = Some (r, client2)"
    using assms(5) e(1) by (auto simp: after_election_def numeral_2_eq_2)
  from finish_all [OF assms(1) e(3,5) this] show ?thesis using d e c by simp
qed

lemma connect_report_ok:
  assumes "client_ok client" "connect_group_best_effort w ds preferred client = Some (Inr r, client1)"
  shows "report_ok ds r"
proof -
  obtain failed client2 where d: "client_disconnect w client = (failed, client2)" by fastforce
  have ids: "distinct (map d_id ds)"
    using assms(2) find_duplicate_none [of "[]" ds] by (auto simp: connect_group_best_effort_def find_duplicate_member_def split: if_splits option.splits)
  have "failed = None" "after_election w ds preferred client2 = Some (Inr r, client1)"
    using assms(2) d by (auto simp: connect_group_best_effort_def after_election_def started_def Let_def split: if_splits option.splits)
  then show ?thesis using after_election_outcome [OF _ _ ids, of client2 w preferred] disconnect_idle [OF assms(1) d] by auto
qed

section \<open>Claims\<close>


definition group_demo_device :: "u8 \<Rightarrow> device" where
  "group_demo_device n =
     \<lparr>d_id = DeviceId 2 0 0 0 0 n, d_name = [], d_model = [], d_manufacturer = None, d_serial_number = None, d_addresses = [],
       d_port = 0, d_features = SUPPORTS_PTP, d_required_sender_features = None, d_public_key = None, d_source_version =
       Version 366 0 0, d_firmware_version = None, d_os_version = None, d_protocol_version = None, d_requires_password = False,
       d_status_flags = 0, d_access_control = None, d_pairing_identity = None, d_system_pairing_identity = None,
       d_bluetooth_address = None, d_homekit_home_id = None, d_group_id = None, d_is_group_leader = False, d_group_public_name
       = None, d_group_contains_discoverable_leader = False, d_home_group_id = None, d_household_id = None, d_parent_group_id =
       None, d_parent_group_contains_discoverable_leader = False, d_tight_sync_id = None, d_raop_port = None,
       d_raop_encryption_types = None, d_raop_codecs = None, d_raop_transport = None, d_raop_metadata_types = None,
       d_raop_digest_auth = False, d_vodka_version = None\<rparr>"

definition group_demo_world :: group_world where
  "group_demo_world = \<lparr>gw_disconnect = None, gw_cookie = None, gw_connect = (\<lambda>_. None), gw_setup = (\<lambda>_. True), gw_timing = (\<lambda>_. True),
     gw_setpeers = (\<lambda>_. True), gw_join = (\<lambda>_. True), gw_local = (\<lambda>_. None)\<rparr>"

definition group_demo_client :: air_client where
  "group_demo_client = \<lparr>ac_connection = None, ac_group_connections = [], ac_group = None, ac_stream_config = stream_config_default,
     ac_render_delay_ms = 200, ac_links = 0, ac_calls = []\<rparr>"

lemma group_demo_ptp: "supports_ptp (group_demo_device n)"
  by (simp add: supports_ptp_def group_demo_device_def has_feature_def SUPPORTS_PTP_def MIN_PTP_VERSION_def)


end
