(* ===== verification/Group_Delays.thy ===== *)
theory Group_Delays
  imports Group_Properties Controller_Properties
begin

text \<open>
  From the report of a group connection to the delay of each receiver: the transport computes the effective
  delays of the connected members, and the client puts them in the order of its targets.
\<close>

lemma om_length: "om_ok m \<Longrightarrow> set (om_keys m) = set ks \<Longrightarrow> distinct ks \<Longrightarrow> length m = length ks"
proof -
  assume a: "om_ok m" "set (om_keys m) = set ks" "distinct ks"
  then have "distinct (om_keys m)" using om.keys_sorted by blast
  then have "length (om_keys m) = length ks" using a(2,3) distinct_card by metis
  then show "length m = length ks" by (simp add: om_keys_def)
qed

lemma mapped_delays:
  assumes "om_ok m" "distinct ks" "\<And>k. om_get m k = (if k \<in> set ks then Some (f k) else None)"
  shows "map_presentation_delays_for ks m = Inr (map f ks)"
proof -
  have "k \<in> set (om_keys m) \<longleftrightarrow> k \<in> set ks" for k using om.keys_get [OF assms(1), of k] assms(3) [of k] by simp
  then have "set (om_keys m) = set ks" by blast
  then have "length m = length ks" using om_length assms(1,2) by blast
  then show ?thesis by (simp add: map_presentation_delays_for_def assms(3))
qed

text \<open>
  C24: When a group connection reports a primary, the effective delays of the connected receivers exist for
  every calibration profile, the client accepts them for its targets, and each receiver, in the order of the
  report, gets its requested delay minus the smallest requested delay of the connected ones.
\<close>

theorem group_delays_applied:
  assumes "client_ok client" "connect_group_best_effort w ds preferred client = Some (Inr r, client1)" "cr_primary r = Some p"
  shows "\<exists>effective delays. presentation_delays_for (cr_connected r) calibration = Inr effective
    \<and> map_presentation_delays_for (cr_connected r) effective = Inr delays \<and> length delays = length (cr_connected r)
    \<and> (\<forall>i<length delays. int (unat (delays ! i)) = sint (requested_delay_ns calibration (cr_connected r ! i))
         - Min ((\<lambda>q. sint (requested_delay_ns calibration q)) ` set (cr_connected r)))"
proof -
  let ?ks = "cr_connected r"
  have ks: "distinct ?ks" "?ks \<noteq> []" using connect_report_ok [OF assms(1,2)] assms(3) by (auto simp: report_ok_def)
  define anchored where "anchored = calibration\<lparr>cp_reference_receiver :=
      (case cp_reference_receiver calibration of Some q \<Rightarrow> if q \<in> set ?ks then Some q else None | None \<Rightarrow> None)\<rparr>"
  define least where "least = Min ((\<lambda>q. sint (requested_delay_ns calibration q)) ` set ?ks)"
  have same: "requested_delay_ns anchored = requested_delay_ns calibration"
    by (rule ext) (simp add: requested_delay_ns_def anchored_def)
  have "\<forall>q. cp_reference_receiver anchored = Some q \<longrightarrow> q \<in> set ?ks" by (auto simp: anchored_def split: option.splits if_splits)
  from normalize_value [OF _ _ this] ks(2) obtain effective where n:
      "normalize_calibration (set ?ks) anchored = Inr \<lparr>ec_minimum_requested_ns = word_of_int least, ec_effective_delay_ns = effective\<rparr>"
      "om_ok effective" "\<And>q. q \<notin> set ?ks \<Longrightarrow> om_get effective q = None"
      "\<And>q. q \<in> set ?ks \<Longrightarrow> \<exists>d. om_get effective q = Some d \<and> int (unat d) = sint (requested_delay_ns calibration q) - least"
    unfolding same least_def by auto
  define f where "f q = the (om_get effective q)" for q
  have get: "om_get effective q = (if q \<in> set ?ks then Some (f q) else None)" for q using n(3,4) [of q] by (auto simp: f_def)
  have "presentation_delays_for ?ks calibration = Inr effective"
    using n(1) by (simp add: presentation_delays_for_def Let_def anchored_def)
  moreover have "map_presentation_delays_for ?ks effective = Inr (map f ?ks)" using mapped_delays n(2) ks(1) get by blast
  moreover have "int (unat (f q)) = sint (requested_delay_ns calibration q) - least" if "q \<in> set ?ks" for q
    using n(4) [OF that] by (auto simp: f_def)
  ultimately show ?thesis by (intro exI [of _ effective] exI [of _ "map f ?ks"]) (simp add: least_def)
qed

definition group_demo_profile :: calibration_profile where
  "group_demo_profile = \<lparr>cp_reference_receiver = None, cp_requested_delay_ns = [(DeviceId 2 0 0 0 0 1, 5), (DeviceId 2 0 0 0 0 2, 12)]\<rparr>"

lemma group_demo_run:
  "\<exists>r client1. connect_group_best_effort group_demo_world [group_demo_device 1, group_demo_device 2] None group_demo_client = Some (Inr r, client1)
     \<and> cr_primary r = Some (DeviceId 2 0 0 0 0 1) \<and> cr_connected r = [DeviceId 2 0 0 0 0 1, DeviceId 2 0 0 0 0 2]"
proof -
  have id: "d_id (group_demo_device n) = DeviceId 2 0 0 0 0 n" "d_addresses (group_demo_device n) = []" for n
    by (simp_all add: group_demo_device_def)
  have order: "\<not> DeviceId 2 0 0 0 0 2 < DeviceId 2 0 0 0 0 1" by code_simp
  show ?thesis
    by (simp add: connect_group_best_effort_def find_duplicate_member_def client_disconnect_def group_demo_client_def group_demo_world_def
        id order group_demo_ptp logged_def candidates_def linked_def choose_primary_def List.map_filter_simps run_primary_critical_def
        numeral_2_eq_2 finish_group_def secondaries_def store_session_def Let_def)
qed

theorem group_delays_applied_witness:
  "\<exists>r client1 effective delays.
     connect_group_best_effort group_demo_world [group_demo_device 1, group_demo_device 2] None group_demo_client = Some (Inr r, client1)
     \<and> presentation_delays_for (cr_connected r) group_demo_profile = Inr effective
     \<and> map_presentation_delays_for (cr_connected r) effective = Inr delays \<and> length delays = 2
     \<and> int (unat (delays ! 0)) = 0 \<and> int (unat (delays ! 1)) = 7"
proof -
  have ok: "client_ok group_demo_client" by (simp add: group_demo_client_def client_ok_def holders_def)
  obtain r client1 where run: "connect_group_best_effort group_demo_world [group_demo_device 1, group_demo_device 2] None group_demo_client = Some (Inr r, client1)"
      "cr_primary r = Some (DeviceId 2 0 0 0 0 1)" "cr_connected r = [DeviceId 2 0 0 0 0 1, DeviceId 2 0 0 0 0 2]"
    using group_demo_run by blast
  have "sint (requested_delay_ns group_demo_profile (DeviceId 2 0 0 0 0 1)) = 5" "sint (requested_delay_ns group_demo_profile (DeviceId 2 0 0 0 0 2)) = 12"
    by (simp_all add: requested_delay_ns_def group_demo_profile_def om_get_def)
  then show ?thesis using group_delays_applied [OF ok run(1,2), of group_demo_profile] run by (auto simp: numeral_2_eq_2 All_less_Suc)
qed

end
