(* ===== verification/Bridge.thy ===== *)
theory Bridge
  imports Controller_Commands App_State Hardware_Check Reducer_Shape
begin

text \<open>
  The seam between the shell and the backend: the command queue with its receipts, the projection of snapshots to events,
  the port that translates effects, and the thread in between with the shell's bounded queue. Each chapter opens with the
  files it follows.
\<close>

chapter \<open>Commands and receipts\<close>

text \<open>
  The command half of the seam between shell and backend: the bounded queue and the receipts of
  \<open>backend/command.rs\<close>, what the shell last asked for (\<open>backend_bridge/commands.rs\<close>, \<open>GenerationEcho\<close>) and how pending
  requests are settled from receipts. A one-shot channel is named by a number and its content is looked up in
  the channels of the moment; the wake-up permit is a flag. Locks are short and never nested across a wait, so
  each method is one step.
\<close>

section \<open>The command queue\<close>

datatype oneshot = Os_Empty | Os_Sent command_confirmation | Os_Dropped

type_synonym channels = "receipt \<Rightarrow> oneshot"

record command_receipt =
  rc_receiver :: receipt
  rc_confirmed :: "command_confirmation option"

datatype receipt_state = Receipt_Pending | Receipt_Completed "command_failure option" | Receipt_Lost

definition session_generation_floor :: "nat \<Rightarrow> command_receipt \<Rightarrow> u64 option" where
  "session_generation_floor projected_revision r =
     (case rc_confirmed r of
        Some c \<Rightarrow> if cf_revision c \<le> projected_revision then cf_session_generation_floor c else None
      | None \<Rightarrow> None)"

definition judge_confirmation :: "nat \<Rightarrow> command_confirmation \<Rightarrow> receipt_state" where
  "judge_confirmation projected_revision c =
     (if projected_revision < cf_revision c then Receipt_Pending else Receipt_Completed (cf_error c))"

definition poll :: "channels \<Rightarrow> nat \<Rightarrow> command_receipt \<Rightarrow> receipt_state \<times> command_receipt" where
  "poll ch projected_revision r =
     (case rc_confirmed r of
        Some c \<Rightarrow> (judge_confirmation projected_revision c, r)
      | None \<Rightarrow>
          (case ch (rc_receiver r) of
             Os_Empty \<Rightarrow> (Receipt_Pending, r)
           | Os_Dropped \<Rightarrow> (Receipt_Lost, r)
           | Os_Sent c \<Rightarrow> (judge_confirmation projected_revision c, r\<lparr>rc_confirmed := Some c\<rparr>)))"

definition COMMAND_CAPACITY :: nat where "COMMAND_CAPACITY = 64"

datatype backend_send_error = Backend_Busy | Backend_Closed

record backend_handle =
  bh_queue :: "command_envelope list"
  bh_closed :: bool
  bh_next_id :: u64
  bh_next_receipt :: receipt

definition handle_new :: backend_handle where
  "handle_new = \<lparr>bh_queue = [], bh_closed = False, bh_next_id = 1, bh_next_receipt = 0\<rparr>"

definition try_send_envelope :: "backend_command \<Rightarrow> receipt option \<Rightarrow> backend_handle \<Rightarrow> (backend_send_error + u64) \<times> backend_handle" where
  "try_send_envelope command confirmation h =
     (let ident = bh_next_id h; h1 = h\<lparr>bh_next_id := ident + 1\<rparr>
      in if bh_closed h then (Inl Backend_Closed, h1)
         else if COMMAND_CAPACITY \<le> length (bh_queue h) then (Inl Backend_Busy, h1)
         else (Inr ident, h1\<lparr>bh_queue := bh_queue h @ [\<lparr>en_id = ident, en_command = command, en_confirmation = confirmation\<rparr>]\<rparr>))"

definition handle_try_send :: "backend_command \<Rightarrow> backend_handle \<Rightarrow> (backend_send_error + u64) \<times> backend_handle" where
  "handle_try_send command h = try_send_envelope command None h"

definition try_send_confirmed :: "backend_command \<Rightarrow> backend_handle \<Rightarrow> (backend_send_error + (u64 \<times> command_receipt)) \<times> backend_handle" where
  "try_send_confirmed command h =
     (let r = bh_next_receipt h; (result, h1) = try_send_envelope command (Some r) (h\<lparr>bh_next_receipt := Suc r\<rparr>)
      in (case result of Inl e \<Rightarrow> Inl e | Inr i \<Rightarrow> Inr (i, \<lparr>rc_receiver = r, rc_confirmed = None\<rparr>), h1))"

fun enqueue_all :: "backend_command list \<Rightarrow> backend_handle \<Rightarrow> backend_handle" where
  "enqueue_all [] h = h"
| "enqueue_all (c # cs) h =
     enqueue_all cs (h\<lparr>bh_next_id := bh_next_id h + 1,
       bh_queue := bh_queue h @ [\<lparr>en_id = bh_next_id h, en_command = c, en_confirmation = None\<rparr>]\<rparr>)"

definition try_send_batch :: "backend_command list \<Rightarrow> backend_handle \<Rightarrow> backend_send_error option \<times> backend_handle" where
  "try_send_batch commands h =
     (if bh_closed h then (Some Backend_Closed, h)
      else if COMMAND_CAPACITY < length (bh_queue h) + length commands then (Some Backend_Busy, h)
      else (None, enqueue_all commands h))"

section \<open>What the shell asked for\<close>

datatype session_edge =
    Edge_Untouched | Edge_Start | Edge_PendingGroupStart | Edge_ConfirmedGroupStart u64 | Edge_Stop | Edge_Rejected

datatype session_echo =
    Echo_Stopped | Echo_Active "device_id list" | Echo_Degraded "device_id list" | Echo_Restarting | Echo_Failed string

fun answered_by :: "session_edge \<Rightarrow> session_echo \<Rightarrow> bool" where
  "answered_by Edge_PendingGroupStart _ = False"
| "answered_by (Edge_ConfirmedGroupStart _) _ = False"
| "answered_by Edge_Rejected _ = True"
| "answered_by Edge_Start (Echo_Active _) = True"
| "answered_by Edge_Start (Echo_Degraded _) = True"
| "answered_by Edge_Start (Echo_Failed _) = True"
| "answered_by Edge_Stop Echo_Stopped = True"
| "answered_by Edge_Start Echo_Stopped = False"
| "answered_by Edge_Stop (Echo_Active _) = False"
| "answered_by Edge_Stop (Echo_Degraded _) = False"
| "answered_by Edge_Stop (Echo_Failed _) = False"
| "answered_by _ Echo_Restarting = False"
| "answered_by Edge_Untouched _ = False"

record volume_pending =
  vp_generation :: generation_id
  vp_receipt :: "command_receipt option"

type_synonym admission = "group_failure + (u64 \<times> command_receipt)"

record group_pending =
  gp_request :: u64
  gp_generation :: "generation_id option"
  gp_admission :: admission

record generation_echo =
  ge_listening_target :: "(generation_id \<times> listening_test_guard) option"
  ge_listening_pending :: "volume_pending option"
  ge_volume :: "volume_pending option"
  ge_group :: "group_pending option"
  ge_discovery :: generation_id
  ge_session :: "generation_id \<times> session_edge"
  ge_wake :: bool

definition echo_new :: generation_echo where
  "echo_new = \<lparr>ge_listening_target = None, ge_listening_pending = None, ge_volume = None, ge_group = None,
     ge_discovery = 0, ge_session = (0, Edge_Untouched), ge_wake = False\<rparr>"

record generations_seen =
  gs_discovery :: generation_id
  gs_session :: generation_id
  gs_session_edge :: session_edge

definition sample :: "generation_echo \<Rightarrow> generations_seen" where
  "sample e = \<lparr>gs_discovery = ge_discovery e, gs_session = fst (ge_session e), gs_session_edge = snd (ge_session e)\<rparr>"

definition record_discovery :: "generation_id \<Rightarrow> generation_echo \<Rightarrow> generation_echo" where
  "record_discovery g e = e\<lparr>ge_discovery := g, ge_wake := True\<rparr>"

definition record_session :: "generation_id \<Rightarrow> session_edge \<Rightarrow> generation_echo \<Rightarrow> generation_echo" where
  "record_session g edge e = e\<lparr>ge_session := (g, edge), ge_wake := True\<rparr>"

fun started_generation :: "controller_event \<Rightarrow> generation_id option" where
  "started_generation (Ctl_SessionStarted g _) = Some g"
| "started_generation _ = None"

fun phase_is_streaming :: "session_phase \<Rightarrow> bool" where
  "phase_is_streaming (Phase_Streaming _) = True"
| "phase_is_streaming _ = False"

definition observe_listening_target :: "device_snapshot \<Rightarrow> controller_event list \<Rightarrow> generation_echo \<Rightarrow> generation_echo" where
  "observe_listening_target s events e =
     (case List.map_filter started_generation events of
        g # _ \<Rightarrow> e\<lparr>ge_listening_target := map_option (Pair g) (guard_capture s)\<rparr>
      | [] \<Rightarrow> if phase_is_streaming (sx_phase (ds_session s)) then e else e\<lparr>ge_listening_target := None\<rparr>)"

section \<open>Settling pending requests\<close>

definition LISTENING_FAILED :: string where
  "LISTENING_FAILED = ''The listening test tone could not be started.''"

definition listening_events :: "channels \<Rightarrow> device_snapshot \<Rightarrow> bool \<Rightarrow> generation_echo \<Rightarrow> controller_event list \<times> generation_echo" where
  "listening_events ch s is_closed e =
     (case ge_listening_pending e of
        None \<Rightarrow> ([], e)
      | Some p \<Rightarrow>
          let polled = map_option (poll ch (ds_revision s)) (vp_receipt p);
              kept = e\<lparr>ge_listening_pending := Some (p\<lparr>vp_receipt := map_option snd polled\<rparr>)\<rparr>
          in if \<not> is_closed \<and> map_option fst polled = Some Receipt_Pending then ([], kept)
             else (if is_closed \<or> map_option fst polled \<noteq> Some (Receipt_Completed None)
                   then [Ctl_SessionFailed (vp_generation p) LISTENING_FAILED] else [],
                   e\<lparr>ge_listening_pending := None\<rparr>))"

definition volume_events :: "channels \<Rightarrow> device_snapshot \<Rightarrow> bool \<Rightarrow> generation_echo \<Rightarrow> controller_event list \<times> generation_echo" where
  "volume_events ch s is_closed e =
     (case ge_volume e of
        None \<Rightarrow> ([], e)
      | Some p \<Rightarrow>
          let polled = map_option (poll ch (ds_revision s)) (vp_receipt p)
          in if is_some_and polled (\<lambda>(status, _). \<not> (status \<noteq> Receipt_Pending \<or> is_closed))
             then ([], e\<lparr>ge_volume := Some (p\<lparr>vp_receipt := map_option snd polled\<rparr>)\<rparr>)
             else ([Ctl_VolumeApplied (vp_generation p) (volume_get (ds_master_volume s))], e\<lparr>ge_volume := None\<rparr>))"

fun completed_status :: "command_failure option \<Rightarrow> group_operation_status" where
  "completed_status None = Op_Succeeded"
| "completed_status (Some Cmd_Persistence) = Op_Failed Failure_Persistence"
| "completed_status (Some Cmd_Rejected) = Op_Failed Failure_Validation"

text \<open>The status of an admission once it is settled, and the admission with its polled receipt.\<close>

definition group_status :: "channels \<Rightarrow> nat \<Rightarrow> bool \<Rightarrow> admission \<Rightarrow> group_operation_status option \<times> admission" where
  "group_status ch seen_revision is_closed admission =
     (case admission of
        Inl failure \<Rightarrow> (Some (Op_Failed failure), admission)
      | Inr (i, receipt) \<Rightarrow>
          let (result, receipt1) = poll ch seen_revision receipt
          in (case result of
                Receipt_Completed error \<Rightarrow> Some (completed_status error)
              | Receipt_Pending \<Rightarrow> if is_closed then Some (Op_Failed Failure_Closed) else None
              | Receipt_Lost \<Rightarrow> Some (Op_Failed (if is_closed then Failure_Closed else Failure_ConfirmationLost)),
              Inr (i, receipt1)))"

text \<open>A refused admission never succeeds.\<close>

definition settled_edge :: "nat \<Rightarrow> group_operation_status \<Rightarrow> admission \<Rightarrow> session_edge" where
  "settled_edge seen_revision status admission =
     (case (status, admission) of
        (Op_Succeeded, Inr (_, receipt)) \<Rightarrow>
          (case session_generation_floor seen_revision receipt of
             Some backend_floor \<Rightarrow> Edge_ConfirmedGroupStart backend_floor
           | None \<Rightarrow> Edge_PendingGroupStart)
      | _ \<Rightarrow> Edge_Rejected)"

definition group_events :: "channels \<Rightarrow> device_snapshot \<Rightarrow> bool \<Rightarrow> generation_echo \<Rightarrow> controller_event list \<times> generation_echo" where
  "group_events ch s is_closed e =
     (case ge_group e of
        None \<Rightarrow> ([], e)
      | Some p \<Rightarrow>
          let (status, admission) = group_status ch (ds_revision s) is_closed (gp_admission p)
          in case status of
               None \<Rightarrow> ([], e\<lparr>ge_group := Some (p\<lparr>gp_admission := admission\<rparr>)\<rparr>)
             | Some status \<Rightarrow>
                 let e1 = (if gp_generation p = Some (fst (ge_session e))
                           then e\<lparr>ge_session := (fst (ge_session e), settled_edge (ds_revision s) status admission), ge_wake := True\<rparr>
                           else e)
                 in ([Ctl_GroupOperationFinished (gp_request p) status], e1\<lparr>ge_group := None\<rparr>))"

chapter \<open>Projection of snapshots\<close>

text \<open>
  The state half of the seam (\<open>backend_bridge/projection.rs\<close>): opaque keys for capture endpoints, and the projection
  that derives the shell's events from one backend snapshot by comparison with what was published last.
  Comparisons of readings that carry floats use the derived \<open>PartialEq\<close>.
\<close>

section \<open>Endpoint keys\<close>

record endpoint_entry =
  ee_key :: audio_endpoint_key
  ee_id :: string
  ee_name :: string

record endpoint_table =
  et_next :: u64
  et_known :: "endpoint_entry list"

definition table_default :: endpoint_table where
  "table_default = \<lparr>et_next = 0, et_known = []\<rparr>"

fun rename_entry :: "audio_endpoint \<Rightarrow> endpoint_entry list \<Rightarrow> endpoint_entry list" where
  "rename_entry endpoint [] = []"
| "rename_entry endpoint (entry # rest) =
     (if ee_id entry = ae_id endpoint then entry\<lparr>ee_name := audio_endpoint.ae_name endpoint\<rparr> # rest else entry # rename_entry endpoint rest)"

definition key_for :: "audio_endpoint \<Rightarrow> endpoint_table \<Rightarrow> audio_endpoint_key \<times> endpoint_table" where
  "key_for endpoint t =
     (case List.find (\<lambda>entry. ee_id entry = ae_id endpoint) (et_known t) of
        Some entry \<Rightarrow> (ee_key entry, t\<lparr>et_known := rename_entry endpoint (et_known t)\<rparr>)
      | None \<Rightarrow>
          (et_next t,
           \<lparr>et_next = et_next t + 1,
            et_known = et_known t @ [\<lparr>ee_key = et_next t, ee_id = ae_id endpoint, ee_name = audio_endpoint.ae_name endpoint\<rparr>]\<rparr>))"

definition preference :: "endpoint_table \<Rightarrow> audio_endpoint_key \<Rightarrow> endpoint_preference option" where
  "preference t key =
     map_option (\<lambda>entry. Explicit_Endpoint (ee_id entry) (ee_name entry)) (List.find (\<lambda>entry. ee_key entry = key) (et_known t))"

section \<open>Readings\<close>

fun latency_choice_of :: "latency_preset \<Rightarrow> latency_choice" where
  "latency_choice_of Preset_Low = Latency_Low"
| "latency_choice_of Preset_Normal = Latency_Normal"
| "latency_choice_of Preset_Stable = Latency_Stable"

definition latency_unavailable_of :: "latency_preset \<times> user_facing_error option \<Rightarrow> latency_unavailable option" where
  "latency_unavailable_of offer = map_option (\<lambda>_. NotValidated) (snd offer)"

definition latency_echo :: "latency_preset \<Rightarrow> (latency_preset \<times> user_facing_error option) list \<Rightarrow> latency_reading" where
  "latency_echo selected offered =
     \<lparr>lr_selected = latency_choice_of selected,
      lr_options = map (\<lambda>offer. \<lparr>lo_choice = latency_choice_of (fst offer), lo_unavailable = latency_unavailable_of offer\<rparr>) offered\<rparr>"

fun capture_state_of :: "audio_source_state \<Rightarrow> capture_state" where
  "capture_state_of Capturing = Cap_Capturing"
| "capture_state_of SilentSystem = Cap_SilentSystem"
| "capture_state_of Source_Recovering = Cap_Recovering"
| "capture_state_of Source_Unavailable = Cap_Unavailable"
| "capture_state_of Source_Failed = Cap_Failed"

fun offered_choices :: "audio_endpoint list \<Rightarrow> endpoint_table \<Rightarrow> audio_endpoint_choice list \<times> endpoint_table" where
  "offered_choices [] t = ([], t)"
| "offered_choices (endpoint # rest) t =
     (let (key, t1) = key_for endpoint t; (choices, t2) = offered_choices rest t1
      in (\<lparr>ae_key = key, ae_name = audio_endpoint.ae_name endpoint\<rparr> # choices, t2))"

fun position_by_id :: "string \<Rightarrow> audio_endpoint list \<Rightarrow> nat option" where
  "position_by_id i [] = None"
| "position_by_id i (endpoint # rest) = (if ae_id endpoint = i then Some 0 else map_option Suc (position_by_id i rest))"

definition offered_list :: "audio_source_snapshot \<Rightarrow> audio_endpoint list" where
  "offered_list source = (case au_active_endpoints source of Some endpoints \<Rightarrow> endpoints | None \<Rightarrow> [])"

definition selection_of :: "audio_source_snapshot \<Rightarrow> audio_endpoint_choice list \<Rightarrow> audio_endpoint_selection" where
  "selection_of source choices =
     (case au_preference source of
        SystemDefault \<Rightarrow> Sel_SystemDefault
      | Explicit_Endpoint i last_known_name \<Rightarrow>
          (case position_by_id i (offered_list source) of
             Some index \<Rightarrow> Sel_Chosen (ae_key (choices ! index))
           | None \<Rightarrow>
               if au_active_endpoints source = None \<or> is_some_and (au_captured_endpoint source) (\<lambda>e. ae_id e = i)
               then Sel_ChosenUnverified
                 (case au_captured_endpoint source of
                    Some e \<Rightarrow> if ae_id e = i then audio_endpoint.ae_name e else last_known_name
                  | None \<Rightarrow> last_known_name)
               else Sel_ChosenButMissing last_known_name))"

definition audio_echo :: "audio_source_snapshot \<Rightarrow> endpoint_table \<Rightarrow> audio_source_reading \<times> endpoint_table" where
  "audio_echo source t =
     (let (choices, t1) = offered_choices (offered_list source) t;
          (captured, t2) = (case au_captured_endpoint source of
                              Some e \<Rightarrow> (let (key, t') = key_for e t1 in (Some key, t')) | None \<Rightarrow> (None, t1))
      in (\<lparr>as_endpoints_known = (au_active_endpoints source \<noteq> None), as_refresh_failed = au_refresh_failed source,
           as_endpoints = choices, as_selection = selection_of source choices, as_captured_key = captured,
           as_captured_name = map_option audio_endpoint.ae_name (au_captured_endpoint source),
           as_state = capture_state_of (au_state source)\<rparr>, t2))"

fun availability_of :: "receiver_lifecycle \<Rightarrow> availability" where
  "availability_of Unavailable_L = Unavailable"
| "availability_of Discovered = Available"
| "availability_of (Connecting _) = Available"
| "availability_of (SettingUp _ _) = Available"
| "availability_of (Ready _) = Available"
| "availability_of (Streaming _) = Available"
| "availability_of (RetryWaiting _ _) = Available"
| "availability_of (Failed _ _) = Available"

text \<open>\<open>Display\<close> of a receiver identity.\<close>

fun join_colon :: "string list \<Rightarrow> string" where
  "join_colon [] = []"
| "join_colon [s] = s"
| "join_colon (s # rest) = s @ '':'' @ join_colon rest"

definition receiver_id_display :: "device_id \<Rightarrow> string" where
  "receiver_id_display i = join_colon (map hex_byte (device_bytes i))"

definition display_name :: "device_id \<Rightarrow> string \<Rightarrow> string" where
  "display_name i name = (if name = receiver_id_display i then [] else name)"

definition inventory_row :: "dev_receiver_snapshot \<Rightarrow> receiver_state" where
  "inventory_row r =
     \<lparr>rs_id = rw_id r, rs_name = display_name (rw_id r) (rw_name r), rs_model = rw_model r,
      rs_availability = availability_of (rw_lifecycle r)\<rparr>"

definition inventory :: "dev_receiver_snapshot list \<Rightarrow> receiver_state list" where
  "inventory rows = sort_key rs_id (map inventory_row rows)"

definition DISCOVERY_FAILED_SUMMARY :: string where
  "DISCOVERY_FAILED_SUMMARY = ''Devices could not be searched for.''"

datatype discovery_echo = Echo_Inventory "receiver_state list" | Echo_DiscoveryFailed string

definition discovery_echo_of :: "dev_discovery_snapshot \<Rightarrow> dev_receiver_snapshot list \<Rightarrow> discovery_echo option" where
  "discovery_echo_of d rows =
     (case dx_phase d of
        Browse_Stopped \<Rightarrow> None
      | Browse_Running \<Rightarrow> Some (Echo_Inventory (inventory rows))
      | Browse_Retrying _ _ \<Rightarrow> Some (Echo_DiscoveryFailed DISCOVERY_FAILED_SUMMARY))"

text \<open>The active set is visited in ascending order.\<close>

definition session_echo_of :: "session_snapshot \<Rightarrow> session_echo option" where
  "session_echo_of s =
     (case sx_phase s of
        Phase_Stopped \<Rightarrow> Some Echo_Stopped
      | Phase_Starting _ \<Rightarrow> None
      | Phase_Stopping _ \<Rightarrow> None
      | Phase_Restarting _ _ \<Rightarrow> Some Echo_Restarting
      | Phase_Streaming _ \<Rightarrow> Some (Echo_Active (sorted_ids (sx_active s)))
      | Phase_Degraded _ \<Rightarrow> Some (Echo_Degraded (sorted_ids (sx_active s)))
      | Phase_Failed _ e \<Rightarrow> Some (Echo_Failed e))"

definition group_reading :: "dev_receiver_snapshot list \<Rightarrow> saved_group \<Rightarrow> saved_group_reading" where
  "group_reading rows g =
     \<lparr>sg_id = saved_group.sg_id g, sg_name = saved_group.sg_name g,
      sg_members = map (\<lambda>m. \<lparr>gm_receiver = saved_group_member.gm_receiver m, gm_name = gm_last_known_name m,
        gm_level = volume_get (saved_group_member.gm_level m)\<rparr>) (saved_group.sg_members g),
      sg_available_members = set (map saved_group_member.gm_receiver (filter (\<lambda>m.
        \<exists>row\<in>set rows. rw_id row = saved_group_member.gm_receiver m \<and> availability_of (rw_lifecycle row) = Available) (saved_group.sg_members g)))\<rparr>"

section \<open>The projection\<close>

record projection =
  pj_master_volume :: "f32 option"
  pj_desired :: "(u64 \<times> device_id list) option"
  pj_groups :: "saved_group_reading list option"
  pj_discovery :: "(generation_id \<times> discovery_echo) option"
  pj_session :: "(generation_id \<times> session_echo) option"
  pj_mute :: "bool option"
  pj_receiver_levels :: "receiver_level_map option"
  pj_latency :: "latency_reading option"
  pj_audio :: "audio_source_reading option"
  pj_endpoints :: endpoint_table

definition projection_default :: projection where
  "projection_default = \<lparr>pj_master_volume = None, pj_desired = None, pj_groups = None, pj_discovery = None, pj_session = None,
     pj_mute = None, pj_receiver_levels = None, pj_latency = None, pj_audio = None, pj_endpoints = table_default\<rparr>"

type_synonym pass = "projection \<times> controller_event list"

definition project_volume :: "device_snapshot \<Rightarrow> pass \<Rightarrow> pass" where
  "project_volume s = (\<lambda>(p, events).
     let volume = volume_get (ds_master_volume s)
     in if option_eq f32_eq (pj_master_volume p) (Some volume) then (p, events)
        else (p\<lparr>pj_master_volume := Some volume\<rparr>, events @ [Ctl_VolumeApplied 0 volume]))"

definition project_desired :: "device_snapshot \<Rightarrow> pass \<Rightarrow> pass" where
  "project_desired s = (\<lambda>(p, events).
     let desired = (ds_desired_revision s, sorted_ids (ds_desired_members s))
     in if pj_desired p = Some desired then (p, events)
        else (p\<lparr>pj_desired := Some desired\<rparr>, events @ [Ctl_DesiredReceiversChanged (fst desired) (snd desired)]))"

definition groups_of :: "device_snapshot \<Rightarrow> saved_group_reading list" where
  "groups_of s = map (group_reading (ds_receivers s)) (ds_saved_groups s)"

definition project_groups :: "device_snapshot \<Rightarrow> pass \<Rightarrow> pass" where
  "project_groups s = (\<lambda>(p, events).
     if option_eq (list_all2 saved_group_eq) (pj_groups p) (Some (groups_of s)) then (p, events)
     else (p\<lparr>pj_groups := Some (groups_of s)\<rparr>, events @ [Ctl_SavedGroupsChanged (groups_of s)]))"

fun discovery_event :: "generation_id \<Rightarrow> discovery_echo \<Rightarrow> controller_event" where
  "discovery_event g (Echo_Inventory rows) = Ctl_DiscoveryCompleted g rows"
| "discovery_event g (Echo_DiscoveryFailed summary) = Ctl_DiscoveryFailed g summary"

definition project_discovery :: "device_snapshot \<Rightarrow> generations_seen \<Rightarrow> pass \<Rightarrow> pass" where
  "project_discovery s seen = (\<lambda>(p, events).
     case discovery_echo_of (ds_discovery s) (ds_receivers s) of
       None \<Rightarrow> (p, events)
     | Some echo \<Rightarrow>
         if pj_discovery p = Some (gs_discovery seen, echo) then (p, events)
         else (p\<lparr>pj_discovery := Some (gs_discovery seen, echo)\<rparr>, events @ [discovery_event (gs_discovery seen) echo]))"

fun phase_generation :: "session_phase \<Rightarrow> u64 option" where
  "phase_generation Phase_Stopped = None"
| "phase_generation (Phase_Starting g) = Some g"
| "phase_generation (Phase_Streaming g) = Some g"
| "phase_generation (Phase_Degraded g) = Some g"
| "phase_generation (Phase_Restarting g _) = Some g"
| "phase_generation (Phase_Stopping g) = Some g"
| "phase_generation (Phase_Failed g _) = Some g"

text \<open>Whether an echo is published under the newest generation of the shell.\<close>

definition publishes :: "(generation_id \<times> session_echo) option \<Rightarrow> generations_seen \<Rightarrow> session_phase \<Rightarrow> session_echo \<Rightarrow> bool" where
  "publishes published seen phase echo =
     (case gs_session_edge seen of
        Edge_ConfirmedGroupStart backend_floor \<Rightarrow>
          (case phase_generation phase of
             None \<Rightarrow> is_some_and published (\<lambda>(g, _). g = gs_session seen)
           | Some g \<Rightarrow> backend_floor \<le> g)
          \<and> published \<noteq> Some (gs_session seen, echo)
      | Edge_PendingGroupStart \<Rightarrow> False
      | edge \<Rightarrow>
          (case published of
             None \<Rightarrow> if edge \<noteq> Edge_Untouched then answered_by edge echo else True
           | Some (g, last_echo) \<Rightarrow> if g \<noteq> gs_session seen then answered_by edge echo else last_echo \<noteq> echo))"

fun session_event :: "generation_id \<Rightarrow> session_echo \<Rightarrow> controller_event" where
  "session_event g Echo_Stopped = Ctl_SessionStopped g"
| "session_event g (Echo_Active ids) = Ctl_SessionStarted g ids"
| "session_event g (Echo_Degraded ids) = Ctl_SessionDegraded g ids"
| "session_event g Echo_Restarting = Ctl_SessionRestarting g"
| "session_event g (Echo_Failed summary) = Ctl_SessionFailed g summary"

definition project_session :: "device_snapshot \<Rightarrow> generations_seen \<Rightarrow> pass \<Rightarrow> pass" where
  "project_session s seen = (\<lambda>(p, events).
     case session_echo_of (ds_session s) of
       None \<Rightarrow> (p, events)
     | Some echo \<Rightarrow>
         if publishes (pj_session p) seen (sx_phase (ds_session s)) echo
         then (p\<lparr>pj_session := Some (gs_session seen, echo)\<rparr>, events @ [session_event (gs_session seen) echo])
         else (p, events))"

definition project_mute :: "device_snapshot \<Rightarrow> pass \<Rightarrow> pass" where
  "project_mute s = (\<lambda>(p, events).
     if pj_mute p = Some (ds_muted s) then (p, events)
     else (p\<lparr>pj_mute := Some (ds_muted s)\<rparr>, events @ [Ctl_MuteChanged (ds_muted s)]))"

definition levels_of :: "device_snapshot \<Rightarrow> receiver_level_map" where
  "levels_of s = map (\<lambda>(r, level). (r, volume_get level)) (ds_receiver_levels s)"

definition project_levels :: "device_snapshot \<Rightarrow> pass \<Rightarrow> pass" where
  "project_levels s = (\<lambda>(p, events).
     if option_eq levels_eq (pj_receiver_levels p) (Some (levels_of s)) then (p, events)
     else (p\<lparr>pj_receiver_levels := Some (levels_of s)\<rparr>, events @ [Ctl_ReceiverLevelsChanged (levels_of s)]))"

definition latency_of :: "device_snapshot \<Rightarrow> latency_reading" where
  "latency_of s = latency_echo (ds_latency_preset s) (ds_latency_presets s)"

definition project_latency :: "device_snapshot \<Rightarrow> pass \<Rightarrow> pass" where
  "project_latency s = (\<lambda>(p, events).
     if pj_latency p = Some (latency_of s) then (p, events)
     else (p\<lparr>pj_latency := Some (latency_of s)\<rparr>, events @ [Ctl_LatencyChanged (latency_of s)]))"

definition project_audio :: "device_snapshot \<Rightarrow> pass \<Rightarrow> pass" where
  "project_audio s = (\<lambda>(p, events).
     let (reading, t) = audio_echo (ds_audio_source s) (pj_endpoints p); p1 = p\<lparr>pj_endpoints := t\<rparr>
     in if pj_audio p1 = Some reading then (p1, events)
        else (p1\<lparr>pj_audio := Some reading\<rparr>, events @ [Ctl_AudioSourceChanged reading]))"

definition project :: "projection \<Rightarrow> device_snapshot \<Rightarrow> generations_seen \<Rightarrow> pass" where
  "project p s seen =
     fold (\<lambda>part. part)
       [project_volume s, project_desired s, project_groups s, project_discovery s seen, project_session s seen,
        project_mute s, project_levels s, project_latency s, project_audio s] (p, [])"

text \<open>Of the backend's events only the notice about discovery reaches the shell.\<close>

fun project_event :: "backend_event \<Rightarrow> generations_seen \<Rightarrow> controller_event option" where
  "project_event (CommandCompleted _) seen = None"
| "project_event (CommandFailed _ _) seen = None"
| "project_event (Notice_PersistenceWrite _) seen = None"
| "project_event (Notice_DiscoveryFailed _) seen = Some (Ctl_DiscoveryFailed (gs_discovery seen) DISCOVERY_FAILED_SUMMARY)"

chapter \<open>From effects to commands\<close>

text \<open>
  From effects of the shell to commands of the backend: \<open>effect_to_command\<close> of \<open>device_service.rs\<close>, the port of
  \<open>backend_bridge/commands.rs\<close> that translates and queues them, and the part of \<open>ServiceExecutor\<close> (\<open>app/mod.rs\<close>) that
  executes them and reports refusals.
\<close>

section \<open>Device commands\<close>

datatype device_command =
    Dev_Group u64 "generation_id option" group_command
  | Dev_ApplyReceiverLevel device_id f32
  | Dev_Discover generation_id
  | Dev_StartSession generation_id "device_id list" f32
  | Dev_StopSession generation_id
  | Dev_PlayListeningTone generation_id
  | Dev_ApplyVolume generation_id f32
  | Dev_ApplyMute bool
  | Dev_ApplyLatency latency_choice
  | Dev_ApplyAudioEndpoint audio_endpoint_request
  | Dev_Shutdown

datatype controller_send_error = Ctl_Busy | Ctl_Closed

fun effect_to_command :: "app_effect \<Rightarrow> device_command option" where
  "effect_to_command (Eff_PlayListeningTone g) = Some (Dev_PlayListeningTone g)"
| "effect_to_command (Eff_Group request g command) = Some (Dev_Group request g command)"
| "effect_to_command (Eff_Discover g) = Some (Dev_Discover g)"
| "effect_to_command (Eff_StartSession g ids volume) = Some (Dev_StartSession g ids volume)"
| "effect_to_command (Eff_StopSession g) = Some (Dev_StopSession g)"
| "effect_to_command (Eff_ApplyVolume g volume) = Some (Dev_ApplyVolume g volume)"
| "effect_to_command (Eff_ApplyMute m) = Some (Dev_ApplyMute m)"
| "effect_to_command (Eff_ApplyReceiverLevel r level) = Some (Dev_ApplyReceiverLevel r level)"
| "effect_to_command (Eff_ApplyLatency choice) = Some (Dev_ApplyLatency choice)"
| "effect_to_command (Eff_ApplyAudioEndpoint request) = Some (Dev_ApplyAudioEndpoint request)"
| "effect_to_command _ = None"

section \<open>The port\<close>

fun latency_preset_of :: "latency_choice \<Rightarrow> latency_preset" where
  "latency_preset_of Latency_Low = Preset_Low"
| "latency_preset_of Latency_Normal = Preset_Normal"
| "latency_preset_of Latency_Stable = Preset_Stable"

definition volume_of :: "f32 \<Rightarrow> volume_t" where
  "volume_of value =
     (if \<not> f32_is_finite value then VOLUME_DEFAULT_MASTER
      else case volume_new (f32_clamp value f32_zero f32_one) of Inr v \<Rightarrow> v | Inl _ \<Rightarrow> VOLUME_DEFAULT_MASTER)"

fun port_error :: "backend_send_error \<Rightarrow> controller_send_error" where
  "port_error Backend_Busy = Ctl_Busy"
| "port_error Backend_Closed = Ctl_Closed"

fun group_error :: "backend_send_error \<Rightarrow> group_failure" where
  "group_error Backend_Busy = Failure_Busy"
| "group_error Backend_Closed = Failure_Closed"

record backend_port =
  po_handle :: backend_handle
  po_echo :: generation_echo

type_synonym port_result = "controller_send_error option \<times> backend_port"

definition port_send :: "backend_command \<Rightarrow> backend_port \<Rightarrow> port_result" where
  "port_send command p =
     (let (result, h) = handle_try_send command (po_handle p)
      in (case result of Inl e \<Rightarrow> Some (port_error e) | Inr _ \<Rightarrow> None, p\<lparr>po_handle := h\<rparr>))"

fun preference_of :: "endpoint_table \<Rightarrow> audio_endpoint_request \<Rightarrow> endpoint_preference option" where
  "preference_of t Req_SystemDefault = Some SystemDefault"
| "preference_of t (Req_Endpoint key) = preference t key"

definition woken :: "generation_echo \<Rightarrow> generation_echo" where
  "woken e = e\<lparr>ge_wake := True\<rparr>"

definition play_listening_tone :: "generation_id \<Rightarrow> backend_port \<Rightarrow> port_result" where
  "play_listening_tone g p =
     (let e = po_echo p;
          guard = (case ge_listening_target e of Some (t, guard) \<Rightarrow> if t = g \<and> fst (ge_session e) = g then Some guard else None | None \<Rightarrow> None)
      in if ge_listening_pending e \<noteq> None then (Some Ctl_Busy, p)
         else let (receipt, h) = (case guard of
                    None \<Rightarrow> (None, po_handle p)
                  | Some guard \<Rightarrow>
                      (case try_send_confirmed (RunListeningTest guard) (po_handle p) of
                         (Inr (_, receipt), h) \<Rightarrow> (Some receipt, h)
                       | (Inl _, h) \<Rightarrow> (None, h)))
              in (None, \<lparr>po_handle = h, po_echo = woken (e\<lparr>ge_listening_pending := Some \<lparr>vp_generation = g, vp_receipt = receipt\<rparr>\<rparr>)\<rparr>))"

fun saved_members :: "App_State.group_member list \<Rightarrow> saved_group_member list option" where
  "saved_members [] = Some []"
| "saved_members (m # ms) =
     (case volume_new (gm_level m) of
        Inl _ \<Rightarrow> None
      | Inr level \<Rightarrow> map_option (Cons (saved_group_member.make (gm_receiver m) (gm_name m) level)) (saved_members ms))"

fun translate_group :: "group_command \<Rightarrow> group_failure + backend_command" where
  "translate_group (Group_Save i name members) =
     (case saved_members members of None \<Rightarrow> Inl Failure_Validation | Some ms \<Rightarrow> Inr (SaveGroup i name ms))"
| "translate_group (Group_Delete i) = Inr (DeleteGroup i)"
| "translate_group (Group_Apply i start) = Inr (ActivateSavedGroup i start)"
| "translate_group (Group_ApplySelection ids) = Inr (ApplyDesiredMembers (set ids))"

definition admit_group :: "group_command \<Rightarrow> backend_handle \<Rightarrow> admission \<times> backend_handle" where
  "admit_group command h =
     (case translate_group command of
        Inl failure \<Rightarrow> (Inl failure, h)
      | Inr c \<Rightarrow> (case try_send_confirmed c h of (Inl e, h1) \<Rightarrow> (Inl (group_error e), h1) | (Inr sent, h1) \<Rightarrow> (Inr sent, h1)))"

definition send_group :: "u64 \<Rightarrow> generation_id option \<Rightarrow> group_command \<Rightarrow> backend_port \<Rightarrow> port_result" where
  "send_group request generation command p =
     (if ge_group (po_echo p) \<noteq> None then (Some Ctl_Busy, p)
      else let (admission, h) = admit_group command (po_handle p);
               e = (case generation of
                      Some g \<Rightarrow> record_session g (case admission of Inr _ \<Rightarrow> Edge_PendingGroupStart | Inl _ \<Rightarrow> Edge_Rejected) (po_echo p)
                    | None \<Rightarrow> po_echo p)
           in (None, \<lparr>po_handle = h,
                po_echo = woken (e\<lparr>ge_group := Some \<lparr>gp_request = request, gp_generation = generation, gp_admission = admission\<rparr>\<rparr>)\<rparr>))"

definition admitted_edge :: "controller_send_error option \<Rightarrow> session_edge \<Rightarrow> session_edge" where
  "admitted_edge outcome edge = (if outcome = Some Ctl_Busy then Edge_Rejected else edge)"

definition start_session :: "generation_id \<Rightarrow> device_id list \<Rightarrow> f32 \<Rightarrow> backend_port \<Rightarrow> port_result" where
  "start_session g ids volume p =
     (let (refused, h) = try_send_batch [SetDesiredMembers (set ids), SetMasterVolume (volume_of volume), SetRunIntent Run_Running] (po_handle p);
          outcome = map_option port_error refused
      in (outcome, \<lparr>po_handle = h, po_echo = record_session g (admitted_edge outcome Edge_Start) (po_echo p)\<rparr>))"

definition stop_session :: "generation_id \<Rightarrow> backend_port \<Rightarrow> port_result" where
  "stop_session g p =
     (let (outcome, p1) = port_send (SetRunIntent Run_Stopped) p
      in (outcome, p1\<lparr>po_echo := record_session g (admitted_edge outcome Edge_Stop) (po_echo p1)\<rparr>))"

definition apply_volume :: "generation_id \<Rightarrow> f32 \<Rightarrow> backend_port \<Rightarrow> port_result" where
  "apply_volume g volume p =
     (let (result, h) = try_send_confirmed (SetMasterVolume (volume_of volume)) (po_handle p);
          pending = (\<lambda>receipt. woken ((po_echo p)\<lparr>ge_volume := Some \<lparr>vp_generation = g, vp_receipt = receipt\<rparr>\<rparr>))
      in case result of
           Inr (_, receipt) \<Rightarrow> (None, \<lparr>po_handle = h, po_echo = pending (Some receipt)\<rparr>)
         | Inl e \<Rightarrow> (Some (port_error e), \<lparr>po_handle = h, po_echo = pending None\<rparr>))"

definition port_try_send :: "endpoint_table \<Rightarrow> device_command \<Rightarrow> backend_port \<Rightarrow> port_result" where
  "port_try_send t command p =
     (case command of
        Dev_PlayListeningTone g \<Rightarrow> play_listening_tone g p
      | Dev_Group request g c \<Rightarrow> send_group request g c p
      | Dev_Discover g \<Rightarrow>
          if bh_closed (po_handle p) then (Some Ctl_Closed, p) else (None, p\<lparr>po_echo := record_discovery g (po_echo p)\<rparr>)
      | Dev_StartSession g ids volume \<Rightarrow> start_session g ids volume p
      | Dev_StopSession g \<Rightarrow> stop_session g p
      | Dev_ApplyVolume g volume \<Rightarrow> apply_volume g volume p
      | Dev_ApplyMute m \<Rightarrow> port_send (SetMuted m) p
      | Dev_ApplyReceiverLevel r level \<Rightarrow> port_send (SetReceiverLevel r (volume_of level)) p
      | Dev_ApplyLatency choice \<Rightarrow> port_send (SetLatencyPreset (latency_preset_of choice)) p
      | Dev_ApplyAudioEndpoint request \<Rightarrow>
          (case preference_of t request of None \<Rightarrow> (None, p) | Some pref \<Rightarrow> port_send (SetAudioEndpoint pref) p)
      | Dev_Shutdown \<Rightarrow> port_send Cmd_Shutdown p)"

section \<open>The executor\<close>

text \<open>Executing one effect: the events it posts back, tried once and dropped when the shell's queue is full.\<close>

definition execute :: "endpoint_table \<Rightarrow> app_effect \<Rightarrow> backend_port \<Rightarrow> controller_event list \<times> backend_port" where
  "execute t effect p =
     (case effect_to_command effect of
        None \<Rightarrow> ([], p)
      | Some command \<Rightarrow>
          let (outcome, p1) = port_try_send t command p
          in (case effect of
                Eff_PlayListeningTone g \<Rightarrow> if outcome \<noteq> None then [Ctl_SessionFailed g LISTENING_FAILED] else []
              | _ \<Rightarrow> if outcome = Some Ctl_Closed then [Ctl_ChannelClosed ''the audio controller stopped''] else [], p1))"

chapter \<open>The thread and the seam\<close>

text \<open>
  The thread between the two halves (\<open>backend_bridge/runtime.rs\<close>) and the seam as a whole: the shell's actor with its
  bounded queue (\<open>app_handle.rs\<close>), the bridge, the port and the latest value of the backend's watch channel. One
  turn of the bridge is one iteration of its loop; the other threads act between turns. The readings of the
  diagnostics registry come with each turn.
\<close>

section \<open>The shell's queue\<close>

definition EVENT_CHANNEL_CAPACITY :: nat where "EVENT_CHANNEL_CAPACITY = 256"

datatype app_unavailable = App_Busy | App_Closed

record shell_queue =
  sq_events :: "app_event list"
  sq_closed :: bool

definition shell_try_send :: "app_event \<Rightarrow> shell_queue \<Rightarrow> app_unavailable option \<times> shell_queue" where
  "shell_try_send e q =
     (if sq_closed q then (Some App_Closed, q)
      else if EVENT_CHANNEL_CAPACITY \<le> length (sq_events q) then (Some App_Busy, q)
      else (None, q\<lparr>sq_events := sq_events q @ [e]\<rparr>))"

section \<open>The bridge\<close>

record bridge =
  br_projection :: projection
  br_outbox :: "controller_event list"
  br_published :: "diagnostics_reading option"
  br_published_live :: "live_diagnostics_reading option"
  br_state_closed :: bool
  br_events_closed :: bool
  br_closure_reported :: bool
  br_shell_gone :: bool
  br_done :: bool
  br_ended :: bool

definition bridge_new :: bridge where
  "bridge_new = \<lparr>br_projection = projection_default, br_outbox = [], br_published = None, br_published_live = None,
     br_state_closed = False, br_events_closed = False, br_closure_reported = False, br_shell_gone = False, br_done = False, br_ended = False\<rparr>"

fun flush :: "controller_event list \<Rightarrow> bool \<Rightarrow> shell_queue \<Rightarrow> controller_event list \<times> bool \<times> shell_queue" where
  "flush [] shell_gone q = ([], shell_gone, q)"
| "flush (e # outbox) shell_gone q =
     (case shell_try_send (Ev_Controller e) q of
        (None, q1) \<Rightarrow> flush outbox shell_gone q1
      | (Some App_Busy, q1) \<Rightarrow> (e # outbox, shell_gone, q1)
      | (Some App_Closed, q1) \<Rightarrow> ([], True, q1))"

definition REPAIR_INTERVAL :: nat where "REPAIR_INTERVAL = 100"

definition repair_delay :: "nat \<Rightarrow> nat option" where
  "repair_delay retained = (if 0 < retained then Some REPAIR_INTERVAL else None)"

definition finished :: "bool \<Rightarrow> bool \<Rightarrow> bool" where
  "finished state_closed events_closed \<longleftrightarrow> state_closed \<and> events_closed"

record seam =
  se_shell :: app_state
  se_queue :: shell_queue
  se_port :: backend_port
  se_directory :: endpoint_table
  se_bridge :: bridge
  se_snapshot :: device_snapshot
  se_channels :: channels

definition seam_flush :: "seam \<Rightarrow> seam" where
  "seam_flush s =
     (let b = se_bridge s; (outbox, gone, q) = flush (br_outbox b) (br_shell_gone b) (se_queue s)
      in s\<lparr>se_bridge := b\<lparr>br_outbox := outbox, br_shell_gone := gone\<rparr>, se_queue := q\<rparr>)"

definition may_derive :: "seam \<Rightarrow> bool" where
  "may_derive s \<longleftrightarrow> br_outbox (se_bridge s) = [] \<and> \<not> br_shell_gone (se_bridge s)"

definition CHANNEL_LOST :: string where
  "CHANNEL_LOST = ''the audio controller stopped''"

text \<open>The pass over the newest snapshot.\<close>

definition derive :: "seam \<Rightarrow> seam" where
  "derive s =
     (let b = se_bridge s; snap = se_snapshot s; e = po_echo (se_port s); is_closed = br_state_closed b;
          (p, produced) = project (br_projection b) snap (sample e);
          e1 = observe_listening_target snap produced e;
          (groups, e2) = group_events (se_channels s) snap is_closed e1;
          (volumes, e3) = volume_events (se_channels s) snap is_closed e2;
          (tones, e4) = listening_events (se_channels s) snap is_closed e3;
          reports = is_closed \<and> \<not> br_closure_reported b
      in s\<lparr>se_bridge := b\<lparr>br_projection := p,
             br_outbox := br_outbox b @ produced @ groups @ volumes @ tones @ (if reports then [Ctl_ChannelClosed CHANNEL_LOST] else []),
             br_closure_reported := br_closure_reported b \<or> reports\<rparr>,
           se_directory := pj_endpoints p,
           se_port := (se_port s)\<lparr>po_echo := e4\<rparr>\<rparr>)"

text \<open>What the registry shows: its reading, and the live reading when one is due.\<close>

type_synonym readings = "diagnostics_reading option \<times> live_diagnostics_reading option"

definition push_reading :: "diagnostics_reading \<Rightarrow> bridge \<Rightarrow> bridge" where
  "push_reading r b =
     (if br_published b = Some r then b else b\<lparr>br_published := Some r, br_outbox := br_outbox b @ [Ctl_DiagnosticsUpdated r]\<rparr>)"

definition push_live :: "live_diagnostics_reading \<Rightarrow> bridge \<Rightarrow> bridge" where
  "push_live r b =
     (if br_published_live b = Some r then b
      else b\<lparr>br_published_live := Some r, br_outbox := br_outbox b @ [Ctl_LiveDiagnosticsUpdated r]\<rparr>)"

definition on_bridge :: "(bridge \<Rightarrow> bridge) \<Rightarrow> seam \<Rightarrow> seam" where
  "on_bridge f s = s\<lparr>se_bridge := f (se_bridge s)\<rparr>"

definition report_readings :: "readings \<Rightarrow> seam \<Rightarrow> seam" where
  "report_readings r s =
     (case r of
        (None, _) \<Rightarrow> s
      | (Some reading, live) \<Rightarrow>
          let s1 = seam_flush (on_bridge (push_reading reading) s)
          in case live of None \<Rightarrow> s1 | Some reading \<Rightarrow> seam_flush (on_bridge (push_live reading) s1))"

definition settle_end :: "bridge \<Rightarrow> bridge" where
  "settle_end b =
     (if finished (br_state_closed b) (br_events_closed b)
      then b\<lparr>br_done := True, br_ended := (br_outbox b = [] \<or> br_shell_gone b)\<rparr> else b)"

text \<open>From the top of the loop to its wait.\<close>

definition bridge_pass :: "readings \<Rightarrow> seam \<Rightarrow> seam" where
  "bridge_pass r s =
     (let s1 = seam_flush s;
          s2 = (if may_derive s1 then seam_flush (derive s1) else s1);
          s3 = (if may_derive s2 then report_readings r s2 else s2)
      in on_bridge settle_end s3)"

datatype wakeup =
    Wk_StateChanged | Wk_StateClosed | Wk_Event backend_event | Wk_Lagged | Wk_EventsClosed
  | Wk_SessionDiagnostics | Wk_Woken | Wk_Repair | Wk_Poll

definition wake_up :: "wakeup \<Rightarrow> seam \<Rightarrow> seam" where
  "wake_up wk s =
     (case wk of
        Wk_StateClosed \<Rightarrow> on_bridge (\<lambda>b. b\<lparr>br_state_closed := True\<rparr>) s
      | Wk_EventsClosed \<Rightarrow> on_bridge (\<lambda>b. b\<lparr>br_events_closed := True\<rparr>) s
      | Wk_Event e \<Rightarrow>
          (case project_event e (sample (po_echo (se_port s))) of
             None \<Rightarrow> s
           | Some c \<Rightarrow> on_bridge (\<lambda>b. b\<lparr>br_outbox := br_outbox b @ [c]\<rparr>) s)
      | Wk_Woken \<Rightarrow> s\<lparr>se_port := (se_port s)\<lparr>po_echo := (po_echo (se_port s))\<lparr>ge_wake := False\<rparr>\<rparr>\<rparr>
      | _ \<Rightarrow> s)"

section \<open>The seam\<close>

datatype seam_input =
    In_Post app_event
  | In_Reduce
  | In_ShellGone
  | In_Publish device_snapshot
  | In_Answer receipt oneshot
  | In_Take
  | In_BackendGone
  | In_Turn wakeup readings

fun is_controller_event :: "app_event \<Rightarrow> bool" where
  "is_controller_event (Ev_Controller _) = True"
| "is_controller_event _ = False"

text \<open>Which events only the bridge and the executor of device commands post; the loss of a service is also reported by others.\<close>

fun comes_from_backend :: "app_event \<Rightarrow> bool" where
  "comes_from_backend (Ev_Controller (Ctl_ChannelClosed _)) = False"
| "comes_from_backend (Ev_Controller _) = True"
| "comes_from_backend _ = False"

definition post :: "app_event \<Rightarrow> seam \<Rightarrow> seam" where
  "post e s = s\<lparr>se_queue := snd (shell_try_send e (se_queue s))\<rparr>"

text \<open>Executing the effects of a reduction; what they report back is tried once.\<close>

fun execute_all :: "app_effect list \<Rightarrow> seam \<Rightarrow> seam" where
  "execute_all [] s = s"
| "execute_all (fx # rest) s =
     (let (reports, p) = execute (se_directory s) fx (se_port s)
      in execute_all rest (fold (\<lambda>c. post (Ev_Controller c)) reports (s\<lparr>se_port := p\<rparr>)))"

definition shell_turn :: "(string \<Rightarrow> string) \<Rightarrow> seam \<Rightarrow> seam" where
  "shell_turn lc s =
     (case sq_events (se_queue s) of
        [] \<Rightarrow> s
      | e # rest \<Rightarrow>
          let (st, effects, _) = reduce lc (se_shell s) e
          in execute_all effects (s\<lparr>se_shell := st, se_queue := (se_queue s)\<lparr>sq_events := rest\<rparr>\<rparr>))"

text \<open>Events that others post are those of the user, of the platform and of the other services.\<close>

definition seam_step :: "(string \<Rightarrow> string) \<Rightarrow> seam \<Rightarrow> seam_input \<Rightarrow> seam" where
  "seam_step lc s i =
     (case i of
        In_Post e \<Rightarrow> if comes_from_backend e then s else post e s
      | In_Reduce \<Rightarrow> if sq_closed (se_queue s) then s else shell_turn lc s
      | In_ShellGone \<Rightarrow> s\<lparr>se_queue := (se_queue s)\<lparr>sq_closed := True\<rparr>\<rparr>
      | In_Publish snap \<Rightarrow> s\<lparr>se_snapshot := snap\<rparr>
      | In_Answer r answer \<Rightarrow> if se_channels s r = Os_Empty then s\<lparr>se_channels := (se_channels s)(r := answer)\<rparr> else s
      | In_Take \<Rightarrow> s\<lparr>se_port := (se_port s)\<lparr>po_handle := (po_handle (se_port s))\<lparr>bh_queue := []\<rparr>\<rparr>\<rparr>
      | In_BackendGone \<Rightarrow> s\<lparr>se_port := (se_port s)\<lparr>po_handle := (po_handle (se_port s))\<lparr>bh_closed := True\<rparr>\<rparr>\<rparr>
      | In_Turn wk r \<Rightarrow> if br_ended (se_bridge s) then s else bridge_pass r (wake_up wk s))"

definition seam_start :: "app_state \<Rightarrow> device_snapshot \<Rightarrow> seam" where
  "seam_start st snap =
     \<lparr>se_shell = st, se_queue = \<lparr>sq_events = [], sq_closed = False\<rparr>, se_port = \<lparr>po_handle = handle_new, po_echo = echo_new\<rparr>,
      se_directory = table_default, se_bridge = bridge_new, se_snapshot = snap, se_channels = (\<lambda>_. Os_Empty)\<rparr>"

definition seam_run :: "(string \<Rightarrow> string) \<Rightarrow> seam \<Rightarrow> seam_input list \<Rightarrow> seam" where
  "seam_run lc s inputs = foldl (seam_step lc) s inputs"

end
