(* ===== verification/Bridge_Properties.thy ===== *)
theory Bridge_Properties
  imports Bridge
begin

text \<open>
  What the window shows of the backend. A field of the shell that one kind of event sets follows a slot of the
  projection through the bridge's outbox and the shell's queue; \<open>shown_field\<close> states that once, and the fields of the
  shell that mirror backend settings interpret it.
\<close>

section \<open>The last event of a kind\<close>

definition last_of :: "('c \<Rightarrow> 'a option) \<Rightarrow> 'c list \<Rightarrow> 'a option \<Rightarrow> 'a option" where
  "last_of f cs x = fold (\<lambda>c x. case f c of Some y \<Rightarrow> Some y | None \<Rightarrow> x) cs x"

lemma last_of_simps [simp]:
  "last_of f [] x = x"
  "last_of f (c # cs) x = last_of f cs (case f c of Some y \<Rightarrow> Some y | None \<Rightarrow> x)"
  "last_of f (cs @ ds) x = last_of f ds (last_of f cs x)"
  by (simp_all add: last_of_def)

lemma last_of_other: "(\<And>c. c \<in> set cs \<Longrightarrow> f c = None) \<Longrightarrow> last_of f cs x = x"
  by (induction cs arbitrary: x) auto

fun controller_events :: "app_event list \<Rightarrow> controller_event list" where
  "controller_events [] = []"
| "controller_events (Ev_Controller c # es) = c # controller_events es"
| "controller_events (_ # es) = controller_events es"

lemma controller_events_append [simp]: "controller_events (es @ fs) = controller_events es @ controller_events fs"
  by (induction es rule: controller_events.induct) simp_all

lemma controller_events_map [simp]: "controller_events (map Ev_Controller cs) = cs"
  by (induction cs) simp_all

lemma controller_events_single: "\<not> is_controller_event e \<Longrightarrow> controller_events [e] = []"
  by (cases e) simp_all

section \<open>Settings of the shell\<close>

type_synonym settings = "bool option \<times> latency_reading option \<times> audio_source_reading option \<times> saved_group_reading list option \<times> receiver_level_map option"

definition settings :: "app_state \<Rightarrow> settings" where
  "settings st = (muted st, latency st, audio_source st, saved_groups st, receiver_levels st)"

fun setting_step :: "controller_event \<Rightarrow> settings \<Rightarrow> settings" where
  "setting_step (Ctl_MuteChanged m) (_, l, a, g, r) = (Some m, l, a, g, r)"
| "setting_step (Ctl_LatencyChanged l) (m, _, a, g, r) = (m, Some l, a, g, r)"
| "setting_step (Ctl_AudioSourceChanged a) (m, l, _, g, r) = (m, l, Some a, g, r)"
| "setting_step (Ctl_SavedGroupsChanged g) (m, l, a, _, r) = (m, l, a, Some g, r)"
| "setting_step (Ctl_ReceiverLevelsChanged r) (m, l, a, g, _) = (m, l, a, g, Some r)"
| "setting_step _ s = s"

definition event_settings :: "app_event \<Rightarrow> settings \<Rightarrow> settings" where
  "event_settings e s = fold setting_step (controller_events [e]) s"

lemma controller_settings: "settings (out_state (controller_dispatch st c)) = setting_step c (settings st)"
  by (cases c) (simp_all add: settings_def handler_defs Let_def split: outcome_splits)

lemma dispatch_settings: "settings (out_state (dispatch lc st e)) = event_settings e (settings st)"
proof (cases e)
  case (Ev_Controller c)
  then show ?thesis by (simp add: event_settings_def controller_settings)
next
  case (Ev_Preferences c)
  then show ?thesis by (cases c) (simp_all add: event_settings_def settings_def handler_defs Let_def split: outcome_splits)
next
  case (Ev_HardwareCheck a)
  then show ?thesis by (cases a) (simp_all add: event_settings_def settings_def handler_defs Let_def split: outcome_splits)
qed (simp_all add: event_settings_def settings_def handler_defs Let_def split: outcome_splits)

lemma observe_settings: "settings (out_state (observe_hardware_check st ob fx)) = settings st"
  by (simp add: settings_def observer_defs split: outcome_splits)

lemma controller_plays_nothing: "\<not> starts_playback (Ev_Controller c)"
  by simp

lemma reduce_settings: "settings (out_state (reduce lc st e)) = event_settings e (settings st)"
proof (cases rule: reduce_cases [where st = st and e = e and lc = lc])
  case guarded
  then have "\<not> is_controller_event e" by (cases e) simp_all
  then show ?thesis using guarded by (simp add: event_settings_def controller_events_single)
next
  case (dispatched st1 fx1 ch1 st2 fx2 ch2)
  have "settings (out_state (finish st2 fx ch)) = settings st2" for fx ch by (simp add: finish_def settings_def)
  moreover have "settings st2 = settings st1" using observe_settings [of st1 "observation_from_event e" fx1] dispatched(3) by simp
  moreover have "settings st1 = event_settings e (settings st)" using dispatch_settings [of lc st e] dispatched(2) by simp
  ultimately show ?thesis using dispatched(4) by simp
qed

section \<open>The way through outbox and queue\<close>

text \<open>Everything on its way to the shell, and the state the shell reaches when it has taken it in.\<close>

definition under_way :: "seam \<Rightarrow> app_event list" where
  "under_way s = sq_events (se_queue s) @ map Ev_Controller (br_outbox (se_bridge s))"

definition window_state_of :: "(string \<Rightarrow> string) \<Rightarrow> seam \<Rightarrow> app_state" where
  "window_state_of lc s = fold (\<lambda>e st. out_state (reduce lc st e)) (under_way s) (se_shell s)"

abbreviation shell_open :: "seam \<Rightarrow> bool" where
  "shell_open s \<equiv> \<not> sq_closed (se_queue s)"

abbreviation projected :: "seam \<Rightarrow> projection" where
  "projected s \<equiv> br_projection (se_bridge s)"

lemma flush_step:
  assumes "\<not> sq_closed q"
  shows "flush (e # outbox) gone q =
    (if EVENT_CHANNEL_CAPACITY \<le> length (sq_events q) then (e # outbox, gone, q)
     else flush outbox gone (q\<lparr>sq_events := sq_events q @ [Ev_Controller e]\<rparr>))"
  using assms by (simp add: shell_try_send_def)

lemma flush_fifo:
  assumes "\<not> sq_closed q" "flush outbox gone q = (outbox1, gone1, q1)"
  shows "sq_events q1 @ map Ev_Controller outbox1 = sq_events q @ map Ev_Controller outbox" "gone1 = gone" "\<not> sq_closed q1"
proof -
  have "sq_events q1 @ map Ev_Controller outbox1 = sq_events q @ map Ev_Controller outbox \<and> gone1 = gone \<and> \<not> sq_closed q1"
    using assms
  proof (induction outbox arbitrary: q)
    case (Cons e outbox)
    show ?case
    proof (cases "EVENT_CHANNEL_CAPACITY \<le> length (sq_events q)")
      case True
      then show ?thesis using Cons(2,3) by (simp add: flush_step del: flush.simps)
    next
      case False
      then have "flush outbox gone (q\<lparr>sq_events := sq_events q @ [Ev_Controller e]\<rparr>) = (outbox1, gone1, q1)"
        using Cons(2,3) by (simp add: flush_step del: flush.simps)
      from Cons(1) [OF _ this] show ?thesis using Cons(2) by simp
    qed
  qed simp
  then show "sq_events q1 @ map Ev_Controller outbox1 = sq_events q @ map Ev_Controller outbox" "gone1 = gone" "\<not> sq_closed q1" by simp_all
qed

lemma flush_closed:
  assumes "flush outbox gone q = (outbox1, gone1, q1)"
  shows "sq_closed q1 = sq_closed q"
proof (cases "sq_closed q")
  case True
  then show ?thesis using assms by (cases outbox) (auto simp: shell_try_send_def)
next
  case False
  then show ?thesis using flush_fifo [OF False assms] by simp
qed

lemma flush_room:
  assumes "\<not> sq_closed q" "length (sq_events q) + length outbox \<le> EVENT_CHANNEL_CAPACITY"
  shows "flush outbox gone q = ([], gone, q\<lparr>sq_events := sq_events q @ map Ev_Controller outbox\<rparr>)"
  using assms
proof (induction outbox arbitrary: q)
  case (Cons e outbox)
  have "flush outbox gone (q\<lparr>sq_events := sq_events q @ [Ev_Controller e]\<rparr>)
      = ([], gone, q\<lparr>sq_events := (sq_events q @ [Ev_Controller e]) @ map Ev_Controller outbox\<rparr>)"
    using Cons(1) [of "q\<lparr>sq_events := sq_events q @ [Ev_Controller e]\<rparr>"] Cons(2,3) by simp
  then show ?case using Cons(2,3) by (simp add: flush_step del: flush.simps)
qed simp

lemma seam_flush_frame [simp]:
  "se_shell (seam_flush s) = se_shell s" "se_snapshot (seam_flush s) = se_snapshot s" "projected (seam_flush s) = projected s"
  "se_port (seam_flush s) = se_port s" "sq_closed (se_queue (seam_flush s)) = sq_closed (se_queue s)"
  "br_ended (se_bridge (seam_flush s)) = br_ended (se_bridge s)"
  using flush_closed [of "br_outbox (se_bridge s)" "br_shell_gone (se_bridge s)" "se_queue s"]
  by (simp_all add: seam_flush_def Let_def split: prod.split)

lemma seam_flush_under_way: "shell_open s \<Longrightarrow> under_way (seam_flush s) = under_way s \<and> br_shell_gone (se_bridge (seam_flush s)) = br_shell_gone (se_bridge s)"
  using flush_fifo [of "se_queue s" "br_outbox (se_bridge s)" "br_shell_gone (se_bridge s)"]
  by (cases "flush (br_outbox (se_bridge s)) (br_shell_gone (se_bridge s)) (se_queue s)") (simp add: seam_flush_def under_way_def)

text \<open>The frame of the steps between which the field may change.\<close>

definition other_events :: "controller_event list \<Rightarrow> bool" where
  "other_events cs \<longleftrightarrow> (\<forall>c\<in>set cs. \<forall>s. setting_step c s = s)"

lemma settling_other:
  "other_events (fst (group_events ch s cl e))" "other_events (fst (volume_events ch s cl e))" "other_events (fst (listening_events ch s cl e))"
  by (auto simp: other_events_def group_events_def volume_events_def listening_events_def Let_def split: option.split prod.split)

abbreviation projected_now :: "seam \<Rightarrow> pass" where
  "projected_now s \<equiv> project (projected s) (se_snapshot s) (sample (po_echo (se_port s)))"

lemma derive_shape:
  "\<exists>more. other_events more \<and> br_outbox (se_bridge (derive s)) = br_outbox (se_bridge s) @ snd (projected_now s) @ more"
  "projected (derive s) = fst (projected_now s)" "se_shell (derive s) = se_shell s" "se_queue (derive s) = se_queue s"
  "se_snapshot (derive s) = se_snapshot s" "br_shell_gone (se_bridge (derive s)) = br_shell_gone (se_bridge s)"
proof -
  obtain p produced where pr: "projected_now s = (p, produced)" by fastforce
  define e1 where "e1 = observe_listening_target (se_snapshot s) produced (po_echo (se_port s))"
  obtain groups e2 where g: "group_events (se_channels s) (se_snapshot s) (br_state_closed (se_bridge s)) e1 = (groups, e2)" by fastforce
  obtain volumes e3 where v: "volume_events (se_channels s) (se_snapshot s) (br_state_closed (se_bridge s)) e2 = (volumes, e3)" by fastforce
  obtain tones e4 where t: "listening_events (se_channels s) (se_snapshot s) (br_state_closed (se_bridge s)) e3 = (tones, e4)" by fastforce
  let ?last = "if br_state_closed (se_bridge s) \<and> \<not> br_closure_reported (se_bridge s) then [Ctl_ChannelClosed CHANNEL_LOST] else []"
  have "other_events (groups @ volumes @ tones @ ?last)"
    using settling_other(1) [of "se_channels s" "se_snapshot s" "br_state_closed (se_bridge s)" e1]
      settling_other(2) [of "se_channels s" "se_snapshot s" "br_state_closed (se_bridge s)" e2]
      settling_other(3) [of "se_channels s" "se_snapshot s" "br_state_closed (se_bridge s)" e3] g v t
    by (auto simp: other_events_def)
  moreover have "br_outbox (se_bridge (derive s)) = br_outbox (se_bridge s) @ snd (projected_now s) @ (groups @ volumes @ tones @ ?last)"
    using pr g v t by (simp add: derive_def Let_def e1_def)
  ultimately show "\<exists>more. other_events more \<and> br_outbox (se_bridge (derive s)) = br_outbox (se_bridge s) @ snd (projected_now s) @ more"
    by blast
  show "projected (derive s) = fst (projected_now s)" "se_shell (derive s) = se_shell s" "se_queue (derive s) = se_queue s"
    "se_snapshot (derive s) = se_snapshot s" "br_shell_gone (se_bridge (derive s)) = br_shell_gone (se_bridge s)"
    by (simp_all add: derive_def Let_def split: prod.split)
qed

lemma post_frame [simp]:
  "se_shell (post e s) = se_shell s" "se_bridge (post e s) = se_bridge s" "se_snapshot (post e s) = se_snapshot s"
  "sq_closed (se_queue (post e s)) = sq_closed (se_queue s)"
  by (simp_all add: post_def shell_try_send_def)

lemma posts_frame [simp]:
  "se_shell (fold (\<lambda>c. post (Ev_Controller c)) cs s) = se_shell s" "se_bridge (fold (\<lambda>c. post (Ev_Controller c)) cs s) = se_bridge s"
  "se_snapshot (fold (\<lambda>c. post (Ev_Controller c)) cs s) = se_snapshot s"
  "sq_closed (se_queue (fold (\<lambda>c. post (Ev_Controller c)) cs s)) = sq_closed (se_queue s)"
  by (induction cs arbitrary: s) simp_all

lemma execute_all_frame [simp]:
  "se_shell (execute_all fxs s) = se_shell s" "se_bridge (execute_all fxs s) = se_bridge s" "se_snapshot (execute_all fxs s) = se_snapshot s"
  "sq_closed (se_queue (execute_all fxs s)) = sq_closed (se_queue s)"
  by (induction fxs arbitrary: s) (simp_all add: Let_def split: prod.split)

lemma others_post: "\<not> comes_from_backend e \<Longrightarrow> other_events (controller_events [e])"
  by (cases e rule: comes_from_backend.cases) (simp_all add: other_events_def)

lemma execute_other: "other_events (fst (execute t fx p))"
  by (auto simp: execute_def other_events_def Let_def split: option.split prod.split app_effect.split)

lemma push_frame:
  "br_projection (push_reading r b) = br_projection b" "br_projection (push_live l b) = br_projection b"
  "br_shell_gone (push_reading r b) = br_shell_gone b" "br_shell_gone (push_live l b) = br_shell_gone b"
  "se_shell (on_bridge f s) = se_shell s" "se_queue (on_bridge f s) = se_queue s" "se_snapshot (on_bridge f s) = se_snapshot s"
  "se_bridge (on_bridge f s) = f (se_bridge s)"
  by (simp_all add: on_bridge_def push_reading_def push_live_def)

lemma settle_end_frame [simp]:
  "br_projection (settle_end b) = br_projection b" "br_outbox (settle_end b) = br_outbox b" "br_shell_gone (settle_end b) = br_shell_gone b"
  by (simp_all add: settle_end_def)

lemma wake_up_frame [simp]:
  "se_shell (wake_up wk s) = se_shell s" "se_queue (wake_up wk s) = se_queue s" "se_snapshot (wake_up wk s) = se_snapshot s"
  "projected (wake_up wk s) = projected s" "br_shell_gone (se_bridge (wake_up wk s)) = br_shell_gone (se_bridge s)"
  by (simp_all add: wake_up_def on_bridge_def split: wakeup.split option.split)

lemma project_event_other: "project_event e seen = Some c \<Longrightarrow> other_events [c]"
  by (cases e) (auto simp: other_events_def)

lemma wake_up_outbox: "\<exists>cs. br_outbox (se_bridge (wake_up wk s)) = br_outbox (se_bridge s) @ cs \<and> other_events cs \<and> length cs \<le> 1"
proof (cases "\<exists>e c. wk = Wk_Event e \<and> project_event e (sample (po_echo (se_port s))) = Some c")
  case True
  then obtain e c where "wk = Wk_Event e" "project_event e (sample (po_echo (se_port s))) = Some c" by blast
  then show ?thesis using project_event_other by (intro exI [of _ "[c]"]) (simp add: wake_up_def on_bridge_def)
next
  case False
  then have "br_outbox (se_bridge (wake_up wk s)) = br_outbox (se_bridge s)"
    by (auto simp: wake_up_def on_bridge_def split: wakeup.split option.split)
  then show ?thesis by (intro exI [of _ "[]"]) (simp add: other_events_def)
qed

text \<open>A turn of the bridge keeps every predicate that its parts keep.\<close>

lemma pass_keeps:
  assumes flush: "\<And>s. I s \<Longrightarrow> I (seam_flush s)"
    and derive: "\<And>s. I s \<Longrightarrow> may_derive s \<Longrightarrow> I (derive s)"
    and push: "\<And>s cs s1. I s \<Longrightarrow> other_events cs \<Longrightarrow> projected s1 = projected s \<Longrightarrow> se_shell s1 = se_shell s \<Longrightarrow> se_queue s1 = se_queue s
      \<Longrightarrow> se_snapshot s1 = se_snapshot s \<Longrightarrow> br_shell_gone (se_bridge s1) = br_shell_gone (se_bridge s)
      \<Longrightarrow> br_outbox (se_bridge s1) = br_outbox (se_bridge s) @ cs \<Longrightarrow> I s1"
    and start: "I s"
  shows "I (bridge_pass r s)"
proof -
  have reading: "I (on_bridge (push_reading x) s)" if "I s" for s x
    by (rule push [OF that, of "if br_published (se_bridge s) = Some x then [] else [Ctl_DiagnosticsUpdated x]"])
      (simp_all add: push_frame push_reading_def other_events_def)
  have live: "I (on_bridge (push_live x) s)" if "I s" for s x
    by (rule push [OF that, of "if br_published_live (se_bridge s) = Some x then [] else [Ctl_LiveDiagnosticsUpdated x]"])
      (simp_all add: push_frame push_live_def other_events_def)
  have settle: "I (on_bridge settle_end s)" if "I s" for s
    by (rule push [OF that, of "[]"]) (simp_all add: push_frame other_events_def)
  have readings: "I (report_readings r s)" if "I s" for s
    using that reading live flush by (auto simp: report_readings_def Let_def split: prod.split option.split)
  show ?thesis unfolding bridge_pass_def Let_def using start flush derive readings settle by auto
qed

section \<open>The interface\<close>

locale shown_field =
  fixes kind :: "controller_event \<Rightarrow> 'a option"
    and field :: "app_state \<Rightarrow> 'a option"
    and slot :: "projection \<Rightarrow> 'a option"
    and reading :: "device_snapshot \<Rightarrow> 'a"
  assumes reduce_field: "field (out_state (reduce lc st e)) = last_of kind (controller_events [e]) (field st)"
    and kind_other: "(\<And>s. setting_step c s = s) \<Longrightarrow> kind c = None"
    and project_slot: "last_of kind (snd (project p snap seen)) (slot p) = slot (fst (project p snap seen))"
    and project_fresh: "slot (fst (project p snap seen)) = Some (reading snap)"
    and initial_slot: "slot projection_default = None"
begin

lemma other: "other_events cs \<Longrightarrow> last_of kind cs x = x"
  using kind_other by (intro last_of_other) (auto simp: other_events_def)

lemma window_field: "field (window_state_of lc s) = last_of kind (controller_events (under_way s)) (field (se_shell s))"
proof -
  have "field (fold (\<lambda>e st. out_state (reduce lc st e)) es st) = last_of kind (controller_events es) (field st)" for es st
  proof (induction es arbitrary: st)
    case (Cons e es)
    have "controller_events (e # es) = controller_events [e] @ controller_events es" using controller_events_append [of "[e]" es] by simp
    then show ?case using Cons reduce_field by simp
  qed simp
  then show ?thesis by (simp add: window_state_of_def)
qed

lemma field_post:
  assumes "other_events (controller_events [e])"
  shows "last_of kind (controller_events (under_way (post e s))) x = last_of kind (controller_events (under_way s)) x"
  using assms other by (simp add: post_def shell_try_send_def under_way_def)

lemma field_posts:
  "other_events cs \<Longrightarrow> last_of kind (controller_events (under_way (fold (\<lambda>c. post (Ev_Controller c)) cs s))) x = last_of kind (controller_events (under_way s)) x"
proof (induction cs arbitrary: s)
  case (Cons c cs)
  then have "other_events cs" "other_events (controller_events [Ev_Controller c])" by (auto simp: other_events_def)
  then show ?case using Cons(1) [of "post (Ev_Controller c) s"] field_post [of "Ev_Controller c" s x] by simp
qed simp

lemma field_execute: "last_of kind (controller_events (under_way (execute_all fxs s))) x = last_of kind (controller_events (under_way s)) x"
proof (induction fxs arbitrary: s)
  case (Cons fx fxs)
  obtain reports p where e: "execute (se_directory s) fx (se_port s) = (reports, p)" by fastforce
  have "other_events reports" using execute_other [of "se_directory s" fx "se_port s"] e by simp
  moreover have "under_way (s\<lparr>se_port := p\<rparr>) = under_way s" by (simp add: under_way_def)
  ultimately show ?case using Cons field_posts [of reports "s\<lparr>se_port := p\<rparr>" x] e by simp
qed simp

text \<open>The field the shell will have after everything on its way is the slot of the projection.\<close>

definition follows :: "seam \<Rightarrow> bool" where
  "follows s \<longleftrightarrow> (shell_open s \<longrightarrow> last_of kind (controller_events (under_way s)) (field (se_shell s)) = slot (projected s))"

lemma follows_flush: "follows s \<Longrightarrow> follows (seam_flush s)"
  using seam_flush_under_way by (simp add: follows_def)

lemma follows_push:
  assumes "follows s" "other_events cs" "projected s1 = projected s" "se_shell s1 = se_shell s" "se_queue s1 = se_queue s"
    "br_outbox (se_bridge s1) = br_outbox (se_bridge s) @ cs"
  shows "follows s1"
  using assms other by (simp add: follows_def under_way_def)

lemma follows_derive:
  assumes "follows s" "br_outbox (se_bridge s) = []"
  shows "follows (derive s)"
proof -
  obtain more where m: "other_events more" "br_outbox (se_bridge (derive s)) = br_outbox (se_bridge s) @ snd (projected_now s) @ more"
    using derive_shape(1) by blast
  then show ?thesis
    using assms(1) other [OF m(1)] project_slot [of "projected s" "se_snapshot s" "sample (po_echo (se_port s))"]
    by (simp add: follows_def under_way_def derive_shape(2-5))
qed

lemma follows_turn:
  assumes "follows s"
  shows "follows (bridge_pass r s)"
proof (rule pass_keeps [where I = follows])
  show "follows (seam_flush s)" if "follows s" for s using that by (rule follows_flush)
  show "follows (derive s)" if "follows s" "may_derive s" for s using that by (intro follows_derive) (simp_all add: may_derive_def)
  show "follows s1" if "follows s" "other_events cs" "projected s1 = projected s" "se_shell s1 = se_shell s" "se_queue s1 = se_queue s"
    "br_outbox (se_bridge s1) = br_outbox (se_bridge s) @ cs" for s s1 cs using that by (rule follows_push)
qed (rule assms)

lemma follows_wake:
  assumes "follows s"
  shows "follows (wake_up wk s)"
proof -
  obtain cs where "br_outbox (se_bridge (wake_up wk s)) = br_outbox (se_bridge s) @ cs" "other_events cs" using wake_up_outbox by blast
  then show ?thesis using follows_push [OF assms, of cs "wake_up wk s"] by simp
qed

lemma follows_shell:
  assumes "follows s"
  shows "follows (shell_turn lc s)"
proof (cases "sq_events (se_queue s)")
  case Nil
  then show ?thesis using assms by (simp add: shell_turn_def)
next
  case (Cons e rest)
  obtain st effects ch where r: "reduce lc (se_shell s) e = (st, effects, ch)" using prod_cases3 by blast
  let ?s = "s\<lparr>se_shell := st, se_queue := (se_queue s)\<lparr>sq_events := rest\<rparr>\<rparr>"
  have "controller_events (under_way s) = controller_events [e] @ controller_events (under_way ?s)"
    using controller_events_append [of "[e]" "rest @ map Ev_Controller (br_outbox (se_bridge s))"] Cons
    unfolding under_way_def by (simp del: controller_events_append)
  moreover have "field st = last_of kind (controller_events [e]) (field (se_shell s))" using reduce_field [of lc "se_shell s" e] r by simp
  ultimately have "follows ?s" using assms by (simp add: follows_def)
  then show ?thesis using Cons r field_execute [of effects ?s] by (simp add: shell_turn_def follows_def)
qed

lemma follows_step:
  assumes "follows s"
  shows "follows (seam_step lc s i)"
proof (cases i)
  case (In_Post e)
  then show ?thesis using assms field_post [OF others_post, of e s] by (auto simp: seam_step_def follows_def post_def shell_try_send_def split: if_splits)
next
  case In_Reduce
  then show ?thesis using assms follows_shell by (simp add: seam_step_def)
next
  case (In_Turn wk r)
  then show ?thesis using assms follows_turn follows_wake by (simp add: seam_step_def)
qed (use assms in \<open>simp_all add: seam_step_def follows_def under_way_def\<close>)

text \<open>The slot holds the reading of the newest snapshot.\<close>

definition fresh :: "seam \<Rightarrow> bool" where
  "fresh s \<longleftrightarrow> slot (projected s) = Some (reading (se_snapshot s))"

lemma fresh_derive: "fresh (derive s)"
  by (simp add: fresh_def derive_shape(2,5) project_fresh)

lemma fresh_pass:
  assumes "fresh s"
  shows "fresh (bridge_pass r s)"
proof (rule pass_keeps [where I = fresh])
  show "fresh (derive s)" for s by (rule fresh_derive)
qed (simp_all add: fresh_def assms [unfolded fresh_def])

lemma fresh_turn:
  assumes "shell_open s" "\<not> br_shell_gone (se_bridge s)" "length (under_way s) < EVENT_CHANNEL_CAPACITY"
  shows "fresh (bridge_pass r (wake_up wk s))"
proof -
  let ?s = "wake_up wk s" and ?s1 = "seam_flush (wake_up wk s)"
  obtain cs where cs: "br_outbox (se_bridge ?s) = br_outbox (se_bridge s) @ cs" "length cs \<le> 1" using wake_up_outbox by blast
  then have "length (sq_events (se_queue ?s)) + length (br_outbox (se_bridge ?s)) \<le> EVENT_CHANNEL_CAPACITY"
    using assms(3) by (simp add: under_way_def)
  then have d: "may_derive ?s1" using assms(1,2) by (simp add: may_derive_def seam_flush_def flush_room Let_def)
  define s2 where "s2 = seam_flush (derive ?s1)"
  have "fresh s2" using fresh_derive [of ?s1] by (simp add: s2_def fresh_def)
  moreover have "fresh (report_readings r s2)" if "fresh s2"
    using that by (auto simp: fresh_def report_readings_def Let_def push_frame split: prod.split option.split)
  ultimately show ?thesis using d unfolding bridge_pass_def Let_def s2_def [symmetric] by (simp add: fresh_def push_frame s2_def)
qed

lemma fresh_step:
  assumes "fresh s" "\<And>snap. i \<noteq> In_Publish snap"
  shows "fresh (seam_step lc s i)"
proof (cases i)
  case (In_Turn wk r)
  have "fresh (wake_up wk s)" using assms(1) by (simp add: fresh_def)
  then show ?thesis using In_Turn assms(1) fresh_pass by (simp add: seam_step_def)
next
  case In_Reduce
  have "projected (shell_turn lc s) = projected s" "se_snapshot (shell_turn lc s) = se_snapshot s"
    by (simp_all add: shell_turn_def split: list.split prod.split)
  then show ?thesis using In_Reduce assms(1) by (simp add: seam_step_def fresh_def)
qed (use assms in \<open>simp_all add: seam_step_def fresh_def\<close>)

end

section \<open>The flag of a lost shell\<close>

definition gone_closed :: "seam \<Rightarrow> bool" where
  "gone_closed s \<longleftrightarrow> (br_shell_gone (se_bridge s) \<longrightarrow> sq_closed (se_queue s))"

lemma gone_closed_pass:
  assumes "gone_closed s"
  shows "gone_closed (bridge_pass r s)"
proof (rule pass_keeps [where I = gone_closed])
  show "gone_closed (seam_flush s)" if "gone_closed s" for s
    using that seam_flush_under_way [of s] by (cases "sq_closed (se_queue s)") (simp_all add: gone_closed_def)
qed (use assms in \<open>simp_all add: gone_closed_def derive_shape\<close>)

lemma gone_closed_step: "gone_closed s \<Longrightarrow> gone_closed (seam_step lc s i)"
  using gone_closed_pass
  by (cases i) (auto simp: seam_step_def gone_closed_def shell_turn_def split: list.split prod.split)

lemma seam_run_snoc [simp]: "seam_run lc s [] = s" "seam_run lc s (is @ [i]) = seam_step lc (seam_run lc s is) i"
  by (simp_all add: seam_run_def)

lemma seam_run_keeps: "(\<And>s i. I s \<Longrightarrow> I (seam_step lc s i)) \<Longrightarrow> I s \<Longrightarrow> I (seam_run lc s is)"
  by (induction "is" rule: rev_induct) simp_all

lemma shell_open_step: "shell_open (seam_step lc s i) \<Longrightarrow> shell_open s"
proof (rule ccontr)
  assume a: "shell_open (seam_step lc s i)" "\<not> shell_open s"
  have "\<not> shell_open (bridge_pass r s)" if "\<not> shell_open s" for r s
    by (rule pass_keeps [where I = "\<lambda>s. \<not> shell_open s"]) (use that in \<open>simp_all add: derive_shape\<close>)
  then show False using a by (cases i) (auto simp: seam_step_def shell_turn_def split: list.splits prod.splits if_splits)
qed

lemma shell_open_keeps:
  assumes "shell_open s" "i \<noteq> In_ShellGone"
  shows "shell_open (seam_step lc s i)"
proof -
  have "shell_open (bridge_pass r s)" if "shell_open s" for r s
    by (rule pass_keeps [where I = shell_open]) (use that in \<open>simp_all add: derive_shape\<close>)
  then show ?thesis using assms by (cases i) (auto simp: seam_step_def shell_turn_def split: list.splits prod.splits)
qed

lemma snapshot_keeps:
  assumes "\<And>snap. i \<noteq> In_Publish snap"
  shows "se_snapshot (seam_step lc s i) = se_snapshot s"
proof -
  have "se_snapshot (bridge_pass r s1) = se_snapshot s" if "se_snapshot s1 = se_snapshot s" for r s1
    by (rule pass_keeps [where I = "\<lambda>s1. se_snapshot s1 = se_snapshot s"]) (use that in \<open>simp_all add: derive_shape\<close>)
  then show ?thesis using assms by (cases i) (auto simp: seam_step_def shell_turn_def post_def split: list.splits prod.splits)
qed

section \<open>Slots of the projection\<close>

definition slots :: "projection \<Rightarrow> settings" where
  "slots p = (pj_mute p, pj_latency p, pj_audio p, pj_groups p, pj_receiver_levels p)"

definition stage :: "(pass \<Rightarrow> pass) \<Rightarrow> bool" where
  "stage part \<longleftrightarrow> (\<forall>p events. \<exists>cs p1. part (p, events) = (p1, events @ cs) \<and> fold setting_step cs (slots p) = slots p1)"

lemma stages:
  assumes "\<forall>part\<in>set parts. stage part"
  shows "\<exists>cs p1. fold (\<lambda>part. part) parts (p, events) = (p1, events @ cs) \<and> fold setting_step cs (slots p) = slots p1"
  using assms
proof (induction parts arbitrary: p events)
  case (Cons part parts)
  obtain cs p1 where 1: "part (p, events) = (p1, events @ cs)" "fold setting_step cs (slots p) = slots p1"
    using Cons(2) unfolding stage_def by (metis list.set_intros(1))
  obtain ds p2 where 2: "fold (\<lambda>part. part) parts (p1, events @ cs) = (p2, (events @ cs) @ ds)" "fold setting_step ds (slots p1) = slots p2"
    using Cons(1) [of p1 "events @ cs"] Cons(2) by auto
  show ?case using 1 2 by (intro exI [of _ "cs @ ds"] exI [of _ p2]) simp
qed simp

lemma echo_settings [simp]: "setting_step (discovery_event g d) x = x" "setting_step (session_event g e) x = x"
  by (cases d; simp) (cases e; simp)

lemma stage_volume: "stage (project_volume s)"
  by (auto simp: stage_def project_volume_def slots_def Let_def split: option.split prod.split)

lemma stage_desired: "stage (project_desired s)"
  by (auto simp: stage_def project_desired_def slots_def Let_def split: option.split prod.split)

lemma stage_groups: "stage (project_groups s)"
  by (auto simp: stage_def project_groups_def slots_def Let_def split: option.split prod.split)

lemma stage_discovery: "stage (project_discovery s seen)"
  by (auto simp: stage_def project_discovery_def slots_def Let_def split: option.split prod.split)

lemma stage_session: "stage (project_session s seen)"
  by (auto simp: stage_def project_session_def slots_def Let_def split: option.split prod.split)

lemma stage_mute: "stage (project_mute s)"
  by (auto simp: stage_def project_mute_def slots_def Let_def split: option.split prod.split)

lemma stage_levels: "stage (project_levels s)"
  by (auto simp: stage_def project_levels_def slots_def Let_def split: option.split prod.split)

lemma stage_latency: "stage (project_latency s)"
  by (auto simp: stage_def project_latency_def slots_def Let_def split: option.split prod.split)

lemma stage_audio: "stage (project_audio s)"
  by (auto simp: stage_def project_audio_def slots_def Let_def split: option.split prod.split)

lemmas project_stages = stage_volume stage_desired stage_groups stage_discovery stage_session stage_mute stage_levels stage_latency stage_audio

lemma project_settings: "fold setting_step (snd (project p s seen)) (slots p) = slots (fst (project p s seen))"
proof -
  have "\<exists>cs p1. project p s seen = (p1, [] @ cs) \<and> fold setting_step cs (slots p) = slots p1"
    unfolding project_def by (rule stages) (simp add: project_stages)
  then show ?thesis by auto
qed

section \<open>Fresh readings\<close>

lemma saved_group_eq_imp: "saved_group_eq a b \<Longrightarrow> a = b"
proof -
  have "list_all2 group_member_eq xs ys \<Longrightarrow> xs = ys" for xs ys
    by (induction xs ys rule: list_all2_induct) (auto simp: group_member_eq_def dest: f32_eq_imp_eq)
  then show "saved_group_eq a b \<Longrightarrow> a = b" by (simp add: saved_group_eq_def)
qed

lemma groups_eq_imp: "list_all2 saved_group_eq a b \<Longrightarrow> a = b"
  by (induction a b rule: list_all2_induct) (auto dest: saved_group_eq_imp)

lemma levels_eq_imp: "levels_eq a b \<Longrightarrow> a = b"
  unfolding levels_eq_def by (induction a b rule: list_all2_induct) (auto dest: f32_eq_imp_eq)

lemma option_eq_imp: "option_eq eq x (Some y) \<Longrightarrow> (\<And>a. eq a y \<Longrightarrow> a = y) \<Longrightarrow> x = Some y"
  by (cases x) auto

type_synonym audio_view = "string list \<times> string option \<times> capture_state \<times> bool \<times> bool"

text \<open>A capture reading without its keys.\<close>

definition audio_view :: "audio_source_reading \<Rightarrow> audio_view" where
  "audio_view r = (map ae_name (as_endpoints r), as_captured_name r, as_state r, as_refresh_failed r, as_endpoints_known r)"

definition source_view :: "device_snapshot \<Rightarrow> audio_view" where
  "source_view s = (let source = ds_audio_source s in
     (map audio_endpoint.ae_name (offered_list source), map_option audio_endpoint.ae_name (au_captured_endpoint source),
      capture_state_of (au_state source), au_refresh_failed source, au_active_endpoints source \<noteq> None))"

lemma offered_names: "map ae_name (fst (offered_choices es t)) = map audio_endpoint.ae_name es"
  by (induction es t rule: offered_choices.induct) (auto simp: Let_def split: prod.split)

lemma audio_echo_view: "audio_view (fst (audio_echo (ds_audio_source s) t)) = source_view s"
  using offered_names [of "offered_list (ds_audio_source s)" t]
  by (auto simp: audio_view_def source_view_def audio_echo_def Let_def split: prod.split)

lemma parts_fresh:
  "pj_mute (fst (project_mute s x)) = Some (ds_muted s)" "pj_latency (fst (project_latency s x)) = Some (latency_of s)"
  "pj_groups (fst (project_groups s x)) = Some (groups_of s)" "pj_receiver_levels (fst (project_levels s x)) = Some (levels_of s)"
  "map_option audio_view (pj_audio (fst (project_audio s x))) = Some (source_view s)"
proof -
  show "pj_mute (fst (project_mute s x)) = Some (ds_muted s)" "pj_latency (fst (project_latency s x)) = Some (latency_of s)"
    by (simp_all add: project_mute_def project_latency_def split: prod.split)
  show "pj_groups (fst (project_groups s x)) = Some (groups_of s)"
    by (auto simp: project_groups_def split: prod.split dest!: option_eq_imp intro: groups_eq_imp)
  show "pj_receiver_levels (fst (project_levels s x)) = Some (levels_of s)"
    by (auto simp: project_levels_def split: prod.split dest!: option_eq_imp intro: levels_eq_imp)
  show "map_option audio_view (pj_audio (fst (project_audio s x))) = Some (source_view s)"
    using audio_echo_view [of s "pj_endpoints (fst x)"] by (auto simp: project_audio_def Let_def split: prod.split)
qed

lemma parts_frame:
  "pj_mute (fst (project_levels s x)) = pj_mute (fst x)" "pj_mute (fst (project_latency s x)) = pj_mute (fst x)" "pj_mute (fst (project_audio s x)) = pj_mute (fst x)"
  "pj_latency (fst (project_audio s x)) = pj_latency (fst x)"
  "pj_receiver_levels (fst (project_latency s x)) = pj_receiver_levels (fst x)" "pj_receiver_levels (fst (project_audio s x)) = pj_receiver_levels (fst x)"
  "pj_groups (fst (project_discovery s seen x)) = pj_groups (fst x)" "pj_groups (fst (project_session s seen x)) = pj_groups (fst x)"
  "pj_groups (fst (project_mute s x)) = pj_groups (fst x)" "pj_groups (fst (project_levels s x)) = pj_groups (fst x)"
  "pj_groups (fst (project_latency s x)) = pj_groups (fst x)" "pj_groups (fst (project_audio s x)) = pj_groups (fst x)"
  by (simp_all add: project_mute_def project_levels_def project_latency_def project_audio_def project_discovery_def project_session_def
      Let_def split: prod.split option.split)

lemma project_fresh_parts:
  "pj_mute (fst (project p s seen)) = Some (ds_muted s)" "pj_latency (fst (project p s seen)) = Some (latency_of s)"
  "pj_groups (fst (project p s seen)) = Some (groups_of s)" "pj_receiver_levels (fst (project p s seen)) = Some (levels_of s)"
  "map_option audio_view (pj_audio (fst (project p s seen))) = Some (source_view s)"
  by (simp_all add: project_def parts_frame parts_fresh)

section \<open>The fields\<close>

fun mute_kind :: "controller_event \<Rightarrow> bool option" where
  "mute_kind (Ctl_MuteChanged m) = Some m" | "mute_kind _ = None"

fun latency_kind :: "controller_event \<Rightarrow> latency_reading option" where
  "latency_kind (Ctl_LatencyChanged l) = Some l" | "latency_kind _ = None"

fun audio_kind :: "controller_event \<Rightarrow> audio_view option" where
  "audio_kind (Ctl_AudioSourceChanged a) = Some (audio_view a)" | "audio_kind _ = None"

fun groups_kind :: "controller_event \<Rightarrow> saved_group_reading list option" where
  "groups_kind (Ctl_SavedGroupsChanged g) = Some g" | "groups_kind _ = None"

fun levels_kind :: "controller_event \<Rightarrow> receiver_level_map option" where
  "levels_kind (Ctl_ReceiverLevelsChanged r) = Some r" | "levels_kind _ = None"

text \<open>A component of the settings that one kind of event sets.\<close>

lemma shown_fieldI:
  assumes step: "\<And>c x. part (setting_step c x) = (case kind c of Some y \<Rightarrow> Some y | None \<Rightarrow> part x)"
    and none: "part (None, None, None, None, None) = None"
    and field: "\<And>st. field st = part (settings st)"
    and slot: "\<And>p. slot p = part (slots p)"
    and fresh: "\<And>p s seen. slot (fst (project p s seen)) = Some (reading s)"
  shows "shown_field kind field slot reading"
proof -
  have run: "last_of kind cs (part x) = part (fold setting_step cs x)" for cs x
    by (induction cs arbitrary: x) (simp_all add: step [symmetric])
  show ?thesis
  proof
    show "field (out_state (reduce lc st e)) = last_of kind (controller_events [e]) (field st)" for lc st e
      by (simp add: field reduce_settings event_settings_def run)
    show "kind c = None" if "\<And>x. setting_step c x = x" for c
      using that [of "(None, None, None, None, None)"] step [of c "(None, None, None, None, None)"] none by (cases "kind c") simp_all
    show "last_of kind (snd (project p snap seen)) (slot p) = slot (fst (project p snap seen))" for p snap seen
      by (simp add: slot run project_settings)
    show "slot projection_default = None" using none by (simp add: slot slots_def projection_default_def)
  qed (rule fresh)
qed

interpretation shown_mute: shown_field mute_kind muted pj_mute ds_muted
proof (rule shown_fieldI [where part = fst])
  show "fst (setting_step c x) = (case mute_kind c of Some y \<Rightarrow> Some y | None \<Rightarrow> fst x)" for c x
    by (cases x; cases c) simp_all
qed (simp_all add: settings_def slots_def project_fresh_parts)

interpretation shown_latency: shown_field latency_kind latency pj_latency latency_of
proof (rule shown_fieldI [where part = "\<lambda>(m, l, a, g, r). l"])
  show "(case setting_step c x of (m, l, a, g, r) \<Rightarrow> l) = (case latency_kind c of Some y \<Rightarrow> Some y | None \<Rightarrow> (case x of (m, l, a, g, r) \<Rightarrow> l))" for c x
    by (cases x; cases c) simp_all
qed (simp_all add: settings_def slots_def project_fresh_parts)

interpretation shown_audio: shown_field audio_kind "\<lambda>st. map_option audio_view (audio_source st)" "\<lambda>p. map_option audio_view (pj_audio p)" source_view
proof (rule shown_fieldI [where part = "\<lambda>(m, l, a, g, r). map_option audio_view a"])
  show "(case setting_step c x of (m, l, a, g, r) \<Rightarrow> map_option audio_view a)
      = (case audio_kind c of Some y \<Rightarrow> Some y | None \<Rightarrow> (case x of (m, l, a, g, r) \<Rightarrow> map_option audio_view a))" for c x
    by (cases x; cases c) simp_all
qed (simp_all only: settings_def slots_def project_fresh_parts prod.case option.map)

interpretation shown_groups: shown_field groups_kind saved_groups pj_groups groups_of
proof (rule shown_fieldI [where part = "\<lambda>(m, l, a, g, r). g"])
  show "(case setting_step c x of (m, l, a, g, r) \<Rightarrow> g) = (case groups_kind c of Some y \<Rightarrow> Some y | None \<Rightarrow> (case x of (m, l, a, g, r) \<Rightarrow> g))" for c x
    by (cases x; cases c) simp_all
qed (simp_all add: settings_def slots_def project_fresh_parts)

interpretation shown_levels: shown_field levels_kind receiver_levels pj_receiver_levels levels_of
proof (rule shown_fieldI [where part = "\<lambda>(m, l, a, g, r). r"])
  show "(case setting_step c x of (m, l, a, g, r) \<Rightarrow> r) = (case levels_kind c of Some y \<Rightarrow> Some y | None \<Rightarrow> (case x of (m, l, a, g, r) \<Rightarrow> r))" for c x
    by (cases x; cases c) simp_all
qed (simp_all add: settings_def slots_def project_fresh_parts)

text \<open>
  Claims about the seam: the window follows the backend's settings through every interleaving, and no press is
  answered from the past.
\<close>

section \<open>Runs\<close>

definition settings_empty :: "app_state \<Rightarrow> bool" where
  "settings_empty st \<longleftrightarrow> settings st = (None, None, None, None, None)"

lemma start_follows:
  assumes "settings_empty st"
  shows "shown_mute.follows (seam_start st snap)" "shown_latency.follows (seam_start st snap)" "shown_audio.follows (seam_start st snap)"
    "shown_groups.follows (seam_start st snap)" "shown_levels.follows (seam_start st snap)"
  using assms
  by (simp_all add: shown_mute.follows_def shown_latency.follows_def shown_audio.follows_def shown_groups.follows_def shown_levels.follows_def
      seam_start_def under_way_def bridge_new_def projection_default_def settings_empty_def settings_def)

lemma run_gone: "gone_closed (seam_run lc (seam_start st snap) inputs)"
  by (rule seam_run_keeps, rule gone_closed_step) (simp_all add: gone_closed_def seam_start_def bridge_new_def)

context shown_field
begin

lemma shown_after_turn:
  assumes "follows (seam_start st snap)"
    and s: "s = seam_run lc (seam_start st snap) before" "shell_open s" "length (under_way s) < EVENT_CHANNEL_CAPACITY" "\<not> br_ended (se_bridge s)"
    and s1: "s1 = seam_run lc (seam_step lc s (In_Turn wk r)) after" "\<forall>snap. In_Publish snap \<notin> set after" "shell_open s1"
  shows "field (window_state_of lc s1) = Some (reading (se_snapshot s1))"
proof -
  have "\<not> br_shell_gone (se_bridge s)" using run_gone [of lc st snap before] s(1,2) by (simp add: gone_closed_def)
  then have "fresh (seam_step lc s (In_Turn wk r))" using fresh_turn s(2-4) by (simp add: seam_step_def)
  then have fresh: "fresh s1" unfolding s1(1) using s1(2)
    by (induction after rule: rev_induct) (auto intro!: fresh_step)
  have runs: "follows (seam_run lc s inputs)" if "follows s" for s inputs
    using seam_run_keeps [where I = follows and lc = lc, OF _ that] follows_step by blast
  then have "follows s1" unfolding s1(1) s(1) using assms(1) follows_step by blast
  then show ?thesis using fresh s1(3) by (simp add: window_field follows_def fresh_def)
qed

end



section \<open>Answers to a press\<close>

fun event_generation :: "controller_event \<Rightarrow> generation_id option" where
  "event_generation (Ctl_SessionStarted g _) = Some g"
| "event_generation (Ctl_SessionDegraded g _) = Some g"
| "event_generation (Ctl_SessionRestarting g) = Some g"
| "event_generation (Ctl_SessionStopped g) = Some g"
| "event_generation (Ctl_SessionFailed g _) = Some g"
| "event_generation _ = None"

definition session_events :: "controller_event list \<Rightarrow> controller_event list" where
  "session_events cs = filter (\<lambda>c. event_generation c \<noteq> None) cs"

lemma session_events_simps [simp]:
  "session_events [] = []" "session_events (cs @ ds) = session_events cs @ session_events ds"
  "session_events [c] = (if event_generation c = None then [] else [c])"
  by (simp_all add: session_events_def)

lemma parts_no_session:
  "session_events (snd (project_volume s x)) = session_events (snd x)" "session_events (snd (project_desired s x)) = session_events (snd x)"
  "session_events (snd (project_groups s x)) = session_events (snd x)" "session_events (snd (project_mute s x)) = session_events (snd x)"
  "session_events (snd (project_levels s x)) = session_events (snd x)" "session_events (snd (project_latency s x)) = session_events (snd x)"
  "session_events (snd (project_audio s x)) = session_events (snd x)" "session_events (snd (project_discovery s seen x)) = session_events (snd x)"
  "pj_session (fst (project_volume s x)) = pj_session (fst x)" "pj_session (fst (project_desired s x)) = pj_session (fst x)"
  "pj_session (fst (project_groups s x)) = pj_session (fst x)" "pj_session (fst (project_discovery s seen x)) = pj_session (fst x)"
proof -
  have "event_generation (discovery_event g d) = None" for g d by (cases d) simp_all
  then show "session_events (snd (project_discovery s seen x)) = session_events (snd x)"
    by (simp add: project_discovery_def split: prod.split option.split)
qed (simp_all add: project_volume_def project_desired_def project_groups_def project_mute_def project_levels_def project_latency_def
    project_audio_def project_discovery_def Let_def split: prod.split option.split)

lemma session_event_generation [simp]: "event_generation (session_event g e) = Some g"
  by (cases e) simp_all

lemma project_session_events:
  "session_events (snd (project p s seen)) =
     (case session_echo_of (ds_session s) of
        Some echo \<Rightarrow> if publishes (pj_session p) seen (sx_phase (ds_session s)) echo then [session_event (gs_session seen) echo] else []
      | None \<Rightarrow> [])"
proof -
  have "session_events (snd (project_session s seen x)) = session_events (snd x) @
     (case session_echo_of (ds_session s) of
        Some echo \<Rightarrow> if publishes (pj_session (fst x)) seen (sx_phase (ds_session s)) echo then [session_event (gs_session seen) echo] else []
      | None \<Rightarrow> [])" for x
    by (simp add: project_session_def split: prod.split option.split)
  then show ?thesis by (cases "session_echo_of (ds_session s)") (simp_all add: project_def parts_no_session)
qed

text \<open>The generation of a press, and the phases of the backend that answer it.\<close>

fun press :: "device_command \<Rightarrow> generation_id option" where
  "press (Dev_StartSession g _ _) = Some g"
| "press (Dev_StopSession g) = Some g"
| "press _ = None"

fun answers :: "device_command \<Rightarrow> session_phase \<Rightarrow> bool" where
  "answers (Dev_StopSession _) phase = (phase = Phase_Stopped)"
| "answers (Dev_StartSession _ _ _) (Phase_Streaming _) = True"
| "answers (Dev_StartSession _ _ _) (Phase_Degraded _) = True"
| "answers (Dev_StartSession _ _ _) (Phase_Failed _ _) = True"
| "answers _ _ = False"

definition pressed_edge :: "device_command \<Rightarrow> session_edge" where
  "pressed_edge command = (case command of Dev_StopSession _ \<Rightarrow> Edge_Stop | _ \<Rightarrow> Edge_Start)"

lemma press_recorded:
  assumes "port_try_send t command p = (outcome, p1)" "press command = Some g"
  shows "sample (po_echo p1) = \<lparr>gs_discovery = ge_discovery (po_echo p), gs_session = g,
     gs_session_edge = (if outcome = Some Ctl_Busy then Edge_Rejected else pressed_edge command)\<rparr>"
  using assms
  by (cases command)
    (auto simp: port_try_send_def start_session_def stop_session_def port_send_def sample_def record_session_def admitted_edge_def pressed_edge_def Let_def
      split: prod.splits)

lemma answered_phase:
  assumes "answered_by (pressed_edge command) echo" "session_echo_of s = Some echo" "press command = Some g"
  shows "answers command (sx_phase s)"
  using assms by (cases command; cases "sx_phase s") (auto simp: pressed_edge_def session_echo_of_def)

text \<open>
  An admitted start or stop is never answered from the past. While the bridge has published nothing under the
  generation of the press, a pass over any snapshot publishes a session event only when the snapshot's phase
  answers the press: stopped for a stop; streaming, degraded or failed for a start. The event carries the generation
  of the press. When the queue refused the press, the pass republishes the phase as it is, so the window does not wait.
\<close>

theorem press_not_answered_by_the_past:
  assumes "port_try_send t command p = (outcome, p1)" "press command = Some g" "\<forall>e. pj_session pj \<noteq> Some (g, e)"
  shows "(outcome \<noteq> Some Ctl_Busy \<and> session_events (snd (project pj s (sample (po_echo p1)))) \<noteq> [] \<longrightarrow> answers command (sx_phase (ds_session s)))
    \<and> (outcome = Some Ctl_Busy \<and> session_echo_of (ds_session s) \<noteq> None \<longrightarrow> session_events (snd (project pj s (sample (po_echo p1)))) \<noteq> [])
    \<and> (\<forall>c\<in>set (session_events (snd (project pj s (sample (po_echo p1))))). event_generation c = Some g)"
proof -
  let ?seen = "sample (po_echo p1)"
  have seen: "gs_session ?seen = g" "gs_session_edge ?seen = (if outcome = Some Ctl_Busy then Edge_Rejected else pressed_edge command)"
    using press_recorded [OF assms(1,2)] by simp_all
  have plain: "pressed_edge command \<in> {Edge_Start, Edge_Stop}" by (simp add: pressed_edge_def split: device_command.split)
  have "publishes (pj_session pj) ?seen (sx_phase (ds_session s)) echo = answered_by (gs_session_edge ?seen) echo" for echo
    using seen plain assms(3) by (auto simp: publishes_def split: session_edge.split option.split)
  then show ?thesis using seen answered_phase [OF _ _ assms(2), of _ "ds_session s"]
    by (auto simp: project_session_events split: option.split if_splits)
qed

definition bridge_demo_port :: backend_port where
  "bridge_demo_port = \<lparr>po_handle = handle_new, po_echo = echo_new\<rparr>"

definition bridge_demo_streaming :: device_snapshot where
  "bridge_demo_streaming = device_snapshot_default\<lparr>ds_session := session_snapshot_default\<lparr>sx_phase := Phase_Streaming 4\<rparr>\<rparr>"

text \<open>A stop pressed while the backend streams: the pass before the backend moves publishes nothing about the session.\<close>

theorem press_not_answered_by_the_past_witness:
  "session_events (snd (project (projection_default\<lparr>pj_session := Some (7, Echo_Active [])\<rparr>) bridge_demo_streaming
     (sample (po_echo (snd (port_try_send table_default (Dev_StopSession 8) bridge_demo_port)))))) = []"
proof -
  let ?p1 = "snd (port_try_send table_default (Dev_StopSession 8) bridge_demo_port)"
  have "port_try_send table_default (Dev_StopSession 8) bridge_demo_port = (None, ?p1)"
    by (simp add: bridge_demo_port_def port_try_send_def stop_session_def port_send_def handle_try_send_def try_send_envelope_def handle_new_def
        COMMAND_CAPACITY_def Let_def)
  then show ?thesis
    using press_not_answered_by_the_past [of table_default "Dev_StopSession 8" bridge_demo_port None ?p1 8
        "projection_default\<lparr>pj_session := Some (7, Echo_Active [])\<rparr>" bridge_demo_streaming]
    by (simp add: bridge_demo_streaming_def)
qed

end
