(* ===== verification/Spec2Isabelle.thy ===== *)
theory Spec2Isabelle
  imports Shell_Properties Recovery_Properties Tlv Diag_Ring Audio_Buffer Command_Outcomes Crypto_Properties Rtp_History Ptp_Properties
    Ntp Discovery_Parser Rtsp_Connection Raop_Session
    Pairing_Properties Controller_Properties Persistence_Properties
    Transport_Properties Session_Health Session_Composition Group_Delays Bridge_Properties
begin

text \<open>
  OpenAirCast sends the sound of a Windows computer to AirPlay receivers. This development models
  the parts of the program that decide something, in the order in which they stand between the
  window and the wire, and proves what each of them promises.

  \<^bold>\<open>The program.\<close> The desktop application (\<open>apps/openaircast\<close>) is an actor around a pure reducer: every
  input of the user, of the platform and of the backend is an event, the reducer answers with a
  new state and a list of effects, and the actor publishes an immutable snapshot when the reducer
  reports a visible change. The backend owns sessions, reconnects lost receivers and records what
  happened. Below it the library crates speak the protocol: discovery records name the receivers,
  RTSP sets a session up, pairing and framing seal the control channel, PTP or NTP relate the
  clocks, RTP carries the audio.

  \<^bold>\<open>The shell.\<close> \<open>Core_Types\<close>, \<open>App_State\<close>, \<open>Hardware_Check\<close>, \<open>Reducer\<close> and \<open>Snapshot\<close> follow \<open>app/state.rs\<close>,
  \<open>app/event.rs\<close>, \<open>app/effect.rs\<close>, \<open>app/hardware_check.rs\<close>, \<open>app/reducer.rs\<close>, \<open>app/snapshot.rs\<close> and the loop of
  \<open>app_handle.rs\<close>, one definition per handler. \<open>Reducer_Shape\<close> derives the shape of a step, on which
  \<open>Reducer_Effects\<close>, \<open>Reducer_View\<close>, \<open>Reducer_Check\<close>, \<open>Reducer_Invariants\<close> and \<open>Reducer_Inventory\<close> build;
  \<open>Shell_Runs\<close> and \<open>Shell_Shutdown\<close> lift the step lemmas to runs, and \<open>Shell_Properties\<close> states the
  results: the published snapshot is current after every event, the test tone sounds only when the
  check's conditions hold, a verdict rests on the stop the check itself issued, generations of
  session commands are fresh, stale reports change nothing, and nothing starts after a quit.

  \<^bold>\<open>The backend.\<close> \<open>Backend_Model\<close> and \<open>Command_Outcomes\<close> follow \<open>backend/model.rs\<close>; \<open>Recovery\<close> is
  \<open>backend/recovery.rs\<close> with its backoff, attempt bookkeeping, restart limiter and receiver machine;
  \<open>Rejoin\<close> is the automatic rejoin of \<open>backend/controller.rs\<close>. \<open>Recovery_Properties\<close> shows that the timer
  fires exactly when a receiver is due, that restarts are spaced, and that attempts are forgotten
  only after healthy streaming. \<open>Bounded_Log\<close> is the interface of every log that keeps its newest
  entries; \<open>Diag_Ring\<close> (\<open>diagnostics/ring.rs\<close>), the command history and the timing recorder interpret it.

  \<^bold>\<open>The controller.\<close> \<open>Device_Snapshot\<close> (\<open>backend/model.rs\<close>, the validation of \<open>backend/persistence.rs\<close>,
  \<open>calibration.rs\<close>, \<open>backend/listening_check.rs\<close>), \<open>Controller_State\<close>, \<open>Controller_Commands\<close> and \<open>Controller\<close> follow
  \<open>backend/controller.rs\<close> and \<open>backend/command.rs\<close>: the actor's state is a record, every method a definition,
  what it sends to the disk, the watch channel, the supervisors and the shell is a list of messages in the
  order of sending, and the answers of the disk, the tone generator and the random source come from a
  world. \<open>Controller_Frame\<close> states two interfaces, \<open>ctl_frame\<close> for the handlers that answer no command and
  \<open>ctl_commands\<close> for all of them, and proves once which handlers keep a property; \<open>Controller_Spec\<close> interprets
  them for the simulation between the controller and an automaton over its messages, \<open>Controller_Answers\<close> and
  \<open>Controller_Properties\<close> for the answers, for a stopped playback and for the automatic start.

  \<^bold>\<open>The session supervisor.\<close> \<open>Session_Transport\<close> is the production transport of \<open>backend/transport.rs\<close> with the shared levels of
  \<open>backend/session.rs\<close>; \<open>Session_Supervisor\<close> is the supervisor of \<open>backend/session.rs\<close>: the task is a state machine over the
  points at which it waits, and producers, outcomes, probes, deadlines and the cancellation are inputs that may come
  between any two of its turns. \<open>Session_Properties\<close> states what an observer may rely on as a ledger of one session and
  shows that every run is accepted; \<open>Session_Health\<close> compares the probe bookkeeping with the documented policy;
  \<open>Session_Requests\<close> treats bursts and the end of the task; \<open>Transport_Properties\<close> shows that no receiver is heard at a
  stale level. \<open>Session_Composition\<close> joins controller and supervisor: through the interface \<open>ctl_commands\<close> the controller
  numbers its requests upwards, so the session is built from its last request.

  \<^bold>\<open>The bridge.\<close> \<open>Bridge\<close> follows \<open>backend_bridge/commands.rs\<close>,
  \<open>projection.rs\<close> and \<open>runtime.rs\<close> with the command queue of \<open>backend/command.rs\<close>: effects of the shell become commands with
  receipts, snapshots become events, and a thread in between retains what the shell's bounded queue refuses. The seam is one
  state with the shell, its queue, the port, the bridge and the newest snapshot; its inputs are the steps of the threads in
  any order. \<open>Bridge_Properties\<close> states with the interface \<open>shown_field\<close> how a setting travels to the window, interprets it for five
  settings and shows that the window follows the newest snapshot, and that a start or stop that was
  pressed is never answered from the past.

  \<^bold>\<open>The client's groups.\<close> \<open>Client_Group\<close> is \<open>airplay-client/src/group.rs\<close> with the best-effort connection of \<open>client.rs\<close>:
  establishing all members, electing a primary with one fallback, joining its clock, or falling back to one
  receiver. \<open>Group_Properties\<close> accounts for every receiver and every link; \<open>Group_Delays\<close> follows the calibration
  from the profile to the delay of each connected receiver.

  \<^bold>\<open>The store.\<close> \<open>Persistence\<close> is the file store of \<open>backend/persistence.rs\<close>; a write is the list of disks a crash
  could leave behind. \<open>Persistence_Properties\<close> shows that a save is atomic and never loses the calibration, that a
  calibration save keeps the settings, and that a load destroys nothing.

  \<^bold>\<open>Bytes and text.\<close> \<open>Wire\<close> holds the byte-order conversions, \<open>Rust_Text\<close> the string operations of Rust's
  standard library on UTF-8 bytes (slicing panics off a character boundary), \<open>Ordered_Map\<close> the map
  interface with the association list that models it.

  \<^bold>\<open>Discovery.\<close> \<open>Device_Model\<close> (\<open>airplay-core/src/features.rs\<close>, \<open>device.rs\<close>) and \<open>Discovery_Parser\<close>
  (\<open>airplay-discovery/src/parser.rs\<close>): only the identity can make a record disappear, a degraded record
  recovers its capabilities from the legacy one, and where the parsers panic.

  \<^bold>\<open>Pairing and framing.\<close> \<open>Tlv\<close> is \<open>airplay-crypto/src/tlv.rs\<close>; \<open>Crypto_Frames\<close> the framing of \<open>chacha.rs\<close>,
  \<open>aes.rs\<close> and \<open>airplay-pairing/src/channel.rs\<close>. The AEAD and the block cipher are parameters with the
  law that opening undoes sealing. \<open>Crypto_Properties\<close> shows that every non-empty message of a
  two-way conversation arrives, whatever its length, and an empty one is refused. \<open>Key_Schedule\<close> (\<open>hkdf.rs\<close>, \<open>keys.rs\<close>, \<open>curve25519.rs\<close>), \<open>Srp\<close>
  (\<open>srp.rs\<close>), \<open>Pair_Setup\<close>, \<open>Pair_Verify\<close> and \<open>Pairing_Session\<close> (\<open>pair_setup.rs\<close>, \<open>pair_verify.rs\<close>, \<open>session.rs\<close>
  and \<open>fairplay.rs\<close> of \<open>airplay-pairing\<close>) model the exchanges over one record of primitives, whose laws
  are \<open>primitives_ok\<close>; the SRP group is an argument that must satisfy Fermat's theorem. The accessory
  is the one that the repository's tests run against. \<open>Pairing_Properties\<close> shows that the honest
  exchanges complete with equal keys on both sides, what a completed exchange has checked, that no
  order of calls completes pair-setup without the server's proof, and that the key presented in
  pair-verify takes precedence over the recorded one.

  \<^bold>\<open>Control.\<close> \<open>Rtsp_Messages\<close>, \<open>Rtsp_Properties\<close> and \<open>Rtsp_Connection\<close> follow \<open>request.rs\<close>, \<open>response.rs\<close> and
  \<open>connection.rs\<close> of \<open>airplay-rtsp\<close>: a response parses back from its wire form, and a request over a
  sealed connection delivers exactly that request and returns exactly the sealed response.
  \<open>Staged_Session\<close> is the interface of a session that advances through stages; \<open>Rtsp_Session\<close> (\<open>session.rs\<close>,
  \<open>plist_codec.rs\<close>) and \<open>Raop_Session\<close> (\<open>raop_session.rs\<close>) interpret it, \<open>Sdp\<close> is the session description of \<open>sdp.rs\<close>.

  \<^bold>\<open>Clocks.\<close> \<open>Timing_Diagnostics\<close>, \<open>Clock_Math\<close>, \<open>Ntp\<close>, \<open>Ptp_Messages\<close> and \<open>Ptp_Tracker\<close> follow the files of
  \<open>airplay-timing\<close>. \<open>Ptp_Properties\<close> and \<open>Ntp\<close> show that a published offset belongs to the announced
  clock and bound its error by the asymmetry of the link; the NTP offset is server minus local, the opposite
  of the convention of \<open>clock.rs\<close>.

  \<^bold>\<open>Audio.\<close> \<open>Stream_Config\<close> (\<open>codec.rs\<close>, \<open>stream.rs\<close> of \<open>airplay-core\<close>), \<open>Audio_Buffer\<close> (\<open>airplay-audio/src/buffer.rs\<close>),
  \<open>Rtp\<close> and \<open>Rtp_Sender\<close> (\<open>rtp.rs\<close>, \<open>cipher.rs\<close>). \<open>Rtp_Properties\<close> and \<open>Rtp_History\<close> show that the receiver
  opens what the sender sealed, that the history answers exactly the newest 512 packets, and how
  a retransmission is accounted.

  \<^bold>\<open>Conventions.\<close> Rust integers are words of their width and wrap as a release build does; where the
  source computes in a wider signed type, the model uses \<open>int\<close> with the cast written out. An error
  is the left side of a sum, a panic is \<open>None\<close>, and a mutable receiver is a state that is passed and
  returned. Loops are recursive functions with a measure; none needs fuel. Sockets, clocks, random
  sources and third-party codecs are arguments: the outcome of the call for one call, a function
  with named laws where several results must fit together. The order in which a hash map visits
  its entries is an argument too.

  \<^bold>\<open>Not modelled.\<close> Rendering, the tray and Win32 calls; audio capture and resampling in floating
  point; sockets, threads and the async runtime themselves; the cryptographic primitives and the
  codecs, which are third-party code; log lines and display texts.
\<close>

end
